(* ===== verification/MP_Prelude.thy ===== *)
theory MP_Prelude
  imports Main "HOL-Library.State_Monad" "HOL-Library.Sublist"
begin

text \<open>
  Shared vocabulary of the development.  A Go function that can fail and touches the
  outside world is a value of the state monad of HOL-Library whose result is a sum:
  \<open>Inl\<close> is the returned error, \<open>Inr\<close> the returned value.  The combinators below are the
  shapes Go code is made of: \<open>bindE\<close> is \<open>x, err := m; if err != nil { return err }\<close>,
  \<open>mapErr\<close> replaces the error that is returned, \<open>ignoreE\<close> is \<open>_ = m\<close> (or an error that
  is only logged).  \<open>preserves\<close> and \<open>hoare\<close> are the two forms in which facts about such
  functions are stated, with one rule per combinator in the collections \<open>pres\<close> and
  \<open>hoare\<close>.
\<close>

named_theorems pres \<open>rules that show that a program preserves an invariant\<close>
named_theorems runs \<open>what a program computes from a given state\<close>

abbreviation ret :: "'a \<Rightarrow> ('s, 'a) state" where
  "ret \<equiv> State_Monad.return"

definition returnE :: "'a \<Rightarrow> ('s, 'e + 'a) state" where
  "returnE x = ret (Inr x)"

definition failE :: "'e \<Rightarrow> ('s, 'e + 'a) state" where
  "failE e = ret (Inl e)"

definition bindE :: "('s, 'e + 'a) state \<Rightarrow> ('a \<Rightarrow> ('s, 'e + 'b) state) \<Rightarrow> ('s, 'e + 'b) state" where
  "bindE m k = State_Monad.bind m (\<lambda>r. case r of Inl e \<Rightarrow> ret (Inl e) | Inr x \<Rightarrow> k x)"

definition mapErr :: "('e \<Rightarrow> 'e) \<Rightarrow> ('s, 'e + 'a) state \<Rightarrow> ('s, 'e + 'a) state" where
  "mapErr f m = State_Monad.bind m (\<lambda>r. ret (case r of Inl e \<Rightarrow> Inl (f e) | Inr x \<Rightarrow> Inr x))"

definition ignoreE :: "('s, 'e + 'a) state \<Rightarrow> ('s, unit) state" where
  "ignoreE m = State_Monad.bind m (\<lambda>_. ret ())"

definition gets :: "('s \<Rightarrow> 'a) \<Rightarrow> ('s, 'a) state" where
  "gets f = State (\<lambda>s. (f s, s))"

definition modify :: "('s \<Rightarrow> 's) \<Rightarrow> ('s, unit) state" where
  "modify f = State (\<lambda>s. ((), f s))"

definition whenE :: "bool \<Rightarrow> 'e \<Rightarrow> ('s, 'e + unit) state" where
  "whenE b e = (if b then failE e else returnE ())"

text \<open>A Go \<open>for range\<close> loop whose body returns early on an error, and one whose body does not.\<close>

primrec forE :: "'x list \<Rightarrow> ('x \<Rightarrow> ('s, 'e + unit) state) \<Rightarrow> ('s, 'e + unit) state" where
  "forE [] f = returnE ()"
| "forE (x # xs) f = bindE (f x) (\<lambda>_. forE xs f)"

primrec for_each :: "'x list \<Rightarrow> ('x \<Rightarrow> ('s, unit) state) \<Rightarrow> ('s, unit) state" where
  "for_each [] f = ret ()"
| "for_each (x # xs) f = State_Monad.bind (f x) (\<lambda>_. for_each xs f)"

subsection \<open>What the combinators compute\<close>

lemma run_returnE [simp]: "run_state (returnE x) s = (Inr x, s)"
  by (simp add: returnE_def)

lemma run_failE [simp]: "run_state (failE e) s = (Inl e, s)"
  by (simp add: failE_def)

lemma run_bindE [simp]:
  "run_state (bindE m k) s =
     (case run_state m s of (Inl e, s') \<Rightarrow> (Inl e, s') | (Inr x, s') \<Rightarrow> run_state (k x) s')"
  by (simp add: bindE_def split: prod.splits sum.splits)

lemma run_mapErr [simp]:
  "run_state (mapErr f m) s =
     (case run_state m s of (Inl e, s') \<Rightarrow> (Inl (f e), s') | (Inr x, s') \<Rightarrow> (Inr x, s'))"
  by (simp add: mapErr_def split: prod.splits sum.splits)

lemma run_ignoreE [simp]: "run_state (ignoreE m) s = ((), snd (run_state m s))"
  by (simp add: ignoreE_def split: prod.splits)

lemma run_gets [simp]: "run_state (gets f) s = (f s, s)"
  by (simp add: gets_def)

lemma run_modify [simp]: "run_state (modify f) s = ((), f s)"
  by (simp add: modify_def)

lemma run_whenE [simp]:
  "run_state (whenE b e) s = ((if b then Inl e else Inr ()), s)"
  by (simp add: whenE_def)

subsection \<open>Invariants\<close>

definition preserves :: "('s \<Rightarrow> bool) \<Rightarrow> ('s, 'a) state \<Rightarrow> bool" where
  "preserves I m \<longleftrightarrow> (\<forall>s. I s \<longrightarrow> I (snd (run_state m s)))"

lemma preservesI: "(\<And>s. I s \<Longrightarrow> I (snd (run_state m s))) \<Longrightarrow> preserves I m"
  by (simp add: preserves_def)

lemma preservesD: "preserves I m \<Longrightarrow> I s \<Longrightarrow> I (snd (run_state m s))"
  by (simp add: preserves_def)

lemma preserves_run: "preserves I m \<Longrightarrow> I s \<Longrightarrow> run_state m s = (r, s') \<Longrightarrow> I s'"
  using preservesD [of I m s] by simp

lemma preserves_ret [pres]: "preserves I (ret x)"
  by (simp add: preserves_def)

lemma preserves_returnE [pres]: "preserves I (returnE x)"
  by (simp add: preserves_def)

lemma preserves_failE [pres]: "preserves I (failE e)"
  by (simp add: preserves_def)

lemma preserves_whenE [pres]: "preserves I (whenE b e)"
  by (simp add: preserves_def)

lemma preserves_gets [pres]: "preserves I (gets f)"
  by (simp add: preserves_def)

lemma preserves_modify: "(\<And>s. I s \<Longrightarrow> I (f s)) \<Longrightarrow> preserves I (modify f)"
  by (simp add: preserves_def)

lemma preserves_bind [pres]:
  "preserves I m \<Longrightarrow> (\<And>x. preserves I (k x)) \<Longrightarrow> preserves I (State_Monad.bind m k)"
  by (auto simp: preserves_def split: prod.splits)

lemma preserves_bindE [pres]:
  "preserves I m \<Longrightarrow> (\<And>x. preserves I (k x)) \<Longrightarrow> preserves I (bindE m k)"
  unfolding bindE_def by (rule preserves_bind) (auto split: sum.splits intro: preserves_ret)

lemma preserves_mapErr [pres]: "preserves I m \<Longrightarrow> preserves I (mapErr f m)"
  unfolding mapErr_def by (intro preserves_bind preserves_ret)

lemma preserves_ignoreE [pres]: "preserves I m \<Longrightarrow> preserves I (ignoreE m)"
  unfolding ignoreE_def by (intro preserves_bind preserves_ret)

lemma preserves_if [pres]:
  "(b \<Longrightarrow> preserves I m) \<Longrightarrow> (\<not> b \<Longrightarrow> preserves I n) \<Longrightarrow> preserves I (if b then m else n)"
  by simp

lemma preserves_let [pres]: "preserves I (k v) \<Longrightarrow> preserves I (let x = v in k x)"
  by simp

lemma preserves_case_option [pres]:
  "(v = None \<Longrightarrow> preserves I m) \<Longrightarrow> (\<And>x. v = Some x \<Longrightarrow> preserves I (k x)) \<Longrightarrow>
   preserves I (case v of None \<Rightarrow> m | Some x \<Rightarrow> k x)"
  by (simp split: option.splits)

lemma preserves_case_sum [pres]:
  "(\<And>e. v = Inl e \<Longrightarrow> preserves I (h e)) \<Longrightarrow> (\<And>x. v = Inr x \<Longrightarrow> preserves I (k x)) \<Longrightarrow>
   preserves I (case v of Inl e \<Rightarrow> h e | Inr x \<Rightarrow> k x)"
  by (simp split: sum.splits)

lemma preserves_case_prod [pres]:
  "(\<And>a b. v = (a, b) \<Longrightarrow> preserves I (k a b)) \<Longrightarrow> preserves I (case v of (a, b) \<Rightarrow> k a b)"
  by (simp split: prod.splits)

lemma preserves_case_list [pres]:
  "(v = [] \<Longrightarrow> preserves I m) \<Longrightarrow> (\<And>x xs. v = x # xs \<Longrightarrow> preserves I (k x xs)) \<Longrightarrow>
   preserves I (case v of [] \<Rightarrow> m | x # xs \<Rightarrow> k x xs)"
  by (simp split: list.splits)

lemma preserves_forE [pres]: "(\<And>x. preserves I (f x)) \<Longrightarrow> preserves I (forE xs f)"
  by (induction xs) (auto intro: preserves_returnE preserves_bindE)

lemma preserves_for_each [pres]: "(\<And>x. preserves I (f x)) \<Longrightarrow> preserves I (for_each xs f)"
  by (induction xs) (auto intro: preserves_ret preserves_bind)

lemma preserves_forE_mem:
  "(\<And>x. x \<in> set xs \<Longrightarrow> preserves I (f x)) \<Longrightarrow> preserves I (forE xs f)"
  by (induction xs) (auto intro: preserves_returnE preserves_bindE)

lemma preserves_for_each_mem:
  "(\<And>x. x \<in> set xs \<Longrightarrow> preserves I (f x)) \<Longrightarrow> preserves I (for_each xs f)"
  by (induction xs) (auto intro: preserves_ret preserves_bind)

subsection \<open>Pre- and postconditions\<close>

definition hoare :: "('s \<Rightarrow> bool) \<Rightarrow> ('s, 'a) state \<Rightarrow> ('a \<Rightarrow> 's \<Rightarrow> bool) \<Rightarrow> bool" where
  "hoare P m Q \<longleftrightarrow> (\<forall>s. P s \<longrightarrow> (case run_state m s of (r, s') \<Rightarrow> Q r s'))"

lemma hoareD: "hoare P m Q \<Longrightarrow> P s \<Longrightarrow> run_state m s = (r, s') \<Longrightarrow> Q r s'"
  by (auto simp: hoare_def)

lemma hoareI: "(\<And>s r s'. P s \<Longrightarrow> run_state m s = (r, s') \<Longrightarrow> Q r s') \<Longrightarrow> hoare P m Q"
  by (auto simp: hoare_def split: prod.splits)

lemma hoare_bindE:
  assumes "hoare P m (\<lambda>r s. case r of Inl e \<Rightarrow> Q (Inl e) s | Inr x \<Rightarrow> R x s)"
    and "\<And>x. hoare (R x) (k x) Q"
  shows "hoare P (bindE m k) Q"
proof (rule hoareI)
  fix s r s'
  assume P: "P s" and run: "run_state (bindE m k) s = (r, s')"
  obtain r1 s1 where m: "run_state m s = (r1, s1)" by (cases "run_state m s")
  have Q1: "case r1 of Inl e \<Rightarrow> Q (Inl e) s1 | Inr x \<Rightarrow> R x s1"
    using hoareD [OF assms(1) P m] .
  show "Q r s'"
  proof (cases r1)
    case (Inl e)
    with run m Q1 show ?thesis by simp
  next
    case (Inr x)
    with run m have "run_state (k x) s1 = (r, s')" by simp
    with Q1 Inr show ?thesis using hoareD [OF assms(2)] by simp
  qed
qed

lemma hoare_bind:
  assumes "hoare P m R" and "\<And>x. hoare (R x) (k x) Q"
  shows "hoare P (State_Monad.bind m k) Q"
proof (rule hoareI)
  fix s r s'
  assume P: "P s" and run: "run_state (State_Monad.bind m k) s = (r, s')"
  obtain x s1 where m: "run_state m s = (x, s1)" by (cases "run_state m s")
  with run have "run_state (k x) s1 = (r, s')" by simp
  then show "Q r s'" using hoareD [OF assms(2)] hoareD [OF assms(1) P m] by simp
qed

lemma hoare_weaken:
  "hoare P' m Q' \<Longrightarrow> (\<And>s. P s \<Longrightarrow> P' s) \<Longrightarrow> (\<And>r s. Q' r s \<Longrightarrow> Q r s) \<Longrightarrow> hoare P m Q"
  by (rule hoareI) (meson hoareD)

subsection \<open>What a program returns in every state\<close>

definition returns :: "('a \<Rightarrow> bool) \<Rightarrow> ('s, 'a) state \<Rightarrow> bool" where
  "returns P m \<longleftrightarrow> (\<forall>s. P (fst (run_state m s)))"

named_theorems rets \<open>rules that show what a program returns\<close>

lemma returnsD: "returns P m \<Longrightarrow> run_state m s = (r, s') \<Longrightarrow> P r"
  by (metis returns_def fst_conv)

lemma returns_ret [rets]: "P x \<Longrightarrow> returns P (ret x)"
  by (simp add: returns_def)

lemma returns_bind [rets]: "(\<And>x. returns P (k x)) \<Longrightarrow> returns P (State_Monad.bind m k)"
  by (auto simp: returns_def split: prod.splits)

lemma returns_bind_via:
  "returns Q m \<Longrightarrow> (\<And>x. Q x \<Longrightarrow> returns P (k x)) \<Longrightarrow> returns P (State_Monad.bind m k)"
  by (simp add: returns_def split: prod.splits) (metis fst_conv)

lemma returns_if [rets]:
  "(b \<Longrightarrow> returns P m) \<Longrightarrow> (\<not> b \<Longrightarrow> returns P n) \<Longrightarrow> returns P (if b then m else n)"
  by simp

lemma returns_case_option [rets]:
  "(v = None \<Longrightarrow> returns P m) \<Longrightarrow> (\<And>x. v = Some x \<Longrightarrow> returns P (k x)) \<Longrightarrow>
   returns P (case v of None \<Rightarrow> m | Some x \<Rightarrow> k x)"
  by (simp split: option.splits)

lemma returns_case_sum [rets]:
  "(\<And>e. v = Inl e \<Longrightarrow> returns P (h e)) \<Longrightarrow> (\<And>x. v = Inr x \<Longrightarrow> returns P (k x)) \<Longrightarrow>
   returns P (case v of Inl e \<Rightarrow> h e | Inr x \<Rightarrow> k x)"
  by (simp split: sum.splits)

subsection \<open>Taking a successful run apart\<close>

text \<open>One elimination rule per combinator: what a run that returned without an error went through.\<close>

named_theorems okE \<open>what a successful run went through\<close>

lemma bindE_okE [okE]:
  assumes "run_state (bindE m k) s = (Inr y, s')"
  obtains x s1 where "run_state m s = (Inr x, s1)" "run_state (k x) s1 = (Inr y, s')"
  using assms by (auto split: prod.splits sum.splits)

lemma bind_okE [okE]:
  assumes "run_state (State_Monad.bind m k) s = (r, s')"
  obtains x s1 where "run_state m s = (x, s1)" "run_state (k x) s1 = (r, s')"
  using assms by (auto split: prod.splits)

lemma mapErr_okE [okE]:
  assumes "run_state (mapErr f m) s = (Inr x, s')"
  obtains "run_state m s = (Inr x, s')"
  using assms by (auto split: prod.splits sum.splits)

lemma returnE_okE [okE]:
  assumes "run_state (returnE x) s = (Inr y, s')"
  obtains "y = x" "s' = s"
  using assms by simp

lemma failE_okE [okE]:
  assumes "run_state (failE e) s = (Inr y, s')"
  obtains False
  using assms by simp

lemma guard_okE [okE]:
  assumes "run_state (if b then failE e else m) s = (Inr y, s')"
  obtains "\<not> b" "run_state m s = (Inr y, s')"
  using assms by (auto split: if_splits)

subsection \<open>Lists of rows\<close>

definition update_where :: "('a \<Rightarrow> bool) \<Rightarrow> ('a \<Rightarrow> 'a) \<Rightarrow> 'a list \<Rightarrow> 'a list" where
  "update_where p f xs = map (\<lambda>x. if p x then f x else x) xs"

definition take_first :: "('a \<Rightarrow> bool) \<Rightarrow> 'a list \<Rightarrow> 'a option" where
  "take_first p xs = (case filter p xs of [] \<Rightarrow> None | x # _ \<Rightarrow> Some x)"

lemma take_first_Some: "take_first p xs = Some x \<Longrightarrow> x \<in> set xs \<and> p x"
proof -
  assume "take_first p xs = Some x"
  then obtain ys where "filter p xs = x # ys"
    by (auto simp: take_first_def split: list.splits)
  then have "x \<in> set (filter p xs)" by simp
  then show ?thesis by simp
qed

lemma take_first_None: "take_first p xs = None \<longleftrightarrow> (\<forall>x \<in> set xs. \<not> p x)"
  by (induction xs) (auto simp: take_first_def)

lemma take_first_simps [simp]:
  "take_first p [] = None"
  "take_first p (x # xs) = (if p x then Some x else take_first p xs)"
  by (simp_all add: take_first_def)

lemma take_first_append:
  "take_first p (xs @ ys) = (case take_first p xs of None \<Rightarrow> take_first p ys | Some x \<Rightarrow> Some x)"
  by (induction xs) auto

lemma take_first_has: "x \<in> set xs \<Longrightarrow> P x \<Longrightarrow> \<exists>y. take_first P xs = Some y"
  by (cases "take_first P xs") (auto simp: take_first_None)

lemma take_first_only:
  "x \<in> set xs \<Longrightarrow> P x \<Longrightarrow> (\<And>y. y \<in> set xs \<Longrightarrow> P y \<Longrightarrow> y = x) \<Longrightarrow> take_first P xs = Some x"
  using take_first_has [of x xs P] take_first_Some [of P xs] by blast

lemma take_first_key:
  "distinct (map key xs) \<Longrightarrow> x \<in> set xs \<Longrightarrow> take_first (\<lambda>y. key y = key x) xs = Some x"
  by (induction xs) (auto simp: image_iff)

lemma distinct_by_count:
  assumes "set (map f ys) \<subseteq> set xs" and "distinct (map f ys)" and "length ys = length xs"
  shows "distinct xs \<and> set (map f ys) = set xs"
proof -
  have "length xs = card (set (map f ys))" using assms(2,3) by (metis distinct_card length_map)
  also have "\<dots> \<le> card (set xs)" using assms(1) by (simp add: card_mono)
  finally have c: "card (set xs) = length xs" using card_length [of xs] by simp
  then have "distinct xs" by (rule card_distinct)
  moreover have "set (map f ys) = set xs"
    using assms c distinct_card [OF assms(2)] by (intro card_subset_eq) simp_all
  ultimately show ?thesis by blast
qed

lemma foldl_max_ge: "(a :: int) \<le> foldl max a xs \<and> (\<forall>x \<in> set xs. x \<le> foldl max a xs)"
proof (induction xs arbitrary: a)
  case Nil
  then show ?case by simp
next
  case (Cons y ys)
  from Cons.IH [of "max a y"] show ?case by auto
qed

lemma length_update_where [simp]: "length (update_where p f xs) = length xs"
  by (simp add: update_where_def)

lemma update_where_simps [simp]:
  "update_where p f [] = []"
  "update_where p f (x # xs) = (if p x then f x else x) # update_where p f xs"
  by (simp_all add: update_where_def)

lemma set_update_where: "set (update_where p f xs) = (\<lambda>x. if p x then f x else x) ` set xs"
  by (simp add: update_where_def)

lemma map_update_where:
  "(\<And>x. p x \<Longrightarrow> g (f x) = g x) \<Longrightarrow> map g (update_where p f xs) = map g xs"
  by (simp add: update_where_def)

lemma map_upsert:
  assumes "distinct (map key xs)" and "g x \<in> g ` set xs" and "\<And>y z. g y = g z \<Longrightarrow> key y = key z"
  shows "map g (update_where (\<lambda>y. key y = key x) (\<lambda>_. x) xs) = map g xs"
proof -
  have "g y = g x" if "y \<in> set xs" "key y = key x" for y
  proof -
    obtain z where z: "z \<in> set xs" "g z = g x" using assms(2) by auto
    then have "key z = key y" using assms(3) that(2) by metis
    then have "z = y" using assms(1) z(1) that(1) by (auto simp: distinct_map dest: inj_onD)
    then show ?thesis using z(2) by simp
  qed
  then show ?thesis by (auto simp: update_where_def)
qed

lemma filter_update_where_same:
  "(\<And>x. p x \<Longrightarrow> q (f x) = q x) \<Longrightarrow>
   filter q (update_where p f xs) = update_where p f (filter q xs)"
  by (induction xs) auto

text \<open>
  \<open>ORDER BY k LIMIT n\<close>: the sort of the library is stable, and SQL leaves the order of equal
  keys open; the order of the table itself is arbitrary in every theorem.
\<close>

definition order_limit :: "('a \<Rightarrow> 'k::linorder) \<Rightarrow> int \<Rightarrow> 'a list \<Rightarrow> 'a list" where
  "order_limit k n xs = take (nat n) (sort_key k xs)"

lemma set_order_limit: "set (order_limit k n xs) \<subseteq> set xs"
  unfolding order_limit_def by (metis set_sort set_take_subset)

lemma length_order_limit: "length (order_limit k n xs) \<le> nat n"
  by (simp add: order_limit_def)

subsection \<open>Registries\<close>

text \<open>
  The program keeps its plug-ins (event handlers, notification channels, mail clients, OAuth
  clients) in registries of one shape: registering files each plug-in under the name it gives
  itself, a later one in place of an earlier one.
\<close>

locale registry =
  fixes register :: "'a list \<Rightarrow> (string \<rightharpoonup> 'a) \<Rightarrow> (string \<rightharpoonup> 'a)"
    and key :: "'a \<Rightarrow> string"
  assumes register_nil: "register [] reg = reg"
    and register_cons: "register (x # xs) reg = register xs (reg(key x \<mapsto> x))"
begin

definition well_keyed :: "(string \<rightharpoonup> 'a) \<Rightarrow> bool" where
  "well_keyed reg \<longleftrightarrow> (\<forall>k x. reg k = Some x \<longrightarrow> k = key x)"

lemma well_keyed_empty: "well_keyed Map.empty"
  by (simp add: well_keyed_def)

lemma well_keyed_register: "well_keyed reg \<Longrightarrow> well_keyed (register xs reg)"
proof (induction xs arbitrary: reg)
  case (Cons x xs)
  have "well_keyed (reg(key x \<mapsto> x))" using Cons.prems by (auto simp: well_keyed_def split: if_splits)
  then show ?case unfolding register_cons by (rule Cons.IH)
qed (simp add: register_nil)

lemma dom_register: "dom (register xs reg) = key ` set xs \<union> dom reg"
  by (induction xs arbitrary: reg) (simp_all add: register_nil register_cons)

lemma register_last:
  "register xs reg k = (case take_first (\<lambda>x. key x = k) (rev xs) of None \<Rightarrow> reg k | Some x \<Rightarrow> Some x)"
  by (induction xs arbitrary: reg)
    (simp_all add: register_nil register_cons take_first_append split: option.split)

lemma registered_key: "register xs Map.empty k = Some x \<Longrightarrow> key x = k"
  using well_keyed_register [OF well_keyed_empty, of xs] unfolding well_keyed_def by blast

lemma registered_mem: "register xs Map.empty k = Some x \<Longrightarrow> x \<in> set xs"
  by (auto simp: register_last dest: take_first_Some split: option.splits)

end

end
