(* ===== verification/GoStd.thy ===== *)
theory GoStd
  imports MP_Prelude "HOL-Library.Word" "HOL-Library.Char_ord" "HOL-Library.List_Lexorder"
begin

text \<open>
  What the code uses of the Go language and its standard library.  A Go string is a
  sequence of bytes, here a \<open>char list\<close>; \<open>int\<close> and \<open>int64\<close> are 64-bit, and the
  wrap-around is written out (\<open>wrap64\<close>) where the code multiplies; a \<open>time.Duration\<close> and
  a \<open>time.Time\<close> are nanoseconds.  String functions follow the ASCII fast path of package
  \<open>strings\<close>; beyond ASCII they depend on the Unicode tables, a parameter (\<open>unicode\<close>).
  Errors are values: \<open>err\<close> lists the kinds the code tells apart.
\<close>

subsection \<open>Errors\<close>

datatype err =
    RecordNotFound
  | DbErr string
  | RedisErr
  | HttpErr int string
  | Revoked string
  | AddressMismatch string
  | PlainErr string
  | Panic string

text \<open>\<open>err.Error()\<close>\<close>

fun err_text :: "err \<Rightarrow> string" where
  "err_text RecordNotFound = ''record not found''"
| "err_text (DbErr s) = s"
| "err_text RedisErr = ''redis: connection refused''"
| "err_text (HttpErr c s) = s"
| "err_text (Revoked s) = s"
| "err_text (AddressMismatch s) = s"
| "err_text (PlainErr s) = s"
| "err_text (Panic s) = s"

abbreviation ErrBadRequest :: err where
  "ErrBadRequest \<equiv> HttpErr 400 ''Bad Request''"

abbreviation ErrUnauthorized :: err where
  "ErrUnauthorized \<equiv> HttpErr 401 ''Unauthorized''"

abbreviation ErrForbidden :: err where
  "ErrForbidden \<equiv> HttpErr 403 ''Forbidden''"

abbreviation ErrNotFound :: err where
  "ErrNotFound \<equiv> HttpErr 404 ''Not Found''"

abbreviation ErrInternal :: err where
  "ErrInternal \<equiv> HttpErr 500 ''Internal Server Error''"

subsection \<open>Integers and time\<close>

definition wrap64 :: "int \<Rightarrow> int" where
  "wrap64 x = signed_take_bit 63 x"

lemma wrap64_id: "- (2 ^ 63) \<le> x \<Longrightarrow> x < 2 ^ 63 \<Longrightarrow> wrap64 x = x"
  unfolding wrap64_def by (rule signed_take_bit_int_eq_self) simp_all

abbreviation Millisecond :: int where "Millisecond \<equiv> 1000000"
abbreviation Second :: int where "Second \<equiv> 1000000000"
abbreviation Minute :: int where "Minute \<equiv> 60000000000"
abbreviation Hour :: int where "Hour \<equiv> 3600000000000"

text \<open>\<open>time.Duration(n) * unit\<close>, \<open>t.UnixMilli()\<close> and \<open>d.Milliseconds()\<close>\<close>

definition duration :: "int \<Rightarrow> int \<Rightarrow> int" where
  "duration n unit = wrap64 (n * unit)"

definition unix_milli :: "int \<Rightarrow> int" where
  "unix_milli t = t div 1000000"

definition trunc_div :: "int \<Rightarrow> int \<Rightarrow> int" where
  "trunc_div a b = sgn a * sgn b * (\<bar>a\<bar> div \<bar>b\<bar>)"

definition trunc_mod :: "int \<Rightarrow> int \<Rightarrow> int" where
  "trunc_mod a b = a - b * trunc_div a b"

definition milliseconds :: "int \<Rightarrow> int" where
  "milliseconds d = trunc_div d 1000000"

lemma duration_Second: "0 \<le> n \<Longrightarrow> n \<le> 9000000000 \<Longrightarrow> duration n Second = n * Second"
  unfolding duration_def by (rule wrap64_id) simp_all

lemma unix_milli_add: "unix_milli (t + n * Second) = unix_milli t + n * 1000"
proof -
  have "t + n * Second = t + (n * 1000) * 1000000" by simp
  then show ?thesis by (simp add: unix_milli_def div_mult_self1)
qed

lemma unix_milli_mono: "s \<le> t \<Longrightarrow> unix_milli s \<le> unix_milli t"
  by (simp add: unix_milli_def zdiv_mono1)

subsection \<open>Decimal notation\<close>

definition digit_char :: "nat \<Rightarrow> char" where
  "digit_char d = char_of (48 + d)"

fun nat_str :: "nat \<Rightarrow> string" where
  "nat_str n = (if n < 10 then [digit_char n] else nat_str (n div 10) @ [digit_char (n mod 10)])"

declare nat_str.simps [simp del]

definition itoa :: "int \<Rightarrow> string" where
  "itoa i = (if i < 0 then CHR ''-'' # nat_str (nat (- i)) else nat_str (nat i))"

definition char_digit :: "char \<Rightarrow> nat option" where
  "char_digit c = (let k = of_char c in if 48 \<le> k \<and> k \<le> (57::nat) then Some (k - 48) else None)"

fun parse_digits :: "nat \<Rightarrow> string \<Rightarrow> nat option" where
  "parse_digits acc [] = Some acc"
| "parse_digits acc (c # cs) =
     (case char_digit c of None \<Rightarrow> None | Some d \<Rightarrow> parse_digits (acc * 10 + d) cs)"

text \<open>\<open>strconv.ParseInt(s, 10, 64)\<close>; the result is dropped on a syntax or a range error.\<close>

definition parse_int64 :: "string \<Rightarrow> int option" where
  "parse_int64 s =
     (let (neg, ds) = (case s of [] \<Rightarrow> (False, [])
                       | c # cs \<Rightarrow> if c = CHR ''-'' then (True, cs)
                                   else if c = CHR ''+'' then (False, cs) else (False, s))
      in if ds = [] then None
         else case parse_digits 0 ds of
                None \<Rightarrow> None
              | Some n \<Rightarrow> (let v = (if neg then - int n else int n)
                          in if - (2 ^ 63) \<le> v \<and> v < 2 ^ 63 then Some v else None))"

lemma parse_int64_range: "parse_int64 s = Some v \<Longrightarrow> - (2 ^ 63) \<le> v \<and> v < 2 ^ 63"
  by (auto simp: parse_int64_def Let_def split: list.splits if_splits option.splits)

lemma char_digit_digit_char: "d < 10 \<Longrightarrow> char_digit (digit_char d) = Some d"
  by (simp add: char_digit_def digit_char_def Let_def of_char_of)

lemma parse_digits_append:
  "parse_digits acc (xs @ ys) =
     (case parse_digits acc xs of None \<Rightarrow> None | Some a \<Rightarrow> parse_digits a ys)"
  by (induction xs arbitrary: acc) (auto split: option.splits)

lemma parse_digits_nat_str: "parse_digits 0 (nat_str n) = Some n"
proof (induction n rule: nat_str.induct)
  case (1 n)
  show ?case
  proof (cases "n < 10")
    case True
    then show ?thesis by (subst nat_str.simps) (simp add: char_digit_digit_char)
  next
    case False
    then have "parse_digits 0 (nat_str (n div 10)) = Some (n div 10)" using 1 by simp
    with False show ?thesis
      by (subst nat_str.simps) (simp add: parse_digits_append char_digit_digit_char)
  qed
qed

subsection \<open>Package strings\<close>

record unicode =
  uni_lower :: "string \<Rightarrow> string"
  uni_fold :: "string \<Rightarrow> string \<Rightarrow> bool"
  uni_trim :: "string \<Rightarrow> string"
  uni_quote :: "string \<Rightarrow> string"
  uni_json :: "string \<Rightarrow> string"
  uni_fields :: "string \<Rightarrow> string list"

definition is_ascii :: "string \<Rightarrow> bool" where
  "is_ascii s = list_all (\<lambda>c. of_char c < (128::nat)) s"

definition lower_char :: "char \<Rightarrow> char" where
  "lower_char c = (let k = of_char c in if 65 \<le> k \<and> k \<le> (90::nat) then char_of (k + 32) else c)"

definition to_lower :: "unicode \<Rightarrow> string \<Rightarrow> string" where
  "to_lower U s = (if is_ascii s then map lower_char s else uni_lower U s)"

definition equal_fold :: "unicode \<Rightarrow> string \<Rightarrow> string \<Rightarrow> bool" where
  "equal_fold U s t = (if is_ascii s \<and> is_ascii t then map lower_char s = map lower_char t
                       else uni_fold U s t)"

definition is_space :: "char \<Rightarrow> bool" where
  "is_space c = (let k = of_char c in (9 \<le> k \<and> k \<le> 13) \<or> k = (32::nat))"

definition trim_space :: "unicode \<Rightarrow> string \<Rightarrow> string" where
  "trim_space U s = (if is_ascii s then rev (dropWhile is_space (rev (dropWhile is_space s)))
                     else uni_trim U s)"

fun words_of :: "string \<Rightarrow> string \<Rightarrow> string list" where
  "words_of acc [] = (if acc = [] then [] else [rev acc])"
| "words_of acc (c # cs) =
     (if is_space c then (if acc = [] then [] else [rev acc]) @ words_of [] cs else words_of (c # acc) cs)"

text \<open>\<open>strings.Fields\<close>\<close>

definition str_fields :: "unicode \<Rightarrow> string \<Rightarrow> string list" where
  "str_fields U s = (if is_ascii s then words_of [] s else uni_fields U s)"

fun join :: "string \<Rightarrow> string list \<Rightarrow> string" where
  "join sep [] = []"
| "join sep [s] = s"
| "join sep (s # t # ss) = s @ sep @ join sep (t # ss)"

text \<open>\<open>strings.Split\<close> on a one-byte separator\<close>

fun split_on :: "char \<Rightarrow> string \<Rightarrow> string list" where
  "split_on c [] = [[]]"
| "split_on c (x # xs) =
     (if x = c then [] # split_on c xs
      else case split_on c xs of [] \<Rightarrow> [[x]] | s # ss \<Rightarrow> (x # s) # ss)"

definition replace_char :: "char \<Rightarrow> char \<Rightarrow> string \<Rightarrow> string" where
  "replace_char a b s = map (\<lambda>c. if c = a then b else c) s"

lemma split_on_nonempty [simp]: "split_on c s \<noteq> []"
  by (induction s) (auto split: list.splits)

lemma join_split: "join [c] (split_on c s) = s"
proof (induction s)
  case Nil
  then show ?case by simp
next
  case (Cons x xs)
  then show ?case
    by (cases "split_on c xs"; cases "tl (split_on c xs)") auto
qed

definition hex_digit :: "nat \<Rightarrow> char" where
  "hex_digit d = (if d < 10 then char_of (48 + d) else char_of (87 + d))"

text \<open>\<open>hex.EncodeToString\<close>\<close>

definition hex_byte :: "char \<Rightarrow> string" where
  "hex_byte c = [hex_digit (of_char c div 16), hex_digit (of_char c mod 16)]"

definition hex_string :: "string \<Rightarrow> string" where
  "hex_string s = concat (map hex_byte s)"

text \<open>\<open>url.QueryEscape\<close>\<close>

definition upper_hex :: "nat \<Rightarrow> char" where
  "upper_hex n = char_of (if n < 10 then 48 + n else 55 + n)"

definition unreserved :: "char \<Rightarrow> bool" where
  "unreserved c = (let k = of_char c :: nat in
     (65 \<le> k \<and> k \<le> 90) \<or> (97 \<le> k \<and> k \<le> 122) \<or> (48 \<le> k \<and> k \<le> 57) \<or> c \<in> set ''-_.~'')"

definition escape_char :: "char \<Rightarrow> string" where
  "escape_char c = (if unreserved c then [c] else if c = CHR '' '' then ''+''
     else (let k = of_char c :: nat in [CHR ''%'', upper_hex (k div 16), upper_hex (k mod 16)]))"

definition query_escape :: "string \<Rightarrow> string" where
  "query_escape s = concat (map escape_char s)"

text \<open>Prefixes of package strings\<close>

definition HasPrefix :: "string \<Rightarrow> string \<Rightarrow> bool" where
  "HasPrefix s p = (take (length p) s = p)"

definition trim_prefix :: "string \<Rightarrow> string \<Rightarrow> string" where
  "trim_prefix s p = (if take (length p) s = p then drop (length p) s else s)"

text \<open>\<open>%q\<close> of fmt, and the string encoding of encoding/json\<close>

definition quote_char :: "char \<Rightarrow> string" where
  "quote_char c = (let k = of_char c in
     if k = 34 then [CHR 0x5C, CHR 0x22]
     else if k = 92 then [CHR 0x5C, CHR 0x5C]
     else if k = 7 then [CHR 0x5C, CHR ''a'']
     else if k = 8 then [CHR 0x5C, CHR ''b'']
     else if k = 12 then [CHR 0x5C, CHR ''f'']
     else if k = 10 then [CHR 0x5C, CHR ''n'']
     else if k = 13 then [CHR 0x5C, CHR ''r'']
     else if k = 9 then [CHR 0x5C, CHR ''t'']
     else if k = 11 then [CHR 0x5C, CHR ''v'']
     else if k < 32 \<or> k = (127::nat) then [CHR 0x5C, CHR ''x'', hex_digit (k div 16), hex_digit (k mod 16)]
     else [c])"

definition go_quote :: "unicode \<Rightarrow> string \<Rightarrow> string" where
  "go_quote U s = (if is_ascii s then [CHR 0x22] @ concat (map quote_char s) @ [CHR 0x22]
                   else uni_quote U s)"

definition json_char :: "char \<Rightarrow> string" where
  "json_char c = (let k = of_char c in
     if k = 34 then [CHR 0x5C, CHR 0x22]
     else if k = 92 then [CHR 0x5C, CHR 0x5C]
     else if k = 8 then [CHR 0x5C, CHR ''b'']
     else if k = 12 then [CHR 0x5C, CHR ''f'']
     else if k = 10 then [CHR 0x5C, CHR ''n'']
     else if k = 13 then [CHR 0x5C, CHR ''r'']
     else if k = 9 then [CHR 0x5C, CHR ''t'']
     else if k < 32 \<or> k = 60 \<or> k = 62 \<or> k = (38::nat)
       then [CHR 0x5C, CHR ''u'', CHR ''0'', CHR ''0'', hex_digit (k div 16), hex_digit (k mod 16)]
     else [c])"

definition json_string :: "unicode \<Rightarrow> string \<Rightarrow> string" where
  "json_string U s = (if is_ascii s then [CHR 0x22] @ concat (map json_char s) @ [CHR 0x22]
                      else uni_json U s)"

text \<open>\<open>json.Marshal\<close> of a \<open>[]string\<close> that is not nil\<close>

definition json_strings :: "unicode \<Rightarrow> string list \<Rightarrow> string" where
  "json_strings U ss = ''['' @ join '','' (map (json_string U) ss) @ '']''"

subsection \<open>Runes\<close>

text \<open>
  \<open>[]rune(s)\<close> decodes UTF-8, with U+FFFD of width 1 for each byte that does not start a
  well-formed sequence; \<open>string(runes)\<close> encodes again.
\<close>

definition in_range :: "nat \<Rightarrow> nat \<Rightarrow> nat \<Rightarrow> bool" where
  "in_range lo hi b \<longleftrightarrow> lo \<le> b \<and> b \<le> hi"

definition second_range :: "nat \<Rightarrow> nat \<times> nat" where
  "second_range b0 = (if b0 = 224 then (160, 191) else if b0 = 237 then (128, 159)
     else if b0 = 240 then (144, 191) else if b0 = 244 then (128, 143) else (128, 191))"

definition decode_rune :: "nat list \<Rightarrow> nat \<times> nat" where
  "decode_rune bs = (case bs of
     [] \<Rightarrow> (65533, 1)
   | b0 # r0 \<Rightarrow>
      if b0 < 128 then (b0, 1)
      else if b0 < 194 \<or> 244 < b0 then (65533, 1)
      else (case r0 of
        [] \<Rightarrow> (65533, 1)
      | b1 # r1 \<Rightarrow>
         if \<not> in_range (fst (second_range b0)) (snd (second_range b0)) b1 then (65533, 1)
         else if b0 < 224 then ((b0 - 192) * 64 + (b1 - 128), 2)
         else (case r1 of
           [] \<Rightarrow> (65533, 1)
         | b2 # r2 \<Rightarrow>
            if \<not> in_range 128 191 b2 then (65533, 1)
            else if b0 < 240 then ((b0 - 224) * 4096 + (b1 - 128) * 64 + (b2 - 128), 3)
            else (case r2 of
              [] \<Rightarrow> (65533, 1)
            | b3 # r3 \<Rightarrow>
               if \<not> in_range 128 191 b3 then (65533, 1)
               else ((b0 - 240) * 262144 + (b1 - 128) * 4096 + (b2 - 128) * 64 + (b3 - 128), 4)))))"

lemma decode_rune_width: "0 < snd (decode_rune bs)"
  by (simp add: decode_rune_def split: list.splits)

function runes_of :: "nat list \<Rightarrow> nat list" where
  "runes_of [] = []"
| "runes_of (b # bs) = fst (decode_rune (b # bs)) # runes_of (drop (snd (decode_rune (b # bs))) (b # bs))"
  by pat_completeness auto
termination
  by (relation "measure length") (auto simp: decode_rune_width)

definition encode_rune :: "nat \<Rightarrow> nat list" where
  "encode_rune r =
     (if r < 128 then [r]
      else if r < 2048 then [192 + r div 64, 128 + r mod 64]
      else if r < 65536 then [224 + r div 4096, 128 + r div 64 mod 64, 128 + r mod 64]
      else [240 + r div 262144, 128 + r div 4096 mod 64, 128 + r div 64 mod 64, 128 + r mod 64])"

definition str_bytes :: "string \<Rightarrow> nat list" where
  "str_bytes s = map of_char s"

definition bytes_str :: "nat list \<Rightarrow> string" where
  "bytes_str bs = map char_of bs"

definition runes :: "string \<Rightarrow> nat list" where
  "runes s = runes_of (str_bytes s)"

definition string_of_runes :: "nat list \<Rightarrow> string" where
  "string_of_runes rs = bytes_str (concat (map encode_rune rs))"

definition valid_rune :: "nat \<Rightarrow> bool" where
  "valid_rune r \<longleftrightarrow> r < 1114112 \<and> \<not> (55296 \<le> r \<and> r \<le> 57343)"

lemma base64_digits3: "(r::nat) div 4096 * 4096 + r div 64 mod 64 * 64 + r mod 64 = r"
proof -
  have "r div 4096 = r div 64 div 64" by (simp add: div_mult2_eq [symmetric])
  moreover have "r div 64 div 64 * 64 + r div 64 mod 64 = r div 64" by simp
  moreover have "r div 64 * 64 + r mod 64 = r" by simp
  ultimately show ?thesis by linarith
qed

lemma base64_digits4:
  "(r::nat) div 262144 * 262144 + r div 4096 mod 64 * 4096 + r div 64 mod 64 * 64 + r mod 64 = r"
proof -
  have "r div 262144 = r div 4096 div 64" by (simp add: div_mult2_eq [symmetric])
  moreover have "r div 4096 div 64 * 64 + r div 4096 mod 64 = r div 4096" by simp
  moreover note base64_digits3 [of r]
  ultimately show ?thesis by linarith
qed

lemma decode_encode_rune:
  assumes "valid_rune r"
  shows "decode_rune (encode_rune r @ rest) = (r, length (encode_rune r))"
proof -
  consider "r < 128" | "128 \<le> r \<and> r < 2048" | "2048 \<le> r \<and> r < 65536" | "65536 \<le> r" by linarith
  then show ?thesis
  proof cases
    case 1 then show ?thesis by (simp add: encode_rune_def decode_rune_def)
  next
    case 2
    define a b where "a = r div 64" and "b = r mod 64"
    have eq: "a * 64 + b = r" unfolding a_def b_def by presburger
    have lim: "2 \<le> a" "a < 32" "b < 64" using 2 unfolding a_def b_def by auto
    have enc: "encode_rune r = [192 + a, 128 + b]"
      using 2 by (simp add: encode_rune_def a_def b_def)
    have snd_ok: "in_range (fst (second_range (192 + a))) (snd (second_range (192 + a))) (128 + b)"
      using lim by (simp add: in_range_def second_range_def)
    show ?thesis unfolding enc using eq lim snd_ok
      by (simp add: decode_rune_def in_range_def)
  next
    case 3
    define a b c where "a = r div 4096" and "b = r div 64 mod 64" and "c = r mod 64"
    have eq: "a * 4096 + b * 64 + c = r" unfolding a_def b_def c_def by (rule base64_digits3)
    have lim: "a < 16" "b < 64" "c < 64" using 3 unfolding a_def b_def c_def by auto
    have lo: "a = 0 \<Longrightarrow> 32 \<le> b" using 3 eq lim by linarith
    have hi: "a = 13 \<Longrightarrow> b < 32" using assms eq lim unfolding valid_rune_def by linarith
    have enc: "encode_rune r = [224 + a, 128 + b, 128 + c]"
      using 3 by (simp add: encode_rune_def a_def b_def c_def)
    have snd_ok: "in_range (fst (second_range (224 + a))) (snd (second_range (224 + a))) (128 + b)"
      using lim lo hi by (cases "a = 0"; cases "a = 13") (simp_all add: in_range_def second_range_def)
    show ?thesis unfolding enc using eq lim snd_ok
      by (simp add: decode_rune_def in_range_def)
  next
    case 4
    define a b c d where "a = r div 262144" and "b = r div 4096 mod 64" and "c = r div 64 mod 64" and "d = r mod 64"
    have eq: "a * 262144 + b * 4096 + c * 64 + d = r" unfolding a_def b_def c_def d_def by (rule base64_digits4)
    have lim: "a < 5" "b < 64" "c < 64" "d < 64" using 4 assms unfolding a_def b_def c_def d_def valid_rune_def by auto
    have lo: "a = 0 \<Longrightarrow> 16 \<le> b" using 4 eq lim by linarith
    have hi: "a = 4 \<Longrightarrow> b < 16" using assms eq lim unfolding valid_rune_def by linarith
    have enc: "encode_rune r = [240 + a, 128 + b, 128 + c, 128 + d]"
      using 4 by (simp add: encode_rune_def a_def b_def c_def d_def)
    have snd_ok: "in_range (fst (second_range (240 + a))) (snd (second_range (240 + a))) (128 + b)"
      using lim lo hi by (cases "a = 0"; cases "a = 4") (simp_all add: in_range_def second_range_def)
    show ?thesis unfolding enc using eq lim snd_ok
      by (simp add: decode_rune_def in_range_def)
  qed
qed
lemma decode_rune_valid: "list_all (\<lambda>b. b < 256) bs \<Longrightarrow> valid_rune (fst (decode_rune bs))"
  by (auto simp: decode_rune_def valid_rune_def in_range_def second_range_def split: list.splits if_splits)

lemma encode_rune_nonempty: "encode_rune r \<noteq> []" by (simp add: encode_rune_def)
lemma encode_rune_bytes: "valid_rune r \<Longrightarrow> list_all (\<lambda>b. b < 256) (encode_rune r)"
  by (auto simp: encode_rune_def valid_rune_def)
lemma runes_of_encode: "list_all valid_rune rs \<Longrightarrow> runes_of (concat (map encode_rune rs)) = rs"
proof (induction rs)
  case Nil then show ?case by simp
next
  case (Cons r rs)
  obtain b bs where e: "encode_rune r = b # bs" using encode_rune_nonempty by (cases "encode_rune r") auto
  have "decode_rune (encode_rune r @ concat (map encode_rune rs)) = (r, length (encode_rune r))"
    using Cons by (intro decode_encode_rune) simp
  then show ?case using Cons e by simp
qed
lemma runes_of_valid: "list_all (\<lambda>b. b < 256) bs \<Longrightarrow> list_all valid_rune (runes_of bs)"
proof (induction bs rule: runes_of.induct)
  case 1 then show ?case by simp
next
  case (2 b bs)
  have "list_all (\<lambda>b. b < 256) (drop (snd (decode_rune (b # bs))) (b # bs))"
    using 2(2) by (metis append_take_drop_id list_all_append)
  then show ?case using 2 decode_rune_valid[of "b#bs"] by simp
qed
lemma str_bytes_bounded: "list_all (\<lambda>b. b < 256) (str_bytes s)"
  by (induction s) (auto simp: str_bytes_def)

lemma str_bytes_inverse: "list_all (\<lambda>b. b < 256) bs \<Longrightarrow> str_bytes (bytes_str bs) = bs"
  by (induction bs) (auto simp: str_bytes_def bytes_str_def of_char_of)

lemma runes_string_of_runes: "list_all valid_rune rs \<Longrightarrow> runes (string_of_runes rs) = rs"
proof -
  assume a: "list_all valid_rune rs"
  then have "list_all (\<lambda>b. b < 256) (concat (map encode_rune rs))"
    by (induction rs) (auto simp: encode_rune_bytes)
  then show ?thesis using a by (simp add: runes_def string_of_runes_def str_bytes_inverse runes_of_encode)
qed
lemma runes_valid: "list_all valid_rune (runes s)"
  unfolding runes_def by (intro runes_of_valid str_bytes_bounded)

end
