(* ===== verification/Entities.thy ===== *)
theory Entities
  imports GoStd
begin

text \<open>
  The rows of the database, package \<open>internal/entity\<close>: one record per struct, its fields in
  the order of the struct, a pointer field as an option, a \<open>JSON\<close> column as its bytes.
  The status and mode constants keep the strings the code stores.  Fields tagged
  \<open>gorm:"-"\<close> are not columns; they are kept where a response is built from them.
\<close>

type_synonym json = string

definition JSONOrEmpty :: "json \<Rightarrow> string \<Rightarrow> json" where
  "JSONOrEmpty j fallback = (if j = [] then fallback else j)"

subsection \<open>Helpers of the use cases\<close>

definition nilIfEmpty :: "string \<Rightarrow> string option" where
  "nilIfEmpty v = (if v = [] then None else Some v)"

definition derefString :: "string option \<Rightarrow> string" where
  "derefString v = (case v of None \<Rightarrow> [] | Some s \<Rightarrow> s)"

definition jsonOrDefault :: "json \<Rightarrow> string \<Rightarrow> json" where
  "jsonOrDefault raw fallback = (if raw = [] then fallback else raw)"

definition truncate_str :: "string \<Rightarrow> int \<Rightarrow> string" where
  "truncate_str v n = (let rs = runes v in
     if int (length rs) \<le> n then v else string_of_runes (take (nat n) rs))"

definition int64OrZero :: "int option \<Rightarrow> int" where
  "int64OrZero v = (case v of None \<Rightarrow> 0 | Some n \<Rightarrow> n)"

lemma derefString_nilIfEmpty [simp]: "derefString (nilIfEmpty v) = v"
  by (simp add: derefString_def nilIfEmpty_def)

lemma length_runes_truncate:
  assumes "0 \<le> n"
  shows "int (length (runes (truncate_str v n))) \<le> n"
proof (cases "int (length (runes v)) \<le> n")
  case True
  then show ?thesis by (simp add: truncate_str_def Let_def)
next
  case False
  have "list_all valid_rune (take (nat n) (runes v))"
    using runes_valid [of v] by (metis append_take_drop_id list_all_append)
  with False assms show ?thesis
    by (simp add: truncate_str_def Let_def runes_string_of_runes)
qed

subsection \<open>Users, roles, sessions\<close>

record role =
  r_id :: string
  r_slug :: string
  r_name :: string
  r_description :: "string option"

record user_role =
  ur_user_id :: string
  ur_role_id :: string

record user =
  u_id :: string
  u_email :: string
  u_name :: string
  u_password :: string
  u_status :: string
  u_timezone :: string
  u_email_verified_at :: "int option"
  u_created_at :: int
  u_updated_at :: int

abbreviation UserStatusActive :: string where "UserStatusActive \<equiv> ''active''"
abbreviation UserStatusSuspended :: string where "UserStatusSuspended \<equiv> ''suspended''"
abbreviation RoleUser :: string where "RoleUser \<equiv> ''user''"
abbreviation RoleSuperadmin :: string where "RoleSuperadmin \<equiv> ''superadmin''"

definition HasRole :: "role list \<Rightarrow> string \<Rightarrow> bool" where
  "HasRole roles slug = list_ex (\<lambda>r. r_slug r = slug) roles"

definition RoleSlugs :: "role list \<Rightarrow> string list" where
  "RoleSlugs roles = map r_slug roles"

record user_session =
  us_id :: string
  us_user_id :: string
  us_token_hash :: string
  us_user_agent :: "string option"
  us_ip :: "string option"
  us_impersonated_by :: "string option"
  us_expires_at :: int
  us_revoked_at :: "int option"
  us_last_used_at :: int
  us_created_at :: int
  us_updated_at :: int

record audit_log =
  al_id :: string
  al_actor_user_id :: "string option"
  al_impersonated_user_id :: "string option"
  al_action :: string
  al_entity_type :: string
  al_entity_id :: "string option"
  al_metadata :: json
  al_ip :: "string option"
  al_user_agent :: "string option"
  al_created_at :: int

subsection \<open>Mailboxes\<close>

abbreviation MailAccountStatusPending :: string where "MailAccountStatusPending \<equiv> ''pending''"
abbreviation MailAccountStatusVerified :: string where "MailAccountStatusVerified \<equiv> ''verified''"
abbreviation MailAccountStatusError :: string where "MailAccountStatusError \<equiv> ''error''"
abbreviation MailAccountStatusDisabled :: string where "MailAccountStatusDisabled \<equiv> ''disabled''"

record mail_account =
  ma_id :: string
  ma_user_id :: string
  ma_provider :: string
  ma_email_address :: string
  ma_display_name :: "string option"
  ma_auth_mode :: string
  ma_credentials :: string
  ma_settings :: json
  ma_provider_account_id :: "string option"
  ma_scopes :: "string option"
  ma_token_expires_at :: "int option"
  ma_status :: string
  ma_last_verified_at :: "int option"
  ma_last_error :: "string option"
  ma_sync_state :: json
  ma_last_synced_at :: "int option"
  ma_last_push_at :: "int option"
  ma_poll_interval_seconds :: int
  ma_next_poll_at :: int
  ma_created_at :: int
  ma_updated_at :: int

record mail_provider =
  mp_slug :: string
  mp_label :: string
  mp_kind :: string
  mp_auth_modes :: string
  mp_default_host :: "string option"
  mp_default_port :: "int option"
  mp_default_use_tls :: bool
  mp_help_url :: "string option"
  mp_enabled :: bool
  mp_position :: int

text \<open>\<open>AuthModeList\<close> splits the stored csv; nil and the empty slice are the empty list.\<close>

definition AuthModeList :: "unicode \<Rightarrow> mail_provider \<Rightarrow> string list" where
  "AuthModeList U p =
     (if mp_auth_modes p = [] then []
      else filter (\<lambda>t. t \<noteq> []) (map (trim_space U) (split_on (CHR '','') (mp_auth_modes p))))"

definition SupportsAuthMode :: "unicode \<Rightarrow> mail_provider \<Rightarrow> string \<Rightarrow> bool" where
  "SupportsAuthMode U p mode = list_ex (\<lambda>c. c = mode) (AuthModeList U p)"

lemma SupportsAuthMode_nonempty: "\<not> SupportsAuthMode U p []"
  by (auto simp: SupportsAuthMode_def AuthModeList_def list_ex_iff)

abbreviation SyncStatusRunning :: string where "SyncStatusRunning \<equiv> ''running''"
abbreviation SyncStatusOK :: string where "SyncStatusOK \<equiv> ''ok''"
abbreviation SyncStatusError :: string where "SyncStatusError \<equiv> ''error''"

record mail_sync_run =
  sr_id :: string
  sr_mail_account_id :: string
  sr_status :: string
  sr_started_at :: int
  sr_finished_at :: "int option"
  sr_messages_fetched :: int
  sr_matches_created :: int
  sr_error :: "string option"
  sr_created_at :: int
  sr_updated_at :: int

subsection \<open>Watchers, filters, events, notifiers\<close>

abbreviation WatcherStatusActive :: string where "WatcherStatusActive \<equiv> ''active''"
abbreviation WatcherStatusPaused :: string where "WatcherStatusPaused \<equiv> ''paused''"
abbreviation WatcherStatusArchived :: string where "WatcherStatusArchived \<equiv> ''archived''"
abbreviation MatchModeAll :: string where "MatchModeAll \<equiv> ''all''"
abbreviation MatchModeAny :: string where "MatchModeAny \<equiv> ''any''"

record watcher =
  wa_id :: string
  wa_user_id :: string
  wa_mail_account_id :: string
  wa_name :: string
  wa_description :: "string option"
  wa_status :: string
  wa_match_mode :: string
  wa_folder :: string
  wa_watch_from :: "int option"
  wa_cooldown_seconds :: int
  wa_last_matched_at :: "int option"
  wa_match_count :: int
  wa_archived_at :: "int option"
  wa_created_at :: int
  wa_updated_at :: int

abbreviation FieldSubject :: string where "FieldSubject \<equiv> ''subject''"
abbreviation FieldFrom :: string where "FieldFrom \<equiv> ''from''"
abbreviation FieldTo :: string where "FieldTo \<equiv> ''to''"
abbreviation FieldCc :: string where "FieldCc \<equiv> ''cc''"
abbreviation FieldBody :: string where "FieldBody \<equiv> ''body''"
abbreviation FieldHeader :: string where "FieldHeader \<equiv> ''header''"
abbreviation FieldAttachmentName :: string where "FieldAttachmentName \<equiv> ''attachment_name''"
abbreviation FieldHasAttachment :: string where "FieldHasAttachment \<equiv> ''has_attachment''"
abbreviation FieldSize :: string where "FieldSize \<equiv> ''size''"
abbreviation OpContains :: string where "OpContains \<equiv> ''contains''"
abbreviation OpNotContains :: string where "OpNotContains \<equiv> ''not_contains''"
abbreviation OpEquals :: string where "OpEquals \<equiv> ''equals''"
abbreviation OpStartsWith :: string where "OpStartsWith \<equiv> ''starts_with''"
abbreviation OpEndsWith :: string where "OpEndsWith \<equiv> ''ends_with''"
abbreviation OpRegex :: string where "OpRegex \<equiv> ''regex''"
abbreviation OpGt :: string where "OpGt \<equiv> ''gt''"
abbreviation OpLt :: string where "OpLt \<equiv> ''lt''"
abbreviation OpExists :: string where "OpExists \<equiv> ''exists''"

record watcher_filter =
  wf_id :: string
  wf_watcher_id :: string
  wf_field :: string
  wf_header_name :: "string option"
  wf_operator :: string
  wf_value :: string
  wf_case_sensitive :: bool
  wf_position :: int
  wf_created_at :: int
  wf_updated_at :: int

abbreviation RunModeImmediate :: string where "RunModeImmediate \<equiv> ''immediate''"
abbreviation RunModeDelayed :: string where "RunModeDelayed \<equiv> ''delayed''"
abbreviation RunModeRecurring :: string where "RunModeRecurring \<equiv> ''recurring''"

record watcher_event =
  we_id :: string
  we_watcher_id :: string
  we_type :: string
  we_config :: json
  we_position :: int
  we_enabled :: bool
  we_run_mode :: string
  we_delay_seconds :: int
  we_repeat_interval_seconds :: "int option"
  we_repeat_max :: "int option"
  we_repeat_until :: "int option"
  we_cron_expression :: "string option"
  we_stop_on_ack :: bool
  we_created_at :: int
  we_updated_at :: int

record watcher_event_notifier =
  wen_watcher_event_id :: string
  wen_notifier_id :: string
  wen_position :: int

abbreviation NotifierStatusPending :: string where "NotifierStatusPending \<equiv> ''pending''"
abbreviation NotifierStatusVerified :: string where "NotifierStatusVerified \<equiv> ''verified''"
abbreviation NotifierStatusError :: string where "NotifierStatusError \<equiv> ''error''"
abbreviation NotifierStatusDisabled :: string where "NotifierStatusDisabled \<equiv> ''disabled''"

record notifier =
  no_id :: string
  no_user_id :: string
  no_type :: string
  no_name :: string
  no_config :: json
  no_secrets :: "string option"
  no_status :: string
  no_verification_code :: "string option"
  no_verification_expires_at :: "int option"
  no_verified_at :: "int option"
  no_last_error :: "string option"
  no_is_default :: bool
  no_created_at :: int
  no_updated_at :: int

subsection \<open>Matches, runs, deliveries\<close>

record matched_email =
  me_id :: string
  me_user_id :: string
  me_watcher_id :: string
  me_mail_account_id :: string
  me_message_id :: string
  me_provider_uid :: string
  me_subject :: "string option"
  me_from_address :: "string option"
  me_from_name :: "string option"
  me_to_addresses :: "string option"
  me_snippet :: "string option"
  me_has_attachment :: bool
  me_size_bytes :: int
  me_received_at :: int
  me_matched_at :: int
  me_matched_filters :: json
  me_created_at :: int
  me_updated_at :: int

abbreviation RunStatusPending :: string where "RunStatusPending \<equiv> ''pending''"
abbreviation RunStatusRunning :: string where "RunStatusRunning \<equiv> ''running''"
abbreviation RunStatusSucceeded :: string where "RunStatusSucceeded \<equiv> ''succeeded''"
abbreviation RunStatusFailed :: string where "RunStatusFailed \<equiv> ''failed''"
abbreviation RunStatusCancelled :: string where "RunStatusCancelled \<equiv> ''cancelled''"
abbreviation RunStatusSkipped :: string where "RunStatusSkipped \<equiv> ''skipped''"
abbreviation DeliveryStatusPending :: string where "DeliveryStatusPending \<equiv> ''pending''"
abbreviation DeliveryStatusSent :: string where "DeliveryStatusSent \<equiv> ''sent''"
abbreviation DeliveryStatusFailed :: string where "DeliveryStatusFailed \<equiv> ''failed''"

record event_run =
  er_id :: string
  er_user_id :: string
  er_matched_email_id :: string
  er_watcher_event_id :: string
  er_occurrence :: int
  er_status :: string
  er_scheduled_at :: int
  er_started_at :: "int option"
  er_finished_at :: "int option"
  er_attempt :: int
  er_max_attempts :: int
  er_next_retry_at :: "int option"
  er_config_snapshot :: json
  er_result :: json
  er_error :: "string option"
  er_acknowledged_at :: "int option"
  er_created_at :: int
  er_updated_at :: int

record notification_delivery =
  nd_id :: string
  nd_event_run_id :: string
  nd_notifier_id :: "string option"
  nd_channel_type :: string
  nd_status :: string
  nd_rendered_message :: "string option"
  nd_provider_message_id :: "string option"
  nd_error :: "string option"
  nd_sent_at :: "int option"
  nd_created_at :: int
  nd_updated_at :: int

subsection \<open>model/catalog\_model.go\<close>

text \<open>How a plug-in describes the form that configures it\<close>

record schema_field =
  sf_name :: string
  sf_label :: string
  sf_type :: string
  sf_required :: bool
  sf_options :: "string list"
  sf_placeholder :: string
  sf_help :: string
  sf_secret :: bool

record schema =
  sc_fields :: "schema_field list"

text \<open>A field with a name, a label and a type, the rest zero\<close>

abbreviation schema_field_of :: "string \<Rightarrow> string \<Rightarrow> string \<Rightarrow> schema_field" where
  "schema_field_of name label type \<equiv> \<lparr>sf_name = name, sf_label = label, sf_type = type,
     sf_required = False, sf_options = [], sf_placeholder = [], sf_help = [], sf_secret = False\<rparr>"

end
