(* ===== verification/Store.thy ===== *)
theory Store
  imports Entities
begin

text \<open>
  The outside world of the program and the generic repository.

  The database is one list of rows per table (\<open>database\<close>); a list keeps the order a query
  without \<open>ORDER BY\<close> happens to return, and every theorem holds for every order.  A
  statement (\<open>stmt\<close>) may fail: \<open>db_faults\<close> says for each statement of the run whether the
  server refuses it, so that every \<open>if err != nil\<close> of the code is a reachable branch; the
  unique and foreign keys of db/migrations are checked by the tables themselves
  (\<open>tb_check\<close>), and deletes cascade or are refused as the migrations declare
  (\<open>tb_remove\<close>).  \<open>time.Now()\<close> and \<open>uuid.NewString()\<close> read the streams \<open>clock\<close> (nanoseconds)
  and \<open>uuids\<close>.  Redis is a map from keys to typed values with an expiry; its commands may
  fail as well.

  \<open>Repository[T]\<close> of internal/repository/repository.go is modelled once over a \<open>table\<close>;
  \<open>Repo_Update\<close> is gorm's \<open>Save\<close>, which writes every column of the struct it is given.
  The locale \<open>table_laws\<close> states what a table owes its repository.
\<close>

subsection \<open>Values kept in redis\<close>

record auth =
  au_id :: string
  au_email :: string
  au_roles :: "string list"
  au_session_id :: string
  au_impersonated :: bool
  au_impersonated_by :: string

definition Auth_HasRole :: "auth \<Rightarrow> string \<Rightarrow> bool" where
  "Auth_HasRole a slug = list_ex (\<lambda>r. r = slug) (au_roles a)"

definition IsSuperadmin :: "auth \<Rightarrow> bool" where
  "IsSuperadmin a = Auth_HasRole a RoleSuperadmin"

record password_reset =
  pr_user_id :: string
  pr_email :: string

record oauth_state =
  os_user_id :: string
  os_provider :: string
  os_account_id :: string
  os_created_at :: int

record provider_entry =
  pe_provider :: "mail_provider option"
  pe_found :: bool

type_synonym status_counts = "string \<rightharpoonup> int"

record recent_activity =
  ra_type :: string
  ra_id :: string
  ra_watcher_name :: string
  ra_subject :: string
  ra_at :: int

record dashboard_summary =
  ds_watchers :: status_counts
  ds_mail_accounts :: status_counts
  ds_notifiers :: status_counts
  ds_matches_24h :: int
  ds_runs_failed_24h :: int
  ds_recent :: "recent_activity list"

datatype redis_value =
    RAuth auth
  | RReset password_reset
  | ROAuth oauth_state
  | RProvider provider_entry
  | RDashboard dashboard_summary
  | RCount int
  | RStr string

subsection \<open>The world\<close>

record database =
  users_of :: "user list"
  roles_of :: "role list"
  user_roles_of :: "user_role list"
  sessions_of :: "user_session list"
  audit_logs_of :: "audit_log list"
  accounts_of :: "mail_account list"
  providers_of :: "mail_provider list"
  sync_runs_of :: "mail_sync_run list"
  watchers_of :: "watcher list"
  filters_of :: "watcher_filter list"
  events_of :: "watcher_event list"
  event_notifiers_of :: "watcher_event_notifier list"
  notifiers_of :: "notifier list"
  matches_of :: "matched_email list"
  runs_of :: "event_run list"
  deliveries_of :: "notification_delivery list"

record world =
  wdb :: database
  clock :: "nat \<Rightarrow> int"
  ticks :: nat
  uuids :: "nat \<Rightarrow> string"
  uuid_pos :: nat
  entropy :: "nat \<Rightarrow> nat \<Rightarrow> string option"
  entropy_pos :: nat
  db_faults :: "nat \<Rightarrow> string option"
  stmts :: nat
  redis :: "string \<rightharpoonup> redis_value \<times> int option"
  redis_faults :: "nat \<Rightarrow> bool"
  rcmds :: nat

type_synonym 'a io = "(world, 'a) state"
type_synonym 'a ioE = "(world, err + 'a) state"

definition time_now :: "int io" where
  "time_now = State (\<lambda>w. (clock w (ticks w), w\<lparr>ticks := Suc (ticks w)\<rparr>))"

definition now_milli :: "int io" where
  "now_milli = State (\<lambda>w. (unix_milli (clock w (ticks w)), w\<lparr>ticks := Suc (ticks w)\<rparr>))"

definition new_uuid :: "string io" where
  "new_uuid = State (\<lambda>w. (uuids w (uuid_pos w), w\<lparr>uuid_pos := Suc (uuid_pos w)\<rparr>))"

text \<open>\<open>io.ReadFull(rand.Reader, b)\<close>: the next \<open>n\<close> random bytes, or a failure\<close>

definition read_random :: "nat \<Rightarrow> string ioE" where
  "read_random n = State (\<lambda>w.
     ((case entropy w (entropy_pos w) n of None \<Rightarrow> Inl (PlainErr ''unexpected EOF'') | Some b \<Rightarrow> Inr b),
      w\<lparr>entropy_pos := Suc (entropy_pos w)\<rparr>))"

definition stmt :: "(database \<Rightarrow> (err + 'a) \<times> database) \<Rightarrow> 'a ioE" where
  "stmt f = State (\<lambda>w.
     case db_faults w (stmts w) of
       Some msg \<Rightarrow> (Inl (DbErr msg), w\<lparr>stmts := Suc (stmts w)\<rparr>)
     | None \<Rightarrow> (fst (f (wdb w)), w\<lparr>wdb := snd (f (wdb w)), stmts := Suc (stmts w)\<rparr>))"

definition query :: "(database \<Rightarrow> err + 'a) \<Rightarrow> 'a ioE" where
  "query f = stmt (\<lambda>d. (f d, d))"

definition exec :: "(database \<Rightarrow> database) \<Rightarrow> unit ioE" where
  "exec f = stmt (\<lambda>d. (Inr (), f d))"

definition commit :: "unit ioE" where
  "commit = stmt (\<lambda>d. (Inr (), d))"

text \<open>\<open>tx := Begin(); defer tx.Rollback()\<close>: an error return drops what the body wrote.\<close>

definition tx_scope :: "'a ioE \<Rightarrow> 'a ioE" where
  "tx_scope body = State (\<lambda>w.
     case run_state body w of
       (Inl e, w') \<Rightarrow> (Inl e, w'\<lparr>wdb := wdb w\<rparr>)
     | (Inr x, w') \<Rightarrow> (Inr x, w'))"

lemma run_time_now [simp]:
  "run_state time_now w = (clock w (ticks w), w\<lparr>ticks := Suc (ticks w)\<rparr>)"
  by (simp add: time_now_def)

lemma run_now_milli [simp]:
  "run_state now_milli w = (unix_milli (clock w (ticks w)), w\<lparr>ticks := Suc (ticks w)\<rparr>)"
  by (simp add: now_milli_def)

lemma run_new_uuid [simp]:
  "run_state new_uuid w = (uuids w (uuid_pos w), w\<lparr>uuid_pos := Suc (uuid_pos w)\<rparr>)"
  by (simp add: new_uuid_def)

lemma run_read_random [simp]:
  "run_state (read_random n) w =
     ((case entropy w (entropy_pos w) n of None \<Rightarrow> Inl (PlainErr ''unexpected EOF'') | Some b \<Rightarrow> Inr b),
      w\<lparr>entropy_pos := Suc (entropy_pos w)\<rparr>)"
  by (simp add: read_random_def)

lemma run_stmt:
  "run_state (stmt f) w =
     (case db_faults w (stmts w) of
       Some msg \<Rightarrow> (Inl (DbErr msg), w\<lparr>stmts := Suc (stmts w)\<rparr>)
     | None \<Rightarrow> (fst (f (wdb w)), w\<lparr>wdb := snd (f (wdb w)), stmts := Suc (stmts w)\<rparr>))"
  by (simp add: stmt_def)

text \<open>While the database answers, a statement is its effect on the rows.\<close>

definition db_up :: "world \<Rightarrow> bool" where
  "db_up w \<longleftrightarrow> (\<forall>n. db_faults w n = None)"

lemma db_upD [simp]: "db_up w \<Longrightarrow> db_faults w n = None"
  by (simp add: db_up_def)

lemma db_up_update [simp]:
  "db_up (w\<lparr>wdb := d\<rparr>) = db_up w"
  "db_up (w\<lparr>ticks := n\<rparr>) = db_up w"
  "db_up (w\<lparr>uuid_pos := n\<rparr>) = db_up w"
  "db_up (w\<lparr>entropy_pos := n\<rparr>) = db_up w"
  "db_up (w\<lparr>stmts := n\<rparr>) = db_up w"
  "db_up (w\<lparr>redis := r\<rparr>) = db_up w"
  "db_up (w\<lparr>rcmds := n\<rparr>) = db_up w"
  by (simp_all add: db_up_def)

lemma run_stmt_up [simp]:
  "db_up w \<Longrightarrow> run_state (stmt f) w =
     (fst (f (wdb w)), w\<lparr>wdb := snd (f (wdb w)), stmts := Suc (stmts w)\<rparr>)"
  by (simp add: run_stmt)

lemma run_query_up [simp]:
  "db_up w \<Longrightarrow> run_state (query f) w = (f (wdb w), w\<lparr>stmts := Suc (stmts w)\<rparr>)"
  by (simp add: query_def)

lemma run_exec_up [simp]:
  "db_up w \<Longrightarrow> run_state (exec f) w = (Inr (), w\<lparr>wdb := f (wdb w), stmts := Suc (stmts w)\<rparr>)"
  by (simp add: exec_def)

lemma run_commit_up [simp]:
  "db_up w \<Longrightarrow> run_state commit w = (Inr (), w\<lparr>stmts := Suc (stmts w)\<rparr>)"
  by (simp add: commit_def)

lemma run_tx_scope [simp]:
  "run_state (tx_scope body) w =
     (case run_state body w of
       (Inl e, w') \<Rightarrow> (Inl e, w'\<lparr>wdb := wdb w\<rparr>)
     | (Inr x, w') \<Rightarrow> (Inr x, w'))"
  by (simp add: tx_scope_def)

lemma tx_scope_okE [okE]:
  assumes "run_state (tx_scope body) w = (Inr x, w')"
  obtains "run_state body w = (Inr x, w')"
  using assms by (auto split: prod.splits sum.splits)

lemma query_ok:
  assumes "run_state (query f) w = (Inr x, w')"
  shows "f (wdb w) = Inr x" and "wdb w' = wdb w"
  using assms by (auto simp: query_def run_stmt split: option.splits)

lemma commit_ok: "run_state commit w = (Inr x, w') \<Longrightarrow> wdb w' = wdb w"
  by (auto simp: commit_def run_stmt split: option.splits)

lemma tx_scope_error:
  "run_state (tx_scope body) w = (Inl e, w') \<Longrightarrow> wdb w' = wdb w"
  by (auto split: prod.splits sum.splits)

subsection \<open>Programs that keep an invariant of the database\<close>

text \<open>
  An invariant \<open>K\<close> of the rows is an invariant of the world when every statement keeps it;
  clock, identifiers, redis and the fault schedule do not matter to it.
\<close>

definition db_inv :: "(database \<Rightarrow> bool) \<Rightarrow> world \<Rightarrow> bool" where
  "db_inv K w \<longleftrightarrow> K (wdb w)"

lemma pres_time_now [pres]: "preserves (db_inv K) time_now"
  by (simp add: preserves_def db_inv_def)

lemma pres_now_milli [pres]: "preserves (db_inv K) now_milli"
  by (simp add: preserves_def db_inv_def)

lemma pres_new_uuid [pres]: "preserves (db_inv K) new_uuid"
  by (simp add: preserves_def db_inv_def)

lemma pres_read_random [pres]: "preserves (db_inv K) (read_random n)"
  by (simp add: preserves_def db_inv_def)

lemma pres_stmt: "(\<And>d. K d \<Longrightarrow> K (snd (f d))) \<Longrightarrow> preserves (db_inv K) (stmt f)"
  by (auto simp: preserves_def db_inv_def run_stmt split: option.splits)

lemma pres_query [pres]: "preserves (db_inv K) (query f)"
  unfolding query_def by (rule pres_stmt) simp

lemma pres_exec: "(\<And>d. K d \<Longrightarrow> K (f d)) \<Longrightarrow> preserves (db_inv K) (exec f)"
  unfolding exec_def by (rule pres_stmt) simp

lemma pres_commit [pres]: "preserves (db_inv K) commit"
  unfolding commit_def by (rule pres_stmt) simp

lemma pres_tx_scope [pres]: "preserves (db_inv K) m \<Longrightarrow> preserves (db_inv K) (tx_scope m)"
  by (auto simp: preserves_def db_inv_def split: prod.splits sum.splits)

lemma pres_tx_scope_ok:
  "(\<And>w x w'. K (wdb w) \<Longrightarrow> run_state body w = (Inr x, w') \<Longrightarrow> K (wdb w')) \<Longrightarrow>
   preserves (db_inv K) (tx_scope body)"
  by (auto simp: preserves_def db_inv_def split: prod.splits sum.splits)

lemma same_run:
  "run_state m w = (r, w') \<Longrightarrow> (\<And>K. preserves (db_inv K) m) \<Longrightarrow> wdb w' = wdb w"
  using preserves_run [of "db_inv (\<lambda>d. d = wdb w)" m w r w'] by (simp add: db_inv_def)

text \<open>Nothing the program does changes whether the database answers.\<close>

lemma up_time_now [pres]: "preserves db_up time_now"
  by (simp add: preserves_def)

lemma up_now_milli [pres]: "preserves db_up now_milli"
  by (simp add: preserves_def)

lemma up_new_uuid [pres]: "preserves db_up new_uuid"
  by (simp add: preserves_def)

lemma up_read_random [pres]: "preserves db_up (read_random n)"
  by (simp add: preserves_def)

lemma up_stmt [pres]: "preserves db_up (stmt f)"
  by (simp add: preserves_def)

lemma up_query [pres]: "preserves db_up (query f)"
  unfolding query_def by (rule up_stmt)

lemma up_exec [pres]: "preserves db_up (exec f)"
  unfolding exec_def by (rule up_stmt)

lemma up_commit [pres]: "preserves db_up commit"
  unfolding commit_def by (rule up_stmt)

lemma up_tx_scope [pres]: "preserves db_up m \<Longrightarrow> preserves db_up (tx_scope m)"
  by (auto simp: preserves_def split: prod.splits sum.splits)

lemma preserves_case_err [pres]:
  "preserves I m \<Longrightarrow> preserves I k \<Longrightarrow> preserves I (case e of RecordNotFound \<Rightarrow> m | _ \<Rightarrow> k)"
  by (cases e) simp_all

text \<open>The clock and the stream of identifiers are read, never changed, and the stream is used up in order.\<close>

definition same_env :: "world \<Rightarrow> world \<Rightarrow> bool" where
  "same_env v w \<longleftrightarrow> clock w = clock v \<and> uuids w = uuids v \<and> uuid_pos v \<le> uuid_pos w"

lemma same_env_refl [simp]: "same_env v v"
  by (simp add: same_env_def)

definition later :: "world \<Rightarrow> world \<Rightarrow> bool" where
  "later v w \<longleftrightarrow> db_up w \<and> same_env v w"

lemma later_step:
  "run_state m s = (r, s') \<Longrightarrow> later v s \<Longrightarrow> preserves db_up m \<Longrightarrow> preserves (same_env v) m \<Longrightarrow> later v s'"
  using preserves_run [of db_up m s r s'] preserves_run [of "same_env v" m s r s'] by (simp add: later_def)

lemma env_basic [pres]:
  "preserves (same_env v) time_now" "preserves (same_env v) now_milli" "preserves (same_env v) new_uuid"
  "preserves (same_env v) (read_random n)"
  by (simp_all add: preserves_def same_env_def)

lemma env_stmt [pres]: "preserves (same_env v) (stmt f)"
  by (simp add: preserves_def same_env_def run_stmt split: option.splits)

lemma env_statements [pres]:
  "preserves (same_env v) (query q)" "preserves (same_env v) (exec f)" "preserves (same_env v) commit"
  unfolding query_def exec_def commit_def by (rule env_stmt)+

lemma same_env_wdb [simp]: "same_env v (w\<lparr>wdb := d\<rparr>) = same_env v w"
  by (simp add: same_env_def)

lemma env_tx_scope [pres]: "preserves (same_env v) m \<Longrightarrow> preserves (same_env v) (tx_scope m)"
  by (auto simp: preserves_def split: prod.splits sum.splits)

subsection \<open>Redis commands\<close>

definition redis_cmd :: "((string \<rightharpoonup> redis_value \<times> int option) \<Rightarrow> int \<Rightarrow>
    'a \<times> (string \<rightharpoonup> redis_value \<times> int option)) \<Rightarrow> 'a ioE" where
  "redis_cmd f = State (\<lambda>w.
     if redis_faults w (rcmds w) then (Inl RedisErr, w\<lparr>rcmds := Suc (rcmds w)\<rparr>)
     else (Inr (fst (f (redis w) (clock w (ticks w)))),
           w\<lparr>redis := snd (f (redis w) (clock w (ticks w))), rcmds := Suc (rcmds w)\<rparr>))"

definition redis_up :: "world \<Rightarrow> bool" where
  "redis_up w \<longleftrightarrow> (\<forall>n. \<not> redis_faults w n)"

lemma redis_upD [simp]: "redis_up w \<Longrightarrow> \<not> redis_faults w n"
  by (simp add: redis_up_def)

lemma redis_up_update [simp]:
  "redis_up (w\<lparr>wdb := d\<rparr>) = redis_up w"
  "redis_up (w\<lparr>ticks := n\<rparr>) = redis_up w"
  "redis_up (w\<lparr>uuid_pos := n\<rparr>) = redis_up w"
  "redis_up (w\<lparr>entropy_pos := n\<rparr>) = redis_up w"
  "redis_up (w\<lparr>stmts := n\<rparr>) = redis_up w"
  "redis_up (w\<lparr>redis := r\<rparr>) = redis_up w"
  "redis_up (w\<lparr>rcmds := n\<rparr>) = redis_up w"
  by (simp_all add: redis_up_def)

lemma run_redis_cmd:
  "run_state (redis_cmd f) w =
     (if redis_faults w (rcmds w) then (Inl RedisErr, w\<lparr>rcmds := Suc (rcmds w)\<rparr>)
      else (Inr (fst (f (redis w) (clock w (ticks w)))),
            w\<lparr>redis := snd (f (redis w) (clock w (ticks w))), rcmds := Suc (rcmds w)\<rparr>))"
  by (simp add: redis_cmd_def)

lemma run_redis_cmd_up [simp]:
  "redis_up w \<Longrightarrow> run_state (redis_cmd f) w =
     (Inr (fst (f (redis w) (clock w (ticks w)))),
      w\<lparr>redis := snd (f (redis w) (clock w (ticks w))), rcmds := Suc (rcmds w)\<rparr>)"
  by (simp add: run_redis_cmd)

lemma pres_redis_cmd [pres]: "preserves (db_inv K) (redis_cmd f)"
  by (simp add: preserves_def db_inv_def run_redis_cmd)

lemma up_redis_cmd [pres]: "preserves db_up (redis_cmd f)"
  by (simp add: preserves_def run_redis_cmd)

text \<open>A key whose expiry has passed is not there.\<close>

definition live :: "int \<Rightarrow> redis_value \<times> int option \<Rightarrow> bool" where
  "live t v = (case snd v of None \<Rightarrow> True | Some e \<Rightarrow> t < e)"

definition redis_lookup :: "(string \<rightharpoonup> redis_value \<times> int option) \<Rightarrow> int \<Rightarrow> string \<Rightarrow> redis_value option" where
  "redis_lookup m t k = (case m k of None \<Rightarrow> None | Some v \<Rightarrow> if live t v then Some (fst v) else None)"

end
