(* ===== verification/Tables.thy ===== *)
theory Tables
  imports Store
begin

text \<open>
  Tables as lenses into the database, with the keys of db/migrations, and the generic
  repository \<open>Repository[T]\<close> over them.  \<open>tb_check\<close> is what the server tests when a row is
  written: unique keys against the other rows, foreign keys, and the check constraints on
  the cadence of an event, its repeat bound, the header of a filter and the occurrence of a
  run; the checks that a status or type column holds one of its listed words are left out;
  \<open>tb_remove\<close> what a delete by primary key does to the table and to the tables that refer
  to it (\<open>None\<close> where a restricting foreign key refuses it).  \<open>tb_stamp\<close> and \<open>tb_touch\<close> are
  gorm's \<open>autoCreateTime\<close> and \<open>autoUpdateTime\<close> tags.
\<close>

record 'a table =
  tb_rows :: "database \<Rightarrow> 'a list"
  tb_put :: "'a list \<Rightarrow> database \<Rightarrow> database"
  tb_key :: "'a \<Rightarrow> string"
  tb_owner :: "'a \<Rightarrow> string"
  tb_check :: "database \<Rightarrow> 'a \<Rightarrow> bool"
  tb_stamp :: "int \<Rightarrow> 'a \<Rightarrow> 'a"
  tb_touch :: "int \<Rightarrow> 'a \<Rightarrow> 'a"
  tb_remove :: "string \<Rightarrow> database \<Rightarrow> database option"

abbreviation has_id :: "('a \<Rightarrow> string) \<Rightarrow> string \<Rightarrow> 'a list \<Rightarrow> bool" where
  "has_id key i xs \<equiv> list_ex (\<lambda>x. key x = i) xs"

definition opt_ref :: "('a \<Rightarrow> string) \<Rightarrow> string option \<Rightarrow> 'a list \<Rightarrow> bool" where
  "opt_ref key v xs = (case v of None \<Rightarrow> True | Some i \<Rightarrow> has_id key i xs)"

definition unique_on :: "('a \<Rightarrow> string) \<Rightarrow> ('a \<Rightarrow> 'b) \<Rightarrow> 'a \<Rightarrow> 'a list \<Rightarrow> bool" where
  "unique_on key u x xs = list_all (\<lambda>y. key y = key x \<or> u y \<noteq> u x) xs"

definition if_zero :: "int \<Rightarrow> int \<Rightarrow> int" where
  "if_zero v n = (if v = 0 then n else v)"

subsection \<open>Deletes and their cascades\<close>

definition remove_runs :: "(event_run \<Rightarrow> bool) \<Rightarrow> database \<Rightarrow> database" where
  "remove_runs p d =
     (let gone = map er_id (filter p (runs_of d)) in
      d\<lparr>runs_of := filter (\<lambda>r. \<not> p r) (runs_of d),
        deliveries_of := filter (\<lambda>n. nd_event_run_id n \<notin> set gone) (deliveries_of d)\<rparr>)"

definition remove_matches :: "(matched_email \<Rightarrow> bool) \<Rightarrow> database \<Rightarrow> database" where
  "remove_matches p d =
     (let gone = map me_id (filter p (matches_of d)) in
      remove_runs (\<lambda>r. er_matched_email_id r \<in> set gone)
        (d\<lparr>matches_of := filter (\<lambda>m. \<not> p m) (matches_of d)\<rparr>))"

definition remove_events :: "(watcher_event \<Rightarrow> bool) \<Rightarrow> database \<Rightarrow> database" where
  "remove_events p d =
     (let gone = map we_id (filter p (events_of d)) in
      remove_runs (\<lambda>r. er_watcher_event_id r \<in> set gone)
        (d\<lparr>events_of := filter (\<lambda>e. \<not> p e) (events_of d),
           event_notifiers_of :=
             filter (\<lambda>l. wen_watcher_event_id l \<notin> set gone) (event_notifiers_of d)\<rparr>))"

definition remove_filters :: "(watcher_filter \<Rightarrow> bool) \<Rightarrow> database \<Rightarrow> database" where
  "remove_filters p d = d\<lparr>filters_of := filter (\<lambda>f. \<not> p f) (filters_of d)\<rparr>"

definition remove_watcher :: "string \<Rightarrow> database \<Rightarrow> database option" where
  "remove_watcher i d = Some
     (remove_filters (\<lambda>f. wf_watcher_id f = i)
       (remove_events (\<lambda>e. we_watcher_id e = i)
         (remove_matches (\<lambda>m. me_watcher_id m = i)
           (d\<lparr>watchers_of := filter (\<lambda>x. wa_id x \<noteq> i) (watchers_of d)\<rparr>))))"

definition remove_account :: "string \<Rightarrow> database \<Rightarrow> database option" where
  "remove_account i d =
     (if list_ex (\<lambda>x. wa_mail_account_id x = i) (watchers_of d) then None
      else Some (remove_matches (\<lambda>m. me_mail_account_id m = i)
        (d\<lparr>accounts_of := filter (\<lambda>a. ma_id a \<noteq> i) (accounts_of d),
           sync_runs_of := filter (\<lambda>s. sr_mail_account_id s \<noteq> i) (sync_runs_of d)\<rparr>)))"

definition remove_notifier :: "string \<Rightarrow> database \<Rightarrow> database option" where
  "remove_notifier i d =
     (if list_ex (\<lambda>l. wen_notifier_id l = i) (event_notifiers_of d) then None
      else Some (d\<lparr>notifiers_of := filter (\<lambda>n. no_id n \<noteq> i) (notifiers_of d),
        deliveries_of := update_where (\<lambda>n. nd_notifier_id n = Some i)
          (\<lambda>n. n\<lparr>nd_notifier_id := None\<rparr>) (deliveries_of d)\<rparr>))"

subsection \<open>The tables\<close>

definition users_table :: "user table" where
  "users_table = \<lparr>tb_rows = users_of, tb_put = (\<lambda>xs d. d\<lparr>users_of := xs\<rparr>),
     tb_key = u_id, tb_owner = u_id,
     tb_check = (\<lambda>d x. unique_on u_id u_email x (users_of d)),
     tb_stamp = (\<lambda>n x. x\<lparr>u_created_at := if_zero (u_created_at x) n, u_updated_at := if_zero (u_updated_at x) n\<rparr>),
     tb_touch = (\<lambda>n x. x\<lparr>u_updated_at := n\<rparr>),
     tb_remove = (\<lambda>i d. None)\<rparr>"

definition sessions_table :: "user_session table" where
  "sessions_table = \<lparr>tb_rows = sessions_of, tb_put = (\<lambda>xs d. d\<lparr>sessions_of := xs\<rparr>),
     tb_key = us_id, tb_owner = us_user_id,
     tb_check = (\<lambda>d x. unique_on us_id us_token_hash x (sessions_of d)
       \<and> has_id u_id (us_user_id x) (users_of d) \<and> opt_ref u_id (us_impersonated_by x) (users_of d)),
     tb_stamp = (\<lambda>n x. x\<lparr>us_created_at := if_zero (us_created_at x) n, us_updated_at := if_zero (us_updated_at x) n\<rparr>),
     tb_touch = (\<lambda>n x. x\<lparr>us_updated_at := n\<rparr>),
     tb_remove = (\<lambda>i d. Some (d\<lparr>sessions_of := filter (\<lambda>s. us_id s \<noteq> i) (sessions_of d)\<rparr>))\<rparr>"

definition audit_table :: "audit_log table" where
  "audit_table = \<lparr>tb_rows = audit_logs_of, tb_put = (\<lambda>xs d. d\<lparr>audit_logs_of := xs\<rparr>),
     tb_key = al_id, tb_owner = (\<lambda>x. []),
     tb_check = (\<lambda>d x. opt_ref u_id (al_actor_user_id x) (users_of d)
       \<and> opt_ref u_id (al_impersonated_user_id x) (users_of d)),
     tb_stamp = (\<lambda>n x. x\<lparr>al_created_at := if_zero (al_created_at x) n\<rparr>),
     tb_touch = (\<lambda>n x. x),
     tb_remove = (\<lambda>i d. Some (d\<lparr>audit_logs_of := filter (\<lambda>s. al_id s \<noteq> i) (audit_logs_of d)\<rparr>))\<rparr>"

definition accounts_table :: "mail_account table" where
  "accounts_table = \<lparr>tb_rows = accounts_of, tb_put = (\<lambda>xs d. d\<lparr>accounts_of := xs\<rparr>),
     tb_key = ma_id, tb_owner = ma_user_id,
     tb_check = (\<lambda>d x. unique_on ma_id (\<lambda>a. (ma_user_id a, ma_email_address a)) x (accounts_of d)
       \<and> has_id u_id (ma_user_id x) (users_of d) \<and> has_id mp_slug (ma_provider x) (providers_of d)),
     tb_stamp = (\<lambda>n x. x\<lparr>ma_created_at := if_zero (ma_created_at x) n, ma_updated_at := if_zero (ma_updated_at x) n\<rparr>),
     tb_touch = (\<lambda>n x. x\<lparr>ma_updated_at := n\<rparr>),
     tb_remove = remove_account\<rparr>"

definition sync_runs_table :: "mail_sync_run table" where
  "sync_runs_table = \<lparr>tb_rows = sync_runs_of, tb_put = (\<lambda>xs d. d\<lparr>sync_runs_of := xs\<rparr>),
     tb_key = sr_id, tb_owner = (\<lambda>x. []),
     tb_check = (\<lambda>d x. has_id ma_id (sr_mail_account_id x) (accounts_of d)),
     tb_stamp = (\<lambda>n x. x\<lparr>sr_created_at := if_zero (sr_created_at x) n, sr_updated_at := if_zero (sr_updated_at x) n\<rparr>),
     tb_touch = (\<lambda>n x. x\<lparr>sr_updated_at := n\<rparr>),
     tb_remove = (\<lambda>i d. Some (d\<lparr>sync_runs_of := filter (\<lambda>s. sr_id s \<noteq> i) (sync_runs_of d)\<rparr>))\<rparr>"

definition watchers_table :: "watcher table" where
  "watchers_table = \<lparr>tb_rows = watchers_of, tb_put = (\<lambda>xs d. d\<lparr>watchers_of := xs\<rparr>),
     tb_key = wa_id, tb_owner = wa_user_id,
     tb_check = (\<lambda>d x. has_id u_id (wa_user_id x) (users_of d)
       \<and> has_id ma_id (wa_mail_account_id x) (accounts_of d)),
     tb_stamp = (\<lambda>n x. x\<lparr>wa_created_at := if_zero (wa_created_at x) n, wa_updated_at := if_zero (wa_updated_at x) n\<rparr>),
     tb_touch = (\<lambda>n x. x\<lparr>wa_updated_at := n\<rparr>),
     tb_remove = remove_watcher\<rparr>"

definition filters_table :: "watcher_filter table" where
  "filters_table = \<lparr>tb_rows = filters_of, tb_put = (\<lambda>xs d. d\<lparr>filters_of := xs\<rparr>),
     tb_key = wf_id, tb_owner = (\<lambda>x. []),
     tb_check = (\<lambda>d x. has_id wa_id (wf_watcher_id x) (watchers_of d)
       \<and> (wf_field x \<noteq> FieldHeader \<or> wf_header_name x \<noteq> None)),
     tb_stamp = (\<lambda>n x. x\<lparr>wf_created_at := if_zero (wf_created_at x) n, wf_updated_at := if_zero (wf_updated_at x) n\<rparr>),
     tb_touch = (\<lambda>n x. x\<lparr>wf_updated_at := n\<rparr>),
     tb_remove = (\<lambda>i d. Some (remove_filters (\<lambda>f. wf_id f = i) d))\<rparr>"

definition events_table :: "watcher_event table" where
  "events_table = \<lparr>tb_rows = events_of, tb_put = (\<lambda>xs d. d\<lparr>events_of := xs\<rparr>),
     tb_key = we_id, tb_owner = (\<lambda>x. []),
     tb_check = (\<lambda>d x. has_id wa_id (we_watcher_id x) (watchers_of d)
       \<and> (we_run_mode x \<noteq> RunModeRecurring \<or> we_repeat_interval_seconds x \<noteq> None \<or> we_cron_expression x \<noteq> None)
       \<and> (case we_repeat_max x of None \<Rightarrow> True | Some n \<Rightarrow> 0 < n)),
     tb_stamp = (\<lambda>n x. x\<lparr>we_created_at := if_zero (we_created_at x) n, we_updated_at := if_zero (we_updated_at x) n\<rparr>),
     tb_touch = (\<lambda>n x. x\<lparr>we_updated_at := n\<rparr>),
     tb_remove = (\<lambda>i d. Some (remove_events (\<lambda>e. we_id e = i) d))\<rparr>"

definition notifiers_table :: "notifier table" where
  "notifiers_table = \<lparr>tb_rows = notifiers_of, tb_put = (\<lambda>xs d. d\<lparr>notifiers_of := xs\<rparr>),
     tb_key = no_id, tb_owner = no_user_id,
     tb_check = (\<lambda>d x. unique_on no_id (\<lambda>n. (no_user_id n, no_name n)) x (notifiers_of d)
       \<and> has_id u_id (no_user_id x) (users_of d)),
     tb_stamp = (\<lambda>n x. x\<lparr>no_created_at := if_zero (no_created_at x) n, no_updated_at := if_zero (no_updated_at x) n\<rparr>),
     tb_touch = (\<lambda>n x. x\<lparr>no_updated_at := n\<rparr>),
     tb_remove = remove_notifier\<rparr>"

definition matches_table :: "matched_email table" where
  "matches_table = \<lparr>tb_rows = matches_of, tb_put = (\<lambda>xs d. d\<lparr>matches_of := xs\<rparr>),
     tb_key = me_id, tb_owner = me_user_id,
     tb_check = (\<lambda>d x. unique_on me_id (\<lambda>m. (me_watcher_id m, me_message_id m)) x (matches_of d)
       \<and> has_id u_id (me_user_id x) (users_of d) \<and> has_id wa_id (me_watcher_id x) (watchers_of d)
       \<and> has_id ma_id (me_mail_account_id x) (accounts_of d)),
     tb_stamp = (\<lambda>n x. x\<lparr>me_created_at := if_zero (me_created_at x) n, me_updated_at := if_zero (me_updated_at x) n\<rparr>),
     tb_touch = (\<lambda>n x. x\<lparr>me_updated_at := n\<rparr>),
     tb_remove = (\<lambda>i d. Some (remove_matches (\<lambda>m. me_id m = i) d))\<rparr>"

definition run_slot :: "event_run \<Rightarrow> string \<times> string \<times> int" where
  "run_slot r = (er_matched_email_id r, er_watcher_event_id r, er_occurrence r)"

definition runs_table :: "event_run table" where
  "runs_table = \<lparr>tb_rows = runs_of, tb_put = (\<lambda>xs d. d\<lparr>runs_of := xs\<rparr>),
     tb_key = er_id, tb_owner = er_user_id,
     tb_check = (\<lambda>d x. unique_on er_id run_slot x (runs_of d)
       \<and> has_id u_id (er_user_id x) (users_of d)
       \<and> has_id me_id (er_matched_email_id x) (matches_of d)
       \<and> has_id we_id (er_watcher_event_id x) (events_of d) \<and> 0 < er_occurrence x),
     tb_stamp = (\<lambda>n x. x\<lparr>er_created_at := if_zero (er_created_at x) n, er_updated_at := if_zero (er_updated_at x) n\<rparr>),
     tb_touch = (\<lambda>n x. x\<lparr>er_updated_at := n\<rparr>),
     tb_remove = (\<lambda>i d. Some (remove_runs (\<lambda>r. er_id r = i) d))\<rparr>"

definition deliveries_table :: "notification_delivery table" where
  "deliveries_table = \<lparr>tb_rows = deliveries_of, tb_put = (\<lambda>xs d. d\<lparr>deliveries_of := xs\<rparr>),
     tb_key = nd_id, tb_owner = (\<lambda>x. []),
     tb_check = (\<lambda>d x. has_id er_id (nd_event_run_id x) (runs_of d)
       \<and> opt_ref no_id (nd_notifier_id x) (notifiers_of d)),
     tb_stamp = (\<lambda>n x. x\<lparr>nd_created_at := if_zero (nd_created_at x) n, nd_updated_at := if_zero (nd_updated_at x) n\<rparr>),
     tb_touch = (\<lambda>n x. x\<lparr>nd_updated_at := n\<rparr>),
     tb_remove = (\<lambda>i d. Some (d\<lparr>deliveries_of := filter (\<lambda>s. nd_id s \<noteq> i) (deliveries_of d)\<rparr>))\<rparr>"

subsection \<open>The generic repository\<close>

abbreviation ErrConstraint :: err where
  "ErrConstraint \<equiv> DbErr ''violates a constraint''"

definition insert_row :: "'a table \<Rightarrow> 'a \<Rightarrow> database \<Rightarrow> (err + 'a) \<times> database" where
  "insert_row T x d =
     (if has_id (tb_key T) (tb_key T x) (tb_rows T d) \<or> \<not> tb_check T d x then (Inl ErrConstraint, d)
      else (Inr x, tb_put T (tb_rows T d @ [x]) d))"

definition save_row :: "'a table \<Rightarrow> 'a \<Rightarrow> database \<Rightarrow> (err + 'a) \<times> database" where
  "save_row T x d =
     (if \<not> tb_check T d x then (Inl ErrConstraint, d)
      else if has_id (tb_key T) (tb_key T x) (tb_rows T d)
      then (Inr x, tb_put T (update_where (\<lambda>y. tb_key T y = tb_key T x) (\<lambda>_. x) (tb_rows T d)) d)
      else (Inr x, tb_put T (tb_rows T d @ [x]) d))"

definition Repo_Create :: "'a table \<Rightarrow> 'a \<Rightarrow> 'a ioE" where
  "Repo_Create T x = do { now \<leftarrow> now_milli; stmt (insert_row T (tb_stamp T now x)) }"

fun chunks :: "nat \<Rightarrow> 'a list \<Rightarrow> 'a list list" where
  "chunks n [] = []"
| "chunks n (x # xs) = (x # take n xs) # chunks n (drop n xs)"

fun insert_rows :: "'a table \<Rightarrow> 'a list \<Rightarrow> database \<Rightarrow> (err + unit) \<times> database" where
  "insert_rows T [] d = (Inr (), d)"
| "insert_rows T (x # xs) d =
     (case insert_row T x d of
        (Inl e, _) \<Rightarrow> (Inl e, d)
      | (Inr _, d') \<Rightarrow> (case insert_rows T xs d' of (Inl e, _) \<Rightarrow> (Inl e, d) | (Inr _, d'') \<Rightarrow> (Inr (), d'')))"

text \<open>A batch of \<open>size\<close> rows is one insert statement, which writes all of its rows or none.\<close>

definition Repo_CreateInBatch :: "'a table \<Rightarrow> 'a list \<Rightarrow> nat \<Rightarrow> unit ioE" where
  "Repo_CreateInBatch T xs n =
     (if xs = [] then returnE ()
      else do { now \<leftarrow> now_milli;
                forE (chunks (n - 1) (map (tb_stamp T now) xs)) (\<lambda>b. stmt (insert_rows T b)) })"

definition Repo_Update :: "'a table \<Rightarrow> 'a \<Rightarrow> 'a ioE" where
  "Repo_Update T x = do { now \<leftarrow> now_milli; stmt (save_row T (tb_stamp T now (tb_touch T now x))) }"

definition Repo_Delete :: "'a table \<Rightarrow> 'a \<Rightarrow> unit ioE" where
  "Repo_Delete T x = stmt (\<lambda>d. case tb_remove T (tb_key T x) d of
      None \<Rightarrow> (Inl ErrConstraint, d) | Some d' \<Rightarrow> (Inr (), d'))"

definition Repo_CountById :: "'a table \<Rightarrow> string \<Rightarrow> int ioE" where
  "Repo_CountById T i = query (\<lambda>d. Inr (int (length (filter (\<lambda>x. tb_key T x = i) (tb_rows T d)))))"

definition take_row :: "('a \<Rightarrow> bool) \<Rightarrow> 'a list \<Rightarrow> err + 'a" where
  "take_row p xs = (case take_first p xs of None \<Rightarrow> Inl RecordNotFound | Some x \<Rightarrow> Inr x)"

definition Repo_FindById :: "'a table \<Rightarrow> string \<Rightarrow> 'a ioE" where
  "Repo_FindById T i = query (\<lambda>d. take_row (\<lambda>x. tb_key T x = i) (tb_rows T d))"

definition Repo_FindByIdAndUser :: "'a table \<Rightarrow> string \<Rightarrow> string \<Rightarrow> 'a ioE" where
  "Repo_FindByIdAndUser T i user =
     query (\<lambda>d. take_row (\<lambda>x. tb_key T x = i \<and> tb_owner T x = user) (tb_rows T d))"

definition Repo_CountBy :: "'a table \<Rightarrow> int ioE" where
  "Repo_CountBy T = query (\<lambda>d. Inr (int (length (tb_rows T d))))"

text \<open>A scoped query is the list of rows it selects, in its order.\<close>

definition Repo_Paginate :: "(database \<Rightarrow> 'a list) \<Rightarrow> int \<Rightarrow> int \<Rightarrow> ('a list \<times> int) ioE" where
  "Repo_Paginate q page sz =
     bindE (query (\<lambda>d. Inr (int (length (q d))))) (\<lambda>total.
     let offset = (page - 1) * sz in
     bindE (query (\<lambda>d. Inr (take (nat sz) (drop (nat offset) (q d))))) (\<lambda>out.
     returnE (out, total)))"


subsection \<open>What a write that succeeded did\<close>

lemma Repo_Create_ok:
  assumes "run_state (Repo_Create T x) w = (Inr y, w')"
  shows "\<exists>n. y = tb_stamp T n x \<and> insert_row T y (wdb w) = (Inr y, wdb w')"
  using assms
  by (auto simp: Repo_Create_def run_stmt insert_row_def split: option.splits if_splits)

lemma Repo_Update_ok:
  assumes "run_state (Repo_Update T x) w = (Inr y, w')"
  shows "\<exists>n. y = tb_stamp T n (tb_touch T n x) \<and> save_row T y (wdb w) = (Inr y, wdb w')"
  using assms
  by (auto simp: Repo_Update_def run_stmt save_row_def split: option.splits if_splits)

lemma Repo_Delete_ok:
  assumes "run_state (Repo_Delete T x) w = (Inr u, w')"
  shows "tb_remove T (tb_key T x) (wdb w) = Some (wdb w')"
  using assms by (auto simp: Repo_Delete_def run_stmt split: option.splits)

lemma concat_chunks: "concat (chunks n xs) = xs"
  by (induction n xs rule: chunks.induct) simp_all

subsection \<open>What a table owes its repository\<close>

locale table_laws =
  fixes T :: "'a table"
  assumes rows_put [simp]: "tb_rows T (tb_put T xs d) = xs"
    and put_rows: "tb_put T (tb_rows T d) d = d"
    and put_put: "tb_put T ys (tb_put T xs d) = tb_put T ys d"
    and key_stamp [simp]: "tb_key T (tb_stamp T n x) = tb_key T x"
    and key_touch [simp]: "tb_key T (tb_touch T n x) = tb_key T x"
begin

definition keys_distinct :: "database \<Rightarrow> bool" where
  "keys_distinct d \<longleftrightarrow> distinct (map (tb_key T) (tb_rows T d))"

lemma insert_row_ok:
  "insert_row T x d = (Inr y, d') \<Longrightarrow>
   y = x \<and> tb_rows T d' = tb_rows T d @ [x] \<and> \<not> has_id (tb_key T) (tb_key T x) (tb_rows T d)"
  by (auto simp: insert_row_def split: if_splits)

lemma insert_rows_ok:
  "insert_rows T xs d = (Inr u, d') \<Longrightarrow> d' = tb_put T (tb_rows T d @ xs) d"
proof (induction xs arbitrary: d)
  case Nil
  then show ?case by (simp add: put_rows)
next
  case (Cons x xs)
  then obtain d1 y where x: "insert_row T x d = (Inr y, d1)" and xs: "insert_rows T xs d1 = (Inr u, d')"
    by (auto split: prod.splits sum.splits)
  have "d1 = tb_put T (tb_rows T d @ [x]) d" using x by (auto simp: insert_row_def split: if_splits)
  with Cons.IH [OF xs] show ?case by (simp add: put_put)
qed

lemma run_batches:
  "run_state (forE bs (\<lambda>b. stmt (insert_rows T b))) w = (Inr u, w') \<Longrightarrow>
   wdb w' = tb_put T (tb_rows T (wdb w) @ concat bs) (wdb w)"
proof (induction bs arbitrary: w)
  case Nil
  then show ?case by (simp add: put_rows)
next
  case (Cons b bs)
  then obtain v w1 where b: "run_state (stmt (insert_rows T b)) w = (Inr v, w1)"
    and bs: "run_state (forE bs (\<lambda>b. stmt (insert_rows T b))) w1 = (Inr u, w')"
    unfolding forE.simps by (elim bindE_okE) (rule that)
  have "insert_rows T b (wdb w) = (Inr v, wdb w1)" using b by (auto simp: run_stmt prod_eq_iff split: option.splits)
  from insert_rows_ok [OF this] Cons.IH [OF bs] show ?case by (simp add: put_put)
qed

lemma CreateInBatch_ok:
  assumes "run_state (Repo_CreateInBatch T xs n) w = (Inr u, w')"
  shows "\<exists>t. wdb w' = tb_put T (tb_rows T (wdb w) @ map (tb_stamp T t) xs) (wdb w)"
proof (cases "xs = []")
  case True
  with assms show ?thesis by (simp add: Repo_CreateInBatch_def put_rows)
next
  case False
  let ?t = "unix_milli (clock w (ticks w))"
  have "run_state (forE (chunks (n - 1) (map (tb_stamp T ?t) xs)) (\<lambda>b. stmt (insert_rows T b)))
      (w\<lparr>ticks := Suc (ticks w)\<rparr>) = (Inr u, w')"
    using assms False by (simp add: Repo_CreateInBatch_def)
  from run_batches [OF this] show ?thesis by (auto simp: concat_chunks)
qed

lemma save_row_ok:
  "save_row T x d = (Inr y, d') \<Longrightarrow>
   y = x \<and> tb_rows T d' = (if has_id (tb_key T) (tb_key T x) (tb_rows T d)
     then update_where (\<lambda>z. tb_key T z = tb_key T x) (\<lambda>_. x) (tb_rows T d)
     else tb_rows T d @ [x])"
  by (auto simp: save_row_def split: if_splits)

lemma insert_row_error: "insert_row T x d = (Inl e, d') \<Longrightarrow> d' = d"
  by (auto simp: insert_row_def split: if_splits)

lemma save_row_error: "save_row T x d = (Inl e, d') \<Longrightarrow> d' = d"
  by (auto simp: save_row_def split: if_splits)

lemma keys_distinct_insert: "keys_distinct d \<Longrightarrow> keys_distinct (snd (insert_row T x d))"
  by (auto simp: keys_distinct_def insert_row_def list_ex_iff)

lemma keys_distinct_save: "keys_distinct d \<Longrightarrow> keys_distinct (snd (save_row T x d))"
  by (auto simp: keys_distinct_def save_row_def list_ex_iff map_update_where)

lemma take_first_saved:
  "has_id key (key x) xs \<Longrightarrow>
   take_first (\<lambda>y. key y = key x) (update_where (\<lambda>y. key y = key x) (\<lambda>_. x) xs) = Some x"
  by (induction xs) auto

lemma create_then_find:
  assumes "db_up w" and "run_state (Repo_Create T x) w = (Inr y, w')"
  shows "fst (run_state (Repo_FindById T (tb_key T x)) w') = Inr y"
proof -
  let ?x = "tb_stamp T (unix_milli (clock w (ticks w))) x"
  have ins: "insert_row T ?x (wdb w) = (Inr y, wdb w')" and up: "db_up w'"
    using assms by (auto simp: Repo_Create_def prod_eq_iff)
  from insert_row_ok [OF ins] have "take_first (\<lambda>z. tb_key T z = tb_key T x) (tb_rows T (wdb w')) = Some y"
    by (auto simp: take_first_append take_first_None list_ex_iff split: option.splits
        dest: take_first_Some)
  then show ?thesis using up by (simp add: Repo_FindById_def take_row_def)
qed

lemma update_then_find:
  assumes "db_up w" and "run_state (Repo_Update T x) w = (Inr y, w')"
  shows "fst (run_state (Repo_FindById T (tb_key T x)) w') = Inr y"
proof -
  let ?n = "unix_milli (clock w (ticks w))"
  let ?x = "tb_stamp T ?n (tb_touch T ?n x)"
  have sv: "save_row T ?x (wdb w) = (Inr y, wdb w')" and up: "db_up w'"
    using assms by (auto simp: Repo_Update_def prod_eq_iff)
  note rows = save_row_ok [OF sv]
  have "take_first (\<lambda>z. tb_key T z = tb_key T ?x) (tb_rows T (wdb w')) = Some ?x"
  proof (cases "has_id (tb_key T) (tb_key T ?x) (tb_rows T (wdb w))")
    case True
    then have "tb_rows T (wdb w') =
        update_where (\<lambda>z. tb_key T z = tb_key T ?x) (\<lambda>_. ?x) (tb_rows T (wdb w))"
      using rows by simp
    then show ?thesis using take_first_saved [OF True] by simp
  next
    case False
    then have "tb_rows T (wdb w') = tb_rows T (wdb w) @ [?x]"
      using rows by simp
    moreover have "take_first (\<lambda>z. tb_key T z = tb_key T ?x) (tb_rows T (wdb w)) = None"
      using False by (simp add: take_first_None list_ex_iff)
    ultimately show ?thesis by (simp add: take_first_append)
  qed
  then show ?thesis using up rows by (simp add: Repo_FindById_def take_row_def)
qed

lemma save_row_others:
  "filter (\<lambda>y. tb_key T y \<noteq> tb_key T x) (tb_rows T (snd (save_row T x d))) =
   filter (\<lambda>y. tb_key T y \<noteq> tb_key T x) (tb_rows T d)"
proof -
  have "filter (\<lambda>y. key y \<noteq> key x) (update_where (\<lambda>y. key y = key x) (\<lambda>_. x) xs) =
        filter (\<lambda>y. key y \<noteq> key x) xs" for key :: "'a \<Rightarrow> string" and xs
    by (induction xs) auto
  then show ?thesis by (simp add: save_row_def)
qed

end

named_theorems table_defs \<open>the components of the tables\<close>

lemmas all_table_defs [table_defs] =
  users_table_def sessions_table_def audit_table_def accounts_table_def sync_runs_table_def
  watchers_table_def filters_table_def events_table_def notifiers_table_def matches_table_def
  runs_table_def deliveries_table_def

interpretation users: table_laws users_table by unfold_locales (simp_all add: table_defs)
interpretation sessions: table_laws sessions_table by unfold_locales (simp_all add: table_defs)
interpretation audit: table_laws audit_table by unfold_locales (simp_all add: table_defs)
interpretation accounts: table_laws accounts_table by unfold_locales (simp_all add: table_defs)
interpretation sync_runs: table_laws sync_runs_table by unfold_locales (simp_all add: table_defs)
interpretation watchers: table_laws watchers_table by unfold_locales (simp_all add: table_defs)
interpretation filters: table_laws filters_table by unfold_locales (simp_all add: table_defs)
interpretation events: table_laws events_table by unfold_locales (simp_all add: table_defs)
interpretation notifiers: table_laws notifiers_table by unfold_locales (simp_all add: table_defs)
interpretation matches: table_laws matches_table by unfold_locales (simp_all add: table_defs)
interpretation runs: table_laws runs_table by unfold_locales (simp_all add: table_defs)
interpretation deliveries: table_laws deliveries_table by unfold_locales (simp_all add: table_defs)

subsection \<open>Tenancy of the scoped read\<close>

lemma FindByIdAndUser_row:
  "run_state (Repo_FindByIdAndUser T i user) w = (Inr x, w') \<Longrightarrow>
   x \<in> set (tb_rows T (wdb w)) \<and> tb_key T x = i \<and> tb_owner T x = user \<and> wdb w' = wdb w"
  by (auto simp: Repo_FindByIdAndUser_def query_def run_stmt take_row_def
      split: option.splits dest!: take_first_Some)

lemma FindById_row:
  "run_state (Repo_FindById T i) w = (Inr x, w') \<Longrightarrow>
   x \<in> set (tb_rows T (wdb w)) \<and> tb_key T x = i \<and> wdb w' = wdb w"
  by (auto simp: Repo_FindById_def query_def run_stmt take_row_def
      split: option.splits dest!: take_first_Some)

lemma pres_Repo_reads [pres]:
  "preserves (db_inv K) (Repo_FindById T i)"
  "preserves (db_inv K) (Repo_FindByIdAndUser T i u)"
  "preserves (db_inv K) (Repo_CountById T i)"
  "preserves (db_inv K) (Repo_CountBy T)"
  by (simp_all add: Repo_FindById_def Repo_FindByIdAndUser_def Repo_CountById_def Repo_CountBy_def pres_query)

lemma up_Repo [pres]:
  "preserves db_up (Repo_FindById T i)"
  "preserves db_up (Repo_FindByIdAndUser T i u)"
  "preserves db_up (Repo_Create T x)"
  "preserves db_up (Repo_Update T x)"
  "preserves db_up (Repo_Delete T x)"
  "preserves db_up (Repo_CreateInBatch T xs n)"
  by (simp_all add: Repo_FindById_def Repo_FindByIdAndUser_def Repo_Create_def Repo_Update_def
      Repo_Delete_def Repo_CreateInBatch_def pres)

lemma env_Repo [pres]:
  "preserves (same_env v) (Repo_FindById T i)"
  "preserves (same_env v) (Repo_FindByIdAndUser T i u)"
  "preserves (same_env v) (Repo_Create T x)"
  "preserves (same_env v) (Repo_Update T x)"
  "preserves (same_env v) (Repo_Delete T x)"
  by (simp_all add: Repo_FindById_def Repo_FindByIdAndUser_def Repo_Create_def Repo_Update_def
      Repo_Delete_def pres)

lemma pres_Repo_Paginate [pres]: "preserves (db_inv K) (Repo_Paginate q p n)"
  unfolding Repo_Paginate_def Let_def by (intro pres)

lemma pres_Repo_Create:
  "(\<And>d n. K d \<Longrightarrow> K (snd (insert_row T (tb_stamp T n x) d))) \<Longrightarrow> preserves (db_inv K) (Repo_Create T x)"
  unfolding Repo_Create_def by (intro preserves_bind pres_now_milli pres_stmt) auto

lemma pres_Repo_Update:
  "(\<And>d n. K d \<Longrightarrow> K (snd (save_row T (tb_stamp T n (tb_touch T n x)) d))) \<Longrightarrow>
   preserves (db_inv K) (Repo_Update T x)"
  unfolding Repo_Update_def by (intro preserves_bind pres_now_milli pres_stmt) auto

lemma pres_Repo_Delete:
  "(\<And>d d'. K d \<Longrightarrow> tb_remove T (tb_key T x) d = Some d' \<Longrightarrow> K d') \<Longrightarrow>
   preserves (db_inv K) (Repo_Delete T x)"
  unfolding Repo_Delete_def by (rule pres_stmt) (auto split: option.splits)

end
