(* ===== verification/Repositories.thy ===== *)
theory Repositories
  imports Tables
begin

text \<open>
  The queries of package \<open>internal/repository\<close>, one definition per method.  \<open>Where\<close> is a
  filter of the table, \<open>Order\<close> a stable sort of it, \<open>Limit\<close> a prefix; a \<open>Search\<close> method
  returns the scoped query itself (a function of the rows), which \<open>Repo_Paginate\<close> runs.
  Rows that another transaction holds are skipped by the queue claims (\<open>SKIP LOCKED\<close>); which
  ones those are is the parameter \<open>locked\<close>.  Pattern matching of \<open>ILIKE\<close> and the date format
  of Postgres are parameters (\<open>ilike\<close>, \<open>day\<close>).
\<close>

text \<open>\<open>db.Model(T).Where(p).Update(...)\<close>: sets columns and \<open>updated_at\<close>, reports the rows affected.\<close>

definition Repo_UpdateWhere :: "'a table \<Rightarrow> ('a \<Rightarrow> bool) \<Rightarrow> ('a \<Rightarrow> 'a) \<Rightarrow> int ioE" where
  "Repo_UpdateWhere T p f = do { now \<leftarrow> now_milli;
     stmt (\<lambda>d. (Inr (int (length (filter p (tb_rows T d)))),
                tb_put T (update_where p (\<lambda>x. tb_touch T now (f x)) (tb_rows T d)) d)) }"

lemma Repo_UpdateWhere_ok:
  assumes "run_state (Repo_UpdateWhere T p f) w = (Inr k, w')"
  shows "\<exists>n. k = int (length (filter p (tb_rows T (wdb w))))
    \<and> wdb w' = tb_put T (update_where p (\<lambda>x. tb_touch T n (f x)) (tb_rows T (wdb w))) (wdb w)"
  using assms by (auto simp: Repo_UpdateWhere_def run_stmt split: option.splits)

definition where_if :: "string \<Rightarrow> ('a \<Rightarrow> bool) \<Rightarrow> 'a list \<Rightarrow> 'a list" where
  "where_if v p xs = (if v \<noteq> [] then filter p xs else xs)"

definition where_pos :: "int \<Rightarrow> ('a \<Rightarrow> bool) \<Rightarrow> 'a list \<Rightarrow> 'a list" where
  "where_pos v p xs = (if v > 0 then filter p xs else xs)"

definition count_rows :: "('a \<Rightarrow> bool) \<Rightarrow> 'a list \<Rightarrow> int" where
  "count_rows p xs = int (length (filter p xs))"

subsection \<open>helper.go\<close>

definition add_count :: "status_counts \<Rightarrow> string \<Rightarrow> int \<Rightarrow> status_counts" where
  "add_count c v n =
     (let c' = c(v \<mapsto> n) in c'(''total'' \<mapsto> (case c' ''total'' of None \<Rightarrow> 0 | Some t \<Rightarrow> t) + n))"

definition countByColumn :: "('a \<Rightarrow> string) \<Rightarrow> 'a list \<Rightarrow> status_counts" where
  "countByColumn col xs =
     foldl (\<lambda>c v. add_count c v (count_rows (\<lambda>x. col x = v) xs)) Map.empty (remdups (map col xs))"

definition countByUsers :: "('a \<Rightarrow> string) \<Rightarrow> (database \<Rightarrow> 'a list) \<Rightarrow> string list \<Rightarrow> (string \<rightharpoonup> int) ioE" where
  "countByUsers user rows ids =
     (if ids = [] then returnE Map.empty
      else query (\<lambda>d. Inr (\<lambda>u. if u \<in> set ids \<and> list_ex (\<lambda>x. user x = u) (rows d)
                              then Some (count_rows (\<lambda>x. user x = u) (rows d)) else None)))"

definition count_of :: "(string \<rightharpoonup> int) \<Rightarrow> string \<Rightarrow> int" where
  "count_of m k = (case m k of None \<Rightarrow> 0 | Some n \<Rightarrow> n)"

subsection \<open>event_run_repository.go\<close>

definition ClaimDue :: "(string \<Rightarrow> bool) \<Rightarrow> int \<Rightarrow> int \<Rightarrow> event_run list ioE" where
  "ClaimDue locked now limit = query (\<lambda>d. Inr (order_limit er_scheduled_at limit
     (filter (\<lambda>r. er_status r = RunStatusPending \<and> er_scheduled_at r \<le> now \<and> \<not> locked (er_id r)) (runs_of d))))"

definition watcher_event_ids :: "database \<Rightarrow> string \<Rightarrow> string set" where
  "watcher_event_ids d watcherID = set (map we_id (filter (\<lambda>e. we_watcher_id e = watcherID) (events_of d)))"

record run_search =
  rs_user_id :: string
  rs_watcher_id :: string
  rs_matched_email_id :: string
  rs_status :: string
  rs_from :: int
  rs_to :: int

definition EventRun_Search :: "run_search \<Rightarrow> database \<Rightarrow> event_run list" where
  "EventRun_Search q d =
     sort_key (\<lambda>r. - er_created_at r)
      (where_pos (rs_to q) (\<lambda>r. er_created_at r \<le> rs_to q)
      (where_pos (rs_from q) (\<lambda>r. er_created_at r \<ge> rs_from q)
      (where_if (rs_matched_email_id q) (\<lambda>r. er_matched_email_id r = rs_matched_email_id q)
      (where_if (rs_watcher_id q) (\<lambda>r. er_watcher_event_id r \<in> watcher_event_ids d (rs_watcher_id q))
      (where_if (rs_status q) (\<lambda>r. er_status r = rs_status q)
      (where_if (rs_user_id q) (\<lambda>r. er_user_id r = rs_user_id q) (runs_of d)))))))"

definition EventRun_FindByMatch :: "string \<Rightarrow> event_run list ioE" where
  "EventRun_FindByMatch m = query (\<lambda>d. Inr (sort_key er_occurrence
     (filter (\<lambda>r. er_matched_email_id r = m) (runs_of d))))"

definition pending_after :: "string \<Rightarrow> string \<Rightarrow> int \<Rightarrow> event_run \<Rightarrow> bool" where
  "pending_after m e occ r \<longleftrightarrow> er_matched_email_id r = m \<and> er_watcher_event_id r = e
     \<and> er_occurrence r \<ge> occ \<and> er_status r = RunStatusPending"

definition CancelPendingAfter :: "string \<Rightarrow> string \<Rightarrow> int \<Rightarrow> int ioE" where
  "CancelPendingAfter m e occ =
     Repo_UpdateWhere runs_table (pending_after m e occ) (\<lambda>r. r\<lparr>er_status := RunStatusCancelled\<rparr>)"

definition CountByStatusForWatcher :: "string \<Rightarrow> status_counts ioE" where
  "CountByStatusForWatcher w = query (\<lambda>d. Inr (countByColumn er_status
     (filter (\<lambda>r. er_watcher_event_id r \<in> watcher_event_ids d w) (runs_of d))))"

definition CountByStatusSince :: "int \<Rightarrow> status_counts ioE" where
  "CountByStatusSince since = query (\<lambda>d. Inr (countByColumn er_status
     (filter (\<lambda>r. er_created_at r \<ge> since) (runs_of d))))"

definition CountFailedSince :: "string \<Rightarrow> int \<Rightarrow> int ioE" where
  "CountFailedSince user since = query (\<lambda>d. Inr (int (length
     (where_if user (\<lambda>r. er_user_id r = user)
       (filter (\<lambda>r. er_status r = RunStatusFailed \<and> er_created_at r \<ge> since) (runs_of d))))))"

definition QueueDepth :: "int \<Rightarrow> (int \<times> int \<times> int) ioE" where
  "QueueDepth now =
     bindE (query (\<lambda>d. Inr (count_rows (\<lambda>r. er_status r = RunStatusPending) (runs_of d)))) (\<lambda>pending.
     bindE (query (\<lambda>d. Inr (count_rows (\<lambda>r. er_status r = RunStatusPending \<and> er_scheduled_at r \<le> now)
              (runs_of d)))) (\<lambda>overdue.
     bindE (query (\<lambda>d. Inr (let ts = map er_scheduled_at
              (filter (\<lambda>r. er_status r = RunStatusPending) (runs_of d))
              in if ts = [] then None else Some (Min (set ts))))) (\<lambda>oldestScheduled.
     returnE (pending, overdue,
       (case oldestScheduled of None \<Rightarrow> 0
        | Some t \<Rightarrow> if t < now then trunc_div (now - t) 1000 else 0)))))"

definition EventRun_FindRecent :: "string \<Rightarrow> int \<Rightarrow> event_run list ioE" where
  "EventRun_FindRecent user limit = query (\<lambda>d. Inr (order_limit (\<lambda>r. - er_created_at r) limit
     (filter (\<lambda>r. er_user_id r = user) (runs_of d))))"

definition Delivery_FindByRun :: "string \<Rightarrow> notification_delivery list ioE" where
  "Delivery_FindByRun run = query (\<lambda>d. Inr (sort_key nd_created_at
     (filter (\<lambda>n. nd_event_run_id n = run) (deliveries_of d))))"

definition Delivery_FindByRuns :: "string list \<Rightarrow> (string \<Rightarrow> notification_delivery list) ioE" where
  "Delivery_FindByRuns ids =
     (if ids = [] then returnE (\<lambda>_. [])
      else query (\<lambda>d. Inr (\<lambda>run. filter (\<lambda>n. nd_event_run_id n = run)
        (sort_key nd_created_at (filter (\<lambda>n. nd_event_run_id n \<in> set ids) (deliveries_of d))))))"

definition Delivery_Search :: "string \<Rightarrow> string \<Rightarrow> string \<Rightarrow> string \<Rightarrow> database \<Rightarrow> notification_delivery list" where
  "Delivery_Search user run notifier status d =
     sort_key (\<lambda>n. - nd_created_at n)
      (where_if status (\<lambda>n. nd_status n = status)
      (where_if notifier (\<lambda>n. nd_notifier_id n = Some notifier)
      (where_if run (\<lambda>n. nd_event_run_id n = run)
      (where_if user (\<lambda>n. nd_event_run_id n \<in> set (map er_id (filter (\<lambda>r. er_user_id r = user) (runs_of d))))
        (deliveries_of d)))))"

subsection \<open>mail_account_repository.go, mail_provider_repository.go, mail_sync_run_repository.go\<close>

definition MailAccount_Search :: "string \<Rightarrow> string \<Rightarrow> string \<Rightarrow> database \<Rightarrow> mail_account list" where
  "MailAccount_Search user status provider d =
     sort_key (\<lambda>a. - ma_created_at a)
      (where_if provider (\<lambda>a. ma_provider a = provider)
      (where_if status (\<lambda>a. ma_status a = status)
      (where_if user (\<lambda>a. ma_user_id a = user) (accounts_of d))))"

definition FindByUserAndEmail :: "string \<Rightarrow> string \<Rightarrow> mail_account ioE" where
  "FindByUserAndEmail user email =
     query (\<lambda>d. take_row (\<lambda>a. ma_user_id a = user \<and> ma_email_address a = email) (accounts_of d))"

definition MailAccount_CountByEmail :: "string \<Rightarrow> string \<Rightarrow> int ioE" where
  "MailAccount_CountByEmail user email =
     query (\<lambda>d. Inr (count_rows (\<lambda>a. ma_user_id a = user \<and> ma_email_address a = email) (accounts_of d)))"

definition FindDue :: "(string \<Rightarrow> bool) \<Rightarrow> int \<Rightarrow> int \<Rightarrow> mail_account list ioE" where
  "FindDue locked now limit = query (\<lambda>d. Inr (order_limit ma_next_poll_at limit
     (filter (\<lambda>a. ma_status a = MailAccountStatusVerified \<and> ma_next_poll_at a \<le> now \<and> \<not> locked (ma_id a))
       (accounts_of d))))"

definition nulls_first :: "('a \<Rightarrow> int option) \<Rightarrow> 'a list \<Rightarrow> 'a list" where
  "nulls_first k xs = filter (\<lambda>x. k x = None) xs @ sort_key (\<lambda>x. the (k x)) (filter (\<lambda>x. k x \<noteq> None) xs)"

definition FindStale :: "(string \<Rightarrow> bool) \<Rightarrow> int \<Rightarrow> int \<Rightarrow> mail_account list ioE" where
  "FindStale locked before limit = query (\<lambda>d. Inr (take (nat limit) (nulls_first ma_last_verified_at
     (filter (\<lambda>a. ma_status a \<noteq> MailAccountStatusDisabled
         \<and> (case ma_last_verified_at a of None \<Rightarrow> True | Some t \<Rightarrow> t < before) \<and> \<not> locked (ma_id a))
       (accounts_of d)))))"

definition MailAccount_CountByStatus :: "(mail_account \<Rightarrow> bool) \<Rightarrow> status_counts ioE" where
  "MailAccount_CountByStatus p = query (\<lambda>d. Inr (countByColumn ma_status (filter p (accounts_of d))))"

definition MailAccount_CountForUsers :: "string list \<Rightarrow> (string \<rightharpoonup> int) ioE" where
  "MailAccount_CountForUsers ids = countByUsers ma_user_id accounts_of ids"

definition MailAccount_CountForUser :: "string \<Rightarrow> int ioE" where
  "MailAccount_CountForUser u = query (\<lambda>d. Inr (count_rows (\<lambda>a. ma_user_id a = u) (accounts_of d)))"

definition MailProvider_FindBySlug :: "string \<Rightarrow> mail_provider ioE" where
  "MailProvider_FindBySlug slug = query (\<lambda>d. take_row (\<lambda>p. mp_slug p = slug) (providers_of d))"

definition MailProvider_FindEnabled :: "mail_provider list ioE" where
  "MailProvider_FindEnabled = query (\<lambda>d. Inr (sort_key mp_position (filter mp_enabled (providers_of d))))"

definition MailProvider_FindAll :: "mail_provider list ioE" where
  "MailProvider_FindAll = query (\<lambda>d. Inr (sort_key mp_position (providers_of d)))"

definition SyncRun_Search :: "string \<Rightarrow> string \<Rightarrow> database \<Rightarrow> mail_sync_run list" where
  "SyncRun_Search account status d =
     sort_key (\<lambda>s. - sr_started_at s)
      (where_if status (\<lambda>s. sr_status s = status)
      (where_if account (\<lambda>s. sr_mail_account_id s = account) (sync_runs_of d)))"

subsection \<open>matched_email_repository.go\<close>

text \<open>
  \<open>INSERT ... ON CONFLICT (watcher_id, message_id) DO NOTHING\<close>: a duplicate is no row and no
  error; any other violated key is an error.
\<close>

definition insert_if_new :: "matched_email \<Rightarrow> database \<Rightarrow> (err + matched_email \<times> bool) \<times> database" where
  "insert_if_new m d =
     (if list_ex (\<lambda>x. me_watcher_id x = me_watcher_id m \<and> me_message_id x = me_message_id m) (matches_of d)
      then (Inr (m, False), d)
      else (case insert_row matches_table m d of (Inl e, d') \<Rightarrow> (Inl e, d') | (Inr m', d') \<Rightarrow> (Inr (m', True), d')))"

definition CreateIfNew :: "matched_email \<Rightarrow> (matched_email \<times> bool) ioE" where
  "CreateIfNew m = do { now \<leftarrow> now_milli; stmt (insert_if_new (tb_stamp matches_table now m)) }"

record match_search =
  msq_user_id :: string
  msq_watcher_id :: string
  msq_mail_account_id :: string
  msq_from :: int
  msq_to :: int
  msq_query :: string

definition MatchedEmail_Search ::
  "(string \<Rightarrow> string \<Rightarrow> bool) \<Rightarrow> match_search \<Rightarrow> database \<Rightarrow> matched_email list" where
  "MatchedEmail_Search ilike q d =
     (let like = ''%'' @ msq_query q @ ''%'';
          hit = (\<lambda>v. case v of None \<Rightarrow> False | Some s \<Rightarrow> ilike s like) in
      sort_key (\<lambda>m. - me_matched_at m)
      (where_if (msq_query q) (\<lambda>m. hit (me_subject m) \<or> hit (me_from_address m))
      (where_pos (msq_to q) (\<lambda>m. me_matched_at m \<le> msq_to q)
      (where_pos (msq_from q) (\<lambda>m. me_matched_at m \<ge> msq_from q)
      (where_if (msq_mail_account_id q) (\<lambda>m. me_mail_account_id m = msq_mail_account_id q)
      (where_if (msq_watcher_id q) (\<lambda>m. me_watcher_id m = msq_watcher_id q)
      (where_if (msq_user_id q) (\<lambda>m. me_user_id m = msq_user_id q) (matches_of d))))))))"

definition Match_CountSince :: "string \<Rightarrow> int \<Rightarrow> int ioE" where
  "Match_CountSince user since = query (\<lambda>d. Inr (int (length
     (where_if user (\<lambda>m. me_user_id m = user) (filter (\<lambda>m. me_matched_at m \<ge> since) (matches_of d))))))"

definition Match_CountForWatcher :: "string \<Rightarrow> int ioE" where
  "Match_CountForWatcher w = query (\<lambda>d. Inr (count_rows (\<lambda>m. me_watcher_id m = w) (matches_of d)))"

definition Match_CountForUsers :: "string list \<Rightarrow> (string \<rightharpoonup> int) ioE" where
  "Match_CountForUsers ids = countByUsers me_user_id matches_of ids"

definition Match_CountForUser :: "string \<Rightarrow> int ioE" where
  "Match_CountForUser u = query (\<lambda>d. Inr (count_rows (\<lambda>m. me_user_id m = u) (matches_of d)))"

definition DailyCounts :: "(int \<Rightarrow> string) \<Rightarrow> string \<Rightarrow> int \<Rightarrow> (string \<times> int) list ioE" where
  "DailyCounts day w since = query (\<lambda>d. Inr (
     let ds = map (\<lambda>m. day (trunc_div (me_matched_at m) 1000))
                (filter (\<lambda>m. me_watcher_id m = w \<and> me_matched_at m \<ge> since) (matches_of d))
     in map (\<lambda>x. (x, count_rows (\<lambda>y. y = x) ds)) (sort (remdups ds))))"

definition Match_FindRecent :: "string \<Rightarrow> int \<Rightarrow> matched_email list ioE" where
  "Match_FindRecent user limit = query (\<lambda>d. Inr (order_limit (\<lambda>m. - me_matched_at m) limit
     (filter (\<lambda>m. me_user_id m = user) (matches_of d))))"

subsection \<open>notifier_repository.go\<close>

definition Notifier_Search :: "string \<Rightarrow> string \<Rightarrow> string \<Rightarrow> database \<Rightarrow> notifier list" where
  "Notifier_Search user ty status d =
     sort_key (\<lambda>n. - no_created_at n)
      (where_if status (\<lambda>n. no_status n = status)
      (where_if ty (\<lambda>n. no_type n = ty)
      (where_if user (\<lambda>n. no_user_id n = user) (notifiers_of d))))"

definition FindByIds :: "string \<Rightarrow> string list \<Rightarrow> notifier list ioE" where
  "FindByIds user ids =
     (if ids = [] then returnE []
      else query (\<lambda>d. Inr (filter (\<lambda>n. no_user_id n = user \<and> no_id n \<in> set ids) (notifiers_of d))))"

definition CountByName :: "string \<Rightarrow> string \<Rightarrow> string \<Rightarrow> int ioE" where
  "CountByName user name exclude = query (\<lambda>d. Inr (int (length
     (where_if exclude (\<lambda>n. no_id n \<noteq> exclude)
       (filter (\<lambda>n. no_user_id n = user \<and> no_name n = name) (notifiers_of d))))))"

text \<open>\<open>SELECT DISTINCT w.name\<close> over the join links, events and watchers.\<close>

definition used_by_events :: "string \<Rightarrow> database \<Rightarrow> string list" where
  "used_by_events n d = remdups (concat (map (\<lambda>l.
     concat (map (\<lambda>e. map wa_name (filter (\<lambda>w. wa_id w = we_watcher_id e) (watchers_of d)))
       (filter (\<lambda>e. we_id e = wen_watcher_event_id l) (events_of d))))
     (filter (\<lambda>l. wen_notifier_id l = n) (event_notifiers_of d))))"

definition UsedByEvents :: "string \<Rightarrow> string list ioE" where
  "UsedByEvents n = query (\<lambda>d. Inr (used_by_events n d))"

definition ClearDefault :: "string \<Rightarrow> string \<Rightarrow> unit ioE" where
  "ClearDefault user except = bindE (Repo_UpdateWhere notifiers_table
     (\<lambda>n. no_user_id n = user \<and> no_id n \<noteq> except \<and> no_is_default n) (\<lambda>n. n\<lparr>no_is_default := False\<rparr>))
     (\<lambda>_. returnE ())"

definition FindPendingByCode :: "string \<Rightarrow> int \<Rightarrow> notifier ioE" where
  "FindPendingByCode code now = query (\<lambda>d. take_row (\<lambda>n. no_verification_code n = Some code
     \<and> no_status n = NotifierStatusPending
     \<and> (case no_verification_expires_at n of None \<Rightarrow> False | Some t \<Rightarrow> t > now)) (notifiers_of d))"

definition Notifier_CountByStatus :: "(notifier \<Rightarrow> bool) \<Rightarrow> status_counts ioE" where
  "Notifier_CountByStatus p = query (\<lambda>d. Inr (countByColumn no_status (filter p (notifiers_of d))))"

definition Notifier_CountForUsers :: "string list \<Rightarrow> (string \<rightharpoonup> int) ioE" where
  "Notifier_CountForUsers ids = countByUsers no_user_id notifiers_of ids"

definition Notifier_CountForUser :: "string \<Rightarrow> int ioE" where
  "Notifier_CountForUser u = query (\<lambda>d. Inr (count_rows (\<lambda>n. no_user_id n = u) (notifiers_of d)))"

subsection \<open>role_repository.go, user_repository.go, user_session_repository.go\<close>

definition Role_FindBySlug :: "string \<Rightarrow> role ioE" where
  "Role_FindBySlug slug = query (\<lambda>d. take_row (\<lambda>r. r_slug r = slug) (roles_of d))"

definition Role_FindBySlugs :: "string list \<Rightarrow> role list ioE" where
  "Role_FindBySlugs slugs =
     (if slugs = [] then returnE [] else query (\<lambda>d. Inr (filter (\<lambda>r. r_slug r \<in> set slugs) (roles_of d))))"

definition Role_FindAll :: "role list ioE" where
  "Role_FindAll = query (\<lambda>d. Inr (sort_key r_slug (roles_of d)))"

definition User_FindByEmail :: "string \<Rightarrow> user ioE" where
  "User_FindByEmail email = query (\<lambda>d. take_row (\<lambda>u. u_email u = email) (users_of d))"

definition User_CountByEmail :: "string \<Rightarrow> int ioE" where
  "User_CountByEmail email = query (\<lambda>d. Inr (count_rows (\<lambda>u. u_email u = email) (users_of d)))"

definition roles_for :: "database \<Rightarrow> string \<Rightarrow> role list" where
  "roles_for d user = sort_key r_slug (concat (map (\<lambda>l.
     filter (\<lambda>r. r_id r = ur_role_id l) (roles_of d))
     (filter (\<lambda>l. ur_user_id l = user) (user_roles_of d))))"

definition LoadRoles :: "string \<Rightarrow> role list ioE" where
  "LoadRoles user = query (\<lambda>d. Inr (roles_for d user))"

definition LoadRolesForAll :: "string list \<Rightarrow> (string \<Rightarrow> role list) ioE" where
  "LoadRolesForAll ids =
     (if ids = [] then returnE (\<lambda>_. [])
      else query (\<lambda>d. Inr (\<lambda>u. if u \<in> set ids then roles_for d u else [])))"

definition insert_links :: "user_role list \<Rightarrow> database \<Rightarrow> (err + unit) \<times> database" where
  "insert_links ls d =
     (if distinct (user_roles_of d @ ls)
         \<and> list_all (\<lambda>l. has_id u_id (ur_user_id l) (users_of d) \<and> has_id r_id (ur_role_id l) (roles_of d)) ls
      then (Inr (), d\<lparr>user_roles_of := user_roles_of d @ ls\<rparr>)
      else (Inl ErrConstraint, d))"

definition ReplaceRoles :: "string \<Rightarrow> string list \<Rightarrow> unit ioE" where
  "ReplaceRoles user ids =
     bindE (exec (\<lambda>d. d\<lparr>user_roles_of := filter (\<lambda>l. ur_user_id l \<noteq> user) (user_roles_of d)\<rparr>)) (\<lambda>_.
     if ids = [] then returnE ()
     else stmt (insert_links (map (\<lambda>r. \<lparr>ur_user_id = user, ur_role_id = r\<rparr>) ids)))"

definition AddRole :: "string \<Rightarrow> string \<Rightarrow> unit ioE" where
  "AddRole user role = stmt (insert_links [\<lparr>ur_user_id = user, ur_role_id = role\<rparr>])"

definition User_Search :: "(string \<Rightarrow> string \<Rightarrow> bool) \<Rightarrow> string \<Rightarrow> string \<Rightarrow> string \<Rightarrow> database \<Rightarrow> user list" where
  "User_Search ilike q role status d =
     (let like = ''%'' @ q @ ''%'' in
      sort_key (\<lambda>u. - u_created_at u)
      (where_if role (\<lambda>u. list_ex (\<lambda>r. r_slug r = role) (roles_for d (u_id u)))
      (where_if status (\<lambda>u. u_status u = status)
      (where_if q (\<lambda>u. ilike (u_email u) like \<or> ilike (u_name u) like) (users_of d)))))"

definition User_CountByStatus :: "status_counts ioE" where
  "User_CountByStatus = query (\<lambda>d. Inr (countByColumn u_status (users_of d)))"

definition active_session :: "int \<Rightarrow> user_session \<Rightarrow> bool" where
  "active_session now s \<longleftrightarrow> us_revoked_at s = None \<and> us_expires_at s > now"

definition FindActiveByTokenHash :: "string \<Rightarrow> int \<Rightarrow> user_session ioE" where
  "FindActiveByTokenHash hash now =
     query (\<lambda>d. take_row (\<lambda>s. us_token_hash s = hash \<and> active_session now s) (sessions_of d))"

definition FindActiveByUser :: "string \<Rightarrow> int \<Rightarrow> user_session list ioE" where
  "FindActiveByUser user now = query (\<lambda>d. Inr (sort_key (\<lambda>s. - us_last_used_at s)
     (filter (\<lambda>s. us_user_id s = user \<and> active_session now s) (sessions_of d))))"

definition Session_Revoke :: "string \<Rightarrow> int \<Rightarrow> unit ioE" where
  "Session_Revoke i now = bindE (Repo_UpdateWhere sessions_table
     (\<lambda>s. us_id s = i \<and> us_revoked_at s = None) (\<lambda>s. s\<lparr>us_revoked_at := Some now\<rparr>)) (\<lambda>_. returnE ())"

definition RevokeAllForUser :: "string \<Rightarrow> int \<Rightarrow> string list ioE" where
  "RevokeAllForUser user now =
     (let mine = (\<lambda>s. us_user_id s = user \<and> us_revoked_at s = None) in
      bindE (query (\<lambda>d. Inr (filter mine (sessions_of d)))) (\<lambda>sessions.
      if sessions = [] then returnE []
      else bindE (Repo_UpdateWhere sessions_table mine (\<lambda>s. s\<lparr>us_revoked_at := Some now\<rparr>)) (\<lambda>_.
      returnE (map us_token_hash sessions))))"

definition TouchLastUsed :: "string \<Rightarrow> int \<Rightarrow> unit ioE" where
  "TouchLastUsed i now = bindE (Repo_UpdateWhere sessions_table (\<lambda>s. us_id s = i)
     (\<lambda>s. s\<lparr>us_last_used_at := now\<rparr>)) (\<lambda>_. returnE ())"

subsection \<open>watcher_event_repository.go\<close>

definition Event_FindByWatcher :: "string \<Rightarrow> watcher_event list ioE" where
  "Event_FindByWatcher w = query (\<lambda>d. Inr (sort_key we_position
     (filter (\<lambda>e. we_watcher_id e = w) (events_of d))))"

definition FindEnabledByWatcher :: "string \<Rightarrow> watcher_event list ioE" where
  "FindEnabledByWatcher w = query (\<lambda>d. Inr (sort_key we_position
     (filter (\<lambda>e. we_watcher_id e = w \<and> we_enabled e) (events_of d))))"

definition Event_DeleteByWatcher :: "string \<Rightarrow> unit ioE" where
  "Event_DeleteByWatcher w = exec (remove_events (\<lambda>e. we_watcher_id e = w))"

definition FindByIdAndWatcher :: "string \<Rightarrow> string \<Rightarrow> watcher_event ioE" where
  "FindByIdAndWatcher i w = query (\<lambda>d. take_row (\<lambda>e. we_id e = i \<and> we_watcher_id e = w) (events_of d))"

definition UpdatePosition :: "string \<Rightarrow> int \<Rightarrow> unit ioE" where
  "UpdatePosition i p = bindE (Repo_UpdateWhere events_table (\<lambda>e. we_id e = i)
     (\<lambda>e. e\<lparr>we_position := p\<rparr>)) (\<lambda>_. returnE ())"

definition link_key :: "watcher_event_notifier \<Rightarrow> string \<times> string" where
  "link_key l = (wen_watcher_event_id l, wen_notifier_id l)"

definition insert_event_links :: "watcher_event_notifier list \<Rightarrow> database \<Rightarrow> (err + unit) \<times> database" where
  "insert_event_links ls d =
     (if distinct (map link_key (event_notifiers_of d @ ls))
         \<and> list_all (\<lambda>l. has_id we_id (wen_watcher_event_id l) (events_of d)
                        \<and> has_id no_id (wen_notifier_id l) (notifiers_of d)) ls
      then (Inr (), d\<lparr>event_notifiers_of := event_notifiers_of d @ ls\<rparr>)
      else (Inl ErrConstraint, d))"

definition event_links :: "string \<Rightarrow> string list \<Rightarrow> watcher_event_notifier list" where
  "event_links e ids = map (\<lambda>(i, n). \<lparr>wen_watcher_event_id = e, wen_notifier_id = n, wen_position = int i\<rparr>)
     (enumerate 0 ids)"

definition ReplaceNotifiers :: "string \<Rightarrow> string list \<Rightarrow> unit ioE" where
  "ReplaceNotifiers e ids =
     bindE (exec (\<lambda>d. d\<lparr>event_notifiers_of := filter (\<lambda>l. wen_watcher_event_id l \<noteq> e) (event_notifiers_of d)\<rparr>)) (\<lambda>_.
     if ids = [] then returnE () else stmt (insert_event_links (event_links e ids)))"

definition notifiers_for :: "database \<Rightarrow> string \<Rightarrow> notifier list" where
  "notifiers_for d e = concat (map (\<lambda>l. filter (\<lambda>n. no_id n = wen_notifier_id l) (notifiers_of d))
     (sort_key wen_position (filter (\<lambda>l. wen_watcher_event_id l = e) (event_notifiers_of d))))"

definition FindNotifiers :: "string \<Rightarrow> notifier list ioE" where
  "FindNotifiers e = query (\<lambda>d. Inr (notifiers_for d e))"

definition FindNotifiersForEvents :: "string list \<Rightarrow> (string \<Rightarrow> notifier list) ioE" where
  "FindNotifiersForEvents ids =
     (if ids = [] then returnE (\<lambda>_. [])
      else query (\<lambda>d. Inr (\<lambda>e. if e \<in> set ids then notifiers_for d e else [])))"

subsection \<open>watcher_repository.go\<close>

definition Watcher_Search ::
  "(string \<Rightarrow> string \<Rightarrow> bool) \<Rightarrow> string \<Rightarrow> string \<Rightarrow> string \<Rightarrow> string \<Rightarrow> database \<Rightarrow> watcher list" where
  "Watcher_Search ilike user status account q d =
     sort_key (\<lambda>w. - wa_created_at w)
      (where_if q (\<lambda>w. ilike (wa_name w) (''%'' @ q @ ''%''))
      (where_if account (\<lambda>w. wa_mail_account_id w = account)
      ((if status \<noteq> [] \<and> status \<noteq> ''all'' then filter (\<lambda>w. wa_status w = status) else id)
      (where_if user (\<lambda>w. wa_user_id w = user) (watchers_of d)))))"

definition FindActiveByMailAccount :: "string \<Rightarrow> watcher list ioE" where
  "FindActiveByMailAccount a = query (\<lambda>d. Inr
     (filter (\<lambda>w. wa_mail_account_id w = a \<and> wa_status w = WatcherStatusActive) (watchers_of d)))"

definition CountByMailAccount :: "string \<Rightarrow> int ioE" where
  "CountByMailAccount a = query (\<lambda>d. Inr (count_rows (\<lambda>w. wa_mail_account_id w = a) (watchers_of d)))"

definition NamesByMailAccount :: "string \<Rightarrow> string list ioE" where
  "NamesByMailAccount a = query (\<lambda>d. Inr (map wa_name (filter (\<lambda>w. wa_mail_account_id w = a) (watchers_of d))))"

definition PauseAllForUser :: "string \<Rightarrow> int ioE" where
  "PauseAllForUser user = Repo_UpdateWhere watchers_table
     (\<lambda>w. wa_user_id w = user \<and> wa_status w = WatcherStatusActive) (\<lambda>w. w\<lparr>wa_status := WatcherStatusPaused\<rparr>)"

definition Watcher_CountByStatus :: "status_counts ioE" where
  "Watcher_CountByStatus = query (\<lambda>d. Inr (countByColumn wa_status (watchers_of d)))"

definition CountByStatusForUser :: "string \<Rightarrow> status_counts ioE" where
  "CountByStatusForUser u = query (\<lambda>d. Inr (countByColumn wa_status
     (filter (\<lambda>w. wa_user_id w = u) (watchers_of d))))"

definition Watcher_CountForUsers :: "string list \<Rightarrow> (string \<rightharpoonup> int) ioE" where
  "Watcher_CountForUsers ids = countByUsers wa_user_id watchers_of ids"

definition Watcher_CountForUser :: "string \<Rightarrow> int ioE" where
  "Watcher_CountForUser u = query (\<lambda>d. Inr (count_rows (\<lambda>w. wa_user_id w = u) (watchers_of d)))"

definition RecordMatch :: "string \<Rightarrow> int \<Rightarrow> unit ioE" where
  "RecordMatch i at = bindE (Repo_UpdateWhere watchers_table (\<lambda>w. wa_id w = i)
     (\<lambda>w. w\<lparr>wa_match_count := wa_match_count w + 1, wa_last_matched_at := Some at\<rparr>)) (\<lambda>_. returnE ())"

definition Filter_FindByWatcher :: "string \<Rightarrow> watcher_filter list ioE" where
  "Filter_FindByWatcher w = query (\<lambda>d. Inr (sort_key wf_position
     (filter (\<lambda>f. wf_watcher_id f = w) (filters_of d))))"

definition FindByWatchers :: "string list \<Rightarrow> (string \<Rightarrow> watcher_filter list) ioE" where
  "FindByWatchers ids =
     (if ids = [] then returnE (\<lambda>_. [])
      else query (\<lambda>d. Inr (\<lambda>w. filter (\<lambda>f. wf_watcher_id f = w)
        (sort_key wf_position (filter (\<lambda>f. wf_watcher_id f \<in> set ids) (filters_of d))))))"

definition Filter_DeleteByWatcher :: "string \<Rightarrow> unit ioE" where
  "Filter_DeleteByWatcher w = exec (remove_filters (\<lambda>f. wf_watcher_id f = w))"

subsection \<open>audit_log_repository.go\<close>

definition AuditLog_Search :: "string \<Rightarrow> string \<Rightarrow> string \<Rightarrow> int \<Rightarrow> int \<Rightarrow> database \<Rightarrow> audit_log list" where
  "AuditLog_Search actor action ty from_at to_at d =
     sort_key (\<lambda>a. - al_created_at a)
      (where_pos to_at (\<lambda>a. al_created_at a \<le> to_at)
      (where_pos from_at (\<lambda>a. al_created_at a \<ge> from_at)
      (where_if ty (\<lambda>a. al_entity_type a = ty)
      (where_if action (\<lambda>a. al_action a = action)
      (where_if actor (\<lambda>a. al_actor_user_id a = Some actor) (audit_logs_of d))))))"

definition EmailsFor :: "audit_log list \<Rightarrow> (string \<rightharpoonup> string) ioE" where
  "EmailsFor logs =
     (let ids = remdups (concat (map (\<lambda>a. case al_actor_user_id a of None \<Rightarrow> [] | Some i \<Rightarrow> [i]) logs)) in
      if ids = [] then returnE Map.empty
      else query (\<lambda>d. Inr (map_of (map (\<lambda>u. (u_id u, u_email u)) (filter (\<lambda>u. u_id u \<in> set ids) (users_of d))))))"

subsection \<open>Reads change no row\<close>

lemma pres_reads [pres]:
  "preserves (db_inv K) (ClaimDue lk t n)"
  "preserves (db_inv K) (EventRun_FindByMatch i)"
  "preserves (db_inv K) (EventRun_FindRecent i n)"
  "preserves (db_inv K) (Delivery_FindByRun i)"
  "preserves (db_inv K) (FindByUserAndEmail i j)"
  "preserves (db_inv K) (MailAccount_CountByEmail i j)"
  "preserves (db_inv K) (FindDue lk t n)"
  "preserves (db_inv K) (FindStale lk t n)"
  "preserves (db_inv K) (MailProvider_FindBySlug i)"
  "preserves (db_inv K) MailProvider_FindAll"
  "preserves (db_inv K) (Match_FindRecent i n)"
  "preserves (db_inv K) (CountByName i j k)"
  "preserves (db_inv K) (UsedByEvents i)"
  "preserves (db_inv K) (FindPendingByCode i t)"
  "preserves (db_inv K) (User_FindByEmail i)"
  "preserves (db_inv K) (LoadRoles i)"
  "preserves (db_inv K) (Event_FindByWatcher i)"
  "preserves (db_inv K) (FindEnabledByWatcher i)"
  "preserves (db_inv K) (FindByIdAndWatcher i j)"
  "preserves (db_inv K) (FindNotifiers i)"
  "preserves (db_inv K) (FindActiveByMailAccount i)"
  "preserves (db_inv K) (NamesByMailAccount i)"
  "preserves (db_inv K) (Filter_FindByWatcher i)"
  by (simp_all add: ClaimDue_def EventRun_FindByMatch_def EventRun_FindRecent_def
      Delivery_FindByRun_def FindByUserAndEmail_def MailAccount_CountByEmail_def FindDue_def
      FindStale_def MailProvider_FindBySlug_def MailProvider_FindAll_def Match_FindRecent_def
      CountByName_def UsedByEvents_def FindPendingByCode_def User_FindByEmail_def LoadRoles_def
      Event_FindByWatcher_def FindEnabledByWatcher_def FindByIdAndWatcher_def FindNotifiers_def
      FindActiveByMailAccount_def NamesByMailAccount_def Filter_FindByWatcher_def pres_query)

lemma pres_guarded_reads [pres]:
  "preserves (db_inv K) (FindByWatchers ids)"
  "preserves (db_inv K) (FindByIds u ids)"
  "preserves (db_inv K) (FindNotifiersForEvents ids)"
  "preserves (db_inv K) (Delivery_FindByRuns ids)"
  by (simp_all add: FindByWatchers_def FindByIds_def FindNotifiersForEvents_def
      Delivery_FindByRuns_def pres_query preserves_returnE)

lemma pres_Repo_UpdateWhere:
  "(\<And>d n. K d \<Longrightarrow> K (tb_put T (update_where p (\<lambda>x. tb_touch T n (f x)) (tb_rows T d)) d)) \<Longrightarrow>
   preserves (db_inv K) (Repo_UpdateWhere T p f)"
  unfolding Repo_UpdateWhere_def by (intro preserves_bind pres_now_milli pres_stmt) simp

lemma up_Repositories [pres]:
  "preserves db_up (Repo_UpdateWhere U p f)"
  "preserves db_up (FindNotifiers i)"
  "preserves db_up (ClaimDue lk t n)"
  "preserves db_up (FindDue lk t n)"
  "preserves db_up (FindEnabledByWatcher i)"
  "preserves db_up (CreateIfNew m)"
  "preserves db_up (RecordMatch i t)"
  "preserves db_up (CancelPendingAfter i j n)"
  by (simp_all add: Repo_UpdateWhere_def FindNotifiers_def ClaimDue_def FindDue_def
      FindEnabledByWatcher_def CreateIfNew_def RecordMatch_def CancelPendingAfter_def pres)

lemma ClaimDue_rows:
  "run_state (ClaimDue locked now limit) w = (Inr rs, w') \<Longrightarrow> r \<in> set rs \<Longrightarrow>
   r \<in> set (runs_of (wdb w)) \<and> er_status r = RunStatusPending \<and> er_scheduled_at r \<le> now"
  by (auto simp: ClaimDue_def query_def run_stmt split: option.splits
      dest!: set_order_limit [THEN subsetD])

lemma FindDue_rows:
  "run_state (FindDue locked now limit) w = (Inr xs, w') \<Longrightarrow> a \<in> set xs \<Longrightarrow>
   a \<in> set (accounts_of (wdb w)) \<and> ma_status a = MailAccountStatusVerified \<and> ma_next_poll_at a \<le> now"
  by (auto simp: FindDue_def query_def run_stmt split: option.splits
      dest!: set_order_limit [THEN subsetD])

end
