(* ===== verification/Samples.thy ===== *)
theory Samples
  imports Repositories
begin

text \<open>
  One small concrete installation, on which the theorems with hypotheses are instantiated:
  a user, a mailbox, a watcher with one filter and a recurring event, one match, and the
  functions to place rows beside them.
\<close>

definition empty_db :: database where
  "empty_db = \<lparr>users_of = [], roles_of = [], user_roles_of = [], sessions_of = [], audit_logs_of = [],
     accounts_of = [], providers_of = [], sync_runs_of = [], watchers_of = [], filters_of = [],
     events_of = [], event_notifiers_of = [], notifiers_of = [], matches_of = [], runs_of = [],
     deliveries_of = []\<rparr>"

definition world_of :: "database \<Rightarrow> world" where
  "world_of d = \<lparr>wdb = d, clock = (\<lambda>n. (1000 + int n) * Second), ticks = 0,
     uuids = (\<lambda>n. replicate (Suc n) (CHR ''u'')), uuid_pos = 0,
     entropy = (\<lambda>k n. Some (replicate n (CHR ''e''))), entropy_pos = 0,
     db_faults = (\<lambda>_. None), stmts = 0, redis = Map.empty, redis_faults = (\<lambda>_. False), rcmds = 0\<rparr>"

lemma world_of_simps [simp]:
  "db_up (world_of d)" "redis_up (world_of d)" "wdb (world_of d) = d"
  "clock (world_of d) n = (1000 + int n) * Second" "ticks (world_of d) = 0"
  "uuids (world_of d) n = replicate (Suc n) (CHR ''u'')" "uuid_pos (world_of d) = 0"
  "entropy (world_of d) k n = Some (replicate n (CHR ''e''))" "entropy_pos (world_of d) = 0"
  "redis (world_of d) = Map.empty" "stmts (world_of d) = 0"
  by (simp_all add: world_of_def db_up_def redis_up_def)

definition sample_unicode :: unicode where
  "sample_unicode = \<lparr>uni_lower = id, uni_fold = (=), uni_trim = id, uni_quote = id, uni_json = id,
     uni_fields = (\<lambda>s. [s])\<rparr>"

definition ann :: user where
  "ann = \<lparr>u_id = ''ann'', u_email = ''ann@x'', u_name = ''Ann'', u_password = ''hash'',
     u_status = UserStatusActive, u_timezone = ''UTC'', u_email_verified_at = None,
     u_created_at = 1, u_updated_at = 1\<rparr>"

definition gmail :: mail_provider where
  "gmail = \<lparr>mp_slug = ''gmail'', mp_label = ''Gmail'', mp_kind = ''oauth'',
     mp_auth_modes = ''oauth,password'', mp_default_host = None, mp_default_port = None,
     mp_default_use_tls = True, mp_help_url = None, mp_enabled = True, mp_position = 1\<rparr>"

definition box :: mail_account where
  "box = \<lparr>ma_id = ''box'', ma_user_id = ''ann'', ma_provider = ''gmail'',
     ma_email_address = ''ann@x'', ma_display_name = None, ma_auth_mode = ''oauth'',
     ma_credentials = ''sealed'', ma_settings = ''{}'', ma_provider_account_id = None,
     ma_scopes = None, ma_token_expires_at = None, ma_status = MailAccountStatusVerified,
     ma_last_verified_at = None, ma_last_error = None, ma_sync_state = [],
     ma_last_synced_at = None, ma_last_push_at = None, ma_poll_interval_seconds = 60,
     ma_next_poll_at = 500, ma_created_at = 1, ma_updated_at = 1\<rparr>"

definition invoices :: watcher where
  "invoices = \<lparr>wa_id = ''inv'', wa_user_id = ''ann'', wa_mail_account_id = ''box'',
     wa_name = ''Invoices'', wa_description = None, wa_status = WatcherStatusActive,
     wa_match_mode = MatchModeAll, wa_folder = ''INBOX'', wa_watch_from = None,
     wa_cooldown_seconds = 0, wa_last_matched_at = None, wa_match_count = 0,
     wa_archived_at = None, wa_created_at = 1, wa_updated_at = 1\<rparr>"

definition remind :: watcher_event where
  "remind = \<lparr>we_id = ''ev'', we_watcher_id = ''inv'', we_type = ''notify'', we_config = ''{}'',
     we_position = 0, we_enabled = True, we_run_mode = RunModeRecurring, we_delay_seconds = 0,
     we_repeat_interval_seconds = Some 60, we_repeat_max = None, we_repeat_until = None,
     we_cron_expression = None, we_stop_on_ack = True, we_created_at = 1, we_updated_at = 1\<rparr>"

definition mail1 :: matched_email where
  "mail1 = \<lparr>me_id = ''m1'', me_user_id = ''ann'', me_watcher_id = ''inv'',
     me_mail_account_id = ''box'', me_message_id = ''<1@x>'', me_provider_uid = ''1'',
     me_subject = Some ''invoice'', me_from_address = None, me_from_name = None,
     me_to_addresses = None, me_snippet = None, me_has_attachment = False, me_size_bytes = 10,
     me_received_at = 5, me_matched_at = 6, me_matched_filters = ''[]'',
     me_created_at = 6, me_updated_at = 6\<rparr>"

definition run1 :: event_run where
  "run1 = \<lparr>er_id = ''r1'', er_user_id = ''ann'', er_matched_email_id = ''m1'',
     er_watcher_event_id = ''ev'', er_occurrence = 1, er_status = RunStatusPending,
     er_scheduled_at = 10, er_started_at = None, er_finished_at = None, er_attempt = 0,
     er_max_attempts = 3, er_next_retry_at = None, er_config_snapshot = ''{}'', er_result = [],
     er_error = None, er_acknowledged_at = None, er_created_at = 7, er_updated_at = 7\<rparr>"

definition slack :: notifier where
  "slack = \<lparr>no_id = ''n1'', no_user_id = ''ann'', no_type = ''slack'', no_name = ''Slack'',
     no_config = ''{}'', no_secrets = None, no_status = NotifierStatusVerified,
     no_verification_code = None, no_verification_expires_at = None, no_verified_at = Some 3,
     no_last_error = None, no_is_default = True, no_created_at = 2, no_updated_at = 2\<rparr>"

definition sample_db :: database where
  "sample_db = empty_db\<lparr>users_of := [ann], providers_of := [gmail], accounts_of := [box],
     watchers_of := [invoices], events_of := [remind], notifiers_of := [slack],
     matches_of := [mail1], runs_of := [run1]\<rparr>"

abbreviation sample_world :: world where
  "sample_world \<equiv> world_of sample_db"

lemmas sample_defs = sample_db_def empty_db_def ann_def gmail_def box_def invoices_def remind_def
  mail1_def run1_def slack_def

end
