(* ===== verification/Dispatcher.thy ===== *)
theory Dispatcher
  imports Samples
begin

text \<open>
  internal/usecase/dispatcher_usecase.go with the handler interface of
  internal/usecase/event/handler.go.  A handler is what the registry holds under its type;
  \<open>hd_execute\<close> is the outcome of one call (the remote services it reaches are outside the
  program).  \<open>execute\<close> works on the struct it is handed, which may be older than the row, as
  in the code: the claim reads the struct, the work happens later, and \<open>save\<close> writes every
  column back.
\<close>

subsection \<open>event/handler.go\<close>

record event_input =
  in_occurrence :: int
  in_watcher :: watcher
  in_event :: watcher_event
  in_email :: matched_email
  in_config :: json
  in_notifiers :: "notifier list"

record delivery =
  dl_notifier_id :: "string option"
  dl_channel_type :: string
  dl_status :: string
  dl_rendered_message :: string
  dl_provider_message_id :: string
  dl_error :: string

record event_output =
  ou_result :: json
  ou_deliveries :: "delivery list"

record handler =
  hd_type :: string
  hd_label :: string
  hd_description :: string
  hd_uses_notifiers :: bool
  hd_config_schema :: schema
  hd_validate :: "json \<Rightarrow> err option"
  hd_execute :: "event_input \<Rightarrow> event_output \<times> err option"

record dispatcher =
  dp_unicode :: unicode
  dp_handlers :: "string \<rightharpoonup> handler"

definition Register :: "handler list \<Rightarrow> (string \<rightharpoonup> handler) \<Rightarrow> (string \<rightharpoonup> handler)" where
  "Register hs reg = foldl (\<lambda>m h. m(hd_type h \<mapsto> h)) reg hs"

interpretation handler_reg: registry Register hd_type
  by unfold_locales (simp_all add: Register_def)

definition Handlers_Get :: "dispatcher \<Rightarrow> string \<Rightarrow> err + handler" where
  "Handlers_Get D t = (case dp_handlers D t of
      None \<Rightarrow> Inl (HttpErr 400 (''unknown event type '' @ go_quote (dp_unicode D) t))
    | Some h \<Rightarrow> Inr h)"

definition liftE :: "err + 'a \<Rightarrow> 'a ioE" where
  "liftE r = ret r"

lemma run_liftE [simp]: "run_state (liftE r) w = (r, w)"
  by (simp add: liftE_def)

lemma pres_liftE [pres]: "preserves I (liftE r)"
  by (simp add: liftE_def preserves_ret)

subsection \<open>Settling one run\<close>

definition save :: "event_run \<Rightarrow> unit io" where
  "save run = ignoreE (Repo_Update runs_table run)"

definition fail_run :: "event_run \<Rightarrow> string \<Rightarrow> unit io" where
  "fail_run run reason = do {
     now \<leftarrow> now_milli;
     save (run\<lparr>er_status := RunStatusFailed, er_finished_at := Some now, er_error := Some reason\<rparr>) }"

definition writeDelivery :: "event_run \<Rightarrow> delivery \<Rightarrow> unit io" where
  "writeDelivery run item = do {
     i \<leftarrow> new_uuid;
     sent \<leftarrow> (if dl_status item = DeliveryStatusSent
             then State_Monad.bind now_milli (\<lambda>n. ret (Some n)) else ret None);
     ignoreE (Repo_Create deliveries_table
       \<lparr>nd_id = i, nd_event_run_id = er_id run, nd_notifier_id = dl_notifier_id item,
        nd_channel_type = dl_channel_type item, nd_status = dl_status item,
        nd_rendered_message = nilIfEmpty (dl_rendered_message item),
        nd_provider_message_id = nilIfEmpty (dl_provider_message_id item),
        nd_error = nilIfEmpty (dl_error item), nd_sent_at = sent,
        nd_created_at = 0, nd_updated_at = 0\<rparr>) }"

definition writeDeliveries :: "event_run \<Rightarrow> delivery list \<Rightarrow> unit io" where
  "writeDeliveries run ds = for_each ds (writeDelivery run)"

text \<open>\<open>time.Duration(1<<uint(run.Attempt)) * 30 * time.Second\<close> in 64 bits\<close>

definition backoff :: "int \<Rightarrow> int" where
  "backoff attempt =
     (let shifted = (if attempt < 0 \<or> 63 < attempt then 0 else wrap64 (2 ^ nat attempt))
      in wrap64 (wrap64 (shifted * 30) * Second))"

definition interval_of :: "watcher_event \<Rightarrow> int" where
  "interval_of e = (case we_repeat_interval_seconds e of None \<Rightarrow> 0 | Some n \<Rightarrow> n)"

text \<open>The early returns of \<open>scheduleNext\<close> before the clock is read\<close>

definition chain_continues :: "event_run \<Rightarrow> watcher_event \<Rightarrow> bool" where
  "chain_continues run e \<longleftrightarrow>
     we_run_mode e = RunModeRecurring
     \<and> (case we_repeat_max e of None \<Rightarrow> True | Some m \<Rightarrow> er_occurrence run < m)
     \<and> \<not> (er_acknowledged_at run \<noteq> None \<and> we_stop_on_ack e)
     \<and> 0 < interval_of e"

definition follow_run :: "string \<Rightarrow> int \<Rightarrow> event_run \<Rightarrow> event_run" where
  "follow_run i at run =
     \<lparr>er_id = i, er_user_id = er_user_id run, er_matched_email_id = er_matched_email_id run,
      er_watcher_event_id = er_watcher_event_id run, er_occurrence = er_occurrence run + 1,
      er_status = RunStatusPending, er_scheduled_at = at, er_started_at = None,
      er_finished_at = None, er_attempt = 0, er_max_attempts = er_max_attempts run,
      er_next_retry_at = None, er_config_snapshot = er_config_snapshot run, er_result = [],
      er_error = None, er_acknowledged_at = None, er_created_at = 0, er_updated_at = 0\<rparr>"

definition past_until :: "watcher_event \<Rightarrow> int \<Rightarrow> bool" where
  "past_until e at = (case we_repeat_until e of None \<Rightarrow> False | Some u \<Rightarrow> at > u)"

definition scheduleNext :: "event_run \<Rightarrow> watcher_event \<Rightarrow> unit io" where
  "scheduleNext run e =
     (if \<not> chain_continues run e then ret ()
      else do {
        t \<leftarrow> time_now;
        let at = unix_milli (t + duration (interval_of e) Second);
        if past_until e at then ret ()
        else do {
          i \<leftarrow> new_uuid;
          ignoreE (Repo_Create runs_table (follow_run i at run)) } })"

subsection \<open>execute\<close>

definition load_input :: "dispatcher \<Rightarrow> event_run \<Rightarrow> (handler \<times> event_input) ioE" where
  "load_input D run =
     bindE (mapErr (\<lambda>e. PlainErr (''matched email is gone: '' @ err_text e))
       (Repo_FindById matches_table (er_matched_email_id run))) (\<lambda>match.
     bindE (mapErr (\<lambda>e. PlainErr (''watcher event is gone: '' @ err_text e))
       (Repo_FindById events_table (er_watcher_event_id run))) (\<lambda>ev.
     bindE (mapErr (\<lambda>e. PlainErr (''watcher is gone: '' @ err_text e))
       (Repo_FindById watchers_table (we_watcher_id ev))) (\<lambda>watcher.
     bindE (liftE (Handlers_Get D (we_type ev))) (\<lambda>handler.
     bindE (mapErr (\<lambda>e. PlainErr (''could not load notifiers: '' @ err_text e))
       (FindNotifiers (we_id ev))) (\<lambda>notifiers.
     returnE (handler,
       \<lparr>in_occurrence = er_occurrence run, in_watcher = watcher, in_event = ev, in_email = match,
        in_config = JSONOrEmpty (er_config_snapshot run) ''{}'', in_notifiers = notifiers\<rparr>))))))"

definition finish_run :: "event_run \<Rightarrow> watcher_event \<Rightarrow> event_output \<Rightarrow> err option \<Rightarrow> unit io" where
  "finish_run run0 ev output execErr = do {
     now \<leftarrow> now_milli;
     let run = run0\<lparr>er_finished_at := Some now,
                    er_result := (if ou_result output \<noteq> [] then ou_result output else er_result run0)\<rparr>;
     (case execErr of
        Some e \<Rightarrow>
          (if er_attempt run < er_max_attempts run
           then do {
             t \<leftarrow> time_now;
             let retryAt = unix_milli (t + backoff (er_attempt run));
             save (run\<lparr>er_error := Some (err_text e), er_status := RunStatusPending,
                       er_scheduled_at := retryAt, er_next_retry_at := Some retryAt,
                       er_finished_at := None\<rparr>) }
           else save (run\<lparr>er_error := Some (err_text e), er_status := RunStatusFailed\<rparr>))
      | None \<Rightarrow> do {
          let done = run\<lparr>er_status := RunStatusSucceeded, er_error := None\<rparr>;
          save done;
          scheduleNext done ev }) }"

definition execute :: "dispatcher \<Rightarrow> event_run \<Rightarrow> unit io" where
  "execute D run0 = do {
     started \<leftarrow> now_milli;
     let run = run0\<lparr>er_attempt := er_attempt run0 + 1, er_status := RunStatusRunning,
                    er_started_at := Some started\<rparr>;
     loaded \<leftarrow> load_input D run;
     (case loaded of
        Inl e \<Rightarrow> fail_run run (err_text e)
      | Inr (handler, inp) \<Rightarrow> (case hd_execute handler inp of
          (output, execErr) \<Rightarrow> do {
            writeDeliveries run (ou_deliveries output);
            finish_run run (in_event inp) output execErr })) }"

subsection \<open>Tick\<close>

definition claim_run :: "event_run \<Rightarrow> unit ioE" where
  "claim_run r = State_Monad.bind now_milli (\<lambda>now.
     bindE (Repo_UpdateWhere runs_table (\<lambda>x. er_id x = er_id r)
       (\<lambda>x. x\<lparr>er_status := RunStatusRunning, er_started_at := Some now\<rparr>)) (\<lambda>_. returnE ()))"

definition claim_runs :: "(string \<Rightarrow> bool) \<Rightarrow> int \<Rightarrow> event_run list ioE" where
  "claim_runs locked limit = tx_scope (State_Monad.bind now_milli (\<lambda>now.
     bindE (ClaimDue locked now limit) (\<lambda>claimed.
     bindE (forE claimed claim_run) (\<lambda>_.
     bindE commit (\<lambda>_. returnE claimed)))))"

text \<open>The pool finishes the items in some order, given by \<open>pool\<close>.\<close>

definition runBatch :: "dispatcher \<Rightarrow> (event_run list \<Rightarrow> event_run list) \<Rightarrow> event_run list \<Rightarrow> unit io" where
  "runBatch D pool claimed = for_each (pool claimed) (execute D)"

definition Tick :: "dispatcher \<Rightarrow> (event_run list \<Rightarrow> event_run list) \<Rightarrow> (string \<Rightarrow> bool) \<Rightarrow> int \<Rightarrow> int ioE" where
  "Tick D pool locked limit =
     bindE (claim_runs locked limit) (\<lambda>claimed.
     State_Monad.bind (runBatch D pool claimed) (\<lambda>_. returnE (int (length claimed))))"

subsection \<open>What the clock does not change\<close>

lemma backoff_seconds:
  assumes "0 \<le> a" "a \<le> 28"
  shows "backoff a = 2 ^ nat a * 30 * Second"
proof -
  define t :: int where "t = 2 ^ nat a"
  have p: "t \<le> 268435456"
    using assms power_increasing [of "nat a" 28 "2 :: int"] by (simp add: t_def)
  have q: "0 < t" by (simp add: t_def)
  have "wrap64 t = t" using p q by (intro wrap64_id) auto
  moreover have "wrap64 (t * 30) = t * 30" using p q by (intro wrap64_id) auto
  moreover have "wrap64 (t * 30 * Second) = t * 30 * Second" using p q by (intro wrap64_id) auto
  ultimately show ?thesis using assms by (simp add: backoff_def Let_def t_def)
qed

text \<open>The row a save leaves behind, and when the server accepts it\<close>

definition saved_run :: "int \<Rightarrow> event_run \<Rightarrow> event_run" where
  "saved_run n r = tb_stamp runs_table n (tb_touch runs_table n r)"

definition run_ready :: "event_run \<Rightarrow> database \<Rightarrow> bool" where
  "run_ready r d \<longleftrightarrow> has_id er_id (er_id r) (runs_of d) \<and> tb_check runs_table d r"

definition put_run :: "event_run \<Rightarrow> event_run list \<Rightarrow> event_run list" where
  "put_run r rs = update_where (\<lambda>x. er_id x = er_id r) (\<lambda>_. r) rs"

lemma saved_run_simps [simp]:
  "er_id (saved_run n r) = er_id r" "er_status (saved_run n r) = er_status r"
  "er_attempt (saved_run n r) = er_attempt r" "er_max_attempts (saved_run n r) = er_max_attempts r"
  "er_scheduled_at (saved_run n r) = er_scheduled_at r" "er_error (saved_run n r) = er_error r"
  "er_occurrence (saved_run n r) = er_occurrence r"
  "er_matched_email_id (saved_run n r) = er_matched_email_id r"
  "er_watcher_event_id (saved_run n r) = er_watcher_event_id r"
  "er_user_id (saved_run n r) = er_user_id r"
  "er_acknowledged_at (saved_run n r) = er_acknowledged_at r"
  "er_finished_at (saved_run n r) = er_finished_at r"
  "er_result (saved_run n r) = er_result r"
  by (simp_all add: saved_run_def runs_table_def)

lemma run_ready_cong:
  "er_id r' = er_id r \<Longrightarrow> run_slot r' = run_slot r \<Longrightarrow> er_user_id r' = er_user_id r \<Longrightarrow>
   run_ready r' d = run_ready r d"
  by (simp add: run_ready_def runs_table_def unique_on_def run_slot_def)

lemma run_save:
  assumes "db_up w" and "run_ready r (wdb w)"
  shows "run_state (save r) w =
    ((), w\<lparr>wdb := (wdb w)\<lparr>runs_of := put_run (saved_run (unix_milli (clock w (ticks w))) r) (runs_of (wdb w))\<rparr>,
           ticks := Suc (ticks w), stmts := Suc (stmts w)\<rparr>)"
proof -
  let ?n = "unix_milli (clock w (ticks w))"
  have "run_ready (saved_run ?n r) (wdb w)"
    using assms(2) by (subst run_ready_cong [of _ r]) (simp_all add: run_slot_def)
  then have "save_row runs_table (saved_run ?n r) (wdb w) =
      (Inr (saved_run ?n r), (wdb w)\<lparr>runs_of := put_run (saved_run ?n r) (runs_of (wdb w))\<rparr>)"
    by (simp add: save_row_def run_ready_def put_run_def) (simp add: runs_table_def)
  then show ?thesis
    using assms(1) by (simp add: save_def Repo_Update_def saved_run_def [symmetric])
qed

lemma pres_writeDeliveries [pres]:
  assumes "\<And>d xs. K d \<Longrightarrow> K (d\<lparr>deliveries_of := xs\<rparr>)"
  shows "preserves (db_inv K) (writeDeliveries r ds)"
proof -
  have "preserves (db_inv K) (Repo_Create deliveries_table x)" for x
    using assms by (intro pres_Repo_Create) (simp add: insert_row_def, simp add: deliveries_table_def)
  then show ?thesis
    unfolding writeDeliveries_def writeDelivery_def by (intro pres)
qed

lemma up_Dispatcher [pres]:
  "preserves db_up (writeDeliveries r ds)"
  "preserves db_up (save r)"
  "preserves db_up (load_input D r)"
  unfolding writeDeliveries_def writeDelivery_def save_def load_input_def by (intro pres)+

lemma pres_load_input [pres]: "preserves (db_inv K) (load_input D r)"
  unfolding load_input_def by (intro pres)

text \<open>What \<open>load_input\<close> finds while the database answers\<close>

definition find_input :: "dispatcher \<Rightarrow> database \<Rightarrow> event_run \<Rightarrow> err + (handler \<times> event_input)" where
  "find_input D d run =
     (case take_row (\<lambda>m. me_id m = er_matched_email_id run) (matches_of d) of
        Inl e \<Rightarrow> Inl (PlainErr (''matched email is gone: '' @ err_text e))
      | Inr match \<Rightarrow>
     (case take_row (\<lambda>e. we_id e = er_watcher_event_id run) (events_of d) of
        Inl e \<Rightarrow> Inl (PlainErr (''watcher event is gone: '' @ err_text e))
      | Inr ev \<Rightarrow>
     (case take_row (\<lambda>w. wa_id w = we_watcher_id ev) (watchers_of d) of
        Inl e \<Rightarrow> Inl (PlainErr (''watcher is gone: '' @ err_text e))
      | Inr watcher \<Rightarrow>
     (case Handlers_Get D (we_type ev) of
        Inl e \<Rightarrow> Inl e
      | Inr handler \<Rightarrow>
        Inr (handler,
         \<lparr>in_occurrence = er_occurrence run, in_watcher = watcher, in_event = ev, in_email = match,
          in_config = JSONOrEmpty (er_config_snapshot run) ''{}'',
          in_notifiers = notifiers_for d (we_id ev)\<rparr>)))))"

lemma run_load_input:
  assumes "db_up w"
  shows "\<exists>n. run_state (load_input D r) w = (find_input D (wdb w) r, w\<lparr>stmts := n\<rparr>)"
  using assms
  by (auto simp: load_input_def find_input_def Repo_FindById_def FindNotifiers_def table_defs
      split: sum.splits intro: exI [where x = "stmts w"])


lemma find_input_started [simp]:
  "find_input D d (r\<lparr>er_attempt := a, er_status := s, er_started_at := t\<rparr>) = find_input D d r"
  by (simp add: find_input_def cong: sum.case_cong)

subsection \<open>The next occurrence\<close>

definition next_of :: "event_run \<Rightarrow> watcher_event \<Rightarrow> event_run \<Rightarrow> bool" where
  "next_of run e f \<longleftrightarrow>
     er_status f = RunStatusPending \<and> er_occurrence f = er_occurrence run + 1
     \<and> er_matched_email_id f = er_matched_email_id run
     \<and> er_watcher_event_id f = er_watcher_event_id run \<and> er_user_id f = er_user_id run
     \<and> er_id f \<noteq> er_id run \<and> er_attempt f = 0 \<and> er_acknowledged_at f = None
     \<and> \<not> past_until e (er_scheduled_at f)"

definition follow_ok :: "event_run \<Rightarrow> watcher_event \<Rightarrow> event_run list \<Rightarrow> bool" where
  "follow_ok run e fs \<longleftrightarrow> fs = [] \<or> (chain_continues run e \<and> (\<exists>f. fs = [f] \<and> next_of run e f))"

lemma next_of_follow_run:
  "i \<noteq> er_id run \<Longrightarrow> \<not> past_until e at \<Longrightarrow>
   next_of run e (tb_stamp runs_table n (follow_run i at run))"
  by (simp add: next_of_def follow_run_def runs_table_def)

lemma run_scheduleNext:
  assumes up: "db_up w" and own: "has_id er_id (er_id run) (runs_of (wdb w))"
  shows "\<exists>fs. runs_of (wdb (snd (run_state (scheduleNext run e) w))) = runs_of (wdb w) @ fs
           \<and> follow_ok run e fs"
proof (cases "chain_continues run e")
  case False
  then show ?thesis by (simp add: scheduleNext_def follow_ok_def)
next
  case cont: True
  define at where "at = unix_milli (clock w (ticks w) + duration (interval_of e) Second)"
  show ?thesis
  proof (cases "past_until e at")
    case True
    with cont up show ?thesis by (simp add: scheduleNext_def follow_ok_def at_def [symmetric] Let_def)
  next
    case False
    define f where "f = tb_stamp runs_table (unix_milli (clock w (Suc (ticks w))))
        (follow_run (uuids w (uuid_pos w)) at run)"
    have res: "wdb (snd (run_state (scheduleNext run e) w)) = snd (insert_row runs_table f (wdb w))"
      using cont up False by (simp add: scheduleNext_def Repo_Create_def at_def [symmetric] f_def Let_def)
    show ?thesis
    proof (cases "insert_row runs_table f (wdb w)")
      case (Pair r d')
      show ?thesis
      proof (cases r)
        case (Inl err)
        with Pair have "d' = wdb w" by (simp add: runs.insert_row_error)
        with Pair res show ?thesis by (simp add: follow_ok_def)
      next
        case (Inr y)
        with Pair have rows: "runs_of d' = runs_of (wdb w) @ [f]"
            and new: "\<not> has_id er_id (er_id f) (runs_of (wdb w))"
          using runs.insert_row_ok [of f "wdb w" y d'] by (simp_all add: runs_table_def)
        from new own have "er_id f \<noteq> er_id run" by auto
        then have "next_of run e f" unfolding f_def
          by (intro next_of_follow_run False) (simp add: runs_table_def follow_run_def)
        with rows cont Pair res show ?thesis by (auto simp: follow_ok_def)
      qed
    qed
  qed
qed

subsection \<open>How a run settles\<close>

definition settles :: "event_run \<Rightarrow> event_run \<Rightarrow> err option \<Rightarrow> (nat \<Rightarrow> int) \<Rightarrow> bool" where
  "settles run row execErr clk \<longleftrightarrow>
     er_id row = er_id run \<and> run_slot row = run_slot run \<and> er_user_id row = er_user_id run
     \<and> er_attempt row = er_attempt run + 1 \<and> er_max_attempts row = er_max_attempts run
     \<and> er_acknowledged_at row = er_acknowledged_at run
     \<and> (case execErr of
          None \<Rightarrow> er_status row = RunStatusSucceeded \<and> er_error row = None
        | Some e \<Rightarrow> er_error row = Some (err_text e) \<and>
            (if er_attempt run + 1 < er_max_attempts run
             then er_status row = RunStatusPending \<and>
               (\<exists>k. er_scheduled_at row = unix_milli (clk k + backoff (er_attempt run + 1)))
             else er_status row = RunStatusFailed))"

lemma has_id_put_run: "has_id er_id i (put_run r rs) = has_id er_id i rs"
  by (induction rs) (auto simp: put_run_def)

lemma run_finish_run:
  assumes up: "db_up w" and ready: "run_ready run (wdb w)"
  shows "\<exists>row fs. runs_of (wdb (snd (run_state (finish_run run ev out execErr) w))) =
             put_run row (runs_of (wdb w)) @ fs
           \<and> settles (run\<lparr>er_attempt := er_attempt run - 1\<rparr>) row execErr (clock w)
           \<and> (if execErr = None then follow_ok run ev fs else fs = [])"
proof -
  let ?now = "unix_milli (clock w (ticks w))"
  let ?run = "run\<lparr>er_finished_at := Some ?now,
      er_result := (if ou_result out \<noteq> [] then ou_result out else er_result run)\<rparr>"
  let ?w = "w\<lparr>ticks := Suc (ticks w)\<rparr>"
  show ?thesis
  proof (cases execErr)
    case None
    let ?done = "?run\<lparr>er_status := RunStatusSucceeded, er_error := None\<rparr>"
    have rdy: "run_ready ?done (wdb ?w)"
      using ready by (subst run_ready_cong [of _ run]) (simp_all add: run_slot_def)
    obtain n w1 where sv: "run_state (save ?done) ?w = ((), w1)"
        and rows: "runs_of (wdb w1) = put_run (saved_run n ?done) (runs_of (wdb w))" and up1: "db_up w1"
      using run_save [of ?w ?done] up rdy by simp
    have "has_id er_id (er_id ?done) (runs_of (wdb w1))"
      using ready rows by (simp add: has_id_put_run run_ready_def)
    from run_scheduleNext [OF up1 this, of ev] obtain fs where
      fs: "runs_of (wdb (snd (run_state (scheduleNext ?done ev) w1))) = runs_of (wdb w1) @ fs"
        "follow_ok ?done ev fs" by blast
    have "follow_ok run ev fs"
      using fs(2) by (simp add: follow_ok_def next_of_def chain_continues_def cong: option.case_cong)
    then show ?thesis using None sv rows fs(1)
      by (intro exI [of _ "saved_run n ?done"] exI [of _ fs])
         (simp add: finish_run_def settles_def run_slot_def Let_def)
  next
    case (Some e)
    show ?thesis
    proof (cases "er_attempt run < er_max_attempts run")
      case True
      let ?at = "unix_milli (clock w (Suc (ticks w)) + backoff (er_attempt run))"
      let ?again = "?run\<lparr>er_error := Some (err_text e), er_status := RunStatusPending,
        er_scheduled_at := ?at, er_next_retry_at := Some ?at, er_finished_at := None\<rparr>"
      have "run_ready ?again (wdb (?w\<lparr>ticks := Suc (Suc (ticks w))\<rparr>))"
        using ready by (subst run_ready_cong [of _ run]) (simp_all add: run_slot_def)
      then obtain n w1 where "run_state (save ?again) (?w\<lparr>ticks := Suc (Suc (ticks w))\<rparr>) = ((), w1)"
          and "runs_of (wdb w1) = put_run (saved_run n ?again) (runs_of (wdb w))"
        using run_save [of "?w\<lparr>ticks := Suc (Suc (ticks w))\<rparr>" ?again] up by simp
      with Some True show ?thesis
        by (intro exI [of _ "saved_run n ?again"] exI [of _ "[]"])
           (auto simp: finish_run_def settles_def run_slot_def Let_def)
    next
      case False
      let ?dead = "?run\<lparr>er_error := Some (err_text e), er_status := RunStatusFailed\<rparr>"
      have "run_ready ?dead (wdb ?w)"
        using ready by (subst run_ready_cong [of _ run]) (simp_all add: run_slot_def)
      then obtain n w1 where "run_state (save ?dead) ?w = ((), w1)"
          and "runs_of (wdb w1) = put_run (saved_run n ?dead) (runs_of (wdb w))"
        using run_save [of ?w ?dead] up by simp
      with Some False show ?thesis
        by (intro exI [of _ "saved_run n ?dead"] exI [of _ "[]"])
           (auto simp: finish_run_def settles_def run_slot_def Let_def)
    qed
  qed
qed

lemma run_fail_run:
  assumes "db_up w" and "run_ready run (wdb w)"
  shows "\<exists>row. runs_of (wdb (snd (run_state (fail_run run reason) w))) = put_run row (runs_of (wdb w))
    \<and> er_id row = er_id run \<and> run_slot row = run_slot run \<and> er_user_id row = er_user_id run
    \<and> er_attempt row = er_attempt run \<and> er_acknowledged_at row = er_acknowledged_at run
    \<and> er_max_attempts row = er_max_attempts run
    \<and> er_status row = RunStatusFailed \<and> er_error row = Some reason"
proof -
  let ?now = "unix_milli (clock w (ticks w))"
  let ?dead = "run\<lparr>er_status := RunStatusFailed, er_finished_at := Some ?now, er_error := Some reason\<rparr>"
  let ?w = "w\<lparr>ticks := Suc (ticks w)\<rparr>"
  have "run_ready ?dead (wdb ?w)"
    using assms by (subst run_ready_cong [of _ run]) (simp_all add: run_slot_def)
  then show ?thesis using run_save [of ?w ?dead] assms
    by (intro exI [of _ "saved_run (unix_milli (clock w (Suc (ticks w)))) ?dead"])
       (simp add: fail_run_def run_slot_def)
qed

definition execute_result :: "dispatcher \<Rightarrow> event_run \<Rightarrow> world \<Rightarrow> event_run list \<Rightarrow> bool" where
  "execute_result D run w rows' \<longleftrightarrow>
     (case find_input D (wdb w) run of
        Inl e \<Rightarrow> \<exists>row. rows' = put_run row (runs_of (wdb w)) \<and> er_id row = er_id run
          \<and> run_slot row = run_slot run \<and> er_user_id row = er_user_id run
          \<and> er_attempt row = er_attempt run + 1 \<and> er_acknowledged_at row = er_acknowledged_at run
          \<and> er_max_attempts row = er_max_attempts run
          \<and> er_status row = RunStatusFailed \<and> er_error row = Some (err_text e)
      | Inr (h, inp) \<Rightarrow> \<exists>row fs. rows' = put_run row (runs_of (wdb w)) @ fs
          \<and> settles run row (snd (hd_execute h inp)) (clock w)
          \<and> (if snd (hd_execute h inp) = None then follow_ok run (in_event inp) fs else fs = []))"

lemma env_writeDeliveries: "preserves (same_env v) (writeDeliveries r ds)"
  unfolding writeDeliveries_def writeDelivery_def by (intro pres)

definition started_run :: "world \<Rightarrow> event_run \<Rightarrow> event_run" where
  "started_run w run = run\<lparr>er_attempt := er_attempt run + 1, er_status := RunStatusRunning,
     er_started_at := Some (unix_milli (clock w (ticks w)))\<rparr>"

lemma execute_loading:
  assumes "db_up w" and "run_ready run (wdb w)"
  obtains w1 where "run_state (load_input D (started_run w run)) (w\<lparr>ticks := Suc (ticks w)\<rparr>) = (find_input D (wdb w) run, w1)"
    and "db_up w1" "wdb w1 = wdb w" "same_env w w1" "run_ready (started_run w run) (wdb w1)"
proof -
  let ?w = "w\<lparr>ticks := Suc (ticks w)\<rparr>"
  obtain n where "run_state (load_input D (started_run w run)) ?w = (find_input D (wdb w) run, ?w\<lparr>stmts := n\<rparr>)"
    using run_load_input [of ?w D "started_run w run"] assms(1) by (auto simp: started_run_def)
  moreover have "run_ready (started_run w run) (wdb w)"
    using assms(2) by (subst run_ready_cong [of _ run]) (simp_all add: run_slot_def started_run_def)
  ultimately show thesis using that [of "?w\<lparr>stmts := n\<rparr>"] assms(1) by (simp add: same_env_def)
qed

lemma execute_loaded:
  assumes up: "db_up w" and ready: "run_ready run (wdb w)"
    and inp: "find_input D (wdb w) run = Inr (h, inp)" and hx: "hd_execute h inp = (out, err)"
  obtains w2 where "run_state (execute D run) w = run_state (finish_run (started_run w run) (in_event inp) out err) w2"
    and "db_up w2" "run_ready (started_run w run) (wdb w2)" "runs_of (wdb w2) = runs_of (wdb w)" "same_env w w2"
proof -
  let ?run = "started_run w run"
  obtain w1 where ld: "run_state (load_input D ?run) (w\<lparr>ticks := Suc (ticks w)\<rparr>) = (find_input D (wdb w) run, w1)"
    and w1: "db_up w1" "wdb w1 = wdb w" "same_env w w1" "run_ready ?run (wdb w1)"
    using execute_loading [OF up ready, of D] .
  obtain w2 where wd: "run_state (writeDeliveries ?run (ou_deliveries out)) w1 = ((), w2)"
    by (cases "run_state (writeDeliveries ?run (ou_deliveries out)) w1") simp
  have K: "preserves (db_inv (\<lambda>d. run_ready ?run d \<and> runs_of d = runs_of (wdb w)))
      (writeDeliveries ?run (ou_deliveries out))"
    by (rule pres_writeDeliveries) (auto simp: run_ready_def runs_table_def)
  have "run_state (execute D run) w = run_state (finish_run ?run (in_event inp) out err) w2"
    using ld inp hx wd by (simp add: execute_def Let_def started_run_def)
  moreover have "db_up w2" using preserves_run [OF up_Dispatcher(1) _ wd] w1 by simp
  moreover have "run_ready ?run (wdb w2)" "runs_of (wdb w2) = runs_of (wdb w)"
    using preserves_run [OF K _ wd] w1 by (simp_all add: db_inv_def)
  moreover have "same_env w w2" using preserves_run [OF env_writeDeliveries _ wd] w1 by simp
  ultimately show thesis using that by blast
qed

lemma execute_runs:
  assumes up: "db_up w" and ready: "run_ready run (wdb w)"
  shows "execute_result D run w (runs_of (wdb (snd (run_state (execute D run) w))))"
proof -
  let ?run = "started_run w run"
  show ?thesis
  proof (cases "find_input D (wdb w) run")
    case (Inl e)
    obtain w1 where ld: "run_state (load_input D ?run) (w\<lparr>ticks := Suc (ticks w)\<rparr>) = (find_input D (wdb w) run, w1)"
      and w1: "db_up w1" "wdb w1 = wdb w" "run_ready ?run (wdb w1)"
      using execute_loading [OF up ready, of D] by blast
    have "run_state (execute D run) w = run_state (fail_run ?run (err_text e)) w1"
      using ld Inl by (simp add: execute_def Let_def started_run_def)
    with run_fail_run [of w1 ?run "err_text e"] w1 Inl show ?thesis
      by (simp add: execute_result_def run_slot_def started_run_def)
  next
    case (Inr p)
    obtain h inp where p: "p = (h, inp)" by (cases p)
    obtain out err where hx: "hd_execute h inp = (out, err)" by (cases "hd_execute h inp")
    obtain w2 where ex: "run_state (execute D run) w = run_state (finish_run ?run (in_event inp) out err) w2"
        and w2: "db_up w2" "run_ready ?run (wdb w2)" "runs_of (wdb w2) = runs_of (wdb w)" "same_env w w2"
      using execute_loaded [OF up ready _ hx, of D] Inr p by blast
    then obtain row fs where rf: "runs_of (wdb (snd (run_state (execute D run) w))) =
          put_run row (runs_of (wdb w)) @ fs"
        "settles (?run\<lparr>er_attempt := er_attempt ?run - 1\<rparr>) row err (clock w)"
        "if err = None then follow_ok ?run (in_event inp) fs else fs = []"
      using run_finish_run [OF w2(1,2), of "in_event inp" out err] by (auto simp: same_env_def)
    have "settles run row err (clock w)" using rf(2)
      by (auto simp: settles_def run_slot_def started_run_def split: option.splits if_splits)
    moreover have "follow_ok ?run (in_event inp) fs = follow_ok run (in_event inp) fs"
      by (simp add: follow_ok_def next_of_def chain_continues_def started_run_def cong: option.case_cong)
    ultimately show ?thesis using rf(1,3) Inr p hx
      unfolding execute_result_def
      by (auto intro!: exI [of _ row] exI [of _ fs])
  qed
qed

subsection \<open>The chain goes on\<close>

text \<open>Nothing stands in the way of the next occurrence: its slot and the identifiers to come are free.\<close>

definition next_slot :: "event_run \<Rightarrow> string \<times> string \<times> int" where
  "next_slot run = (er_matched_email_id run, er_watcher_event_id run, er_occurrence run + 1)"

definition next_free :: "event_run \<Rightarrow> world \<Rightarrow> bool" where
  "next_free run w \<longleftrightarrow> (\<forall>r \<in> set (runs_of (wdb w)). run_slot r \<noteq> next_slot run
     \<and> (\<forall>n \<ge> uuid_pos w. er_id r \<noteq> uuids w n))"

definition next_due :: "watcher_event \<Rightarrow> event_run \<Rightarrow> (nat \<Rightarrow> int) \<Rightarrow> bool" where
  "next_due e f clk \<longleftrightarrow> (\<exists>k. er_scheduled_at f = unix_milli (clk k + duration (interval_of e) Second))"

lemma scheduleNext_adds:
  assumes up: "db_up w" and ready: "run_ready run (wdb w)" and free: "next_free run w"
    and cont: "chain_continues run e" and endless: "we_repeat_until e = None"
  shows "\<exists>f. runs_of (wdb (snd (run_state (scheduleNext run e) w))) = runs_of (wdb w) @ [f] \<and> next_of run e f
    \<and> next_due e f (clock w)"
proof -
  define at where "at = unix_milli (clock w (ticks w) + duration (interval_of e) Second)"
  define f where "f = tb_stamp runs_table (unix_milli (clock w (Suc (ticks w))))
      (follow_run (uuids w (uuid_pos w)) at run)"
  have f: "er_id f = uuids w (uuid_pos w)" "run_slot f = next_slot run" "er_user_id f = er_user_id run"
      "er_matched_email_id f = er_matched_email_id run" "er_watcher_event_id f = er_watcher_event_id run"
      "er_occurrence f = er_occurrence run + 1"
    by (simp_all add: f_def follow_run_def runs_table_def run_slot_def next_slot_def)
  have until: "\<not> past_until e at" using endless by (simp add: past_until_def)
  have "\<not> has_id er_id (er_id f) (runs_of (wdb w))" and "tb_check runs_table (wdb w) f"
    using free f ready
    by (auto simp: next_free_def list_ex_iff list_all_iff run_ready_def runs_table_def unique_on_def)
  then have "insert_row runs_table f (wdb w) = (Inr f, (wdb w)\<lparr>runs_of := runs_of (wdb w) @ [f]\<rparr>)"
    by (simp add: insert_row_def) (simp add: runs_table_def)
  then have "runs_of (wdb (snd (run_state (scheduleNext run e) w))) = runs_of (wdb w) @ [f]"
    using cont up until by (simp add: scheduleNext_def Repo_Create_def at_def [symmetric] f_def [symmetric] Let_def)
  moreover obtain r where "r \<in> set (runs_of (wdb w))" "er_id r = er_id run"
    using ready by (auto simp: run_ready_def list_ex_iff)
  then have "er_id f \<noteq> er_id run" using free f(1) unfolding next_free_def by (metis order_refl)
  then have "next_of run e f" unfolding f_def
    by (intro next_of_follow_run until) (simp add: runs_table_def follow_run_def)
  moreover have "next_due e f (clock w)"
    by (auto simp: next_due_def f_def follow_run_def runs_table_def at_def)
  ultimately show ?thesis by blast
qed

lemma unique_on_put_run:
  assumes "unique_on er_id run_slot run rs" and "er_id row = er_id run" and "run_slot row = run_slot run"
  shows "unique_on er_id run_slot row (put_run row rs)"
  using assms by (auto simp: unique_on_def list_all_iff put_run_def set_update_where)

lemma finish_run_adds:
  assumes up: "db_up w" and ready: "run_ready run (wdb w)" and free: "next_free run w"
    and cont: "chain_continues run ev" and endless: "we_repeat_until ev = None"
  shows "\<exists>row f. runs_of (wdb (snd (run_state (finish_run run ev out None) w))) = put_run row (runs_of (wdb w)) @ [f]
    \<and> er_id row = er_id run \<and> next_of run ev f \<and> next_due ev f (clock w)"
proof -
  let ?now = "unix_milli (clock w (ticks w))"
  let ?done = "run\<lparr>er_finished_at := Some ?now,
      er_result := (if ou_result out \<noteq> [] then ou_result out else er_result run),
      er_status := RunStatusSucceeded, er_error := None\<rparr>"
  let ?w = "w\<lparr>ticks := Suc (ticks w)\<rparr>"
  have rdy: "run_ready ?done (wdb ?w)"
    using ready by (subst run_ready_cong [of _ run]) (simp_all add: run_slot_def)
  define row where "row = saved_run (unix_milli (clock w (Suc (ticks w)))) ?done"
  obtain w1 where sv: "run_state (save ?done) ?w = ((), w1)" and up1: "db_up w1"
      and db1: "wdb w1 = (wdb w)\<lparr>runs_of := put_run row (runs_of (wdb w))\<rparr>" and env: "uuids w1 = uuids w" "clock w1 = clock w" "uuid_pos w1 = uuid_pos w"
    using run_save [of ?w ?done] up rdy by (simp add: row_def)
  have id: "er_id row = er_id run" by (simp add: row_def)
  have slot: "run_slot row = run_slot run" by (simp add: row_def run_slot_def)
  have "er_user_id row = er_user_id run" by (simp add: row_def)
  moreover have "unique_on er_id run_slot row (put_run row (runs_of (wdb w)))"
    using ready id slot by (intro unique_on_put_run) (auto simp: run_ready_def runs_table_def)
  ultimately have "run_ready row (wdb w1)"
    using ready id slot by (auto simp: run_ready_def runs_table_def db1 has_id_put_run run_slot_def)
  then have ready1: "run_ready ?done (wdb w1)"
    by (subst run_ready_cong [of _ row]) (simp_all add: row_def run_slot_def)
  have "next_free ?done w1"
    unfolding next_free_def
  proof
    fix r assume "r \<in> set (runs_of (wdb w1))"
    then obtain y where y: "y \<in> set (runs_of (wdb w))" and r: "r = (if er_id y = er_id row then row else y)"
      by (auto simp: db1 put_run_def set_update_where)
    have "run_slot run \<noteq> next_slot run" by (simp add: run_slot_def next_slot_def)
    then show "run_slot r \<noteq> next_slot ?done \<and> (\<forall>n \<ge> uuid_pos w1. er_id r \<noteq> uuids w1 n)"
      using free y r id slot env by (auto simp: next_free_def next_slot_def)
  qed
  from scheduleNext_adds [OF up1 ready1 this, of ev] obtain f where
      f: "runs_of (wdb (snd (run_state (scheduleNext ?done ev) w1))) = runs_of (wdb w1) @ [f]" "next_of ?done ev f"
      "next_due ev f (clock w)"
    using cont endless env by (auto simp: chain_continues_def split: option.splits)
  have "next_of run ev f" using f(2) by (simp add: next_of_def)
  moreover have "runs_of (wdb (snd (run_state (finish_run run ev out None) w))) = put_run row (runs_of (wdb w)) @ [f]"
    using sv f(1) db1 by (simp add: finish_run_def Let_def)
  ultimately show ?thesis using id f(3) by blast
qed

lemma execute_adds:
  assumes up: "db_up w" and ready: "run_ready run (wdb w)" and inp: "find_input D (wdb w) run = Inr (h, inp)"
    and ok: "snd (hd_execute h inp) = None" and cont: "chain_continues run (in_event inp)"
    and endless: "we_repeat_until (in_event inp) = None" and free: "next_free run w"
  shows "\<exists>row f. runs_of (wdb (snd (run_state (execute D run) w))) = put_run row (runs_of (wdb w)) @ [f]
    \<and> er_id row = er_id run \<and> next_of run (in_event inp) f \<and> next_due (in_event inp) f (clock w)"
proof -
  let ?run = "started_run w run"
  obtain out where hx: "hd_execute h inp = (out, None)" using ok by (cases "hd_execute h inp") simp
  obtain w2 where ex: "run_state (execute D run) w = run_state (finish_run ?run (in_event inp) out None) w2"
      and w2: "db_up w2" "run_ready ?run (wdb w2)" "runs_of (wdb w2) = runs_of (wdb w)" "same_env w w2"
    using execute_loaded [OF up ready inp hx] .
  have "next_free ?run w2" using free w2 by (simp add: next_free_def next_slot_def started_run_def same_env_def)
  moreover have "chain_continues ?run (in_event inp)"
    using cont by (simp add: chain_continues_def started_run_def cong: option.case_cong)
  ultimately obtain row f where "runs_of (wdb (snd (run_state (finish_run ?run (in_event inp) out None) w2))) =
      put_run row (runs_of (wdb w2)) @ [f]" "er_id row = er_id ?run" "next_of ?run (in_event inp) f"
      "next_due (in_event inp) f (clock w2)"
    using finish_run_adds [OF w2(1,2) _ _ endless] by blast
  with ex w2 show ?thesis by (auto simp: next_of_def started_run_def same_env_def)
qed

lemma execute_result_rows:
  assumes "execute_result D run w rows'"
  shows "\<exists>row fs. rows' = put_run row (runs_of (wdb w)) @ fs
    \<and> er_id row = er_id run \<and> run_slot row = run_slot run \<and> er_user_id row = er_user_id run
    \<and> er_attempt row = er_attempt run + 1 \<and> er_acknowledged_at row = er_acknowledged_at run
    \<and> er_max_attempts row = er_max_attempts run
    \<and> (er_status row = RunStatusSucceeded \<or> er_status row = RunStatusFailed
       \<or> er_status row = RunStatusPending \<and> er_attempt row < er_max_attempts row)
    \<and> (\<forall>f \<in> set fs. er_id f \<noteq> er_id run)
    \<and> (fs \<noteq> [] \<longrightarrow> er_status row = RunStatusSucceeded)"
proof (cases "find_input D (wdb w) run")
  case (Inl e)
  with assms show ?thesis
    by (auto simp: execute_result_def intro!: exI [where x = "[]"])
next
  case (Inr p)
  then obtain h inp where p: "find_input D (wdb w) run = Inr (h, inp)" by (cases p) simp
  from assms obtain row fs where "rows' = put_run row (runs_of (wdb w)) @ fs"
    and st: "settles run row (snd (hd_execute h inp)) (clock w)"
    and fs: "if snd (hd_execute h inp) = None then follow_ok run (in_event inp) fs else fs = []"
    by (auto simp: execute_result_def p)
  then show ?thesis
    by (intro exI [of _ row] exI [of _ fs])
       (auto simp: settles_def follow_ok_def next_of_def split: option.splits if_splits)
qed

text \<open>The row a later tick finds, and one more execution of it\<close>

definition find_run :: "string \<Rightarrow> world \<Rightarrow> event_run option" where
  "find_run i w = take_first (\<lambda>r. er_id r = i) (runs_of (wdb w))"

fun rerun :: "dispatcher list \<Rightarrow> string \<Rightarrow> world \<Rightarrow> world" where
  "rerun [] i w = w"
| "rerun (D # Ds) i w =
     (case find_run i w of
        None \<Rightarrow> w
      | Some r \<Rightarrow> if er_status r = RunStatusPending then rerun Ds i (snd (run_state (execute D r) w))
                 else rerun Ds i w)"

definition always_fails :: "dispatcher \<Rightarrow> bool" where
  "always_fails D \<longleftrightarrow> (\<forall>t h inp. dp_handlers D t = Some h \<longrightarrow> snd (hd_execute h inp) \<noteq> None)"

lemma find_run_put_run:
  "has_id er_id (er_id row) rs \<Longrightarrow> take_first (\<lambda>r. er_id r = er_id row) (put_run row rs @ fs) = Some row"
  by (induction rs) (auto simp: put_run_def)

lemma up_execute: "preserves db_up (execute D run)"
  unfolding execute_def finish_run_def fail_run_def scheduleNext_def save_def Let_def ignoreE_def
    load_input_def
  by (intro pres)

lemma pres_scheduleNext:
  assumes "\<And>d xs. K d \<Longrightarrow> K (d\<lparr>runs_of := xs\<rparr>)"
  shows "preserves (db_inv K) (scheduleNext run e)"
proof -
  have "preserves (db_inv K) (Repo_Create runs_table x)" for x
    using assms by (intro pres_Repo_Create) (simp add: insert_row_def, simp add: runs_table_def)
  then show ?thesis unfolding scheduleNext_def Let_def by (intro pres)
qed

lemma pres_save_run:
  assumes "\<And>d xs. K d \<Longrightarrow> K (d\<lparr>runs_of := xs\<rparr>)"
  shows "preserves (db_inv K) (save run)"
proof -
  have "preserves (db_inv K) (Repo_Update runs_table x)" for x
    using assms by (intro pres_Repo_Update) (simp add: save_row_def, simp add: runs_table_def)
  then show ?thesis unfolding save_def by (intro pres)
qed

text \<open>Executing a run writes the tables of runs and of deliveries, and no other.\<close>

lemma pres_execute:
  assumes "\<And>d xs. K d \<Longrightarrow> K (d\<lparr>runs_of := xs\<rparr>)" and "\<And>d xs. K d \<Longrightarrow> K (d\<lparr>deliveries_of := xs\<rparr>)"
  shows "preserves (db_inv K) (execute D run)"
  unfolding execute_def finish_run_def fail_run_def Let_def load_input_def
  by (intro pres pres_save_run pres_scheduleNext assms)

lemma find_input_rows:
  assumes "find_input D d run = Inr (h, inp)"
  shows "in_event inp \<in> set (events_of d) \<and> dp_handlers D (we_type (in_event inp)) = Some h"
  using assms
  by (auto simp: find_input_def take_row_def Handlers_Get_def split: option.splits dest!: take_first_Some)

lemma execute_failing:
  assumes "db_up w" and "run_ready run (wdb w)" and "always_fails D"
  shows "\<exists>row. find_run (er_id run) (snd (run_state (execute D run) w)) = Some row
    \<and> runs_of (wdb (snd (run_state (execute D run) w))) = put_run row (runs_of (wdb w))
    \<and> er_id row = er_id run \<and> run_slot row = run_slot run \<and> er_user_id row = er_user_id run
    \<and> er_attempt row = er_attempt run + 1 \<and> er_max_attempts row = er_max_attempts run
    \<and> (er_status row = RunStatusFailed \<or> er_status row = RunStatusPending \<and> er_attempt row < er_max_attempts row)"
proof -
  have res: "execute_result D run w (runs_of (wdb (snd (run_state (execute D run) w))))"
    using execute_runs [OF assms(1,2)] .
  have "\<exists>row. runs_of (wdb (snd (run_state (execute D run) w))) = put_run row (runs_of (wdb w))
    \<and> er_id row = er_id run \<and> run_slot row = run_slot run \<and> er_user_id row = er_user_id run
    \<and> er_attempt row = er_attempt run + 1 \<and> er_max_attempts row = er_max_attempts run
    \<and> (er_status row = RunStatusFailed \<or> er_status row = RunStatusPending \<and> er_attempt row < er_max_attempts row)"
  proof (cases "find_input D (wdb w) run")
    case (Inl e)
    with res show ?thesis by (auto simp: execute_result_def)
  next
    case (Inr p)
    then obtain h inp where p: "find_input D (wdb w) run = Inr (h, inp)" by (cases p) simp
    with assms(3) have "snd (hd_execute h inp) \<noteq> None"
      using find_input_rows [OF p] unfolding always_fails_def by blast
    with res p show ?thesis
      by (auto simp: execute_result_def settles_def split: if_splits)
  qed
  then obtain row where row: "runs_of (wdb (snd (run_state (execute D run) w))) = put_run row (runs_of (wdb w))"
      "er_id row = er_id run" and rest: "run_slot row = run_slot run" "er_user_id row = er_user_id run"
      "er_attempt row = er_attempt run + 1" "er_max_attempts row = er_max_attempts run"
      "er_status row = RunStatusFailed \<or> er_status row = RunStatusPending \<and> er_attempt row < er_max_attempts row"
    by blast
  then have "find_run (er_id run) (snd (run_state (execute D run) w)) = Some row"
    using assms(2) find_run_put_run [of row "runs_of (wdb w)" "[]"]
    by (simp add: find_run_def run_ready_def)
  with row rest show ?thesis by blast
qed

subsection \<open>Properties\<close>

lemma ready_sample: "run_ready run1 sample_db"
  by (simp add: run_ready_def table_defs unique_on_def sample_defs)

definition quiet_handler :: handler where
  "quiet_handler = \<lparr>hd_type = ''notify'', hd_label = [], hd_description = [],
     hd_uses_notifiers = True, hd_config_schema = \<lparr>sc_fields = []\<rparr>, hd_validate = (\<lambda>_. None),
     hd_execute = (\<lambda>_. (\<lparr>ou_result = ''{}'', ou_deliveries = []\<rparr>, None))\<rparr>"

definition sample_input :: event_input where
  "sample_input = \<lparr>in_occurrence = 1, in_watcher = invoices, in_event = remind, in_email = mail1,
     in_config = ''{}'', in_notifiers = []\<rparr>"

lemma run1_uuid: "''r1'' \<noteq> replicate (Suc n) (CHR ''u'')"
  by (cases n) auto

definition broken_handler :: handler where
  "broken_handler = quiet_handler\<lparr>hd_execute := (\<lambda>_. (\<lparr>ou_result = [], ou_deliveries = []\<rparr>, Some ErrInternal))\<rparr>"

definition sample_dispatcher :: "handler \<Rightarrow> dispatcher" where
  "sample_dispatcher h = \<lparr>dp_unicode = sample_unicode, dp_handlers = [''notify'' \<mapsto> h]\<rparr>"

text \<open>C2: While the database answers, one execution of a run leaves its row with the attempt
  counted and settled: succeeded, failed, or pending again with an attempt left.  Whatever
  the handler returns and whichever referenced row is gone, it is never left running.\<close>

theorem execute_settles:
  assumes "db_up w" and "run_ready run (wdb w)"
  shows "\<exists>row. find_run (er_id run) (snd (run_state (execute D run) w)) = Some row
    \<and> er_attempt row = er_attempt run + 1 \<and> er_max_attempts row = er_max_attempts run
    \<and> run_slot row = run_slot run \<and> er_user_id row = er_user_id run
    \<and> (er_status row = RunStatusSucceeded \<or> er_status row = RunStatusFailed
       \<or> er_status row = RunStatusPending \<and> er_attempt row < er_max_attempts row)"
proof -
  obtain row fs where rows: "runs_of (wdb (snd (run_state (execute D run) w))) = put_run row (runs_of (wdb w)) @ fs"
    and row: "er_id row = er_id run" "er_attempt row = er_attempt run + 1"
      "er_max_attempts row = er_max_attempts run" "run_slot row = run_slot run"
      "er_user_id row = er_user_id run"
      "er_status row = RunStatusSucceeded \<or> er_status row = RunStatusFailed
       \<or> er_status row = RunStatusPending \<and> er_attempt row < er_max_attempts row"
    using execute_result_rows [OF execute_runs [OF assms, of D]] by blast
  have "find_run (er_id run) (snd (run_state (execute D run) w)) = Some row"
    using find_run_put_run [of row "runs_of (wdb w)" fs] assms(2) row(1) rows
    by (simp add: find_run_def run_ready_def)
  with row show ?thesis by blast
qed

theorem execute_settles_witness:
  "\<exists>row. find_run ''r1'' (snd (run_state (execute (sample_dispatcher broken_handler) run1) sample_world)) = Some row
    \<and> er_attempt row = 1"
  using execute_settles [of sample_world run1 "sample_dispatcher broken_handler"] ready_sample
  by (auto simp: run1_def)

text \<open>C3: The repeat chain cannot run ahead of itself: one execution adds at most one run; it
  adds one only when the executed run has just succeeded and the event repeats (recurring,
  positive interval, occurrence below the maximum, not acknowledged under stop-on-ack); the
  new run is the next occurrence of the same match and event, pending, unacknowledged, and
  not scheduled past \<open>repeat_until\<close>.\<close>

theorem execute_chain:
  assumes "db_up w" and "run_ready run (wdb w)"
  shows "\<exists>row fs. runs_of (wdb (snd (run_state (execute D run) w))) = put_run row (runs_of (wdb w)) @ fs
    \<and> (fs = [] \<or> (\<exists>f ev. fs = [f] \<and> ev \<in> set (events_of (wdb w)) \<and> we_id ev = er_watcher_event_id run
         \<and> er_status row = RunStatusSucceeded \<and> chain_continues run ev \<and> next_of run ev f))"
proof -
  have res: "execute_result D run w (runs_of (wdb (snd (run_state (execute D run) w))))"
    using execute_runs [OF assms] .
  show ?thesis
  proof (cases "find_input D (wdb w) run")
    case (Inl e)
    with res obtain row where "runs_of (wdb (snd (run_state (execute D run) w))) = put_run row (runs_of (wdb w))"
      by (auto simp: execute_result_def)
    then show ?thesis by (intro exI [of _ row] exI [of _ "[]"]) simp
  next
    case (Inr p)
    then obtain h inp where p: "find_input D (wdb w) run = Inr (h, inp)" by (cases p) simp
    have ev: "in_event inp \<in> set (events_of (wdb w))" "we_id (in_event inp) = er_watcher_event_id run"
      using p by (auto simp: find_input_def take_row_def split: option.splits sum.splits dest!: take_first_Some)
    from res p obtain row fs where rows: "runs_of (wdb (snd (run_state (execute D run) w))) =
          put_run row (runs_of (wdb w)) @ fs"
        and st: "settles run row (snd (hd_execute h inp)) (clock w)"
        and fs: "if snd (hd_execute h inp) = None then follow_ok run (in_event inp) fs else fs = []"
      by (auto simp: execute_result_def)
    show ?thesis
      using rows st fs ev
      by (intro exI [of _ row] exI [of _ fs]) (auto simp: follow_ok_def settles_def split: if_splits)
  qed
qed

theorem execute_chain_witness:
  "\<exists>row fs. runs_of (wdb (snd (run_state (execute (sample_dispatcher quiet_handler) run1) sample_world)))
      = put_run row [run1] @ fs \<and> length fs \<le> 1"
proof -
  obtain row fs where "runs_of (wdb (snd (run_state (execute (sample_dispatcher quiet_handler) run1) sample_world)))
      = put_run row (runs_of (wdb sample_world)) @ fs" and "fs = [] \<or> (\<exists>f. fs = [f])"
    using execute_chain [of sample_world run1 "sample_dispatcher quiet_handler"] ready_sample by auto
  then show ?thesis by (intro exI [of _ row] exI [of _ fs]) (auto simp: sample_defs)
qed

lemma sample_find_input:
  "find_input (sample_dispatcher quiet_handler) (wdb sample_world) run1 = Inr (quiet_handler, sample_input)"
  by (simp add: find_input_def sample_dispatcher_def sample_input_def take_row_def Handlers_Get_def
      notifiers_for_def JSONOrEmpty_def sample_defs)

text \<open>C4: A repeat chain does not stall: when the handler of a run succeeds, the event repeats without
  an end date and the next slot is free, the execution does add the next occurrence, pending,
  one interval after the moment it finished.\<close>

theorem chain_progress:
  assumes "db_up w" and "run_ready run (wdb w)" and "find_input D (wdb w) run = Inr (h, inp)"
    and "snd (hd_execute h inp) = None" and "chain_continues run (in_event inp)"
    and "we_repeat_until (in_event inp) = None" and "next_free run w"
  shows "\<exists>row f. runs_of (wdb (snd (run_state (execute D run) w))) = put_run row (runs_of (wdb w)) @ [f]
    \<and> er_id row = er_id run \<and> next_of run (in_event inp) f \<and> next_due (in_event inp) f (clock w)"
  by (rule execute_adds) (fact assms)+

theorem chain_progress_witness:
  "\<exists>row f. runs_of (wdb (snd (run_state (execute (sample_dispatcher quiet_handler) run1) sample_world)))
      = put_run row [run1] @ [f] \<and> er_occurrence f = 2 \<and> er_status f = RunStatusPending"
proof -
  note inp = sample_find_input
  have "next_free run1 sample_world"
    by (simp add: next_free_def next_slot_def run_slot_def run1_uuid sample_defs)
  from chain_progress [OF _ _ inp _ _ _ this] show ?thesis
    using ready_sample
    by (auto simp: sample_input_def quiet_handler_def chain_continues_def interval_of_def next_of_def sample_defs)
qed

lemma run_ready_after:
  assumes ready: "run_ready run (wdb w)" and up: "db_up w"
    and rows: "runs_of (wdb (snd (run_state (execute D run) w))) = put_run row (runs_of (wdb w))"
    and row: "er_id row = er_id run" "run_slot row = run_slot run" "er_user_id row = er_user_id run"
  shows "run_ready row (wdb (snd (run_state (execute D run) w)))"
proof -
  let ?same = "\<lambda>d. users_of d = users_of (wdb w) \<and> matches_of d = matches_of (wdb w)
    \<and> events_of d = events_of (wdb w)"
  have "preserves (db_inv ?same) (execute D run)" by (rule pres_execute) simp_all
  then have same: "?same (wdb (snd (run_state (execute D run) w)))"
    using preservesD [of "db_inv ?same" _ w] by (simp add: db_inv_def)
  have "unique_on er_id run_slot run (runs_of (wdb w))"
    using ready by (simp add: run_ready_def runs_table_def)
  from unique_on_put_run [OF this row(1,2)] have "unique_on er_id run_slot row (put_run row (runs_of (wdb w)))" .
  then show ?thesis using ready rows same row
    by (auto simp: run_ready_def runs_table_def has_id_put_run run_slot_def)
qed

text \<open>C5: A run whose handler always fails is not retried for ever: from a pending run, after
  as many executions as it has attempts left (at least one) it stands failed, and it was
  executed at most that often.  Each of the later workers may have another registry.\<close>

theorem retries_exhaust:
  assumes "db_up w" and "find_run i w = Some run" and "run_ready run (wdb w)"
    and "er_status run = RunStatusPending" and "\<forall>D \<in> set Ds. always_fails D"
    and "Ds \<noteq> []" and "er_max_attempts run - er_attempt run \<le> int (length Ds)"
  shows "\<exists>r. find_run i (rerun Ds i w) = Some r \<and> er_status r = RunStatusFailed
    \<and> er_attempt r \<le> max (er_attempt run + 1) (er_max_attempts run)"
  using assms
proof (induction Ds arbitrary: w run)
  case Nil
  then show ?case by simp
next
  case (Cons D Ds)
  let ?w = "snd (run_state (execute D run) w)"
  have i: "er_id run = i" using Cons.prems(2) by (auto simp: find_run_def dest!: take_first_Some)
  obtain row where row: "find_run i ?w = Some row" "run_slot row = run_slot run"
      "er_user_id row = er_user_id run" "er_id row = er_id run"
      "er_attempt row = er_attempt run + 1" "er_max_attempts row = er_max_attempts run"
      "er_status row = RunStatusFailed \<or> er_status row = RunStatusPending \<and> er_attempt row < er_max_attempts row"
      "runs_of (wdb ?w) = put_run row (runs_of (wdb w))"
    using execute_failing [of w run D] Cons.prems i by auto
  have step: "rerun (D # Ds) i w = rerun Ds i ?w" using Cons.prems by simp
  have settled: "\<exists>r. find_run i (rerun Es i v) = Some r \<and> r = row"
    if "find_run i v = Some row" "er_status row = RunStatusFailed" for Es v
    using that by (induction Es) simp_all
  show ?case
  proof (cases "er_status row = RunStatusFailed")
    case True
    with settled [OF row(1) True, of Ds] step row show ?thesis by auto
  next
    case False
    have "run_ready row (wdb ?w)"
      using run_ready_after [OF Cons.prems(3,1) row(8,4,2,3)] .
    moreover have "db_up ?w" using preservesD [OF up_execute Cons.prems(1)] .
    moreover have "Ds \<noteq> []" using row False Cons.prems(7) by auto
    ultimately have "\<exists>r. find_run i (rerun Ds i ?w) = Some r \<and> er_status r = RunStatusFailed
        \<and> er_attempt r \<le> max (er_attempt row + 1) (er_max_attempts row)"
      using row False Cons.prems by (intro Cons.IH) auto
    with step row False show ?thesis by auto
  qed
qed

theorem retries_exhaust_witness:
  "\<exists>r. find_run ''r1'' (rerun (replicate 3 (sample_dispatcher broken_handler)) ''r1'' sample_world) = Some r
    \<and> er_status r = RunStatusFailed \<and> er_attempt r \<le> 3"
proof -
  have "always_fails (sample_dispatcher broken_handler)"
    by (auto simp: always_fails_def sample_dispatcher_def broken_handler_def split: if_splits)
  moreover have "find_run ''r1'' sample_world = Some run1"
    by (simp add: find_run_def sample_db_def run1_def)
  ultimately show ?thesis
    using retries_exhaust [of sample_world "''r1''" run1 "replicate 3 (sample_dispatcher broken_handler)"] ready_sample
    by (auto simp: run1_def)
qed

text \<open>C18: The wait before retry \<open>a\<close> is \<open>30 * 2 ^ a\<close> seconds, with no overflow, for every attempt
  number up to 28.\<close>

theorem backoff_exact:
  assumes "0 \<le> a" "a \<le> 28"
  shows "backoff a = 2 ^ nat a * 30 * Second"
  using assms by (rule backoff_seconds)

theorem backoff_exact_witness: "backoff 2 = 120 * Second"
  using backoff_exact [of 2] by simp

subsection \<open>The claim\<close>

lemma claim_run_rows:
  assumes "run_state (claim_run r) w = (Inr u, w')"
  shows "\<exists>f. runs_of (wdb w') = update_where (\<lambda>x. er_id x = er_id r) f (runs_of (wdb w))
      \<and> (\<forall>x. er_id (f x) = er_id x \<and> er_status (f x) = RunStatusRunning)"
  using assms
  by (intro exI [of _ "\<lambda>x. x\<lparr>er_status := RunStatusRunning,
        er_started_at := Some (unix_milli (clock w (ticks w))),
        er_updated_at := unix_milli (clock w (Suc (ticks w)))\<rparr>"])
    (auto simp: claim_run_def Repo_UpdateWhere_def run_stmt runs_table_def split: option.splits)

definition claimed_running :: "string set \<Rightarrow> database \<Rightarrow> bool" where
  "claimed_running ids d \<longleftrightarrow> (\<forall>x \<in> set (runs_of d). er_id x \<in> ids \<longrightarrow> er_status x = RunStatusRunning)"

lemma claim_loop_running:
  assumes "run_state (forE cs claim_run) w = (Inr u, w')" and "claimed_running ids (wdb w)"
  shows "claimed_running (ids \<union> er_id ` set cs) (wdb w')"
  using assms
proof (induction cs arbitrary: w ids)
  case Nil
  then show ?case by simp
next
  case (Cons c cs)
  obtain w1 where c: "run_state (claim_run c) w = (Inr (), w1)"
      and rest: "run_state (forE cs claim_run) w1 = (Inr u, w')"
    using Cons.prems(1) by (auto split: prod.splits sum.splits)
  have "claimed_running (insert (er_id c) ids) (wdb w1)"
    using claim_run_rows [OF c] Cons.prems(2) by (auto simp: claimed_running_def set_update_where)
  from Cons.IH [OF rest this] show ?case by simp
qed

lemma claim_runs_ok:
  assumes "run_state (claim_runs locked limit) w = (Inr cs, w')"
  shows "claimed_running (er_id ` set cs) (wdb w') \<and> length cs \<le> nat limit
    \<and> (\<forall>c \<in> set cs. c \<in> set (runs_of (wdb w)) \<and> er_status c = RunStatusPending
         \<and> er_scheduled_at c \<le> unix_milli (clock w (ticks w)) \<and> \<not> locked (er_id c))"
proof -
  let ?w = "w\<lparr>ticks := Suc (ticks w)\<rparr>"
  obtain w1 w2 where cl: "run_state (ClaimDue locked (unix_milli (clock w (ticks w))) limit) ?w = (Inr cs, w1)"
      and lp: "run_state (forE cs claim_run) w1 = (Inr (), w2)" and cm: "wdb w' = wdb w2"
    using assms by (auto simp: claim_runs_def commit_def run_stmt split: prod.splits sum.splits option.splits)
  have "claimed_running (er_id ` set cs) (wdb w2)"
    using claim_loop_running [OF lp, of "{}"] by (simp add: claimed_running_def)
  moreover have "length cs \<le> nat limit \<and> (\<forall>c \<in> set cs. c \<in> set (runs_of (wdb w)) \<and> er_status c = RunStatusPending
         \<and> er_scheduled_at c \<le> unix_milli (clock w (ticks w)) \<and> \<not> locked (er_id c))"
    using cl by (auto simp: ClaimDue_def query_def run_stmt length_order_limit split: option.splits
        dest!: set_order_limit [THEN subsetD])
  ultimately show ?thesis using cm by simp
qed

text \<open>C6: Two claims never hand the same run to two workers: what a second claim takes is
  disjoint from what the first one took, however many rows either asks for.\<close>

theorem claims_exclusive:
  assumes "run_state (claim_runs locked limit) w = (Inr cs, w1)"
    and "run_state (claim_runs locked' limit') w1 = (Inr cs', w2)"
  shows "er_id ` set cs \<inter> er_id ` set cs' = {}"
proof -
  have "er_status c = RunStatusRunning" if "c \<in> set cs'" "er_id c \<in> er_id ` set cs" for c
    using claim_runs_ok [OF assms(1)] claim_runs_ok [OF assms(2)] that by (simp add: claimed_running_def)
  moreover have "er_status c = RunStatusPending" if "c \<in> set cs'" for c
    using claim_runs_ok [OF assms(2)] that by simp
  ultimately have "er_id c \<notin> er_id ` set cs" if "c \<in> set cs'" for c
    using that by force
  then have "\<forall>i \<in> er_id ` set cs'. i \<notin> er_id ` set cs" by simp
  then show ?thesis by blast
qed

lemma claim_sample:
  "fst (run_state (claim_runs (\<lambda>_. False) 5) sample_world) = Inr [run1]"
  "\<exists>cs. fst (run_state (claim_runs (\<lambda>_. False) 5) (snd (run_state (claim_runs (\<lambda>_. False) 5) sample_world))) = Inr cs"
  by (simp_all add: claim_runs_def ClaimDue_def claim_run_def Repo_UpdateWhere_def order_limit_def
      runs_table_def sample_db_def run1_def unix_milli_def)

theorem claims_exclusive_witness:
  "\<exists>cs' w2. run_state (claim_runs (\<lambda>_. False) 5) (snd (run_state (claim_runs (\<lambda>_. False) 5) sample_world))
      = (Inr cs', w2) \<and> ''r1'' \<notin> er_id ` set cs'"
proof -
  let ?w1 = "snd (run_state (claim_runs (\<lambda>_. False) 5) sample_world)"
  obtain cs' w2 where two: "run_state (claim_runs (\<lambda>_. False) 5) ?w1 = (Inr cs', w2)"
    using claim_sample(2) by (metis prod.collapse)
  have "run_state (claim_runs (\<lambda>_. False) 5) sample_world = (Inr [run1], ?w1)"
    using claim_sample(1) by (metis prod.collapse)
  from claims_exclusive [OF this two] two show ?thesis by (auto simp: run1_def)
qed

subsection \<open>A tick\<close>

lemma pres_save_row:
  assumes "\<And>d x. K d \<Longrightarrow> er_id x = er_id run \<Longrightarrow> K (d\<lparr>runs_of := put_run x (runs_of d)\<rparr>)"
    and "\<And>d x. K d \<Longrightarrow> K (d\<lparr>runs_of := runs_of d @ [x]\<rparr>)" and "er_id r = er_id run"
  shows "preserves (db_inv K) (save r)"
proof -
  have "K (snd (save_row runs_table (tb_stamp runs_table n (tb_touch runs_table n r)) d))" if "K d" for n d
    using assms that by (simp add: save_row_def put_run_def) (simp add: runs_table_def)
  then show ?thesis unfolding save_def by (intro pres pres_Repo_Update)
qed

lemma pres_execute_row:
  assumes put: "\<And>d x. K d \<Longrightarrow> er_id x = er_id run \<Longrightarrow> K (d\<lparr>runs_of := put_run x (runs_of d)\<rparr>)"
    and add: "\<And>d x. K d \<Longrightarrow> K (d\<lparr>runs_of := runs_of d @ [x]\<rparr>)"
    and del: "\<And>d xs. K d \<Longrightarrow> K (d\<lparr>deliveries_of := xs\<rparr>)"
  shows "preserves (db_inv K) (execute D run)"
proof -
  have "preserves (db_inv K) (Repo_Create runs_table x)" for x
    using add by (intro pres_Repo_Create) (simp add: insert_row_def, simp add: runs_table_def)
  then show ?thesis
    unfolding execute_def finish_run_def fail_run_def scheduleNext_def Let_def load_input_def
    by (intro pres pres_save_row [of K run, OF put add] del) simp_all
qed

definition not_due :: "(string \<Rightarrow> bool) \<Rightarrow> int \<Rightarrow> event_run \<Rightarrow> bool" where
  "not_due locked now r \<longleftrightarrow> er_status r \<noteq> RunStatusPending \<or> er_scheduled_at r > now \<or> locked (er_id r)"

lemma pres_claim_run:
  "er_id c \<noteq> er_id r \<Longrightarrow> preserves (db_inv (\<lambda>d. r \<in> set (runs_of d))) (claim_run c)"
  unfolding claim_run_def
  by (intro pres pres_Repo_UpdateWhere) (auto simp: runs_table_def set_update_where)

lemma claim_runs_keeps:
  assumes "run_state (claim_runs locked limit) w = (Inr cs, w')"
    and "r \<in> set (runs_of (wdb w))" and "\<forall>c \<in> set cs. er_id c \<noteq> er_id r"
  shows "r \<in> set (runs_of (wdb w'))"
proof -
  let ?K = "\<lambda>d. r \<in> set (runs_of d)"
  let ?w = "w\<lparr>ticks := Suc (ticks w)\<rparr>"
  obtain w1 w2 where cl: "run_state (ClaimDue locked (unix_milli (clock w (ticks w))) limit) ?w = (Inr cs, w1)"
      and lp: "run_state (forE cs claim_run) w1 = (Inr (), w2)" and cm: "wdb w' = wdb w2"
    using assms(1) by (auto simp: claim_runs_def commit_def run_stmt split: prod.splits sum.splits option.splits)
  have "db_inv ?K w1"
    using preserves_run [OF pres_reads(1) _ cl, of ?K] assms(2) by (simp add: db_inv_def)
  moreover have "preserves (db_inv ?K) (forE cs claim_run)"
    using assms(3) by (intro preserves_forE_mem pres_claim_run) auto
  ultimately have "db_inv ?K w2" using preserves_run [OF _ _ lp] by blast
  then show ?thesis using cm by (simp add: db_inv_def)
qed

text \<open>C7: A tick touches only runs that are due: a run that is not pending, not yet scheduled,
  or held by another worker has the same row afterwards, in every column, whatever the
  handlers of the executed runs do and whatever statement fails.\<close>

theorem Tick_only_due:
  assumes r: "r \<in> set (runs_of (wdb w))" "not_due locked (unix_milli (clock w (ticks w))) r"
    and ids: "distinct (map er_id (runs_of (wdb w)))" and pool: "\<And>xs. set (pool xs) = set xs"
  shows "r \<in> set (runs_of (wdb (snd (run_state (Tick D pool locked limit) w))))"
proof (cases "run_state (claim_runs locked limit) w")
  case (Pair res w1)
  let ?K = "\<lambda>d. r \<in> set (runs_of d)"
  show ?thesis
  proof (cases res)
    case (Inl e)
    with Pair have "run_state (claim_runs locked limit) w = (Inl e, w1)" by simp
    then have "wdb w1 = wdb w" unfolding claim_runs_def by (rule tx_scope_error)
    with Pair Inl r show ?thesis by (simp add: Tick_def)
  next
    case (Inr cs)
    have cs: "run_state (claim_runs locked limit) w = (Inr cs, w1)" using Pair Inr by simp
    have other: "\<forall>c \<in> set cs. er_id c \<noteq> er_id r"
    proof
      fix c assume "c \<in> set cs"
      with claim_runs_ok [OF cs] have "c \<in> set (runs_of (wdb w))"
          "\<not> not_due locked (unix_milli (clock w (ticks w))) c"
        by (auto simp: not_due_def)
      with r have "c \<noteq> r" by auto
      with ids r \<open>c \<in> set (runs_of (wdb w))\<close> show "er_id c \<noteq> er_id r"
        by (auto simp: distinct_map dest: inj_onD)
    qed
    have "db_inv ?K w1" using claim_runs_keeps [OF cs r(1) other] by (simp add: db_inv_def)
    moreover have "preserves (db_inv ?K) (runBatch D pool cs)"
      unfolding runBatch_def
    proof (rule preserves_for_each_mem)
      fix c assume "c \<in> set (pool cs)"
      with pool other have "er_id c \<noteq> er_id r" by auto
      then show "preserves (db_inv ?K) (execute D c)"
        by (intro pres_execute_row) (auto simp: put_run_def set_update_where)
    qed
    ultimately have "db_inv ?K (snd (run_state (runBatch D pool cs) w1))" by (rule preservesD [rotated])
    then show ?thesis using cs by (auto simp: Tick_def db_inv_def split: prod.splits)
  qed
qed

definition run2 :: event_run where
  "run2 = run1\<lparr>er_id := ''r2'', er_occurrence := 2, er_status := RunStatusRunning\<rparr>"

theorem Tick_only_due_witness:
  "run2 \<in> set (runs_of (wdb (snd (run_state (Tick (sample_dispatcher quiet_handler) rev (\<lambda>_. False) 5)
     (world_of (sample_db\<lparr>runs_of := [run1, run2]\<rparr>))))))"
  using Tick_only_due [of run2 "world_of (sample_db\<lparr>runs_of := [run1, run2]\<rparr>)" "\<lambda>_. False" rev
      "sample_dispatcher quiet_handler" 5]
  by (simp add: not_due_def run2_def run1_def)

end
