(* ===== verification/Caches.thy ===== *)
theory Caches
  imports Samples
begin

text \<open>
  Package \<open>internal/gateway/cache\<close>: the generic JSON cache, the caches made of it, the
  \<open>SETNX\<close> lock, the single-use OAuth state and the fixed-window rate limiter.  Values are kept
  typed instead of as JSON bytes, each cache owns its key space through its prefix, and a
  decoder of the wrong kind is the unmarshal error.  Redis decides expiry by its own clock,
  here the clock of the world at the moment of the command.
\<close>

subsection \<open>Redis commands the code uses\<close>

type_synonym store = "string \<rightharpoonup> redis_value \<times> int option"

definition cmd_get :: "string \<Rightarrow> redis_value option ioE" where
  "cmd_get k = redis_cmd (\<lambda>m t. (redis_lookup m t k, m))"

definition cmd_set :: "string \<Rightarrow> redis_value \<Rightarrow> int \<Rightarrow> unit ioE" where
  "cmd_set k v ttl = redis_cmd (\<lambda>m t. ((), m(k \<mapsto> (v, if ttl > 0 then Some (t + ttl) else None))))"

definition del_keys :: "string list \<Rightarrow> store \<Rightarrow> store" where
  "del_keys ks m = m |` (- set ks)"

definition cmd_del :: "string list \<Rightarrow> unit ioE" where
  "cmd_del ks = redis_cmd (\<lambda>m t. ((), del_keys ks m))"

definition cmd_getdel :: "string \<Rightarrow> redis_value option ioE" where
  "cmd_getdel k = redis_cmd (\<lambda>m t. (redis_lookup m t k, del_keys [k] m))"

definition cmd_setnx :: "string \<Rightarrow> redis_value \<Rightarrow> int \<Rightarrow> bool ioE" where
  "cmd_setnx k v ttl = redis_cmd (\<lambda>m t.
     case redis_lookup m t k of
       Some _ \<Rightarrow> (False, m)
     | None \<Rightarrow> (True, m(k \<mapsto> (v, if ttl > 0 then Some (t + ttl) else None))))"

text \<open>\<open>INCR\<close> on a key that holds no integer is an error, here \<open>None\<close>; it keeps the expiry.\<close>

definition incr :: "string \<Rightarrow> store \<Rightarrow> int \<Rightarrow> int option \<times> store" where
  "incr k m t = (case redis_lookup m t k of
       None \<Rightarrow> (Some 1, m(k \<mapsto> (RCount 1, None)))
     | Some (RCount n) \<Rightarrow> (Some (n + 1), m(k \<mapsto> (RCount (n + 1), snd (the (m k)))))
     | Some _ \<Rightarrow> (None, m))"

definition cmd_incr :: "string \<Rightarrow> int option ioE" where
  "cmd_incr k = redis_cmd (incr k)"

definition cmd_expire :: "string \<Rightarrow> int \<Rightarrow> unit ioE" where
  "cmd_expire k ttl = redis_cmd (\<lambda>m t. ((),
     case redis_lookup m t k of
       None \<Rightarrow> m
     | Some v \<Rightarrow> if ttl > 0 then m(k \<mapsto> (v, Some (t + ttl))) else del_keys [k] m))"

text \<open>\<open>TTL\<close> answers whole seconds, rounded; negative for no key (-2) and no expiry (-1).\<close>

definition cmd_ttl :: "string \<Rightarrow> int ioE" where
  "cmd_ttl k = redis_cmd (\<lambda>m t. (
     case m k of
       None \<Rightarrow> -2
     | Some v \<Rightarrow> if \<not> live t v then -2
                else (case snd v of None \<Rightarrow> -1 | Some e \<Rightarrow> (((e - t) div Millisecond + 500) div 1000) * Second), m))"

subsection \<open>cache.go\<close>

definition Cache_Key :: "string \<Rightarrow> string \<Rightarrow> string" where
  "Cache_Key pre i = pre @ '':'' @ i"

definition Cache_Get :: "string \<Rightarrow> (redis_value \<Rightarrow> 'a option) \<Rightarrow> string \<Rightarrow> 'a option ioE" where
  "Cache_Get pre dec i = bindE (cmd_get (Cache_Key pre i)) (\<lambda>v.
     case v of None \<Rightarrow> returnE None
     | Some x \<Rightarrow> (case dec x of None \<Rightarrow> failE (PlainErr ''json: cannot unmarshal'') | Some y \<Rightarrow> returnE (Some y)))"

definition Cache_Set :: "string \<Rightarrow> int \<Rightarrow> string \<Rightarrow> redis_value \<Rightarrow> unit ioE" where
  "Cache_Set pre ttl i v =
     (if ttl \<le> 0 then returnE () else cmd_set (Cache_Key pre i) v ttl)"

definition Cache_Delete :: "string \<Rightarrow> string list \<Rightarrow> unit ioE" where
  "Cache_Delete pre ids =
     (if ids = [] then returnE () else cmd_del (map (Cache_Key pre) ids))"

subsection \<open>The caches\<close>

abbreviation UserCacheKeyPrefix :: string where "UserCacheKeyPrefix \<equiv> ''user:token''"
abbreviation PasswordResetKeyPrefix :: string where "PasswordResetKeyPrefix \<equiv> ''password:reset''"
abbreviation DashboardKeyPrefix :: string where "DashboardKeyPrefix \<equiv> ''dashboard:summary''"
abbreviation MailProviderKeyPrefix :: string where "MailProviderKeyPrefix \<equiv> ''mail:provider''"
abbreviation OAuthStateKeyPrefix :: string where "OAuthStateKeyPrefix \<equiv> ''oauth:state''"
abbreviation LockKeyPrefix :: string where "LockKeyPrefix \<equiv> ''lock''"
abbreviation RateLimitKeyPrefix :: string where "RateLimitKeyPrefix \<equiv> ''ratelimit''"

record cache_ttls =
  ttl_user :: int
  ttl_reset :: int
  ttl_dashboard :: int
  ttl_provider :: int
  ttl_oauth :: int

fun as_auth :: "redis_value \<Rightarrow> auth option" where
  "as_auth (RAuth a) = Some a" | "as_auth _ = None"

fun as_reset :: "redis_value \<Rightarrow> password_reset option" where
  "as_reset (RReset a) = Some a" | "as_reset _ = None"

fun as_oauth :: "redis_value \<Rightarrow> oauth_state option" where
  "as_oauth (ROAuth a) = Some a" | "as_oauth _ = None"

fun as_provider :: "redis_value \<Rightarrow> provider_entry option" where
  "as_provider (RProvider a) = Some a" | "as_provider _ = None"

fun as_dashboard :: "redis_value \<Rightarrow> dashboard_summary option" where
  "as_dashboard (RDashboard a) = Some a" | "as_dashboard _ = None"

text \<open>mail_provider_cache.go; the answer of \<open>Lookup\<close> is (row, found, cached).\<close>

definition Provider_Lookup :: "string \<Rightarrow> (mail_provider option \<times> bool \<times> bool) io" where
  "Provider_Lookup slug = do {
     r \<leftarrow> Cache_Get MailProviderKeyPrefix as_provider slug;
     ret (case r of
         Inl _ \<Rightarrow> (None, False, False)
       | Inr None \<Rightarrow> (None, False, False)
       | Inr (Some e) \<Rightarrow> (pe_provider e, pe_found e, True)) }"

definition Remember :: "cache_ttls \<Rightarrow> string \<Rightarrow> mail_provider option \<Rightarrow> unit io" where
  "Remember T slug p = ignoreE (Cache_Set MailProviderKeyPrefix (ttl_provider T) slug
     (RProvider \<lparr>pe_provider = p, pe_found = (p \<noteq> None)\<rparr>))"

definition Forget :: "string \<Rightarrow> unit io" where
  "Forget slug = ignoreE (Cache_Delete MailProviderKeyPrefix [slug])"

text \<open>oauth_state_cache.go\<close>

definition Consume :: "string \<Rightarrow> oauth_state option ioE" where
  "Consume state = bindE (cmd_getdel (Cache_Key OAuthStateKeyPrefix state)) (\<lambda>v.
     case v of None \<Rightarrow> returnE None
     | Some x \<Rightarrow> (case as_oauth x of None \<Rightarrow> failE (PlainErr ''json: cannot unmarshal'')
                | Some y \<Rightarrow> returnE (Some y)))"

text \<open>lock.go\<close>

definition lock_key :: "string \<Rightarrow> string \<Rightarrow> string" where
  "lock_key scope i = LockKeyPrefix @ '':'' @ scope @ '':'' @ i"

definition Acquire :: "string \<Rightarrow> string \<Rightarrow> int \<Rightarrow> bool io" where
  "Acquire scope i ttl = do {
     r \<leftarrow> cmd_setnx (lock_key scope i) (RStr ''1'') ttl;
     ret (case r of Inl _ \<Rightarrow> True | Inr acquired \<Rightarrow> acquired) }"

definition Release :: "string \<Rightarrow> string \<Rightarrow> unit io" where
  "Release scope i = ignoreE (cmd_del [lock_key scope i])"

text \<open>rate_limiter.go\<close>

definition limiter_key :: "string \<Rightarrow> string \<Rightarrow> string" where
  "limiter_key scope i = RateLimitKeyPrefix @ '':'' @ scope @ '':'' @ i"

definition Allow :: "string \<Rightarrow> string \<Rightarrow> int \<Rightarrow> int \<Rightarrow> (bool \<times> int) io" where
  "Allow scope i limit window = do {
     r \<leftarrow> cmd_incr (limiter_key scope i);
     (case r of
        Inl _ \<Rightarrow> ret (True, 0)
      | Inr None \<Rightarrow> ret (True, 0)
      | Inr (Some n) \<Rightarrow>
          (if n = 1 then do {
             _ \<leftarrow> cmd_expire (limiter_key scope i) window;
             ret (True, window) }
           else if n > limit then do {
             t \<leftarrow> cmd_ttl (limiter_key scope i);
             ret (False, case t of Inl _ \<Rightarrow> window | Inr v \<Rightarrow> if v < 0 then window else v) }
           else ret (True, window))) }"

subsection \<open>The database is not touched\<close>

lemma pres_caches [pres]:
  "preserves (db_inv K) (Cache_Get p dec i)"
  "preserves (db_inv K) (Cache_Set p t i v)"
  "preserves (db_inv K) (Cache_Delete p ids)"
  "preserves (db_inv K) (Provider_Lookup s)"
  "preserves (db_inv K) (Remember T s r)"
  "preserves (db_inv K) (Forget s)"
  "preserves (db_inv K) (Consume s)"
  "preserves (db_inv K) (Acquire a b t)"
  "preserves (db_inv K) (Release a b)"
  "preserves (db_inv K) (Allow a b n t)"
  unfolding Cache_Get_def Cache_Set_def Cache_Delete_def Provider_Lookup_def Remember_def
    Forget_def Consume_def Acquire_def Release_def Allow_def cmd_get_def cmd_set_def cmd_del_def
    cmd_getdel_def cmd_setnx_def cmd_incr_def cmd_expire_def cmd_ttl_def
  by (intro pres)+

lemma up_caches [pres]:
  "preserves db_up (Cache_Get p dec i)"
  "preserves db_up (Cache_Set p t i v)"
  "preserves db_up (Cache_Delete p ids)"
  "preserves db_up (Provider_Lookup s)"
  "preserves db_up (Remember T s r)"
  "preserves db_up (Forget s)"
  "preserves db_up (Consume s)"
  "preserves db_up (Acquire a b t)"
  "preserves db_up (Release a b)"
  "preserves db_up (Allow a b n t)"
  unfolding Cache_Get_def Cache_Set_def Cache_Delete_def Provider_Lookup_def Remember_def
    Forget_def Consume_def Acquire_def Release_def Allow_def cmd_get_def cmd_set_def cmd_del_def
    cmd_getdel_def cmd_setnx_def cmd_incr_def cmd_expire_def cmd_ttl_def
  by (intro pres)+

lemmas cmd_defs = cmd_get_def cmd_set_def cmd_del_def cmd_getdel_def cmd_setnx_def cmd_incr_def
  cmd_expire_def cmd_ttl_def

subsection \<open>Properties\<close>

lemma run_cmd_get_up:
  "redis_up w \<Longrightarrow> run_state (cmd_get k) w =
     (Inr (redis_lookup (redis w) (clock w (ticks w)) k), w\<lparr>rcmds := Suc (rcmds w)\<rparr>)"
  by (simp add: cmd_get_def)

lemma lookup_upd [simp]:
  "redis_lookup (m(k \<mapsto> (v, e))) t k = (if live t (v, e) then Some v else None)"
  "k' \<noteq> k \<Longrightarrow> redis_lookup (m(k \<mapsto> x)) t k' = redis_lookup m t k'"
  by (simp_all add: redis_lookup_def)

lemma lookup_None [simp]: "m k = None \<Longrightarrow> redis_lookup m t k = None"
  by (simp add: redis_lookup_def)

text \<open>What a cache stores it returns until its time to live has passed and not after; and
  with a time to live of zero or less it is off: storing changes no answer, in particular
  it never stores a value for ever.\<close>

lemma Cache_Set_Get:
  assumes "redis_up w"
  shows "fst (run_state (Cache_Get p dec i) ((snd (run_state (Cache_Set p ttl i v) w))\<lparr>ticks := n\<rparr>)) =
    (if ttl \<le> 0 then fst (run_state (Cache_Get p dec i) (w\<lparr>ticks := n\<rparr>))
     else if clock w n < clock w (ticks w) + ttl
     then (case dec v of None \<Rightarrow> Inl (PlainErr ''json: cannot unmarshal'') | Some y \<Rightarrow> Inr (Some y))
     else Inr None)"
  using assms
  by (simp add: Cache_Get_def Cache_Set_def cmd_get_def cmd_set_def live_def split: option.splits)

lemma Cache_Delete_evicts:
  assumes "run_state (Cache_Delete p ids) w = (Inr u, w')" and "i \<in> set ids"
  shows "redis w' (Cache_Key p i) = None"
  using assms
  by (auto simp: Cache_Delete_def cmd_del_def run_redis_cmd del_keys_def restrict_map_def split: if_splits)

text \<open>A kind of value that a cache keeps: what is encoded decodes to itself.\<close>

locale cache_kind =
  fixes enc :: "'a \<Rightarrow> redis_value" and dec :: "redis_value \<Rightarrow> 'a option"
  assumes dec_enc: "dec (enc v) = Some v"
begin

lemma get_set:
  assumes "redis_up w" "0 < ttl" "clock w n < clock w (ticks w) + ttl"
  shows "fst (run_state (Cache_Get p dec i) ((snd (run_state (Cache_Set p ttl i (enc v)) w))\<lparr>ticks := n\<rparr>)) = Inr (Some v)"
  using assms by (simp add: Cache_Set_Get dec_enc)

lemma get_expired:
  assumes "redis_up w" "0 < ttl" "clock w (ticks w) + ttl \<le> clock w n"
  shows "fst (run_state (Cache_Get p dec i) ((snd (run_state (Cache_Set p ttl i (enc v)) w))\<lparr>ticks := n\<rparr>)) = Inr None"
  using assms by (simp add: Cache_Set_Get)

lemma get_deleted:
  assumes "redis_up w" "run_state (Cache_Delete p ids) w = (Inr u, w')" "i \<in> set ids"
  shows "fst (run_state (Cache_Get p dec i) (w'\<lparr>ticks := n\<rparr>)) = Inr None"
proof -
  have "redis_up w'"
    using assms(1,2) by (auto simp: Cache_Delete_def cmd_del_def run_redis_cmd redis_up_def split: if_splits)
  then show ?thesis using Cache_Delete_evicts [OF assms(2,3)] by (simp add: Cache_Get_def cmd_get_def)
qed

end

interpretation user_cache: cache_kind RAuth as_auth by unfold_locales simp
interpretation reset_cache: cache_kind RReset as_reset by unfold_locales simp
interpretation oauth_cache: cache_kind ROAuth as_oauth by unfold_locales simp
interpretation provider_cache: cache_kind RProvider as_provider by unfold_locales simp
interpretation dashboard_cache: cache_kind RDashboard as_dashboard by unfold_locales simp

text \<open>What is remembered about a provider, that it does not exist included, is looked up again.\<close>

lemma Lookup_Remember:
  assumes "redis_up w" "0 < ttl_provider T" "clock w n < clock w (ticks w) + ttl_provider T"
  shows "fst (run_state (Provider_Lookup slug) ((snd (run_state (Remember T slug p) w))\<lparr>ticks := n\<rparr>)) = (p, p \<noteq> None, True)"
  using provider_cache.get_set [OF assms, of MailProviderKeyPrefix slug "\<lparr>pe_provider = p, pe_found = (p \<noteq> None)\<rparr>"]
  by (auto simp: Provider_Lookup_def Remember_def split: prod.splits)

text \<open>An OAuth state is single use: after one callback consumed it, it is gone, and no later
  callback with the same state gets a record, however soon it arrives.\<close>

lemma Consume_once:
  assumes "run_state (Consume s) w = (Inr (Some st), w1)"
  shows "redis w1 (Cache_Key OAuthStateKeyPrefix s) = None
    \<and> (\<forall>st'. fst (run_state (Consume s) (w1\<lparr>ticks := n\<rparr>)) \<noteq> Inr (Some st'))"
proof -
  have "redis w1 (Cache_Key OAuthStateKeyPrefix s) = None"
    using assms by (auto simp: Consume_def cmd_getdel_def run_redis_cmd del_keys_def
        split: option.splits if_splits)
  then show ?thesis
    by (auto simp: Consume_def cmd_getdel_def run_redis_cmd split: if_splits)
qed

subsection \<open>The window of the rate limiter\<close>

definition counted :: "string \<Rightarrow> nat \<Rightarrow> world \<Rightarrow> bool" where
  "counted k n w \<longleftrightarrow> redis_up w
     \<and> redis_lookup (redis w) (clock w (ticks w)) k = (if n = 0 then None else Some (RCount (int n)))"

lemma Allow_step:
  assumes "counted (limiter_key scope i) n w" and "0 < window" and "1 \<le> limit"
  shows "fst (fst (run_state (Allow scope i limit window) w)) = (int n < limit)
    \<and> counted (limiter_key scope i) (Suc n) (snd (run_state (Allow scope i limit window) w))"
  using assms
  by (auto simp: counted_def Allow_def cmd_defs incr_def live_def redis_lookup_def
      split: option.splits if_splits)

primrec hits :: "string \<Rightarrow> string \<Rightarrow> int \<Rightarrow> int \<Rightarrow> nat \<Rightarrow> world \<Rightarrow> bool list" where
  "hits scope i limit window 0 w = []"
| "hits scope i limit window (Suc n) w =
     fst (fst (run_state (Allow scope i limit window) w))
     # hits scope i limit window n (snd (run_state (Allow scope i limit window) w))"

lemma hits_counted:
  assumes "0 < window" and "1 \<le> limit"
  shows "counted (limiter_key scope i) m w \<Longrightarrow>
    hits scope i limit window n w = map (\<lambda>j. int (m + j) < limit) [0..<n]"
proof (induction n arbitrary: m w)
  case (Suc n)
  note step = Allow_step [OF Suc.prems assms]
  have "hits scope i limit window n (snd (run_state (Allow scope i limit window) w))
      = map (\<lambda>j. int (Suc m + j) < limit) [0..<n]"
    using step by (intro Suc.IH) blast
  moreover have "[0..<Suc n] = 0 # map Suc [0..<n]" by (metis map_Suc_upt upt_conv_Cons zero_less_Suc)
  ultimately show ?case using step by (simp add: ac_simps)
qed simp

text \<open>Within one window, starting without a counter, exactly the first \<open>limit\<close> requests of a
  caller are allowed and every later one is refused.\<close>

lemma Allow_window:
  assumes "redis_up w" and "redis_lookup (redis w) (clock w (ticks w)) (limiter_key scope i) = None"
    and "0 < window" and "1 \<le> limit"
  shows "hits scope i limit window n w = replicate (min n (nat limit)) True @ replicate (n - nat limit) False"
proof -
  have "hits scope i limit window n w = map (\<lambda>j. int (0 + j) < limit) [0..<n]"
    using assms by (intro hits_counted) (simp_all add: counted_def)
  also have "\<dots> = replicate (min n (nat limit)) True @ replicate (n - nat limit) False"
    using assms(4) by (intro nth_equalityI) (auto simp: nth_append)
  finally show ?thesis .
qed

text \<open>The window is not always bounded: when the \<open>EXPIRE\<close> that follows the first \<open>INCR\<close> of a
  caller fails, the counter never lapses; once the limit is passed the caller is refused at
  every later moment, for ever.\<close>

lemma Allow_locked_out:
  assumes "redis_up w" and "redis w (limiter_key scope i) = Some (RCount n, None)"
    and "limit \<le> n" and "1 \<le> n"
  shows "fst (run_state (Allow scope i limit window) (w\<lparr>ticks := t\<rparr>)) = (False, window)
    \<and> redis (snd (run_state (Allow scope i limit window) (w\<lparr>ticks := t\<rparr>))) (limiter_key scope i)
      = Some (RCount (n + 1), None)"
  using assms by (simp add: Allow_def cmd_defs incr_def live_def redis_lookup_def)

end
