(* ===== verification/Models.thy ===== *)
theory Models
  imports Store
begin

text \<open>
  Package \<open>internal/model\<close>: the requests and responses of the API, one record per struct with
  its fields in order (the embedded \<open>PageRequest\<close> as \<open>page\<close> and \<open>size\<close>), and the paging
  arithmetic of model.go.  An omitted pointer is \<open>None\<close>; a slice is a list, and an option
  of a list where the code tells nil from empty.
\<close>

record delivery_response =
  dvp_id :: string
  dvp_event_run_id :: string
  dvp_notifier_id :: "string option"
  dvp_channel_type :: string
  dvp_status :: string
  dvp_rendered_message :: "string option"
  dvp_provider_message_id :: "string option"
  dvp_error :: "string option"
  dvp_sent_at :: "int option"
  dvp_created_at :: int

record event_run_response =
  erp_id :: string
  erp_matched_email_id :: string
  erp_watcher_event_id :: string
  erp_event_type :: string
  erp_occurrence :: int
  erp_status :: string
  erp_scheduled_at :: int
  erp_started_at :: "int option"
  erp_finished_at :: "int option"
  erp_attempt :: int
  erp_max_attempts :: int
  erp_config_snapshot :: json
  erp_result :: json
  erp_error :: "string option"
  erp_acknowledged_at :: "int option"
  erp_deliveries :: "delivery_response list"
  erp_created_at :: int

record matched_email_response =
  mep_id :: string
  mep_watcher_id :: string
  mep_watcher_name :: string
  mep_mail_account_id :: string
  mep_message_id :: string
  mep_subject :: "string option"
  mep_from_address :: "string option"
  mep_from_name :: "string option"
  mep_to_addresses :: "string option"
  mep_snippet :: "string option"
  mep_has_attachment :: bool
  mep_size_bytes :: int
  mep_received_at :: int
  mep_matched_at :: int
  mep_matched_filters :: json
  mep_runs :: "event_run_response list"

record list_matched_email_request =
  lmeq_page :: int
  lmeq_size :: int
  lmeq_user_id :: string
  lmeq_watcher_id :: string
  lmeq_mail_account_id :: string
  lmeq_from :: int
  lmeq_to :: int
  lmeq_query :: string

record get_matched_email_request =
  gmeq_user_id :: string
  gmeq_id :: string

record list_event_run_request =
  lerq_page :: int
  lerq_size :: int
  lerq_user_id :: string
  lerq_watcher_id :: string
  lerq_status :: string
  lerq_from :: int
  lerq_to :: int

record get_event_run_request =
  gerq_user_id :: string
  gerq_id :: string

record event_run_action_request =
  eraq_user_id :: string
  eraq_id :: string

record cancel_run_response =
  crp_cancelled :: int

record ack_run_response =
  arp_acknowledged_at :: int
  arp_cancelled_occurrences :: int

record list_delivery_request =
  ldq_page :: int
  ldq_size :: int
  ldq_user_id :: string
  ldq_event_run_id :: string
  ldq_notifier_id :: string
  ldq_status :: string

record dashboard_summary_request =
  dsq_user_id :: string

record audit_log_response =
  alp_id :: string
  alp_actor_user_id :: "string option"
  alp_actor_email :: string
  alp_impersonated_user_id :: "string option"
  alp_action :: string
  alp_entity_type :: string
  alp_entity_id :: "string option"
  alp_metadata :: json
  alp_ip :: "string option"
  alp_created_at :: int

record list_audit_log_request =
  lalq_page :: int
  lalq_size :: int
  lalq_actor_user_id :: string
  lalq_action :: string
  lalq_entity_type :: string
  lalq_from :: int
  lalq_to :: int

record user_response =
  up_id :: string
  up_email :: string
  up_name :: string
  up_status :: string
  up_timezone :: string
  up_roles :: "string list"
  up_email_verified_at :: "int option"
  up_created_at :: int
  up_updated_at :: int

record login_response =
  lp_token :: string
  lp_expires_at :: int
  lp_user :: "user_response option"

record session_response =
  sp_id :: string
  sp_user_agent :: "string option"
  sp_ip :: "string option"
  sp_current :: bool
  sp_expires_at :: int
  sp_last_used_at :: int
  sp_created_at :: int

record register_user_request =
  ruq_email :: string
  ruq_name :: string
  ruq_password :: string
  ruq_timezone :: string

record login_user_request =
  lguq_email :: string
  lguq_password :: string
  lguq_user_agent :: string
  lguq_ip :: string

record verify_user_request =
  vuq_token :: string

record update_user_request =
  uuq_id :: string
  uuq_name :: string
  uuq_password :: string
  uuq_timezone :: string

record get_user_request =
  guq_id :: string

record logout_user_request =
  luq_id :: string
  luq_session_id :: string
  luq_token :: string

record list_session_request =
  lsq_user_id :: string
  lsq_current_session_id :: string

record revoke_session_request =
  rsq_user_id :: string
  rsq_session_id :: string

record forgot_password_request =
  fpq_email :: string

record reset_password_request =
  rpq_token :: string
  rpq_password :: string

record mail_account_response =
  map_id :: string
  map_provider :: string
  map_provider_label :: string
  map_kind :: string
  map_email_address :: string
  map_display_name :: "string option"
  map_auth_mode :: string
  map_settings :: json
  map_token_expires_at :: "int option"
  map_status :: string
  map_last_verified_at :: "int option"
  map_last_error :: "string option"
  map_last_synced_at :: "int option"
  map_poll_interval_seconds :: int
  map_next_poll_at :: int
  map_created_at :: int
  map_updated_at :: int

record folder_response =
  fp_name :: string
  fp_message_count :: int

record verify_mail_account_response =
  vmap_status :: string
  vmap_folders_found :: int
  vmap_last_verified_at :: int

record mail_sync_run_response =
  msrp_id :: string
  msrp_status :: string
  msrp_started_at :: int
  msrp_finished_at :: "int option"
  msrp_messages_fetched :: int
  msrp_matches_created :: int
  msrp_error :: "string option"

record create_mail_account_request =
  cmaq_user_id :: string
  cmaq_provider :: string
  cmaq_email_address :: string
  cmaq_display_name :: string
  cmaq_auth_mode :: string
  cmaq_settings :: json
  cmaq_username :: string
  cmaq_password :: string
  cmaq_poll_interval_seconds :: int

record update_mail_account_request =
  umaq_user_id :: string
  umaq_id :: string
  umaq_display_name :: string
  umaq_settings :: json
  umaq_username :: string
  umaq_password :: string
  umaq_poll_interval_seconds :: int
  umaq_status :: string

record get_mail_account_request =
  gmaq_user_id :: string
  gmaq_id :: string

record list_mail_account_request =
  lmaq_page :: int
  lmaq_size :: int
  lmaq_user_id :: string
  lmaq_status :: string
  lmaq_provider :: string

record oauth_authorize_request =
  oaq_user_id :: string
  oaq_provider :: string

record oauth_authorize_response =
  oap_redirect_url :: string
  oap_state :: string

record oauth_reauthorize_request =
  orq_user_id :: string
  orq_id :: string

record oauth_callback_request =
  ocq_provider :: string
  ocq_code :: string
  ocq_state :: string
  ocq_denied :: bool

record notifier_response =
  np_id :: string
  np_type :: string
  np_name :: string
  np_config :: json
  np_status :: string
  np_verified_at :: "int option"
  np_last_error :: "string option"
  np_is_default :: bool
  np_created_at :: int
  np_updated_at :: int

record create_notifier_request =
  cnq_user_id :: string
  cnq_type :: string
  cnq_name :: string
  cnq_config :: json
  cnq_secrets :: json
  cnq_is_default :: bool

record update_notifier_request =
  unq_user_id :: string
  unq_id :: string
  unq_name :: string
  unq_config :: json
  unq_secrets :: json
  unq_is_default :: "bool option"
  unq_status :: string

record get_notifier_request =
  gnq_user_id :: string
  gnq_id :: string

record list_notifier_request =
  lnq_page :: int
  lnq_size :: int
  lnq_user_id :: string
  lnq_type :: string
  lnq_status :: string

record verify_notifier_request =
  vnq_user_id :: string
  vnq_id :: string
  vnq_code :: string

record verify_notifier_response =
  vnp_status :: string
  vnp_verification_code :: "string option"
  vnp_verified_at :: "int option"
  vnp_message :: string

record test_notifier_response =
  tnp_delivered :: bool
  tnp_provider_message_id :: "string option"
  tnp_error :: "string option"

record watcher_event_response =
  wep_id :: string
  wep_watcher_id :: string
  wep_type :: string
  wep_config :: json
  wep_position :: int
  wep_enabled :: bool
  wep_run_mode :: string
  wep_delay_seconds :: int
  wep_repeat_interval_seconds :: "int option"
  wep_repeat_max :: "int option"
  wep_repeat_until :: "int option"
  wep_cron_expression :: "string option"
  wep_stop_on_ack :: bool
  wep_notifiers :: "notifier_response list"
  wep_created_at :: int
  wep_updated_at :: int

record create_watcher_event_request =
  cweq_user_id :: string
  cweq_watcher_id :: string
  cweq_type :: string
  cweq_config :: json
  cweq_position :: int
  cweq_enabled :: "bool option"
  cweq_run_mode :: string
  cweq_delay_seconds :: int
  cweq_repeat_interval_seconds :: "int option"
  cweq_repeat_max :: "int option"
  cweq_repeat_until :: "int option"
  cweq_cron_expression :: string
  cweq_stop_on_ack :: bool
  cweq_notifier_ids :: "string list"

record update_watcher_event_request =
  uweq_user_id :: string
  uweq_watcher_id :: string
  uweq_id :: string
  uweq_config :: json
  uweq_position :: "int option"
  uweq_enabled :: "bool option"
  uweq_run_mode :: string
  uweq_delay_seconds :: "int option"
  uweq_repeat_interval_seconds :: "int option"
  uweq_repeat_max :: "int option"
  uweq_repeat_until :: "int option"
  uweq_cron_expression :: "string option"
  uweq_stop_on_ack :: "bool option"
  uweq_notifier_ids :: "string list option"

record get_watcher_event_request =
  gweq_user_id :: string
  gweq_watcher_id :: string
  gweq_id :: string

record list_watcher_event_request =
  lweq_user_id :: string
  lweq_watcher_id :: string

record reorder_watcher_event_request =
  rweq_user_id :: string
  rweq_watcher_id :: string
  rweq_event_ids :: "string list"

record test_watcher_event_request =
  tweq_user_id :: string
  tweq_watcher_id :: string
  tweq_id :: string
  tweq_matched_email_id :: string

record watcher_filter_response =
  wfp_id :: string
  wfp_field :: string
  wfp_header_name :: "string option"
  wfp_operator :: string
  wfp_value :: string
  wfp_case_sensitive :: bool
  wfp_position :: int

record watcher_filter_request =
  wfq_field :: string
  wfq_header_name :: string
  wfq_operator :: string
  wfq_value :: string
  wfq_case_sensitive :: bool
  wfq_position :: int

record watcher_response =
  wp_id :: string
  wp_name :: string
  wp_description :: "string option"
  wp_status :: string
  wp_match_mode :: string
  wp_folder :: string
  wp_watch_from :: "int option"
  wp_cooldown_seconds :: int
  wp_last_matched_at :: "int option"
  wp_match_count :: int
  wp_archived_at :: "int option"
  wp_mail_account_id :: string
  wp_mail_account :: "mail_account_response option"
  wp_filters :: "watcher_filter_response list"
  wp_events :: "watcher_event_response list"
  wp_created_at :: int
  wp_updated_at :: int

record create_watcher_request =
  cwq_user_id :: string
  cwq_mail_account_id :: string
  cwq_name :: string
  cwq_description :: string
  cwq_match_mode :: string
  cwq_folder :: string
  cwq_watch_from :: "int option"
  cwq_cooldown_seconds :: int
  cwq_filters :: "watcher_filter_request list"
  cwq_events :: "create_watcher_event_request list"

record update_watcher_request =
  uwq_user_id :: string
  uwq_id :: string
  uwq_name :: string
  uwq_description :: "string option"
  uwq_match_mode :: string
  uwq_folder :: string
  uwq_cooldown_seconds :: "int option"

record get_watcher_request =
  gwq_user_id :: string
  gwq_id :: string

record list_watcher_request =
  lwq_page :: int
  lwq_size :: int
  lwq_user_id :: string
  lwq_status :: string
  lwq_mail_account_id :: string
  lwq_query :: string

record set_watcher_status_request =
  swsq_user_id :: string
  swsq_id :: string
  swsq_status :: string

record replace_filters_request =
  rfq_user_id :: string
  rfq_watcher_id :: string
  rfq_match_mode :: string
  rfq_filters :: "watcher_filter_request list"

record test_watcher_request =
  twq_user_id :: string
  twq_id :: string
  twq_sample_size :: int

record test_watcher_sample =
  tws_subject :: string
  tws_from_address :: string
  tws_received_at :: int
  tws_matched :: bool
  tws_matched_filters :: "string list"

record test_watcher_response =
  twp_scanned :: int
  twp_matched :: int
  twp_samples :: "test_watcher_sample list"

record watcher_stats_request =
  wsq_user_id :: string
  wsq_id :: string
  wsq_days :: int

record daily_match_count =
  dmc_date :: string
  dmc_matches :: int

record watcher_stats_response =
  wsp_total_matches :: int
  wsp_runs_succeeded :: int
  wsp_runs_failed :: int
  wsp_runs_pending :: int
  wsp_daily :: "daily_match_count list"

record admin_user_counts =
  auc_watchers :: int
  auc_mail_accounts :: int
  auc_notifiers :: int
  auc_matches :: int

record admin_user_response =
  aup_user :: user_response
  aup_counts :: admin_user_counts

record list_admin_user_request =
  lauq_page :: int
  lauq_size :: int
  lauq_query :: string
  lauq_role :: string
  lauq_status :: string

record get_admin_user_request =
  gauq_id :: string

record update_admin_user_request =
  uauq_actor_id :: string
  uauq_id :: string
  uauq_roles :: "string list option"
  uauq_name :: string

record set_admin_user_status_request =
  sausq_actor_id :: string
  sausq_id :: string
  sausq_status :: string

record suspend_user_response =
  sup_status :: string
  sup_watchers_paused :: int

record impersonate_request =
  imq_actor_id :: string
  imq_id :: string
  imq_user_agent :: string
  imq_ip :: string

record impersonate_response =
  imp_token :: string
  imp_expires_at :: int
  imp_impersonating :: "user_response option"

record queue_stats =
  qs_pending_runs :: int
  qs_overdue_runs :: int
  qs_oldest_pending_seconds :: int

record admin_stats_response =
  asp_users :: status_counts
  asp_watchers_active :: int
  asp_mail_accounts_error :: int
  asp_queue :: queue_stats
  asp_runs24h :: status_counts

subsection \<open>model.go\<close>

definition Normalize :: "int \<Rightarrow> int \<Rightarrow> int \<times> int" where
  "Normalize page sz =
     ((if page < 1 then 1 else page),
      (let s = (if sz < 1 then 20 else sz) in if s > 100 then 100 else s))"

definition Offset :: "int \<Rightarrow> int \<Rightarrow> int" where
  "Offset page sz = (page - 1) * sz"

record page_metadata =
  pm_page :: int
  pm_size :: int
  pm_total_item :: int
  pm_total_page :: int

definition NewPageMetadata :: "int \<Rightarrow> int \<Rightarrow> int \<Rightarrow> page_metadata" where
  "NewPageMetadata page sz tot =
     \<lparr>pm_page = page, pm_size = sz, pm_total_item = tot,
      pm_total_page = trunc_div tot sz + (if trunc_mod tot sz > 0 then 1 else 0)\<rparr>"

text \<open>Paging covers everything once: after \<open>Normalize\<close> the page is at least 1 and the size
  between 1 and 100, and for every total the reported number of pages is the least that
  holds all items: all items fit on them and not on one page fewer.\<close>

lemma paging_covers:
  "let (p, s) = Normalize page sz; n = pm_total_page (NewPageMetadata p s (int tot))
   in 1 \<le> p \<and> 1 \<le> s \<and> s \<le> 100 \<and> int tot \<le> n * s \<and> (n - 1) * s < int tot + (if tot = 0 then 1 else 0)"
proof -
  define s where "s = snd (Normalize page sz)"
  have s: "1 \<le> s" "s \<le> 100" by (auto simp: s_def Normalize_def Let_def)
  have p: "1 \<le> fst (Normalize page sz)" by (simp add: Normalize_def)
  define q r where "q = int tot div s" and "r = int tot mod s"
  have qr: "int tot = q * s + r" "0 \<le> r" "r < s" using s by (auto simp: q_def r_def)
  have td: "trunc_div (int tot) s = q"
    using s by (cases "tot = 0") (auto simp: trunc_div_def q_def sgn_if)
  have tm: "trunc_mod (int tot) s = r" unfolding trunc_mod_def td using qr(1) by (simp add: algebra_simps)
  have n: "pm_total_page (NewPageMetadata p s (int tot)) = q + (if r > 0 then 1 else 0)" for p
    by (simp add: NewPageMetadata_def td tm)
  have "int tot \<le> (q + (if r > 0 then 1 else 0)) * s"
    using qr s by (auto simp: algebra_simps)
  moreover have "(q + (if r > 0 then 1 else 0) - 1) * s < int tot + (if tot = 0 then 1 else 0)"
    using qr s by (auto simp: algebra_simps)
  ultimately show ?thesis using p s n
    by (simp add: s_def split_beta Let_def)
qed

end
