(* ===== verification/Converters.thy ===== *)
theory Converters
  imports Models
begin

text \<open>
  Package \<open>internal/model/converter\<close>: rows to responses.  The relations a struct carries beside
  its columns (the runs of a match, the deliveries of a run, the roles of a user) are
  arguments.
\<close>

definition DeliveryToResponse :: "notification_delivery \<Rightarrow> delivery_response" where
  "DeliveryToResponse d = \<lparr>dvp_id = nd_id d, dvp_event_run_id = nd_event_run_id d,
     dvp_notifier_id = nd_notifier_id d, dvp_channel_type = nd_channel_type d,
     dvp_status = nd_status d, dvp_rendered_message = nd_rendered_message d,
     dvp_provider_message_id = nd_provider_message_id d, dvp_error = nd_error d,
     dvp_sent_at = nd_sent_at d, dvp_created_at = nd_created_at d\<rparr>"

definition DeliveriesToResponses :: "notification_delivery list \<Rightarrow> delivery_response list" where
  "DeliveriesToResponses ds = map DeliveryToResponse ds"

definition EventRunToResponse :: "event_run \<Rightarrow> notification_delivery list \<Rightarrow> event_run_response" where
  "EventRunToResponse r deliveries = \<lparr>erp_id = er_id r, erp_matched_email_id = er_matched_email_id r,
     erp_watcher_event_id = er_watcher_event_id r, erp_event_type = [],
     erp_occurrence = er_occurrence r, erp_status = er_status r,
     erp_scheduled_at = er_scheduled_at r, erp_started_at = er_started_at r,
     erp_finished_at = er_finished_at r, erp_attempt = er_attempt r,
     erp_max_attempts = er_max_attempts r, erp_config_snapshot = er_config_snapshot r,
     erp_result = er_result r, erp_error = er_error r,
     erp_acknowledged_at = er_acknowledged_at r,
     erp_deliveries = DeliveriesToResponses deliveries, erp_created_at = er_created_at r\<rparr>"

definition EventRunsToResponses ::
  "(string \<Rightarrow> notification_delivery list) \<Rightarrow> event_run list \<Rightarrow> event_run_response list" where
  "EventRunsToResponses deliveries rs = map (\<lambda>r. EventRunToResponse r (deliveries (er_id r))) rs"

definition MatchedEmailToResponse :: "matched_email \<Rightarrow> event_run_response list \<Rightarrow> matched_email_response" where
  "MatchedEmailToResponse m runs = \<lparr>mep_id = me_id m, mep_watcher_id = me_watcher_id m,
     mep_watcher_name = [], mep_mail_account_id = me_mail_account_id m,
     mep_message_id = me_message_id m, mep_subject = me_subject m,
     mep_from_address = me_from_address m, mep_from_name = me_from_name m,
     mep_to_addresses = me_to_addresses m, mep_snippet = me_snippet m,
     mep_has_attachment = me_has_attachment m, mep_size_bytes = me_size_bytes m,
     mep_received_at = me_received_at m, mep_matched_at = me_matched_at m,
     mep_matched_filters = me_matched_filters m, mep_runs = runs\<rparr>"

definition MatchedEmailsToResponses :: "matched_email list \<Rightarrow> matched_email_response list" where
  "MatchedEmailsToResponses ms = map (\<lambda>m. MatchedEmailToResponse m []) ms"

definition AuditLogToResponse :: "audit_log \<Rightarrow> string \<Rightarrow> audit_log_response" where
  "AuditLogToResponse a actorEmail = \<lparr>alp_id = al_id a, alp_actor_user_id = al_actor_user_id a,
     alp_actor_email = actorEmail, alp_impersonated_user_id = al_impersonated_user_id a,
     alp_action = al_action a, alp_entity_type = al_entity_type a, alp_entity_id = al_entity_id a,
     alp_metadata = al_metadata a, alp_ip = al_ip a, alp_created_at = al_created_at a\<rparr>"

definition MailAccountToResponse :: "mail_account \<Rightarrow> mail_account_response" where
  "MailAccountToResponse a = \<lparr>map_id = ma_id a, map_provider = ma_provider a,
     map_provider_label = [], map_kind = [], map_email_address = ma_email_address a,
     map_display_name = ma_display_name a, map_auth_mode = ma_auth_mode a,
     map_settings = JSONOrEmpty (ma_settings a) ''{}'',
     map_token_expires_at = ma_token_expires_at a, map_status = ma_status a,
     map_last_verified_at = ma_last_verified_at a, map_last_error = ma_last_error a,
     map_last_synced_at = ma_last_synced_at a,
     map_poll_interval_seconds = ma_poll_interval_seconds a, map_next_poll_at = ma_next_poll_at a,
     map_created_at = ma_created_at a, map_updated_at = ma_updated_at a\<rparr>"

definition MailAccountsToResponses :: "mail_account list \<Rightarrow> mail_account_response list" where
  "MailAccountsToResponses xs = map MailAccountToResponse xs"

definition SyncRunToResponse :: "mail_sync_run \<Rightarrow> mail_sync_run_response" where
  "SyncRunToResponse r = \<lparr>msrp_id = sr_id r, msrp_status = sr_status r,
     msrp_started_at = sr_started_at r, msrp_finished_at = sr_finished_at r,
     msrp_messages_fetched = sr_messages_fetched r, msrp_matches_created = sr_matches_created r,
     msrp_error = sr_error r\<rparr>"

definition SyncRunsToResponses :: "mail_sync_run list \<Rightarrow> mail_sync_run_response list" where
  "SyncRunsToResponses xs = map SyncRunToResponse xs"

definition NotifierToResponse :: "notifier \<Rightarrow> notifier_response" where
  "NotifierToResponse n = \<lparr>np_id = no_id n, np_type = no_type n, np_name = no_name n,
     np_config = (if no_config n = [] then ''{}'' else no_config n), np_status = no_status n,
     np_verified_at = no_verified_at n, np_last_error = no_last_error n,
     np_is_default = no_is_default n, np_created_at = no_created_at n, np_updated_at = no_updated_at n\<rparr>"

definition NotifiersToResponses :: "notifier list \<Rightarrow> notifier_response list" where
  "NotifiersToResponses xs = map NotifierToResponse xs"

definition UserToResponse :: "user \<Rightarrow> role list \<Rightarrow> user_response" where
  "UserToResponse u roles = \<lparr>up_id = u_id u, up_email = u_email u, up_name = u_name u,
     up_status = u_status u, up_timezone = u_timezone u, up_roles = RoleSlugs roles,
     up_email_verified_at = u_email_verified_at u, up_created_at = u_created_at u,
     up_updated_at = u_updated_at u\<rparr>"

definition UserToAuth :: "user \<Rightarrow> role list \<Rightarrow> string \<Rightarrow> string option \<Rightarrow> auth" where
  "UserToAuth u roles sessionID impersonatedBy =
     (let a = \<lparr>au_id = u_id u, au_email = u_email u, au_roles = RoleSlugs roles,
               au_session_id = sessionID, au_impersonated = False, au_impersonated_by = []\<rparr>
      in case impersonatedBy of
           None \<Rightarrow> a
         | Some by_id \<Rightarrow> if by_id \<noteq> [] then a\<lparr>au_impersonated := True, au_impersonated_by := by_id\<rparr> else a)"

definition SessionToResponse :: "user_session \<Rightarrow> string \<Rightarrow> session_response" where
  "SessionToResponse s currentID = \<lparr>sp_id = us_id s, sp_user_agent = us_user_agent s, sp_ip = us_ip s,
     sp_current = (us_id s = currentID), sp_expires_at = us_expires_at s,
     sp_last_used_at = us_last_used_at s, sp_created_at = us_created_at s\<rparr>"

definition SessionsToResponses :: "user_session list \<Rightarrow> string \<Rightarrow> session_response list" where
  "SessionsToResponses ss currentID = map (\<lambda>s. SessionToResponse s currentID) ss"

definition FilterToResponse :: "watcher_filter \<Rightarrow> watcher_filter_response" where
  "FilterToResponse f = \<lparr>wfp_id = wf_id f, wfp_field = wf_field f, wfp_header_name = wf_header_name f,
     wfp_operator = wf_operator f, wfp_value = wf_value f, wfp_case_sensitive = wf_case_sensitive f,
     wfp_position = wf_position f\<rparr>"

definition FiltersToResponses :: "watcher_filter list \<Rightarrow> watcher_filter_response list" where
  "FiltersToResponses fs = map FilterToResponse fs"

definition EventToResponse :: "watcher_event \<Rightarrow> notifier list \<Rightarrow> watcher_event_response" where
  "EventToResponse e notifiers = \<lparr>wep_id = we_id e, wep_watcher_id = we_watcher_id e,
     wep_type = we_type e, wep_config = (if we_config e = [] then ''{}'' else we_config e),
     wep_position = we_position e, wep_enabled = we_enabled e, wep_run_mode = we_run_mode e,
     wep_delay_seconds = we_delay_seconds e,
     wep_repeat_interval_seconds = we_repeat_interval_seconds e,
     wep_repeat_max = we_repeat_max e, wep_repeat_until = we_repeat_until e,
     wep_cron_expression = we_cron_expression e, wep_stop_on_ack = we_stop_on_ack e,
     wep_notifiers = NotifiersToResponses notifiers,
     wep_created_at = we_created_at e, wep_updated_at = we_updated_at e\<rparr>"

definition EventsToResponses ::
  "(string \<Rightarrow> notifier list) \<Rightarrow> watcher_event list \<Rightarrow> watcher_event_response list" where
  "EventsToResponses notifiers es = map (\<lambda>e. EventToResponse e (notifiers (we_id e))) es"

definition WatcherToResponse ::
  "watcher \<Rightarrow> mail_account option \<Rightarrow> watcher_filter list \<Rightarrow> watcher_event_response list \<Rightarrow> watcher_response" where
  "WatcherToResponse w account filters events = \<lparr>wp_id = wa_id w, wp_name = wa_name w,
     wp_description = wa_description w, wp_status = wa_status w, wp_match_mode = wa_match_mode w,
     wp_folder = wa_folder w, wp_watch_from = wa_watch_from w,
     wp_cooldown_seconds = wa_cooldown_seconds w, wp_last_matched_at = wa_last_matched_at w,
     wp_match_count = wa_match_count w, wp_archived_at = wa_archived_at w,
     wp_mail_account_id = wa_mail_account_id w,
     wp_mail_account = map_option MailAccountToResponse account,
     wp_filters = FiltersToResponses filters, wp_events = events,
     wp_created_at = wa_created_at w, wp_updated_at = wa_updated_at w\<rparr>"

definition WatchersToResponses ::
  "(string \<Rightarrow> watcher_filter list) \<Rightarrow> watcher list \<Rightarrow> watcher_response list" where
  "WatchersToResponses filters ws = map (\<lambda>w. WatcherToResponse w None (filters (wa_id w)) []) ws"

subsection \<open>Secrets stay behind\<close>

text \<open>No response carries a secret: what the API shows of a mailbox does not depend on its
  credentials or its sync state, of a notifier not on its secrets or its verification code,
  of a user not on the password hash, of a session not on its token hash.\<close>

lemma responses_hide_secrets:
  "MailAccountToResponse (a\<lparr>ma_credentials := c, ma_sync_state := s\<rparr>) = MailAccountToResponse a
   \<and> NotifierToResponse (n\<lparr>no_secrets := x, no_verification_code := v\<rparr>) = NotifierToResponse n
   \<and> UserToResponse (u\<lparr>u_password := p\<rparr>) roles = UserToResponse u roles
   \<and> SessionToResponse (t\<lparr>us_token_hash := h\<rparr>) cur = SessionToResponse t cur"
  by (simp add: MailAccountToResponse_def NotifierToResponse_def UserToResponse_def SessionToResponse_def)

end
