(* ===== verification/AuditTrail.thy ===== *)
theory AuditTrail
  imports Repositories Converters Samples
begin

text \<open>
  internal/usecase/audit_usecase.go.  \<open>ctx\<close> is the caller the middleware put on the context
  (\<open>None\<close> on worker loops and public routes).  A statement that fails inside a Postgres
  transaction aborts it, and the commit then fails; \<open>Record\<close> therefore reports whether its
  insert was accepted, and \<open>tx_commit\<close> is the commit that follows it.  Metadata that cannot
  be marshalled is \<open>None\<close>, like absent metadata.
\<close>

type_synonym ctx = "auth option"

record audit_entry =
  ae_actor_id :: "string option"
  ae_impersonated_user_id :: "string option"
  ae_action :: string
  ae_entity_type :: string
  ae_entity_id :: "string option"
  ae_metadata :: "json option"
  ae_ip :: "string option"
  ae_user_agent :: "string option"

definition entry :: "string \<Rightarrow> string \<Rightarrow> string \<Rightarrow> string \<Rightarrow> audit_entry" where
  "entry actor action ty i = \<lparr>ae_actor_id = Some actor, ae_impersonated_user_id = None,
     ae_action = action, ae_entity_type = ty, ae_entity_id = Some i, ae_metadata = None,
     ae_ip = None, ae_user_agent = None\<rparr>"

definition attribute :: "ctx \<Rightarrow> audit_entry \<Rightarrow> audit_entry" where
  "attribute c e =
     (if ae_impersonated_user_id e \<noteq> None then e
      else (case c of
          None \<Rightarrow> e
        | Some a \<Rightarrow> if \<not> au_impersonated a \<or> au_impersonated_by a = [] then e
            else e\<lparr>ae_actor_id := Some (au_impersonated_by a), ae_impersonated_user_id := Some (au_id a)\<rparr>))"

definition audit_row :: "audit_entry \<Rightarrow> string \<Rightarrow> audit_log" where
  "audit_row e i = \<lparr>al_id = i, al_actor_user_id = ae_actor_id e,
     al_impersonated_user_id = ae_impersonated_user_id e, al_action = ae_action e,
     al_entity_type = ae_entity_type e, al_entity_id = ae_entity_id e,
     al_metadata = (case ae_metadata e of None \<Rightarrow> ''{}'' | Some m \<Rightarrow> m), al_ip = ae_ip e,
     al_user_agent = ae_user_agent e, al_created_at = 0\<rparr>"

definition Record :: "ctx \<Rightarrow> audit_entry \<Rightarrow> bool io" where
  "Record c e = do {
     i \<leftarrow> new_uuid;
     r \<leftarrow> Repo_Create audit_table (audit_row (attribute c e) i);
     ret (case r of Inl _ \<Rightarrow> False | Inr _ \<Rightarrow> True) }"

definition tx_commit :: "bool \<Rightarrow> unit ioE" where
  "tx_commit ok = (if ok then commit else failE (DbErr ''commit unexpectedly resulted in rollback''))"

text \<open>The end of most handlers: record, commit, answer 500 when the commit fails\<close>

definition record_and_commit :: "ctx \<Rightarrow> audit_entry \<Rightarrow> unit ioE" where
  "record_and_commit c e = State_Monad.bind (Record c e) (\<lambda>ok. mapErr (\<lambda>_. ErrInternal) (tx_commit ok))"

definition Audit_List ::
  "(list_audit_log_request \<Rightarrow> bool) \<Rightarrow> list_audit_log_request \<Rightarrow> (audit_log_response list \<times> page_metadata) ioE" where
  "Audit_List valid request0 =
     (let (page, sz) = Normalize (lalq_page request0) (lalq_size request0);
          request = request0\<lparr>lalq_page := page, lalq_size := sz\<rparr> in
      if \<not> valid request then failE ErrBadRequest
      else bindE (mapErr (\<lambda>_. ErrInternal) (Repo_Paginate
          (AuditLog_Search (lalq_actor_user_id request) (lalq_action request) (lalq_entity_type request)
             (lalq_from request) (lalq_to request)) page sz)) (\<lambda>(logs, total_items).
        State_Monad.bind (EmailsFor logs) (\<lambda>e.
        let emails = (case e of Inl _ \<Rightarrow> Map.empty | Inr m \<Rightarrow> m) in
        returnE (map (\<lambda>l. AuditLogToResponse l
            (case al_actor_user_id l of None \<Rightarrow> [] | Some a \<Rightarrow> (case emails a of None \<Rightarrow> [] | Some m \<Rightarrow> m))) logs,
          NewPageMetadata page sz total_items))))"

lemma pres_audit:
  assumes "\<And>d xs. K d \<Longrightarrow> K (d\<lparr>audit_logs_of := xs\<rparr>)"
  shows "preserves (db_inv K) (Record c e)" and "preserves (db_inv K) (record_and_commit c e)"
proof -
  have "preserves (db_inv K) (Repo_Create audit_table x)" for x
    using assms by (intro pres_Repo_Create) (simp add: insert_row_def, simp add: audit_table_def)
  then show *: "preserves (db_inv K) (Record c e)" for e unfolding Record_def by (intro pres)
  show "preserves (db_inv K) (record_and_commit c e)"
    unfolding record_and_commit_def tx_commit_def by (intro pres *)
qed

lemma up_audit [pres]:
  "preserves db_up (Record c e)" "preserves db_up (record_and_commit c e)"
  unfolding record_and_commit_def Record_def tx_commit_def by (intro pres)+

text \<open>Recording that succeeds appends exactly one row to the log and changes nothing else.\<close>

lemma record_and_commit_ok:
  assumes "run_state (record_and_commit c e) w = (Inr u, w')"
  shows "\<exists>row. wdb w' = (wdb w)\<lparr>audit_logs_of := audit_logs_of (wdb w) @ [row]\<rparr>
      \<and> al_actor_user_id row = ae_actor_id (attribute c e)
      \<and> al_impersonated_user_id row = ae_impersonated_user_id (attribute c e)
      \<and> al_action row = ae_action e \<and> al_entity_id row = ae_entity_id e"
proof -
  have same: "ae_action (attribute c e) = ae_action e" "ae_entity_id (attribute c e) = ae_entity_id e"
    by (simp_all add: attribute_def split: option.splits)
  let ?row = "tb_stamp audit_table (unix_milli (clock w (ticks w))) (audit_row (attribute c e) (uuids w (uuid_pos w)))"
  have "wdb w' = (wdb w)\<lparr>audit_logs_of := audit_logs_of (wdb w) @ [?row]\<rparr>"
    using assms
    by (auto simp: record_and_commit_def Record_def tx_commit_def commit_def Repo_Create_def insert_row_def run_stmt
        split: prod.splits sum.splits if_splits option.splits) (simp_all add: audit_table_def)
  then show ?thesis using same by (intro exI [of _ ?row]) (simp add: audit_table_def audit_row_def)
qed

text \<open>During impersonation the audit trail names the admin: whatever a handler records on an
  impersonated session, the row that is committed has the impersonating admin as its actor
  and the impersonated user beside him, although the handler passed that user as the actor.\<close>

lemma record_names_admin:
  assumes "run_state (record_and_commit (Some a) (entry actor action ty i)) w = (Inr u, w')"
    and "au_impersonated a" and "au_impersonated_by a \<noteq> []"
  shows "\<exists>row. audit_logs_of (wdb w') = audit_logs_of (wdb w) @ [row]
    \<and> al_actor_user_id row = Some (au_impersonated_by a) \<and> al_impersonated_user_id row = Some (au_id a)
    \<and> al_action row = action \<and> al_entity_id row = Some i"
  using record_and_commit_ok [OF assms(1)] assms(2,3) by (auto simp: attribute_def entry_def)

definition root_as_ann :: auth where
  "root_as_ann = \<lparr>au_id = ''ann'', au_email = ''ann@x'', au_roles = [], au_session_id = ''s'',
     au_impersonated = True, au_impersonated_by = ''root''\<rparr>"

definition admin_world :: world where
  "admin_world = world_of (sample_db\<lparr>users_of := [ann, ann\<lparr>u_id := ''root'', u_email := ''r@x''\<rparr>]\<rparr>)"

text \<open>An audit line that cannot be written does undo the work: when the insert of the audit row
  is refused, the transaction it runs in is aborted, the commit fails, and nothing the
  handler did before it is kept, whatever that was.\<close>

lemma audit_failure_rolls_back:
  assumes "run_state work w = (Inr x, w1)" and "fst (run_state (Record c e) w1) = False"
  shows "fst (run_state (tx_scope (bindE work (\<lambda>_. record_and_commit c e))) w) = Inl ErrInternal
    \<and> wdb (snd (run_state (tx_scope (bindE work (\<lambda>_. record_and_commit c e))) w)) = wdb w"
  using assms by (auto simp: record_and_commit_def tx_commit_def split: prod.splits)

end
