(* ===== verification/Activity.thy ===== *)
theory Activity
  imports Dispatcher Caches AuditTrail
begin

text \<open>
  internal/usecase/activity_usecase.go: the trail of matches, runs and deliveries, and the three
  actions on a run.  Request validation (go-playground/validator) is a parameter, one
  predicate per request type; \<open>ilike\<close> is the pattern match of Postgres.
\<close>

record activity =
  ay_dispatcher :: dispatcher
  ay_ttls :: cache_ttls
  ay_ilike :: "string \<Rightarrow> string \<Rightarrow> bool"
  ay_valid_matches :: "list_matched_email_request \<Rightarrow> bool"
  ay_valid_runs :: "list_event_run_request \<Rightarrow> bool"
  ay_valid_deliveries :: "list_delivery_request \<Rightarrow> bool"
  ay_valid_dashboard :: "dashboard_summary_request \<Rightarrow> bool"

abbreviation internal :: "'a ioE \<Rightarrow> 'a ioE" where
  "internal m \<equiv> mapErr (\<lambda>_. ErrInternal) m"

abbreviation not_found :: "string \<Rightarrow> 'a ioE \<Rightarrow> 'a ioE" where
  "not_found what m \<equiv> mapErr (\<lambda>_. HttpErr 404 what) m"

subsection \<open>Reads\<close>

definition ListMatches ::
  "activity \<Rightarrow> list_matched_email_request \<Rightarrow> (matched_email_response list \<times> page_metadata) ioE" where
  "ListMatches A request0 =
     (let (page, sz) = Normalize (lmeq_page request0) (lmeq_size request0);
          request = request0\<lparr>lmeq_page := page, lmeq_size := sz\<rparr> in
      if \<not> ay_valid_matches A request then failE ErrBadRequest
      else bindE (internal (Repo_Paginate (MatchedEmail_Search (ay_ilike A)
          \<lparr>msq_user_id = lmeq_user_id request, msq_watcher_id = lmeq_watcher_id request,
           msq_mail_account_id = lmeq_mail_account_id request, msq_from = lmeq_from request,
           msq_to = lmeq_to request, msq_query = lmeq_query request\<rparr>) page sz)) (\<lambda>(matches, n).
        returnE (MatchedEmailsToResponses matches, NewPageMetadata page sz n)))"

definition GetMatch :: "get_matched_email_request \<Rightarrow> matched_email_response ioE" where
  "GetMatch request =
     bindE (not_found ''match not found''
       (if gmeq_user_id request \<noteq> []
        then Repo_FindByIdAndUser matches_table (gmeq_id request) (gmeq_user_id request)
        else Repo_FindById matches_table (gmeq_id request))) (\<lambda>match.
     bindE (internal (EventRun_FindByMatch (me_id match))) (\<lambda>rs.
     State_Monad.bind (Delivery_FindByRuns (map er_id rs)) (\<lambda>g.
     let grouped = (case g of Inl _ \<Rightarrow> (\<lambda>_. []) | Inr f \<Rightarrow> f);
         response = MatchedEmailToResponse match (EventRunsToResponses grouped rs) in
     State_Monad.bind (Repo_FindById watchers_table (me_watcher_id match)) (\<lambda>w.
     returnE (case w of Inl _ \<Rightarrow> response | Inr x \<Rightarrow> response\<lparr>mep_watcher_name := wa_name x\<rparr>)))))"

definition ListRuns ::
  "activity \<Rightarrow> list_event_run_request \<Rightarrow> (event_run_response list \<times> page_metadata) ioE" where
  "ListRuns A request0 =
     (let (page, sz) = Normalize (lerq_page request0) (lerq_size request0);
          request = request0\<lparr>lerq_page := page, lerq_size := sz\<rparr> in
      if \<not> ay_valid_runs A request then failE ErrBadRequest
      else bindE (internal (Repo_Paginate (EventRun_Search
          \<lparr>rs_user_id = lerq_user_id request, rs_watcher_id = lerq_watcher_id request,
           rs_matched_email_id = [], rs_status = lerq_status request, rs_from = lerq_from request,
           rs_to = lerq_to request\<rparr>) page sz)) (\<lambda>(rs, n).
        returnE (EventRunsToResponses (\<lambda>_. []) rs, NewPageMetadata page sz n)))"

definition findRun :: "string \<Rightarrow> string \<Rightarrow> event_run ioE" where
  "findRun i user = not_found ''run not found''
     (if user \<noteq> [] then Repo_FindByIdAndUser runs_table i user else Repo_FindById runs_table i)"

definition GetRun :: "string \<Rightarrow> string \<Rightarrow> event_run_response ioE" where
  "GetRun user i =
     bindE (findRun i user) (\<lambda>run.
     State_Monad.bind (Delivery_FindByRun (er_id run)) (\<lambda>d.
     let response = EventRunToResponse run (case d of Inl _ \<Rightarrow> [] | Inr ds \<Rightarrow> ds) in
     State_Monad.bind (Repo_FindById events_table (er_watcher_event_id run)) (\<lambda>e.
     returnE (case e of Inl _ \<Rightarrow> response | Inr x \<Rightarrow> response\<lparr>erp_event_type := we_type x\<rparr>))))"

definition ListDeliveries ::
  "activity \<Rightarrow> list_delivery_request \<Rightarrow> (delivery_response list \<times> page_metadata) ioE" where
  "ListDeliveries A request0 =
     (let (page, sz) = Normalize (ldq_page request0) (ldq_size request0);
          request = request0\<lparr>ldq_page := page, ldq_size := sz\<rparr> in
      if \<not> ay_valid_deliveries A request then failE ErrBadRequest
      else bindE (internal (Repo_Paginate (Delivery_Search (ldq_user_id request)
          (ldq_event_run_id request) (ldq_notifier_id request) (ldq_status request)) page sz)) (\<lambda>(ds, n).
        returnE (DeliveriesToResponses ds, NewPageMetadata page sz n)))"

subsection \<open>The actions on a run\<close>

definition Retry :: "activity \<Rightarrow> event_run_action_request \<Rightarrow> event_run_response ioE" where
  "Retry A request =
     bindE (findRun (eraq_id request) (eraq_user_id request)) (\<lambda>run.
     if er_status run = RunStatusRunning then failE (HttpErr 409 ''that run is already in flight'')
     else State_Monad.bind now_milli (\<lambda>now.
       bindE (internal (Repo_Update runs_table (run\<lparr>er_status := RunStatusRunning, er_attempt := 0,
         er_error := None, er_finished_at := None, er_started_at := Some now\<rparr>))) (\<lambda>run'.
       State_Monad.bind (execute (ay_dispatcher A) run') (\<lambda>_.
       GetRun (eraq_user_id request) (eraq_id request)))))"

definition Cancel :: "ctx \<Rightarrow> event_run_action_request \<Rightarrow> cancel_run_response ioE" where
  "Cancel c request = tx_scope
     (bindE (findRun (eraq_id request) (eraq_user_id request)) (\<lambda>run.
      bindE (internal (CancelPendingAfter (er_matched_email_id run) (er_watcher_event_id run) (er_occurrence run)))
        (\<lambda>cancelled.
      bindE (record_and_commit c (entry (eraq_user_id request) ''event_run.cancelled'' ''event_runs'' (er_id run)))
        (\<lambda>_. returnE \<lparr>crp_cancelled = cancelled\<rparr>))))"

text \<open>A failed read of the event inside the transaction aborts it, so that the commit fails.\<close>

definition Ack :: "ctx \<Rightarrow> event_run_action_request \<Rightarrow> ack_run_response ioE" where
  "Ack c request = tx_scope
     (bindE (findRun (eraq_id request) (eraq_user_id request)) (\<lambda>run.
      State_Monad.bind now_milli (\<lambda>now.
      bindE (internal (Repo_Update runs_table (run\<lparr>er_acknowledged_at := Some now\<rparr>))) (\<lambda>_.
      State_Monad.bind (Repo_FindById events_table (er_watcher_event_id run)) (\<lambda>e.
      bindE (case e of
          Inl RecordNotFound \<Rightarrow> returnE 0
        | Inl _ \<Rightarrow> failE ErrInternal
        | Inr ev \<Rightarrow> if we_stop_on_ack ev
            then internal (CancelPendingAfter (er_matched_email_id run) (er_watcher_event_id run) (er_occurrence run + 1))
            else returnE 0) (\<lambda>cancelled.
      bindE (record_and_commit c (entry (eraq_user_id request) ''event_run.acknowledged'' ''event_runs'' (er_id run)))
        (\<lambda>_. returnE \<lparr>arp_acknowledged_at = now, arp_cancelled_occurrences = cancelled\<rparr>)))))))"

subsection \<open>The dashboard\<close>

definition watcherNames :: "matched_email list \<Rightarrow> (string \<rightharpoonup> string) io" where
  "watcherNames matches =
     (if matches = [] then ret Map.empty
      else do {
        r \<leftarrow> query (\<lambda>d. Inr (filter (\<lambda>x. wa_id x \<in> set (map me_watcher_id matches)) (watchers_of d)));
        ret (case r of Inl _ \<Rightarrow> Map.empty
             | Inr ws \<Rightarrow> foldl (\<lambda>m x. m(wa_id x \<mapsto> wa_name x)) Map.empty ws) })"

definition Dashboard :: "activity \<Rightarrow> dashboard_summary_request \<Rightarrow> dashboard_summary ioE" where
  "Dashboard A request =
     (if \<not> ay_valid_dashboard A request then failE ErrBadRequest
      else State_Monad.bind (Cache_Get DashboardKeyPrefix as_dashboard (dsq_user_id request)) (\<lambda>cached.
       case cached of Inr (Some s) \<Rightarrow> returnE s
       | _ \<Rightarrow>
        State_Monad.bind time_now (\<lambda>now.
        let user = dsq_user_id request; since = unix_milli (now - 24 * Hour) in
        bindE (internal (CountByStatusForUser user)) (\<lambda>watcherCounts.
        bindE (internal (MailAccount_CountByStatus (\<lambda>a. ma_user_id a = user))) (\<lambda>accountCounts.
        bindE (internal (Notifier_CountByStatus (\<lambda>n. no_user_id n = user))) (\<lambda>notifierCounts.
        bindE (internal (Match_CountSince user since)) (\<lambda>matches24h.
        bindE (internal (CountFailedSince user since)) (\<lambda>failed24h.
        State_Monad.bind (Match_FindRecent user 10) (\<lambda>recent.
        State_Monad.bind (case recent of Inl _ \<Rightarrow> ret []
            | Inr ms \<Rightarrow> State_Monad.bind (watcherNames ms) (\<lambda>names. ret (map (\<lambda>m.
                \<lparr>ra_type = ''match'', ra_id = me_id m,
                 ra_watcher_name = (case names (me_watcher_id m) of None \<Rightarrow> [] | Some x \<Rightarrow> x),
                 ra_subject = derefString (me_subject m), ra_at = me_matched_at m\<rparr>) ms))) (\<lambda>items.
        let response = \<lparr>ds_watchers = watcherCounts, ds_mail_accounts = accountCounts,
              ds_notifiers = notifierCounts, ds_matches_24h = matches24h,
              ds_runs_failed_24h = failed24h, ds_recent = items\<rparr> in
        State_Monad.bind (Cache_Set DashboardKeyPrefix (ttl_dashboard (ay_ttls A)) user (RDashboard response)) (\<lambda>_.
        returnE response)))))))))))"

subsection \<open>Properties\<close>

lemma findRun_row:
  assumes "run_state (findRun i user) w = (Inr run, w')" and "user \<noteq> []"
  shows "run \<in> set (runs_of (wdb w)) \<and> er_id run = i \<and> er_user_id run = user \<and> wdb w' = wdb w"
proof -
  have "run_state (Repo_FindByIdAndUser runs_table i user) w = (Inr run, w')"
    using assms(1) unfolding findRun_def if_P [OF assms(2)]
    by (cases "run_state (Repo_FindByIdAndUser runs_table i user) w")
       (auto split: sum.splits)
  from FindByIdAndUser_row [OF this] show ?thesis by (simp add: runs_table_def)
qed

definition owns_run :: "string \<Rightarrow> string \<Rightarrow> database \<Rightarrow> bool" where
  "owns_run user i d = list_ex (\<lambda>r. er_id r = i \<and> er_user_id r = user) (runs_of d)"

lemma findRun_foreign:
  assumes "db_up w" and "user \<noteq> []" and "\<not> owns_run user i (wdb w)"
  shows "\<exists>w'. run_state (findRun i user) w = (Inl (HttpErr 404 ''run not found''), w') \<and> wdb w' = wdb w"
proof -
  have "take_first (\<lambda>x. er_id x = i \<and> er_user_id x = user) (runs_of (wdb w)) = None"
    using assms(3) by (simp add: take_first_None owns_run_def list_ex_iff)
  then show ?thesis using assms(1,2)
    by (simp add: findRun_def Repo_FindByIdAndUser_def take_row_def runs_table_def)
qed

text \<open>C11: Another tenant's run is out of reach: retrying, cancelling or acknowledging a run the
  caller does not own answers 404, exactly as for a run that does not exist, and changes no
  row.\<close>

theorem foreign_run_404:
  assumes "db_up w" and "eraq_user_id request \<noteq> []"
    and "\<not> owns_run (eraq_user_id request) (eraq_id request) (wdb w)"
  shows "fst (run_state (Cancel c request) w) = Inl (HttpErr 404 ''run not found'')
    \<and> wdb (snd (run_state (Cancel c request) w)) = wdb w
    \<and> fst (run_state (Ack c request) w) = Inl (HttpErr 404 ''run not found'')
    \<and> wdb (snd (run_state (Ack c request) w)) = wdb w
    \<and> fst (run_state (Retry A request) w) = Inl (HttpErr 404 ''run not found'')
    \<and> wdb (snd (run_state (Retry A request) w)) = wdb w"
  using findRun_foreign [OF assms] by (auto simp: Cancel_def Ack_def Retry_def)

definition bob_acts :: event_run_action_request where
  "bob_acts = \<lparr>eraq_user_id = ''bob'', eraq_id = ''r1''\<rparr>"

definition ann_acts :: event_run_action_request where
  "ann_acts = \<lparr>eraq_user_id = ''ann'', eraq_id = ''r1''\<rparr>"

theorem foreign_run_404_witness:
  "fst (run_state (Cancel None bob_acts) sample_world) = Inl (HttpErr 404 ''run not found'')"
proof -
  have "\<not> owns_run (eraq_user_id bob_acts) (eraq_id bob_acts) (wdb sample_world)"
    by (simp add: owns_run_def bob_acts_def sample_defs)
  from foreign_run_404 [OF _ _ this] show ?thesis by (simp add: bob_acts_def)
qed

text \<open>C12: Cancelling stops what is scheduled, and only that: a successful cancel of a run the
  caller owns turns exactly the pending runs of the same match and event from its occurrence
  on into cancelled ones, reports their number, and leaves every other run as it was.\<close>

theorem Cancel_exact:
  assumes "run_state (Cancel c request) w = (Inr response, w')" and "eraq_user_id request \<noteq> []"
  shows "\<exists>run n. run \<in> set (runs_of (wdb w)) \<and> er_id run = eraq_id request
    \<and> er_user_id run = eraq_user_id request
    \<and> runs_of (wdb w') = map (\<lambda>r.
        if pending_after (er_matched_email_id run) (er_watcher_event_id run) (er_occurrence run) r
        then r\<lparr>er_status := RunStatusCancelled, er_updated_at := n\<rparr> else r) (runs_of (wdb w))
    \<and> crp_cancelled response = count_rows
        (pending_after (er_matched_email_id run) (er_watcher_event_id run) (er_occurrence run)) (runs_of (wdb w))"
proof -
  let ?e = "\<lambda>run. entry (eraq_user_id request) ''event_run.cancelled'' ''event_runs'' (er_id run)"
  let ?p = "\<lambda>run. pending_after (er_matched_email_id run) (er_watcher_event_id run) (er_occurrence run)"
  obtain run w1 n w2 u w3 where f: "run_state (findRun (eraq_id request) (eraq_user_id request)) w = (Inr run, w1)"
    and k: "run_state (CancelPendingAfter (er_matched_email_id run) (er_watcher_event_id run) (er_occurrence run)) w1 = (Inr n, w2)"
    and r: "run_state (record_and_commit c (?e run)) w2 = (Inr u, w3)"
    and res: "w' = w3" "crp_cancelled response = n"
    using assms(1) by (auto simp: Cancel_def split: prod.splits sum.splits)
  have run: "run \<in> set (runs_of (wdb w))" "er_id run = eraq_id request" "er_user_id run = eraq_user_id request"
    "wdb w1 = wdb w" using findRun_row [OF f assms(2)] by simp_all
  have "\<exists>m. runs_of (wdb w2) = update_where (?p run)
      (\<lambda>r. r\<lparr>er_status := RunStatusCancelled, er_updated_at := m\<rparr>) (runs_of (wdb w)) \<and> n = count_rows (?p run) (runs_of (wdb w))"
    using k run(4)
    by (auto simp: CancelPendingAfter_def Repo_UpdateWhere_def run_stmt runs_table_def count_rows_def
        split: option.splits if_splits)
  moreover have "runs_of (wdb w3) = runs_of (wdb w2)"
    using record_and_commit_ok [OF r] by auto
  ultimately show ?thesis using run res by (auto simp: update_where_def)
qed

lemma sample_cancel: "\<exists>response w'. run_state (Cancel None ann_acts) sample_world = (Inr response, w')"
  by (simp add: Cancel_def findRun_def ann_acts_def Repo_FindByIdAndUser_def take_row_def runs_table_def
        CancelPendingAfter_def Repo_UpdateWhere_def record_and_commit_def Record_def tx_commit_def Repo_Create_def
        insert_row_def audit_table_def audit_row_def attribute_def entry_def opt_ref_def sample_defs)

theorem Cancel_exact_witness:
  "\<exists>response w'. run_state (Cancel None ann_acts) sample_world = (Inr response, w')
    \<and> map er_status (runs_of (wdb w')) = [RunStatusCancelled] \<and> crp_cancelled response = 1"
proof -
  obtain response w' where run: "run_state (Cancel None ann_acts) sample_world = (Inr response, w')"
    using sample_cancel by blast
  from Cancel_exact [OF run] obtain run n where "run \<in> set (runs_of (wdb sample_world))"
    "runs_of (wdb w') = map (\<lambda>r.
        if pending_after (er_matched_email_id run) (er_watcher_event_id run) (er_occurrence run) r
        then r\<lparr>er_status := RunStatusCancelled, er_updated_at := n\<rparr> else r) (runs_of (wdb sample_world))"
    "crp_cancelled response = count_rows
        (pending_after (er_matched_email_id run) (er_watcher_event_id run) (er_occurrence run)) (runs_of (wdb sample_world))"
    by (auto simp: ann_acts_def)
  with run show ?thesis by (auto simp: pending_after_def count_rows_def sample_defs)
qed

lemma CancelPendingAfter_ok:
  assumes "run_state (CancelPendingAfter m e occ) w = (Inr k, w')"
  shows "\<exists>n. k = count_rows (pending_after m e occ) (runs_of (wdb w))
    \<and> wdb w' = (wdb w)\<lparr>runs_of := update_where (pending_after m e occ)
        (\<lambda>r. r\<lparr>er_status := RunStatusCancelled, er_updated_at := n\<rparr>) (runs_of (wdb w))\<rparr>"
  using Repo_UpdateWhere_ok [OF assms [unfolded CancelPendingAfter_def]]
  by (auto simp: runs_table_def count_rows_def)

lemma none_pending_after:
  "r \<in> set (update_where (pending_after m e occ) (\<lambda>r. r\<lparr>er_status := RunStatusCancelled, er_updated_at := n\<rparr>) rs) \<Longrightarrow>
   \<not> pending_after m e occ r"
  unfolding set_update_where by (elim imageE) (simp add: pending_after_def split: if_splits)

lemma findRun_ok:
  assumes "run_state (findRun i user) w = (Inr run, w')" and "user \<noteq> []"
  shows "take_first (\<lambda>r. er_id r = i \<and> er_user_id r = user) (runs_of (wdb w)) = Some run \<and> wdb w' = wdb w"
proof -
  have "run_state (Repo_FindByIdAndUser runs_table i user) w = (Inr run, w')"
    using assms(1) unfolding findRun_def if_P [OF assms(2)] by (rule mapErr_okE)
  from query_ok [OF this [unfolded Repo_FindByIdAndUser_def]] show ?thesis
    by (auto simp: take_row_def runs_table_def split: option.splits)
qed

lemma Ack_steps:
  assumes "run_state (Ack c request) w = (Inr response, w')" and "eraq_user_id request \<noteq> []"
    and run: "take_first (\<lambda>r. er_id r = eraq_id request \<and> er_user_id r = eraq_user_id request) (runs_of (wdb w)) = Some run"
    and ev: "take_first (\<lambda>e. we_id e = er_watcher_event_id run) (events_of (wdb w)) = Some ev" and "we_stop_on_ack ev"
  shows "\<exists>y n logs. wdb w' = (wdb w)\<lparr>runs_of := update_where
        (pending_after (er_matched_email_id run) (er_watcher_event_id run) (er_occurrence run + 1))
        (\<lambda>r. r\<lparr>er_status := RunStatusCancelled, er_updated_at := n\<rparr>) (put_run y (runs_of (wdb w))), audit_logs_of := logs\<rparr>
    \<and> er_id y = er_id run \<and> run_slot y = run_slot run \<and> er_acknowledged_at y = Some (arp_acknowledged_at response)"
proof -
  obtain run0 w1 now w2 y w3 e w4 k w5 u where f: "run_state (findRun (eraq_id request) (eraq_user_id request)) w = (Inr run0, w1)"
    and now: "run_state now_milli w1 = (now, w2)"
    and up: "run_state (Repo_Update runs_table (run0\<lparr>er_acknowledged_at := Some now\<rparr>)) w2 = (Inr y, w3)"
    and e: "run_state (Repo_FindById events_table (er_watcher_event_id run0)) w3 = (e, w4)"
    and k: "run_state (case e of Inl RecordNotFound \<Rightarrow> returnE 0 | Inl _ \<Rightarrow> failE ErrInternal
        | Inr ev \<Rightarrow> if we_stop_on_ack ev
            then internal (CancelPendingAfter (er_matched_email_id run0) (er_watcher_event_id run0) (er_occurrence run0 + 1))
            else returnE 0) w4 = (Inr k, w5)"
    and r: "run_state (record_and_commit c (entry (eraq_user_id request) ''event_run.acknowledged'' ''event_runs'' (er_id run0))) w5 = (Inr u, w')"
    and res: "arp_acknowledged_at response = now"
    using assms(1) unfolding Ack_def
    by (elim okE) (rule that; (assumption | simp))
  have run0: "run0 = run" "wdb w2 = wdb w" using findRun_ok [OF f assms(2)] run now by auto
  obtain n where y: "y = tb_stamp runs_table n (tb_touch runs_table n (run\<lparr>er_acknowledged_at := Some now\<rparr>))"
    and sv: "save_row runs_table y (wdb w) = (Inr y, wdb w3)"
    using Repo_Update_ok [OF up] run0 by auto
  have keys: "er_id y = er_id run" "run_slot y = run_slot run" "er_acknowledged_at y = Some now"
    by (simp_all add: y runs_table_def run_slot_def)
  have "has_id er_id (er_id y) (runs_of (wdb w))"
    using take_first_Some [OF run] keys by (auto simp: list_ex_iff)
  with sv have w3: "wdb w3 = (wdb w)\<lparr>runs_of := put_run y (runs_of (wdb w))\<rparr>"
    by (auto simp: save_row_def put_run_def runs_table_def split: if_splits)
  have "e = Inr ev \<and> wdb w4 = wdb w3"
    using e k ev w3 run0
    by (auto simp: Repo_FindById_def query_def run_stmt take_row_def events_table_def split: option.splits sum.splits)
  with k run0 assms(5) have "run_state (CancelPendingAfter (er_matched_email_id run) (er_watcher_event_id run)
      (er_occurrence run + 1)) w4 = (Inr k, w5)" and w4: "wdb w4 = wdb w3"
    by (auto elim: okE simp del: run_mapErr)
  from CancelPendingAfter_ok [OF this(1)] obtain m where "wdb w5 = (wdb w)\<lparr>runs_of :=
      update_where (pending_after (er_matched_email_id run) (er_watcher_event_id run) (er_occurrence run + 1))
        (\<lambda>r. r\<lparr>er_status := RunStatusCancelled, er_updated_at := m\<rparr>) (put_run y (runs_of (wdb w)))\<rparr>"
    using w3 w4 by auto
  moreover obtain row where "wdb w' = (wdb w5)\<lparr>audit_logs_of := audit_logs_of (wdb w5) @ [row]\<rparr>"
    using record_and_commit_ok [OF r] by blast
  ultimately show ?thesis using keys res
    by (intro exI [of _ y] exI [of _ m] exI [of _ "audit_logs_of (wdb w5) @ [row]"]) simp
qed

text \<open>C13: Acknowledging a run of a stop-on-ack event ends its chain: afterwards the run's row carries
  the time that was answered and no longer continues the chain, and no later occurrence of
  the same match and event is pending.\<close>

theorem Ack_ends_chain:
  assumes "run_state (Ack c request) w = (Inr response, w')" and "eraq_user_id request \<noteq> []"
    and "take_first (\<lambda>r. er_id r = eraq_id request \<and> er_user_id r = eraq_user_id request) (runs_of (wdb w)) = Some run"
    and "take_first (\<lambda>e. we_id e = er_watcher_event_id run) (events_of (wdb w)) = Some ev" and "we_stop_on_ack ev"
  shows "(\<exists>row \<in> set (runs_of (wdb w')). er_id row = eraq_id request
        \<and> er_acknowledged_at row = Some (arp_acknowledged_at response) \<and> \<not> chain_continues row ev)
    \<and> (\<forall>r \<in> set (runs_of (wdb w')). \<not> pending_after (er_matched_email_id run) (er_watcher_event_id run) (er_occurrence run + 1) r)"
proof -
  obtain y n where rows: "runs_of (wdb w') = update_where (pending_after (er_matched_email_id run) (er_watcher_event_id run) (er_occurrence run + 1))
        (\<lambda>r. r\<lparr>er_status := RunStatusCancelled, er_updated_at := n\<rparr>) (put_run y (runs_of (wdb w)))"
    and y: "er_id y = er_id run" "run_slot y = run_slot run" "er_acknowledged_at y = Some (arp_acknowledged_at response)"
    using Ack_steps [OF assms] by fastforce
  have "y \<in> set (put_run y (runs_of (wdb w)))"
    using take_first_Some [OF assms(3)] y by (auto simp: put_run_def set_update_where)
  moreover have "\<not> pending_after (er_matched_email_id run) (er_watcher_event_id run) (er_occurrence run + 1) y"
    using y by (auto simp: pending_after_def run_slot_def)
  ultimately have "y \<in> set (runs_of (wdb w'))" by (force simp: rows set_update_where)
  moreover have "er_id y = eraq_id request" using take_first_Some [OF assms(3)] y by simp
  moreover have "\<not> chain_continues y ev" using y assms(5) by (simp add: chain_continues_def)
  ultimately show ?thesis using y none_pending_after unfolding rows by blast
qed

lemma sample_ack: "\<exists>response w'. run_state (Ack None ann_acts) sample_world = (Inr response, w')"
  by (simp add: Ack_def findRun_def ann_acts_def Repo_FindByIdAndUser_def Repo_FindById_def Repo_Update_def
        take_row_def save_row_def runs_table_def events_table_def unique_on_def CancelPendingAfter_def
        Repo_UpdateWhere_def record_and_commit_def Record_def tx_commit_def Repo_Create_def insert_row_def
        audit_table_def audit_row_def attribute_def entry_def opt_ref_def sample_defs)

theorem Ack_ends_chain_witness:
  "\<exists>response w'. run_state (Ack None ann_acts) sample_world = (Inr response, w')
    \<and> (\<forall>r \<in> set (runs_of (wdb w')). \<not> pending_after ''m1'' ''ev'' 2 r)"
proof -
  obtain response w' where run: "run_state (Ack None ann_acts) sample_world = (Inr response, w')"
    using sample_ack by blast
  have "(\<forall>r \<in> set (runs_of (wdb w')). \<not> pending_after ''m1'' ''ev'' (1 + 1) r)"
    using Ack_ends_chain [OF run, of run1 remind] by (simp add: ann_acts_def sample_defs)
  with run show ?thesis by auto
qed
lemma record_and_commit_db:
  assumes "run_state (record_and_commit c e) w = (Inr u, w')"
  shows "\<exists>row. wdb w' = (wdb w)\<lparr>audit_logs_of := audit_logs_of (wdb w) @ [row]\<rparr>"
  using record_and_commit_ok [OF assms] by blast

lemma env_audit [pres]: "preserves (same_env v) (record_and_commit c e)"
  unfolding record_and_commit_def Record_def tx_commit_def by (intro pres)

lemma env_activity: "preserves (same_env v) (Cancel c request)" "preserves db_up (Cancel c request)"
  unfolding Cancel_def findRun_def CancelPendingAfter_def Repo_UpdateWhere_def by (intro pres)+

lemma Cancel_db:
  assumes "run_state (Cancel c request) w = (Inr response, w')"
  shows "\<exists>p n rows. wdb w' = (wdb w)\<lparr>runs_of := update_where p
      (\<lambda>r. r\<lparr>er_status := RunStatusCancelled, er_updated_at := n\<rparr>) (runs_of (wdb w)), audit_logs_of := rows\<rparr>"
proof -
  obtain run w1 k w2 u where f: "run_state (findRun (eraq_id request) (eraq_user_id request)) w = (Inr run, w1)"
    and k: "run_state (CancelPendingAfter (er_matched_email_id run) (er_watcher_event_id run) (er_occurrence run)) w1 = (Inr k, w2)"
    and r: "run_state (record_and_commit c (entry (eraq_user_id request) ''event_run.cancelled'' ''event_runs'' (er_id run))) w2 = (Inr u, w')"
    using assms unfolding Cancel_def by (elim okE) (rule that; (assumption | simp))
  have "wdb w1 = wdb w"
    using f unfolding findRun_def
    by (auto elim!: mapErr_okE dest: FindByIdAndUser_row FindById_row simp del: run_mapErr split: if_splits)
  with CancelPendingAfter_ok [OF k] record_and_commit_db [OF r] show ?thesis by fastforce
qed

text \<open>A worker executes the struct it claimed.  What it needs of the database is not changed by an
  operation that only marks rows of runs: they keep their identifiers and slots.\<close>

lemma held_run_stays:
  assumes rows: "\<And>x. x \<in> set rs \<Longrightarrow> \<exists>y \<in> set (runs_of (wdb w)). er_id y = er_id x \<and> run_slot y = run_slot x"
    and there: "er_id run \<in> er_id ` set rs"
    and db: "wdb w' = (wdb w)\<lparr>runs_of := rs, audit_logs_of := ls\<rparr>" and env: "same_env w w'"
    and held: "run_ready run (wdb w)" "find_input D (wdb w) run = Inr hi" "next_free run w"
  shows "run_ready run (wdb w') \<and> find_input D (wdb w') run = Inr hi \<and> next_free run w'"
proof (intro conjI)
  have "unique_on er_id run_slot run rs"
    unfolding unique_on_def list_all_iff
  proof
    fix x assume "x \<in> set rs"
    then obtain y where y: "y \<in> set (runs_of (wdb w))" "er_id y = er_id x" "run_slot y = run_slot x" using rows by blast
    with held(1) have "er_id y = er_id run \<or> run_slot y \<noteq> run_slot run"
      by (auto simp: run_ready_def runs_table_def unique_on_def list_all_iff)
    with y show "er_id x = er_id run \<or> run_slot x \<noteq> run_slot run" by simp
  qed
  moreover have "has_id er_id (er_id run) rs" using there by (auto simp: list_ex_iff)
  ultimately show "run_ready run (wdb w')" using held(1) unfolding run_ready_def runs_table_def by (simp add: db)
  show "find_input D (wdb w') run = Inr hi"
    using held(2) unfolding find_input_def notifiers_for_def by (simp add: db cong: sum.case_cong)
  show "next_free run w'"
    unfolding next_free_def
  proof
    fix r assume "r \<in> set (runs_of (wdb w'))"
    then obtain y where "y \<in> set (runs_of (wdb w))" "er_id y = er_id r" "run_slot y = run_slot r"
      using rows by (auto simp: db)
    with held(3) env show "run_slot r \<noteq> next_slot run \<and> (\<forall>n \<ge> uuid_pos w'. er_id r \<noteq> uuids w' n)"
      by (auto simp: next_free_def same_env_def dest!: bspec)
  qed
qed

text \<open>So its handler succeeds and its chain goes on, whatever the row says by then.\<close>

lemma held_run_goes_on:
  assumes "db_up w" "run_ready run (wdb w)" "find_input D (wdb w) run = Inr (h, inp)" "next_free run w"
    and "snd (hd_execute h inp) = None" "chain_continues run (in_event inp)" "we_repeat_until (in_event inp) = None"
  shows "\<exists>f \<in> set (runs_of (wdb (snd (run_state (execute D run) w)))). er_status f = RunStatusPending \<and> run_slot f = next_slot run"
proof -
  obtain row f where "runs_of (wdb (snd (run_state (execute D run) w))) = put_run row (runs_of (wdb w)) @ [f]"
      and "next_of run (in_event inp) f"
    using execute_adds [OF assms(1-3,5-7,4)] by blast
  then show ?thesis by (auto simp: next_of_def run_slot_def next_slot_def)
qed

text \<open>C19: Cancelling a run that a worker is executing does not stop its chain: the worker holds the
  struct it claimed, so when its handler succeeds after the cancel, the next occurrence is
  scheduled all the same, although the caller was told that the chain was cancelled.\<close>

theorem cancel_misses_running:
  assumes cancel: "run_state (Cancel c request) w = (Inr response, w')"
    and up: "db_up w" and ready: "run_ready run (wdb w)" and inp: "find_input D (wdb w) run = Inr (h, inp)"
    and works: "snd (hd_execute h inp) = None" "chain_continues run (in_event inp)"
      "we_repeat_until (in_event inp) = None" "next_free run w"
  shows "\<exists>f \<in> set (runs_of (wdb (snd (run_state (execute D run) w')))).
    er_status f = RunStatusPending \<and> run_slot f = next_slot run"
proof -
  obtain p n rows where db: "wdb w' = (wdb w)\<lparr>runs_of := update_where p
      (\<lambda>r. r\<lparr>er_status := RunStatusCancelled, er_updated_at := n\<rparr>) (runs_of (wdb w)), audit_logs_of := rows\<rparr>"
    using Cancel_db [OF cancel] by blast
  let ?rs = "update_where p (\<lambda>r. r\<lparr>er_status := RunStatusCancelled, er_updated_at := n\<rparr>) (runs_of (wdb w))"
  have same: "\<exists>y \<in> set (runs_of (wdb w)). er_id y = er_id x \<and> run_slot y = run_slot x" if "x \<in> set ?rs" for x
    using that by (auto simp: set_update_where run_slot_def)
  have "er_id ` set ?rs = er_id ` set (runs_of (wdb w))"
    unfolding set_map [symmetric] by (simp add: map_update_where)
  moreover have "er_id run \<in> er_id ` set (runs_of (wdb w))"
    using ready unfolding run_ready_def list_ex_iff by (metis imageI)
  ultimately have there: "er_id run \<in> er_id ` set ?rs" by simp
  have env: "same_env w w'" "db_up w'"
    using preserves_run [OF env_activity(1) _ cancel] preserves_run [OF env_activity(2) up cancel]
    by (simp_all add: same_env_def)
  show ?thesis
    using held_run_goes_on [of w' run D h inp] held_run_stays [OF same there db env(1) ready inp works(4)] works env(2) by simp
qed

theorem cancel_misses_running_witness:
  "\<exists>response w'. run_state (Cancel None ann_acts) sample_world = (Inr response, w')
    \<and> (\<exists>f \<in> set (runs_of (wdb (snd (run_state (execute (sample_dispatcher quiet_handler) run1) w')))).
          er_status f = RunStatusPending \<and> er_occurrence f = 2)"
proof -
  obtain response w' where run: "run_state (Cancel None ann_acts) sample_world = (Inr response, w')"
    using sample_cancel by blast
  have inp: "find_input (sample_dispatcher quiet_handler) (wdb sample_world) run1 = Inr (quiet_handler, sample_input)"
    by (rule sample_find_input)
  have "next_free run1 sample_world"
    by (simp add: next_free_def next_slot_def run_slot_def run1_uuid sample_defs)
  from cancel_misses_running [OF run _ _ inp _ _ _ this]
  have "\<exists>f \<in> set (runs_of (wdb (snd (run_state (execute (sample_dispatcher quiet_handler) run1) w')))).
      er_status f = RunStatusPending \<and> run_slot f = next_slot run1"
    using ready_sample
    by (simp add: sample_input_def quiet_handler_def chain_continues_def interval_of_def sample_defs)
  with run show ?thesis by (auto simp: run_slot_def next_slot_def run1_def)
qed

lemma execute_row:
  assumes "db_up w" and "run_ready run (wdb w)"
  shows "\<exists>row. find_run (er_id run) (snd (run_state (execute D run) w)) = Some row
    \<and> er_acknowledged_at row = er_acknowledged_at run"
proof -
  note res = execute_result_rows [OF execute_runs [OF assms, of D]]
  obtain row fs where rows: "runs_of (wdb (snd (run_state (execute D run) w))) = put_run row (runs_of (wdb w)) @ fs"
    and row: "er_id row = er_id run" "er_acknowledged_at row = er_acknowledged_at run"
    using res by (elim exE conjE)
  have "find_run (er_id run) (snd (run_state (execute D run) w)) = Some row"
    using find_run_put_run [of row "runs_of (wdb w)" fs] assms(2) row(1) rows by (simp add: find_run_def run_ready_def)
  with row show ?thesis by blast
qed

text \<open>An acknowledgement keeps the identifiers and slots of the rows.\<close>

lemma env_ack: "preserves (same_env v) (Ack c request)" "preserves db_up (Ack c request)"
  unfolding Ack_def findRun_def CancelPendingAfter_def Repo_UpdateWhere_def by (intro pres)+

lemma find_input_event:
  "find_input D d run = Inr (h, inp) \<Longrightarrow> take_first (\<lambda>e. we_id e = er_watcher_event_id run) (events_of d) = Some (in_event inp)"
  by (auto simp: find_input_def take_row_def split: sum.splits option.splits)

lemma take_first_update_where:
  "(\<And>x. key (f x) = key x) \<Longrightarrow>
   take_first (\<lambda>x. key x = i) (update_where p f xs) =
     map_option (\<lambda>x. if p x then f x else x) (take_first (\<lambda>x. key x = i) xs)"
  by (induction xs) auto

lemma acked_rows:
  assumes y: "er_id y = er_id run" "run_slot y = run_slot run" and run: "run \<in> set rs"
    and rs': "rs' = update_where (pending_after m e (er_occurrence run + 1))
        (\<lambda>r. r\<lparr>er_status := RunStatusCancelled, er_updated_at := n\<rparr>) (put_run y rs)"
  shows "(\<forall>x \<in> set rs'. \<exists>z \<in> set rs. er_id z = er_id x \<and> run_slot z = run_slot x)
    \<and> er_id run \<in> er_id ` set rs' \<and> take_first (\<lambda>r. er_id r = er_id run) rs' = Some y"
proof -
  have put: "\<exists>z \<in> set rs. er_id z = er_id x \<and> run_slot z = run_slot x" if "x \<in> set (put_run y rs)" for x
    using that y run by (auto simp: put_run_def set_update_where)
  have "take_first (\<lambda>r. er_id r = er_id run) (put_run y rs) = Some y"
    using find_run_put_run [of y rs "[]"] y(1) run by (force simp: list_ex_iff)
  moreover have "\<not> pending_after m e (er_occurrence run + 1) y"
    using y(2) by (simp add: pending_after_def run_slot_def)
  ultimately have first: "take_first (\<lambda>r. er_id r = er_id run) rs' = Some y"
    by (simp add: rs' take_first_update_where)
  have "y \<in> set rs'" using take_first_Some [OF first] by blast
  with y(1) have "er_id run \<in> er_id ` set rs'" by (metis imageI)
  moreover have "\<forall>x \<in> set rs'. \<exists>z \<in> set rs. er_id z = er_id x \<and> run_slot z = run_slot x"
    using put by (auto simp: rs' set_update_where run_slot_def)
  ultimately show ?thesis using first by blast
qed

text \<open>C20: An acknowledgement that arrives while the run is being executed is lost.  The caller is told the
  time of the acknowledgement, and the row of the run carries it and would end the chain of its
  stop-on-ack event; but the worker then saves the struct it claimed, in which the run is not
  acknowledged, so afterwards the row says so again, and the next occurrence is scheduled all
  the same.\<close>

theorem ack_lost_while_running:
  assumes ack: "run_state (Ack c request) w = (Inr response, w')" and user: "eraq_user_id request \<noteq> []"
    and row: "take_first (\<lambda>r. er_id r = eraq_id request \<and> er_user_id r = eraq_user_id request) (runs_of (wdb w)) = Some row"
    and held: "er_id run = er_id row" "run_slot run = run_slot row" "er_acknowledged_at run = None"
    and up: "db_up w" and ready: "run_ready run (wdb w)" and inp: "find_input D (wdb w) run = Inr (h, inp)"
    and works: "snd (hd_execute h inp) = None" "chain_continues run (in_event inp)" "we_stop_on_ack (in_event inp)"
      "we_repeat_until (in_event inp) = None" "next_free run w"
  shows "(\<exists>y. find_run (eraq_id request) w' = Some y \<and> er_acknowledged_at y = Some (arp_acknowledged_at response)
        \<and> \<not> chain_continues y (in_event inp))
    \<and> (\<exists>y. find_run (eraq_id request) (snd (run_state (execute D run) w')) = Some y \<and> er_acknowledged_at y = None)
    \<and> (\<exists>f \<in> set (runs_of (wdb (snd (run_state (execute D run) w')))).
          er_status f = RunStatusPending \<and> run_slot f = next_slot run)"
proof -
  have there: "row \<in> set (runs_of (wdb w))" and id: "er_id row = eraq_id request" using take_first_Some [OF row] by auto
  have "er_watcher_event_id row = er_watcher_event_id run" using held(2) by (simp add: run_slot_def)
  with find_input_event [OF inp] have ev: "take_first (\<lambda>e. we_id e = er_watcher_event_id row) (events_of (wdb w)) = Some (in_event inp)"
    by simp
  obtain y n logs where db: "wdb w' = (wdb w)\<lparr>runs_of := update_where
        (pending_after (er_matched_email_id row) (er_watcher_event_id row) (er_occurrence row + 1))
        (\<lambda>r. r\<lparr>er_status := RunStatusCancelled, er_updated_at := n\<rparr>) (put_run y (runs_of (wdb w))), audit_logs_of := logs\<rparr>"
    and y: "er_id y = er_id row" "run_slot y = run_slot row" "er_acknowledged_at y = Some (arp_acknowledged_at response)"
    using Ack_steps [OF ack user row ev works(3)] by blast
  note rows = acked_rows [OF y(1,2) there refl, of "er_matched_email_id row" "er_watcher_event_id row" n]
  have env: "same_env w w'" "db_up w'"
    using preserves_run [OF env_ack(1) _ ack] preserves_run [OF env_ack(2) up ack] by (simp_all add: same_env_def)
  have stays: "run_ready run (wdb w')" "find_input D (wdb w') run = Inr (h, inp)" "next_free run w'"
    using held_run_stays [OF _ _ db env(1) ready inp works(5)] rows held(1) by auto
  have "find_run (eraq_id request) w' = Some y" using rows by (simp add: find_run_def db id)
  moreover have "\<not> chain_continues y (in_event inp)" using y(3) works(3) by (simp add: chain_continues_def)
  moreover note execute_row [OF env(2) stays(1), of D] held_run_goes_on [OF env(2) stays works(1,2,4)]
  ultimately show ?thesis using y(3) held(1,3) id by auto
qed

text \<open>The sample run, acknowledged while a worker holds it: the answer, and what the row says in the end\<close>

theorem ack_lost_while_running_witness:
  "\<exists>response w' row y. run_state (Ack None ann_acts) sample_world = (Inr response, w')
    \<and> find_run ''r1'' w' = Some row \<and> er_acknowledged_at row = Some (arp_acknowledged_at response)
    \<and> find_run ''r1'' (snd (run_state (execute (sample_dispatcher quiet_handler) run1) w')) = Some y
    \<and> er_acknowledged_at y = None
    \<and> (\<exists>f \<in> set (runs_of (wdb (snd (run_state (execute (sample_dispatcher quiet_handler) run1) w')))).
          er_status f = RunStatusPending \<and> er_occurrence f = 2)"
proof -
  obtain response w' where run: "run_state (Ack None ann_acts) sample_world = (Inr response, w')"
    using sample_ack by blast
  have inp: "find_input (sample_dispatcher quiet_handler) (wdb sample_world) run1 = Inr (quiet_handler, sample_input)"
    by (rule sample_find_input)
  have free: "next_free run1 sample_world"
    by (simp add: next_free_def next_slot_def run_slot_def run1_uuid sample_defs)
  have row: "take_first (\<lambda>r. er_id r = eraq_id ann_acts \<and> er_user_id r = eraq_user_id ann_acts) (runs_of (wdb sample_world)) = Some run1"
    by (simp add: ann_acts_def sample_defs)
  have "er_acknowledged_at run1 = None" "eraq_id ann_acts = ''r1''" "eraq_user_id ann_acts \<noteq> []"
    by (simp_all add: run1_def ann_acts_def)
  with ack_lost_while_running [OF run _ row refl refl _ _ _ inp _ _ _ _ free] ready_sample run show ?thesis
    by (auto simp: sample_input_def quiet_handler_def chain_continues_def interval_of_def run_slot_def next_slot_def sample_defs)
qed

end
