(* ===== verification/WatcherEvents.thy ===== *)
theory WatcherEvents
  imports Activity
begin

text \<open>
  internal/usecase/watcher_event_usecase.go: what a watcher does when it matches.  The request
  validators are parameters; handlers are those of the dispatcher's registry.  A request
  field that a client may leave out is an option, so a missing \<open>notifier_ids\<close> differs from
  an empty one.
\<close>

record event_uc =
  vu_dispatcher :: dispatcher
  vu_valid_create :: "create_watcher_event_request \<Rightarrow> bool"
  vu_valid_list :: "list_watcher_event_request \<Rightarrow> bool"
  vu_valid_update :: "update_watcher_event_request \<Rightarrow> bool"
  vu_valid_reorder :: "reorder_watcher_event_request \<Rightarrow> bool"
  vu_valid_test :: "test_watcher_event_request \<Rightarrow> bool"

definition ownedWatcher :: "string \<Rightarrow> string \<Rightarrow> watcher ioE" where
  "ownedWatcher watcherID userID =
     not_found ''watcher not found'' (Repo_FindByIdAndUser watchers_table watcherID userID)"

subsection \<open>Creating\<close>

definition first_unverified :: "notifier list \<Rightarrow> notifier option" where
  "first_unverified ns = take_first (\<lambda>n. no_status n \<noteq> NotifierStatusVerified) ns"

definition attachNotifiers :: "string \<Rightarrow> string \<Rightarrow> string list \<Rightarrow> unit ioE" where
  "attachNotifiers eventID userID ids =
     (if ids = [] then failE (HttpErr 400 ''this event type needs at least one notifier'')
      else bindE (internal (FindByIds userID ids)) (\<lambda>found.
        if length found \<noteq> length ids
        then failE (HttpErr 400 ''one or more notifier ids do not exist'')
        else (case first_unverified found of
            Some n \<Rightarrow> failE (HttpErr 422 (''notifier '' @ no_name n @ '' is not verified yet''))
          | None \<Rightarrow> internal (ReplaceNotifiers eventID ids))))"

abbreviation needs_cadence :: err where
  "needs_cadence \<equiv> HttpErr 400 ''a recurring event needs either repeat_interval_seconds or a cron_expression''"

definition handler_validate :: "handler \<Rightarrow> json \<Rightarrow> unit ioE" where
  "handler_validate h config = (case hd_validate h config of None \<Rightarrow> returnE () | Some e \<Rightarrow> failE e)"

definition new_event :: "create_watcher_event_request \<Rightarrow> string \<Rightarrow> string \<Rightarrow> watcher_event" where
  "new_event request runMode i =
     \<lparr>we_id = i, we_watcher_id = cweq_watcher_id request, we_type = cweq_type request,
      we_config = jsonOrDefault (cweq_config request) ''{}'', we_position = cweq_position request,
      we_enabled = (case cweq_enabled request of None \<Rightarrow> True | Some b \<Rightarrow> b), we_run_mode = runMode,
      we_delay_seconds = cweq_delay_seconds request,
      we_repeat_interval_seconds = cweq_repeat_interval_seconds request,
      we_repeat_max = cweq_repeat_max request, we_repeat_until = cweq_repeat_until request,
      we_cron_expression = nilIfEmpty (cweq_cron_expression request),
      we_stop_on_ack = cweq_stop_on_ack request, we_created_at = 0, we_updated_at = 0\<rparr>"

definition createWithin :: "dispatcher \<Rightarrow> create_watcher_event_request \<Rightarrow> watcher_event ioE" where
  "createWithin D request =
     bindE (liftE (Handlers_Get D (cweq_type request))) (\<lambda>handler.
     bindE (handler_validate handler (cweq_config request)) (\<lambda>_.
     let runMode = (if cweq_run_mode request = [] then RunModeImmediate else cweq_run_mode request) in
     if runMode = RunModeRecurring \<and> cweq_repeat_interval_seconds request = None
        \<and> cweq_cron_expression request = []
     then failE needs_cadence
     else State_Monad.bind new_uuid (\<lambda>i.
       bindE (internal (Repo_Create events_table (new_event request runMode i))) (\<lambda>ev.
       bindE (if hd_uses_notifiers handler
              then attachNotifiers (we_id ev) (cweq_user_id request) (cweq_notifier_ids request)
              else returnE ()) (\<lambda>_. returnE ev)))))"

definition load_event :: "watcher_event \<Rightarrow> watcher_event_response io" where
  "load_event ev = do {
     ns \<leftarrow> FindNotifiers (we_id ev);
     ret (EventToResponse ev (case ns of Inl _ \<Rightarrow> [] | Inr xs \<Rightarrow> xs)) }"

definition loaded :: "watcher_event \<Rightarrow> watcher_event_response ioE" where
  "loaded ev = State_Monad.bind (load_event ev) returnE"

definition Event_Create :: "event_uc \<Rightarrow> ctx \<Rightarrow> create_watcher_event_request \<Rightarrow> watcher_event_response ioE" where
  "Event_Create V c request =
     (if \<not> vu_valid_create V request then failE ErrBadRequest
      else bindE (tx_scope (
          bindE (ownedWatcher (cweq_watcher_id request) (cweq_user_id request)) (\<lambda>_.
          bindE (createWithin (vu_dispatcher V) request) (\<lambda>created.
          bindE (record_and_commit c (entry (cweq_user_id request) ''watcher_event.created'' ''watcher_events'' (we_id created)))
            (\<lambda>_. returnE created)))))
        loaded)"

subsection \<open>Reading\<close>

definition Event_List :: "event_uc \<Rightarrow> list_watcher_event_request \<Rightarrow> watcher_event_response list ioE" where
  "Event_List V request =
     (if \<not> vu_valid_list V request then failE ErrBadRequest
      else bindE (ownedWatcher (lweq_watcher_id request) (lweq_user_id request)) (\<lambda>_.
        bindE (internal (Event_FindByWatcher (lweq_watcher_id request))) (\<lambda>events.
        State_Monad.bind (FindNotifiersForEvents (map we_id events)) (\<lambda>ns.
        returnE (EventsToResponses (case ns of Inl _ \<Rightarrow> (\<lambda>_. []) | Inr f \<Rightarrow> f) events)))))"

definition find_event :: "string \<Rightarrow> string \<Rightarrow> watcher_event ioE" where
  "find_event i watcherID = not_found ''event not found'' (FindByIdAndWatcher i watcherID)"

definition Event_Get :: "get_watcher_event_request \<Rightarrow> watcher_event_response ioE" where
  "Event_Get request =
     bindE (ownedWatcher (gweq_watcher_id request) (gweq_user_id request)) (\<lambda>_.
     bindE (find_event (gweq_id request) (gweq_watcher_id request)) loaded)"

subsection \<open>Changing\<close>

definition patch :: "'a option \<Rightarrow> 'a \<Rightarrow> 'a" where
  "patch v old = (case v of None \<Rightarrow> old | Some x \<Rightarrow> x)"

definition patch_ref :: "'a option \<Rightarrow> 'a option \<Rightarrow> 'a option" where
  "patch_ref v old = (case v of None \<Rightarrow> old | Some x \<Rightarrow> Some x)"

definition patched_event :: "update_watcher_event_request \<Rightarrow> watcher_event \<Rightarrow> watcher_event" where
  "patched_event request e = e\<lparr>
     we_config := (if uweq_config request \<noteq> [] then uweq_config request else we_config e),
     we_position := patch (uweq_position request) (we_position e),
     we_enabled := patch (uweq_enabled request) (we_enabled e),
     we_run_mode := (if uweq_run_mode request \<noteq> [] then uweq_run_mode request else we_run_mode e),
     we_delay_seconds := patch (uweq_delay_seconds request) (we_delay_seconds e),
     we_repeat_interval_seconds := patch_ref (uweq_repeat_interval_seconds request) (we_repeat_interval_seconds e),
     we_repeat_max := patch_ref (uweq_repeat_max request) (we_repeat_max e),
     we_repeat_until := patch_ref (uweq_repeat_until request) (we_repeat_until e),
     we_cron_expression := patch (map_option nilIfEmpty (uweq_cron_expression request)) (we_cron_expression e),
     we_stop_on_ack := patch (uweq_stop_on_ack request) (we_stop_on_ack e)\<rparr>"

definition Event_Update :: "event_uc \<Rightarrow> ctx \<Rightarrow> update_watcher_event_request \<Rightarrow> watcher_event_response ioE" where
  "Event_Update V c request =
     (if \<not> vu_valid_update V request then failE ErrBadRequest
      else bindE (tx_scope (
        bindE (ownedWatcher (uweq_watcher_id request) (uweq_user_id request)) (\<lambda>_.
        bindE (find_event (uweq_id request) (uweq_watcher_id request)) (\<lambda>e0.
        bindE (liftE (Handlers_Get (vu_dispatcher V) (we_type e0))) (\<lambda>handler.
        bindE (if uweq_config request \<noteq> [] then handler_validate handler (uweq_config request) else returnE ()) (\<lambda>_.
        let e = patched_event request e0 in
        if we_run_mode e = RunModeRecurring \<and> we_repeat_interval_seconds e = None \<and> we_cron_expression e = None
        then failE needs_cadence
        else bindE (internal (Repo_Update events_table e)) (\<lambda>saved.
          bindE (case uweq_notifier_ids request of
              Some ids \<Rightarrow> if hd_uses_notifiers handler
                then attachNotifiers (we_id saved) (uweq_user_id request) ids else returnE ()
            | None \<Rightarrow> returnE ()) (\<lambda>_.
          bindE (record_and_commit c (entry (uweq_user_id request) ''watcher_event.updated'' ''watcher_events'' (we_id saved)))
            (\<lambda>_. returnE saved)))))))))
        loaded)"

definition Event_Delete :: "ctx \<Rightarrow> get_watcher_event_request \<Rightarrow> bool ioE" where
  "Event_Delete c request = tx_scope
     (bindE (ownedWatcher (gweq_watcher_id request) (gweq_user_id request)) (\<lambda>_.
      bindE (find_event (gweq_id request) (gweq_watcher_id request)) (\<lambda>e.
      bindE (internal (Repo_UpdateWhere runs_table
          (\<lambda>r. er_watcher_event_id r = we_id e \<and> er_status r = RunStatusPending)
          (\<lambda>r. r\<lparr>er_status := RunStatusCancelled\<rparr>))) (\<lambda>_.
      bindE (internal (Repo_Delete events_table e)) (\<lambda>_.
      bindE (record_and_commit c (entry (gweq_user_id request) ''watcher_event.deleted'' ''watcher_events'' (we_id e)))
        (\<lambda>_. returnE True))))))"

definition reorder_step :: "string set \<Rightarrow> nat \<times> string \<Rightarrow> unit ioE" where
  "reorder_step owned = (\<lambda>(position, i).
     if i \<notin> owned then failE (HttpErr 400 (''event '' @ i @ '' does not belong to this watcher''))
     else internal (UpdatePosition i (int position)))"

definition Event_Reorder :: "event_uc \<Rightarrow> reorder_watcher_event_request \<Rightarrow> watcher_event_response list ioE" where
  "Event_Reorder V request =
     (if \<not> vu_valid_reorder V request then failE ErrBadRequest
      else bindE (tx_scope (
        bindE (ownedWatcher (rweq_watcher_id request) (rweq_user_id request)) (\<lambda>_.
        bindE (internal (Event_FindByWatcher (rweq_watcher_id request))) (\<lambda>existing.
        bindE (forE (enumerate 0 (rweq_event_ids request)) (reorder_step (set (map we_id existing)))) (\<lambda>_.
        internal commit)))))
        (\<lambda>_. Event_List V \<lparr>lweq_user_id = rweq_user_id request, lweq_watcher_id = rweq_watcher_id request\<rparr>))"

subsection \<open>Testing an event\<close>

definition testOccurrence :: "string \<Rightarrow> string \<Rightarrow> int io" where
  "testOccurrence matchID eventID = do {
     r \<leftarrow> query (\<lambda>d. Inr (map er_occurrence (filter
        (\<lambda>x. er_matched_email_id x = matchID \<and> er_watcher_event_id x = eventID) (runs_of d))));
     ret (case r of Inl _ \<Rightarrow> 1000
        | Inr [] \<Rightarrow> 1000
        | Inr (o1 # os) \<Rightarrow> (let highest = foldl max o1 os in if highest < 1000 then 1000 else highest + 1)) }"

definition test_run :: "string \<Rightarrow> string \<Rightarrow> matched_email \<Rightarrow> watcher_event \<Rightarrow> int \<Rightarrow> int \<Rightarrow> int \<Rightarrow> event_run" where
  "test_run i user match e occ at started =
     \<lparr>er_id = i, er_user_id = user, er_matched_email_id = me_id match, er_watcher_event_id = we_id e,
      er_occurrence = occ, er_status = RunStatusRunning, er_scheduled_at = at,
      er_started_at = Some started, er_finished_at = None, er_attempt = 0, er_max_attempts = 1,
      er_next_retry_at = None, er_config_snapshot = JSONOrEmpty (we_config e) ''{}'',
      er_result = [], er_error = None, er_acknowledged_at = None, er_created_at = 0, er_updated_at = 0\<rparr>"

definition test_match :: "string \<Rightarrow> string \<Rightarrow> matched_email ioE" where
  "test_match user i =
     (if i \<noteq> [] then not_found ''matched email not found'' (Repo_FindByIdAndUser matches_table i user)
      else State_Monad.bind (Match_FindRecent user 1) (\<lambda>r. case r of
          Inr (m # _) \<Rightarrow> returnE m
        | _ \<Rightarrow> failE (HttpErr 422 ''there is no matched email to test against yet: sync the mailbox first, or pass matched_email_id'')))"

definition Event_Test :: "event_uc \<Rightarrow> test_watcher_event_request \<Rightarrow> event_run_response ioE" where
  "Event_Test V request =
     (if \<not> vu_valid_test V request then failE ErrBadRequest
      else bindE (ownedWatcher (tweq_watcher_id request) (tweq_user_id request)) (\<lambda>_.
       bindE (find_event (tweq_id request) (tweq_watcher_id request)) (\<lambda>e.
       bindE (test_match (tweq_user_id request) (tweq_matched_email_id request)) (\<lambda>match.
       State_Monad.bind new_uuid (\<lambda>i.
       State_Monad.bind (testOccurrence (me_id match) (we_id e)) (\<lambda>occ.
       State_Monad.bind now_milli (\<lambda>at.
       State_Monad.bind now_milli (\<lambda>started.
       bindE (internal (Repo_Create runs_table (test_run i (tweq_user_id request) match e occ at started))) (\<lambda>run.
       State_Monad.bind (execute (vu_dispatcher V) run) (\<lambda>_.
       bindE (internal (Repo_FindById runs_table (er_id run))) (\<lambda>reloaded.
       State_Monad.bind (Delivery_FindByRun (er_id reloaded)) (\<lambda>ds.
       returnE ((EventRunToResponse reloaded (case ds of Inl _ \<Rightarrow> [] | Inr xs \<Rightarrow> xs))\<lparr>erp_event_type := we_type e\<rparr>)))))))))))))"

subsection \<open>Properties\<close>

lemma ReplaceNotifiers_ok:
  assumes "run_state (ReplaceNotifiers e ids) w = (Inr u, w')"
  shows "wdb w' = (wdb w)\<lparr>event_notifiers_of :=
      filter (\<lambda>l. wen_watcher_event_id l \<noteq> e) (event_notifiers_of (wdb w)) @ event_links e ids\<rparr>"
  using assms
  by (auto simp: ReplaceNotifiers_def exec_def run_stmt insert_event_links_def event_links_def enumerate_eq_zip
      split: option.splits if_splits)

text \<open>C21: No event is wired to a channel that cannot deliver or is not the owner's: attaching succeeds
  only for a non-empty list of distinct identifiers of verified notifiers of the caller, and
  then the event has exactly these, in this order; other events keep theirs.\<close>

theorem attachNotifiers_sound:
  assumes "run_state (attachNotifiers e user ids) w = (Inr u, w')"
    and "distinct (map no_id (notifiers_of (wdb w)))"
  shows "ids \<noteq> [] \<and> distinct ids
    \<and> list_all (\<lambda>i. list_ex (\<lambda>n. no_id n = i \<and> no_user_id n = user \<and> no_status n = NotifierStatusVerified)
        (notifiers_of (wdb w))) ids
    \<and> wdb w' = (wdb w)\<lparr>event_notifiers_of :=
        filter (\<lambda>l. wen_watcher_event_id l \<noteq> e) (event_notifiers_of (wdb w)) @ event_links e ids\<rparr>"
proof -
  let ?mine = "filter (\<lambda>n. no_user_id n = user \<and> no_id n \<in> set ids) (notifiers_of (wdb w))"
  have ne: "ids \<noteq> []" using assms(1) by (auto simp: attachNotifiers_def)
  obtain found w1 where f: "run_state (FindByIds user ids) w = (Inr found, w1)"
    and len: "length found = length ids"
    and rest: "run_state (case first_unverified found of
            Some n \<Rightarrow> failE (HttpErr 422 (''notifier '' @ no_name n @ '' is not verified yet''))
          | None \<Rightarrow> internal (ReplaceNotifiers e ids)) w1 = (Inr u, w')"
    using assms(1) unfolding attachNotifiers_def if_not_P [OF ne] by (elim okE) (rule that; simp)
  have found: "found = ?mine" "wdb w1 = wdb w"
    using query_ok [OF f [unfolded FindByIds_def if_not_P [OF ne]]] by simp_all
  from rest have "first_unverified found = None" by (auto split: option.splits)
  with rest have rep: "run_state (ReplaceNotifiers e ids) w1 = (Inr u, w')"
    by (auto elim: okE simp del: run_mapErr)
  have ver: "\<forall>n \<in> set found. no_status n = NotifierStatusVerified"
    using \<open>first_unverified found = None\<close> by (simp add: first_unverified_def take_first_None)
  have "distinct (map no_id ?mine)" using assms(2) by (simp add: distinct_map_filter)
  then have ids: "distinct ids" "set (map no_id found) = set ids"
    using distinct_by_count [of no_id found ids] len found by auto
  have "\<forall>i \<in> set ids. \<exists>n \<in> set found. no_id n = i" using ids(2) by (metis imageE list.set_map)
  then have "list_all (\<lambda>i. list_ex (\<lambda>n. no_id n = i \<and> no_user_id n = user \<and> no_status n = NotifierStatusVerified)
        (notifiers_of (wdb w))) ids"
    using ver found(1) by (fastforce simp: list_all_iff list_ex_iff)
  with ne ids ReplaceNotifiers_ok [OF rep] found(2) show ?thesis by simp
qed

theorem attachNotifiers_sound_witness:
  "\<exists>w'. run_state (attachNotifiers ''ev'' ''ann'' [''n1'']) sample_world = (Inr (), w')
    \<and> map wen_notifier_id (event_notifiers_of (wdb w')) = [''n1'']"
proof -
  obtain w' where run: "run_state (attachNotifiers ''ev'' ''ann'' [''n1'']) sample_world = (Inr (), w')"
    by (simp add: attachNotifiers_def FindByIds_def first_unverified_def ReplaceNotifiers_def
        insert_event_links_def event_links_def enumerate_eq_zip sample_defs)
  from attachNotifiers_sound [OF run] have "wdb w' = sample_db\<lparr>event_notifiers_of := event_links ''ev'' [''n1'']\<rparr>"
    by (simp add: sample_defs)
  with run show ?thesis by (simp add: event_links_def enumerate_eq_zip)
qed

lemma ownedWatcher_ok:
  assumes "run_state (ownedWatcher i user) w = (Inr x, w')"
  shows "x \<in> set (watchers_of (wdb w)) \<and> wa_id x = i \<and> wa_user_id x = user \<and> wdb w' = wdb w"
  using FindByIdAndUser_row [of watchers_table i user w x w'] assms unfolding ownedWatcher_def
  by (auto elim!: mapErr_okE simp: watchers_table_def simp del: run_mapErr)

lemma find_event_ok:
  assumes "run_state (find_event i watcher) w = (Inr e, w')"
  shows "e \<in> set (events_of (wdb w)) \<and> we_id e = i \<and> we_watcher_id e = watcher \<and> wdb w' = wdb w"
proof -
  have "run_state (FindByIdAndWatcher i watcher) w = (Inr e, w')"
    using assms unfolding find_event_def by (rule mapErr_okE)
  from query_ok [OF this [unfolded FindByIdAndWatcher_def]] show ?thesis
    by (auto simp: take_row_def split: option.splits dest!: take_first_Some)
qed

text \<open>C22: Deleting an event leaves nothing behind that could still fire: the event was the caller's,
  and afterwards it, its runs in whatever status, their deliveries and its notifier links
  are gone, while the events, runs and links of every other event are exactly as before.\<close>

theorem Event_Delete_exact:
  assumes "run_state (Event_Delete c request) w = (Inr b, w')"
  shows "b \<and> list_ex (\<lambda>x. wa_id x = gweq_watcher_id request \<and> wa_user_id x = gweq_user_id request) (watchers_of (wdb w))
    \<and> events_of (wdb w') = filter (\<lambda>e. we_id e \<noteq> gweq_id request) (events_of (wdb w))
    \<and> runs_of (wdb w') = filter (\<lambda>r. er_watcher_event_id r \<noteq> gweq_id request) (runs_of (wdb w))
    \<and> event_notifiers_of (wdb w') = filter (\<lambda>l. wen_watcher_event_id l \<noteq> gweq_id request) (event_notifiers_of (wdb w))
    \<and> list_all (\<lambda>n. \<not> list_ex (\<lambda>r. er_id r = nd_event_run_id n \<and> er_watcher_event_id r = gweq_id request) (runs_of (wdb w)))
        (deliveries_of (wdb w'))"
proof -
  let ?i = "gweq_id request"
  let ?p = "\<lambda>e r. er_watcher_event_id r = we_id e \<and> er_status r = RunStatusPending"
  obtain x w1 e w2 k w3 u w4 v where o: "run_state (ownedWatcher (gweq_watcher_id request) (gweq_user_id request)) w = (Inr x, w1)"
    and f: "run_state (find_event ?i (gweq_watcher_id request)) w1 = (Inr e, w2)"
    and k: "run_state (Repo_UpdateWhere runs_table (?p e) (\<lambda>r. r\<lparr>er_status := RunStatusCancelled\<rparr>)) w2 = (Inr k, w3)"
    and d: "run_state (Repo_Delete events_table e) w3 = (Inr u, w4)"
    and r: "run_state (record_and_commit c (entry (gweq_user_id request) ''watcher_event.deleted'' ''watcher_events'' (we_id e))) w4 = (Inr v, w')"
    and b: "b"
    using assms unfolding Event_Delete_def by (elim okE) (rule that; (assumption | simp))
  note own = ownedWatcher_ok [OF o] and ev = find_event_ok [OF f]
  obtain n where w3: "wdb w3 = (wdb w)\<lparr>runs_of := update_where (?p e)
      (\<lambda>r. r\<lparr>er_status := RunStatusCancelled, er_updated_at := n\<rparr>) (runs_of (wdb w))\<rparr>"
    using Repo_UpdateWhere_ok [OF k] own ev by (auto simp: runs_table_def)
  have w4: "wdb w4 = remove_events (\<lambda>e. we_id e = ?i) (wdb w3)"
    using Repo_Delete_ok [OF d] ev by (simp add: events_table_def)
  obtain row where w': "wdb w' = (wdb w4)\<lparr>audit_logs_of := audit_logs_of (wdb w4) @ [row]\<rparr>"
    using record_and_commit_ok [OF r] by blast
  have gone: "set (map we_id (filter (\<lambda>e. we_id e = ?i) (events_of (wdb w)))) = {?i}"
    using own ev by (auto simp: image_iff)
  have runs: "filter (\<lambda>r. er_watcher_event_id r \<noteq> ?i) (update_where (?p e)
      (\<lambda>r. r\<lparr>er_status := RunStatusCancelled, er_updated_at := n\<rparr>) rs) =
      filter (\<lambda>r. er_watcher_event_id r \<noteq> ?i) rs" for rs
    using ev by (induction rs) auto
  have d4: "runs_of (wdb w') = filter (\<lambda>r. er_watcher_event_id r \<noteq> ?i) (runs_of (wdb w))"
    "events_of (wdb w') = filter (\<lambda>e. we_id e \<noteq> ?i) (events_of (wdb w))"
    "event_notifiers_of (wdb w') = filter (\<lambda>l. wen_watcher_event_id l \<noteq> ?i) (event_notifiers_of (wdb w))"
    using gone runs by (simp_all add: w' w4 w3 remove_events_def remove_runs_def Let_def)
  have ids: "map er_id (filter (\<lambda>r. er_watcher_event_id r = ?i) (update_where (?p e)
      (\<lambda>r. r\<lparr>er_status := RunStatusCancelled, er_updated_at := n\<rparr>) rs)) =
      map er_id (filter (\<lambda>r. er_watcher_event_id r = ?i) rs)" for rs
    by (induction rs) auto
  have dl: "deliveries_of (wdb w') = filter (\<lambda>n. nd_event_run_id n
      \<notin> set (map er_id (filter (\<lambda>r. er_watcher_event_id r = ?i) (runs_of (wdb w))))) (deliveries_of (wdb w))"
    using gone arg_cong [OF ids [of "runs_of (wdb w)"], of set]
    by (simp add: w' w4 w3 remove_events_def remove_runs_def Let_def)
  have "list_all (\<lambda>n. \<not> list_ex (\<lambda>r. er_id r = nd_event_run_id n \<and> er_watcher_event_id r = ?i) (runs_of (wdb w)))
        (deliveries_of (wdb w'))"
    unfolding dl by (auto simp: list_all_iff list_ex_iff image_iff)
  moreover have "list_ex (\<lambda>x. wa_id x = gweq_watcher_id request \<and> wa_user_id x = gweq_user_id request) (watchers_of (wdb w))"
    using own by (auto simp: list_ex_iff)
  ultimately show ?thesis using b d4 by blast
qed

definition drop_event :: get_watcher_event_request where
  "drop_event = \<lparr>gweq_user_id = ''ann'', gweq_watcher_id = ''inv'', gweq_id = ''ev''\<rparr>"

theorem Event_Delete_exact_witness:
  "\<exists>w'. run_state (Event_Delete None drop_event) sample_world = (Inr True, w') \<and> runs_of (wdb w') = []"
proof -
  obtain b w' where run: "run_state (Event_Delete None drop_event) sample_world = (Inr b, w')"
    by (simp add: Event_Delete_def ownedWatcher_def find_event_def drop_event_def Repo_FindByIdAndUser_def
        FindByIdAndWatcher_def take_row_def watchers_table_def runs_table_def events_table_def Repo_UpdateWhere_def
        Repo_Delete_def remove_events_def remove_runs_def record_and_commit_def Record_def tx_commit_def
        Repo_Create_def insert_row_def audit_table_def audit_row_def attribute_def entry_def opt_ref_def sample_defs)
  from Event_Delete_exact [OF run] show ?thesis using run
    by (auto simp: drop_event_def sample_defs)
qed

lemma testOccurrence_ok:
  assumes "db_up w" and "run_state (testOccurrence m e) w = (occ, w')"
  shows "wdb w' = wdb w \<and> 1000 \<le> occ
    \<and> (\<forall>r \<in> set (runs_of (wdb w)). er_matched_email_id r = m \<and> er_watcher_event_id r = e \<longrightarrow> er_occurrence r \<le> occ)"
proof -
  let ?os = "map er_occurrence (filter (\<lambda>x. er_matched_email_id x = m \<and> er_watcher_event_id x = e) (runs_of (wdb w)))"
  have occ: "occ = (case ?os of [] \<Rightarrow> 1000 | o1 # os \<Rightarrow> let h = foldl max o1 os in if h < 1000 then 1000 else h + 1)"
    and db: "wdb w' = wdb w"
    using assms by (auto simp: testOccurrence_def)
  have "\<forall>o1 \<in> set ?os. o1 \<le> occ"
  proof (cases ?os)
    case (Cons o1 os)
    with foldl_max_ge [of o1 os] show ?thesis unfolding occ by (auto simp: Let_def)
  qed simp
  moreover have "1000 \<le> occ" unfolding occ by (simp add: Let_def split: list.splits)
  ultimately show ?thesis using db by auto
qed

lemma test_match_ok:
  assumes "run_state (test_match user i) w = (Inr m, w')"
  shows "m \<in> set (matches_of (wdb w)) \<and> wdb w' = wdb w"
proof (cases "i = []")
  case True
  then obtain ms w1 where r: "run_state (Match_FindRecent user 1) w = (Inr ms, w1)" and "m \<in> set ms" "w' = w1"
    using assms by (auto simp: test_match_def split: prod.splits sum.splits list.splits)
  moreover have "set ms \<subseteq> set (matches_of (wdb w))" "wdb w1 = wdb w"
    using query_ok [OF r [unfolded Match_FindRecent_def]] set_order_limit
    by (fastforce simp del: set_filter simp: subset_iff dest: filter_is_subset [THEN subsetD])+
  ultimately show ?thesis by auto
next
  case False
  then have "run_state (Repo_FindByIdAndUser matches_table i user) w = (Inr m, w')"
    using assms unfolding test_match_def by (auto elim!: okE simp del: run_mapErr)
  from FindByIdAndUser_row [OF this] show ?thesis by (simp add: matches_table_def)
qed

lemma env_event_steps [pres]:
  "preserves (same_env v) (ownedWatcher i u)" "preserves (same_env v) (find_event i u)"
  "preserves (same_env v) (test_match u i)" "preserves (same_env v) (testOccurrence i j)"
  "preserves db_up (ownedWatcher i u)" "preserves db_up (find_event i u)"
  "preserves db_up (test_match u i)" "preserves db_up (testOccurrence i j)"
  unfolding ownedWatcher_def find_event_def test_match_def testOccurrence_def FindByIdAndWatcher_def Match_FindRecent_def
  by (intro pres)+

lemma test_leaves_next_free:
  assumes rows: "runs_of (wdb w') = rs @ [tr]"
    and id: "er_id tr = uuids w' k" "\<And>m n. uuids w' m = uuids w' n \<Longrightarrow> m = n"
    and later: "k < uuid_pos w'" "\<And>n r. uuid_pos w' \<le> n \<Longrightarrow> r \<in> set rs \<Longrightarrow> er_id r \<noteq> uuids w' n"
    and old: "\<And>r. r \<in> set rs \<Longrightarrow> run_slot r \<noteq> next_slot tr"
  shows "next_free tr w'"
  unfolding next_free_def
proof
  fix r assume "r \<in> set (runs_of (wdb w'))"
  then consider "r = tr" | "r \<in> set rs" by (auto simp: rows)
  then show "run_slot r \<noteq> next_slot tr \<and> (\<forall>n \<ge> uuid_pos w'. er_id r \<noteq> uuids w' n)"
  proof cases
    case 1
    have "er_id tr \<noteq> uuids w' n" if "uuid_pos w' \<le> n" for n
      using id(2) [of k n] that id(1) later(1) by auto
    with 1 show ?thesis by (auto simp: run_slot_def next_slot_def)
  next
    case 2
    then show ?thesis using old later(2) by auto
  qed
qed

text \<open>C23: A test of an event does more than fire one occurrence: on a recurring event that works and has
  no end, it starts a repeat chain of its own, whose next occurrence (numbered above 1000) is
  left pending after the response.\<close>

theorem Event_Test_starts_chain:
  assumes up: "db_up w" and run: "run_state (Event_Test V request) w = (Inr response, w')"
    and ev: "ev \<in> set (events_of (wdb w))" "we_id ev = tweq_id request" "distinct (map we_id (events_of (wdb w)))"
    and handler: "dp_handlers (vu_dispatcher V) (we_type ev) = Some h" "\<And>inp. snd (hd_execute h inp) = None"
    and endless: "we_run_mode ev = RunModeRecurring" "0 < interval_of ev" "we_repeat_max ev = None" "we_repeat_until ev = None"
    and ids: "\<And>m n. uuids w m = uuids w n \<Longrightarrow> m = n"
      "\<And>n r. uuid_pos w \<le> n \<Longrightarrow> r \<in> set (runs_of (wdb w)) \<Longrightarrow> er_id r \<noteq> uuids w n"
  shows "\<exists>f \<in> set (runs_of (wdb w')). er_status f = RunStatusPending \<and> er_watcher_event_id f = we_id ev
    \<and> 1000 < er_occurrence f"
proof -
  let ?D = "vu_dispatcher V"
  obtain x w1 e w2 match w3 i w4 occ w5 at w6 st w7 tr w8 w9 y w10 ds w11 where
    o: "run_state (ownedWatcher (tweq_watcher_id request) (tweq_user_id request)) w = (Inr x, w1)"
    and f: "run_state (find_event (tweq_id request) (tweq_watcher_id request)) w1 = (Inr e, w2)"
    and m: "run_state (test_match (tweq_user_id request) (tweq_matched_email_id request)) w2 = (Inr match, w3)"
    and i: "run_state new_uuid w3 = (i, w4)"
    and occ: "run_state (testOccurrence (me_id match) (we_id e)) w4 = (occ, w5)"
    and a: "run_state now_milli w5 = (at, w6)" and s: "run_state now_milli w6 = (st, w7)"
    and c: "run_state (Repo_Create runs_table (test_run i (tweq_user_id request) match e occ at st)) w7 = (Inr tr, w8)"
    and x: "run_state (execute ?D tr) w8 = ((), w9)"
    and q: "run_state (Repo_FindById runs_table (er_id tr)) w9 = (Inr y, w10)"
    and d: "run_state (Delivery_FindByRun (er_id y)) w10 = (ds, w11)" and w': "w' = w11"
    using run unfolding Event_Test_def by (elim okE) (rule that; (assumption | simp))
  note xo = ownedWatcher_ok [OF o] and fo = find_event_ok [OF f] and mo = test_match_ok [OF m]
  have e: "e = ev" using take_first_key [OF ev(3), of e] take_first_key [OF ev(3), of ev] ev fo xo by simp
  have l3: "later w w3"
    by (rule later_step [OF m later_step [OF f later_step [OF o]]]) (intro pres | simp add: later_def up)+
  have i_eq: "i = uuids w (uuid_pos w3)" and l4: "later w w4" and pos: "uuid_pos w \<le> uuid_pos w3" "uuid_pos w4 = Suc (uuid_pos w3)"
    and db4: "wdb w4 = wdb w" using i l3 xo fo mo by (auto simp: later_def same_env_def)
  note to = testOccurrence_ok [OF _ occ, unfolded db4]
  have up4: "later w4 w4" using l4 by (simp add: later_def)
  have l7: "later w4 w7"
    by (rule later_step [OF s later_step [OF a later_step [OF occ up4]]]) (intro pres)+
  have db7: "wdb w7 = wdb w" using to l4 a s by (auto simp: later_def)
  let ?t = "test_run i (tweq_user_id request) match e occ at st"
  obtain n where tr: "tr = tb_stamp runs_table n ?t" and ins: "insert_row runs_table tr (wdb w) = (Inr tr, wdb w8)"
    using Repo_Create_ok [OF c] db7 by auto
  have "later w4 w8" by (rule later_step [OF c l7]) (intro pres)+
  with l4 pos have l8: "db_up w8" "uuids w8 = uuids w" "Suc (uuid_pos w3) \<le> uuid_pos w8"
    by (auto simp: later_def same_env_def)
  have trf: "er_id tr = i" "er_occurrence tr = occ" "er_matched_email_id tr = me_id match"
    "er_watcher_event_id tr = we_id ev" "er_acknowledged_at tr = None"
    by (simp_all add: tr runs_table_def test_run_def e)
  have rest: "wdb w8 = (wdb w)\<lparr>runs_of := runs_of (wdb w) @ [tr]\<rparr>" and chk: "tb_check runs_table (wdb w) tr"
    using ins by (auto simp: insert_row_def runs_table_def split: if_splits)
  then have rows: "runs_of (wdb w8) = runs_of (wdb w) @ [tr]" by simp
  have ready: "run_ready tr (wdb w8)"
    using chk by (auto simp: run_ready_def rest runs_table_def unique_on_def)
  obtain mt where mt: "take_first (\<lambda>m. me_id m = me_id match) (matches_of (wdb w)) = Some mt"
    using take_first_has [of match "matches_of (wdb w)" "\<lambda>m. me_id m = me_id match"] mo fo xo by auto
  obtain wt where wt: "take_first (\<lambda>x. wa_id x = we_watcher_id ev) (watchers_of (wdb w)) = Some wt"
    using take_first_has [of x "watchers_of (wdb w)" "\<lambda>y. wa_id y = we_watcher_id ev"] xo fo e by auto
  have et: "take_first (\<lambda>x. we_id x = we_id ev) (events_of (wdb w)) = Some ev"
    by (rule take_first_key [OF ev(3,1)])
  obtain inp where inp: "find_input ?D (wdb w8) tr = Inr (h, inp)" "in_event inp = ev"
    using mt wt et handler(1) by (simp add: find_input_def rest trf take_row_def Handlers_Get_def)
  have "run_slot r \<noteq> next_slot tr" if "r \<in> set (runs_of (wdb w))" for r
    using that to l4 e by (fastforce simp: run_slot_def next_slot_def trf later_def)
  then have free: "next_free tr w8"
    using ids l8 pos i_eq by (intro test_leaves_next_free [OF rows, of "uuid_pos w3"]) (auto simp: trf)
  have cont: "chain_continues tr ev"
    using endless by (simp add: chain_continues_def trf)
  obtain row g where "runs_of (wdb w9) = put_run row (runs_of (wdb w8)) @ [g]" and g: "next_of tr ev g"
    using execute_adds [OF l8(1) ready inp(1) handler(2) _ _ free] l8 cont endless inp(2) x by (auto simp: later_def)
  moreover have "wdb w' = wdb w9"
    using FindById_row [OF q] d w' preserves_run [OF pres_reads(4) _ d, of "\<lambda>d. d = wdb w9"] by (simp add: db_inv_def)
  ultimately show ?thesis using g to l4 by (auto simp: next_of_def trf later_def)
qed

definition try_event :: test_watcher_event_request where
  "try_event = \<lparr>tweq_user_id = ''ann'', tweq_watcher_id = ''inv'', tweq_id = ''ev'', tweq_matched_email_id = ''m1''\<rparr>"

definition sample_event_uc :: event_uc where
  "sample_event_uc = \<lparr>vu_dispatcher = sample_dispatcher quiet_handler, vu_valid_create = (\<lambda>_. True),
     vu_valid_list = (\<lambda>_. True), vu_valid_update = (\<lambda>_. True), vu_valid_reorder = (\<lambda>_. True),
     vu_valid_test = (\<lambda>_. True)\<rparr>"

definition probe :: event_run where
  "probe = tb_stamp runs_table 1002000 (test_run ''u'' ''ann'' mail1 remind 1000 1000000 1001000)"

definition probe_world :: world where
  "probe_world = sample_world\<lparr>wdb := sample_db\<lparr>runs_of := [run1, probe]\<rparr>, ticks := 3, uuid_pos := 1, stmts := 5\<rparr>"

lemma probe_created:
  "run_state (Repo_Create runs_table (test_run ''u'' ''ann'' mail1 remind 1000 1000000 1001000))
     (sample_world\<lparr>uuid_pos := Suc 0, stmts := Suc (Suc (Suc (Suc 0))), ticks := Suc (Suc 0)\<rparr>) = (Inr probe, probe_world)"
  by (simp add: Repo_Create_def insert_row_def runs_table_def unique_on_def run_slot_def test_run_def
      probe_def probe_world_def if_zero_def unix_milli_def sample_defs)

lemma sample_test_run:
  "run_state (Event_Test sample_event_uc try_event) sample_world =
   run_state (State_Monad.bind (execute (sample_dispatcher quiet_handler) probe) (\<lambda>_.
     bindE (internal (Repo_FindById runs_table (er_id probe))) (\<lambda>reloaded.
       State_Monad.bind (Delivery_FindByRun (er_id reloaded)) (\<lambda>ds.
       returnE ((EventRunToResponse reloaded (case ds of Inl _ \<Rightarrow> [] | Inr xs \<Rightarrow> xs))\<lparr>erp_event_type := we_type remind\<rparr>)))))
   probe_world"
proof -
  have rows: "watchers_of sample_db = [invoices]" "events_of sample_db = [remind]" "matches_of sample_db = [mail1]"
    "runs_of sample_db = [run1]" "wa_id invoices = ''inv''" "wa_user_id invoices = ''ann''"
    "we_id remind = ''ev''" "we_watcher_id remind = ''inv''" "me_id mail1 = ''m1''" "me_user_id mail1 = ''ann''"
    "er_matched_email_id run1 = ''m1''" "er_watcher_event_id run1 = ''ev''" "er_occurrence run1 = 1"
    by (simp_all add: sample_defs)
  show ?thesis
    using probe_created
    by (simp add: Event_Test_def sample_event_uc_def try_event_def ownedWatcher_def Repo_FindByIdAndUser_def
      take_row_def watchers_table_def find_event_def FindByIdAndWatcher_def test_match_def matches_table_def
      testOccurrence_def rows unix_milli_def)
qed

theorem Event_Test_starts_chain_witness:
  "\<exists>response w'. run_state (Event_Test sample_event_uc try_event) sample_world = (Inr response, w')
    \<and> (\<exists>f \<in> set (runs_of (wdb w')). er_status f = RunStatusPending \<and> 1000 < er_occurrence f)"
proof -
  let ?D = "sample_dispatcher quiet_handler"
  obtain w9 where x: "run_state (execute ?D probe) probe_world = ((), w9)"
    by (cases "run_state (execute ?D probe) probe_world") simp
  have up8: "db_up probe_world" by (simp add: probe_world_def)
  have "run_ready probe (wdb probe_world)"
    by (simp add: run_ready_def probe_world_def probe_def table_defs unique_on_def test_run_def run_slot_def sample_defs)
  then obtain row where "take_first (\<lambda>r. er_id r = er_id probe) (runs_of (wdb w9)) = Some row"
    using execute_row [OF up8, of probe ?D] x by (auto simp: find_run_def)
  moreover have "db_up w9" using preserves_run [OF up_execute up8 x] .
  ultimately obtain response w' where run: "run_state (Event_Test sample_event_uc try_event) sample_world = (Inr response, w')"
    using x by (simp add: sample_test_run Repo_FindById_def take_row_def Delivery_FindByRun_def runs_table_def)
  have "\<exists>f \<in> set (runs_of (wdb w')). er_status f = RunStatusPending \<and> er_watcher_event_id f = we_id remind
      \<and> 1000 < er_occurrence f"
  proof (rule Event_Test_starts_chain [OF _ run, where h = quiet_handler])
    show "er_id r \<noteq> uuids sample_world n" if "r \<in> set (runs_of (wdb sample_world))" for n r
      using that run1_uuid [of n] by (simp add: sample_defs)
  qed (simp_all add: sample_event_uc_def try_event_def sample_dispatcher_def quiet_handler_def interval_of_def sample_defs)
  then show ?thesis using run by blast
qed

end
