(* ===== verification/Cipher.thy ===== *)
theory Cipher
  imports Samples
begin

text \<open>
  internal/gateway/secret/cipher.go: values sealed with an AEAD and stored as base64.  The
  standard base64 coding of package encoding/base64 is written out (the decoder skips line
  breaks, as Go's does); AES-GCM itself is the parameter \<open>aead\<close>, of which only the nonce
  size, \<open>Seal\<close> and \<open>Open\<close> are used.
\<close>

subsection \<open>encoding/base64\<close>

definition b64_char :: "nat \<Rightarrow> char" where
  "b64_char n = char_of (if n < 26 then 65 + n else if n < 52 then 71 + n
     else if n < 62 then n - 4 else if n = 62 then 43 else 47)"

definition b64_val :: "char \<Rightarrow> nat option" where
  "b64_val c = (let k = of_char c :: nat in
     if 65 \<le> k \<and> k \<le> 90 then Some (k - 65)
     else if 97 \<le> k \<and> k \<le> 122 then Some (k - 71)
     else if 48 \<le> k \<and> k \<le> 57 then Some (k + 4)
     else if k = 43 then Some 62 else if k = 47 then Some 63 else None)"

fun EncodeToString :: "string \<Rightarrow> string" where
  "EncodeToString [] = []"
| "EncodeToString [a] =
     (let x = of_char a :: nat in [b64_char (x div 4), b64_char (x mod 4 * 16), CHR ''='', CHR ''=''])"
| "EncodeToString [a, b] =
     (let x = of_char a; y = of_char b :: nat in
      [b64_char (x div 4), b64_char (x mod 4 * 16 + y div 16), b64_char (y mod 16 * 4), CHR ''=''])"
| "EncodeToString (a # b # c # s) =
     (let x = of_char a; y = of_char b; z = of_char c :: nat in
      [b64_char (x div 4), b64_char (x mod 4 * 16 + y div 16),
       b64_char (y mod 16 * 4 + z div 64), b64_char (z mod 64)] @ EncodeToString s)"

definition bytes1 :: "nat \<Rightarrow> nat \<Rightarrow> string" where
  "bytes1 p q = [char_of (p * 4 + q div 16)]"

definition bytes2 :: "nat \<Rightarrow> nat \<Rightarrow> nat \<Rightarrow> string" where
  "bytes2 p q r = bytes1 p q @ [char_of (q mod 16 * 16 + r div 4)]"

definition bytes3 :: "nat \<Rightarrow> nat \<Rightarrow> nat \<Rightarrow> nat \<Rightarrow> string" where
  "bytes3 p q r t = bytes2 p q r @ [char_of (r mod 4 * 64 + t)]"

fun decode_quads :: "string \<Rightarrow> string option" where
  "decode_quads [] = Some []"
| "decode_quads (a # b # c # d # s) =
     (case (b64_val a, b64_val b) of
        (Some p, Some q) \<Rightarrow>
          (if d = CHR ''='' then
             (if s \<noteq> [] then None
              else if c = CHR ''='' then Some (bytes1 p q)
              else (case b64_val c of None \<Rightarrow> None | Some r \<Rightarrow> Some (bytes2 p q r)))
           else (case (b64_val c, b64_val d) of
               (Some r, Some t) \<Rightarrow>
                 (case decode_quads s of None \<Rightarrow> None | Some u \<Rightarrow> Some (bytes3 p q r t @ u))
             | _ \<Rightarrow> None))
      | _ \<Rightarrow> None)"
| "decode_quads _ = None"

definition DecodeString :: "string \<Rightarrow> string option" where
  "DecodeString s = decode_quads (filter (\<lambda>c. c \<noteq> CHR 0x0D \<and> c \<noteq> CHR 0x0A) s)"

subsection \<open>The cipher\<close>

record aead =
  ae_nonce_size :: nat
  ae_seal :: "string \<Rightarrow> string \<Rightarrow> string"
  ae_open :: "string \<Rightarrow> string \<Rightarrow> string option"

definition NewCipher :: "(string \<Rightarrow> aead) \<Rightarrow> string \<Rightarrow> err + aead" where
  "NewCipher aes_gcm base64Key =
     (if base64Key = [] then
        Inl (PlainErr ''security.encryption_key is empty: set SECURITY_ENCRYPTION_KEY (openssl rand -base64 32)'')
      else (case DecodeString base64Key of
          None \<Rightarrow> Inl (PlainErr ''security.encryption_key is not valid base64'')
        | Some key \<Rightarrow>
            if length key \<noteq> 32 then
              Inl (PlainErr (''security.encryption_key must decode to 32 bytes, got '' @ itoa (int (length key))))
            else Inr (aes_gcm key)))"

definition Encrypt :: "aead \<Rightarrow> string \<Rightarrow> string ioE" where
  "Encrypt A plaintext =
     (if plaintext = [] then returnE []
      else bindE (read_random (ae_nonce_size A)) (\<lambda>nonce.
        returnE (EncodeToString (nonce @ ae_seal A nonce plaintext))))"

definition Decrypt :: "aead \<Rightarrow> string \<Rightarrow> err + string" where
  "Decrypt A encoded =
     (if encoded = [] then Inr []
      else (case DecodeString encoded of
          None \<Rightarrow> Inl (PlainErr ''ciphertext is not valid base64'')
        | Some raw \<Rightarrow>
            if length raw < ae_nonce_size A then Inl (PlainErr ''ciphertext is shorter than the nonce'')
            else (case ae_open A (take (ae_nonce_size A) raw) (drop (ae_nonce_size A) raw) of
                None \<Rightarrow> Inl (PlainErr ''failed to decrypt'')
              | Some plaintext \<Rightarrow> Inr plaintext)))"

subsection \<open>Round trips\<close>

lemma b64_val_char: "n < 64 \<Longrightarrow> b64_val (b64_char n) = Some n"
  by (auto simp: b64_val_def b64_char_def Let_def of_char_of)

lemma of_char_b64_char:
  "n < 64 \<Longrightarrow> of_char (b64_char n) = (if n < 26 then 65 + n else if n < 52 then 71 + n
     else if n < 62 then n - 4 else if n = 62 then 43 else (47 :: nat))"
  by (auto simp: b64_char_def of_char_of)

lemma b64_char_plain:
  assumes "n < 64"
  shows "b64_char n \<noteq> CHR ''=''" and "b64_char n \<noteq> CHR 0x0D" and "b64_char n \<noteq> CHR 0x0A"
proof -
  have "of_char (b64_char n) \<ge> (43 :: nat) \<and> of_char (b64_char n) \<noteq> (61 :: nat)"
    using assms by (auto simp: of_char_b64_char)
  then show "b64_char n \<noteq> CHR ''=''" and "b64_char n \<noteq> CHR 0x0D" and "b64_char n \<noteq> CHR 0x0A"
    by auto
qed

lemma of_char_bound: "of_char (c :: char) < (256 :: nat)"
  by simp

lemma sixtets:
  "(x :: nat) < 256 \<Longrightarrow> x div 4 < 64" "(x :: nat) mod 4 * 16 < 64"
  "(y :: nat) < 256 \<Longrightarrow> x mod 4 * 16 + y div 16 < 64"
  "(y :: nat) mod 16 * 4 < 64" "(z :: nat) < 256 \<Longrightarrow> y mod 16 * 4 + z div 64 < 64" "z mod 64 < 64"
  by linarith+

lemma split_digits:
  "k < n \<Longrightarrow> (m * n + k) div n = m" "k < n \<Longrightarrow> (m * n + k) mod n = k" for k m n :: nat
  by simp_all

lemma recombine:
  "(x :: nat) div 4 * 4 + (x mod 4 * 16) div 16 = x"
  "(y :: nat) < 256 \<Longrightarrow> x div 4 * 4 + (x mod 4 * 16 + y div 16) div 16 = x"
  "(y :: nat) < 256 \<Longrightarrow> (x mod 4 * 16 + y div 16) mod 16 * 16 + (y mod 16 * 4) div 4 = y"
  "(y :: nat) < 256 \<Longrightarrow> (z :: nat) < 256 \<Longrightarrow>
     (x mod 4 * 16 + y div 16) mod 16 * 16 + (y mod 16 * 4 + z div 64) div 4 = y"
  "(z :: nat) < 256 \<Longrightarrow> (y mod 16 * 4 + z div 64) mod 4 * 64 + z mod 64 = z"
  using split_digits [of "y div 16" 16 "x mod 4"] split_digits [of "z div 64" 4 "y mod 16"]
  by simp_all

lemma bytes_ok:
  "bytes1 (of_char a div 4) (of_char a mod 4 * 16) = [a]"
  "bytes2 (of_char a div 4) (of_char a mod 4 * 16 + of_char b div 16) (of_char b mod 16 * 4) = [a, b]"
  "bytes3 (of_char a div 4) (of_char a mod 4 * 16 + of_char b div 16)
     (of_char b mod 16 * 4 + of_char c div 64) (of_char c mod 64) = [a, b, c]"
  by (simp_all only: bytes3_def bytes2_def bytes1_def recombine of_char_bound char_of_char append.simps)

lemma decode_EncodeToString: "decode_quads (EncodeToString s) = Some s"
  by (induction s rule: EncodeToString.induct)
     (simp_all add: Let_def b64_val_char b64_char_plain sixtets of_char_bound bytes_ok)

lemma EncodeToString_plain: "filter (\<lambda>c. c \<noteq> CHR 0x0D \<and> c \<noteq> CHR 0x0A) (EncodeToString s) = EncodeToString s"
  by (induction s rule: EncodeToString.induct)
     (simp_all add: Let_def b64_char_plain sixtets of_char_bound)

lemma EncodeToString_Nil: "EncodeToString s = [] \<longleftrightarrow> s = []"
  by (cases s rule: EncodeToString.cases) (simp_all add: Let_def)

text \<open>Base64 is a round trip: decoding an encoding gives back every byte string.\<close>

lemma DecodeString_EncodeToString: "DecodeString (EncodeToString s) = Some s"
  by (simp add: DecodeString_def EncodeToString_plain decode_EncodeToString)

lemma decrypts:
  assumes "0 < ae_nonce_size A"
    and "\<And>nonce p. length nonce = ae_nonce_size A \<Longrightarrow> ae_open A nonce (ae_seal A nonce p) = Some p"
    and "\<And>k n b. entropy w k n = Some b \<Longrightarrow> length b = n"
    and "run_state (Encrypt A plaintext) w = (Inr stored, w')"
  shows "Decrypt A stored = Inr plaintext"
proof (cases "plaintext = []")
  case True
  with assms(4) show ?thesis by (simp add: Encrypt_def Decrypt_def)
next
  case False
  with assms(4) obtain nonce where nonce: "entropy w (entropy_pos w) (ae_nonce_size A) = Some nonce"
      and stored: "stored = EncodeToString (nonce @ ae_seal A nonce plaintext)"
    by (auto simp: Encrypt_def split: option.splits)
  have len: "length nonce = ae_nonce_size A" using assms(3) nonce by blast
  with assms(1) have "nonce @ ae_seal A nonce plaintext \<noteq> []" by auto
  with stored have "stored \<noteq> []" by (simp only: EncodeToString_Nil) simp
  with stored len assms(2) [OF len] show ?thesis
    by (simp add: Decrypt_def DecodeString_EncodeToString)
qed

text \<open>C15: What is encrypted can be decrypted: whatever the random nonce, the stored text of a
  secret decrypts to the secret, provided the AEAD opens what it seals; a failing random
  source is an error, not a stored value.\<close>

theorem Decrypt_Encrypt:
  assumes "0 < ae_nonce_size A"
    and "\<And>nonce p. length nonce = ae_nonce_size A \<Longrightarrow> ae_open A nonce (ae_seal A nonce p) = Some p"
    and "\<And>k n b. entropy w k n = Some b \<Longrightarrow> length b = n"
    and "run_state (Encrypt A plaintext) w = (Inr stored, w')"
  shows "Decrypt A stored = Inr plaintext"
  using assms by (rule decrypts)

definition mirror_box :: aead where
  "mirror_box = \<lparr>ae_nonce_size = 2, ae_seal = (\<lambda>n p. rev p), ae_open = (\<lambda>n c. Some (rev c))\<rparr>"

theorem Decrypt_Encrypt_witness:
  "\<exists>stored w'. run_state (Encrypt mirror_box ''secret'') sample_world = (Inr stored, w')
    \<and> Decrypt mirror_box stored = Inr ''secret''"
proof -
  obtain stored w' where e: "run_state (Encrypt mirror_box ''secret'') sample_world = (Inr stored, w')"
    by (simp add: Encrypt_def mirror_box_def)
  have "Decrypt mirror_box stored = Inr ''secret''"
    by (rule Decrypt_Encrypt [OF _ _ _ e]) (auto simp: mirror_box_def)
  with e show ?thesis by blast
qed

end
