(* ===== verification/Matcher.thy ===== *)
theory Matcher
  imports Entities
begin

text \<open>
  internal/usecase/matcher.go and the message type of internal/gateway/mail/provider.go: a
  watcher's filters against one message.  A parsed header map is the list of its entries in
  the order Go's \<open>range\<close> happens to visit them.  The regular expression engine of package
  regexp is a parameter (\<open>mx_regexp\<close>): the compiled matcher, or nothing for a pattern that does
  not compile.
\<close>

record message =
  mg_message_id :: string
  mg_uid :: string
  mg_subject :: string
  mg_from_address :: string
  mg_from_name :: string
  mg_to :: "string list"
  mg_cc :: "string list"
  mg_body_text :: string
  mg_headers :: "(string \<times> string) list"
  mg_has_attachment :: bool
  mg_attachment_names :: "string list"
  mg_size_bytes :: int
  mg_received_at :: int

record matcher =
  mx_unicode :: unicode
  mx_regexp :: "string \<Rightarrow> (string \<Rightarrow> bool) option"

record match_result =
  mr_matched :: bool
  mr_descriptions :: "string list"

definition compareStrings :: "matcher \<Rightarrow> string \<Rightarrow> string \<Rightarrow> string \<Rightarrow> bool \<Rightarrow> bool" where
  "compareStrings M operator subject0 value0 caseSensitive =
     (let subject = (if \<not> caseSensitive then to_lower (mx_unicode M) subject0 else subject0);
          value = (if \<not> caseSensitive then to_lower (mx_unicode M) value0 else value0)
      in if operator = OpContains then sublist value subject
         else if operator = OpNotContains then \<not> sublist value subject
         else if operator = OpEquals then subject = value
         else if operator = OpStartsWith then prefix value subject
         else if operator = OpEndsWith then suffix value subject
         else if operator = OpExists then subject \<noteq> []
         else if operator = OpRegex then
           (case mx_regexp M value of None \<Rightarrow> False | Some re \<Rightarrow> re subject)
         else False)"

definition compareNumbers :: "matcher \<Rightarrow> string \<Rightarrow> int \<Rightarrow> string \<Rightarrow> bool" where
  "compareNumbers M operator subject value =
     (case parse_int64 (trim_space (mx_unicode M) value) of
        None \<Rightarrow> False
      | Some want \<Rightarrow>
          if operator = OpGt then subject > want
          else if operator = OpLt then subject < want
          else if operator = OpEquals then subject = want
          else False)"

fun lookupHeader :: "matcher \<Rightarrow> (string \<times> string) list \<Rightarrow> string \<Rightarrow> string \<times> bool" where
  "lookupHeader M [] name = ([], False)"
| "lookupHeader M ((key, value) # hs) name =
     (if equal_fold (mx_unicode M) key name then (value, True) else lookupHeader M hs name)"

definition matchFilter :: "matcher \<Rightarrow> watcher_filter \<Rightarrow> message \<Rightarrow> bool" where
  "matchFilter M f m =
     (let cmp = (\<lambda>s. compareStrings M (wf_operator f) s (wf_value f) (wf_case_sensitive f)) in
      if wf_field f = FieldHasAttachment then
        (let want = (wf_value f = [] \<or> equal_fold (mx_unicode M) (wf_value f) ''true'')
         in mg_has_attachment m = want)
      else if wf_field f = FieldSize then compareNumbers M (wf_operator f) (mg_size_bytes m) (wf_value f)
      else if wf_field f = FieldAttachmentName then list_ex cmp (mg_attachment_names m)
      else if wf_field f = FieldTo \<or> wf_field f = FieldCc then
        list_ex cmp (if wf_field f = FieldCc then mg_cc m else mg_to m)
      else if wf_field f = FieldHeader then
        (case wf_header_name f of
           None \<Rightarrow> False
         | Some name \<Rightarrow>
             (let (value, ok) = lookupHeader M (mg_headers m) name
              in if wf_operator f = OpExists then ok else ok \<and> cmp value))
      else if wf_field f = FieldSubject then cmp (mg_subject m)
      else if wf_field f = FieldFrom then cmp (mg_from_address m) \<or> cmp (mg_from_name m)
      else if wf_field f = FieldBody then cmp (mg_body_text m)
      else False)"

definition describeFilter :: "matcher \<Rightarrow> watcher_filter \<Rightarrow> string" where
  "describeFilter M f =
     (let field = (case wf_header_name f of
                     Some name \<Rightarrow> if wf_field f = FieldHeader then ''header:'' @ name else wf_field f
                   | None \<Rightarrow> wf_field f)
      in field @ '' '' @ replace_char (CHR ''_'') (CHR '' '') (wf_operator f) @ '' ''
         @ go_quote (mx_unicode M) (wf_value f))"

text \<open>The loop of \<open>EvaluateFilters\<close>: how many filters passed, and their descriptions.\<close>

fun eval_loop :: "matcher \<Rightarrow> message \<Rightarrow> watcher_filter list \<Rightarrow> int \<times> string list \<Rightarrow> int \<times> string list" where
  "eval_loop M m [] acc = acc"
| "eval_loop M m (f # fs) (passed, ds) =
     eval_loop M m fs (if matchFilter M f m then (passed + 1, ds @ [describeFilter M f]) else (passed, ds))"

definition EvaluateFilters :: "matcher \<Rightarrow> watcher \<Rightarrow> watcher_filter list \<Rightarrow> message \<Rightarrow> match_result" where
  "EvaluateFilters M w fs m =
     (if fs = [] then
        \<lparr>mr_matched = True, mr_descriptions = [''no filters: every message matches'']\<rparr>
      else
        (let (passed, ds) = eval_loop M m fs (0, [])
         in \<lparr>mr_matched = (if wa_match_mode w = MatchModeAny then passed > 0 else passed = int (length fs)),
             mr_descriptions = ds\<rparr>))"

subsection \<open>What a match means\<close>

lemma eval_loop_spec:
  "eval_loop M m fs (p, ds) =
     (p + int (length (filter (\<lambda>f. matchFilter M f m) fs)),
      ds @ map (describeFilter M) (filter (\<lambda>f. matchFilter M f m) fs))"
  by (induction fs arbitrary: p ds) auto

lemma length_filter_eq: "length (filter p xs) = length xs \<longleftrightarrow> (\<forall>x \<in> set xs. p x)"
proof (induction xs)
  case (Cons x xs)
  have "length (filter p xs) \<noteq> Suc (length xs)" using length_filter_le [of p xs] by linarith
  with Cons show ?case by simp
qed simp

lemma EvaluateFilters_descriptions:
  "fs \<noteq> [] \<Longrightarrow> mr_descriptions (EvaluateFilters M w fs m) =
     map (describeFilter M) (filter (\<lambda>f. matchFilter M f m) fs)"
  by (simp add: EvaluateFilters_def eval_loop_spec)

lemma EvaluateFilters_any:
  "fs \<noteq> [] \<Longrightarrow> wa_match_mode w = MatchModeAny \<Longrightarrow>
   mr_matched (EvaluateFilters M w fs m) \<longleftrightarrow> (\<exists>f \<in> set fs. matchFilter M f m)"
  by (auto simp: EvaluateFilters_def eval_loop_spec filter_empty_conv)

lemma EvaluateFilters_all:
  "fs \<noteq> [] \<Longrightarrow> wa_match_mode w \<noteq> MatchModeAny \<Longrightarrow>
   mr_matched (EvaluateFilters M w fs m) \<longleftrightarrow> (\<forall>f \<in> set fs. matchFilter M f m)"
  by (simp add: EvaluateFilters_def eval_loop_spec length_filter_eq)

lemma compareStrings_not_contains:
  "compareStrings M OpNotContains s v cs \<longleftrightarrow> \<not> compareStrings M OpContains s v cs"
  by (simp add: compareStrings_def)

lemma compareStrings_equals:
  assumes "compareStrings M OpEquals s v cs"
  shows "compareStrings M OpStartsWith s v cs \<and> compareStrings M OpEndsWith s v cs
    \<and> compareStrings M OpContains s v cs"
  using assms by (simp add: compareStrings_def Let_def split: if_splits)

lemma compareStrings_prefix_contains:
  "compareStrings M OpStartsWith s v cs \<or> compareStrings M OpEndsWith s v cs \<Longrightarrow>
   compareStrings M OpContains s v cs"
  by (auto simp: compareStrings_def Let_def split: if_splits)

lemma compareStrings_case_insensitive:
  "is_ascii s \<Longrightarrow> is_ascii v \<Longrightarrow>
   compareStrings M op s v False = compareStrings M op (map lower_char s) (map lower_char v) True"
  by (simp add: compareStrings_def to_lower_def)

lemma lookupHeader_found:
  "lookupHeader M hs name = (v, True) \<Longrightarrow> \<exists>k. (k, v) \<in> set hs \<and> equal_fold (mx_unicode M) k name"
  by (induction M hs name rule: lookupHeader.induct) (auto split: if_splits)

lemma lookupHeader_absent:
  "snd (lookupHeader M hs name) \<longleftrightarrow> (\<exists>(k, v) \<in> set hs. equal_fold (mx_unicode M) k name)"
  by (induction M hs name rule: lookupHeader.induct) auto

lemma matchFilter_unknown_field:
  "wf_field f \<notin> {FieldHasAttachment, FieldSize, FieldAttachmentName, FieldTo, FieldCc,
     FieldHeader, FieldSubject, FieldFrom, FieldBody} \<Longrightarrow> \<not> matchFilter M f m"
  by (simp add: matchFilter_def Let_def)

text \<open>C16: The counting loop of the matcher computes its specification: a watcher without filters
  matches every message; otherwise mode \<open>any\<close> asks for one passing filter and every other mode
  for all of them, and the descriptions are those of exactly the filters that passed, in order.\<close>

theorem EvaluateFilters_spec:
  "EvaluateFilters M w fs m =
     (if fs = [] then
        \<lparr>mr_matched = True, mr_descriptions = [''no filters: every message matches'']\<rparr>
      else
        \<lparr>mr_matched = (if wa_match_mode w = MatchModeAny then list_ex (\<lambda>f. matchFilter M f m) fs
                      else list_all (\<lambda>f. matchFilter M f m) fs),
         mr_descriptions = map (describeFilter M) (filter (\<lambda>f. matchFilter M f m) fs)\<rparr>)"
  by (auto simp: EvaluateFilters_def eval_loop_spec filter_empty_conv length_filter_eq list_ex_iff list_all_iff)

text \<open>The string operators are ordered: \<open>equals\<close> implies \<open>starts_with\<close> and \<open>ends_with\<close>,
  either of which implies \<open>contains\<close>, and \<open>not_contains\<close> is the negation of \<open>contains\<close>, with and
  without case sensitivity.\<close>

lemma compareStrings_order:
  "(compareStrings M OpEquals s v cs \<longrightarrow> compareStrings M OpStartsWith s v cs \<and> compareStrings M OpEndsWith s v cs)
   \<and> (compareStrings M OpStartsWith s v cs \<longrightarrow> compareStrings M OpContains s v cs)
   \<and> (compareStrings M OpEndsWith s v cs \<longrightarrow> compareStrings M OpContains s v cs)
   \<and> compareStrings M OpNotContains s v cs = (\<not> compareStrings M OpContains s v cs)"
  by (metis compareStrings_equals compareStrings_prefix_contains compareStrings_not_contains)

end
