(* ===== verification/Resolver.thy ===== *)
theory Resolver
  imports Caches Cipher Matcher
begin

text \<open>
  internal/usecase/mail_resolver.go with what it stands on: the registry of mail clients
  (internal/gateway/mail/provider.go), the OAuth clients (internal/gateway/oauth/oauth.go,
  whose token endpoint is the parameter \<open>oc_exchange\<close>/\<open>oc_source\<close>), and the stored
  credentials.  A client is a record of the outcomes of its calls.  Functions that change the
  account struct in place return it beside their result.
\<close>

subsection \<open>gateway/mail/provider.go\<close>

abbreviation AuthPassword :: string where "AuthPassword \<equiv> ''password''"
abbreviation AuthAppPassword :: string where "AuthAppPassword \<equiv> ''app_password''"
abbreviation AuthOAuth2 :: string where "AuthOAuth2 \<equiv> ''oauth2''"
abbreviation AuthXOAuth2 :: string where "AuthXOAuth2 \<equiv> ''xoauth2''"

record mail_credentials =
  mc_username :: string
  mc_password :: string
  mc_access_token :: string
  mc_refresh_token :: string
  mc_expires_at :: int

record mail_target =
  tg_id :: string
  tg_provider :: string
  tg_kind :: string
  tg_email_address :: string
  tg_auth_mode :: string
  tg_settings :: json
  tg_credentials :: mail_credentials

record folder =
  fo_name :: string
  fo_message_count :: int

record fetch_request =
  fq_folder :: string
  fq_since :: int
  fq_cursor :: string
  fq_limit :: int

record fetch_result =
  fr_messages :: "message list"
  fr_cursor :: string

record capabilities =
  cp_folders :: bool
  cp_labels :: bool
  cp_push :: bool
  cp_idle :: bool
  cp_server_search :: bool

record descriptor =
  ds_kind :: string
  ds_label :: string
  ds_auth_modes :: "string list"
  ds_capabilities :: capabilities
  ds_config_schema :: schema

record mail_client =
  cl_describe :: descriptor
  cl_verify :: "mail_target \<Rightarrow> err + folder list"
  cl_fetch :: "mail_target \<Rightarrow> fetch_request \<Rightarrow> err + fetch_result"
  cl_folders :: "(mail_target \<Rightarrow> err + folder list) option"

definition Mail_Register :: "mail_client list \<Rightarrow> (string \<rightharpoonup> mail_client) \<Rightarrow> (string \<rightharpoonup> mail_client)" where
  "Mail_Register cs reg = foldl (\<lambda>m c. m(ds_kind (cl_describe c) \<mapsto> c)) reg cs"

interpretation mail_reg: registry Mail_Register "\<lambda>c. ds_kind (cl_describe c)"
  by unfold_locales (simp_all add: Mail_Register_def)

definition Mail_Get :: "unicode \<Rightarrow> (string \<rightharpoonup> mail_client) \<Rightarrow> string \<Rightarrow> err + mail_client" where
  "Mail_Get U reg kind = (case reg kind of
      None \<Rightarrow> Inl (HttpErr 400 (''no mail provider is registered for '' @ go_quote U kind))
    | Some c \<Rightarrow> Inr c)"

definition Mail_Has :: "(string \<rightharpoonup> mail_client) \<Rightarrow> string \<Rightarrow> bool" where
  "Mail_Has reg kind = (reg kind \<noteq> None)"

definition ListFolders :: "mail_client \<Rightarrow> mail_target \<Rightarrow> err + folder list" where
  "ListFolders c account = (case cl_folders c of
      None \<Rightarrow> Inl (HttpErr 501 ''this provider does not list folders'')
    | Some f \<Rightarrow> f account)"

subsection \<open>gateway/oauth/oauth.go\<close>

record tokens =
  tn_access_token :: string
  tn_refresh_token :: string
  tn_expires_at :: int
  tn_scopes :: "string list"
  tn_id_token :: string

record identity =
  id_email :: string
  id_account_id :: string

text \<open>What x/oauth2 returns: a token, with its expiry in nanoseconds when it has one and the
  extra fields of the response, or an error with the code the server gave.\<close>

record raw_token =
  tk_access_token :: string
  tk_refresh_token :: string
  tk_expiry :: "int option"
  tk_scope :: "string option"
  tk_id_token :: "string option"

datatype retrieve_error =
    RetrieveError string string string
  | OtherError string

record oauth_client =
  oc_slug :: string
  oc_scopes :: "string list"
  oc_authorize_url :: "string \<Rightarrow> string"
  oc_exchange :: "string \<Rightarrow> retrieve_error + raw_token"
  oc_source :: "string \<Rightarrow> retrieve_error + raw_token"
  oc_identify :: "tokens \<Rightarrow> err + identity"

abbreviation ErrRevokedText :: string where
  "ErrRevokedText \<equiv> ''oauth: the user revoked access, the mailbox must be reconnected''"

fun oauth_translate :: "retrieve_error \<Rightarrow> err" where
  "oauth_translate (RetrieveError code description t) =
     (if code = ''invalid_grant'' then Revoked (ErrRevokedText @ '': '' @ description) else PlainErr t)"
| "oauth_translate (OtherError t) = PlainErr t"

definition convert :: "unicode \<Rightarrow> raw_token \<Rightarrow> string list \<Rightarrow> tokens" where
  "convert U t fallback =
     \<lparr>tn_access_token = tk_access_token t, tn_refresh_token = tk_refresh_token t,
      tn_expires_at = (case tk_expiry t of None \<Rightarrow> 0 | Some e \<Rightarrow> unix_milli e),
      tn_scopes = (case tk_scope t of None \<Rightarrow> fallback | Some g \<Rightarrow> if g \<noteq> [] then str_fields U g else fallback),
      tn_id_token = (case tk_id_token t of None \<Rightarrow> [] | Some i \<Rightarrow> i)\<rparr>"

definition Exchange :: "unicode \<Rightarrow> oauth_client \<Rightarrow> string \<Rightarrow> err + tokens" where
  "Exchange U c code = (case oc_exchange c code of
      Inl e \<Rightarrow> Inl (oauth_translate e)
    | Inr t \<Rightarrow> Inr (convert U t (oc_scopes c)))"

definition OAuth_Refresh :: "unicode \<Rightarrow> oauth_client \<Rightarrow> string \<Rightarrow> err + tokens" where
  "OAuth_Refresh U c refreshToken =
     (if refreshToken = [] then Inl (Revoked (ErrRevokedText @ '': no refresh token is stored''))
      else (case oc_source c refreshToken of
          Inl e \<Rightarrow> Inl (oauth_translate e)
        | Inr t \<Rightarrow> (let ts = convert U t (oc_scopes c) in
            Inr (if tn_refresh_token ts = [] then ts\<lparr>tn_refresh_token := refreshToken\<rparr> else ts))))"

definition Identify :: "oauth_client \<Rightarrow> tokens \<Rightarrow> err + identity" where
  "Identify c ts =
     (if tn_access_token ts = [] then
        Inl (PlainErr ''oauth: cannot identify an account without an access token'')
      else oc_identify c ts)"

definition OAuth_Register :: "oauth_client option list \<Rightarrow> (string \<rightharpoonup> oauth_client) \<Rightarrow> (string \<rightharpoonup> oauth_client)" where
  "OAuth_Register cs reg = foldl (\<lambda>m c. case c of None \<Rightarrow> m | Some x \<Rightarrow> m(oc_slug x \<mapsto> x)) reg cs"

text \<open>Registering skips what is not configured.\<close>

lemma OAuth_Register_configured: "OAuth_Register cs reg = OAuth_Register (map Some (List.map_filter id cs)) reg"
  unfolding OAuth_Register_def
  by (induction cs arbitrary: reg) (auto simp: List.map_filter_simps split: option.splits)

interpretation oauth_reg: registry "\<lambda>cs. OAuth_Register (map Some cs)" oc_slug
  by unfold_locales (simp_all add: OAuth_Register_def)

subsection \<open>Stored credentials\<close>

record credentials =
  cr_username :: string
  cr_password :: string
  cr_access_token :: string
  cr_refresh_token :: string

definition json_member :: "unicode \<Rightarrow> string \<Rightarrow> string \<Rightarrow> string list" where
  "json_member U key v = (if v = [] then [] else [json_string U key @ '':'' @ json_string U v])"

definition Encode :: "unicode \<Rightarrow> credentials \<Rightarrow> string" where
  "Encode U c = ''{'' @ join '',''
     (json_member U ''username'' (cr_username c) @ json_member U ''password'' (cr_password c)
      @ json_member U ''access_token'' (cr_access_token c)
      @ json_member U ''refresh_token'' (cr_refresh_token c)) @ ''}''"

text \<open>
  \<open>rs_unmarshal\<close> is \<open>json.Unmarshal\<close> into a zero \<open>MailAccountCredentials\<close>; \<open>rs_done i\<close> says
  that the context is done in round \<open>i\<close> of waiting for another worker.
\<close>

record resolver =
  rs_unicode :: unicode
  rs_ttls :: cache_ttls
  rs_cached :: bool
  rs_clients :: "string \<rightharpoonup> mail_client"
  rs_oauth :: "string \<rightharpoonup> oauth_client"
  rs_cipher :: aead
  rs_unmarshal :: "string \<Rightarrow> credentials"
  rs_done :: "nat \<Rightarrow> bool"

abbreviation no_credentials :: credentials where
  "no_credentials \<equiv> \<lparr>cr_username = [], cr_password = [], cr_access_token = [], cr_refresh_token = []\<rparr>"

definition Credentials :: "resolver \<Rightarrow> mail_account \<Rightarrow> err + credentials" where
  "Credentials R account = (case Decrypt (rs_cipher R) (ma_credentials account) of
      Inl _ \<Rightarrow> Inl (HttpErr 500 ''stored credentials could not be decrypted'')
    | Inr plaintext \<Rightarrow> Inr (if plaintext \<noteq> [] then rs_unmarshal R plaintext else no_credentials))"

definition Encrypt_credentials :: "resolver \<Rightarrow> credentials \<Rightarrow> string ioE" where
  "Encrypt_credentials R c =
     mapErr (\<lambda>_. ErrInternal) (Encrypt (rs_cipher R) (Encode (rs_unicode R) c))"

subsection \<open>mail_resolver.go\<close>

definition unknownProvider :: "resolver \<Rightarrow> string \<Rightarrow> err" where
  "unknownProvider R slug = HttpErr 400 (''unknown mail provider '' @ go_quote (rs_unicode R) slug)"

definition remember :: "resolver \<Rightarrow> string \<Rightarrow> mail_provider option \<Rightarrow> unit io" where
  "remember R slug p = (if rs_cached R then Remember (rs_ttls R) slug p else ret ())"

definition Row_uncached :: "resolver \<Rightarrow> string \<Rightarrow> mail_provider ioE" where
  "Row_uncached R slug = do {
     r \<leftarrow> MailProvider_FindBySlug slug;
     (case r of
        Inl _ \<Rightarrow> do { _ \<leftarrow> remember R slug None; failE (unknownProvider R slug) }
      | Inr row \<Rightarrow> do { _ \<leftarrow> remember R slug (Some row); returnE row }) }"

text \<open>A cached entry with \<open>found\<close> set always holds a row (\<open>Remember\<close> is the only writer); the
  nil row the code would return otherwise is a panic at its first use.\<close>

definition Row :: "resolver \<Rightarrow> string \<Rightarrow> mail_provider ioE" where
  "Row R slug =
     (if rs_cached R then do {
        hit \<leftarrow> Provider_Lookup slug;
        (case hit of (row, found, cached) \<Rightarrow>
           if cached then
             (if \<not> found then failE (unknownProvider R slug)
              else (case row of None \<Rightarrow> failE (Panic ''nil provider'') | Some p \<Rightarrow> returnE p))
           else Row_uncached R slug) }
      else Row_uncached R slug)"

definition Account_of :: "resolver \<Rightarrow> mail_account \<Rightarrow> mail_provider \<Rightarrow> err + mail_target" where
  "Account_of R account row = (case Credentials R account of
      Inl e \<Rightarrow> Inl e
    | Inr c \<Rightarrow> Inr \<lparr>tg_id = ma_id account, tg_provider = ma_provider account, tg_kind = mp_kind row,
        tg_email_address = ma_email_address account, tg_auth_mode = ma_auth_mode account,
        tg_settings = JSONOrEmpty (ma_settings account) ''{}'',
        tg_credentials = \<lparr>mc_username = cr_username c, mc_password = cr_password c,
          mc_access_token = cr_access_token c, mc_refresh_token = cr_refresh_token c,
          mc_expires_at = int64OrZero (ma_token_expires_at account)\<rparr>\<rparr>)"

abbreviation refreshWindow :: int where "refreshWindow \<equiv> 5 * Minute"
abbreviation refreshLockTTL :: int where "refreshLockTTL \<equiv> 30 * Second"
abbreviation refreshLockScope :: string where "refreshLockScope \<equiv> ''oauth:refresh''"

definition needsRefresh :: "mail_account \<Rightarrow> bool io" where
  "needsRefresh account =
     (if ma_auth_mode account \<noteq> AuthXOAuth2 \<and> ma_auth_mode account \<noteq> AuthOAuth2 then ret False
      else (case ma_token_expires_at account of
          None \<Rightarrow> ret False
        | Some at \<Rightarrow> do { now \<leftarrow> time_now; ret (unix_milli (now + refreshWindow) \<ge> at) }))"

definition reload :: "string \<Rightarrow> mail_account option io" where
  "reload i = do { r \<leftarrow> Repo_FindById accounts_table i;
                   ret (case r of Inl _ \<Rightarrow> None | Inr a \<Rightarrow> Some a) }"

definition adopt :: "mail_account \<Rightarrow> mail_account \<Rightarrow> mail_account" where
  "adopt account fresh = account\<lparr>ma_credentials := ma_credentials fresh,
     ma_token_expires_at := ma_token_expires_at fresh, ma_scopes := ma_scopes fresh\<rparr>"

text \<open>The rounds of \<open>awaitRefresh\<close> from round \<open>i\<close> on, \<open>n\<close> of them left\<close>

fun await_rounds :: "resolver \<Rightarrow> nat \<Rightarrow> nat \<Rightarrow> mail_account \<Rightarrow> mail_account io" where
  "await_rounds R i 0 account = ret account"
| "await_rounds R i (Suc n) account =
     (if rs_done R i then ret account
      else do {
        f \<leftarrow> reload (ma_id account);
        (case f of
           None \<Rightarrow> ret account
         | Some fresh \<Rightarrow> do {
             stale \<leftarrow> needsRefresh fresh;
             (if \<not> stale then ret (adopt account fresh) else await_rounds R (Suc i) n account) }) })"

definition awaitRefresh :: "resolver \<Rightarrow> mail_account \<Rightarrow> mail_account io" where
  "awaitRefresh R account = await_rounds R 0 8 account"

type_synonym 'a on_account = "(mail_account \<times> (err + 'a)) io"

definition store_tokens :: "resolver \<Rightarrow> mail_account \<Rightarrow> credentials \<Rightarrow> tokens \<Rightarrow> unit on_account" where
  "store_tokens R account c0 ts =
     (let c1 = c0\<lparr>cr_access_token := tn_access_token ts\<rparr>;
          c = (if tn_refresh_token ts \<noteq> [] then c1\<lparr>cr_refresh_token := tn_refresh_token ts\<rparr> else c1)
      in do {
        r \<leftarrow> Encrypt_credentials R c;
        (case r of
           Inl e \<Rightarrow> ret (account, Inl e)
         | Inr encrypted \<Rightarrow> do {
             let account' = account\<lparr>ma_credentials := encrypted,
               ma_token_expires_at := (if tn_expires_at ts > 0 then Some (tn_expires_at ts)
                                       else ma_token_expires_at account),
               ma_scopes := (if tn_scopes ts \<noteq> [] then Some (join '' '' (tn_scopes ts))
                             else ma_scopes account)\<rparr>;
             u \<leftarrow> Repo_Update accounts_table account';
             (case u of Inl _ \<Rightarrow> ret (account', Inl ErrInternal) | Inr _ \<Rightarrow> ret (account', Inr ())) }) })"

abbreviation revokedMessage :: string where
  "revokedMessage \<equiv> ''access to this mailbox was withdrawn; reconnect it to grant it again''"

definition handleRefreshFailure :: "mail_account \<Rightarrow> err \<Rightarrow> unit on_account" where
  "handleRefreshFailure account e = (case e of
      Revoked _ \<Rightarrow> do {
        let account' = account\<lparr>ma_status := MailAccountStatusError, ma_last_error := Some revokedMessage\<rparr>;
        ignoreE (Repo_Update accounts_table account');
        ret (account', Inl (HttpErr 424 revokedMessage)) }
    | _ \<Rightarrow> ret (account, Inl (HttpErr 502
        (''could not renew the access token for this mailbox: '' @ err_text e))))"

definition refresh_locked :: "resolver \<Rightarrow> oauth_client \<Rightarrow> mail_account \<Rightarrow> unit on_account" where
  "refresh_locked R c account = do {
     f \<leftarrow> reload (ma_id account);
     stale \<leftarrow> (case f of None \<Rightarrow> ret True | Some fresh \<Rightarrow> needsRefresh fresh);
     (if \<not> stale then ret (adopt account (the f), Inr ())
      else (case Credentials R account of
          Inl e \<Rightarrow> ret (account, Inl e)
        | Inr creds \<Rightarrow> (case OAuth_Refresh (rs_unicode R) c (cr_refresh_token creds) of
              Inl e \<Rightarrow> handleRefreshFailure account e
            | Inr ts \<Rightarrow> store_tokens R account creds ts))) }"

definition refresh :: "resolver \<Rightarrow> mail_account \<Rightarrow> unit on_account" where
  "refresh R account = do {
     stale \<leftarrow> needsRefresh account;
     (if \<not> stale then ret (account, Inr ())
      else (case rs_oauth R (ma_provider account) of
          None \<Rightarrow> ret (account, Inl (HttpErr 424
            (''this mailbox was connected with OAuth but '' @ ma_provider account
             @ '' is no longer configured on the server, so its token cannot be renewed'')))
        | Some c \<Rightarrow> do {
            acquired \<leftarrow> Acquire refreshLockScope (ma_id account) refreshLockTTL;
            (if \<not> acquired then do {
               account' \<leftarrow> awaitRefresh R account;
               ret (account', Inr ()) }
             else do {
               res \<leftarrow> refresh_locked R c account;
               _ \<leftarrow> Release refreshLockScope (ma_id account);
               ret res }) })) }"

definition Resolve :: "resolver \<Rightarrow> mail_account \<Rightarrow> (mail_client \<times> mail_target) on_account" where
  "Resolve R account = do {
     r \<leftarrow> Row R (ma_provider account);
     (case r of
        Inl e \<Rightarrow> ret (account, Inl e)
      | Inr row \<Rightarrow> (case Mail_Get (rs_unicode R) (rs_clients R) (mp_kind row) of
          Inl e \<Rightarrow> ret (account, Inl e)
        | Inr client \<Rightarrow> do {
            f \<leftarrow> refresh R account;
            (case f of
               (account', Inl e) \<Rightarrow> ret (account', Inl e)
             | (account', Inr _) \<Rightarrow> (case Account_of R account' row of
                   Inl e \<Rightarrow> ret (account', Inl e)
                 | Inr target \<Rightarrow> ret (account', Inr (client, target)))) })) }"

subsection \<open>What resolving writes\<close>

lemma pres_read_helpers [pres]:
  "preserves (db_inv K) (Row R slug)"
  "preserves (db_inv K) (needsRefresh a)"
  "preserves (db_inv K) (reload i)"
  "preserves (db_inv K) (Encrypt_credentials R c)"
  unfolding Row_def Row_uncached_def remember_def needsRefresh_def reload_def Encrypt_credentials_def
    Encrypt_def
  by (intro pres)+

lemma pres_await_rounds [pres]: "preserves (db_inv K) (await_rounds R i n a)"
proof (induction n arbitrary: i)
  case 0
  show ?case by (simp add: preserves_ret)
next
  case (Suc n)
  show ?case unfolding await_rounds.simps by (intro pres Suc.IH)
qed

text \<open>What no step of resolving changes in the account struct\<close>

definition account_key :: "mail_account \<Rightarrow> string \<times> string \<times> string \<times> string \<times> int \<times> json \<times> int option" where
  "account_key a = (ma_id a, ma_user_id a, ma_provider a, ma_email_address a, ma_next_poll_at a, ma_sync_state a,
     ma_last_verified_at a)"

lemma account_key_adopt [simp]: "account_key (adopt a b) = account_key a"
  by (simp add: account_key_def adopt_def)

abbreviation same_key :: "mail_account \<Rightarrow> mail_account \<times> (err + 'a) \<Rightarrow> bool" where
  "same_key a r \<equiv> account_key (fst r) = account_key a"

lemma returns_await_rounds: "returns (\<lambda>b. account_key b = account_key a) (await_rounds R i n a)"
proof (induction n arbitrary: i)
  case (Suc n)
  show ?case unfolding await_rounds.simps by (intro rets Suc.IH) simp_all
qed (simp add: returns_ret)

lemma returns_handleRefreshFailure: "returns (same_key a) (handleRefreshFailure a e)"
  unfolding handleRefreshFailure_def Let_def
  by (cases e) (auto intro!: rets simp: account_key_def)

lemma returns_store_tokens: "returns (same_key a) (store_tokens R a c ts)"
  unfolding store_tokens_def Let_def by (intro rets) (simp_all add: account_key_def)

lemma returns_refresh: "returns (same_key a) (refresh R a)"
proof -
  have "returns (same_key a) (refresh_locked R c a)" for c
    unfolding refresh_locked_def
    by (intro rets returns_handleRefreshFailure returns_store_tokens) simp_all
  then have locked: "returns (same_key a) (do {
      res \<leftarrow> refresh_locked R c a; _ \<leftarrow> Release refreshLockScope (ma_id a); ret res })" for c
    by (rule returns_bind_via) (intro rets)
  have "returns (\<lambda>b. account_key b = account_key a) (awaitRefresh R a)"
    unfolding awaitRefresh_def by (rule returns_await_rounds)
  then have waited: "returns (same_key a) (do { b \<leftarrow> awaitRefresh R a; ret (b, Inr ()) })"
    by (rule returns_bind_via) (simp add: returns_ret)
  show ?thesis
    unfolding refresh_def
    by (rule returns_bind, intro returns_if returns_case_option)
       (simp_all add: returns_ret, rule returns_bind, intro returns_if locked waited)
qed

lemma returns_Resolve: "returns (same_key a) (Resolve R a)"
proof -
  have "returns (same_key a) (do {
      f \<leftarrow> refresh R a;
      (case f of (b, Inl e) \<Rightarrow> ret (b, Inl e)
       | (b, Inr _) \<Rightarrow> (case Account_of R b row of Inl e \<Rightarrow> ret (b, Inl e)
           | Inr target \<Rightarrow> ret (b, Inr (client, target)))) })" for row client
    by (rule returns_bind_via [OF returns_refresh]) (auto intro!: rets split: prod.splits sum.splits)
  then show ?thesis
    unfolding Resolve_def by (rule_tac returns_bind, intro returns_case_sum) (simp_all add: returns_ret)
qed

lemma pres_Resolve:
  assumes up: "\<And>x. account_key x = account_key a \<Longrightarrow> preserves (db_inv K) (Repo_Update accounts_table x)"
  shows "preserves (db_inv K) (Resolve R a)"
proof -
  have "preserves (db_inv K) (handleRefreshFailure a e)" for e
    unfolding handleRefreshFailure_def Let_def
    by (cases e) (auto intro!: pres up simp: account_key_def)
  moreover have "preserves (db_inv K) (store_tokens R a c ts)" for c ts
    unfolding store_tokens_def Let_def by (intro pres up) (simp_all add: account_key_def)
  ultimately have "preserves (db_inv K) (refresh_locked R c a)" for c
    unfolding refresh_locked_def by (intro pres)
  then show ?thesis
    unfolding Resolve_def refresh_def awaitRefresh_def by (intro pres)
qed

lemma pres_accounts_update:
  assumes "\<And>d xs. K d \<Longrightarrow> K (d\<lparr>accounts_of := xs\<rparr>)"
  shows "preserves (db_inv K) (Repo_Update accounts_table x)"
  using assms by (intro pres_Repo_Update) (simp add: save_row_def, simp add: accounts_table_def)

lemma up_read_helpers [pres]:
  "preserves db_up (Row R slug)"
  "preserves db_up (needsRefresh a)"
  "preserves db_up (reload i)"
  "preserves db_up (Encrypt_credentials R c)"
  unfolding Row_def Row_uncached_def remember_def needsRefresh_def reload_def Encrypt_credentials_def
    Encrypt_def MailProvider_FindBySlug_def
  by (intro pres)+

lemma up_await_rounds [pres]: "preserves db_up (await_rounds R i n a)"
proof (induction n arbitrary: i)
  case 0
  show ?case by (simp add: preserves_ret)
next
  case (Suc n)
  show ?case unfolding await_rounds.simps by (intro pres Suc.IH)
qed

lemma up_Resolve [pres]: "preserves db_up (Resolve R a)"
proof -
  have "preserves db_up (handleRefreshFailure b e)" for b e
    unfolding handleRefreshFailure_def Let_def by (cases e) (auto intro!: pres)
  then have "preserves db_up (refresh_locked R c b)" for c b
    unfolding refresh_locked_def store_tokens_def Let_def by (intro pres)
  then show ?thesis
    unfolding Resolve_def refresh_def awaitRefresh_def by (intro pres)
qed

subsection \<open>Properties\<close>

definition aead_ok :: "aead \<Rightarrow> bool" where
  "aead_ok A \<longleftrightarrow> 0 < ae_nonce_size A \<and>
     (\<forall>nonce p. length nonce = ae_nonce_size A \<longrightarrow> ae_open A nonce (ae_seal A nonce p) = Some p)"

definition entropy_ok :: "world \<Rightarrow> bool" where
  "entropy_ok w \<longleftrightarrow> (\<forall>k n b. entropy w k n = Some b \<longrightarrow> length b = n)"

definition codec_ok :: "resolver \<Rightarrow> credentials \<Rightarrow> bool" where
  "codec_ok R c \<longleftrightarrow> rs_unmarshal R (Encode (rs_unicode R) c) = c"

lemma Encode_nonempty: "Encode U c \<noteq> []"
  by (simp add: Encode_def)

lemma Credentials_Encrypt:
  assumes "aead_ok (rs_cipher R)" "entropy_ok w" "codec_ok R c"
    and "run_state (Encrypt_credentials R c) w = (Inr stored, w')"
  shows "Credentials R (a\<lparr>ma_credentials := stored\<rparr>) = Inr c"
proof -
  have e: "run_state (Encrypt (rs_cipher R) (Encode (rs_unicode R) c)) w = (Inr stored, w')"
    using assms(4) by (auto simp: Encrypt_credentials_def split: prod.splits sum.splits)
  have "Decrypt (rs_cipher R) stored = Inr (Encode (rs_unicode R) c)"
    by (rule decrypts [OF _ _ _ e]) (use assms in \<open>auto simp: aead_ok_def entropy_ok_def\<close>)
  then show ?thesis using assms(3) by (simp add: Credentials_def Encode_nonempty codec_ok_def)
qed

definition merged :: "credentials \<Rightarrow> tokens \<Rightarrow> credentials" where
  "merged c ts = c\<lparr>cr_access_token := tn_access_token ts,
     cr_refresh_token := (if tn_refresh_token ts = [] then cr_refresh_token c else tn_refresh_token ts)\<rparr>"

text \<open>The columns of the row of a mailbox that storing tokens does not touch\<close>

abbreviation same_but_tokens :: "mail_account \<Rightarrow> mail_account \<Rightarrow> bool" where
  "same_but_tokens a row \<equiv> row = a\<lparr>ma_credentials := ma_credentials row, ma_token_expires_at := ma_token_expires_at row,
     ma_scopes := ma_scopes row, ma_created_at := ma_created_at row, ma_updated_at := ma_updated_at row\<rparr>"

lemma store_tokens_ok:
  assumes ok: "aead_ok (rs_cipher R)" "entropy_ok w" "codec_ok R (merged creds ts)"
    and run: "run_state (store_tokens R account creds ts) w = ((account', Inr ()), w')"
    and there: "has_id ma_id (ma_id account) (accounts_of (wdb w))"
  shows "\<exists>row. accounts_of (wdb w') = update_where (\<lambda>a. ma_id a = ma_id account) (\<lambda>_. row) (accounts_of (wdb w))
    \<and> same_but_tokens account row \<and> Credentials R row = Inr (merged creds ts)
    \<and> ma_token_expires_at row = (if tn_expires_at ts > 0 then Some (tn_expires_at ts) else ma_token_expires_at account)
    \<and> ma_credentials account' = ma_credentials row"
proof -
  let ?c = "merged creds ts"
  have c: "(if tn_refresh_token ts \<noteq> []
      then creds\<lparr>cr_access_token := tn_access_token ts, cr_refresh_token := tn_refresh_token ts\<rparr>
      else creds\<lparr>cr_access_token := tn_access_token ts\<rparr>) = ?c"
    by (simp add: merged_def)
  note run' = run [unfolded store_tokens_def Let_def c]
  obtain r w1 where e: "run_state (Encrypt_credentials R ?c) w = (r, w1)" by (cases "run_state (Encrypt_credentials R ?c) w")
  with run' obtain stored where r: "r = Inr stored" by (cases r) auto
  define b where "b = account\<lparr>ma_credentials := stored,
       ma_token_expires_at := (if tn_expires_at ts > 0 then Some (tn_expires_at ts) else ma_token_expires_at account),
       ma_scopes := (if tn_scopes ts \<noteq> [] then Some (join '' '' (tn_scopes ts)) else ma_scopes account)\<rparr>"
  have w1: "wdb w1 = wdb w" using e by (rule same_run) (rule pres)
  obtain row where a': "account' = b" and up: "run_state (Repo_Update accounts_table b) w1 = (Inr row, w')"
    using run' e r by (auto simp: b_def split: prod.splits sum.splits)
  obtain n where row: "row = tb_stamp accounts_table n (tb_touch accounts_table n b)"
    and sv: "save_row accounts_table row (wdb w1) = (Inr row, wdb w')"
    using Repo_Update_ok [OF up] by blast
  have "ma_id row = ma_id account" by (simp add: row b_def accounts_table_def)
  then have "wdb w' = (wdb w)\<lparr>accounts_of := update_where (\<lambda>a. ma_id a = ma_id account) (\<lambda>_. row) (accounts_of (wdb w))\<rparr>"
    using sv there by (auto simp: save_row_def w1 split: if_splits) (auto simp: accounts_table_def)
  then have "accounts_of (wdb w') = update_where (\<lambda>a. ma_id a = ma_id account) (\<lambda>_. row) (accounts_of (wdb w))"
    by simp
  moreover have st: "stored = ma_credentials row" by (simp add: row b_def accounts_table_def)
  then have "Credentials R row = Inr ?c"
    using Credentials_Encrypt [OF ok e [unfolded r], of row] by simp
  moreover have "same_but_tokens account row" "ma_credentials account' = ma_credentials row"
      "ma_token_expires_at row = (if tn_expires_at ts > 0 then Some (tn_expires_at ts) else ma_token_expires_at account)"
    by (simp_all add: row b_def a' accounts_table_def)
  ultimately show ?thesis by blast
qed

definition renewed :: "credentials \<Rightarrow> raw_token \<Rightarrow> credentials" where
  "renewed creds t = creds\<lparr>cr_access_token := tk_access_token t,
     cr_refresh_token := (if tk_refresh_token t = [] then cr_refresh_token creds else tk_refresh_token t)\<rparr>"

text \<open>C14: A renewed token is stored, and never at the price of the way to renew: when the token of the
  mailbox is due and the provider answers the stored refresh token with a new access token, then
  after a successful renewal the row of the mailbox decrypts to its old credentials with the new
  access token; the stored refresh token is kept unless the answer brought another one, user name
  and password always are, the time of expiry is the one of the answer when it has one, and no
  other column and no other mailbox is touched.\<close>

theorem renewal_is_stored:
  assumes ok: "aead_ok (rs_cipher R)" "entropy_ok w" "codec_ok R (renewed creds t)"
    and row: "take_first (\<lambda>a. ma_id a = ma_id account) (accounts_of (wdb w)) = Some account"
    and due: "ma_auth_mode account = AuthXOAuth2" "ma_token_expires_at account = Some at"
      "at \<le> unix_milli (clock w (ticks w) + refreshWindow)"
    and answer: "Credentials R account = Inr creds" "oc_source c (cr_refresh_token creds) = Inr t"
    and run: "run_state (refresh_locked R c account) w = ((account', Inr ()), w')"
  shows "\<exists>new. accounts_of (wdb w') = update_where (\<lambda>a. ma_id a = ma_id account) (\<lambda>_. new) (accounts_of (wdb w))
    \<and> Credentials R new = Inr (renewed creds t) \<and> same_but_tokens account new
    \<and> ma_token_expires_at new = (case tk_expiry t of
          Some e \<Rightarrow> if unix_milli e > 0 then Some (unix_milli e) else Some at | None \<Rightarrow> Some at)
    \<and> ma_credentials account' = ma_credentials new"
proof -
  obtain f w1 where f: "run_state (reload (ma_id account)) w = (f, w1)" by fastforce
  have w1: "wdb w1 = wdb w" "clock w1 = clock w" "ticks w1 = ticks w" "entropy w1 = entropy w" "f = None \<or> f = Some account"
    using f row by (auto simp: reload_def Repo_FindById_def query_def run_stmt take_row_def accounts_table_def split: option.splits)
  obtain w2 where stale: "run_state (case f of None \<Rightarrow> ret True | Some fresh \<Rightarrow> needsRefresh fresh) w1 = (True, w2)"
    and w2: "wdb w2 = wdb w" "entropy w2 = entropy w"
    using w1 due by (auto simp: needsRefresh_def)
  obtain ts where ts: "OAuth_Refresh (rs_unicode R) c (cr_refresh_token creds) = Inr ts"
    and store: "run_state (store_tokens R account creds ts) w2 = ((account', Inr ()), w')"
    using run f stale answer(1)
    by (cases "OAuth_Refresh (rs_unicode R) c (cr_refresh_token creds)")
       (auto simp: refresh_locked_def handleRefreshFailure_def Let_def split: err.splits prod.splits)
  have m: "merged creds ts = renewed creds t" and e: "tn_expires_at ts = (case tk_expiry t of None \<Rightarrow> 0 | Some e \<Rightarrow> unix_milli e)"
    using ts answer(2)
    by (auto simp: OAuth_Refresh_def convert_def merged_def renewed_def Let_def split: if_splits)
  have "has_id ma_id (ma_id account) (accounts_of (wdb w2))"
    using take_first_Some [OF row] by (auto simp: w2 list_ex_iff)
  from store_tokens_ok [OF ok(1) _ _ store this] ok(2,3) w2
  obtain new where "accounts_of (wdb w') = update_where (\<lambda>a. ma_id a = ma_id account) (\<lambda>_. new) (accounts_of (wdb w))"
      "same_but_tokens account new" "Credentials R new = Inr (renewed creds t)"
      "ma_token_expires_at new = (if tn_expires_at ts > 0 then Some (tn_expires_at ts) else ma_token_expires_at account)"
      "ma_credentials account' = ma_credentials new"
    by (auto simp: entropy_ok_def m)
  then show ?thesis
    by (intro exI [of _ new]) (simp add: e due(2) split: option.splits)
qed

definition sample_tokens :: tokens where
  "sample_tokens = \<lparr>tn_access_token = ''new'', tn_refresh_token = [], tn_expires_at = 9,
     tn_scopes = [''mail''], tn_id_token = []\<rparr>"

definition old_credentials :: credentials where
  "old_credentials = \<lparr>cr_username = [], cr_password = [], cr_access_token = ''old'', cr_refresh_token = ''keep''\<rparr>"

definition sample_resolver :: resolver where
  "sample_resolver = \<lparr>rs_unicode = sample_unicode,
     rs_ttls = \<lparr>ttl_user = Minute, ttl_reset = Hour, ttl_dashboard = Minute, ttl_provider = Minute, ttl_oauth = Minute\<rparr>,
     rs_cached = True, rs_clients = Map.empty, rs_oauth = Map.empty, rs_cipher = mirror_box,
     rs_unmarshal = (\<lambda>s. let c = merged old_credentials sample_tokens in
        if s = Encode sample_unicode c then c
        else if s = Encode sample_unicode old_credentials then old_credentials else no_credentials),
     rs_done = (\<lambda>_. False)\<rparr>"

definition expired_box :: mail_account where
  "expired_box = box\<lparr>ma_auth_mode := AuthXOAuth2, ma_token_expires_at := Some 5,
     ma_credentials := EncodeToString (''nn'' @ rev (Encode sample_unicode old_credentials))\<rparr>"

definition google :: oauth_client where
  "google = \<lparr>oc_slug = ''gmail'', oc_scopes = [''mail''], oc_authorize_url = (\<lambda>_. []), oc_exchange = (\<lambda>_. Inl (OtherError [])),
     oc_source = (\<lambda>_. Inr \<lparr>tk_access_token = ''new'', tk_refresh_token = [], tk_expiry = Some (9 * Millisecond),
       tk_scope = None, tk_id_token = None\<rparr>), oc_identify = (\<lambda>_. Inl ErrInternal)\<rparr>"

abbreviation expired_world :: world where
  "expired_world \<equiv> sample_world\<lparr>wdb := sample_db\<lparr>accounts_of := [expired_box]\<rparr>\<rparr>"

lemma EncodeToString_nonempty: "EncodeToString s = [] \<Longrightarrow> s = []"
  using DecodeString_EncodeToString [of s] DecodeString_EncodeToString [of "[]"] by simp

lemma renewed_google: "oc_source google r = Inr t \<Longrightarrow> renewed old_credentials t = merged old_credentials sample_tokens"
  by (auto simp: google_def renewed_def merged_def sample_tokens_def)

theorem renewal_is_stored_witness:
  "\<exists>account' w' new. run_state (refresh_locked sample_resolver google expired_box) expired_world = ((account', Inr ()), w')
    \<and> accounts_of (wdb w') = [new] \<and> ma_token_expires_at new = Some 9
    \<and> (\<exists>c. Credentials sample_resolver new = Inr c \<and> cr_refresh_token c = ''keep'' \<and> cr_access_token c = ''new'')"
proof -
  have "EncodeToString (CHR ''n'' # CHR ''n'' # s) \<noteq> []" for s
    using EncodeToString_nonempty by blast
  moreover have "Encode sample_unicode old_credentials \<noteq> Encode sample_unicode (merged old_credentials sample_tokens)"
    by code_simp
  ultimately have creds: "Credentials sample_resolver expired_box = Inr old_credentials"
    by (simp add: Credentials_def Decrypt_def expired_box_def sample_resolver_def mirror_box_def
        DecodeString_EncodeToString Encode_nonempty Let_def)
  let ?ts = "\<lparr>tn_access_token = ''new'', tn_refresh_token = ''keep'', tn_expires_at = 9, tn_scopes = [''mail''], tn_id_token = []\<rparr>"
  let ?w = "expired_world\<lparr>stmts := Suc 0, ticks := Suc 0\<rparr>"
  have "run_state (reload (ma_id expired_box)) expired_world = (Some expired_box, expired_world\<lparr>stmts := Suc 0\<rparr>)"
    by (simp add: reload_def Repo_FindById_def take_row_def accounts_table_def sample_defs)
  moreover have "run_state (needsRefresh expired_box) (expired_world\<lparr>stmts := Suc 0\<rparr>) = (True, ?w)"
    by (simp add: needsRefresh_def expired_box_def unix_milli_def sample_defs)
  moreover have "OAuth_Refresh (rs_unicode sample_resolver) google (cr_refresh_token old_credentials) = Inr ?ts"
    by (simp add: OAuth_Refresh_def convert_def google_def old_credentials_def Let_def unix_milli_def)
  ultimately have due: "run_state (refresh_locked sample_resolver google expired_box) expired_world
      = run_state (store_tokens sample_resolver expired_box old_credentials ?ts) ?w"
    by (simp add: refresh_locked_def creds)
  obtain account' w' where run: "run_state (refresh_locked sample_resolver google expired_box) expired_world = ((account', Inr ()), w')"
    unfolding due
    by (simp add: store_tokens_def Encrypt_credentials_def Encrypt_def Encode_nonempty sample_resolver_def
        mirror_box_def Let_def Repo_Update_def save_row_def accounts_table_def unique_on_def expired_box_def sample_defs)
  obtain t where t: "oc_source google (cr_refresh_token old_credentials) = Inr t" "tk_expiry t = Some (9 * Millisecond)"
    by (simp add: google_def)
  have "codec_ok sample_resolver (renewed old_credentials t)"
    unfolding renewed_google [OF t(1)] by (simp add: codec_ok_def sample_resolver_def Let_def)
  from renewal_is_stored [OF _ _ this _ _ _ _ creds t(1) run, of 5] obtain new where
    "accounts_of (wdb w') = [new]" "Credentials sample_resolver new = Inr (renewed old_credentials t)"
    "ma_token_expires_at new = Some 9"
    by (auto simp: aead_ok_def entropy_ok_def sample_resolver_def mirror_box_def expired_box_def unix_milli_def t(2) sample_defs)
  with run show ?thesis unfolding renewed_google [OF t(1)]
    by (auto simp: merged_def old_credentials_def sample_tokens_def)
qed

text \<open>A provider outage parks no mailbox and a revoked grant parks exactly this one: only
  \<open>invalid_grant\<close> (or no refresh token at all) sets the status to error; any other failure to
  renew leaves the account struct and every row as they were and is reported as 502.\<close>

lemma refresh_failure:
  assumes "db_up w" and "has_id ma_id (ma_id account) (accounts_of (wdb w))"
    and "tb_check accounts_table (wdb w) account"
  shows "case e of
      Revoked _ \<Rightarrow> fst (run_state (handleRefreshFailure account e) w) =
          (account\<lparr>ma_status := MailAccountStatusError, ma_last_error := Some revokedMessage\<rparr>,
           Inl (HttpErr 424 revokedMessage))
        \<and> (\<exists>n. accounts_of (wdb (snd (run_state (handleRefreshFailure account e) w))) =
             update_where (\<lambda>x. ma_id x = ma_id account)
               (\<lambda>_. account\<lparr>ma_status := MailAccountStatusError, ma_last_error := Some revokedMessage,
                  ma_created_at := if_zero (ma_created_at account) n, ma_updated_at := if_zero n n\<rparr>)
               (accounts_of (wdb w)))
    | _ \<Rightarrow> run_state (handleRefreshFailure account e) w = ((account, Inl (HttpErr 502
        (''could not renew the access token for this mailbox: '' @ err_text e))), w)"
proof (cases e)
  case (Revoked m)
  then show ?thesis using assms
    by (auto simp: handleRefreshFailure_def Let_def Repo_Update_def save_row_def accounts_table_def unique_on_def
        split: if_splits intro!: exI [of _ "unix_milli (clock w (ticks w))"])
qed (simp_all add: handleRefreshFailure_def)

text \<open>The provider cache fails open: while no redis command answers, looking a provider up
  gives exactly what the database gives, never \<open>unknown provider\<close> for a known one.\<close>

lemma Row_fails_open:
  assumes "\<And>n. redis_faults w n" and "db_up w"
  shows "fst (run_state (Row R slug) w) =
    (case take_row (\<lambda>p. mp_slug p = slug) (providers_of (wdb w)) of
       Inl _ \<Rightarrow> Inl (unknownProvider R slug) | Inr p \<Rightarrow> Inr p)"
  using assms
  by (auto simp: Row_def Row_uncached_def remember_def Remember_def Cache_Set_def Provider_Lookup_def
      Cache_Get_def cmd_defs run_redis_cmd MailProvider_FindBySlug_def db_up_def query_def run_stmt
      split: sum.splits)

end
