(* ===== verification/Pipeline.thy ===== *)
theory Pipeline
  imports Resolver
begin

text \<open>
  internal/usecase/pipeline_usecase.go and tuning.go: claim the mailboxes that are due, fetch
  each one, test every active watcher against every message, record the matches and schedule
  the first occurrence of each event.  The remote calls (\<open>cl_fetch\<close>) are the resolver's
  client; the order in which the worker pool works through a batch is the parameter \<open>pool\<close>.
\<close>

record pipeline =
  pl_resolver :: resolver
  pl_matcher :: matcher

record sync_response =
  sy_sync_run_id :: string
  sy_messages_fetched :: int
  sy_matches_created :: int
  sy_status :: string

definition tuning_limit :: "int \<Rightarrow> int" where
  "tuning_limit concurrency = (if concurrency < 1 then 1 else concurrency)"

subsection \<open>Scheduling\<close>

definition first_run :: "watcher \<Rightarrow> matched_email \<Rightarrow> watcher_event \<Rightarrow> int \<Rightarrow> string \<Rightarrow> event_run" where
  "first_run watcher match ev at i =
     \<lparr>er_id = i, er_user_id = wa_user_id watcher, er_matched_email_id = me_id match,
      er_watcher_event_id = we_id ev, er_occurrence = 1, er_status = RunStatusPending,
      er_scheduled_at = at, er_started_at = None, er_finished_at = None, er_attempt = 0,
      er_max_attempts = 3, er_next_retry_at = None,
      er_config_snapshot = JSONOrEmpty (we_config ev) ''{}'', er_result = [], er_error = None,
      er_acknowledged_at = None, er_created_at = 0, er_updated_at = 0\<rparr>"

definition ScheduleEvents :: "watcher \<Rightarrow> matched_email \<Rightarrow> unit ioE" where
  "ScheduleEvents watcher match =
     bindE (FindEnabledByWatcher (wa_id watcher)) (\<lambda>events.
     State_Monad.bind time_now (\<lambda>now.
     State_Monad.bind (for_each events (\<lambda>ev. do {
       i \<leftarrow> new_uuid;
       ignoreE (Repo_Create runs_table (first_run watcher match ev
         (unix_milli (now + duration (we_delay_seconds ev) Second)) i)) })) (\<lambda>_.
     returnE ())))"

subsection \<open>Matching\<close>

definition match_row ::
  "unicode \<Rightarrow> mail_account \<Rightarrow> watcher \<Rightarrow> message \<Rightarrow> match_result \<Rightarrow> string \<Rightarrow> int \<Rightarrow> matched_email" where
  "match_row U account watcher m outcome i now =
     \<lparr>me_id = i, me_user_id = wa_user_id watcher, me_watcher_id = wa_id watcher,
      me_mail_account_id = ma_id account, me_message_id = mg_message_id m,
      me_provider_uid = mg_uid m, me_subject = nilIfEmpty (mg_subject m),
      me_from_address = nilIfEmpty (mg_from_address m), me_from_name = nilIfEmpty (mg_from_name m),
      me_to_addresses = nilIfEmpty (join '', '' (mg_to m)),
      me_snippet = nilIfEmpty (truncate_str (mg_body_text m) 500),
      me_has_attachment = mg_has_attachment m, me_size_bytes = mg_size_bytes m,
      me_received_at = mg_received_at m, me_matched_at = now,
      me_matched_filters = json_strings U (mr_descriptions outcome),
      me_created_at = 0, me_updated_at = 0\<rparr>"

definition recordMatch ::
  "pipeline \<Rightarrow> mail_account \<Rightarrow> watcher \<Rightarrow> message \<Rightarrow> match_result \<Rightarrow> (matched_email \<times> bool) ioE" where
  "recordMatch P account watcher m outcome = do {
     i \<leftarrow> new_uuid;
     now \<leftarrow> now_milli;
     bindE (CreateIfNew (match_row (mx_unicode (pl_matcher P)) account watcher m outcome i now))
       (\<lambda>(match, isNew).
       if \<not> isNew then returnE (match, False)
       else State_Monad.bind (ignoreE (RecordMatch (wa_id watcher) (me_matched_at match)))
         (\<lambda>_. returnE (match, True))) }"

text \<open>The two guards of the loop before the filters are tried\<close>

definition before_start :: "watcher \<Rightarrow> message \<Rightarrow> bool" where
  "before_start w m = (case wa_watch_from w of None \<Rightarrow> False | Some t \<Rightarrow> mg_received_at m < t)"

definition cooling :: "watcher \<Rightarrow> bool io" where
  "cooling w = (case wa_last_matched_at w of
       None \<Rightarrow> ret False
     | Some t \<Rightarrow> if wa_cooldown_seconds w > 0
         then do { now \<leftarrow> now_milli; ret (now - t < wa_cooldown_seconds w * 1000) }
         else ret False)"

fun evaluate :: "pipeline \<Rightarrow> mail_account \<Rightarrow> (string \<Rightarrow> watcher_filter list) \<Rightarrow> message
    \<Rightarrow> watcher list \<Rightarrow> int \<Rightarrow> int ioE" where
  "evaluate P account filtersByWatcher m [] created = returnE created"
| "evaluate P account filtersByWatcher m (w # ws) created =
     (if before_start w m then evaluate P account filtersByWatcher m ws created
      else do {
        cool \<leftarrow> cooling w;
        (if cool then evaluate P account filtersByWatcher m ws created
         else let outcome = EvaluateFilters (pl_matcher P) w (filtersByWatcher (wa_id w)) m in
         if \<not> mr_matched outcome then evaluate P account filtersByWatcher m ws created
         else bindE (recordMatch P account w m outcome) (\<lambda>(match, isNew).
           if \<not> isNew then evaluate P account filtersByWatcher m ws created
           else State_Monad.bind (ignoreE (ScheduleEvents w match)) (\<lambda>_.
             evaluate P account filtersByWatcher m ws (created + 1)))) })"

text \<open>The message loop: an error is logged, and what the message had created is not counted.\<close>

fun evaluate_all :: "pipeline \<Rightarrow> mail_account \<Rightarrow> (string \<Rightarrow> watcher_filter list) \<Rightarrow> watcher list
    \<Rightarrow> message list \<Rightarrow> int \<Rightarrow> int io" where
  "evaluate_all P account fs ws [] n = ret n"
| "evaluate_all P account fs ws (m # ms) n = do {
     r \<leftarrow> evaluate P account fs m ws 0;
     evaluate_all P account fs ws ms (case r of Inl _ \<Rightarrow> n | Inr created \<Rightarrow> n + created) }"

subsection \<open>Syncing one account\<close>

definition finish_sync :: "mail_sync_run \<Rightarrow> string \<Rightarrow> int \<Rightarrow> int \<Rightarrow> err option \<Rightarrow> unit io" where
  "finish_sync run status fetched matched cause = do {
     now \<leftarrow> now_milli;
     ignoreE (Repo_Update sync_runs_table (run\<lparr>sr_status := status, sr_finished_at := Some now,
       sr_messages_fetched := fetched, sr_matches_created := matched,
       sr_error := (case cause of None \<Rightarrow> sr_error run | Some e \<Rightarrow> Some (err_text e))\<rparr>)) }"

definition sync_folder :: "watcher list \<Rightarrow> string" where
  "sync_folder ws = (case ws of [] \<Rightarrow> ''INBOX'' | w # _ \<Rightarrow> if wa_folder w \<noteq> [] then wa_folder w else ''INBOX'')"

definition sync_messages :: "pipeline \<Rightarrow> mail_sync_run \<Rightarrow> mail_account \<Rightarrow> watcher list \<Rightarrow> fetch_result
    \<Rightarrow> sync_response on_account" where
  "sync_messages P run account ws result = do {
     f \<leftarrow> FindByWatchers (map wa_id ws);
     (case f of
        Inl e \<Rightarrow> do { finish_sync run SyncStatusError 0 0 (Some e); ret (account, Inl ErrInternal) }
      | Inr filtersByWatcher \<Rightarrow> do {
          created \<leftarrow> evaluate_all P account filtersByWatcher ws (fr_messages result) 0;
          now \<leftarrow> now_milli;
          let account' = account\<lparr>ma_last_synced_at := Some now, ma_last_error := None,
            ma_sync_state := (if fr_cursor result \<noteq> [] then fr_cursor result else ma_sync_state account)\<rparr>;
          ignoreE (Repo_Update accounts_table account');
          finish_sync run SyncStatusOK (int (length (fr_messages result))) created None;
          ret (account', Inr \<lparr>sy_sync_run_id = sr_id run,
            sy_messages_fetched = int (length (fr_messages result)),
            sy_matches_created = created, sy_status = SyncStatusOK\<rparr>) }) }"

definition sync_fetch :: "pipeline \<Rightarrow> mail_sync_run \<Rightarrow> mail_account \<Rightarrow> mail_client \<Rightarrow> mail_target
    \<Rightarrow> sync_response on_account" where
  "sync_fetch P run account client target = do {
     ws \<leftarrow> FindActiveByMailAccount (ma_id account);
     (case ws of
        Inl e \<Rightarrow> do { finish_sync run SyncStatusError 0 0 (Some e); ret (account, Inl ErrInternal) }
      | Inr watchers \<Rightarrow>
         (case cl_fetch client target \<lparr>fq_folder = sync_folder watchers, fq_since = 0,
                fq_cursor = ma_sync_state account, fq_limit = 200\<rparr> of
            Inl e \<Rightarrow> do {
              finish_sync run SyncStatusError 0 0 (Some e);
              let account' = account\<lparr>ma_status := MailAccountStatusError, ma_last_error := Some (err_text e)\<rparr>;
              ignoreE (Repo_Update accounts_table account');
              ret (account', Inl (HttpErr 422 (err_text e))) }
          | Inr result \<Rightarrow> sync_messages P run account watchers result)) }"

definition SyncAccount :: "pipeline \<Rightarrow> mail_account \<Rightarrow> sync_response on_account" where
  "SyncAccount P account = do {
     i \<leftarrow> new_uuid;
     now \<leftarrow> now_milli;
     let run = \<lparr>sr_id = i, sr_mail_account_id = ma_id account, sr_status = SyncStatusRunning,
       sr_started_at = now, sr_finished_at = None, sr_messages_fetched = 0, sr_matches_created = 0,
       sr_error = None, sr_created_at = 0, sr_updated_at = 0\<rparr>;
     opened \<leftarrow> Repo_Create sync_runs_table run;
     (case opened of
        Inl _ \<Rightarrow> ret (account, Inl ErrInternal)
      | Inr syncRun \<Rightarrow> do {
          r \<leftarrow> Resolve (pl_resolver P) account;
          (case r of
             (account', Inl e) \<Rightarrow> do {
               finish_sync syncRun SyncStatusError 0 0 (Some e);
               ret (account', Inl e) }
           | (account', Inr (client, target)) \<Rightarrow> sync_fetch P syncRun account' client target) }) }"

subsection \<open>Polling\<close>

definition claim_account :: "mail_account \<Rightarrow> unit ioE" where
  "claim_account a = State_Monad.bind time_now (\<lambda>t.
     bindE (Repo_UpdateWhere accounts_table (\<lambda>x. ma_id x = ma_id a)
       (\<lambda>x. x\<lparr>ma_next_poll_at := unix_milli (t + duration (ma_poll_interval_seconds a) Second)\<rparr>))
       (\<lambda>_. returnE ()))"

definition claim_accounts :: "(string \<Rightarrow> bool) \<Rightarrow> int \<Rightarrow> mail_account list ioE" where
  "claim_accounts locked limit = tx_scope (State_Monad.bind now_milli (\<lambda>now.
     bindE (FindDue locked now limit) (\<lambda>accounts.
     bindE (forE accounts claim_account) (\<lambda>_.
     bindE commit (\<lambda>_. returnE accounts)))))"

definition syncBatch :: "pipeline \<Rightarrow> (mail_account list \<Rightarrow> mail_account list) \<Rightarrow> mail_account list \<Rightarrow> unit io" where
  "syncBatch P pool accounts = for_each (pool accounts)
     (\<lambda>a. State_Monad.bind (SyncAccount P a) (\<lambda>_. ret ()))"

definition PollDue ::
  "pipeline \<Rightarrow> (mail_account list \<Rightarrow> mail_account list) \<Rightarrow> (string \<Rightarrow> bool) \<Rightarrow> int \<Rightarrow> int ioE" where
  "PollDue P pool locked limit =
     bindE (claim_accounts locked limit) (\<lambda>accounts.
     State_Monad.bind (syncBatch P pool accounts) (\<lambda>_. returnE (int (length accounts))))"

subsection \<open>Invariants through a sync\<close>

lemma pres_cooling [pres]: "preserves (db_inv K) (cooling w)" "preserves db_up (cooling w)"
  unfolding cooling_def by (intro pres)+

lemma pres_evaluate:
  assumes "\<And>w out. w \<in> set ws \<Longrightarrow> preserves I (recordMatch P a w m out)"
    and "\<And>w x. w \<in> set ws \<Longrightarrow> preserves I (ScheduleEvents w x)"
    and "\<And>w. preserves I (cooling w)"
  shows "preserves I (evaluate P a fs m ws n)"
  using assms
proof (induction ws arbitrary: n)
  case (Cons w ws)
  have "preserves I (evaluate P a fs m ws n)" for n using Cons by simp
  with Cons.prems show ?case
    unfolding evaluate.simps Let_def by (intro pres) simp_all
qed (simp add: pres)

lemma pres_evaluate_all:
  assumes "\<And>m n. preserves I (evaluate P a fs m ws n)"
  shows "preserves I (evaluate_all P a fs ws ms n)"
proof (induction ms arbitrary: n)
  case (Cons m ms)
  show ?case unfolding evaluate_all.simps by (intro pres assms Cons.IH)
qed (simp add: pres)

lemma up_pipeline_steps [pres]:
  "preserves db_up (recordMatch P a w m out)"
  "preserves db_up (ScheduleEvents w x)"
  "preserves db_up (finish_sync r s f n c)"
  "preserves db_up (FindActiveByMailAccount i)"
  "preserves db_up (FindByWatchers ids)"
  unfolding recordMatch_def ScheduleEvents_def finish_sync_def FindActiveByMailAccount_def FindByWatchers_def
  by (intro pres)+

lemma up_evaluate_all [pres]: "preserves db_up (evaluate_all P a fs ws ms n)"
  by (intro pres_evaluate_all pres_evaluate pres)

text \<open>The parts of a sync, for an invariant that its writes to accounts and sync runs keep\<close>

lemma pres_sync_fetch:
  assumes run: "\<And>r. sr_id r = sr_id run \<Longrightarrow> sr_mail_account_id r = sr_mail_account_id run \<Longrightarrow>
      preserves (db_inv K) (Repo_Update sync_runs_table r)"
    and acc: "\<And>x. ma_id x = ma_id a \<Longrightarrow> preserves (db_inv K) (Repo_Update accounts_table x)"
    and eval: "\<And>b fs ws ms n. preserves (db_inv K) (evaluate_all P b fs ws ms n)"
  shows "preserves (db_inv K) (sync_fetch P run a client target)"
proof -
  have fin: "preserves (db_inv K) (finish_sync run s f n c)" for s f n c
    unfolding finish_sync_def by (intro pres run) simp_all
  have "preserves (db_inv K) (sync_messages P run a ws res)" for ws res
    unfolding sync_messages_def Let_def by (intro pres fin eval acc) simp_all
  then show ?thesis
    unfolding sync_fetch_def Let_def by (intro pres fin acc) simp_all
qed

lemma pres_SyncAccount:
  assumes create: "\<And>r. preserves (db_inv K) (Repo_Create sync_runs_table r)"
    and run: "\<And>r. preserves (db_inv K) (Repo_Update sync_runs_table r)"
    and acc: "\<And>x. preserves (db_inv K) (Repo_Update accounts_table x)"
    and eval: "\<And>b fs ws ms n. preserves (db_inv K) (evaluate_all P b fs ws ms n)"
  shows "preserves (db_inv K) (SyncAccount P a)"
proof -
  have "preserves (db_inv K) (finish_sync r s f n c)" for r s f n c
    unfolding finish_sync_def by (intro pres run)
  moreover have "preserves (db_inv K) (sync_fetch P r b client target)" for r b client target
    by (intro pres_sync_fetch run acc eval)
  ultimately show ?thesis
    unfolding SyncAccount_def Let_def by (intro pres create pres_Resolve acc)
qed

lemma pres_sync_runs:
  assumes "\<And>d xs. K d \<Longrightarrow> K (d\<lparr>sync_runs_of := xs\<rparr>)"
  shows "preserves (db_inv K) (Repo_Create sync_runs_table r)"
    and "preserves (db_inv K) (Repo_Update sync_runs_table r)"
  using assms
  by (auto intro!: pres_Repo_Create pres_Repo_Update simp: insert_row_def save_row_def)
     (simp_all add: sync_runs_table_def)

subsection \<open>Mail that is fetched again\<close>

definition match_slot :: "matched_email \<Rightarrow> string \<times> string" where
  "match_slot m = (me_watcher_id m, me_message_id m)"

lemma pres_ScheduleEvents:
  assumes "\<And>d xs. K d \<Longrightarrow> K (d\<lparr>runs_of := xs\<rparr>)"
  shows "preserves (db_inv K) (ScheduleEvents w x)"
proof -
  have "preserves (db_inv K) (Repo_Create runs_table r)" for r
    using assms by (intro pres_Repo_Create) (simp add: insert_row_def, simp add: runs_table_def)
  then show ?thesis unfolding ScheduleEvents_def by (intro pres)
qed

lemma pres_recordMatch:
  assumes "\<And>d xs. K d \<Longrightarrow> K (d\<lparr>watchers_of := xs\<rparr>)" and "\<And>d m. K d \<Longrightarrow> K (snd (insert_if_new m d))"
  shows "preserves (db_inv K) (recordMatch P a w m out)"
proof -
  have "preserves (db_inv K) (CreateIfNew x)" for x
    unfolding CreateIfNew_def using assms(2) by (intro pres pres_stmt)
  moreover have "preserves (db_inv K) (RecordMatch i t)" for i t
    unfolding RecordMatch_def using assms(1)
    by (intro pres pres_Repo_UpdateWhere) (simp add: watchers_table_def)
  ultimately show ?thesis unfolding recordMatch_def by (intro pres)
qed

definition sample_pipeline :: "mail_client \<Rightarrow> pipeline" where
  "sample_pipeline c = \<lparr>pl_resolver = sample_resolver\<lparr>rs_clients := [''oauth'' \<mapsto> c]\<rparr>,
     pl_matcher = \<lparr>mx_unicode = sample_unicode, mx_regexp = (\<lambda>_. None)\<rparr>\<rparr>"

definition letter :: "string \<Rightarrow> message" where
  "letter i = \<lparr>mg_message_id = i, mg_uid = i, mg_subject = ''invoice'', mg_from_address = ''a@x'',
     mg_from_name = [], mg_to = [], mg_cc = [], mg_body_text = ''pay'', mg_headers = [],
     mg_has_attachment = False, mg_attachment_names = [], mg_size_bytes = 3, mg_received_at = 5\<rparr>"

definition post_box :: mail_client where
  "post_box = \<lparr>cl_describe = \<lparr>ds_kind = ''oauth'', ds_label = [], ds_auth_modes = [],
       ds_capabilities = \<lparr>cp_folders = False, cp_labels = False, cp_push = False, cp_idle = False,
         cp_server_search = False\<rparr>, ds_config_schema = \<lparr>sc_fields = []\<rparr>\<rparr>,
     cl_verify = (\<lambda>_. Inr []),
     cl_fetch = (\<lambda>_ _. Inr \<lparr>fr_messages = [letter ''<1@x>'', letter ''<2@x>''], fr_cursor = ''c''\<rparr>),
     cl_folders = None\<rparr>"

definition seen :: "database \<Rightarrow> message \<Rightarrow> watcher \<Rightarrow> bool" where
  "seen d m w = list_ex (\<lambda>x. me_watcher_id x = wa_id w \<and> me_message_id x = mg_message_id m) (matches_of d)"

lemma recordMatch_seen:
  assumes "db_up w" and "seen (wdb w) m x"
  shows "\<exists>match w'. run_state (recordMatch P a x m out) w = (Inr (match, False), w') \<and> wdb w' = wdb w \<and> db_up w'"
  using assms
  by (simp add: recordMatch_def CreateIfNew_def insert_if_new_def match_row_def matches_table_def seen_def)

lemma run_cooling: "wdb (snd (run_state (cooling x) w)) = wdb w \<and> db_up (snd (run_state (cooling x) w)) = db_up w"
  by (simp add: cooling_def split: option.splits)

lemma evaluate_seen:
  assumes "db_up w" and "list_all (seen (wdb w) m) ws"
  shows "\<exists>w'. run_state (evaluate P a fs m ws n) w = (Inr n, w') \<and> wdb w' = wdb w \<and> db_up w'"
  using assms
proof (induction ws arbitrary: w)
  case (Cons x ws)
  obtain c w1 where c: "run_state (cooling x) w = (c, w1)" by (cases "run_state (cooling x) w")
  with run_cooling [of x w] Cons.prems have w1: "wdb w1 = wdb w" "db_up w1" by simp_all
  obtain match w2 where r: "run_state (recordMatch P a x m (EvaluateFilters (pl_matcher P) x (fs (wa_id x)) m)) w1
      = (Inr (match, False), w2)" "wdb w2 = wdb w" "db_up w2"
    using recordMatch_seen [of w1 m x P a "EvaluateFilters (pl_matcher P) x (fs (wa_id x)) m"] w1 Cons.prems by auto
  show ?case
    using c r w1 Cons.prems Cons.IH [of w] Cons.IH [of w1] Cons.IH [of w2] by (auto simp: Let_def)
qed simp

text \<open>Fetching mail again is harmless: messages every watcher of the account has already
  recorded create no match, schedule no run and leave the database as it was.\<close>

lemma resync_adds_nothing:
  assumes "db_up w" and "list_all (\<lambda>m. list_all (seen (wdb w) m) ws) ms"
  shows "fst (run_state (evaluate_all P account fs ws ms 0) w) = 0
    \<and> wdb (snd (run_state (evaluate_all P account fs ws ms 0) w)) = wdb w"
proof -
  have "\<exists>w'. run_state (evaluate_all P account fs ws ms n) w = (n, w') \<and> wdb w' = wdb w" for n
    using assms
  proof (induction ms arbitrary: w n)
    case (Cons m ms)
    obtain w1 where "run_state (evaluate P account fs m ws 0) w = (Inr 0, w1)" "wdb w1 = wdb w" "db_up w1"
      using evaluate_seen [of w m ws P account fs 0] Cons.prems by auto
    with Cons.IH [of w1 n] Cons.prems show ?case by auto
  qed simp
  from this [of 0] show ?thesis by auto
qed

subsection \<open>What a sync schedules\<close>

definition first_occurrence :: "string \<Rightarrow> database \<Rightarrow> event_run \<Rightarrow> bool" where
  "first_occurrence account d r \<longleftrightarrow> er_occurrence r = 1 \<and> er_status r = RunStatusPending \<and> er_attempt r = 0
     \<and> list_ex (\<lambda>e. we_id e = er_watcher_event_id r \<and> we_enabled e \<and> er_config_snapshot r = JSONOrEmpty (we_config e) ''{}''
          \<and> list_ex (\<lambda>x. wa_id x = we_watcher_id e \<and> wa_user_id x = er_user_id r
               \<and> wa_mail_account_id x = account \<and> wa_status x = WatcherStatusActive) (watchers_of d))
        (events_of d)"

definition adds_first_runs :: "string \<Rightarrow> database \<Rightarrow> database \<Rightarrow> bool" where
  "adds_first_runs account d0 d \<longleftrightarrow> events_of d = events_of d0
     \<and> (\<exists>fs. runs_of d = runs_of d0 @ fs \<and> list_all (first_occurrence account d0) fs)"

lemma FindEnabled_rows:
  assumes "run_state (FindEnabledByWatcher i) w = (Inr es, w')" and "e \<in> set es"
  shows "e \<in> set (events_of (wdb w)) \<and> we_watcher_id e = i \<and> we_enabled e"
  using assms by (auto simp: FindEnabledByWatcher_def query_def run_stmt split: option.splits)

definition watched :: "string \<Rightarrow> database \<Rightarrow> watcher \<Rightarrow> bool" where
  "watched account d x \<longleftrightarrow> x \<in> set (watchers_of d) \<and> wa_mail_account_id x = account \<and> wa_status x = WatcherStatusActive"

lemma Schedule_adds:
  assumes "watched account d0 x"
  shows "preserves (db_inv (adds_first_runs account d0)) (ScheduleEvents x match)"
proof (rule preservesI)
  fix w assume I: "db_inv (adds_first_runs account d0) w"
  show "db_inv (adds_first_runs account d0) (snd (run_state (ScheduleEvents x match) w))"
  proof (cases "run_state (FindEnabledByWatcher (wa_id x)) w")
    case (Pair res w1)
    have I1: "db_inv (adds_first_runs account d0) w1"
      using preserves_run [OF pres_reads(18) I Pair] .
    show ?thesis
    proof (cases res)
      case (Inl e)
      with Pair I1 show ?thesis by (simp add: ScheduleEvents_def)
    next
      case (Inr es)
      have ok: "preserves (db_inv (adds_first_runs account d0))
          (Repo_Create runs_table (first_run x match e at i))" if "e \<in> set es" for e at i
      proof (rule pres_Repo_Create)
        fix d n assume K: "adds_first_runs account d0 d"
        have "e \<in> set (events_of d0) \<and> we_watcher_id e = wa_id x \<and> we_enabled e"
          using FindEnabled_rows [OF Pair [unfolded Inr] that] I by (simp add: db_inv_def adds_first_runs_def)
        then have "first_occurrence account d0 (tb_stamp runs_table n (first_run x match e at i))"
          using assms
          by (simp add: first_occurrence_def first_run_def runs_table_def watched_def list_ex_iff)
             (intro bexI [of _ e] conjI bexI [of _ x], simp_all)
        with K show "adds_first_runs account d0 (snd (insert_row runs_table (tb_stamp runs_table n (first_run x match e at i)) d))"
          by (auto simp: adds_first_runs_def insert_row_def) (auto simp: runs_table_def)
      qed
      have "preserves (db_inv (adds_first_runs account d0)) (for_each es (\<lambda>ev. do {
         i \<leftarrow> new_uuid;
         ignoreE (Repo_Create runs_table (first_run x match ev
           (unix_milli (clock w1 (ticks w1) + duration (we_delay_seconds ev) Second)) i)) }))"
        by (intro preserves_for_each_mem pres ok)
      from preservesD [OF this, of "w1\<lparr>ticks := Suc (ticks w1)\<rparr>"] I1 Pair Inr show ?thesis
        by (auto simp: ScheduleEvents_def db_inv_def split: prod.splits)
    qed
  qed
qed

lemma FindActive_rows:
  assumes "run_state (FindActiveByMailAccount i) w = (Inr ws, w')" and "x \<in> set ws"
  shows "watched i (wdb w) x"
  using assms by (auto simp: FindActiveByMailAccount_def query_def run_stmt watched_def split: option.splits)

lemma adds_first_runs_writes:
  assumes "L = adds_first_runs i d \<or> L = (\<lambda>d'. adds_first_runs i d d' \<and> watchers_of d' = watchers_of d)"
  shows "preserves (db_inv L) (Repo_Create sync_runs_table r)"
    and "preserves (db_inv L) (Repo_Update sync_runs_table r)"
    and "preserves (db_inv L) (Repo_Update accounts_table a)"
  using assms by (auto intro!: pres_sync_runs pres_accounts_update simp: adds_first_runs_def)

lemmas adds_writes = adds_first_runs_writes [OF disjI1 [OF refl]]
lemmas watched_writes = adds_first_runs_writes [OF disjI2 [OF refl]]

lemma finish_sync_adds: "preserves (db_inv (adds_first_runs i d)) (finish_sync r s f n c)"
  unfolding finish_sync_def by (intro pres adds_writes)

lemma sync_messages_adds:
  assumes "\<And>x. x \<in> set ws \<Longrightarrow> watched i d x"
  shows "preserves (db_inv (adds_first_runs i d)) (sync_messages P r a ws result)"
proof -
  have "preserves (db_inv (adds_first_runs i d)) (evaluate_all P b fs ws ms n)" for b fs ms n
    using assms by (intro pres_evaluate_all pres_evaluate pres_recordMatch Schedule_adds pres_cooling)
       (auto simp: adds_first_runs_def insert_if_new_def insert_row_def matches_table_def)
  then show ?thesis
    unfolding sync_messages_def Let_def by (intro pres finish_sync_adds adds_writes)
qed

lemma sync_fetch_adds:
  assumes I: "db_inv (\<lambda>d'. adds_first_runs i d d' \<and> watchers_of d' = watchers_of d) v" and a: "ma_id a = i"
  shows "db_inv (adds_first_runs i d) (snd (run_state (sync_fetch P r a client target) v))"
proof (cases "run_state (FindActiveByMailAccount (ma_id a)) v")
  case (Pair res v1)
  have I1: "db_inv (\<lambda>d'. adds_first_runs i d d' \<and> watchers_of d' = watchers_of d) v1"
    using preserves_run [OF pres_reads(21) I Pair] .
  then have K1: "db_inv (adds_first_runs i d) v1" by (simp add: db_inv_def)
  show ?thesis
  proof (cases res)
    case (Inl e)
    have "preserves (db_inv (adds_first_runs i d))
        (do { finish_sync r SyncStatusError 0 0 (Some e); ret (a, Inl ErrInternal :: err + sync_response) })"
      by (intro pres finish_sync_adds)
    from preservesD [OF this K1] Pair Inl show ?thesis by (simp add: sync_fetch_def)
  next
    case (Inr ws)
    have "watched i d x" if "x \<in> set ws" for x
      using FindActive_rows [OF Pair [unfolded Inr] that] I a by (simp add: db_inv_def watched_def)
    then have "preserves (db_inv (adds_first_runs i d)) (sync_messages P r a ws result)" for result
      by (rule sync_messages_adds)
    moreover have "preserves (db_inv (adds_first_runs i d)) (do {
        finish_sync r SyncStatusError 0 0 (Some e);
        ignoreE (Repo_Update accounts_table b);
        ret (b, Inl e' :: err + sync_response) })" for e e' b
      by (intro pres finish_sync_adds adds_writes)
    ultimately show ?thesis using Pair Inr K1
      by (auto simp: sync_fetch_def Let_def preserves_def split: sum.splits)
  qed
qed

lemma SyncAccount_adds:
  "db_inv (adds_first_runs (ma_id account) (wdb w)) (snd (run_state (SyncAccount P account) w))"
proof -
  let ?d0 = "wdb w" and ?i = "ma_id account"
  let ?K = "adds_first_runs ?i ?d0"
  let ?W = "\<lambda>d. ?K d \<and> watchers_of d = watchers_of ?d0"
  define r0 where "r0 = \<lparr>sr_id = uuids w (uuid_pos w), sr_mail_account_id = ?i, sr_status = SyncStatusRunning,
     sr_started_at = unix_milli (clock w (ticks w)), sr_finished_at = None, sr_messages_fetched = 0,
     sr_matches_created = 0, sr_error = None, sr_created_at = 0, sr_updated_at = 0\<rparr>"
  let ?w = "w\<lparr>uuid_pos := Suc (uuid_pos w), ticks := Suc (ticks w)\<rparr>"
  obtain res w1 where create: "run_state (Repo_Create sync_runs_table r0) ?w = (res, w1)"
    by (cases "run_state (Repo_Create sync_runs_table r0) ?w")
  have I1: "db_inv ?W w1"
    using preserves_run [OF watched_writes(1) _ create, of ?i ?d0] by (simp add: db_inv_def adds_first_runs_def)
  show ?thesis
  proof (cases res)
    case (Inl e)
    with create I1 show ?thesis
      by (simp add: SyncAccount_def Let_def r0_def db_inv_def)
  next
    case (Inr syncRun)
    obtain account' res2 w2 where resolve: "run_state (Resolve (pl_resolver P) account) w1 = ((account', res2), w2)"
      by (metis surj_pair)
    have I2: "db_inv ?W w2"
      by (rule preserves_run [OF pres_Resolve I1 resolve]) (intro watched_writes)
    have same: "ma_id account' = ?i"
      using returnsD [OF returns_Resolve resolve] by (simp add: account_key_def)
    have "preserves (db_inv ?K) (do {
        finish_sync syncRun SyncStatusError 0 0 (Some e); ret (account', Inl e :: err + sync_response) })" for e
      by (intro pres finish_sync_adds)
    then have fails: "db_inv ?K (snd (run_state (do {
        finish_sync syncRun SyncStatusError 0 0 (Some e); ret (account', Inl e :: err + sync_response) }) w2))" for e
      using I2 by (auto simp: preserves_def db_inv_def)
    show ?thesis
      using create Inr resolve sync_fetch_adds [OF I2 same] fails
      by (cases res2) (simp_all add: SyncAccount_def Let_def r0_def split: prod.splits)
  qed
qed

text \<open>C9: A sync changes no run that exists and adds only first occurrences: each run it writes
  is pending, has not been tried, and belongs to an enabled event of an active watcher of
  exactly the synced account, with the watcher's owner and the event's configuration.\<close>

theorem sync_adds_first_runs:
  "\<exists>fs. runs_of (wdb (snd (run_state (SyncAccount P account) w))) = runs_of (wdb w) @ fs
     \<and> list_all (first_occurrence (ma_id account) (wdb w)) fs"
  using SyncAccount_adds [of account w P] by (simp add: db_inv_def adds_first_runs_def)

subsection \<open>How a sync ends\<close>

definition sync_ready :: "string \<Rightarrow> mail_account \<Rightarrow> database \<Rightarrow> bool" where
  "sync_ready i a d \<longleftrightarrow> has_id sr_id i (sync_runs_of d) \<and> has_id ma_id (ma_id a) (accounts_of d)
     \<and> tb_check accounts_table d a"

lemma sync_ready_key: "account_key x = account_key a \<Longrightarrow> sync_ready i x d = sync_ready i a d"
  by (simp add: sync_ready_def accounts_table_def account_key_def unique_on_def)

lemma has_id_update_same:
  "(\<And>x. p x \<Longrightarrow> key (f x) = key x) \<Longrightarrow> has_id key i (update_where p f xs) = has_id key i xs"
  by (induction xs) auto

abbreviation same_owner :: "mail_account \<Rightarrow> mail_account \<Rightarrow> bool" where
  "same_owner x a \<equiv> ma_id x = ma_id a \<and> ma_user_id x = ma_user_id a
     \<and> ma_provider x = ma_provider a \<and> ma_email_address x = ma_email_address a"

lemma ready_accounts_update:
  assumes "same_owner x a"
  shows "preserves (db_inv (sync_ready i a)) (Repo_Update accounts_table x)"
proof (rule pres_Repo_Update)
  fix d n assume K: "sync_ready i a d"
  let ?x = "tb_stamp accounts_table n (tb_touch accounts_table n x)"
  have key: "same_owner ?x a" using assms by (simp add: accounts_table_def)
  show "sync_ready i a (snd (save_row accounts_table ?x d))"
    using K key
    by (simp add: sync_ready_def save_row_def accounts_table_def unique_on_def
        has_id_update_same) (auto simp: list_all_iff set_update_where)
qed

lemma ready_eval: "preserves (db_inv (sync_ready i a)) (evaluate_all P b fs ws ms n)"
  by (intro pres_evaluate_all pres_evaluate pres_recordMatch pres_ScheduleEvents pres_cooling)
     (auto simp: sync_ready_def accounts_table_def insert_if_new_def insert_row_def matches_table_def)

definition closed_run :: "string \<Rightarrow> string \<Rightarrow> string \<Rightarrow> int \<Rightarrow> int \<Rightarrow> database \<Rightarrow> bool" where
  "closed_run i account status fetched created d \<longleftrightarrow>
     (\<exists>row. take_first (\<lambda>r. sr_id r = i) (sync_runs_of d) = Some row \<and> sr_mail_account_id row = account
        \<and> sr_status row = status \<and> sr_finished_at row \<noteq> None
        \<and> sr_messages_fetched row = fetched \<and> sr_matches_created row = created)"

lemma run_finish_sync:
  assumes "db_up w" and "sync_ready (sr_id run) a (wdb w)" and "sr_mail_account_id run = ma_id a"
  shows "closed_run (sr_id run) (ma_id a) s f n (wdb (snd (run_state (finish_sync run s f n c) w)))
    \<and> accounts_of (wdb (snd (run_state (finish_sync run s f n c) w))) = accounts_of (wdb w)
    \<and> db_up (snd (run_state (finish_sync run s f n c) w))"
proof -
  let ?r = "run\<lparr>sr_status := s, sr_finished_at := Some (unix_milli (clock w (ticks w))),
       sr_messages_fetched := f, sr_matches_created := n,
       sr_error := (case c of None \<Rightarrow> sr_error run | Some e \<Rightarrow> Some (err_text e)),
       sr_created_at := if_zero (sr_created_at run) (unix_milli (clock w (Suc (ticks w)))),
       sr_updated_at := if_zero (unix_milli (clock w (Suc (ticks w)))) (unix_milli (clock w (Suc (ticks w))))\<rparr>"
  have "has_id sr_id (sr_id ?r) (sync_runs_of (wdb w))" using assms(2) by (simp add: sync_ready_def)
  note found = sync_runs.take_first_saved [OF this]
  then show ?thesis using assms
    by (simp add: finish_sync_def Repo_Update_def save_row_def sync_runs_table_def sync_ready_def closed_run_def)
qed

lemma closed_accounts_update: "preserves (db_inv (closed_run i acc s f n)) (Repo_Update accounts_table x)"
  by (rule pres_accounts_update) (simp add: closed_run_def)

definition sync_outcome :: "string \<Rightarrow> string \<Rightarrow> err + sync_response \<Rightarrow> database \<Rightarrow> bool" where
  "sync_outcome i account res d = (case res of
       Inl _ \<Rightarrow> closed_run i account SyncStatusError 0 0 d
     | Inr resp \<Rightarrow> closed_run i account SyncStatusOK (sy_messages_fetched resp) (sy_matches_created resp) d
         \<and> sy_sync_run_id resp = i \<and> sy_status resp = SyncStatusOK)"

definition poll_time :: "string \<Rightarrow> database \<Rightarrow> int option" where
  "poll_time i d = map_option ma_next_poll_at (take_first (\<lambda>a. ma_id a = i) (accounts_of d))"

lemma run_sync_messages:
  assumes "db_up w" and "sync_ready (sr_id run) a (wdb w)" and "sr_mail_account_id run = ma_id a"
    and "run_state (sync_messages P run a ws result) w = ((a', res), w')"
  shows "sync_outcome (sr_id run) (ma_id a) res (wdb w') \<and> poll_time (ma_id a) (wdb w') = Some (ma_next_poll_at a)"
proof -
  obtain fs w1 where f: "run_state (FindByWatchers (map wa_id ws)) w = (Inr fs, w1)" "wdb w1 = wdb w" "db_up w1"
    using assms(1) by (cases "ws = []") (simp_all add: FindByWatchers_def)
  obtain n w2 where e: "run_state (evaluate_all P a fs ws (fr_messages result) 0) w1 = (n, w2)"
    by (cases "run_state (evaluate_all P a fs ws (fr_messages result) 0) w1")
  have w2: "db_up w2" "sync_ready (sr_id run) a (wdb w2)"
    using preserves_run [OF up_evaluate_all f(3) e] preserves_run [OF ready_eval _ e] f(2) assms(2)
    by (auto simp: db_inv_def)
  define x where "x = a\<lparr>ma_last_synced_at := Some (unix_milli (clock w2 (ticks w2))), ma_last_error := None,
      ma_sync_state := (if fr_cursor result \<noteq> [] then fr_cursor result else ma_sync_state a)\<rparr>"
  let ?w2 = "w2\<lparr>ticks := Suc (ticks w2)\<rparr>"
  obtain u w3 where u: "run_state (Repo_Update accounts_table x) ?w2 = (u, w3)"
    by (cases "run_state (Repo_Update accounts_table x) ?w2")
  let ?y = "x\<lparr>ma_created_at := if_zero (ma_created_at a) (unix_milli (clock w2 (Suc (ticks w2)))),
      ma_updated_at := if_zero (unix_milli (clock w2 (Suc (ticks w2)))) (unix_milli (clock w2 (Suc (ticks w2))))\<rparr>"
  have "has_id ma_id (ma_id ?y) (accounts_of (wdb w2))"
    using w2(2) by (simp add: sync_ready_def x_def)
  note found = accounts.take_first_saved [OF this]
  have rows: "accounts_of (wdb w3) = update_where (\<lambda>b. ma_id b = ma_id ?y) (\<lambda>_. ?y) (accounts_of (wdb w2))"
      "sync_runs_of (wdb w3) = sync_runs_of (wdb w2)" "users_of (wdb w3) = users_of (wdb w2)"
      "providers_of (wdb w3) = providers_of (wdb w2)"
    using u w2 by (auto simp: Repo_Update_def save_row_def accounts_table_def sync_ready_def unique_on_def x_def)
  have "poll_time (ma_id a) (wdb w3) = Some (ma_next_poll_at a)"
    using found rows by (simp add: poll_time_def x_def)
  moreover have w3: "db_up w3" "sync_ready (sr_id run) a (wdb w3)"
    using preserves_run [OF up_Repo(4) _ u] preserves_run [OF ready_accounts_update _ u, of a] w2
    by (simp_all add: x_def db_inv_def)
  ultimately show ?thesis
    using run_finish_sync [OF w3 assms(3), of SyncStatusOK "int (length (fr_messages result))" n None]
      assms(4) f(1) e u
    by (auto simp: sync_messages_def Let_def x_def [symmetric] sync_outcome_def poll_time_def split: prod.splits)
qed

lemma run_sync_fetch:
  assumes "db_up w" and "sync_ready (sr_id run) a (wdb w)" and "sr_mail_account_id run = ma_id a"
    and "run_state (sync_fetch P run a client target) w = ((a', res), w')"
  shows "sync_outcome (sr_id run) (ma_id a) res (wdb w')
    \<and> (case res of Inl _ \<Rightarrow> True | Inr _ \<Rightarrow> poll_time (ma_id a) (wdb w') = Some (ma_next_poll_at a))"
proof -
  obtain ws w1 where ws: "run_state (FindActiveByMailAccount (ma_id a)) w = (Inr ws, w1)" "wdb w1 = wdb w" "db_up w1"
    using assms(1) by (simp add: FindActiveByMailAccount_def)
  let ?req = "\<lparr>fq_folder = sync_folder ws, fq_since = 0, fq_cursor = ma_sync_state a, fq_limit = 200\<rparr>"
  show ?thesis
  proof (cases "cl_fetch client target ?req")
    case (Inl e)
    obtain w2 where fin: "run_state (finish_sync run SyncStatusError 0 0 (Some e)) w1 = ((), w2)"
      by (cases "run_state (finish_sync run SyncStatusError 0 0 (Some e)) w1") simp
    have closed: "closed_run (sr_id run) (ma_id a) SyncStatusError 0 0 (wdb w2)"
      using run_finish_sync [of w1 run a SyncStatusError 0 0 "Some e"] ws assms(2,3) fin by simp
    then have "closed_run (sr_id run) (ma_id a) SyncStatusError 0 0 (wdb (snd (run_state (Repo_Update accounts_table x) w2)))" for x
      using preservesD [OF closed_accounts_update, of "sr_id run" "ma_id a" SyncStatusError 0 0 w2 x]
      by (simp add: db_inv_def)
    with assms(4) ws fin Inl show ?thesis
      by (auto simp: sync_fetch_def Let_def sync_outcome_def split: prod.splits)
  next
    case (Inr result)
    have "run_state (sync_messages P run a ws result) w1 = ((a', res), w')"
      using assms(4) ws Inr by (simp add: sync_fetch_def)
    from run_sync_messages [OF ws(3) _ assms(3) this] ws assms(2) show ?thesis
      by (simp split: sum.splits)
  qed
qed

definition fresh_sync :: "mail_account \<Rightarrow> world \<Rightarrow> bool" where
  "fresh_sync a w \<longleftrightarrow> has_id ma_id (ma_id a) (accounts_of (wdb w)) \<and> tb_check accounts_table (wdb w) a
     \<and> \<not> has_id sr_id (uuids w (uuid_pos w)) (sync_runs_of (wdb w))"

lemma run_SyncAccount:
  assumes up: "db_up w" and fresh: "fresh_sync a w"
    and run: "run_state (SyncAccount P a) w = ((a', res), w')"
  shows "sync_outcome (uuids w (uuid_pos w)) (ma_id a) res (wdb w')
    \<and> (case res of Inl _ \<Rightarrow> True | Inr _ \<Rightarrow> poll_time (ma_id a) (wdb w') = Some (ma_next_poll_at a))"
proof -
  let ?i = "uuids w (uuid_pos w)"
  define r0 where "r0 = \<lparr>sr_id = ?i, sr_mail_account_id = ma_id a, sr_status = SyncStatusRunning,
       sr_started_at = unix_milli (clock w (ticks w)), sr_finished_at = None, sr_messages_fetched = 0,
       sr_matches_created = 0, sr_error = None, sr_created_at = 0, sr_updated_at = 0\<rparr>"
  let ?w = "w\<lparr>uuid_pos := Suc (uuid_pos w), ticks := Suc (ticks w)\<rparr>"
  obtain r w1 where create: "run_state (Repo_Create sync_runs_table r0) ?w = (Inr r, w1)"
      and r: "sr_id r = ?i" "sr_mail_account_id r = ma_id a" and w1: "db_up w1" "sync_ready ?i a (wdb w1)"
    using up fresh
    by (auto simp: Repo_Create_def insert_row_def sync_runs_table_def r0_def fresh_sync_def sync_ready_def
        accounts_table_def)
  obtain b res2 w2 where resolve: "run_state (Resolve (pl_resolver P) a) w1 = ((b, res2), w2)"
    by (metis surj_pair)
  have key: "account_key b = account_key a" using returnsD [OF returns_Resolve resolve] by simp
  have "preserves (db_inv (sync_ready ?i a)) (Resolve (pl_resolver P) a)"
    by (intro pres_Resolve ready_accounts_update) (simp add: account_key_def)
  from preserves_run [OF this _ resolve] w1 have "sync_ready ?i a (wdb w2)" by (simp add: db_inv_def)
  then have w2: "sync_ready (sr_id r) b (wdb w2)" using sync_ready_key [OF key] r by simp
  have up2: "db_up w2" using preserves_run [OF up_Resolve w1(1) resolve] .
  have b: "ma_id b = ma_id a" "ma_next_poll_at b = ma_next_poll_at a" using key by (simp_all add: account_key_def)
  show ?thesis
  proof (cases res2)
    case (Inl e)
    have "res = Inl e \<and> w' = snd (run_state (finish_sync r SyncStatusError 0 0 (Some e)) w2)"
      using run create resolve Inl by (auto simp: SyncAccount_def Let_def r0_def split: prod.splits)
    with run_finish_sync [OF up2 w2, of SyncStatusError 0 0 "Some e"] r b show ?thesis
      by (simp add: sync_outcome_def)
  next
    case (Inr ct)
    have "run_state (sync_fetch P r b (fst ct) (snd ct)) w2 = ((a', res), w')"
      using run create resolve Inr by (auto simp: SyncAccount_def Let_def r0_def split: prod.splits)
    from run_sync_fetch [OF up2 w2 _ this] r b show ?thesis by (simp split: sum.splits)
  qed
qed

text \<open>C10: No sync run is left open: while the database answers, the sync run a sync opens is
  closed with a finish time on every path, as \<open>error\<close> with nothing counted when the sync
  fails (unknown provider, no client, token, fetch), as \<open>ok\<close> with the counts the caller is
  told when it succeeds.\<close>

theorem sync_run_closed:
  assumes "db_up w" and "fresh_sync account w"
    and "run_state (SyncAccount P account) w = ((account', res), w')"
  shows "case res of
      Inl _ \<Rightarrow> closed_run (uuids w (uuid_pos w)) (ma_id account) SyncStatusError 0 0 (wdb w')
    | Inr resp \<Rightarrow> closed_run (uuids w (uuid_pos w)) (ma_id account) SyncStatusOK
          (sy_messages_fetched resp) (sy_matches_created resp) (wdb w')
        \<and> sy_sync_run_id resp = uuids w (uuid_pos w)"
  using run_SyncAccount [OF assms] by (simp add: sync_outcome_def split: sum.splits)

lemma sample_fresh: "fresh_sync box sample_world"
  by (simp add: fresh_sync_def accounts_table_def unique_on_def sample_defs)

theorem sync_run_closed_witness:
  "\<exists>account' e w'. run_state (SyncAccount (sample_pipeline post_box\<lparr>pl_resolver := sample_resolver\<rparr>) box) sample_world
      = ((account', Inl e), w')
    \<and> closed_run ''u'' ''box'' SyncStatusError 0 0 (wdb w')"
proof -
  let ?P = "sample_pipeline post_box\<lparr>pl_resolver := sample_resolver\<rparr>"
  obtain account' res w' where run: "run_state (SyncAccount ?P box) sample_world = ((account', res), w')"
    by (metis surj_pair)
  have "\<exists>e. fst (run_state (Resolve sample_resolver box) w) = (box, Inl e)" for w
    by (auto simp: Resolve_def Mail_Get_def sample_resolver_def split: prod.splits sum.splits)
  then have "\<exists>e. res = Inl e"
    using run by (auto simp: SyncAccount_def Let_def split: prod.splits sum.splits) (metis fst_conv snd_conv Inr_not_Inl)+
  then obtain e where "res = Inl e" by blast
  with sync_run_closed [OF _ sample_fresh run] run show ?thesis by (auto simp: box_def)
qed

lemma claim_accounts_ok:
  assumes "run_state (claim_accounts locked limit) w = (Inr cs, w')" and "a \<in> set cs"
  shows "a \<in> set (accounts_of (wdb w)) \<and> ma_status a = MailAccountStatusVerified
    \<and> ma_next_poll_at a \<le> unix_milli (clock w (ticks w))"
proof -
  let ?w = "w\<lparr>ticks := Suc (ticks w)\<rparr>"
  obtain w1 where "run_state (FindDue locked (unix_milli (clock w (ticks w))) limit) ?w = (Inr cs, w1)"
    using assms(1) by (auto simp: claim_accounts_def split: prod.splits sum.splits)
  from FindDue_rows [OF this assms(2)] show ?thesis by simp
qed

lemma up_claim: "preserves db_up (claim_accounts locked limit)"
  unfolding claim_accounts_def claim_account_def by (intro pres)

text \<open>C17: The claim of the poller is undone by the sync it starts: \<open>PollDue\<close> pushes
  \<open>next_poll_at\<close> of the row forward, but a successful sync saves the whole struct that was read
  before that, so after \<open>PollDue\<close> the row carries the old poll time again: the mailbox that
  was just polled is still due, at once and not after its poll interval.\<close>

theorem poll_stays_due:
  assumes "db_up w" and "run_state (claim_accounts locked limit) w = (Inr [a], w1)"
    and "fresh_sync a w1" and "run_state (SyncAccount P a) w1 = ((a', Inr resp), w2)"
  shows "\<exists>t. poll_time (ma_id a) (wdb (snd (run_state (PollDue P id locked limit) w))) = Some t
    \<and> t \<le> unix_milli (clock w (ticks w))"
proof -
  have "db_up w1" using preserves_run [OF up_claim assms(1,2)] .
  from run_SyncAccount [OF this assms(3,4)]
  have "poll_time (ma_id a) (wdb w2) = Some (ma_next_poll_at a)" by simp
  moreover have "snd (run_state (PollDue P id locked limit) w) = w2"
    using assms(2,4) by (simp add: PollDue_def syncBatch_def)
  ultimately show ?thesis using claim_accounts_ok [OF assms(2), of a] by simp
qed

definition quiet_box :: mail_client where
  "quiet_box = post_box\<lparr>cl_fetch := (\<lambda>_ _. Inr \<lparr>fr_messages = [], fr_cursor = []\<rparr>)\<rparr>"

definition plain_box :: mail_account where
  "plain_box = box\<lparr>ma_credentials := []\<rparr>"

definition poll_world :: world where
  "poll_world = world_of (sample_db\<lparr>accounts_of := [plain_box]\<rparr>)"

lemma claim_poll_world:
  "\<exists>w1. run_state (claim_accounts (\<lambda>_. False) 5) poll_world = (Inr [plain_box], w1)
    \<and> wdb w1 = sample_db\<lparr>accounts_of := [plain_box\<lparr>ma_next_poll_at := 1061000, ma_updated_at := 1002000\<rparr>]\<rparr>
    \<and> uuid_pos w1 = 0 \<and> uuids w1 = uuids poll_world \<and> db_up w1 \<and> redis_up w1 \<and> redis w1 = Map.empty"
  by (simp add: claim_accounts_def claim_account_def FindDue_def order_limit_def Repo_UpdateWhere_def
      accounts_table_def poll_world_def plain_box_def box_def sample_db_def unix_milli_def duration_Second)

lemma Resolve_plain:
  assumes "db_up w" and "redis_up w" and "redis w = Map.empty"
    and "take_row (\<lambda>p. mp_slug p = ''gmail'') (providers_of (wdb w)) = Inr gmail"
  shows "\<exists>w'. run_state (Resolve (pl_resolver (sample_pipeline c)) plain_box) w = ((plain_box, Inr (c,
      \<lparr>tg_id = ''box'', tg_provider = ''gmail'', tg_kind = ''oauth'', tg_email_address = ''ann@x'',
       tg_auth_mode = ''oauth'', tg_settings = ''{}'',
       tg_credentials = \<lparr>mc_username = [], mc_password = [], mc_access_token = [], mc_refresh_token = [],
          mc_expires_at = 0\<rparr>\<rparr>)), w') \<and> wdb w' = wdb w \<and> db_up w'"
  using assms
  by (simp add: Resolve_def Row_def Row_uncached_def remember_def Remember_def Cache_Set_def Provider_Lookup_def
        Cache_Get_def cmd_defs MailProvider_FindBySlug_def refresh_def needsRefresh_def Account_of_def
        Credentials_def Decrypt_def Mail_Get_def sample_pipeline_def sample_resolver_def plain_box_def box_def
        gmail_def JSONOrEmpty_def int64OrZero_def)

lemma SyncAccount_quiet:
  assumes "db_up w" and "redis_up w" and "redis w = Map.empty" and "fresh_sync plain_box w"
    and "take_row (\<lambda>p. mp_slug p = ''gmail'') (providers_of (wdb w)) = Inr gmail"
  shows "\<exists>a resp w'. run_state (SyncAccount (sample_pipeline quiet_box) plain_box) w = ((a, Inr resp), w')"
proof -
  define r0 where "r0 = \<lparr>sr_id = uuids w (uuid_pos w), sr_mail_account_id = ma_id plain_box, sr_status = SyncStatusRunning,
       sr_started_at = unix_milli (clock w (ticks w)), sr_finished_at = None, sr_messages_fetched = 0,
       sr_matches_created = 0, sr_error = None, sr_created_at = 0, sr_updated_at = 0\<rparr>"
  let ?w = "w\<lparr>uuid_pos := Suc (uuid_pos w), ticks := Suc (ticks w)\<rparr>"
  obtain r w1 where create: "run_state (Repo_Create sync_runs_table r0) ?w = (Inr r, w1)" "db_up w1" "redis_up w1"
      "redis w1 = Map.empty" "providers_of (wdb w1) = providers_of (wdb w)"
    using assms
    by (auto simp: Repo_Create_def insert_row_def sync_runs_table_def r0_def fresh_sync_def)
  have "take_row (\<lambda>p. mp_slug p = ''gmail'') (providers_of (wdb w1)) = Inr gmail" using assms(5) create(5) by simp
  from Resolve_plain [OF create(2-4) this, of quiet_box] obtain t w2 where
    resolve: "run_state (Resolve (pl_resolver (sample_pipeline quiet_box)) plain_box) w1 = ((plain_box, Inr (quiet_box, t)), w2)"
      and up: "db_up w2" by blast
  obtain ws w3 where ws: "run_state (FindActiveByMailAccount (ma_id plain_box)) w2 = (Inr ws, w3)" "db_up w3"
    using up by (simp add: FindActiveByMailAccount_def)
  obtain fs w4 where fs: "run_state (FindByWatchers (map wa_id ws)) w3 = (Inr fs, w4)"
    using ws(2) by (cases "ws = []") (simp_all add: FindByWatchers_def)
  show ?thesis
    using create(1) resolve ws(1) fs
    by (auto simp: SyncAccount_def Let_def r0_def sync_fetch_def sync_messages_def quiet_box_def split: prod.splits)
qed

theorem poll_stays_due_witness:
  "\<exists>t. poll_time ''box'' (wdb (snd (run_state (PollDue (sample_pipeline quiet_box) id (\<lambda>_. False) 5) poll_world))) = Some t
    \<and> t \<le> 1000000"
proof -
  obtain w1 where claim: "run_state (claim_accounts (\<lambda>_. False) 5) poll_world = (Inr [plain_box], w1)"
    and w1: "wdb w1 = sample_db\<lparr>accounts_of := [plain_box\<lparr>ma_next_poll_at := 1061000, ma_updated_at := 1002000\<rparr>]\<rparr>"
      "uuid_pos w1 = 0" "uuids w1 = uuids poll_world" "db_up w1" "redis_up w1" "redis w1 = Map.empty"
    using claim_poll_world by blast
  have fresh: "fresh_sync plain_box w1"
    by (simp add: fresh_sync_def w1 accounts_table_def unique_on_def plain_box_def sample_defs)
  have "take_row (\<lambda>p. mp_slug p = ''gmail'') (providers_of (wdb w1)) = Inr gmail"
    by (simp add: w1 take_row_def sample_defs)
  from SyncAccount_quiet [OF w1(4-6) fresh this] obtain a resp w2 where
    "run_state (SyncAccount (sample_pipeline quiet_box) plain_box) w1 = ((a, Inr resp), w2)" by blast
  from poll_stays_due [OF _ claim fresh this] show ?thesis
    by (simp add: poll_world_def plain_box_def box_def unix_milli_def)
qed

text \<open>A cooldown does not throttle within one fetch: the watchers are read once per sync and
  their \<open>last_matched_at\<close> is not updated in memory, so two messages of one fetch both match a
  watcher whose cooldown is an hour.\<close>

lemma cooldown_not_in_batch:
  "fst (run_state (evaluate_all P box (\<lambda>_. []) [invoices\<lparr>wa_cooldown_seconds := 3600\<rparr>]
     [letter ''<2@x>'', letter ''<3@x>''] 0) sample_world) = 2"
  by (simp add: letter_def before_start_def cooling_def EvaluateFilters_def recordMatch_def CreateIfNew_def
      insert_if_new_def insert_row_def match_row_def matches_table_def unique_on_def RecordMatch_def
      Repo_UpdateWhere_def watchers_table_def ScheduleEvents_def FindEnabledByWatcher_def Repo_Create_def
      runs_table_def first_run_def run_slot_def sample_defs)

end
