(* ===== verification/Watchers.thy ===== *)
theory Watchers
  imports WatcherEvents Pipeline
begin

text \<open>
  internal/usecase/watcher_usecase.go: watchers with their filters and inline events, the dry
  run of the filters against recent mail, and the figures of the detail page.  The request
  validators, \<open>ILIKE\<close> and the date format of the daily buckets are parameters; the server
  runs in UTC, so \<open>AddDate(0, 0, -n)\<close> is \<open>n\<close> times 24 hours.
\<close>

record watcher_uc =
  wu_events :: dispatcher
  wu_resolver :: resolver
  wu_matcher :: matcher
  wu_ilike :: "string \<Rightarrow> string \<Rightarrow> bool"
  wu_day :: "int \<Rightarrow> string"
  wu_valid_create :: "create_watcher_request \<Rightarrow> bool"
  wu_valid_list :: "list_watcher_request \<Rightarrow> bool"
  wu_valid_update :: "update_watcher_request \<Rightarrow> bool"
  wu_valid_status :: "set_watcher_status_request \<Rightarrow> bool"
  wu_valid_replace :: "replace_filters_request \<Rightarrow> bool"
  wu_valid_test :: "test_watcher_request \<Rightarrow> bool"
  wu_valid_stats :: "watcher_stats_request \<Rightarrow> bool"

subsection \<open>Creating\<close>

definition new_filter :: "string \<Rightarrow> nat \<Rightarrow> watcher_filter_request \<Rightarrow> string \<Rightarrow> watcher_filter" where
  "new_filter watcherID i item u =
     \<lparr>wf_id = u, wf_watcher_id = watcherID, wf_field = wfq_field item,
      wf_header_name = nilIfEmpty (wfq_header_name item), wf_operator = wfq_operator item,
      wf_value = wfq_value item, wf_case_sensitive = wfq_case_sensitive item,
      wf_position = (if wfq_position item = 0 then int i else wfq_position item),
      wf_created_at = 0, wf_updated_at = 0\<rparr>"

primrec new_filters :: "string \<Rightarrow> nat \<Rightarrow> watcher_filter_request list \<Rightarrow> watcher_filter list ioE" where
  "new_filters watcherID i [] = returnE []"
| "new_filters watcherID i (item # items) =
     (if wfq_field item = FieldHeader \<and> wfq_header_name item = []
      then failE (HttpErr 400 ''a header filter needs a header_name'')
      else State_Monad.bind new_uuid (\<lambda>u.
        bindE (new_filters watcherID (Suc i) items) (\<lambda>fs. returnE (new_filter watcherID i item u # fs))))"

definition writeFilters :: "string \<Rightarrow> watcher_filter_request list \<Rightarrow> unit ioE" where
  "writeFilters watcherID requests =
     (if requests = [] then returnE ()
      else bindE (new_filters watcherID 0 requests) (\<lambda>fs. internal (Repo_CreateInBatch filters_table fs 50)))"

definition new_watcher :: "create_watcher_request \<Rightarrow> mail_account \<Rightarrow> int \<Rightarrow> string \<Rightarrow> watcher" where
  "new_watcher request account watchFrom i =
     \<lparr>wa_id = i, wa_user_id = cwq_user_id request, wa_mail_account_id = ma_id account,
      wa_name = cwq_name request, wa_description = nilIfEmpty (cwq_description request),
      wa_status = WatcherStatusActive,
      wa_match_mode = (if cwq_match_mode request = [] then MatchModeAll else cwq_match_mode request),
      wa_folder = (if cwq_folder request = [] then ''INBOX'' else cwq_folder request),
      wa_watch_from = Some watchFrom, wa_cooldown_seconds = cwq_cooldown_seconds request,
      wa_last_matched_at = None, wa_match_count = 0, wa_archived_at = None,
      wa_created_at = 0, wa_updated_at = 0\<rparr>"

definition watch_from :: "create_watcher_request \<Rightarrow> int io" where
  "watch_from request = (case cwq_watch_from request of Some t \<Rightarrow> ret t | None \<Rightarrow> now_milli)"

definition inline_event :: "create_watcher_request \<Rightarrow> string \<Rightarrow> create_watcher_event_request \<Rightarrow> create_watcher_event_request" where
  "inline_event request watcherID event =
     event\<lparr>cweq_user_id := cwq_user_id request, cweq_watcher_id := watcherID\<rparr>"

definition find_watcher :: "string \<Rightarrow> string \<Rightarrow> watcher ioE" where
  "find_watcher i userID = not_found ''watcher not found'' (Repo_FindByIdAndUser watchers_table i userID)"

definition Watcher_Get :: "get_watcher_request \<Rightarrow> watcher_response ioE" where
  "Watcher_Get request =
     bindE (find_watcher (gwq_id request) (gwq_user_id request)) (\<lambda>watcher.
     bindE (internal (Filter_FindByWatcher (wa_id watcher))) (\<lambda>filters.
     bindE (internal (Event_FindByWatcher (wa_id watcher))) (\<lambda>events.
     State_Monad.bind (FindNotifiersForEvents (map we_id events)) (\<lambda>ns.
     State_Monad.bind (Repo_FindById accounts_table (wa_mail_account_id watcher)) (\<lambda>account.
     returnE (WatcherToResponse watcher (case account of Inl _ \<Rightarrow> None | Inr a \<Rightarrow> Some a) filters
       (EventsToResponses (case ns of Inl _ \<Rightarrow> (\<lambda>_. []) | Inr f \<Rightarrow> f) events)))))))"

definition create_watcher :: "watcher_uc \<Rightarrow> create_watcher_request \<Rightarrow> watcher ioE" where
  "create_watcher W request =
     bindE (mapErr (\<lambda>_. HttpErr 400 ''that mail account does not exist'')
       (Repo_FindByIdAndUser accounts_table (cwq_mail_account_id request) (cwq_user_id request))) (\<lambda>account.
     State_Monad.bind (watch_from request) (\<lambda>watchFrom.
     State_Monad.bind new_uuid (\<lambda>i.
     bindE (internal (Repo_Create watchers_table (new_watcher request account watchFrom i))) (\<lambda>watcher.
     bindE (writeFilters (wa_id watcher) (cwq_filters request)) (\<lambda>_.
     bindE (forE (cwq_events request) (\<lambda>event.
         bindE (createWithin (wu_events W) (inline_event request (wa_id watcher) event)) (\<lambda>_. returnE ()))) (\<lambda>_.
     returnE watcher))))))"

definition Watcher_Create :: "watcher_uc \<Rightarrow> ctx \<Rightarrow> create_watcher_request \<Rightarrow> watcher_response ioE" where
  "Watcher_Create W c request =
     (if \<not> wu_valid_create W request then failE ErrBadRequest
      else bindE (tx_scope (
          bindE (create_watcher W request) (\<lambda>watcher.
          bindE (record_and_commit c (entry (cwq_user_id request) ''watcher.created'' ''watchers'' (wa_id watcher)))
            (\<lambda>_. returnE watcher))))
        (\<lambda>watcher. Watcher_Get \<lparr>gwq_user_id = cwq_user_id request, gwq_id = wa_id watcher\<rparr>))"

subsection \<open>Reading\<close>

definition Watcher_List :: "watcher_uc \<Rightarrow> list_watcher_request \<Rightarrow> (watcher_response list \<times> page_metadata) ioE" where
  "Watcher_List W request0 =
     (let (page, sz) = Normalize (lwq_page request0) (lwq_size request0);
          request = request0\<lparr>lwq_page := page, lwq_size := sz\<rparr> in
      if \<not> wu_valid_list W request then failE ErrBadRequest
      else bindE (internal (Repo_Paginate (Watcher_Search (wu_ilike W) (lwq_user_id request)
          (lwq_status request) (lwq_mail_account_id request) (lwq_query request)) page sz)) (\<lambda>(watchers, total_items).
        State_Monad.bind (FindByWatchers (map wa_id watchers)) (\<lambda>grouped.
        returnE (WatchersToResponses (case grouped of Inl _ \<Rightarrow> (\<lambda>_. []) | Inr f \<Rightarrow> f) watchers,
          NewPageMetadata page sz total_items))))"

definition GetFilters :: "get_watcher_request \<Rightarrow> watcher_filter_response list ioE" where
  "GetFilters request =
     bindE (find_watcher (gwq_id request) (gwq_user_id request)) (\<lambda>watcher.
     bindE (internal (Filter_FindByWatcher (wa_id watcher))) (\<lambda>filters.
     returnE (FiltersToResponses filters)))"

subsection \<open>Changing\<close>

definition patched_watcher :: "update_watcher_request \<Rightarrow> watcher \<Rightarrow> watcher" where
  "patched_watcher request w = w\<lparr>
     wa_name := (if uwq_name request \<noteq> [] then uwq_name request else wa_name w),
     wa_description := patch (map_option nilIfEmpty (uwq_description request)) (wa_description w),
     wa_match_mode := (if uwq_match_mode request \<noteq> [] then uwq_match_mode request else wa_match_mode w),
     wa_folder := (if uwq_folder request \<noteq> [] then uwq_folder request else wa_folder w),
     wa_cooldown_seconds := patch (uwq_cooldown_seconds request) (wa_cooldown_seconds w)\<rparr>"

definition Watcher_Update :: "watcher_uc \<Rightarrow> ctx \<Rightarrow> update_watcher_request \<Rightarrow> watcher_response ioE" where
  "Watcher_Update W c request =
     (if \<not> wu_valid_update W request then failE ErrBadRequest
      else bindE (tx_scope (
          bindE (find_watcher (uwq_id request) (uwq_user_id request)) (\<lambda>w.
          bindE (internal (Repo_Update watchers_table (patched_watcher request w))) (\<lambda>watcher.
          bindE (record_and_commit c (entry (uwq_user_id request) ''watcher.updated'' ''watchers'' (wa_id watcher)))
            (\<lambda>_. returnE watcher)))))
        (\<lambda>watcher. Watcher_Get \<lparr>gwq_user_id = uwq_user_id request, gwq_id = wa_id watcher\<rparr>))"

definition Watcher_Delete :: "ctx \<Rightarrow> get_watcher_request \<Rightarrow> bool ioE" where
  "Watcher_Delete c request = tx_scope
     (bindE (find_watcher (gwq_id request) (gwq_user_id request)) (\<lambda>watcher.
      bindE (internal (Repo_Delete watchers_table watcher)) (\<lambda>_.
      bindE (record_and_commit c (entry (gwq_user_id request) ''watcher.deleted'' ''watchers'' (wa_id watcher)))
        (\<lambda>_. returnE True))))"

definition with_status :: "string \<Rightarrow> watcher \<Rightarrow> watcher io" where
  "with_status status w =
     (if status = WatcherStatusArchived
      then do { now \<leftarrow> now_milli; ret (w\<lparr>wa_status := status, wa_archived_at := Some now\<rparr>) }
      else ret (w\<lparr>wa_status := status, wa_archived_at := None\<rparr>))"

definition SetStatus :: "watcher_uc \<Rightarrow> ctx \<Rightarrow> set_watcher_status_request \<Rightarrow> watcher_response ioE" where
  "SetStatus W c request =
     (if \<not> wu_valid_status W request then failE ErrBadRequest
      else bindE (tx_scope (
          bindE (find_watcher (swsq_id request) (swsq_user_id request)) (\<lambda>w.
          State_Monad.bind (with_status (swsq_status request) w) (\<lambda>w'.
          bindE (internal (Repo_Update watchers_table w')) (\<lambda>watcher.
          bindE (record_and_commit c (entry (swsq_user_id request) (''watcher.'' @ swsq_status request)
              ''watchers'' (wa_id watcher))) (\<lambda>_. returnE watcher))))))
        (\<lambda>watcher. Watcher_Get \<lparr>gwq_user_id = swsq_user_id request, gwq_id = wa_id watcher\<rparr>))"

definition ReplaceFilters :: "watcher_uc \<Rightarrow> ctx \<Rightarrow> replace_filters_request \<Rightarrow> watcher_filter_response list ioE" where
  "ReplaceFilters W c request =
     (if \<not> wu_valid_replace W request then failE ErrBadRequest
      else bindE (tx_scope (
          bindE (find_watcher (rfq_watcher_id request) (rfq_user_id request)) (\<lambda>watcher.
          bindE (if rfq_match_mode request \<noteq> [] \<and> rfq_match_mode request \<noteq> wa_match_mode watcher
                 then bindE (internal (Repo_Update watchers_table (watcher\<lparr>wa_match_mode := rfq_match_mode request\<rparr>)))
                        (\<lambda>_. returnE ())
                 else returnE ()) (\<lambda>_.
          bindE (internal (Filter_DeleteByWatcher (wa_id watcher))) (\<lambda>_.
          bindE (writeFilters (wa_id watcher) (rfq_filters request)) (\<lambda>_.
          bindE (record_and_commit c (entry (rfq_user_id request) ''watcher.filters_replaced'' ''watchers'' (wa_id watcher)))
            (\<lambda>_. returnE (wa_id watcher))))))))
        (\<lambda>i. bindE (internal (Filter_FindByWatcher i)) (\<lambda>filters. returnE (FiltersToResponses filters))))"

subsection \<open>The dry run\<close>

definition test_sample :: "matcher \<Rightarrow> watcher \<Rightarrow> watcher_filter list \<Rightarrow> message \<Rightarrow> test_watcher_sample" where
  "test_sample M watcher filters m =
     (let outcome = EvaluateFilters M watcher filters m in
      \<lparr>tws_subject = mg_subject m, tws_from_address = mg_from_address m, tws_received_at = mg_received_at m,
       tws_matched = mr_matched outcome, tws_matched_filters = mr_descriptions outcome\<rparr>)"

fun test_loop :: "matcher \<Rightarrow> watcher \<Rightarrow> watcher_filter list \<Rightarrow> message list
    \<Rightarrow> test_watcher_response \<Rightarrow> test_watcher_response" where
  "test_loop M watcher filters [] response = response"
| "test_loop M watcher filters (m # ms) response =
     (let sample = test_sample M watcher filters m in
      test_loop M watcher filters ms (response\<lparr>
        twp_matched := (if tws_matched sample then twp_matched response + 1 else twp_matched response),
        twp_samples := twp_samples response @ [sample]\<rparr>))"

definition Watcher_Test :: "watcher_uc \<Rightarrow> test_watcher_request \<Rightarrow> test_watcher_response ioE" where
  "Watcher_Test W request =
     (if \<not> wu_valid_test W request then failE ErrBadRequest
      else bindE (find_watcher (twq_id request) (twq_user_id request)) (\<lambda>watcher.
        bindE (internal (Filter_FindByWatcher (wa_id watcher))) (\<lambda>filters.
        bindE (mapErr (\<lambda>_. ErrNotFound) (Repo_FindById accounts_table (wa_mail_account_id watcher))) (\<lambda>account.
        State_Monad.bind (Resolve (wu_resolver W) account) (\<lambda>(_, r). case r of
            Inl e \<Rightarrow> failE e
          | Inr (client, target) \<Rightarrow>
              (let sz = (if twq_sample_size request = 0 then 50 else twq_sample_size request) in
               case cl_fetch client target \<lparr>fq_folder = wa_folder watcher, fq_since = 0, fq_cursor = [], fq_limit = sz\<rparr> of
                 Inl e \<Rightarrow> failE (HttpErr 422 (err_text e))
               | Inr result \<Rightarrow> returnE (test_loop (wu_matcher W) watcher filters (fr_messages result)
                   \<lparr>twp_scanned = int (length (fr_messages result)), twp_matched = 0, twp_samples = []\<rparr>)))))))"

subsection \<open>Figures\<close>

definition days_before :: "int \<Rightarrow> int \<Rightarrow> int" where
  "days_before n t = t - n * (24 * Hour)"

definition Watcher_Stats :: "watcher_uc \<Rightarrow> watcher_stats_request \<Rightarrow> watcher_stats_response ioE" where
  "Watcher_Stats W request =
     (if \<not> wu_valid_stats W request then failE ErrBadRequest
      else bindE (find_watcher (wsq_id request) (wsq_user_id request)) (\<lambda>watcher.
        let days = (if wsq_days request = 0 then 30 else wsq_days request) in
        State_Monad.bind time_now (\<lambda>t.
        bindE (internal (Match_CountForWatcher (wa_id watcher))) (\<lambda>total.
        bindE (internal (CountByStatusForWatcher (wa_id watcher))) (\<lambda>runCounts.
        bindE (internal (DailyCounts (wu_day W) (wa_id watcher) (unix_milli (days_before days t)))) (\<lambda>daily.
        returnE \<lparr>wsp_total_matches = total,
          wsp_runs_succeeded = count_of runCounts RunStatusSucceeded,
          wsp_runs_failed = count_of runCounts RunStatusFailed,
          wsp_runs_pending = count_of runCounts RunStatusPending,
          wsp_daily = map (\<lambda>(d, n). \<lparr>dmc_date = d, dmc_matches = n\<rparr>) daily\<rparr>))))))"

subsection \<open>Properties\<close>

lemma find_watcher_ok:
  assumes "run_state (find_watcher i user) w = (Inr x, w')"
  shows "x \<in> set (watchers_of (wdb w)) \<and> wa_id x = i \<and> wa_user_id x = user \<and> wdb w' = wdb w"
  using ownedWatcher_ok [of i user w x w'] assms by (simp add: find_watcher_def ownedWatcher_def)

lemma pres_find_watcher [pres]: "preserves (db_inv K) (find_watcher i user)"
  unfolding find_watcher_def by (intro pres)

lemma new_filters_ok:
  "run_state (new_filters i n items) w = (Inr fs, w') \<Longrightarrow>
   wdb w' = wdb w \<and> length fs = length items
   \<and> (\<forall>k < length items. \<exists>u. fs ! k = new_filter i (n + k) (items ! k) u
        \<and> (wfq_field (items ! k) = FieldHeader \<longrightarrow> wfq_header_name (items ! k) \<noteq> []))"
proof (induction items arbitrary: n w fs)
  case Nil
  then show ?case by simp
next
  case (Cons item items)
  from Cons.prems obtain gs where
    ok: "wfq_field item = FieldHeader \<longrightarrow> wfq_header_name item \<noteq> []"
    and rest: "run_state (new_filters i (Suc n) items) (w\<lparr>uuid_pos := Suc (uuid_pos w)\<rparr>) = (Inr gs, w')"
    and fs: "fs = new_filter i n item (uuids w (uuid_pos w)) # gs"
    by (auto split: if_splits prod.splits sum.splits)
  note ih = Cons.IH [OF rest]
  show ?case
  proof (intro conjI allI impI)
    fix k assume k: "k < length (item # items)"
    show "\<exists>u. fs ! k = new_filter i (n + k) ((item # items) ! k) u
        \<and> (wfq_field ((item # items) ! k) = FieldHeader \<longrightarrow> wfq_header_name ((item # items) ! k) \<noteq> [])"
      using ih fs ok k by (cases k) auto
  qed (use ih fs in simp_all)
qed

lemma writeFilters_ok:
  assumes "run_state (writeFilters i items) w = (Inr u, w')"
  shows "\<exists>fs. wdb w' = (wdb w)\<lparr>filters_of := filters_of (wdb w) @ fs\<rparr> \<and> length fs = length items
    \<and> (\<forall>k < length items. \<exists>u t. fs ! k = tb_stamp filters_table t (new_filter i k (items ! k) u)
         \<and> (wfq_field (items ! k) = FieldHeader \<longrightarrow> wfq_header_name (items ! k) \<noteq> []))"
proof (cases "items = []")
  case True
  with assms show ?thesis by (intro exI [of _ "[]"]) (simp add: writeFilters_def)
next
  case False
  then obtain fs w1 where f: "run_state (new_filters i 0 items) w = (Inr fs, w1)"
    and b: "run_state (Repo_CreateInBatch filters_table fs 50) w1 = (Inr u, w')"
    using assms unfolding writeFilters_def if_not_P [OF False] by (elim okE) (rule that; assumption)
  obtain t where "wdb w' = tb_put filters_table (tb_rows filters_table (wdb w1) @ map (tb_stamp filters_table t) fs) (wdb w1)"
    using filters.CreateInBatch_ok [OF b] by blast
  moreover have "tb_rows filters_table = filters_of" "tb_put filters_table = (\<lambda>xs d. d\<lparr>filters_of := xs\<rparr>)"
    by (simp_all add: filters_table_def)
  ultimately show ?thesis
    using new_filters_ok [OF f] by (intro exI [of _ "map (tb_stamp filters_table t) fs"]) (simp, metis)
qed

lemma ReplaceNotifiers_pres:
  assumes "\<And>d xs. K d \<Longrightarrow> K (d\<lparr>event_notifiers_of := xs\<rparr>)"
  shows "preserves (db_inv K) (ReplaceNotifiers e ids)"
  unfolding ReplaceNotifiers_def
  by (intro pres pres_exec pres_stmt) (auto simp: insert_event_links_def assms)

lemma pres_createWithin:
  assumes "\<And>d xs. K d \<Longrightarrow> K (d\<lparr>events_of := xs\<rparr>)"
    and "\<And>d xs. K d \<Longrightarrow> K (d\<lparr>event_notifiers_of := xs\<rparr>)"
  shows "preserves (db_inv K) (createWithin D request)"
proof -
  have "preserves (db_inv K) (Repo_Create events_table x)" for x
    using assms(1) by (intro pres_Repo_Create) (simp add: insert_row_def, simp add: events_table_def)
  moreover have "preserves (db_inv K) (ReplaceNotifiers e ids)" for e ids
    using assms(2) by (rule ReplaceNotifiers_pres)
  ultimately show ?thesis
    unfolding createWithin_def attachNotifiers_def handler_validate_def Let_def by (intro pres)
qed

lemma pres_Watcher_Get [pres]: "preserves (db_inv K) (Watcher_Get request)"
  unfolding Watcher_Get_def by (intro pres)

lemma Watcher_Get_wdb: "run_state (Watcher_Get request) w = (r, w') \<Longrightarrow> wdb w' = wdb w"
  using preserves_run [of "db_inv (\<lambda>d. d = wdb w)" "Watcher_Get request" w r w'] pres_Watcher_Get
  by (simp add: db_inv_def)

lemma Update_watcher_wdb:
  assumes "run_state (Repo_Update watchers_table x) w = (Inr y, w')"
  shows "\<exists>ws. wdb w' = (wdb w)\<lparr>watchers_of := ws\<rparr>"
proof -
  obtain n where "save_row watchers_table y (wdb w) = (Inr y, wdb w')" using Repo_Update_ok [OF assms] by blast
  then have "\<exists>xs. wdb w' = tb_put watchers_table xs (wdb w)"
    unfolding save_row_def by (metis Pair_inject sum.distinct(1))
  then show ?thesis by (auto simp: watchers_table_def)
qed

text \<open>The content of a filter beside its identity, and what a request asks for at its place\<close>

definition filter_content :: "watcher_filter \<Rightarrow> string \<times> string option \<times> string \<times> string \<times> bool \<times> int" where
  "filter_content f = (wf_field f, wf_header_name f, wf_operator f, wf_value f, wf_case_sensitive f, wf_position f)"

definition wanted_content :: "nat \<times> watcher_filter_request \<Rightarrow> string \<times> string option \<times> string \<times> string \<times> bool \<times> int" where
  "wanted_content = (\<lambda>(k, r). (wfq_field r, nilIfEmpty (wfq_header_name r), wfq_operator r, wfq_value r,
     wfq_case_sensitive r, if wfq_position r = 0 then int k else wfq_position r))"

lemma writeFilters_content:
  assumes "run_state (writeFilters i items) w = (Inr u, w')"
  shows "\<exists>fs. wdb w' = (wdb w)\<lparr>filters_of := filters_of (wdb w) @ fs\<rparr> \<and> (\<forall>f \<in> set fs. wf_watcher_id f = i)
    \<and> map filter_content fs = map wanted_content (enumerate 0 items)"
proof -
  obtain fs where w': "wdb w' = (wdb w)\<lparr>filters_of := filters_of (wdb w) @ fs\<rparr>" and len: "length fs = length items"
    and fs: "\<forall>k < length items. \<exists>u t. fs ! k = tb_stamp filters_table t (new_filter i k (items ! k) u)
         \<and> (wfq_field (items ! k) = FieldHeader \<longrightarrow> wfq_header_name (items ! k) \<noteq> [])"
    using writeFilters_ok [OF assms] by blast
  have k: "wf_watcher_id (fs ! k) = i \<and> filter_content (fs ! k) = wanted_content (k, items ! k)"
    if "k < length items" for k
    using fs that by (auto simp: filters_table_def filter_content_def wanted_content_def new_filter_def dest!: spec [of _ k])
  have "map filter_content fs = map wanted_content (enumerate 0 items)"
    using k by (intro nth_equalityI) (simp_all add: len nth_enumerate_eq)
  moreover have "\<forall>f \<in> set fs. wf_watcher_id f = i" using k len by (auto simp: in_set_conv_nth)
  ultimately show ?thesis using w' by blast
qed

text \<open>C25: Replacing the filters of a watcher is exact: it succeeds for the owner only, afterwards the
  watcher has the requested filters in the requested order and no other, the filters of
  other watchers, the matches and the runs are untouched, and the response shows what is
  stored, by position.\<close>

theorem ReplaceFilters_exact:
  assumes "run_state (ReplaceFilters W c request) w = (Inr resp, w')"
  shows "list_ex (\<lambda>x. wa_id x = rfq_watcher_id request \<and> wa_user_id x = rfq_user_id request) (watchers_of (wdb w))
    \<and> map filter_content (filter (\<lambda>f. wf_watcher_id f = rfq_watcher_id request) (filters_of (wdb w')))
        = map wanted_content (enumerate 0 (rfq_filters request))
    \<and> filter (\<lambda>f. wf_watcher_id f \<noteq> rfq_watcher_id request) (filters_of (wdb w'))
        = filter (\<lambda>f. wf_watcher_id f \<noteq> rfq_watcher_id request) (filters_of (wdb w))
    \<and> matches_of (wdb w') = matches_of (wdb w) \<and> runs_of (wdb w') = runs_of (wdb w)
    \<and> resp = FiltersToResponses (sort_key wf_position
        (filter (\<lambda>f. wf_watcher_id f = rfq_watcher_id request) (filters_of (wdb w'))))"
proof -
  let ?i = "rfq_watcher_id request"
  obtain x w1 u w2 v w3 y w4 z w5 fs where o: "run_state (find_watcher ?i (rfq_user_id request)) w = (Inr x, w1)"
    and m: "run_state (if rfq_match_mode request \<noteq> [] \<and> rfq_match_mode request \<noteq> wa_match_mode x
                 then bindE (internal (Repo_Update watchers_table (x\<lparr>wa_match_mode := rfq_match_mode request\<rparr>)))
                        (\<lambda>_. returnE ())
                 else returnE ()) w1 = (Inr u, w2)"
    and d: "run_state (Filter_DeleteByWatcher (wa_id x)) w2 = (Inr v, w3)"
    and wr: "run_state (writeFilters (wa_id x) (rfq_filters request)) w3 = (Inr y, w4)"
    and r: "run_state (record_and_commit c (entry (rfq_user_id request) ''watcher.filters_replaced'' ''watchers'' (wa_id x))) w4 = (Inr z, w5)"
    and f: "run_state (Filter_FindByWatcher (wa_id x)) w5 = (Inr fs, w')"
    and resp: "resp = FiltersToResponses fs"
    using assms unfolding ReplaceFilters_def by (elim bindE_okE mapErr_okE returnE_okE guard_okE tx_scope_okE)
      (rule that; (assumption | simp))
  note own = find_watcher_ok [OF o]
  have w2: "\<exists>ws. wdb w2 = (wdb w)\<lparr>watchers_of := ws\<rparr>"
  proof (cases "rfq_match_mode request \<noteq> [] \<and> rfq_match_mode request \<noteq> wa_match_mode x")
    case True
    with m obtain y where "run_state (Repo_Update watchers_table (x\<lparr>wa_match_mode := rfq_match_mode request\<rparr>)) w1 = (Inr y, w2)"
      unfolding if_P [OF True] by (elim okE) (rule that; simp)
    from Update_watcher_wdb [OF this] own show ?thesis by simp
  next
    case False
    with m own show ?thesis by (auto intro: exI [of _ "watchers_of (wdb w)"])
  qed
  have w3: "wdb w3 = remove_filters (\<lambda>f. wf_watcher_id f = ?i) (wdb w2)"
    using d own by (auto simp: Filter_DeleteByWatcher_def exec_def run_stmt split: option.splits)
  obtain gs where w4: "wdb w4 = (wdb w3)\<lparr>filters_of := filters_of (wdb w3) @ gs\<rparr>" "\<forall>f \<in> set gs. wf_watcher_id f = ?i"
      "map filter_content gs = map wanted_content (enumerate 0 (rfq_filters request))"
    using writeFilters_content [OF wr] own by auto
  obtain row where w5: "wdb w5 = (wdb w4)\<lparr>audit_logs_of := audit_logs_of (wdb w4) @ [row]\<rparr>"
    using record_and_commit_ok [OF r] by blast
  have w': "wdb w' = wdb w5" "fs = sort_key wf_position (filter (\<lambda>f. wf_watcher_id f = ?i) (filters_of (wdb w')))"
    using query_ok [OF f [unfolded Filter_FindByWatcher_def]] own by auto
  have "filter (\<lambda>f. wf_watcher_id f = ?i) (filters_of (wdb w')) = gs"
    "filter (\<lambda>f. wf_watcher_id f \<noteq> ?i) (filters_of (wdb w')) = filter (\<lambda>f. wf_watcher_id f \<noteq> ?i) (filters_of (wdb w))"
    using w2 w4(2) by (auto simp: w'(1) w5 w4(1) w3 remove_filters_def filter_empty_conv)
  moreover have "matches_of (wdb w') = matches_of (wdb w)" "runs_of (wdb w') = runs_of (wdb w)"
    using w2 by (auto simp: w'(1) w5 w4(1) w3 remove_filters_def)
  moreover have "list_ex (\<lambda>x. wa_id x = ?i \<and> wa_user_id x = rfq_user_id request) (watchers_of (wdb w))"
    using own by (auto simp: list_ex_iff)
  ultimately show ?thesis using w4(3) w'(2) resp by simp
qed

definition sample_watcher_uc :: "mail_client \<Rightarrow> watcher_uc" where
  "sample_watcher_uc c = \<lparr>wu_events = sample_dispatcher quiet_handler, wu_resolver = pl_resolver (sample_pipeline c),
     wu_matcher = pl_matcher (sample_pipeline c), wu_ilike = (\<lambda>_ _. True), wu_day = itoa,
     wu_valid_create = (\<lambda>_. True), wu_valid_list = (\<lambda>_. True), wu_valid_update = (\<lambda>_. True),
     wu_valid_status = (\<lambda>_. True), wu_valid_replace = (\<lambda>_. True), wu_valid_test = (\<lambda>_. True),
     wu_valid_stats = (\<lambda>_. True)\<rparr>"

definition size_filter :: watcher_filter_request where
  "size_filter = \<lparr>wfq_field = FieldSize, wfq_header_name = [], wfq_operator = OpGt, wfq_value = ''9'',
     wfq_case_sensitive = False, wfq_position = 0\<rparr>"

definition two_filters :: replace_filters_request where
  "two_filters = \<lparr>rfq_user_id = ''ann'', rfq_watcher_id = ''inv'', rfq_match_mode = MatchModeAny,
     rfq_filters = [size_filter, size_filter\<lparr>wfq_value := ''99''\<rparr>]\<rparr>"

theorem ReplaceFilters_exact_witness:
  "\<exists>resp w'. run_state (ReplaceFilters (sample_watcher_uc post_box) None two_filters) sample_world = (Inr resp, w')
    \<and> map filter_content (filter (\<lambda>f. wf_watcher_id f = ''inv'') (filters_of (wdb w')))
      = [(FieldSize, None, OpGt, ''9'', False, 0), (FieldSize, None, OpGt, ''99'', False, 1)]"
proof -
  obtain resp w' where run: "run_state (ReplaceFilters (sample_watcher_uc post_box) None two_filters) sample_world = (Inr resp, w')"
    by (simp add: ReplaceFilters_def find_watcher_def Repo_FindByIdAndUser_def take_row_def two_filters_def size_filter_def
        sample_watcher_uc_def Repo_Update_def save_row_def watchers_table_def Filter_DeleteByWatcher_def
        remove_filters_def writeFilters_def new_filter_def Repo_CreateInBatch_def insert_row_def filters_table_def
        record_and_commit_def Record_def tx_commit_def Repo_Create_def audit_table_def audit_row_def attribute_def
        entry_def opt_ref_def Filter_FindByWatcher_def if_zero_def sample_defs)
  from ReplaceFilters_exact [OF run] run show ?thesis
    by (simp add: two_filters_def size_filter_def wanted_content_def nilIfEmpty_def enumerate_eq_zip)
qed

subsection \<open>The dry run saves nothing\<close>

definition mailbox_position :: "mail_account \<Rightarrow> string \<times> json" where
  "mailbox_position a = (ma_id a, ma_sync_state a)"

definition but_accounts :: "database \<Rightarrow> database" where
  "but_accounts d = d\<lparr>accounts_of := []\<rparr>"

definition dry :: "database \<Rightarrow> database \<Rightarrow> bool" where
  "dry d0 d \<longleftrightarrow> but_accounts d = but_accounts d0
     \<and> map mailbox_position (accounts_of d) = map mailbox_position (accounts_of d0)"

lemma dry_update:
  assumes "distinct (map ma_id (accounts_of d0))" and "a \<in> set (accounts_of d0)" and "account_key x = account_key a"
  shows "preserves (db_inv (dry d0)) (Repo_Update accounts_table x)"
proof (rule pres_Repo_Update)
  fix d n assume K: "dry d0 d"
  define y where "y = tb_stamp accounts_table n (tb_touch accounts_table n x)"
  have pos: "mailbox_position y = mailbox_position a" "ma_id y = ma_id a"
    using assms(3) by (simp_all add: y_def accounts_table_def mailbox_position_def account_key_def)
  have img: "mailbox_position ` set (accounts_of d) = mailbox_position ` set (accounts_of d0)"
    using K unfolding dry_def by (metis list.set_map)
  have ids: "map ma_id (accounts_of d) = map ma_id (accounts_of d0)"
  proof -
    have "map fst (map mailbox_position (accounts_of d)) = map fst (map mailbox_position (accounts_of d0))"
      using K by (simp add: dry_def)
    then show ?thesis by (simp add: comp_def mailbox_position_def)
  qed
  have "map mailbox_position (update_where (\<lambda>z. ma_id z = ma_id y) (\<lambda>_. y) (accounts_of d))
      = map mailbox_position (accounts_of d)"
    using assms(1,2) img pos ids
    by (intro map_upsert) (auto simp: mailbox_position_def)
  moreover have "has_id ma_id (ma_id y) (accounts_of d)"
    using ids assms(2) pos(2) by (metis (mono_tags, lifting) image_eqI imageE list.set_map list_ex_iff)
  ultimately show "dry d0 (snd (save_row accounts_table (tb_stamp accounts_table n (tb_touch accounts_table n x)) d))"
    using K unfolding y_def [symmetric]
    by (auto simp: save_row_def dry_def but_accounts_def) (auto simp: accounts_table_def)
qed

lemma test_loop_spec:
  "test_loop M x fs ms r = r\<lparr>twp_matched := twp_matched r + int (length (filter tws_matched (map (test_sample M x fs) ms))),
     twp_samples := twp_samples r @ map (test_sample M x fs) ms\<rparr>"
  by (induction ms arbitrary: r) (simp_all add: Let_def)

text \<open>A dry run is dry: testing a watcher looks at mail of a mailbox and reports for every message
  whether the filters match it, with the right totals, but stores no match, no run and no
  sync run, changes no watcher, and does not move the position the next sync starts from;
  at most the tokens of the mailbox are renewed.\<close>

lemma Watcher_Test_dry:
  assumes "run_state (Watcher_Test W request) w = (Inr resp, w')"
    and "distinct (map ma_id (accounts_of (wdb w)))"
  shows "but_accounts (wdb w') = but_accounts (wdb w)
    \<and> map mailbox_position (accounts_of (wdb w')) = map mailbox_position (accounts_of (wdb w))
    \<and> twp_scanned resp = int (length (twp_samples resp))
    \<and> twp_matched resp = int (length (filter tws_matched (twp_samples resp)))"
proof -
  obtain x w1 fs w2 a w3 cr w4 where o: "run_state (find_watcher (twq_id request) (twq_user_id request)) w = (Inr x, w1)"
    and f: "run_state (Filter_FindByWatcher (wa_id x)) w1 = (Inr fs, w2)"
    and a: "run_state (Repo_FindById accounts_table (wa_mail_account_id x)) w2 = (Inr a, w3)"
    and r: "run_state (Resolve (wu_resolver W) a) w3 = (cr, w4)"
    and rest: "run_state ((\<lambda>(_, r). case r of
            Inl e \<Rightarrow> failE e
          | Inr (client, target) \<Rightarrow>
              (let sz = (if twq_sample_size request = 0 then 50 else twq_sample_size request) in
               case cl_fetch client target \<lparr>fq_folder = wa_folder x, fq_since = 0, fq_cursor = [], fq_limit = sz\<rparr> of
                 Inl e \<Rightarrow> failE (HttpErr 422 (err_text e))
               | Inr result \<Rightarrow> returnE (test_loop (wu_matcher W) x fs (fr_messages result)
                   \<lparr>twp_scanned = int (length (fr_messages result)), twp_matched = 0, twp_samples = []\<rparr>))) cr) w4 = (Inr resp, w')"
    using assms(1) unfolding Watcher_Test_def by (elim bindE_okE bind_okE mapErr_okE guard_okE) (rule that; assumption)
  have w3: "wdb w3 = wdb w" "a \<in> set (accounts_of (wdb w))"
    using find_watcher_ok [OF o] query_ok [OF f [unfolded Filter_FindByWatcher_def]] FindById_row [OF a]
    by (auto simp: accounts_table_def)
  have "w' = w4 \<and> (\<exists>result :: fetch_result. resp = test_loop (wu_matcher W) x fs (fr_messages result)
                   \<lparr>twp_scanned = int (length (fr_messages result)), twp_matched = 0, twp_samples = []\<rparr>)"
    using rest by (auto simp: Let_def split: prod.splits sum.splits)
  then obtain result :: fetch_result where w': "w' = w4" and resp: "resp = test_loop (wu_matcher W) x fs (fr_messages result)
                   \<lparr>twp_scanned = int (length (fr_messages result)), twp_matched = 0, twp_samples = []\<rparr>"
    by blast
  have "preserves (db_inv (dry (wdb w))) (Resolve (wu_resolver W) a)"
    using dry_update [OF assms(2) w3(2)] by (rule pres_Resolve)
  from preserves_run [OF this _ r] have "dry (wdb w) (wdb w4)" by (simp add: db_inv_def w3 dry_def)
  then show ?thesis by (simp add: dry_def w' resp test_loop_spec)
qed

subsection \<open>What a created watcher is\<close>

definition created_watcher :: "create_watcher_request \<Rightarrow> world \<Rightarrow> watcher \<Rightarrow> bool" where
  "created_watcher request w x \<longleftrightarrow> wa_user_id x = cwq_user_id request \<and> wa_status x = WatcherStatusActive
     \<and> wa_last_matched_at x = None \<and> wa_match_count x = 0
     \<and> list_ex (\<lambda>a. ma_id a = wa_mail_account_id x \<and> ma_user_id a = cwq_user_id request) (accounts_of (wdb w))
     \<and> wa_watch_from x = (case cwq_watch_from request of Some t \<Rightarrow> Some t
          | None \<Rightarrow> Some (unix_milli (clock w (ticks w))))"

definition frame_watchers :: "database \<Rightarrow> database \<Rightarrow> bool" where
  "frame_watchers d d' \<longleftrightarrow> watchers_of d' = watchers_of d \<and> filters_of d' = filters_of d
     \<and> matches_of d' = matches_of d \<and> runs_of d' = runs_of d \<and> accounts_of d' = accounts_of d
     \<and> notifiers_of d' = notifiers_of d \<and> users_of d' = users_of d"

lemma inline_events_frame:
  assumes "run_state (forE evs (\<lambda>event. bindE (createWithin D (inline_event request i event)) (\<lambda>_. returnE ()))) w = (r, w')"
  shows "frame_watchers (wdb w) (wdb w')"
proof -
  have "preserves (db_inv (frame_watchers (wdb w))) (forE evs (\<lambda>event. bindE (createWithin D (inline_event request i event)) (\<lambda>_. returnE ())))"
    by (intro pres pres_createWithin) (simp_all add: frame_watchers_def)
  from preserves_run [OF this _ assms] show ?thesis by (simp add: db_inv_def frame_watchers_def)
qed

lemma create_watcher_ok:
  assumes "run_state (create_watcher W request) w = (Inr x, w')"
  shows "created_watcher request w x \<and> watchers_of (wdb w') = watchers_of (wdb w) @ [x]
    \<and> (\<exists>fs. filters_of (wdb w') = filters_of (wdb w) @ fs \<and> (\<forall>f \<in> set fs. wf_watcher_id f = wa_id x)
         \<and> map filter_content fs = map wanted_content (enumerate 0 (cwq_filters request)))
    \<and> matches_of (wdb w') = matches_of (wdb w) \<and> runs_of (wdb w') = runs_of (wdb w)"
proof -
  obtain a w1 t w2 i w3 w4 u w5 v w6
    where f: "run_state (Repo_FindByIdAndUser accounts_table (cwq_mail_account_id request) (cwq_user_id request)) w = (Inr a, w1)"
    and t: "run_state (watch_from request) w1 = (t, w2)"
    and i: "run_state new_uuid w2 = (i, w3)"
    and c: "run_state (Repo_Create watchers_table (new_watcher request a t i)) w3 = (Inr x, w4)"
    and fs: "run_state (writeFilters (wa_id x) (cwq_filters request)) w4 = (Inr u, w5)"
    and ev: "run_state (forE (cwq_events request) (\<lambda>event.
         bindE (createWithin (wu_events W) (inline_event request (wa_id x) event)) (\<lambda>_. returnE ()))) w5 = (Inr v, w6)"
    and w': "w' = w6"
    using assms unfolding create_watcher_def by (elim bindE_okE bind_okE mapErr_okE returnE_okE) (rule that; (assumption | simp))
  have w1: "wdb w1 = wdb w" "ticks w1 = ticks w" "clock w1 = clock w"
    using f by (auto simp: Repo_FindByIdAndUser_def query_def run_stmt split: option.splits)
  have w3: "wdb w3 = wdb w" "Some t = (case cwq_watch_from request of Some t \<Rightarrow> Some t
          | None \<Rightarrow> Some (unix_milli (clock w (ticks w))))"
    using t i w1 by (auto simp: watch_from_def split: option.splits)
  note acc = FindByIdAndUser_row [OF f]
  obtain n where x: "x = tb_stamp watchers_table n (new_watcher request a t i)"
    and ins: "insert_row watchers_table x (wdb w3) = (Inr x, wdb w4)"
    using Repo_Create_ok [OF c] by blast
  have w4: "wdb w4 = (wdb w)\<lparr>watchers_of := watchers_of (wdb w) @ [x]\<rparr>"
    using ins w3(1) by (auto simp: insert_row_def watchers_table_def split: if_splits)
  have "created_watcher request w x"
    using acc w3(2) by (auto simp: x created_watcher_def new_watcher_def watchers_table_def accounts_table_def list_ex_iff)
  moreover have "frame_watchers (wdb w5) (wdb w')" using inline_events_frame [OF ev] w' by simp
  ultimately show ?thesis using writeFilters_content [OF fs] w4 by (auto simp: frame_watchers_def)
qed

text \<open>C24: A new watcher is the caller's and starts quiet: creating one adds exactly one watcher, of the
  caller, active, on a mailbox that is the caller's too; unless the request says otherwise
  it starts at the clock's reading, so it cannot fire on older mail; its filters are the
  requested ones in their order; no match and no run comes into being; and the response
  shows this watcher.\<close>

theorem Watcher_Create_quiet:
  assumes "run_state (Watcher_Create W c request) w = (Inr resp, w')"
  shows "list_ex (\<lambda>x. created_watcher request w x \<and> watchers_of (wdb w') = watchers_of (wdb w) @ [x]
        \<and> wp_id resp = wa_id x) (watchers_of (wdb w'))
    \<and> map filter_content (drop (length (filters_of (wdb w))) (filters_of (wdb w')))
        = map wanted_content (enumerate 0 (cwq_filters request))
    \<and> matches_of (wdb w') = matches_of (wdb w) \<and> runs_of (wdb w') = runs_of (wdb w)"
proof -
  obtain x w1 z w2 where c: "run_state (create_watcher W request) w = (Inr x, w1)"
    and r: "run_state (record_and_commit c (entry (cwq_user_id request) ''watcher.created'' ''watchers'' (wa_id x))) w1 = (Inr z, w2)"
    and g: "run_state (Watcher_Get \<lparr>gwq_user_id = cwq_user_id request, gwq_id = wa_id x\<rparr>) w2 = (Inr resp, w')"
    using assms unfolding Watcher_Create_def by (elim bindE_okE returnE_okE guard_okE tx_scope_okE)
      (rule that; (assumption | simp))
  obtain row where w2: "wdb w2 = (wdb w1)\<lparr>audit_logs_of := audit_logs_of (wdb w1) @ [row]\<rparr>"
    using record_and_commit_ok [OF r] by blast
  have "\<exists>y s. run_state (find_watcher (wa_id x) (cwq_user_id request)) w2 = (Inr y, s) \<and> wp_id resp = wa_id y"
    using g unfolding Watcher_Get_def
    by (auto elim!: bindE_okE bind_okE mapErr_okE returnE_okE simp: WatcherToResponse_def simp del: run_bindE run_state_bind run_mapErr)
  then have "wp_id resp = wa_id x" using find_watcher_ok by metis
  then show ?thesis using create_watcher_ok [OF c] Watcher_Get_wdb [OF g] by (auto simp: w2 list_ex_iff)
qed

definition watch_bills :: create_watcher_request where
  "watch_bills = \<lparr>cwq_user_id = ''ann'', cwq_mail_account_id = ''box'', cwq_name = ''Bills'', cwq_description = [],
     cwq_match_mode = [], cwq_folder = [], cwq_watch_from = None, cwq_cooldown_seconds = 0,
     cwq_filters = [size_filter], cwq_events = []\<rparr>"

theorem Watcher_Create_quiet_witness:
  "\<exists>resp w'. run_state (Watcher_Create (sample_watcher_uc post_box) None watch_bills) sample_world = (Inr resp, w')
    \<and> map wa_watch_from (watchers_of (wdb w')) = [None, Some 1000000]"
proof -
  obtain resp w' where run: "run_state (Watcher_Create (sample_watcher_uc post_box) None watch_bills) sample_world = (Inr resp, w')"
    by (simp add: Watcher_Create_def create_watcher_def watch_from_def new_watcher_def Watcher_Get_def find_watcher_def
        Repo_FindByIdAndUser_def Repo_FindById_def take_row_def watch_bills_def size_filter_def sample_watcher_uc_def
        watchers_table_def accounts_table_def writeFilters_def new_filter_def Repo_CreateInBatch_def insert_row_def
        filters_table_def record_and_commit_def Record_def tx_commit_def Repo_Create_def audit_table_def audit_row_def
        attribute_def entry_def opt_ref_def Filter_FindByWatcher_def Event_FindByWatcher_def FindNotifiersForEvents_def
        if_zero_def sample_defs)
  from Watcher_Create_quiet [OF run] run show ?thesis
    by (auto simp: list_ex_iff created_watcher_def watch_bills_def unix_milli_def sample_defs)
qed

end
