(* ===== verification/MailAccounts.thy ===== *)
theory MailAccounts
  imports Watchers "HOL-Library.AList"
begin

text \<open>
  internal/usecase/mail_account_usecase.go: connecting a mailbox with a password or through the
  consent screen of its provider, changing, verifying, listing, syncing it, and the schedule
  that verifies old credentials again.  A decoded JSON object is its list of members, each
  value already re-encoded (\<open>mu_members\<close>; \<open>None\<close> where decoding fails), and marshalling
  a map sorts its keys.
\<close>

record mail_account_uc =
  mu_pipeline :: pipeline
  mu_members :: "json \<Rightarrow> (string \<times> json) list option"
  mu_ui_base_url :: string
  mu_valid_create :: "create_mail_account_request \<Rightarrow> bool"
  mu_valid_list :: "list_mail_account_request \<Rightarrow> bool"
  mu_valid_update :: "update_mail_account_request \<Rightarrow> bool"
  mu_valid_authorize :: "oauth_authorize_request \<Rightarrow> bool"
  mu_valid_reauthorize :: "oauth_reauthorize_request \<Rightarrow> bool"

abbreviation mu_resolver :: "mail_account_uc \<Rightarrow> resolver" where
  "mu_resolver M \<equiv> pl_resolver (mu_pipeline M)"

abbreviation mu_unicode :: "mail_account_uc \<Rightarrow> unicode" where
  "mu_unicode M \<equiv> rs_unicode (mu_resolver M)"

subsection \<open>Pieces\<close>

definition provider :: "mail_account_uc \<Rightarrow> string \<Rightarrow> mail_provider ioE" where
  "provider M slug =
     bindE (mapErr (\<lambda>_. HttpErr 400 (''unknown mail provider '' @ go_quote (mu_unicode M) slug))
       (MailProvider_FindBySlug slug)) (\<lambda>p.
     if \<not> mp_enabled p then failE (HttpErr 400 (mp_label p @ '' is not available yet''))
     else if \<not> Mail_Has (rs_clients (mu_resolver M)) (mp_kind p)
     then failE (HttpErr 501 (mp_label p @ '' needs the '' @ mp_kind p @ '' client, which is not built yet''))
     else returnE p)"

definition presets :: "unicode \<Rightarrow> mail_provider \<Rightarrow> (string \<times> json) list" where
  "presets U p =
     (case mp_default_host p of None \<Rightarrow> [] | Some h \<Rightarrow> [(''host'', json_string U h)])
     @ (case mp_default_port p of None \<Rightarrow> [] | Some n \<Rightarrow> [(''port'', itoa n)])
     @ [(''use_tls'', if mp_default_use_tls p then ''true'' else ''false'')]"

definition layer :: "(string \<times> json) list \<Rightarrow> (string \<times> json) list \<Rightarrow> (string \<times> json) list" where
  "layer base over = foldl (\<lambda>m (k, v). AList.update k v m) base over"

definition marshal_members :: "unicode \<Rightarrow> (string \<times> json) list \<Rightarrow> json" where
  "marshal_members U ms =
     ''{'' @ join '','' (map (\<lambda>(k, v). json_string U k @ '':'' @ v) (sort_key fst ms)) @ ''}''"

definition mergeSettings :: "mail_account_uc \<Rightarrow> mail_provider \<Rightarrow> json \<Rightarrow> json \<Rightarrow> err + json" where
  "mergeSettings M p existing incoming =
     (case (if existing \<noteq> [] then mu_members M existing else Some (presets (mu_unicode M) p)) of
        None \<Rightarrow> Inl ErrInternal
      | Some base \<Rightarrow>
         (case (if incoming \<noteq> [] then mu_members M incoming else Some []) of
            None \<Rightarrow> Inl (HttpErr 400 ''settings must be a JSON object'')
          | Some supplied \<Rightarrow> Inr (marshal_members (mu_unicode M) (layer base supplied))))"

definition describe :: "mail_account \<Rightarrow> mail_account_response io" where
  "describe account = do {
     r \<leftarrow> MailProvider_FindBySlug (ma_provider account);
     let response = MailAccountToResponse account;
     ret (case r of Inl _ \<Rightarrow> response
        | Inr p \<Rightarrow> response\<lparr>map_provider_label := mp_label p, map_kind := mp_kind p\<rparr>) }"

definition decorate :: "mail_account_response list \<Rightarrow> mail_account_response list io" where
  "decorate responses = do {
     r \<leftarrow> MailProvider_FindAll;
     ret (case r of Inl _ \<Rightarrow> responses
        | Inr rows \<Rightarrow> map (\<lambda>x. case map_of (rev (map (\<lambda>p. (mp_slug p, p)) rows)) (map_provider x) of
              None \<Rightarrow> x
            | Some p \<Rightarrow> x\<lparr>map_provider_label := mp_label p, map_kind := mp_kind p\<rparr>) responses) }"

definition described :: "mail_account \<Rightarrow> mail_account_response ioE" where
  "described account = State_Monad.bind (describe account) returnE"

definition find_account :: "string \<Rightarrow> string \<Rightarrow> mail_account ioE" where
  "find_account i userID = not_found ''mail account not found'' (Repo_FindByIdAndUser accounts_table i userID)"

subsection \<open>Creating and reading\<close>

definition first_mode :: "unicode \<Rightarrow> mail_provider \<Rightarrow> string \<Rightarrow> err + string" where
  "first_mode U p requested =
     (if requested \<noteq> [] then Inr requested
      else (case AuthModeList U p of
          [] \<Rightarrow> Inl (Panic ''index out of range [0] with length 0'')
        | m # _ \<Rightarrow> Inr m))"

definition new_account :: "create_mail_account_request \<Rightarrow> mail_provider \<Rightarrow> string \<Rightarrow> string \<Rightarrow> string \<Rightarrow> json \<Rightarrow> string \<Rightarrow> int \<Rightarrow> mail_account" where
  "new_account request p email authMode encrypted settings i now =
     \<lparr>ma_id = i, ma_user_id = cmaq_user_id request, ma_provider = mp_slug p, ma_email_address = email,
      ma_display_name = nilIfEmpty (cmaq_display_name request), ma_auth_mode = authMode,
      ma_credentials = encrypted, ma_settings = settings, ma_provider_account_id = None, ma_scopes = None,
      ma_token_expires_at = None, ma_status = MailAccountStatusPending, ma_last_verified_at = None,
      ma_last_error = None, ma_sync_state = ''{}'', ma_last_synced_at = None, ma_last_push_at = None,
      ma_poll_interval_seconds = (if cmaq_poll_interval_seconds request = 0 then 120
                                  else cmaq_poll_interval_seconds request),
      ma_next_poll_at = now, ma_created_at = 0, ma_updated_at = 0\<rparr>"

definition Account_Create :: "mail_account_uc \<Rightarrow> ctx \<Rightarrow> create_mail_account_request \<Rightarrow> mail_account_response ioE" where
  "Account_Create M c request =
     (if \<not> mu_valid_create M request then failE ErrBadRequest
      else bindE (tx_scope (
        bindE (provider M (cmaq_provider request)) (\<lambda>p.
        bindE (liftE (first_mode (mu_unicode M) p (cmaq_auth_mode request))) (\<lambda>authMode.
        if \<not> SupportsAuthMode (mu_unicode M) p authMode
        then failE (HttpErr 400 (mp_label p @ '' does not support '' @ authMode @ '', it supports '' @ mp_auth_modes p))
        else bindE (liftE (mergeSettings M p [] (cmaq_settings request))) (\<lambda>settings.
        let email = to_lower (mu_unicode M) (trim_space (mu_unicode M) (cmaq_email_address request)) in
        bindE (internal (MailAccount_CountByEmail (cmaq_user_id request) email)) (\<lambda>total.
        if total > 0 then failE (HttpErr 409 ''that mailbox is already connected'')
        else bindE (Encrypt_credentials (mu_resolver M) (no_credentials\<lparr>cr_username := cmaq_username request,
              cr_password := cmaq_password request\<rparr>)) (\<lambda>encrypted.
        State_Monad.bind new_uuid (\<lambda>i.
        State_Monad.bind now_milli (\<lambda>now.
        bindE (internal (Repo_Create accounts_table (new_account request p email authMode encrypted settings i now))) (\<lambda>account.
        bindE (record_and_commit c (entry (cmaq_user_id request) ''mail_account.created'' ''mail_accounts'' (ma_id account)))
          (\<lambda>_. returnE account)))))))))))
        described)"

definition Account_List :: "mail_account_uc \<Rightarrow> list_mail_account_request \<Rightarrow> (mail_account_response list \<times> page_metadata) ioE" where
  "Account_List M request0 =
     (let (page, sz) = Normalize (lmaq_page request0) (lmaq_size request0);
          request = request0\<lparr>lmaq_page := page, lmaq_size := sz\<rparr> in
      if \<not> mu_valid_list M request then failE ErrBadRequest
      else bindE (internal (Repo_Paginate
          (MailAccount_Search (lmaq_user_id request) (lmaq_status request) (lmaq_provider request)) page sz)) (\<lambda>(xs, total_items).
        State_Monad.bind (decorate (MailAccountsToResponses xs)) (\<lambda>responses.
        returnE (responses, NewPageMetadata page sz total_items))))"

definition Account_Get :: "get_mail_account_request \<Rightarrow> mail_account_response ioE" where
  "Account_Get request = bindE (find_account (gmaq_id request) (gmaq_user_id request)) described"

subsection \<open>Changing\<close>

definition change_settings :: "mail_account_uc \<Rightarrow> update_mail_account_request \<Rightarrow> mail_account \<Rightarrow> mail_account ioE" where
  "change_settings M request a =
     (if umaq_settings request = [] then returnE a
      else bindE (provider M (ma_provider a)) (\<lambda>p.
        bindE (liftE (mergeSettings M p (ma_settings a) (umaq_settings request))) (\<lambda>merged_settings.
        returnE (a\<lparr>ma_settings := merged_settings, ma_status := MailAccountStatusPending\<rparr>))))"

definition change_credentials :: "mail_account_uc \<Rightarrow> update_mail_account_request \<Rightarrow> mail_account \<Rightarrow> mail_account ioE" where
  "change_credentials M request a =
     (if umaq_password request = [] \<and> umaq_username request = [] then returnE a
      else bindE (liftE (Credentials (mu_resolver M) a)) (\<lambda>cr.
        let cr1 = (if umaq_username request \<noteq> [] then cr\<lparr>cr_username := umaq_username request\<rparr> else cr);
            cr2 = (if umaq_password request \<noteq> [] then cr1\<lparr>cr_password := umaq_password request\<rparr> else cr1) in
        bindE (Encrypt_credentials (mu_resolver M) cr2) (\<lambda>encrypted.
        returnE (a\<lparr>ma_credentials := encrypted, ma_status := MailAccountStatusPending\<rparr>))))"

definition patched_account :: "update_mail_account_request \<Rightarrow> mail_account \<Rightarrow> mail_account" where
  "patched_account request a = a\<lparr>
     ma_display_name := (if umaq_display_name request \<noteq> [] then Some (umaq_display_name request) else ma_display_name a),
     ma_poll_interval_seconds := (if umaq_poll_interval_seconds request > 0 then umaq_poll_interval_seconds request
                                  else ma_poll_interval_seconds a),
     ma_status := (if umaq_status request \<noteq> [] then umaq_status request else ma_status a)\<rparr>"

definition Account_Update :: "mail_account_uc \<Rightarrow> ctx \<Rightarrow> update_mail_account_request \<Rightarrow> mail_account_response ioE" where
  "Account_Update M c request =
     (if \<not> mu_valid_update M request then failE ErrBadRequest
      else bindE (tx_scope (
        bindE (find_account (umaq_id request) (umaq_user_id request)) (\<lambda>a0.
        bindE (change_settings M request (patched_account request a0)) (\<lambda>a1.
        bindE (change_credentials M request a1) (\<lambda>a2.
        bindE (internal (Repo_Update accounts_table a2)) (\<lambda>account.
        bindE (record_and_commit c (entry (umaq_user_id request) ''mail_account.updated'' ''mail_accounts'' (ma_id account)))
          (\<lambda>_. returnE account)))))))
        described)"

definition Account_Delete :: "ctx \<Rightarrow> get_mail_account_request \<Rightarrow> bool ioE" where
  "Account_Delete c request = tx_scope
     (bindE (find_account (gmaq_id request) (gmaq_user_id request)) (\<lambda>account.
      bindE (internal (NamesByMailAccount (ma_id account))) (\<lambda>names.
      if names \<noteq> [] then failE (HttpErr 409 (''this mailbox still has watchers: '' @ join '', '' names))
      else bindE (internal (Repo_Delete accounts_table account)) (\<lambda>_.
        bindE (record_and_commit c (entry (gmaq_user_id request) ''mail_account.deleted'' ''mail_accounts'' (ma_id account)))
          (\<lambda>_. returnE True)))))"

subsection \<open>Talking to the mailbox\<close>

text \<open>\<open>Resolve\<close> as the use case calls it: the account struct it may have changed, or its error\<close>

definition resolve :: "mail_account_uc \<Rightarrow> mail_account \<Rightarrow> (mail_account \<times> mail_client \<times> mail_target) ioE" where
  "resolve M account = State_Monad.bind (Resolve (mu_resolver M) account) (\<lambda>(account', r). case r of
      Inl e \<Rightarrow> failE e
    | Inr (client, target) \<Rightarrow> returnE (account', client, target))"

text \<open>
  A failed verification is committed and answered with an error: the body of the transaction
  returns that error as a value.  The result of the save is ignored, but a refused save
  aborts the transaction.
\<close>

definition verify_failed :: "mail_account \<Rightarrow> err \<Rightarrow> (err + 'a) ioE" where
  "verify_failed a e = State_Monad.bind (Repo_Update accounts_table
       (a\<lparr>ma_status := MailAccountStatusError, ma_last_error := Some (err_text e)\<rparr>)) (\<lambda>saved.
     State_Monad.bind (tx_commit (case saved of Inl _ \<Rightarrow> False | Inr _ \<Rightarrow> True)) (\<lambda>committed. case committed of
        Inl _ \<Rightarrow> failE (HttpErr 422 (err_text e))
      | Inr _ \<Rightarrow> returnE (Inl (HttpErr 422 (err_text e)))))"

definition Account_Verify :: "mail_account_uc \<Rightarrow> ctx \<Rightarrow> get_mail_account_request \<Rightarrow> verify_mail_account_response ioE" where
  "Account_Verify M c request =
     bindE (tx_scope (
       bindE (find_account (gmaq_id request) (gmaq_user_id request)) (\<lambda>a0.
       bindE (resolve M a0) (\<lambda>(a, client, target).
       State_Monad.bind now_milli (\<lambda>now. case cl_verify client target of
           Inl e \<Rightarrow> verify_failed a e
         | Inr folders \<Rightarrow>
             bindE (internal (Repo_Update accounts_table (a\<lparr>ma_status := MailAccountStatusVerified,
               ma_last_verified_at := Some now, ma_last_error := None\<rparr>))) (\<lambda>account.
             bindE (record_and_commit c (entry (gmaq_user_id request) ''mail_account.verified'' ''mail_accounts'' (ma_id account)))
               (\<lambda>_. returnE (Inr \<lparr>vmap_status = ma_status account, vmap_folders_found = int (length folders),
                  vmap_last_verified_at = now\<rparr>))))))))
       liftE"

definition Folders :: "mail_account_uc \<Rightarrow> get_mail_account_request \<Rightarrow> folder_response list ioE" where
  "Folders M request =
     bindE (find_account (gmaq_id request) (gmaq_user_id request)) (\<lambda>a.
     bindE (resolve M a) (\<lambda>(_, client, target).
     bindE (liftE (ListFolders client target)) (\<lambda>folders.
     returnE (map (\<lambda>f. \<lparr>fp_name = fo_name f, fp_message_count = fo_message_count f\<rparr>) folders))))"

definition Sync :: "mail_account_uc \<Rightarrow> get_mail_account_request \<Rightarrow> sync_response ioE" where
  "Sync M request =
     bindE (find_account (gmaq_id request) (gmaq_user_id request)) (\<lambda>a.
     State_Monad.bind (SyncAccount (mu_pipeline M) a) (\<lambda>(_, r). liftE r))"

definition ListSyncRuns :: "get_mail_account_request \<Rightarrow> int \<Rightarrow> int \<Rightarrow> (mail_sync_run_response list \<times> page_metadata) ioE" where
  "ListSyncRuns request page0 size0 =
     (let (page, sz) = Normalize page0 size0 in
      bindE (find_account (gmaq_id request) (gmaq_user_id request)) (\<lambda>a.
      bindE (internal (Repo_Paginate (SyncRun_Search (ma_id a) []) page sz)) (\<lambda>(xs, total_items).
      returnE (SyncRunsToResponses xs, NewPageMetadata page sz total_items))))"

subsection \<open>Verifying again on a schedule\<close>

definition stamp_attempt :: "int \<Rightarrow> mail_account \<Rightarrow> unit ioE" where
  "stamp_attempt now a = bindE (Repo_UpdateWhere accounts_table (\<lambda>x. ma_id x = ma_id a)
     (\<lambda>x. x\<lparr>ma_last_verified_at := Some now\<rparr>)) (\<lambda>_. returnE ())"

definition claim_stale :: "(string \<Rightarrow> bool) \<Rightarrow> int \<Rightarrow> int \<Rightarrow> mail_account list ioE" where
  "claim_stale locked before limit = tx_scope (
     bindE (FindStale locked before limit) (\<lambda>accounts.
     State_Monad.bind now_milli (\<lambda>now.
     bindE (forE accounts (stamp_attempt now)) (\<lambda>_.
     bindE commit (\<lambda>_. returnE accounts)))))"

definition reverify_fail :: "mail_account \<Rightarrow> err \<Rightarrow> err option io" where
  "reverify_fail a e = State_Monad.bind (ignoreE (Repo_Update accounts_table
     (a\<lparr>ma_status := MailAccountStatusError, ma_last_error := Some (err_text e)\<rparr>))) (\<lambda>_. ret (Some e))"

definition reverify_ok :: "mail_account \<Rightarrow> err option io" where
  "reverify_ok a = do {
     now \<leftarrow> now_milli;
     r \<leftarrow> Repo_Update accounts_table (a\<lparr>ma_status := MailAccountStatusVerified,
       ma_last_verified_at := Some now, ma_last_error := None\<rparr>);
     ret (case r of Inl e \<Rightarrow> Some e | Inr _ \<Rightarrow> None) }"

definition reverifyOne :: "mail_account_uc \<Rightarrow> mail_account \<Rightarrow> err option io" where
  "reverifyOne M account = State_Monad.bind (Resolve (mu_resolver M) account) (\<lambda>(a, r). case r of
      Inl e \<Rightarrow> reverify_fail a e
    | Inr (client, target) \<Rightarrow> (case cl_verify client target of
          Inl e \<Rightarrow> reverify_fail a e
        | Inr _ \<Rightarrow> reverify_ok a))"

fun reverify_all :: "mail_account_uc \<Rightarrow> mail_account list \<Rightarrow> int \<times> int \<Rightarrow> (int \<times> int) io" where
  "reverify_all M [] counts = ret counts"
| "reverify_all M (a # as) (checked, failed) = do {
     e \<leftarrow> reverifyOne M a;
     reverify_all M as (checked + 1, (case e of None \<Rightarrow> failed | Some _ \<Rightarrow> failed + 1)) }"

definition ReverifyDue :: "mail_account_uc \<Rightarrow> (string \<Rightarrow> bool) \<Rightarrow> int \<Rightarrow> int \<Rightarrow> (int \<times> int) ioE" where
  "ReverifyDue M locked olderThan limit = State_Monad.bind time_now (\<lambda>t.
     bindE (claim_stale locked (unix_milli (t - olderThan)) limit) (\<lambda>accounts.
     State_Monad.bind (reverify_all M accounts (0, 0)) returnE))"

subsection \<open>Consent\<close>

definition oauthClient :: "mail_account_uc \<Rightarrow> string \<Rightarrow> (oauth_client \<times> mail_provider) ioE" where
  "oauthClient M slug = bindE (provider M slug) (\<lambda>p.
     if \<not> SupportsAuthMode (mu_unicode M) p AuthXOAuth2
     then failE (HttpErr 400 (mp_label p @ '' does not connect over OAuth, it supports '' @ mp_auth_modes p))
     else (case rs_oauth (mu_resolver M) slug of
         None \<Rightarrow> failE (HttpErr 501 (''OAuth for '' @ slug
           @ '' is not configured yet: connect the mailbox over IMAP, or set the provider client id and secret''))
       | Some client \<Rightarrow> returnE (client, p)))"

text \<open>\<open>base64.RawURLEncoding\<close>: the URL alphabet, no padding\<close>

definition url_char :: "char \<Rightarrow> char" where
  "url_char c = (if c = CHR ''+'' then CHR ''-'' else if c = CHR 0x2F then CHR ''_'' else c)"

definition RawURLEncodeToString :: "string \<Rightarrow> string" where
  "RawURLEncodeToString b = map url_char (takeWhile (\<lambda>c. c \<noteq> CHR ''='') (EncodeToString b))"

definition newOAuthState :: "string ioE" where
  "newOAuthState = bindE (read_random 32) (\<lambda>raw. returnE (RawURLEncodeToString raw))"

definition start_consent :: "mail_account_uc \<Rightarrow> oauth_client \<Rightarrow> string \<Rightarrow> string \<Rightarrow> string \<Rightarrow> oauth_authorize_response ioE" where
  "start_consent M client userID slug accountID =
     bindE (internal newOAuthState) (\<lambda>state.
     State_Monad.bind now_milli (\<lambda>now.
     bindE (mapErr (\<lambda>_. HttpErr 503 ''cannot start a connection right now, try again in a moment'')
       (Cache_Set OAuthStateKeyPrefix (ttl_oauth (rs_ttls (mu_resolver M))) state
         (ROAuth \<lparr>os_user_id = userID, os_provider = slug, os_account_id = accountID, os_created_at = now\<rparr>))) (\<lambda>_.
     returnE \<lparr>oap_redirect_url = oc_authorize_url client state, oap_state = state\<rparr>)))"

definition Authorize :: "mail_account_uc \<Rightarrow> oauth_authorize_request \<Rightarrow> oauth_authorize_response ioE" where
  "Authorize M request =
     (if \<not> mu_valid_authorize M request then failE ErrBadRequest
      else bindE (oauthClient M (oaq_provider request)) (\<lambda>(client, _).
        start_consent M client (oaq_user_id request) (oaq_provider request) []))"

definition Reauthorize :: "mail_account_uc \<Rightarrow> oauth_reauthorize_request \<Rightarrow> oauth_authorize_response ioE" where
  "Reauthorize M request =
     (if \<not> mu_valid_reauthorize M request then failE ErrBadRequest
      else bindE (find_account (orq_id request) (orq_user_id request)) (\<lambda>a.
        bindE (oauthClient M (ma_provider a)) (\<lambda>(client, _).
        start_consent M client (orq_user_id request) (ma_provider a) (ma_id a))))"

definition blank_account :: mail_account where
  "blank_account = \<lparr>ma_id = [], ma_user_id = [], ma_provider = [], ma_email_address = [], ma_display_name = None,
     ma_auth_mode = [], ma_credentials = [], ma_settings = [], ma_provider_account_id = None, ma_scopes = None,
     ma_token_expires_at = None, ma_status = [], ma_last_verified_at = None, ma_last_error = None,
     ma_sync_state = [], ma_last_synced_at = None, ma_last_push_at = None, ma_poll_interval_seconds = 0,
     ma_next_poll_at = 0, ma_created_at = 0, ma_updated_at = 0\<rparr>"

text \<open>The row a consent lands on: the pinned one, the one with the address, or none (\<open>False\<close>)\<close>

definition consent_row :: "oauth_state \<Rightarrow> string \<Rightarrow> (mail_account \<times> bool) ioE" where
  "consent_row state email =
     (if os_account_id state \<noteq> []
      then bindE (mapErr (\<lambda>e. PlainErr (''the mailbox being reconnected no longer exists: '' @ err_text e))
             (Repo_FindByIdAndUser accounts_table (os_account_id state) (os_user_id state))) (\<lambda>a.
           if ma_email_address a \<noteq> email
           then failE (AddressMismatch (''the consent screen returned a different address: '' @ ma_email_address a
                  @ '' was reconnected as '' @ email))
           else returnE (a, True))
      else State_Monad.bind (FindByUserAndEmail (os_user_id state) email) (\<lambda>r. case r of
          Inl _ \<Rightarrow> returnE (blank_account, False)
        | Inr a \<Rightarrow> returnE (a, True)))"

definition consent_credentials :: "mail_account_uc \<Rightarrow> mail_account \<times> bool \<Rightarrow> tokens \<Rightarrow> string ioE" where
  "consent_credentials M = (\<lambda>(a, existing) ts.
     bindE (liftE (if existing then Credentials (mu_resolver M) a else Inr no_credentials)) (\<lambda>cr.
     let cr1 = cr\<lparr>cr_access_token := tn_access_token ts\<rparr>;
         cr2 = (if tn_refresh_token ts \<noteq> [] then cr1\<lparr>cr_refresh_token := tn_refresh_token ts\<rparr> else cr1) in
     Encrypt_credentials (mu_resolver M) cr2))"

definition consented :: "mail_provider \<Rightarrow> string \<Rightarrow> identity \<Rightarrow> tokens \<Rightarrow> string \<Rightarrow> json \<Rightarrow> mail_account \<Rightarrow> mail_account" where
  "consented p email ident ts encrypted settings a = a\<lparr>ma_provider := mp_slug p, ma_email_address := email,
     ma_auth_mode := AuthXOAuth2, ma_credentials := encrypted, ma_settings := settings,
     ma_provider_account_id := nilIfEmpty (id_account_id ident), ma_scopes := nilIfEmpty (join '' '' (tn_scopes ts)),
     ma_last_error := None, ma_status := MailAccountStatusPending,
     ma_token_expires_at := (if tn_expires_at ts > 0 then Some (tn_expires_at ts) else ma_token_expires_at a)\<rparr>"

definition store_consent :: "oauth_state \<Rightarrow> bool \<Rightarrow> mail_account \<Rightarrow> mail_account ioE" where
  "store_consent state existing a =
     (if existing then Repo_Update accounts_table a
      else State_Monad.bind new_uuid (\<lambda>i. State_Monad.bind now_milli (\<lambda>now.
        Repo_Create accounts_table (a\<lparr>ma_id := i, ma_user_id := os_user_id state, ma_sync_state := ''{}'',
          ma_poll_interval_seconds := 120, ma_next_poll_at := now\<rparr>))))"

definition connect :: "mail_account_uc \<Rightarrow> ctx \<Rightarrow> oauth_state \<Rightarrow> mail_provider \<Rightarrow> identity \<Rightarrow> tokens \<Rightarrow> unit ioE" where
  "connect M c state p ident ts =
     (let email = to_lower (mu_unicode M) (trim_space (mu_unicode M) (id_email ident)) in
      if email = [] then failE (PlainErr ''the provider returned no email address'')
      else tx_scope (
        bindE (consent_row state email) (\<lambda>(a, existing).
        if existing \<and> ma_provider a \<noteq> mp_slug p
        then failE (PlainErr (email @ '' is already connected as '' @ ma_provider a))
        else bindE (consent_credentials M (a, existing) ts) (\<lambda>encrypted.
          bindE (liftE (mergeSettings M p (ma_settings a) [])) (\<lambda>settings.
          bindE (store_consent state existing (consented p email ident ts encrypted settings a)) (\<lambda>account.
          State_Monad.bind (Record c (entry (os_user_id state)
              (if existing then ''mail_account.reauthorized'' else ''mail_account.connected'')
              ''mail_accounts'' (ma_id account))) tx_commit))))))"

definition callbackResult :: "mail_account_uc \<Rightarrow> string \<Rightarrow> string" where
  "callbackResult M reason =
     (let base = rev (dropWhile (\<lambda>c. c = CHR 0x2F) (rev (mu_ui_base_url M))) @ ''/mail-accounts'' in
      if reason = [] then base @ ''?connected=1'' else base @ ''?oauth_error='' @ query_escape reason)"

definition finish_callback :: "mail_account_uc \<Rightarrow> ctx \<Rightarrow> oauth_callback_request \<Rightarrow> oauth_state \<Rightarrow> string io" where
  "finish_callback M c request state = do {
     found \<leftarrow> oauthClient M (ocq_provider request);
     (case found of
        Inl _ \<Rightarrow> ret ''unavailable''
      | Inr (client, p) \<Rightarrow> (case Exchange (mu_unicode M) client (ocq_code request) of
          Inl _ \<Rightarrow> ret ''exchange''
        | Inr ts \<Rightarrow> (case Identify client ts of
            Inl _ \<Rightarrow> ret ''identity''
          | Inr ident \<Rightarrow> do {
              r \<leftarrow> connect M c state p ident ts;
              ret (case r of Inr _ \<Rightarrow> [] | Inl (AddressMismatch _) \<Rightarrow> ''mismatch'' | Inl _ \<Rightarrow> ''store'') }))) }"

text \<open>The reason the browser is sent back with; empty on success\<close>

definition callback_reason :: "mail_account_uc \<Rightarrow> ctx \<Rightarrow> oauth_callback_request \<Rightarrow> string io" where
  "callback_reason M c request =
     (if ocq_denied request then ret ''denied''
      else if ocq_state request = [] \<or> ocq_code request = [] then ret ''invalid''
      else do {
        consumed \<leftarrow> Consume (ocq_state request);
        (case consumed of
           Inl _ \<Rightarrow> ret ''unavailable''
         | Inr None \<Rightarrow> ret ''state''
         | Inr (Some state) \<Rightarrow> if os_provider state \<noteq> ocq_provider request then ret ''state''
             else finish_callback M c request state) })"

definition Callback :: "mail_account_uc \<Rightarrow> ctx \<Rightarrow> oauth_callback_request \<Rightarrow> string io" where
  "Callback M c request = do { reason \<leftarrow> callback_reason M c request; ret (callbackResult M reason) }"

subsection \<open>Properties\<close>

lemma find_account_ok:
  assumes "run_state (find_account i user) w = (Inr a, w')"
  shows "a \<in> set (accounts_of (wdb w)) \<and> ma_id a = i \<and> ma_user_id a = user \<and> wdb w' = wdb w"
  using FindByIdAndUser_row [of accounts_table i user w a w'] assms unfolding find_account_def
  by (auto elim!: mapErr_okE simp: accounts_table_def simp del: run_mapErr)

lemma accounts_rows: "tb_rows accounts_table = accounts_of" "tb_key accounts_table = ma_id"
  by (simp_all add: accounts_table_def)

definition account_identity :: "mail_account \<Rightarrow> string \<times> string \<times> string" where
  "account_identity a = (ma_id a, ma_user_id a, ma_email_address a)"

lemma save_account_ok:
  assumes "run_state (Repo_Update accounts_table a) w = (Inr b, w')"
    and "a0 \<in> set (accounts_of (wdb w))" and "account_identity a = account_identity a0"
    and "distinct (map ma_id (accounts_of (wdb w)))"
  shows "map account_identity (accounts_of (wdb w')) = map account_identity (accounts_of (wdb w))
    \<and> b \<in> set (accounts_of (wdb w')) \<and> (\<exists>n. b = tb_stamp accounts_table n (tb_touch accounts_table n a))"
proof -
  obtain n where b: "b = tb_stamp accounts_table n (tb_touch accounts_table n a)"
    and sv: "save_row accounts_table b (wdb w) = (Inr b, wdb w')"
    using Repo_Update_ok [OF assms(1)] by blast
  have ident: "account_identity b = account_identity a0"
    using b assms(3) by (simp add: account_identity_def accounts_table_def)
  have "has_id ma_id (ma_id b) (accounts_of (wdb w))"
    using assms(2) ident by (auto simp: list_ex_iff account_identity_def)
  then have w': "accounts_of (wdb w') = update_where (\<lambda>x. ma_id x = ma_id b) (\<lambda>_. b) (accounts_of (wdb w))"
    using accounts.save_row_ok [OF sv] by (simp add: accounts_rows)
  have "map account_identity (accounts_of (wdb w')) = map account_identity (accounts_of (wdb w))"
    unfolding w' using assms(2,4) ident by (intro map_upsert) (auto simp: account_identity_def)
  moreover have "b \<in> set (accounts_of (wdb w'))"
    using assms(2) ident by (auto simp: w' set_update_where account_identity_def)
  ultimately show ?thesis using b by blast
qed

lemma consent_row_ok:
  assumes "run_state (consent_row state email) w = (Inr (a, existing), w')"
  shows "wdb w' = wdb w \<and> (existing \<longrightarrow> a \<in> set (accounts_of (wdb w)) \<and> ma_user_id a = os_user_id state
      \<and> ma_email_address a = email) \<and> (os_account_id state \<noteq> [] \<longrightarrow> existing \<and> ma_id a = os_account_id state)"
proof (cases "os_account_id state = []")
  case True
  then have eq: "consent_row state email = State_Monad.bind (FindByUserAndEmail (os_user_id state) email)
      (\<lambda>r. case r of Inl _ \<Rightarrow> returnE (blank_account, False) | Inr a \<Rightarrow> returnE (a, True))"
    by (simp add: consent_row_def)
  obtain r w1 where q: "run_state (FindByUserAndEmail (os_user_id state) email) w = (r, w1)"
    and rest: "run_state (case r of Inl _ \<Rightarrow> returnE (blank_account, False) | Inr a \<Rightarrow> returnE (a, True)) w1 = (Inr (a, existing) :: err + mail_account \<times> bool, w')"
    using assms unfolding eq by (elim bind_okE) (rule that; assumption)
  have "wdb w1 = wdb w" using same_run [OF q] by (simp add: pres)
  moreover have "x \<in> set (accounts_of (wdb w)) \<and> ma_user_id x = os_user_id state \<and> ma_email_address x = email"
    if "r = Inr x" for x
    using query_ok(1) [OF q [unfolded FindByUserAndEmail_def that]]
    by (auto simp: take_row_def split: option.splits dest: take_first_Some)
  ultimately show ?thesis using rest True by (cases r) auto
next
  case False
  then obtain x where f: "run_state (Repo_FindByIdAndUser accounts_table (os_account_id state) (os_user_id state)) w = (Inr x, w')"
    and "x = a" "existing" "ma_email_address a = email"
    using assms unfolding consent_row_def
    by (auto elim!: bindE_okE mapErr_okE simp del: run_bindE run_mapErr split: if_splits)
  with FindByIdAndUser_row [OF f] False show ?thesis by (simp add: accounts_table_def)
qed

lemma pres_consent [pres]: "preserves (db_inv K) (consent_credentials M ae ts)"
  unfolding consent_credentials_def Let_def by (cases ae) (auto intro!: pres)

lemma store_consent_update:
  assumes "run_state (store_consent state True (consented p email ident ts enc st a)) w = (Inr b, w')"
    and "a \<in> set (accounts_of (wdb w))" "distinct (map ma_id (accounts_of (wdb w)))" "ma_email_address a = email"
  shows "map account_identity (accounts_of (wdb w')) = map account_identity (accounts_of (wdb w))
    \<and> b \<in> set (accounts_of (wdb w')) \<and> account_identity b = account_identity a
    \<and> ma_status b = MailAccountStatusPending"
proof -
  let ?x = "consented p email ident ts enc st a"
  have same: "account_identity ?x = account_identity a" using assms(4) by (simp add: account_identity_def consented_def)
  have "run_state (Repo_Update accounts_table ?x) w = (Inr b, w')" using assms(1) by (simp add: store_consent_def)
  from save_account_ok [OF this assms(2) same] assms(3) obtain n where
    m: "map account_identity (accounts_of (wdb w')) = map account_identity (accounts_of (wdb w))"
    and bs: "b \<in> set (accounts_of (wdb w'))" "b = tb_stamp accounts_table n (tb_touch accounts_table n ?x)" by auto
  then show ?thesis using assms(4) by (simp add: accounts_table_def consented_def account_identity_def)
qed

lemma store_consent_insert:
  assumes "run_state (store_consent state False (consented p email ident ts enc st a)) w = (Inr b, w')"
  shows "accounts_of (wdb w') = accounts_of (wdb w) @ [b] \<and> ma_user_id b = os_user_id state
    \<and> ma_email_address b = email \<and> ma_status b = MailAccountStatusPending
    \<and> \<not> list_ex (\<lambda>x. ma_user_id x = os_user_id state \<and> ma_email_address x = email) (accounts_of (wdb w))"
proof -
  let ?x = "\<lambda>i now. consented p email ident ts enc st a \<lparr>ma_id := i, ma_user_id := os_user_id state,
      ma_sync_state := ''{}'', ma_poll_interval_seconds := 120, ma_next_poll_at := now\<rparr>"
  obtain i now s where "run_state (Repo_Create accounts_table (?x i now)) s = (Inr b, w')" and "wdb s = wdb w"
    using assms(1) by (simp add: store_consent_def)
  from Repo_Create_ok [OF this(1)] this(2) obtain n where ins: "insert_row accounts_table b (wdb w) = (Inr b, wdb w')"
    and bs: "b = tb_stamp accounts_table n (?x i now)"
    by auto
  have key: "ma_user_id b = os_user_id state" "ma_email_address b = email" "ma_status b = MailAccountStatusPending"
    using bs by (simp_all add: accounts_table_def consented_def)
  have "tb_check accounts_table (wdb w) b" "\<not> has_id ma_id (ma_id b) (accounts_of (wdb w))"
    using ins by (auto simp: insert_row_def accounts_rows split: if_splits)
  then show ?thesis
    using key accounts.insert_row_ok [OF ins]
    by (auto simp: accounts_rows accounts_table_def unique_on_def list_ex_iff list_all_iff)
qed

text \<open>C29: A reconnection never repoints a mailbox: when the consent of a user is stored, every mailbox
  keeps its identifier, owner and address; the one that was pinned, or that has the address
  the provider returned, goes back to pending for the user of the state; only without a pin,
  and only when the user has no mailbox of that address yet, one new mailbox is added.\<close>

theorem connect_never_repoints:
  assumes "run_state (connect M c state p ident ts) w = (Inr u, w')"
    and "distinct (map ma_id (accounts_of (wdb w)))"
    and "email = to_lower (mu_unicode M) (trim_space (mu_unicode M) (id_email ident))"
  shows "map account_identity (take (length (accounts_of (wdb w))) (accounts_of (wdb w')))
      = map account_identity (accounts_of (wdb w))
    \<and> list_all (\<lambda>a. os_account_id state = [] \<and> ma_user_id a = os_user_id state \<and> ma_email_address a = email
          \<and> \<not> list_ex (\<lambda>x. ma_user_id x = os_user_id state \<and> ma_email_address x = email) (accounts_of (wdb w)))
        (drop (length (accounts_of (wdb w))) (accounts_of (wdb w')))
    \<and> list_ex (\<lambda>a. ma_user_id a = os_user_id state \<and> ma_email_address a = email \<and> ma_status a = MailAccountStatusPending
          \<and> (os_account_id state \<noteq> [] \<longrightarrow> ma_id a = os_account_id state)) (accounts_of (wdb w'))"
proof -
  have ne: "email \<noteq> []" using assms(1,3) by (auto simp: connect_def Let_def split: if_splits)
  let ?rest = "\<lambda>a existing. if existing \<and> ma_provider a \<noteq> mp_slug p
        then failE (PlainErr (email @ '' is already connected as '' @ ma_provider a))
        else bindE (consent_credentials M (a, existing) ts) (\<lambda>encrypted.
          bindE (liftE (mergeSettings M p (ma_settings a) [])) (\<lambda>settings.
          bindE (store_consent state existing (consented p email ident ts encrypted settings a)) (\<lambda>account.
          State_Monad.bind (Record c (entry (os_user_id state)
              (if existing then ''mail_account.reauthorized'' else ''mail_account.connected'')
              ''mail_accounts'' (ma_id account))) tx_commit)))"
  obtain a existing w1 where row: "run_state (consent_row state email) w = (Inr (a, existing), w1)"
    and rest: "run_state (?rest a existing) w1 = (Inr u, w')"
  proof -
    obtain ax w1 where "run_state (consent_row state email) w = (Inr ax, w1)"
      and "run_state (case ax of (a, existing) \<Rightarrow> ?rest a existing) w1 = (Inr u, w')"
      using assms(1) unfolding connect_def Let_def assms(3) [symmetric] if_not_P [OF ne]
      by (elim tx_scope_okE bindE_okE) (rule that; assumption)
    then show ?thesis by (cases ax) (rule that; simp del: run_bindE run_state_bind split del: if_split)
  qed
  obtain enc w2 st w3 b w4 ok w5 where cr: "run_state (consent_credentials M (a, existing) ts) w1 = (Inr enc, w2)"
    and ms: "run_state (liftE (mergeSettings M p (ma_settings a) [])) w2 = (Inr st, w3)"
    and b: "run_state (store_consent state existing (consented p email ident ts enc st a)) w3 = (Inr b, w4)"
    and r: "run_state (Record c (entry (os_user_id state)
              (if existing then ''mail_account.reauthorized'' else ''mail_account.connected'')
              ''mail_accounts'' (ma_id b))) w4 = (ok, w5)"
    and cm: "run_state (tx_commit ok) w5 = (Inr u, w')"
    using rest by (elim guard_okE bindE_okE bind_okE) (rule that; assumption)
  note row = consent_row_ok [OF row]
  have w3: "wdb w3 = wdb w" using row same_run [OF cr] ms by (simp add: pres)
  have w': "accounts_of (wdb w') = accounts_of (wdb w4)"
  proof -
    have "accounts_of (wdb w5) = accounts_of (wdb w4)"
      using preserves_run [of "db_inv (\<lambda>d. accounts_of d = accounts_of (wdb w4))", OF pres_audit(1) _ r]
      by (simp add: db_inv_def)
    moreover have "wdb w' = wdb w5" using cm by (auto simp: tx_commit_def dest!: commit_ok split: if_splits)
    ultimately show ?thesis by simp
  qed
  show ?thesis
  proof (cases existing)
    case True
    with row have a: "a \<in> set (accounts_of (wdb w3))" "distinct (map ma_id (accounts_of (wdb w3)))" "ma_email_address a = email"
      using assms(2) by (simp_all add: w3)
    have "run_state (store_consent state True (consented p email ident ts enc st a)) w3 = (Inr b, w4)" using b True by simp
    note u = store_consent_update [OF this a]
    then have "length (accounts_of (wdb w4)) = length (accounts_of (wdb w))" by (metis length_map w3)
    moreover have "list_ex (\<lambda>a. ma_user_id a = os_user_id state \<and> ma_email_address a = email \<and> ma_status a = MailAccountStatusPending
          \<and> (os_account_id state \<noteq> [] \<longrightarrow> ma_id a = os_account_id state)) (accounts_of (wdb w4))"
      using u row True unfolding list_ex_iff by (intro bexI [of _ b]) (auto simp: account_identity_def)
    ultimately show ?thesis using u by (simp add: w' w3)
  next
    case False
    have "run_state (store_consent state False (consented p email ident ts enc st a)) w3 = (Inr b, w4)" using b False by simp
    note i = store_consent_insert [OF this]
    have "os_account_id state = []" using row False by auto
    with i show ?thesis by (simp add: w' w3)
  qed
qed

definition sample_account_uc :: mail_account_uc where
  "sample_account_uc = \<lparr>mu_pipeline = sample_pipeline post_box, mu_members = (\<lambda>_. Some []),
     mu_ui_base_url = ''https://ui/'', mu_valid_create = (\<lambda>_. True), mu_valid_list = (\<lambda>_. True),
     mu_valid_update = (\<lambda>_. True), mu_valid_authorize = (\<lambda>_. True), mu_valid_reauthorize = (\<lambda>_. True)\<rparr>"

definition pinned :: oauth_state where
  "pinned = \<lparr>os_user_id = ''ann'', os_provider = ''gmail'', os_account_id = ''box'', os_created_at = 1\<rparr>"

definition consenting :: identity where
  "consenting = \<lparr>id_email = ''ann@x'', id_account_id = ''g1''\<rparr>"

lemma consenting_address: "to_lower sample_unicode (trim_space sample_unicode ''ann@x'') = ''ann@x''"
  by code_simp

theorem connect_never_repoints_witness:
  "\<exists>w'. run_state (connect sample_account_uc None pinned gmail consenting sample_tokens) poll_world = (Inr (), w')
    \<and> map account_identity (take 1 (accounts_of (wdb w'))) = [account_identity plain_box]
    \<and> list_ex (\<lambda>a. ma_id a = ''box'' \<and> ma_status a = MailAccountStatusPending) (accounts_of (wdb w'))"
proof -
  obtain w' where run: "run_state (connect sample_account_uc None pinned gmail consenting sample_tokens) poll_world = (Inr (), w')"
    by (simp add: connect_def Let_def consent_row_def consent_credentials_def Credentials_def Decrypt_def Encrypt_credentials_def
        Encrypt_def Encode_nonempty mirror_box_def mergeSettings_def marshal_members_def layer_def store_consent_def consented_def
        Repo_FindByIdAndUser_def Repo_Update_def save_row_def accounts_table_def unique_on_def Record_def tx_commit_def audit_table_def
        audit_row_def attribute_def entry_def opt_ref_def Repo_Create_def insert_row_def sample_account_uc_def sample_pipeline_def
        sample_resolver_def consenting_address pinned_def consenting_def plain_box_def poll_world_def take_row_def sample_defs)
  have "distinct (map ma_id (accounts_of (wdb poll_world)))" by (simp add: poll_world_def)
  from connect_never_repoints [OF run this refl] have
    "map account_identity (take 1 (accounts_of (wdb w'))) = [account_identity plain_box]"
    "list_ex (\<lambda>a. ma_status a = MailAccountStatusPending \<and> ma_id a = ''box'') (accounts_of (wdb w'))"
    by (simp_all add: poll_world_def pinned_def list_ex_iff) blast
  with run show ?thesis by (auto simp: list_ex_iff)
qed

definition account_ok :: "mail_account \<Rightarrow> database \<Rightarrow> bool" where
  "account_ok a d \<longleftrightarrow> has_id ma_id (ma_id a) (accounts_of d) \<and> tb_check accounts_table d a"

lemma account_ok_key: "account_key x = account_key a \<Longrightarrow> account_ok x d = account_ok a d"
  by (simp add: account_ok_def account_key_def accounts_table_def unique_on_def)

lemma account_ok_save:
  assumes "account_key x = account_key a" and "account_ok a d"
  shows "account_ok a (snd (save_row accounts_table (tb_stamp accounts_table n (tb_touch accounts_table n x)) d))"
proof -
  define y where "y = tb_stamp accounts_table n (tb_touch accounts_table n x)"
  have y: "ma_id y = ma_id a" "ma_user_id y = ma_user_id a" "ma_email_address y = ma_email_address a"
    using assms by (simp_all add: y_def accounts_table_def account_key_def)
  show ?thesis
    using assms(2) y unfolding y_def [symmetric]
    by (auto simp: save_row_def account_ok_def accounts_table_def unique_on_def list_ex_iff list_all_iff set_update_where
        split: if_splits)
qed

lemma save_account_up:
  assumes "db_up w" and "account_ok x (wdb w)" and "distinct (map ma_id (accounts_of (wdb w)))"
  shows "\<exists>n w'. run_state (Repo_Update accounts_table x) w = (Inr (tb_stamp accounts_table n (tb_touch accounts_table n x)), w')
    \<and> take_first (\<lambda>a. ma_id a = ma_id x) (accounts_of (wdb w')) = Some (tb_stamp accounts_table n (tb_touch accounts_table n x))"
proof -
  let ?n = "unix_milli (clock w (ticks w))"
  let ?y = "tb_stamp accounts_table ?n (tb_touch accounts_table ?n x)"
  have y: "ma_id ?y = ma_id x" "tb_check accounts_table (wdb w) ?y"
    using assms(2) by (simp_all add: account_ok_def accounts_table_def unique_on_def)
  obtain w' where run: "run_state (Repo_Update accounts_table x) w = (Inr ?y, w')"
    and w': "accounts_of (wdb w') = update_where (\<lambda>a. ma_id a = ma_id x) (\<lambda>_. ?y) (accounts_of (wdb w))"
    using assms(1,2) y by (simp add: Repo_Update_def save_row_def accounts_rows account_ok_def)
      (simp add: accounts_table_def)
  have "take_first (\<lambda>a. ma_id a = ma_id x) (accounts_of (wdb w')) = Some ?y"
    using assms(2,3) y(1) by (intro take_first_only) (auto simp: w' set_update_where account_ok_def list_ex_iff)
  with run show ?thesis by blast
qed

text \<open>What a reverification relies on, and every step of it keeps\<close>

definition reverify_ready :: "mail_account \<Rightarrow> database \<Rightarrow> bool" where
  "reverify_ready a d \<longleftrightarrow> account_ok a d \<and> distinct (map ma_id (accounts_of d))"

lemma reverify_ready_update:
  assumes "account_key x = account_key a"
  shows "preserves (db_inv (reverify_ready a)) (Repo_Update accounts_table x)"
proof (rule pres_Repo_Update)
  fix d n assume K: "reverify_ready a d"
  let ?y = "tb_stamp accounts_table n (tb_touch accounts_table n x)"
  have "account_ok a (snd (save_row accounts_table ?y d))"
    using account_ok_save [OF assms] K by (simp add: reverify_ready_def)
  moreover have "accounts.keys_distinct (snd (save_row accounts_table ?y d))"
    using K by (intro accounts.keys_distinct_save) (simp add: accounts.keys_distinct_def reverify_ready_def accounts_rows)
  ultimately show "reverify_ready a (snd (save_row accounts_table ?y d))"
    by (simp add: reverify_ready_def accounts.keys_distinct_def accounts_rows)
qed

lemma claim_stale_rows:
  assumes "run_state (claim_stale locked before limit) w = (Inr cs, w')" and "a \<in> set cs"
  shows "case ma_last_verified_at a of None \<Rightarrow> True | Some t \<Rightarrow> t < before"
proof -
  obtain w1 where f: "run_state (FindStale locked before limit) w = (Inr cs, w1)"
    using assms(1) unfolding claim_stale_def
    by (elim tx_scope_okE bindE_okE bind_okE returnE_okE) (rule that; simp)
  have sub: "set (take n (nulls_first ma_last_verified_at xs)) \<subseteq> set xs" for n and xs :: "mail_account list"
    by (auto simp: nulls_first_def dest!: in_set_takeD)
  let ?rows = "filter (\<lambda>x. ma_status x \<noteq> MailAccountStatusDisabled
    \<and> (case ma_last_verified_at x of None \<Rightarrow> True | Some t \<Rightarrow> t < before) \<and> \<not> locked (ma_id x)) (accounts_of (wdb w))"
  have "cs = take (nat limit) (nulls_first ma_last_verified_at ?rows)"
    using query_ok(1) [OF f [unfolded FindStale_def]] by (simp only: sum.inject)
  with sub assms(2) have "a \<in> set ?rows" by blast
  then show ?thesis by simp
qed

text \<open>A mailbox that fails is checked again and again: the schedule stamps \<open>last_verified_at\<close> when
  it claims a mailbox, but a failed check saves the struct that was read before the stamp,
  so the row carries its old time again and is still due in the very next round, before
  mailboxes that were verified more recently.\<close>

lemma reverify_failure_stays_due:
  assumes up: "db_up w1" and claim: "run_state (claim_stale locked before limit) w = (Inr [a], w1)"
    and ready: "reverify_ready a (wdb w1)"
    and fails: "run_state (reverifyOne M a) w1 = (Some e, w2)"
  shows "\<exists>b. take_first (\<lambda>x. ma_id x = ma_id a) (accounts_of (wdb w2)) = Some b
    \<and> ma_status b = MailAccountStatusError \<and> ma_last_verified_at b = ma_last_verified_at a
    \<and> (case ma_last_verified_at b of None \<Rightarrow> True | Some t \<Rightarrow> t < before)"
proof -
  obtain c r w' where res: "run_state (Resolve (mu_resolver M) a) w1 = ((c, r), w')"
    by (metis surj_pair)
  have key: "account_key c = account_key a" using returnsD [OF returns_Resolve res] by simp
  have "preserves (db_inv (reverify_ready a)) (Resolve (mu_resolver M) a)"
    by (rule pres_Resolve [OF reverify_ready_update])
  from preserves_run [OF this _ res] ready have rdy: "reverify_ready a (wdb w')" by (simp add: db_inv_def)
  have upw: "db_up w'" using preserves_run [OF up_Resolve up res] .
  let ?x = "\<lambda>f. c\<lparr>ma_status := MailAccountStatusError, ma_last_error := Some (err_text f)\<rparr>"
  let ?ok = "\<lambda>t. c\<lparr>ma_status := MailAccountStatusVerified, ma_last_verified_at := Some t, ma_last_error := None\<rparr>"
  have okx: "account_ok x (wdb v)" if "account_ok a (wdb v)" "ma_id x = ma_id c" "ma_user_id x = ma_user_id c"
      "ma_provider x = ma_provider c" "ma_email_address x = ma_email_address c" for x v
    using that key by (simp add: account_ok_def accounts_table_def unique_on_def account_key_def)
  have fine: "\<exists>v. run_state (reverify_ok c) w' = (None, v)"
  proof -
    let ?t = "unix_milli (clock w' (ticks w'))" and ?w = "w'\<lparr>ticks := Suc (ticks w')\<rparr>"
    have "db_up ?w" "account_ok (?ok ?t) (wdb ?w)" "distinct (map ma_id (accounts_of (wdb ?w)))"
      using upw rdy okx [of ?w "?ok ?t"] by (simp_all add: reverify_ready_def)
    from save_account_up [OF this] obtain n v where
      "run_state (Repo_Update accounts_table (?ok ?t)) ?w = (Inr (tb_stamp accounts_table n (tb_touch accounts_table n (?ok ?t))), v)"
      by blast
    then show ?thesis by (simp add: reverify_ok_def)
  qed
  have "\<exists>f. run_state (reverify_fail c f) w' = (Some e, w2)"
    using fails res fine by (auto simp: reverifyOne_def split: sum.splits prod.splits)
  then obtain f where rf: "run_state (reverify_fail c f) w' = (Some e, w2)" by blast
  obtain n v where u: "run_state (Repo_Update accounts_table (?x f)) w' = (Inr (tb_stamp accounts_table n (tb_touch accounts_table n (?x f))), v)"
    and t: "take_first (\<lambda>y. ma_id y = ma_id (?x f)) (accounts_of (wdb v)) = Some (tb_stamp accounts_table n (tb_touch accounts_table n (?x f)))"
    using save_account_up [OF upw, of "?x f"] okx [of w' "?x f"] rdy by (auto simp: reverify_ready_def)
  have "w2 = v" using rf u by (simp add: reverify_fail_def)
  with t key claim_stale_rows [OF claim, of a] show ?thesis
    by (simp add: account_key_def) (simp add: accounts_table_def)
qed

definition withdrawn :: mail_account_uc where
  "withdrawn = sample_account_uc\<lparr>mu_pipeline := (sample_pipeline post_box)\<lparr>pl_resolver := sample_resolver\<rparr>\<rparr>"

text \<open>
  A verification on request resolves the mailbox inside its own transaction.  When resolving
  fails, whatever it stored (renewed tokens, the error status of a withdrawn grant) is rolled
  back with it.
\<close>

lemma Verify_forgets_renewal:
  assumes "run_state (find_account (gmaq_id request) (gmaq_user_id request)) w = (Inr a, w1)"
    and "run_state (Resolve (mu_resolver M) a) w1 = ((b, Inl e), w2)"
  shows "run_state (Account_Verify M c request) w = (Inl e, w2\<lparr>wdb := wdb w\<rparr>)"
  using assms by (simp add: Account_Verify_def resolve_def)

end
