(* ===== verification/Handlers.thy ===== *)
theory Handlers
  imports Dispatcher Cipher Matcher
begin

text \<open>
  The handlers of package \<open>internal/usecase/event\<close> and the registry of notification channels,
  internal/gateway/notifier/channel.go.  A channel is the outcome of its calls; templates
  (text/template), the decoding of a config and the HTTP client are parameters.  Each handler
  is a value of the dispatcher's \<open>handler\<close>.
\<close>

subsection \<open>gateway/notifier/channel.go\<close>

record out_message =
  om_title :: string
  om_body :: string
  om_url :: string
  om_meta :: "(string \<times> string) list"

record channel =
  ch_type :: string
  ch_label :: string
  ch_description :: string
  ch_requires_verification :: bool
  ch_config_schema :: schema
  ch_validate :: "json \<Rightarrow> err option"
  ch_send :: "json \<Rightarrow> json \<Rightarrow> out_message \<Rightarrow> err + string"

definition Channels_Register :: "channel list \<Rightarrow> (string \<rightharpoonup> channel) \<Rightarrow> (string \<rightharpoonup> channel)" where
  "Channels_Register cs reg = foldl (\<lambda>m c. m(ch_type c \<mapsto> c)) reg cs"

interpretation channel_reg: registry Channels_Register ch_type
  by unfold_locales (simp_all add: Channels_Register_def)

definition Channels_Get :: "unicode \<Rightarrow> (string \<rightharpoonup> channel) \<Rightarrow> string \<Rightarrow> err + channel" where
  "Channels_Get U reg t = (case reg t of
      None \<Rightarrow> Inl (HttpErr 400 (''unknown notifier type '' @ go_quote U t))
    | Some c \<Rightarrow> Inr c)"

definition Channels_Has :: "(string \<rightharpoonup> channel) \<Rightarrow> string \<Rightarrow> bool" where
  "Channels_Has reg t = (reg t \<noteq> None)"

subsection \<open>event/notify_handler.go\<close>

record notify_config =
  nc_template :: string
  nc_title :: string

record template_data =
  td_subject :: string
  td_from_address :: string
  td_from_name :: string
  td_snippet :: string
  td_watcher_name :: string
  td_occurrence :: int
  td_received_at :: int

text \<open>
  \<open>nh_unmarshal\<close> is \<open>json.Unmarshal\<close> into a zero config: whether it failed, and what it left;
  \<open>nh_parse\<close> the error of parsing a template, \<open>nh_render\<close> the text of executing a parsed one;
  \<open>nh_title_first\<close> the order of the map with the two templates.
\<close>

record notify_handler =
  nh_unicode :: unicode
  nh_channels :: "string \<rightharpoonup> channel"
  nh_cipher :: aead
  nh_base_url :: string
  nh_unmarshal :: "json \<Rightarrow> bool \<times> notify_config"
  nh_parse :: "string \<Rightarrow> string option"
  nh_render :: "string \<Rightarrow> template_data \<Rightarrow> string option"
  nh_title_first :: bool

abbreviation empty_notify_config :: notify_config where
  "empty_notify_config \<equiv> \<lparr>nc_template = [], nc_title = []\<rparr>"

fun check_templates :: "notify_handler \<Rightarrow> (string \<times> string) list \<Rightarrow> err option" where
  "check_templates H [] = None"
| "check_templates H ((name, text) # rest) =
     (if text = [] then check_templates H rest
      else (case nh_parse H text of
          None \<Rightarrow> check_templates H rest
        | Some e \<Rightarrow> Some (HttpErr 400 (''notify '' @ name @ '' is not a valid template: '' @ e))))"

definition notify_Validate :: "notify_handler \<Rightarrow> json \<Rightarrow> err option" where
  "notify_Validate H config =
     (let (failed, cfg) = (if config \<noteq> [] then nh_unmarshal H config else (False, empty_notify_config)) in
      if failed then Some (HttpErr 400 ''notify config is not valid JSON'')
      else let both = [(''title'', nc_title cfg), (''template'', nc_template cfg)] in
        check_templates H (if nh_title_first H then both else rev both))"

definition render :: "notify_handler \<Rightarrow> string \<Rightarrow> template_data \<Rightarrow> string \<Rightarrow> string" where
  "render H text d fallback =
     (if text = [] then fallback
      else (case nh_parse H text of
          Some _ \<Rightarrow> fallback
        | None \<Rightarrow> (case nh_render H text d of None \<Rightarrow> fallback | Some s \<Rightarrow> s)))"

definition template_data_of :: "event_input \<Rightarrow> template_data" where
  "template_data_of inp =
     \<lparr>td_subject = derefString (me_subject (in_email inp)),
      td_from_address = derefString (me_from_address (in_email inp)),
      td_from_name = derefString (me_from_name (in_email inp)),
      td_snippet = derefString (me_snippet (in_email inp)),
      td_watcher_name = wa_name (in_watcher inp), td_occurrence = in_occurrence inp,
      td_received_at = me_received_at (in_email inp)\<rparr>"

definition decrypt_target :: "notify_handler \<Rightarrow> notifier \<Rightarrow> err + json" where
  "decrypt_target H target =
     (if derefString (no_secrets target) = [] then Inr []
      else (case Decrypt (nh_cipher H) (derefString (no_secrets target)) of
          Inl e \<Rightarrow> Inl (PlainErr (''could not decrypt notifier secrets: '' @ err_text e))
        | Inr plaintext \<Rightarrow> Inr plaintext))"

text \<open>What is tried for one notifier: an error, or the message id of the provider\<close>

definition deliver :: "notify_handler \<Rightarrow> out_message \<Rightarrow> notifier \<Rightarrow> err + string" where
  "deliver H message target = (case Channels_Get (nh_unicode H) (nh_channels H) (no_type target) of
      Inl e \<Rightarrow> Inl e
    | Inr channel \<Rightarrow>
        if no_status target \<noteq> NotifierStatusVerified
        then Inl (PlainErr (''notifier '' @ go_quote (nh_unicode H) (no_name target) @ '' is ''
               @ no_status target @ '', not verified''))
        else (case decrypt_target H target of
            Inl e \<Rightarrow> Inl e
          | Inr secrets \<Rightarrow> ch_send channel (no_config target) secrets message))"

definition delivery_of :: "out_message \<Rightarrow> notifier \<Rightarrow> err + string \<Rightarrow> delivery" where
  "delivery_of message target r =
     \<lparr>dl_notifier_id = Some (no_id target), dl_channel_type = no_type target,
      dl_status = (case r of Inl _ \<Rightarrow> DeliveryStatusFailed | Inr _ \<Rightarrow> DeliveryStatusSent),
      dl_rendered_message = om_title message @ [CHR 0x0A] @ om_body message,
      dl_provider_message_id = (case r of Inl _ \<Rightarrow> [] | Inr i \<Rightarrow> i),
      dl_error = (case r of Inl e \<Rightarrow> err_text e | Inr _ \<Rightarrow> [])\<rparr>"

text \<open>The loop over the notifiers: the deliveries so far and how many failed\<close>

fun deliver_all :: "notify_handler \<Rightarrow> out_message \<Rightarrow> notifier list \<Rightarrow> delivery list \<times> int \<Rightarrow> delivery list \<times> int" where
  "deliver_all H message [] acc = acc"
| "deliver_all H message (target # rest) (ds, failures) =
     (let r = deliver H message target in
      deliver_all H message rest
        (ds @ [delivery_of message target r], (case r of Inl _ \<Rightarrow> failures + 1 | Inr _ \<Rightarrow> failures)))"

definition notify_message :: "notify_handler \<Rightarrow> notify_config \<Rightarrow> event_input \<Rightarrow> out_message" where
  "notify_message H cfg inp =
     (let d = template_data_of inp;
          title = render H (nc_title cfg) d (wa_name (in_watcher inp) @ '' matched'');
          body = render H (nc_template cfg) d (td_subject d @ [CHR 0x0A] @ ''from '' @ td_from_address d) in
      \<lparr>om_title = (if in_occurrence inp > 1 then title @ '' (reminder '' @ itoa (in_occurrence inp) @ '')'' else title),
       om_body = body, om_url = nh_base_url H @ ''/matches/'' @ me_id (in_email inp),
       om_meta = [(''watcher_id'', wa_id (in_watcher inp)), (''match_id'', me_id (in_email inp))]\<rparr>)"

definition notify_result :: "int \<Rightarrow> int \<Rightarrow> json" where
  "notify_result sent failed =
     ''{'' @ [CHR 0x22] @ ''failed'' @ [CHR 0x22] @ '':'' @ itoa failed @ '','' @ [CHR 0x22] @ ''sent'' @ [CHR 0x22]
       @ '':'' @ itoa sent @ ''}''"

definition notify_Execute :: "notify_handler \<Rightarrow> event_input \<Rightarrow> event_output \<times> err option" where
  "notify_Execute H inp =
     (let cfg = (if in_config inp \<noteq> [] then snd (nh_unmarshal H (in_config inp)) else empty_notify_config) in
      if in_notifiers inp = []
      then (\<lparr>ou_result = [], ou_deliveries = []\<rparr>, Some (HttpErr 422 ''notify event has no notifiers attached''))
      else let (ds, failures) = deliver_all H (notify_message H cfg inp) (in_notifiers inp) ([], 0) in
        (\<lparr>ou_result = notify_result (int (length ds) - failures) failures, ou_deliveries = ds\<rparr>,
         if failures = int (length ds)
         then Some (PlainErr (''all '' @ itoa failures @ '' deliveries failed'')) else None))"

definition notify_ConfigSchema :: schema where
  "notify_ConfigSchema = \<lparr>sc_fields =
     [(schema_field_of ''title'' ''Title'' ''string'')\<lparr>sf_placeholder := ''Watcher {{.WatcherName}} matched'',
        sf_help := ''Go template. Available: .Subject .FromAddress .FromName .WatcherName .Occurrence''\<rparr>,
      (schema_field_of ''template'' ''Message'' ''text'')\<lparr>sf_placeholder := ''{{.Subject}} from {{.FromAddress}}'',
        sf_help := ''Go template over the matched email. Leave empty for the default summary.''\<rparr>]\<rparr>"

definition NotifyHandler :: "notify_handler \<Rightarrow> handler" where
  "NotifyHandler H = \<lparr>hd_type = ''notify'', hd_label = ''Send a notification'',
     hd_description = ''Send the match to one or more of your connected notifiers.'',
     hd_uses_notifiers = True, hd_config_schema = notify_ConfigSchema,
     hd_validate = notify_Validate H, hd_execute = notify_Execute H\<rparr>"

subsection \<open>event/http_handler.go\<close>

record http_config =
  hc_url :: string
  hc_method :: string
  hc_headers :: "(string \<times> string) list"
  hc_body :: string

record http_request =
  hr_method :: string
  hr_url :: string
  hr_headers :: "(string \<times> string) list"
  hr_payload :: "string option"

record http_response =
  hs_status :: int
  hs_body :: string

text \<open>
  \<open>hh_unmarshal\<close> decodes a config or fails with a text; \<open>hh_new_request\<close> is the error of
  building the request; \<open>hh_do\<close> what the endpoint answers.  The headers are set in the order
  of the map.
\<close>

record http_handler =
  hh_unicode :: unicode
  hh_type :: string
  hh_label :: string
  hh_description :: string
  hh_unmarshal :: "json \<Rightarrow> string + http_config"
  hh_templates :: notify_handler
  hh_new_request :: "string \<Rightarrow> string \<Rightarrow> string option"
  hh_do :: "http_request \<Rightarrow> string + http_response"

definition nonEmpty :: "json \<Rightarrow> json" where
  "nonEmpty raw = (if raw = [] then ''{}'' else raw)"

definition http_Validate :: "http_handler \<Rightarrow> json \<Rightarrow> err option" where
  "http_Validate H config = (case hh_unmarshal H (nonEmpty config) of
      Inl _ \<Rightarrow> Some (HttpErr 400 (hh_type H @ '' config is not valid JSON''))
    | Inr cfg \<Rightarrow>
        if \<not> HasPrefix (hc_url cfg) ''http://'' \<and> \<not> HasPrefix (hc_url cfg) ''https://''
        then Some (HttpErr 400 (hh_type H @ '' config needs an http or https url''))
        else if hc_method cfg \<in> {[], ''POST'', ''PUT'', ''PATCH'', ''GET''} then None
        else Some (HttpErr 400 ''method must be one of POST, PUT, PATCH, GET''))"

definition json_object :: "unicode \<Rightarrow> (string \<times> string) list \<Rightarrow> json" where
  "json_object U members = ''{'' @ join '','' (map (\<lambda>(k, v). json_string U k @ '':'' @ v) members) @ ''}''"

definition http_payload :: "http_handler \<Rightarrow> http_config \<Rightarrow> event_input \<Rightarrow> string" where
  "http_payload H cfg inp =
     (let d = template_data_of inp; q = json_string (hh_unicode H) in
      if hc_body cfg \<noteq> [] then render (hh_templates H) (hc_body cfg) d []
      else json_object (hh_unicode H)
        [(''from_address'', q (td_from_address d)), (''from_name'', q (td_from_name d)),
         (''match_id'', q (me_id (in_email inp))), (''occurrence'', itoa (in_occurrence inp)),
         (''received_at'', itoa (me_received_at (in_email inp))), (''snippet'', q (td_snippet d)),
         (''subject'', q (td_subject d)), (''watcher_id'', q (wa_id (in_watcher inp))),
         (''watcher_name'', q (wa_name (in_watcher inp)))])"

abbreviation no_output :: event_output where
  "no_output \<equiv> \<lparr>ou_result = [], ou_deliveries = []\<rparr>"

definition http_Execute :: "http_handler \<Rightarrow> event_input \<Rightarrow> event_output \<times> err option" where
  "http_Execute H inp = (case hh_unmarshal H (nonEmpty (in_config inp)) of
      Inl e \<Rightarrow> (no_output, Some (PlainErr e))
    | Inr cfg \<Rightarrow>
       (let payload = http_payload H cfg inp;
            method = (if hc_method cfg = [] then ''POST'' else hc_method cfg) in
        case hh_new_request H method (hc_url cfg) of
          Some e \<Rightarrow> (no_output, Some (PlainErr e))
        | None \<Rightarrow>
           (case hh_do H \<lparr>hr_method = method, hr_url = hc_url cfg,
                hr_headers = (''Content-Type'', ''application/json'') # hc_headers cfg,
                hr_payload = (if method \<noteq> ''GET'' then Some payload else None)\<rparr> of
              Inl e \<Rightarrow> (no_output, Some (PlainErr (hh_type H @ '': '' @ e)))
            | Inr response \<Rightarrow>
                (\<lparr>ou_result = json_object (hh_unicode H)
                    [(''response'', json_string (hh_unicode H) (take 4096 (hs_body response))),
                     (''status_code'', itoa (hs_status response))], ou_deliveries = []\<rparr>,
                 if hs_status response < 200 \<or> hs_status response > 299
                 then Some (PlainErr (hh_type H @ '': endpoint returned '' @ itoa (hs_status response))) else None))))"

definition NewWebhookHandler :: "http_handler \<Rightarrow> http_handler" where
  "NewWebhookHandler H = H\<lparr>hh_type := ''webhook'', hh_label := ''Call a webhook'',
     hh_description := ''POST the matched email to a URL as JSON.''\<rparr>"

definition NewHTTPRequestHandler :: "http_handler \<Rightarrow> http_handler" where
  "NewHTTPRequestHandler H = H\<lparr>hh_type := ''http_request'', hh_label := ''Make an HTTP request'',
     hh_description := ''Call any API with a templated method, headers and body.''\<rparr>"

definition http_ConfigSchema :: "string \<Rightarrow> schema" where
  "http_ConfigSchema handlerType = \<lparr>sc_fields =
     [(schema_field_of ''url'' ''URL'' ''string'')\<lparr>sf_required := True, sf_placeholder := ''https://example.com/hook''\<rparr>,
      (schema_field_of ''method'' ''Method'' ''enum'')\<lparr>sf_options := [''POST'', ''PUT'', ''PATCH'', ''GET'']\<rparr>]
     @ (if handlerType = ''http_request'' then
          [(schema_field_of ''headers'' ''Headers'' ''text'')\<lparr>sf_help :=
              ''JSON object, for example {'' @ [CHR 0x22] @ ''Authorization'' @ [CHR 0x22] @ '': '' @ [CHR 0x22]
              @ ''Bearer ...'' @ [CHR 0x22] @ ''}''\<rparr>,
           (schema_field_of ''body'' ''Body'' ''text'')\<lparr>sf_help :=
              ''Go template. Available: .Subject .FromAddress .FromName .WatcherName .Occurrence''\<rparr>]
        else [])\<rparr>"

definition HTTPHandler :: "http_handler \<Rightarrow> handler" where
  "HTTPHandler H = \<lparr>hd_type = hh_type H, hd_label = hh_label H, hd_description = hh_description H,
     hd_uses_notifiers = False, hd_config_schema = http_ConfigSchema (hh_type H),
     hd_validate = http_Validate H, hd_execute = http_Execute H\<rparr>"

subsection \<open>What a fan-out does\<close>

lemma deliver_all_spec:
  "deliver_all H m ts (ds, n) = (ds @ map (\<lambda>t. delivery_of m t (deliver H m t)) ts,
     n + int (length (filter (\<lambda>t. \<exists>e. deliver H m t = Inl e) ts)))"
  by (induction ts arbitrary: ds n) (auto simp: Let_def split: sum.splits)

text \<open>C26: A notification is fanned out honestly: with notifiers attached there is one delivery for each,
  in their order, and nothing is ever sent to a notifier that is not verified or whose
  channel is unknown; the run succeeds exactly when something was sent, so a retry never
  repeats a message that went out; and the stored result counts what was sent and what failed.\<close>

theorem notify_fan_out:
  assumes "in_notifiers inp \<noteq> []" and "notify_Execute H inp = (out, e)"
  shows "map dl_notifier_id (ou_deliveries out) = map (Some \<circ> no_id) (in_notifiers inp)
    \<and> list_all2 (\<lambda>d n. (dl_status d = DeliveryStatusSent
          \<and> no_status n = NotifierStatusVerified \<and> nh_channels H (no_type n) \<noteq> None)
        \<or> dl_status d = DeliveryStatusFailed) (ou_deliveries out) (in_notifiers inp)
    \<and> (e = None \<longleftrightarrow> list_ex (\<lambda>d. dl_status d = DeliveryStatusSent) (ou_deliveries out))
    \<and> ou_result out = notify_result
        (int (length (filter (\<lambda>d. dl_status d = DeliveryStatusSent) (ou_deliveries out))))
        (int (length (filter (\<lambda>d. dl_status d = DeliveryStatusFailed) (ou_deliveries out))))"
proof -
  define m where "m = notify_message H (if in_config inp \<noteq> [] then snd (nh_unmarshal H (in_config inp)) else empty_notify_config) inp"
  let ?ns = "in_notifiers inp" and ?d = "\<lambda>t. delivery_of m t (deliver H m t)"
  let ?bad = "\<lambda>t. \<exists>e. deliver H m t = Inl e"
  have out: "ou_deliveries out = map ?d ?ns"
    and res: "ou_result out = notify_result (int (length ?ns) - int (length (filter ?bad ?ns))) (int (length (filter ?bad ?ns)))"
    and e: "e = None \<longleftrightarrow> length (filter ?bad ?ns) \<noteq> length ?ns"
    using assms by (auto simp: notify_Execute_def deliver_all_spec m_def [symmetric] Let_def split: if_splits)
  have st: "dl_status (?d t) = (if ?bad t then DeliveryStatusFailed else DeliveryStatusSent)" for t
    by (auto simp: delivery_of_def split: sum.splits)
  have ok: "no_status t = NotifierStatusVerified \<and> nh_channels H (no_type t) \<noteq> None" if "\<not> ?bad t" for t
    using that by (auto simp: deliver_def Channels_Get_def split: option.splits if_splits)
  have fl: "length (filter (\<lambda>d. dl_status d = DeliveryStatusFailed) (map ?d ts)) = length (filter ?bad ts)"
    "length (filter (\<lambda>d. dl_status d = DeliveryStatusSent) (map ?d ts)) = length ts - length (filter ?bad ts)"
    "length (filter ?bad ts) \<le> length ts" for ts
  proof -
    show "length (filter (\<lambda>d. dl_status d = DeliveryStatusFailed) (map ?d ts)) = length (filter ?bad ts)"
      by (induction ts) (auto simp: st)
    show le: "length (filter ?bad ts) \<le> length ts" by (rule length_filter_le)
    show "length (filter (\<lambda>d. dl_status d = DeliveryStatusSent) (map ?d ts)) = length ts - length (filter ?bad ts)"
      by (induction ts) (auto simp: st Suc_diff_le length_filter_le)
  qed
  have "list_ex (\<lambda>d. dl_status d = DeliveryStatusSent) (map ?d ts) \<longleftrightarrow> length (filter ?bad ts) \<noteq> length ts" for ts
    unfolding length_filter_eq by (auto simp: list_ex_iff st)
  moreover have "list_all2 (\<lambda>d n. (dl_status d = DeliveryStatusSent
          \<and> no_status n = NotifierStatusVerified \<and> nh_channels H (no_type n) \<noteq> None)
        \<or> dl_status d = DeliveryStatusFailed) (map ?d ?ns) ?ns"
    using ok by (auto simp: list_all2_map1 st intro!: list_all2_refl split: if_splits)
  moreover have "map dl_notifier_id (map ?d ?ns) = map (Some \<circ> no_id) ?ns" by (simp add: delivery_of_def)
  ultimately show ?thesis unfolding out res using e fl [of ?ns] by (simp add: of_nat_diff)
qed

definition slack_channel :: channel where
  "slack_channel = \<lparr>ch_type = ''slack'', ch_label = [], ch_description = [],
     ch_requires_verification = True, ch_config_schema = \<lparr>sc_fields = []\<rparr>, ch_validate = (\<lambda>_. None),
     ch_send = (\<lambda>_ _ _. Inr ''ts1'')\<rparr>"

definition sample_notify :: notify_handler where
  "sample_notify = \<lparr>nh_unicode = sample_unicode, nh_channels = [''slack'' \<mapsto> slack_channel], nh_cipher = mirror_box,
     nh_base_url = ''http://x'', nh_unmarshal = (\<lambda>_. (False, empty_notify_config)), nh_parse = (\<lambda>_. None),
     nh_render = (\<lambda>t _. Some t), nh_title_first = True\<rparr>"

theorem notify_fan_out_witness:
  "\<exists>out. notify_Execute sample_notify (sample_input\<lparr>in_notifiers := [slack, slack\<lparr>no_status := NotifierStatusPending\<rparr>]\<rparr>) = (out, None)
    \<and> map dl_status (ou_deliveries out) = [DeliveryStatusSent, DeliveryStatusFailed]"
proof -
  let ?inp = "sample_input\<lparr>in_notifiers := [slack, slack\<lparr>no_status := NotifierStatusPending\<rparr>]\<rparr>"
  obtain out e where run: "notify_Execute sample_notify ?inp = (out, e)" by (cases "notify_Execute sample_notify ?inp")
  have st: "map dl_status (ou_deliveries out) = [DeliveryStatusSent, DeliveryStatusFailed]"
    using run by (auto simp: notify_Execute_def deliver_all_spec deliver_def delivery_of_def Channels_Get_def
        decrypt_target_def derefString_def sample_notify_def slack_channel_def sample_input_def slack_def Let_def)
  have "in_notifiers ?inp \<noteq> []" by simp
  from notify_fan_out [OF this run] have "e = None \<longleftrightarrow> list_ex (\<lambda>s. s = DeliveryStatusSent) (map dl_status (ou_deliveries out))"
    by (auto simp: list_ex_iff)
  then show ?thesis using run st by simp
qed

end
