(* ===== verification/Notifiers.thy ===== *)
theory Notifiers
  imports Handlers WatcherEvents
begin

text \<open>
  internal/usecase/notifier_usecase.go: the destinations a user connects, their proof of
  ownership, and the Telegram bot's web hook.  \<open>rand.Intn\<close> draws from the stream \<open>nu_intn\<close>;
  the channels are those of the registry.
\<close>

record notifier_uc =
  nu_unicode :: unicode
  nu_channels :: "string \<rightharpoonup> channel"
  nu_cipher :: aead
  nu_intn :: "nat \<Rightarrow> nat"
  nu_valid_create :: "create_notifier_request \<Rightarrow> bool"
  nu_valid_list :: "list_notifier_request \<Rightarrow> bool"
  nu_valid_update :: "update_notifier_request \<Rightarrow> bool"
  nu_valid_verify :: "verify_notifier_request \<Rightarrow> bool"

record telegram_message =
  tm_text :: string
  tm_chat_id :: int

record telegram_webhook_request =
  tw_message :: "telegram_message option"

subsection \<open>Pieces\<close>

definition pad4 :: "nat \<Rightarrow> string" where
  "pad4 n = (let s = nat_str n in replicate (4 - length s) (CHR ''0'') @ s)"

definition verificationCode :: "notifier_uc \<Rightarrow> string io" where
  "verificationCode N = State (\<lambda>w.
     (''MP-'' @ pad4 (nu_intn N (entropy_pos w) mod 10000), w\<lparr>entropy_pos := Suc (entropy_pos w)\<rparr>))"

definition code_expiry :: "int io" where
  "code_expiry = do { t \<leftarrow> time_now; ret (unix_milli (t + 30 * Minute)) }"

definition decryptSecrets :: "notifier_uc \<Rightarrow> notifier \<Rightarrow> err + json" where
  "decryptSecrets N n =
     (if derefString (no_secrets n) = [] then Inr []
      else (case Decrypt (nu_cipher N) (derefString (no_secrets n)) of
          Inl _ \<Rightarrow> Inl ErrInternal | Inr plaintext \<Rightarrow> Inr plaintext))"

definition validate_config :: "channel \<Rightarrow> json \<Rightarrow> unit ioE" where
  "validate_config ch config = (case ch_validate ch config of None \<Rightarrow> returnE () | Some e \<Rightarrow> failE e)"

definition free_name :: "string \<Rightarrow> string \<Rightarrow> string \<Rightarrow> unit ioE" where
  "free_name user name exclude =
     bindE (internal (CountByName user name exclude)) (\<lambda>total.
     whenE (total > 0) (HttpErr 409 (''you already have a notifier called '' @ name)))"

definition with_secrets :: "notifier_uc \<Rightarrow> json \<Rightarrow> notifier \<Rightarrow> notifier ioE" where
  "with_secrets N secrets n =
     (if secrets = [] then returnE n
      else bindE (internal (Encrypt (nu_cipher N) secrets)) (\<lambda>encrypted. returnE (n\<lparr>no_secrets := Some encrypted\<rparr>)))"

definition clear_other_defaults :: "string \<Rightarrow> notifier \<Rightarrow> unit ioE" where
  "clear_other_defaults user n =
     (if no_is_default n then internal (ClearDefault user (no_id n)) else returnE ())"

subsection \<open>Creating\<close>

definition new_notifier :: "create_notifier_request \<Rightarrow> string \<Rightarrow> notifier" where
  "new_notifier request i =
     \<lparr>no_id = i, no_user_id = cnq_user_id request, no_type = cnq_type request, no_name = cnq_name request,
      no_config = jsonOrDefault (cnq_config request) ''{}'', no_secrets = None,
      no_status = NotifierStatusPending, no_verification_code = None, no_verification_expires_at = None,
      no_verified_at = None, no_last_error = None, no_is_default = cnq_is_default request,
      no_created_at = 0, no_updated_at = 0\<rparr>"

definition start_verification :: "notifier_uc \<Rightarrow> channel \<Rightarrow> notifier \<Rightarrow> notifier io" where
  "start_verification N ch n =
     (if \<not> ch_requires_verification ch
      then do { now \<leftarrow> now_milli; ret (n\<lparr>no_status := NotifierStatusVerified, no_verified_at := Some now\<rparr>) }
      else do { code \<leftarrow> verificationCode N; at \<leftarrow> code_expiry;
        ret (n\<lparr>no_verification_code := Some code, no_verification_expires_at := Some at\<rparr>) })"

definition Notifier_Create :: "notifier_uc \<Rightarrow> ctx \<Rightarrow> create_notifier_request \<Rightarrow> notifier_response ioE" where
  "Notifier_Create N c request =
     (if \<not> nu_valid_create N request then failE ErrBadRequest
      else bindE (liftE (Channels_Get (nu_unicode N) (nu_channels N) (cnq_type request))) (\<lambda>ch.
        bindE (validate_config ch (cnq_config request)) (\<lambda>_.
        tx_scope (
          bindE (free_name (cnq_user_id request) (cnq_name request) []) (\<lambda>_.
          State_Monad.bind new_uuid (\<lambda>i.
          bindE (with_secrets N (cnq_secrets request) (new_notifier request i)) (\<lambda>n1.
          State_Monad.bind (start_verification N ch n1) (\<lambda>n2.
          bindE (internal (Repo_Create notifiers_table n2)) (\<lambda>n.
          bindE (clear_other_defaults (cnq_user_id request) n) (\<lambda>_.
          bindE (record_and_commit c (entry (cnq_user_id request) ''notifier.created'' ''notifiers'' (no_id n)))
            (\<lambda>_. returnE (NotifierToResponse n)))))))))))) "

subsection \<open>Reading\<close>

definition Notifier_List :: "notifier_uc \<Rightarrow> list_notifier_request \<Rightarrow> (notifier_response list \<times> page_metadata) ioE" where
  "Notifier_List N request0 =
     (let (page, sz) = Normalize (lnq_page request0) (lnq_size request0);
          request = request0\<lparr>lnq_page := page, lnq_size := sz\<rparr> in
      if \<not> nu_valid_list N request then failE ErrBadRequest
      else bindE (internal (Repo_Paginate
          (Notifier_Search (lnq_user_id request) (lnq_type request) (lnq_status request)) page sz)) (\<lambda>(ns, total_items).
        returnE (NotifiersToResponses ns, NewPageMetadata page sz total_items)))"

definition find_notifier :: "string \<Rightarrow> string \<Rightarrow> notifier ioE" where
  "find_notifier i userID = not_found ''notifier not found'' (Repo_FindByIdAndUser notifiers_table i userID)"

definition Notifier_Get :: "get_notifier_request \<Rightarrow> notifier_response ioE" where
  "Notifier_Get request =
     bindE (find_notifier (gnq_id request) (gnq_user_id request)) (\<lambda>n. returnE (NotifierToResponse n))"

subsection \<open>Changing\<close>

definition rename :: "update_notifier_request \<Rightarrow> notifier \<Rightarrow> notifier ioE" where
  "rename request n =
     (if unq_name request \<noteq> [] \<and> unq_name request \<noteq> no_name n
      then bindE (free_name (unq_user_id request) (unq_name request) (no_id n))
             (\<lambda>_. returnE (n\<lparr>no_name := unq_name request\<rparr>))
      else returnE n)"

definition reconfigure :: "notifier_uc \<Rightarrow> update_notifier_request \<Rightarrow> notifier \<Rightarrow> notifier ioE" where
  "reconfigure N request n =
     (if unq_config request = [] then returnE n
      else bindE (liftE (Channels_Get (nu_unicode N) (nu_channels N) (no_type n))) (\<lambda>ch.
        bindE (validate_config ch (unq_config request)) (\<lambda>_.
        returnE (n\<lparr>no_config := unq_config request\<rparr>))))"

definition Notifier_Update :: "notifier_uc \<Rightarrow> ctx \<Rightarrow> update_notifier_request \<Rightarrow> notifier_response ioE" where
  "Notifier_Update N c request =
     (if \<not> nu_valid_update N request then failE ErrBadRequest
      else tx_scope (
        bindE (find_notifier (unq_id request) (unq_user_id request)) (\<lambda>n0.
        bindE (rename request n0) (\<lambda>n1.
        bindE (reconfigure N request n1) (\<lambda>n2.
        bindE (with_secrets N (unq_secrets request) n2) (\<lambda>n3.
        let n4 = n3\<lparr>no_status := (if unq_status request \<noteq> [] then unq_status request else no_status n3),
                    no_is_default := patch (unq_is_default request) (no_is_default n3)\<rparr> in
        bindE (internal (Repo_Update notifiers_table n4)) (\<lambda>n.
        bindE (clear_other_defaults (unq_user_id request) n) (\<lambda>_.
        bindE (record_and_commit c (entry (unq_user_id request) ''notifier.updated'' ''notifiers'' (no_id n)))
          (\<lambda>_. returnE (NotifierToResponse n))))))))))"

definition Notifier_Delete :: "ctx \<Rightarrow> get_notifier_request \<Rightarrow> bool ioE" where
  "Notifier_Delete c request = tx_scope
     (bindE (find_notifier (gnq_id request) (gnq_user_id request)) (\<lambda>n.
      bindE (internal (UsedByEvents (no_id n))) (\<lambda>watchers.
      if watchers \<noteq> [] then failE (HttpErr 409 (''this notifier is still used by: '' @ join '', '' watchers))
      else bindE (internal (Repo_Delete notifiers_table n)) (\<lambda>_.
        bindE (record_and_commit c (entry (gnq_user_id request) ''notifier.deleted'' ''notifiers'' (no_id n)))
          (\<lambda>_. returnE True)))))"

subsection \<open>Proving ownership\<close>

definition mark_verified :: "notifier \<Rightarrow> notifier io" where
  "mark_verified n = do { now \<leftarrow> now_milli;
     ret (n\<lparr>no_status := NotifierStatusVerified, no_verified_at := Some now,
            no_verification_code := None, no_verification_expires_at := None\<rparr>) }"

definition verified_response :: "notifier \<Rightarrow> string \<Rightarrow> verify_notifier_response" where
  "verified_response n msg = \<lparr>vnp_status = no_status n, vnp_verification_code = None,
     vnp_verified_at = no_verified_at n, vnp_message = msg\<rparr>"

definition verify_unneeded :: "notifier \<Rightarrow> verify_notifier_response ioE" where
  "verify_unneeded n = State_Monad.bind now_milli (\<lambda>now.
     bindE (internal (Repo_Update notifiers_table (n\<lparr>no_status := NotifierStatusVerified, no_verified_at := Some now\<rparr>))) (\<lambda>n'.
     bindE (internal commit) (\<lambda>_.
     returnE (verified_response n' ''This channel does not need verification.''))))"

definition issue_code :: "notifier_uc \<Rightarrow> notifier \<Rightarrow> verify_notifier_response ioE" where
  "issue_code N n = State_Monad.bind (verificationCode N) (\<lambda>code.
     State_Monad.bind code_expiry (\<lambda>at.
     bindE (internal (Repo_Update notifiers_table (n\<lparr>no_verification_code := Some code,
       no_verification_expires_at := Some at, no_status := NotifierStatusPending\<rparr>))) (\<lambda>n'.
     bindE (internal commit) (\<lambda>_.
     returnE \<lparr>vnp_status = no_status n', vnp_verification_code = Some code, vnp_verified_at = None,
       vnp_message = ''Send this code to the destination to prove you own it, then call this endpoint again with it.''\<rparr>))))"

definition code_expired :: "notifier \<Rightarrow> bool io" where
  "code_expired n = (case no_verification_expires_at n of
      None \<Rightarrow> ret False
    | Some t \<Rightarrow> do { now \<leftarrow> now_milli; ret (t < now) })"

definition consume_code :: "notifier_uc \<Rightarrow> ctx \<Rightarrow> verify_notifier_request \<Rightarrow> notifier \<Rightarrow> verify_notifier_response ioE" where
  "consume_code N c request n =
     (if no_verification_code n \<noteq> Some (trim_space (nu_unicode N) (vnq_code request))
      then failE (HttpErr 422 ''that code does not match'')
      else State_Monad.bind (code_expired n) (\<lambda>expired.
        if expired then failE (HttpErr 422 ''that code has expired, request a new one'')
        else State_Monad.bind (mark_verified n) (\<lambda>n1.
          bindE (internal (Repo_Update notifiers_table n1)) (\<lambda>n'.
          bindE (record_and_commit c (entry (vnq_user_id request) ''notifier.verified'' ''notifiers'' (no_id n')))
            (\<lambda>_. returnE (verified_response n' ''Verified.''))))))"

definition Verify :: "notifier_uc \<Rightarrow> ctx \<Rightarrow> verify_notifier_request \<Rightarrow> verify_notifier_response ioE" where
  "Verify N c request =
     (if \<not> nu_valid_verify N request then failE ErrBadRequest
      else tx_scope (
        bindE (find_notifier (vnq_id request) (vnq_user_id request)) (\<lambda>n.
        bindE (liftE (Channels_Get (nu_unicode N) (nu_channels N) (no_type n))) (\<lambda>ch.
        if \<not> ch_requires_verification ch then verify_unneeded n
        else if vnq_code request = [] then issue_code N n
        else consume_code N c request n))))"

definition telegram_entry :: "string \<Rightarrow> audit_entry" where
  "telegram_entry i = \<lparr>ae_actor_id = None, ae_impersonated_user_id = None,
     ae_action = ''notifier.verified_via_telegram'', ae_entity_type = ''notifiers'', ae_entity_id = Some i,
     ae_metadata = None, ae_ip = None, ae_user_agent = None\<rparr>"

definition HandleTelegramUpdate :: "notifier_uc \<Rightarrow> ctx \<Rightarrow> telegram_webhook_request \<Rightarrow> bool ioE" where
  "HandleTelegramUpdate N c request = (case tw_message request of
      None \<Rightarrow> returnE True
    | Some m \<Rightarrow>
       (let code = trim_space (nu_unicode N) (tm_text m) in
        if code = [] then returnE True
        else tx_scope (State_Monad.bind now_milli (\<lambda>now.
          State_Monad.bind (FindPendingByCode code now) (\<lambda>found. case found of
             Inl _ \<Rightarrow> returnE True
           | Inr n \<Rightarrow> State_Monad.bind (mark_verified (n\<lparr>no_config :=
                 json_object (nu_unicode N) [(''chat_id'', json_string (nu_unicode N) (itoa (tm_chat_id m)))]\<rparr>)) (\<lambda>n1.
               bindE (internal (Repo_Update notifiers_table n1)) (\<lambda>n'.
               bindE (record_and_commit c (telegram_entry (no_id n'))) (\<lambda>_. returnE True))))))))"

subsection \<open>Testing\<close>

definition test_text :: "notifier_uc \<Rightarrow> notifier \<Rightarrow> out_message" where
  "test_text N n = \<lparr>om_title = ''MailPulse test'',
     om_body = ''This is a test from your '' @ go_quote (nu_unicode N) (no_name n)
       @ '' notifier. If you can read it, delivery works.'', om_url = [], om_meta = []\<rparr>"

definition Notifier_Test :: "notifier_uc \<Rightarrow> get_notifier_request \<Rightarrow> test_notifier_response ioE" where
  "Notifier_Test N request =
     bindE (find_notifier (gnq_id request) (gnq_user_id request)) (\<lambda>n.
     bindE (liftE (Channels_Get (nu_unicode N) (nu_channels N) (no_type n))) (\<lambda>ch.
     bindE (liftE (decryptSecrets N n)) (\<lambda>secrets.
     case ch_send ch (no_config n) secrets (test_text N n) of
       Inl e \<Rightarrow> State_Monad.bind (ignoreE (Repo_Update notifiers_table (n\<lparr>no_last_error := Some (err_text e)\<rparr>)))
         (\<lambda>_. returnE \<lparr>tnp_delivered = False, tnp_provider_message_id = None, tnp_error = Some (err_text e)\<rparr>)
     | Inr providerID \<Rightarrow> State_Monad.bind (ignoreE (Repo_Update notifiers_table (n\<lparr>no_last_error := None\<rparr>)))
         (\<lambda>_. returnE \<lparr>tnp_delivered = True, tnp_provider_message_id = nilIfEmpty providerID, tnp_error = None\<rparr>))))"

subsection \<open>At most one default per user\<close>

definition one_default :: "database \<Rightarrow> bool" where
  "one_default d \<longleftrightarrow> distinct (map no_id (notifiers_of d))
     \<and> distinct (map no_user_id (filter no_is_default (notifiers_of d)))"

lemma one_default_inj:
  "one_default d \<longleftrightarrow> distinct (map no_id (notifiers_of d))
     \<and> inj_on no_user_id {n \<in> set (notifiers_of d). no_is_default n}"
  by (auto simp: one_default_def distinct_map intro: inj_on_subset)

definition clear_default :: "string \<Rightarrow> string \<Rightarrow> int \<Rightarrow> notifier list \<Rightarrow> notifier list" where
  "clear_default user i t = update_where (\<lambda>n. no_user_id n = user \<and> no_id n \<noteq> i \<and> no_is_default n)
     (\<lambda>n. n\<lparr>no_is_default := False, no_updated_at := t\<rparr>)"

lemma clear_default_ids: "map no_id (clear_default u i t ns) = map no_id ns"
  unfolding clear_default_def by (rule map_update_where) simp

lemma clear_default_defaults:
  "x \<in> set (clear_default u i t ns) \<Longrightarrow> no_is_default x \<Longrightarrow>
   x \<in> set ns \<and> (no_user_id x = u \<longrightarrow> no_id x = i)"
  by (auto simp: clear_default_def set_update_where split: if_splits)

lemma default_settled:
  assumes "distinct (map no_id ns)" and "n \<in> set ns"
    and "inj_on no_user_id {x \<in> set ns. no_is_default x \<and> no_id x \<noteq> no_id n}"
    and "ms = (if no_is_default n then clear_default (no_user_id n) (no_id n) t ns else ns)"
  shows "distinct (map no_id ms) \<and> inj_on no_user_id {x \<in> set ms. no_is_default x}"
proof (cases "no_is_default n")
  case True
  then have kept: "x \<in> set ns \<and> (no_user_id x = no_user_id n \<longrightarrow> no_id x = no_id n)"
    if "x \<in> set ms" "no_is_default x" for x
    using clear_default_defaults [of x "no_user_id n" "no_id n" t ns] that assms(4) by simp
  have "x = y" if "x \<in> set ms" "no_is_default x" "y \<in> set ms" "no_is_default y" "no_user_id x = no_user_id y" for x y
  proof (cases "no_user_id x = no_user_id n")
    case True
    then have "no_id x = no_id n" "no_id y = no_id n" "x \<in> set ns" "y \<in> set ns"
      using that(5) kept [OF that(1,2)] kept [OF that(3,4)] by simp_all
    then show ?thesis using assms(1) by (metis distinct_map inj_onD)
  next
    case False
    have "x \<in> set ns" "y \<in> set ns" using kept [OF that(1,2)] kept [OF that(3,4)] by simp_all
    moreover have "no_id x \<noteq> no_id n" "no_id y \<noteq> no_id n"
      using False that(5) calculation assms(1,2) by (metis distinct_map inj_onD)+
    ultimately show ?thesis using that by (intro inj_onD [OF assms(3) that(5)]) simp_all
  qed
  then show ?thesis using assms(1,4) True by (auto simp: clear_default_ids inj_on_def)
next
  case False
  have "{x \<in> set ns. no_is_default x} = {x \<in> set ns. no_is_default x \<and> no_id x \<noteq> no_id n}"
    using False assms(1,2) by (auto simp: distinct_map dest: inj_onD)
  with assms False show ?thesis by simp
qed

lemma clear_other_defaults_ok:
  assumes "run_state (clear_other_defaults user n) w = (Inr u, w')" and "user = no_user_id n"
  shows "\<exists>t. wdb w' = (wdb w)\<lparr>notifiers_of :=
    (if no_is_default n then clear_default (no_user_id n) (no_id n) t (notifiers_of (wdb w)) else notifiers_of (wdb w))\<rparr>"
proof (cases "no_is_default n")
  case True
  then obtain k where "run_state (Repo_UpdateWhere notifiers_table
     (\<lambda>x. no_user_id x = user \<and> no_id x \<noteq> no_id n \<and> no_is_default x) (\<lambda>x. x\<lparr>no_is_default := False\<rparr>)) w = (Inr k, w')"
    using assms(1) unfolding clear_other_defaults_def ClearDefault_def by (auto elim!: okE simp del: run_mapErr run_bindE)
  from Repo_UpdateWhere_ok [OF this] True assms(2) show ?thesis
    by (auto simp: notifiers_table_def clear_default_def)
next
  case False
  with assms show ?thesis by (simp add: clear_other_defaults_def)
qed

lemma find_notifier_ok:
  assumes "run_state (find_notifier i user) w = (Inr n, w')"
  shows "n \<in> set (notifiers_of (wdb w)) \<and> no_id n = i \<and> no_user_id n = user \<and> wdb w' = wdb w"
  using FindByIdAndUser_row [of notifiers_table i user w n w'] assms unfolding find_notifier_def
  by (auto elim!: mapErr_okE simp: notifiers_table_def simp del: run_mapErr)

text \<open>Programs that read, draw codes or log leave the notifiers alone.\<close>

definition same_notifiers :: "database \<Rightarrow> database \<Rightarrow> bool" where
  "same_notifiers d d' \<longleftrightarrow> notifiers_of d' = notifiers_of d"

lemma same_notifiers_run:
  "preserves (db_inv (same_notifiers (wdb w))) m \<Longrightarrow> run_state m w = (r, w') \<Longrightarrow> notifiers_of (wdb w') = notifiers_of (wdb w)"
  using preserves_run [of "db_inv (same_notifiers (wdb w))" m w r w'] by (simp add: db_inv_def same_notifiers_def)

lemma pres_verificationCode [pres]: "preserves (db_inv K) (verificationCode N)"
  by (simp add: preserves_def verificationCode_def db_inv_def)

lemma pres_notifier_helpers [pres]:
  "preserves (db_inv K) (free_name u name e)" "preserves (db_inv K) (with_secrets N s n)"
  "preserves (db_inv K) (start_verification N ch n)" "preserves (db_inv K) (validate_config ch j)"
  "preserves (db_inv K) (rename r n)" "preserves (db_inv K) (reconfigure N q n)"
  "preserves (db_inv K) (find_notifier i u)" "preserves (db_inv K) (mark_verified n)"
  "preserves (db_inv K) (code_expired n)" "preserves (db_inv K) (FindPendingByCode i t)"
  "preserves (db_inv K) code_expiry"
  unfolding free_name_def with_secrets_def start_verification_def validate_config_def rename_def
    reconfigure_def find_notifier_def mark_verified_def code_expired_def code_expiry_def Encrypt_def
    CountByName_def FindPendingByCode_def
  by (intro pres)+

lemma pres_audit_notifiers [pres]: "preserves (db_inv (same_notifiers d)) (record_and_commit c e)"
  by (rule pres_audit(2)) (simp add: same_notifiers_def)

lemma notifiers_rows: "tb_rows notifiers_table = notifiers_of" "tb_key notifiers_table = no_id"
  by (simp_all add: notifiers_table_def)

lemma one_default_inserted:
  assumes "one_default (wdb w)" and "run_state (Repo_Create notifiers_table n) w = (Inr m, w1)"
    and "run_state (clear_other_defaults (no_user_id n) m) w1 = (Inr u, w')"
  shows "one_default (wdb w')"
proof -
  obtain t where m: "m = tb_stamp notifiers_table t n" and ins: "insert_row notifiers_table m (wdb w) = (Inr m, wdb w1)"
    using Repo_Create_ok [OF assms(2)] by blast
  have w1: "notifiers_of (wdb w1) = notifiers_of (wdb w) @ [m]" "no_id m \<notin> set (map no_id (notifiers_of (wdb w)))"
      "no_user_id n = no_user_id m"
    using notifiers.insert_row_ok [OF ins] m by (auto simp: notifiers_rows list_ex_iff) (simp add: notifiers_table_def)
  obtain k where w': "notifiers_of (wdb w') = (if no_is_default m
      then clear_default (no_user_id m) (no_id m) k (notifiers_of (wdb w1)) else notifiers_of (wdb w1))"
    using clear_other_defaults_ok [OF assms(3) w1(3)] by auto
  have "inj_on no_user_id {x \<in> set (notifiers_of (wdb w)). no_is_default x}" "distinct (map no_id (notifiers_of (wdb w)))"
    using assms(1) by (simp_all add: one_default_inj)
  then have "inj_on no_user_id {x \<in> set (notifiers_of (wdb w1)). no_is_default x \<and> no_id x \<noteq> no_id m}"
    "distinct (map no_id (notifiers_of (wdb w1)))"
    using w1 by (auto simp: inj_on_def)
  from default_settled [OF this(2) _ this(1) w'] w1(1) show ?thesis by (simp add: one_default_inj)
qed

lemma one_default_saved:
  assumes "one_default (wdb w)" and "run_state (Repo_Update notifiers_table n) w = (Inr m, w1)"
    and "n0 \<in> set (notifiers_of (wdb w))" and "no_id n = no_id n0" and "no_user_id n = no_user_id n0"
    and "run_state (clear_other_defaults (no_user_id n0) m) w1 = (Inr u, w')"
  shows "one_default (wdb w')"
proof -
  obtain t where m: "m = tb_stamp notifiers_table t (tb_touch notifiers_table t n)"
    and sv: "save_row notifiers_table m (wdb w) = (Inr m, wdb w1)"
    using Repo_Update_ok [OF assms(2)] by blast
  have mk: "no_id m = no_id n0" "no_user_id n0 = no_user_id m"
    using m assms(4,5) by (simp_all add: notifiers_table_def)
  have "has_id no_id (no_id m) (notifiers_of (wdb w))" using assms(3) mk by (auto simp: list_ex_iff)
  then have w1: "notifiers_of (wdb w1) = update_where (\<lambda>x. no_id x = no_id m) (\<lambda>_. m) (notifiers_of (wdb w))"
    using notifiers.save_row_ok [OF sv] by (simp add: notifiers_rows)
  obtain k where w': "notifiers_of (wdb w') = (if no_is_default m
      then clear_default (no_user_id m) (no_id m) k (notifiers_of (wdb w1)) else notifiers_of (wdb w1))"
    using clear_other_defaults_ok [OF assms(6) mk(2)] by auto
  have old: "inj_on no_user_id {x \<in> set (notifiers_of (wdb w)). no_is_default x}" "distinct (map no_id (notifiers_of (wdb w)))"
    using assms(1) by (simp_all add: one_default_inj)
  have "map no_id (notifiers_of (wdb w1)) = map no_id (notifiers_of (wdb w))"
    unfolding w1 by (rule map_update_where) simp
  then have d: "distinct (map no_id (notifiers_of (wdb w1)))" using old(2) by simp
  have "{x \<in> set (notifiers_of (wdb w1)). no_is_default x \<and> no_id x \<noteq> no_id m}
      \<subseteq> {x \<in> set (notifiers_of (wdb w)). no_is_default x}"
    by (auto simp: w1 set_update_where split: if_splits)
  with old(1) have i: "inj_on no_user_id {x \<in> set (notifiers_of (wdb w1)). no_is_default x \<and> no_id x \<noteq> no_id m}"
    by (rule inj_on_subset)
  have "m \<in> set (notifiers_of (wdb w1))" using assms(3) mk by (auto simp: w1 set_update_where)
  from default_settled [OF d this i w'] show ?thesis by (simp add: one_default_inj)
qed

text \<open>A save that keeps the flag needs no clearing.\<close>

lemma one_default_kept_flag:
  assumes "one_default (wdb w)" and "run_state (Repo_Update notifiers_table n) w = (Inr m, w1)"
    and "n0 \<in> set (notifiers_of (wdb w))" and "no_id n = no_id n0" and "no_user_id n = no_user_id n0"
    and "no_is_default n = no_is_default n0"
  shows "one_default (wdb w1)"
proof -
  let ?k = "\<lambda>n. (no_id n, no_user_id n, no_is_default n)"
  obtain t where m: "m = tb_stamp notifiers_table t (tb_touch notifiers_table t n)"
    and sv: "save_row notifiers_table m (wdb w) = (Inr m, wdb w1)"
    using Repo_Update_ok [OF assms(2)] by blast
  have mk: "?k m = ?k n0" using m assms(4-6) by (simp add: notifiers_table_def)
  then have "has_id no_id (no_id m) (notifiers_of (wdb w))" using assms(3) by (auto simp: list_ex_iff)
  then have w1: "notifiers_of (wdb w1) = update_where (\<lambda>x. no_id x = no_id m) (\<lambda>_. m) (notifiers_of (wdb w))"
    using notifiers.save_row_ok [OF sv] by (simp add: notifiers_rows)
  have same: "\<And>x. x \<in> set (notifiers_of (wdb w)) \<Longrightarrow> no_id x = no_id m \<Longrightarrow> x = n0"
    using assms(1,3) mk unfolding one_default_def by (metis distinct_map inj_onD prod.inject)
  have "map ?k (notifiers_of (wdb w1)) = map ?k (notifiers_of (wdb w))"
    unfolding w1 using mk same by (auto simp: update_where_def)
  then have eq: "map ?k (notifiers_of (wdb w1)) = map ?k (notifiers_of (wdb w))" .
  have p: "map no_id ns = map fst (map ?k ns)"
    "map no_user_id (filter no_is_default ns) = map (fst \<circ> snd) (filter (snd \<circ> snd) (map ?k ns))" for ns
    by (induction ns) simp_all
  have "map no_id (notifiers_of (wdb w1)) = map no_id (notifiers_of (wdb w))" unfolding p(1) eq ..
  moreover have "map no_user_id (filter no_is_default (notifiers_of (wdb w1)))
      = map no_user_id (filter no_is_default (notifiers_of (wdb w)))" unfolding p(2) eq ..
  ultimately show ?thesis using assms(1) by (simp add: one_default_def)
qed

abbreviation default_key :: "notifier \<Rightarrow> string \<times> string \<times> bool" where
  "default_key n \<equiv> (no_id n, no_user_id n, no_is_default n)"

lemma notifier_steps_key:
  "run_state (with_secrets N s n) w = (Inr m, w') \<Longrightarrow> default_key m = default_key n"
  "run_state (start_verification N ch n) w = (m, w') \<Longrightarrow> default_key m = default_key n"
  "run_state (rename r n) w = (Inr m, w') \<Longrightarrow> default_key m = default_key n"
  "run_state (reconfigure N r n) w = (Inr m, w') \<Longrightarrow> default_key m = default_key n"
  "run_state (mark_verified n) w = (m, w') \<Longrightarrow> default_key m = default_key n"
  by (auto simp: with_secrets_def start_verification_def rename_def reconfigure_def mark_verified_def
      split: if_splits prod.splits sum.splits)

lemma one_default_audit [pres]: "preserves (db_inv one_default) (record_and_commit c e)"
  by (rule pres_audit(2)) (simp add: one_default_def)

lemma keep_run:
  "run_state m w = (r, w') \<Longrightarrow> one_default (wdb w) \<Longrightarrow> preserves (db_inv one_default) m \<Longrightarrow> one_default (wdb w')"
  using preserves_run [of "db_inv one_default" m w r w'] by (simp add: db_inv_def)

lemma Notifier_Create_default: "preserves (db_inv one_default) (Notifier_Create N c request)"
proof -
  let ?u = "cnq_user_id request"
  have "one_default (wdb w')" if K: "one_default (wdb w)" and
    run: "run_state (bindE (free_name ?u (cnq_name request) []) (\<lambda>_.
          State_Monad.bind new_uuid (\<lambda>i.
          bindE (with_secrets N (cnq_secrets request) (new_notifier request i)) (\<lambda>n1.
          State_Monad.bind (start_verification N ch n1) (\<lambda>n2.
          bindE (internal (Repo_Create notifiers_table n2)) (\<lambda>n.
          bindE (clear_other_defaults ?u n) (\<lambda>_.
          bindE (record_and_commit c (entry ?u ''notifier.created'' ''notifiers'' (no_id n)))
            (\<lambda>_. returnE (NotifierToResponse n))))))))) w = (Inr x, w')" for w x w' ch
  proof -
    obtain v w1 i w2 n1 w3 n2 w4 n w5 t w6 z w7 where f: "run_state (free_name ?u (cnq_name request) []) w = (Inr v, w1)"
      and i: "run_state new_uuid w1 = (i, w2)"
      and n1: "run_state (with_secrets N (cnq_secrets request) (new_notifier request i)) w2 = (Inr n1, w3)"
      and n2: "run_state (start_verification N ch n1) w3 = (n2, w4)"
      and n: "run_state (Repo_Create notifiers_table n2) w4 = (Inr n, w5)"
      and t: "run_state (clear_other_defaults ?u n) w5 = (Inr t, w6)"
      and r: "run_state (record_and_commit c (entry ?u ''notifier.created'' ''notifiers'' (no_id n))) w6 = (Inr z, w7)"
      and w': "w' = w7"
      using run by (elim bindE_okE bind_okE mapErr_okE returnE_okE) (rule that; (assumption | simp))
    have "wdb w4 = wdb w"
      using same_run [OF f] same_run [OF i] same_run [OF n1] same_run [OF n2] by (simp add: pres)
    with K have "one_default (wdb w4)" by simp
    moreover have "?u = no_user_id n2" using notifier_steps_key(1) [OF n1] notifier_steps_key(2) [OF n2] by (simp add: new_notifier_def)
    ultimately have "one_default (wdb w6)" using one_default_inserted [OF _ n] t by simp
    then show ?thesis unfolding w' using keep_run [OF r] one_default_audit by blast
  qed
  then show ?thesis unfolding Notifier_Create_def by (intro pres pres_liftE pres_tx_scope_ok)
qed

lemma Notifier_Update_default: "preserves (db_inv one_default) (Notifier_Update N c request)"
proof -
  let ?u = "unq_user_id request"
  have "one_default (wdb w')" if K: "one_default (wdb w)" and
    run: "run_state (bindE (find_notifier (unq_id request) ?u) (\<lambda>n0.
        bindE (rename request n0) (\<lambda>n1.
        bindE (reconfigure N request n1) (\<lambda>n2.
        bindE (with_secrets N (unq_secrets request) n2) (\<lambda>n3.
        bindE (internal (Repo_Update notifiers_table
          (n3\<lparr>no_status := (if unq_status request \<noteq> [] then unq_status request else no_status n3),
                    no_is_default := patch (unq_is_default request) (no_is_default n3)\<rparr>))) (\<lambda>n.
        bindE (clear_other_defaults ?u n) (\<lambda>_.
        bindE (record_and_commit c (entry ?u ''notifier.updated'' ''notifiers'' (no_id n)))
          (\<lambda>_. returnE (NotifierToResponse n))))))))) w = (Inr x, w')" for w x w'
  proof -
    obtain n0 w1 n1 w2 n2 w3 n3 w4 n w5 t w6 z w7 where f: "run_state (find_notifier (unq_id request) ?u) w = (Inr n0, w1)"
      and n1: "run_state (rename request n0) w1 = (Inr n1, w2)"
      and n2: "run_state (reconfigure N request n1) w2 = (Inr n2, w3)"
      and n3: "run_state (with_secrets N (unq_secrets request) n2) w3 = (Inr n3, w4)"
      and n: "run_state (Repo_Update notifiers_table
          (n3\<lparr>no_status := (if unq_status request \<noteq> [] then unq_status request else no_status n3),
                    no_is_default := patch (unq_is_default request) (no_is_default n3)\<rparr>)) w4 = (Inr n, w5)"
      and t: "run_state (clear_other_defaults ?u n) w5 = (Inr t, w6)"
      and r: "run_state (record_and_commit c (entry ?u ''notifier.updated'' ''notifiers'' (no_id n))) w6 = (Inr z, w7)"
      and w': "w' = w7"
      using run by (elim bindE_okE mapErr_okE returnE_okE) (rule that; (assumption | simp))
    note own = find_notifier_ok [OF f]
    have w4: "wdb w4 = wdb w"
      using own same_run [OF n1] same_run [OF n2] same_run [OF n3] by (simp add: pres)
    have "no_id n3 = no_id n0" "no_user_id n3 = no_user_id n0"
      using notifier_steps_key(3) [OF n1] notifier_steps_key(4) [OF n2] notifier_steps_key(1) [OF n3] by simp_all
    moreover have "one_default (wdb w4)" "n0 \<in> set (notifiers_of (wdb w4))" "no_user_id n0 = ?u"
      using K own w4 by simp_all
    ultimately have "one_default (wdb w6)" using t one_default_saved [OF _ n, of n0 t w6] by simp
    then show ?thesis unfolding w' using keep_run [OF r] one_default_audit by blast
  qed
  then show ?thesis unfolding Notifier_Update_def Let_def by (intro pres pres_tx_scope_ok)
qed

lemma Notifier_Delete_default: "preserves (db_inv one_default) (Notifier_Delete c request)"
proof -
  have "one_default d'" if "one_default d" "tb_remove notifiers_table i d = Some d'" for d d' i
    using that unfolding one_default_inj
    by (auto simp: notifiers_table_def remove_notifier_def distinct_map_filter split: if_splits elim: inj_on_subset)
  then have "preserves (db_inv one_default) (Repo_Delete notifiers_table n)" for n
    by (intro pres_Repo_Delete) blast
  then show ?thesis unfolding Notifier_Delete_def by (intro pres)
qed

lemma one_default_save:
  assumes "one_default (wdb w)" and "n0 \<in> set (notifiers_of (wdb w))" and "default_key n = default_key n0"
    and "run_state (Repo_Update notifiers_table n) w = (r, w')"
  shows "one_default (wdb w')"
proof (cases r)
  case (Inl e)
  with assms show ?thesis
    by (auto simp: Repo_Update_def run_stmt save_row_def split: option.splits if_splits)
next
  case (Inr m)
  with assms one_default_kept_flag [of w n m w' n0] show ?thesis by simp
qed

lemma commit_wdb: "run_state (internal commit) w = (r, w') \<Longrightarrow> wdb w' = wdb w"
  using same_run [of "internal commit" w r w'] by (simp add: pres)

lemma Verify_default: "preserves (db_inv one_default) (Verify N c request)"
proof -
  let ?u = "vnq_user_id request"
  have "one_default (wdb w')" if K: "one_default (wdb w)" and
    run: "run_state (bindE (find_notifier (vnq_id request) ?u) (\<lambda>n.
        bindE (liftE (Channels_Get (nu_unicode N) (nu_channels N) (no_type n))) (\<lambda>ch.
        if \<not> ch_requires_verification ch then verify_unneeded n
        else if vnq_code request = [] then issue_code N n
        else consume_code N c request n))) w = (Inr x, w')" for w x w'
  proof -
    obtain n w0 ch w1 where f: "run_state (find_notifier (vnq_id request) ?u) w = (Inr n, w0)"
      and l: "run_state (liftE (Channels_Get (nu_unicode N) (nu_channels N) (no_type n))) w0 = (Inr ch, w1)"
      and rest: "run_state (if \<not> ch_requires_verification ch then verify_unneeded n
        else if vnq_code request = [] then issue_code N n
        else consume_code N c request n) w1 = (Inr x, w')"
      using run by (elim bindE_okE) (rule that; assumption)
    have own: "n \<in> set (notifiers_of (wdb w1))" "one_default (wdb w1)" using find_notifier_ok [OF f] l K by simp_all
    consider "\<not> ch_requires_verification ch" | "ch_requires_verification ch" "vnq_code request = []"
      | "ch_requires_verification ch" "vnq_code request \<noteq> []" by blast
    then show ?thesis
    proof cases
      case 1
      with rest obtain m w3 where
        u: "run_state (Repo_Update notifiers_table (n\<lparr>no_status := NotifierStatusVerified,
              no_verified_at := Some (unix_milli (clock w1 (ticks w1)))\<rparr>)) (w1\<lparr>ticks := Suc (ticks w1)\<rparr>) = (Inr m, w3)"
        and "wdb w' = wdb w3"
        by (auto simp: verify_unneeded_def simp del: run_bindE run_mapErr elim!: okE dest!: commit_ok)
      with one_default_save [OF _ _ _ u, of n] own show ?thesis by simp
    next
      case 2
      with rest obtain k w2 at w3 m w4 where v: "run_state (verificationCode N) w1 = (k, w2)"
        and a: "run_state code_expiry w2 = (at, w3)"
        and u: "run_state (Repo_Update notifiers_table (n\<lparr>no_verification_code := Some k,
            no_verification_expires_at := Some at, no_status := NotifierStatusPending\<rparr>)) w3 = (Inr m, w4)"
        and "wdb w' = wdb w4"
        by (auto simp: issue_code_def simp del: run_bindE run_mapErr run_state_bind elim!: okE dest!: commit_ok)
      moreover have "wdb w3 = wdb w1" using same_run [OF v] same_run [OF a] by (simp add: pres)
      ultimately show ?thesis using one_default_save [OF _ _ _ u, of n] own by simp
    next
      case 3
      then have cons: "run_state (consume_code N c request n) w1 = (Inr x, w')" using rest by simp
      obtain b w2 n1 w3 m w4 z w5 where e: "run_state (code_expired n) w1 = (b, w2)"
        and v: "run_state (mark_verified n) w2 = (n1, w3)"
        and u: "run_state (Repo_Update notifiers_table n1) w3 = (Inr m, w4)"
        and r: "run_state (record_and_commit c (entry ?u ''notifier.verified'' ''notifiers'' (no_id m))) w4 = (Inr z, w5)"
        and "w' = w5"
        using cons unfolding consume_code_def
        by (elim guard_okE bind_okE bindE_okE mapErr_okE returnE_okE) (rule that; (assumption | simp))
      moreover have "wdb w3 = wdb w1" using same_run [OF e] same_run [OF v] by (simp add: pres)
      ultimately show ?thesis
        using one_default_save [OF _ _ _ u, of n] own notifier_steps_key(5) [OF v] keep_run [OF r] one_default_audit by simp
    qed
  qed
  then show ?thesis unfolding Verify_def by (intro pres pres_tx_scope_ok)
qed

lemma HandleTelegramUpdate_default: "preserves (db_inv one_default) (HandleTelegramUpdate N c request)"
proof -
  have "one_default (wdb w')" if K: "one_default (wdb w)" and
    run: "run_state (State_Monad.bind now_milli (\<lambda>now.
          State_Monad.bind (FindPendingByCode code now) (\<lambda>found. case found of
             Inl _ \<Rightarrow> returnE True
           | Inr n \<Rightarrow> State_Monad.bind (mark_verified (n\<lparr>no_config :=
                 json_object (nu_unicode N) [(''chat_id'', json_string (nu_unicode N) (itoa chat))]\<rparr>)) (\<lambda>n1.
               bindE (internal (Repo_Update notifiers_table n1)) (\<lambda>n'.
               bindE (record_and_commit c (telegram_entry (no_id n'))) (\<lambda>_. returnE True)))))) w = (Inr x, w')"
    for code chat w x w'
  proof -
    obtain t w1 found w2 where t: "run_state now_milli w = (t, w1)" and q: "run_state (FindPendingByCode code t) w1 = (found, w2)"
      and rest: "run_state (case found of
             Inl _ \<Rightarrow> returnE True
           | Inr n \<Rightarrow> State_Monad.bind (mark_verified (n\<lparr>no_config :=
                 json_object (nu_unicode N) [(''chat_id'', json_string (nu_unicode N) (itoa chat))]\<rparr>)) (\<lambda>n1.
               bindE (internal (Repo_Update notifiers_table n1)) (\<lambda>n'.
               bindE (record_and_commit c (telegram_entry (no_id n'))) (\<lambda>_. returnE True)))) w2 = (Inr x, w')"
      using run by (elim bind_okE) (rule that; assumption)
    have w2: "wdb w2 = wdb w" using same_run [OF t] same_run [OF q] by (simp add: pres)
    show ?thesis
    proof (cases found)
      case (Inl e)
      with rest K w2 show ?thesis by simp
    next
      case (Inr n)
      with q have n: "n \<in> set (notifiers_of (wdb w))"
        using query_ok [OF q [unfolded FindPendingByCode_def Inr]] w2 t
        by (auto simp: take_row_def split: option.splits dest!: take_first_Some)
      obtain n1 w3 m w4 z w5 where v: "run_state (mark_verified (n\<lparr>no_config :=
                 json_object (nu_unicode N) [(''chat_id'', json_string (nu_unicode N) (itoa chat))]\<rparr>)) w2 = (n1, w3)"
        and u: "run_state (Repo_Update notifiers_table n1) w3 = (Inr m, w4)"
        and r: "run_state (record_and_commit c (telegram_entry (no_id m))) w4 = (Inr z, w5)" and w': "w' = w5"
        using rest unfolding Inr sum.case by (elim bind_okE bindE_okE mapErr_okE returnE_okE) (rule that; (assumption | simp))
      have "wdb w3 = wdb w" using same_run [OF v] w2 by (simp add: pres)
      then have "one_default (wdb w4)"
        using one_default_save [OF _ _ _ u, of n] K n notifier_steps_key(5) [OF v] by simp
      then show ?thesis unfolding w' using keep_run [OF r] one_default_audit by blast
    qed
  qed
  then show ?thesis unfolding HandleTelegramUpdate_def Let_def by (intro pres pres_tx_scope_ok)
qed

lemma Notifier_Test_default:
  assumes "one_default (wdb w)" and "run_state (Notifier_Test N request) w = (r, w')"
  shows "one_default (wdb w')"
proof (cases "fst (run_state (find_notifier (gnq_id request) (gnq_user_id request)) w)")
  case (Inl e)
  then have "wdb w' = wdb w"
    using assms(2) same_run [of "find_notifier (gnq_id request) (gnq_user_id request)" w]
    by (auto simp: Notifier_Test_def pres split: prod.splits)
  with assms(1) show ?thesis by simp
next
  case (Inr n)
  then obtain w1 where f: "run_state (find_notifier (gnq_id request) (gnq_user_id request)) w = (Inr n, w1)"
    by (metis prod.collapse)
  have own: "n \<in> set (notifiers_of (wdb w1))" "one_default (wdb w1)" using find_notifier_ok [OF f] assms(1) by simp_all
  have "one_default (wdb (snd (run_state (Repo_Update notifiers_table (n\<lparr>no_last_error := e\<rparr>)) w1)))" for e
    using one_default_save [OF own(2,1) _ surjective_pairing
      [of "run_state (Repo_Update notifiers_table (n\<lparr>no_last_error := e\<rparr>)) w1"]] by simp
  then show ?thesis using assms(2) f own
    by (auto simp: Notifier_Test_def split: prod.splits sum.splits)
qed

text \<open>C27: A user never has two default notifiers: whatever the outcome of creating, updating,
  deleting, verifying, testing a notifier or of the bot's web hook, if every user had at
  most one default before, so it is afterwards.\<close>

theorem one_default_kept:
  assumes "one_default (wdb w)"
  shows "one_default (wdb (snd (run_state (Notifier_Create N c create) w)))
    \<and> one_default (wdb (snd (run_state (Notifier_Update N c update) w)))
    \<and> one_default (wdb (snd (run_state (Notifier_Delete c delete) w)))
    \<and> one_default (wdb (snd (run_state (Verify N c verify) w)))
    \<and> one_default (wdb (snd (run_state (HandleTelegramUpdate N c telegram) w)))
    \<and> one_default (wdb (snd (run_state (Notifier_Test N test) w)))"
  using assms preservesD [OF Notifier_Create_default] preservesD [OF Notifier_Update_default]
    preservesD [OF Notifier_Delete_default] preservesD [OF Verify_default]
    preservesD [OF HandleTelegramUpdate_default] Notifier_Test_default [OF assms surjective_pairing]
  by (simp add: db_inv_def)

definition sample_notifier_uc :: notifier_uc where
  "sample_notifier_uc = \<lparr>nu_unicode = sample_unicode, nu_channels = [''slack'' \<mapsto> slack_channel],
     nu_cipher = mirror_box, nu_intn = (\<lambda>_. 42), nu_valid_create = (\<lambda>_. True), nu_valid_list = (\<lambda>_. True),
     nu_valid_update = (\<lambda>_. True), nu_valid_verify = (\<lambda>_. True)\<rparr>"

definition second_slack :: create_notifier_request where
  "second_slack = \<lparr>cnq_user_id = ''ann'', cnq_type = ''slack'', cnq_name = ''Two'', cnq_config = [], cnq_secrets = [],
     cnq_is_default = True\<rparr>"

theorem one_default_kept_witness:
  "one_default (wdb (snd (run_state (Notifier_Create sample_notifier_uc None second_slack) sample_world)))
   \<and> map no_is_default (notifiers_of (wdb (snd (run_state (Notifier_Create sample_notifier_uc None second_slack) sample_world))))
     = [False, True]"
proof -
  have start: "one_default (wdb sample_world)" by (simp add: one_default_def sample_defs)
  have "map no_is_default (notifiers_of (wdb (snd (run_state (Notifier_Create sample_notifier_uc None second_slack) sample_world))))
     = [False, True]"
    by (simp add: Notifier_Create_def Channels_Get_def validate_config_def free_name_def CountByName_def where_if_def
        with_secrets_def new_notifier_def start_verification_def verificationCode_def code_expiry_def clear_other_defaults_def
        ClearDefault_def Repo_UpdateWhere_def notifiers_table_def Repo_Create_def insert_row_def unique_on_def
        record_and_commit_def Record_def tx_commit_def audit_table_def audit_row_def attribute_def entry_def opt_ref_def
        sample_notifier_uc_def slack_channel_def second_slack_def sample_defs)
  with one_default_kept [OF start] show ?thesis by blast
qed

subsection \<open>What the code proves\<close>

lemma set_nat_str: "set (nat_str n) \<subseteq> digit_char ` {..< 10}"
proof (induction n rule: nat_str.induct)
  case (1 n)
  then show ?case by (subst nat_str.simps) auto
qed

lemma digit_chars: "c \<in> digit_char ` {..< 10} \<Longrightarrow> \<not> is_space c \<and> is_ascii [c]"
  by (auto simp: digit_char_def is_space_def is_ascii_def of_char_of Let_def)

lemma trim_code: "trim_space U (''MP-'' @ pad4 n) = ''MP-'' @ pad4 n"
proof -
  have "set (''MP-'' @ pad4 n) \<subseteq> set ''MP-'' \<union> {CHR ''0''} \<union> set (nat_str n)"
    by (auto simp: pad4_def Let_def)
  moreover have "\<forall>c \<in> set ''MP-'' \<union> {CHR ''0''} \<union> set (nat_str n). \<not> is_space c \<and> is_ascii [c]"
    using set_nat_str [of n] digit_chars by (auto simp: is_space_def is_ascii_def)
  ultimately have ok: "\<forall>c \<in> set (''MP-'' @ pad4 n). \<not> is_space c \<and> is_ascii [c]" by blast
  then have "dropWhile is_space (''MP-'' @ pad4 n) = ''MP-'' @ pad4 n"
    "dropWhile is_space (rev (''MP-'' @ pad4 n)) = rev (''MP-'' @ pad4 n)"
    by (metis dropWhile_eq_self_iff list.set_sel(1) set_rev)+
  moreover have "is_ascii (''MP-'' @ pad4 n)" using ok by (auto simp: is_ascii_def list_all_iff)
  ultimately show ?thesis by (simp add: trim_space_def del: append.simps)
qed

lemma save_notifier_up:
  assumes "db_up w" and "n \<in> set (notifiers_of (wdb w))" and "distinct (map no_id (notifiers_of (wdb w)))"
    and "tb_check notifiers_table (wdb w) n"
    and "no_id m = no_id n" "no_user_id m = no_user_id n" "no_name m = no_name n"
  defines "m' \<equiv> tb_stamp notifiers_table (unix_milli (clock w (ticks w))) (tb_touch notifiers_table (unix_milli (clock w (ticks w))) m)"
  shows "run_state (Repo_Update notifiers_table m) w = (Inr m', w\<lparr>ticks := Suc (ticks w), stmts := Suc (stmts w),
      wdb := (wdb w)\<lparr>notifiers_of := update_where (\<lambda>x. no_id x = no_id n) (\<lambda>_. m') (notifiers_of (wdb w))\<rparr>\<rparr>)"
    and "tb_check notifiers_table ((wdb w)\<lparr>notifiers_of := update_where (\<lambda>x. no_id x = no_id n) (\<lambda>_. m') (notifiers_of (wdb w))\<rparr>) m'"
proof -
  have key: "no_id m' = no_id n" "no_user_id m' = no_user_id n" "no_name m' = no_name n"
    using assms(5-7) by (simp_all add: m'_def notifiers_table_def)
  have ex: "has_id no_id (no_id m') (notifiers_of (wdb w))" using assms(2) key by (auto simp: list_ex_iff)
  have chk: "tb_check notifiers_table (wdb w) m'"
    using assms(4) key by (simp add: notifiers_table_def unique_on_def)
  then show "run_state (Repo_Update notifiers_table m) w = (Inr m', w\<lparr>ticks := Suc (ticks w), stmts := Suc (stmts w),
      wdb := (wdb w)\<lparr>notifiers_of := update_where (\<lambda>x. no_id x = no_id n) (\<lambda>_. m') (notifiers_of (wdb w))\<rparr>\<rparr>)"
    using assms(1) ex unfolding Repo_Update_def m'_def [symmetric]
    by (simp add: m'_def [symmetric] save_row_def notifiers_rows key) (simp add: notifiers_table_def)
  show "tb_check notifiers_table ((wdb w)\<lparr>notifiers_of := update_where (\<lambda>x. no_id x = no_id n) (\<lambda>_. m') (notifiers_of (wdb w))\<rparr>) m'"
    using chk key by (auto simp: notifiers_table_def unique_on_def list_all_iff set_update_where)
qed

lemma find_notifier_up:
  assumes "db_up w" and "n \<in> set (notifiers_of (wdb w))" and "distinct (map no_id (notifiers_of (wdb w)))"
  shows "run_state (find_notifier (no_id n) (no_user_id n)) w = (Inr n, w\<lparr>stmts := Suc (stmts w)\<rparr>)"
proof -
  have "take_first (\<lambda>x. no_id x = no_id n \<and> no_user_id x = no_user_id n) (notifiers_of (wdb w)) = Some n"
    using assms(2,3) by (intro take_first_only) (auto simp: distinct_map dest: inj_onD)
  then show ?thesis using assms(1)
    by (simp add: find_notifier_def Repo_FindByIdAndUser_def take_row_def notifiers_table_def)
qed

definition ask :: "notifier \<Rightarrow> string \<Rightarrow> verify_notifier_request" where
  "ask n code = \<lparr>vnq_user_id = no_user_id n, vnq_id = no_id n, vnq_code = code\<rparr>"

lemma Verify_issues_code:
  assumes up: "db_up w" and n: "n \<in> set (notifiers_of (wdb w))" "distinct (map no_id (notifiers_of (wdb w)))"
    and row: "tb_check notifiers_table (wdb w) n"
    and ch: "nu_channels N (no_type n) = Some ch" "ch_requires_verification ch"
    and valid: "nu_valid_verify N (ask n [])"
  shows "\<exists>r code m w'. run_state (Verify N None (ask n [])) w = (Inr r, w')
    \<and> vnp_verification_code r = Some code \<and> trim_space (nu_unicode N) code = code \<and> code \<noteq> []
    \<and> no_id m = no_id n \<and> no_user_id m = no_user_id n \<and> no_type m = no_type n
    \<and> no_verification_code m = Some code
    \<and> no_verification_expires_at m = Some (unix_milli (clock w (ticks w) + 30 * Minute))
    \<and> wdb w' = (wdb w)\<lparr>notifiers_of := update_where (\<lambda>x. no_id x = no_id n) (\<lambda>_. m) (notifiers_of (wdb w))\<rparr>
    \<and> tb_check notifiers_table (wdb w') m \<and> db_up w' \<and> clock w' = clock w \<and> ticks w' = Suc (Suc (ticks w))
    \<and> uuids w' = uuids w \<and> uuid_pos w' = uuid_pos w"
proof -
  define code where "code = ''MP-'' @ pad4 (nu_intn N (entropy_pos w) mod 10000)"
  define at where "at = unix_milli (clock w (ticks w) + 30 * Minute)"
  define v1 where "v1 = w\<lparr>stmts := Suc (stmts w), entropy_pos := Suc (entropy_pos w), ticks := Suc (ticks w)\<rparr>"
  define m0 where "m0 = n\<lparr>no_verification_code := Some code, no_verification_expires_at := Some at,
       no_status := NotifierStatusPending\<rparr>"
  define t where "t = unix_milli (clock v1 (ticks v1))"
  define m where "m = tb_stamp notifiers_table t (tb_touch notifiers_table t m0)"
  define d where "d = (wdb w)\<lparr>notifiers_of := update_where (\<lambda>x. no_id x = no_id n) (\<lambda>_. m) (notifiers_of (wdb w))\<rparr>"
  define v2 where "v2 = v1\<lparr>ticks := Suc (ticks v1), stmts := Suc (stmts v1), wdb := d\<rparr>"
  define w' where "w' = v2\<lparr>stmts := Suc (stmts v2)\<rparr>"
  have v1: "db_up v1" "wdb v1 = wdb w" using up by (simp_all add: v1_def)
  have save: "run_state (Repo_Update notifiers_table m0) v1 = (Inr m, v2)" and chk: "tb_check notifiers_table d m"
    using save_notifier_up [of v1 n m0] v1 n row by (simp_all add: m0_def m_def t_def v2_def d_def)
  let ?r = "\<lparr>vnp_status = no_status m, vnp_verification_code = Some code, vnp_verified_at = None, vnp_message =
        ''Send this code to the destination to prove you own it, then call this endpoint again with it.''\<rparr>"
  have "run_state (verificationCode N) (w\<lparr>stmts := Suc (stmts w)\<rparr>)
      = (code, w\<lparr>stmts := Suc (stmts w), entropy_pos := Suc (entropy_pos w)\<rparr>)"
    by (simp add: verificationCode_def code_def)
  moreover have "run_state code_expiry (w\<lparr>stmts := Suc (stmts w), entropy_pos := Suc (entropy_pos w)\<rparr>) = (at, v1)"
    by (simp add: code_expiry_def at_def v1_def)
  moreover have "run_state commit v2 = (Inr (), w')" using up by (simp add: v2_def v1_def w'_def)
  ultimately have "run_state (issue_code N n) (w\<lparr>stmts := Suc (stmts w)\<rparr>) = (Inr ?r, w')"
    using save by (simp add: issue_code_def m0_def)
  then have run: "run_state (Verify N None (ask n [])) w = (Inr ?r, w')"
    using find_notifier_up [OF up n] ch valid by (simp add: Verify_def ask_def Channels_Get_def)
  have "trim_space (nu_unicode N) code = code" "code \<noteq> []" unfolding code_def by (rule trim_code) simp
  then show ?thesis using run chk up
    by (intro exI [of _ ?r] exI [of _ code] exI [of _ m] exI [of _ w'])
       (simp add: m_def m0_def notifiers_table_def w'_def v2_def v1_def d_def at_def)
qed

lemma Verify_accepts_code:
  assumes up: "db_up w" and m: "m \<in> set (notifiers_of (wdb w))" "distinct (map no_id (notifiers_of (wdb w)))"
    and row: "tb_check notifiers_table (wdb w) m"
    and ch: "nu_channels N (no_type m) = Some ch" "ch_requires_verification ch"
    and valid: "nu_valid_verify N (ask m code)"
    and code: "no_verification_code m = Some code" "trim_space (nu_unicode N) code = code" "code \<noteq> []"
    and fresh: "no_verification_expires_at m = Some at" "unix_milli (clock w (ticks w)) \<le> at"
    and audit: "list_all (\<lambda>a. al_id a \<noteq> uuids w (uuid_pos w)) (audit_logs_of (wdb w))"
  shows "\<exists>r w'. run_state (Verify N None (ask m code)) w = (Inr r, w') \<and> vnp_status r = NotifierStatusVerified
    \<and> list_ex (\<lambda>x. no_id x = no_id m \<and> no_status x = NotifierStatusVerified) (notifiers_of (wdb w'))"
proof -
  define u where "u = w\<lparr>stmts := Suc (stmts w), ticks := Suc (Suc (ticks w))\<rparr>"
  define k0 where "k0 = m\<lparr>no_status := NotifierStatusVerified, no_verified_at := Some (unix_milli (clock w (Suc (ticks w)))),
            no_verification_code := None, no_verification_expires_at := None\<rparr>"
  define t where "t = unix_milli (clock u (ticks u))"
  define k where "k = tb_stamp notifiers_table t (tb_touch notifiers_table t k0)"
  define d where "d = (wdb w)\<lparr>notifiers_of := update_where (\<lambda>x. no_id x = no_id m) (\<lambda>_. k) (notifiers_of (wdb w))\<rparr>"
  define u2 where "u2 = u\<lparr>ticks := Suc (ticks u), stmts := Suc (stmts u), wdb := d\<rparr>"
  have save: "run_state (Repo_Update notifiers_table k0) u = (Inr k, u2)"
    using save_notifier_up(1) [of u m k0] up m row by (simp add: k0_def k_def t_def u2_def d_def u_def)
  have key: "no_id k = no_id m" "no_status k = NotifierStatusVerified"
    by (simp_all add: k_def k0_def notifiers_table_def)
  have user: "has_id u_id (no_user_id m) (users_of d)" using row by (simp add: notifiers_table_def d_def)
  have u2: "db_up u2" "wdb u2 = d" "uuid_pos u2 = uuid_pos w" "uuids u2 = uuids w" "audit_logs_of d = audit_logs_of (wdb w)"
    using up by (simp_all add: u2_def u_def d_def)
  obtain w' where rec: "run_state (record_and_commit None (entry (no_user_id m) ''notifier.verified'' ''notifiers'' (no_id k))) u2 = (Inr (), w')"
    using u2 user audit
    by (auto simp: record_and_commit_def Record_def tx_commit_def Repo_Create_def insert_row_def audit_table_def
        audit_row_def attribute_def entry_def opt_ref_def list_ex_iff list_all_iff)
  obtain arow where w': "wdb w' = d\<lparr>audit_logs_of := audit_logs_of d @ [arow]\<rparr>"
    using record_and_commit_ok [OF rec] u2(2) by blast
  have "run_state (code_expired m) (w\<lparr>stmts := Suc (stmts w)\<rparr>) = (False, w\<lparr>stmts := Suc (stmts w), ticks := Suc (ticks w)\<rparr>)"
    using fresh by (simp add: code_expired_def)
  moreover have "run_state (mark_verified m) (w\<lparr>stmts := Suc (stmts w), ticks := Suc (ticks w)\<rparr>) = (k0, u)"
    by (simp add: mark_verified_def k0_def u_def)
  ultimately have "run_state (consume_code N None (ask m code) m) (w\<lparr>stmts := Suc (stmts w)\<rparr>)
      = (Inr (verified_response k ''Verified.''), w')"
    using save rec code by (simp add: consume_code_def ask_def)
  then have "run_state (Verify N None (ask m code)) w = (Inr (verified_response k ''Verified.''), w')"
    using find_notifier_up [OF up m] ch valid code(3) by (simp add: Verify_def ask_def Channels_Get_def)
  moreover have "list_ex (\<lambda>x. no_id x = no_id m \<and> no_status x = NotifierStatusVerified) (notifiers_of (wdb w'))"
    using m(1) key by (auto simp: w' d_def list_ex_iff set_update_where)
  ultimately show ?thesis using key by (auto simp: verified_response_def)
qed

text \<open>C28: Verification proves nothing about the destination: the code that is meant to reach its owner
  is handed to the caller, and handing it back within half an hour verifies the notifier,
  whatever channel it is, without a single message having been sent.\<close>

theorem Verify_trusts_caller:
  assumes up: "db_up w" and n: "n \<in> set (notifiers_of (wdb w))" "distinct (map no_id (notifiers_of (wdb w)))"
    and row: "tb_check notifiers_table (wdb w) n"
    and ch: "nu_channels N (no_type n) = Some ch" "ch_requires_verification ch"
    and valid: "\<And>r. nu_valid_verify N r"
    and audit: "list_all (\<lambda>a. al_id a \<noteq> uuids w (uuid_pos w)) (audit_logs_of (wdb w))"
    and soon: "clock w (Suc (Suc (ticks w))) \<le> clock w (ticks w) + 30 * Minute"
  shows "\<exists>r1 w1 code r2 w2. run_state (Verify N None (ask n [])) w = (Inr r1, w1)
    \<and> vnp_verification_code r1 = Some code
    \<and> run_state (Verify N None (ask n code)) w1 = (Inr r2, w2)
    \<and> vnp_status r2 = NotifierStatusVerified
    \<and> list_ex (\<lambda>m. no_id m = no_id n \<and> no_status m = NotifierStatusVerified) (notifiers_of (wdb w2))"
proof -
  from Verify_issues_code [where N = N, OF up n row ch valid] obtain r1 code m w1 where
    first: "run_state (Verify N None (ask n [])) w = (Inr r1, w1)" "vnp_verification_code r1 = Some code"
    and code: "trim_space (nu_unicode N) code = code" "code \<noteq> []"
    and m: "no_id m = no_id n" "no_user_id m = no_user_id n" "no_type m = no_type n" "no_verification_code m = Some code"
      "no_verification_expires_at m = Some (unix_milli (clock w (ticks w) + 30 * Minute))"
    and d1: "wdb w1 = (wdb w)\<lparr>notifiers_of := update_where (\<lambda>x. no_id x = no_id n) (\<lambda>_. m) (notifiers_of (wdb w))\<rparr>"
    and w1: "tb_check notifiers_table (wdb w1) m" "db_up w1" "clock w1 = clock w" "ticks w1 = Suc (Suc (ticks w))"
      "uuids w1 = uuids w" "uuid_pos w1 = uuid_pos w" by blast
  have mem: "m \<in> set (notifiers_of (wdb w1))" "distinct (map no_id (notifiers_of (wdb w1)))"
    using n m(1) by (auto simp: d1 set_update_where map_update_where)
  have "unix_milli (clock w1 (ticks w1)) \<le> unix_milli (clock w (ticks w) + 30 * Minute)"
    using unix_milli_mono [OF soon] w1 by simp
  from Verify_accepts_code [where N = N, OF w1(2) mem w1(1) _ ch(2) valid m(4) code m(5) this] ch(1) m(3) audit w1 d1
  obtain r2 w2 where "run_state (Verify N None (ask m code)) w1 = (Inr r2, w2)" "vnp_status r2 = NotifierStatusVerified"
    "list_ex (\<lambda>x. no_id x = no_id m \<and> no_status x = NotifierStatusVerified) (notifiers_of (wdb w2))" by auto
  moreover have "ask m code = ask n code" using m by (simp add: ask_def)
  ultimately show ?thesis using first m(1) by auto
qed

definition new_slack :: notifier where
  "new_slack = slack\<lparr>no_status := NotifierStatusPending, no_verified_at := None\<rparr>"

definition unproven_world :: world where
  "unproven_world = world_of (sample_db\<lparr>notifiers_of := [new_slack]\<rparr>)"

theorem Verify_trusts_caller_witness:
  "\<exists>r1 w1 code r2 w2. run_state (Verify sample_notifier_uc None (ask new_slack [])) unproven_world = (Inr r1, w1)
    \<and> vnp_verification_code r1 = Some code
    \<and> run_state (Verify sample_notifier_uc None (ask new_slack code)) w1 = (Inr r2, w2)
    \<and> vnp_status r2 = NotifierStatusVerified
    \<and> list_ex (\<lambda>m. no_id m = ''n1'' \<and> no_status m = NotifierStatusVerified) (notifiers_of (wdb w2))"
proof -
  have "db_up unproven_world" "new_slack \<in> set (notifiers_of (wdb unproven_world))"
    "distinct (map no_id (notifiers_of (wdb unproven_world)))"
    "tb_check notifiers_table (wdb unproven_world) new_slack"
    "nu_channels sample_notifier_uc (no_type new_slack) = Some slack_channel"
    "ch_requires_verification slack_channel" "\<And>r. nu_valid_verify sample_notifier_uc r"
    "list_all (\<lambda>a. al_id a \<noteq> uuids unproven_world (uuid_pos unproven_world)) (audit_logs_of (wdb unproven_world))"
    "clock unproven_world (Suc (Suc (ticks unproven_world))) \<le> clock unproven_world (ticks unproven_world) + 30 * Minute"
    by (simp_all add: unproven_world_def new_slack_def notifiers_table_def unique_on_def sample_notifier_uc_def
        slack_channel_def sample_defs)
  from Verify_trusts_caller [OF this] show ?thesis by (simp add: new_slack_def slack_def)
qed

end
