(* ===== verification/Users.thy ===== *)
theory Users
  imports Activity
begin

text \<open>
  internal/usecase/user_usecase.go and the authentication middleware: accounts, sessions and
  passwords.  SHA-256 (\<open>uu_sum256\<close>, the 32 bytes of the digest) and bcrypt (\<open>uu_bcrypt\<close> from a
  salt, \<open>uu_compare\<close>) are parameters; the salt is read from the random source.  Publishing a
  user event to Kafka has no effect on the state or the answer (a failure is only logged) and
  is left out.
\<close>

record user_uc =
  uu_unicode :: unicode
  uu_ttls :: cache_ttls
  uu_session_ttl :: int
  uu_touch_interval :: int
  uu_sum256 :: "string \<Rightarrow> string"
  uu_bcrypt :: "string \<Rightarrow> string \<Rightarrow> err + string"
  uu_compare :: "string \<Rightarrow> string \<Rightarrow> bool"
  uu_valid_verify :: "verify_user_request \<Rightarrow> bool"
  uu_valid_register :: "register_user_request \<Rightarrow> bool"
  uu_valid_login :: "login_user_request \<Rightarrow> bool"
  uu_valid_get :: "get_user_request \<Rightarrow> bool"
  uu_valid_update :: "update_user_request \<Rightarrow> bool"
  uu_valid_logout :: "logout_user_request \<Rightarrow> bool"
  uu_valid_list :: "list_session_request \<Rightarrow> bool"
  uu_valid_revoke :: "revoke_session_request \<Rightarrow> bool"
  uu_valid_forgot :: "forgot_password_request \<Rightarrow> bool"
  uu_valid_reset :: "reset_password_request \<Rightarrow> bool"

subsection \<open>Resolving a token\<close>

definition shouldTouch :: "user_uc \<Rightarrow> user_session \<Rightarrow> int \<Rightarrow> bool" where
  "shouldTouch U s now =
     (if uu_touch_interval U \<le> 0 then True
      else now - us_last_used_at s \<ge> uu_touch_interval U div Millisecond)"

definition hashToken :: "user_uc \<Rightarrow> string \<Rightarrow> string" where
  "hashToken U token = hex_string (uu_sum256 U token)"

text \<open>The transaction of \<open>Verify\<close>; a refused touch aborts it, so that the commit fails\<close>

definition touch :: "user_uc \<Rightarrow> user_session \<Rightarrow> int \<Rightarrow> bool io" where
  "touch U s now =
     (if shouldTouch U s now
      then State_Monad.bind (TouchLastUsed (us_id s) now) (\<lambda>r. ret (case r of Inl _ \<Rightarrow> False | Inr _ \<Rightarrow> True))
      else ret True)"

definition session_auth :: "user_uc \<Rightarrow> string \<Rightarrow> auth ioE" where
  "session_auth U tokenHash = tx_scope (State_Monad.bind now_milli (\<lambda>now.
     bindE (mapErr (\<lambda>_. ErrUnauthorized) (FindActiveByTokenHash tokenHash now)) (\<lambda>s.
     bindE (mapErr (\<lambda>_. ErrUnauthorized) (Repo_FindById users_table (us_user_id s))) (\<lambda>u.
     if u_status u \<noteq> UserStatusActive then failE ErrForbidden
     else bindE (internal (LoadRoles (u_id u))) (\<lambda>roles.
       State_Monad.bind (touch U s now) (\<lambda>ok.
       bindE (internal (tx_commit ok)) (\<lambda>_.
       returnE (UserToAuth u roles (us_id s) (us_impersonated_by s)))))))))"

definition store_auth :: "user_uc \<Rightarrow> string \<Rightarrow> auth \<Rightarrow> unit ioE" where
  "store_auth U tokenHash a = Cache_Set UserCacheKeyPrefix (ttl_user (uu_ttls U)) tokenHash (RAuth a)"

definition User_Verify :: "user_uc \<Rightarrow> verify_user_request \<Rightarrow> auth ioE" where
  "User_Verify U request =
     (if \<not> uu_valid_verify U request then failE ErrUnauthorized
      else let tokenHash = hashToken U (vuq_token request) in
        State_Monad.bind (Cache_Get UserCacheKeyPrefix as_auth tokenHash) (\<lambda>hit. case hit of
          Inr (Some a) \<Rightarrow> returnE a
        | _ \<Rightarrow> bindE (session_auth U tokenHash) (\<lambda>a.
            State_Monad.bind (store_auth U tokenHash a) (\<lambda>_. returnE a))))"

text \<open>delivery/http/middleware: the header becomes the caller the handlers see\<close>

definition bearer_token :: "user_uc \<Rightarrow> string \<Rightarrow> string" where
  "bearer_token U header =
     trim_prefix (trim_prefix (trim_space (uu_unicode U) header) ''Bearer '') ''bearer ''"

definition NewAuth :: "user_uc \<Rightarrow> string \<Rightarrow> (auth \<times> string) ioE" where
  "NewAuth U header =
     (let token = bearer_token U header in
      if token = [] then failE ErrUnauthorized
      else bindE (User_Verify U \<lparr>vuq_token = token\<rparr>) (\<lambda>a. returnE (a, token)))"

definition GetUser :: "ctx \<Rightarrow> auth" where
  "GetUser c = (case c of
      None \<Rightarrow> \<lparr>au_id = [], au_email = [], au_roles = [], au_session_id = [], au_impersonated = False,
                au_impersonated_by = []\<rparr>
    | Some a \<Rightarrow> a)"

definition NewRequireRole :: "string list \<Rightarrow> ctx \<Rightarrow> err + unit" where
  "NewRequireRole slugs c =
     (if list_ex (Auth_HasRole (GetUser c)) slugs then Inr ()
      else Inl (HttpErr 403 ''this area needs additional permissions''))"

text \<open>A refused request gets the \<open>Retry-After\<close> header beside its error.\<close>

definition NewRateLimit :: "string \<Rightarrow> int \<Rightarrow> int \<Rightarrow> string \<Rightarrow> (string \<times> err) option io" where
  "NewRateLimit scope limit window ip = State_Monad.bind (Allow scope ip limit window) (\<lambda>(allowed, retryAfter).
     ret (if allowed then None
       else Some (itoa (retryAfter div Second), HttpErr 429 ''too many attempts, please wait before trying again'')))"

subsection \<open>Accounts\<close>

definition hash_password :: "user_uc \<Rightarrow> string \<Rightarrow> string ioE" where
  "hash_password U password = bindE (read_random 16) (\<lambda>salt. liftE (uu_bcrypt U salt password))"

definition new_user :: "register_user_request \<Rightarrow> string \<Rightarrow> string \<Rightarrow> user" where
  "new_user request i password =
     \<lparr>u_id = i, u_email = ruq_email request, u_name = ruq_name request, u_password = password,
      u_status = UserStatusActive,
      u_timezone = (if ruq_timezone request = [] then ''UTC'' else ruq_timezone request),
      u_email_verified_at = None, u_created_at = 0, u_updated_at = 0\<rparr>"

definition User_Create :: "user_uc \<Rightarrow> ctx \<Rightarrow> register_user_request \<Rightarrow> user_response ioE" where
  "User_Create U c request0 =
     (let email = to_lower (uu_unicode U) (trim_space (uu_unicode U) (ruq_email request0));
          request = request0\<lparr>ruq_email := email\<rparr> in
      if \<not> uu_valid_register U request then failE ErrBadRequest
      else tx_scope (
        bindE (internal (User_CountByEmail email)) (\<lambda>total_users.
        if total_users > 0 then failE (HttpErr 409 ''that email is already registered'')
        else bindE (internal (hash_password U (ruq_password request))) (\<lambda>password.
          State_Monad.bind new_uuid (\<lambda>i.
          bindE (internal (Repo_Create users_table (new_user request i password))) (\<lambda>u.
          bindE (internal (Role_FindBySlug RoleUser)) (\<lambda>role.
          bindE (internal (AddRole (u_id u) (r_id role))) (\<lambda>_.
          bindE (record_and_commit c (entry (u_id u) ''user.registered'' ''users'' (u_id u)))
            (\<lambda>_. returnE (UserToResponse u [role])))))))))) "

definition issueSession :: "user_uc \<Rightarrow> user \<Rightarrow> string \<Rightarrow> string \<Rightarrow> (string \<times> user_session) ioE" where
  "issueSession U u userAgent ip = do {
     t1 \<leftarrow> new_uuid;
     t2 \<leftarrow> new_uuid;
     now \<leftarrow> time_now;
     i \<leftarrow> new_uuid;
     bindE (internal (Repo_Create sessions_table
       \<lparr>us_id = i, us_user_id = u_id u, us_token_hash = hashToken U (t1 @ t2),
        us_user_agent = nilIfEmpty (truncate_str userAgent 255), us_ip = nilIfEmpty ip,
        us_impersonated_by = None, us_expires_at = unix_milli (now + uu_session_ttl U),
        us_revoked_at = None, us_last_used_at = unix_milli now, us_created_at = 0, us_updated_at = 0\<rparr>))
       (\<lambda>s. returnE (t1 @ t2, s)) }"

text \<open>The comparison with a made-up hash when the address is unknown has no effect on the answer.\<close>

definition Login :: "user_uc \<Rightarrow> ctx \<Rightarrow> login_user_request \<Rightarrow> login_response ioE" where
  "Login U c request0 =
     (let email = to_lower (uu_unicode U) (trim_space (uu_unicode U) (lguq_email request0));
          request = request0\<lparr>lguq_email := email\<rparr> in
      if \<not> uu_valid_login U request then failE ErrBadRequest
      else tx_scope (
        bindE (mapErr (\<lambda>e. case e of RecordNotFound \<Rightarrow> ErrUnauthorized | _ \<Rightarrow> ErrInternal) (User_FindByEmail email)) (\<lambda>u.
        if \<not> uu_compare U (u_password u) (lguq_password request) then failE ErrUnauthorized
        else if u_status u \<noteq> UserStatusActive then failE (HttpErr 403 ''this account is suspended'')
        else bindE (internal (LoadRoles (u_id u))) (\<lambda>roles.
          bindE (issueSession U u (lguq_user_agent request) (lguq_ip request)) (\<lambda>(token, s).
          bindE (record_and_commit c ((entry (u_id u) ''user.logged_in'' ''user_sessions'' (us_id s))
              \<lparr>ae_ip := nilIfEmpty (lguq_ip request)\<rparr>)) (\<lambda>_.
          returnE \<lparr>lp_token = token, lp_expires_at = us_expires_at s, lp_user = Some (UserToResponse u roles)\<rparr>))))))"

definition Current :: "user_uc \<Rightarrow> get_user_request \<Rightarrow> user_response ioE" where
  "Current U request =
     (if \<not> uu_valid_get U request then failE ErrBadRequest
      else tx_scope (
        bindE (mapErr (\<lambda>_. ErrNotFound) (Repo_FindById users_table (guq_id request))) (\<lambda>u.
        bindE (internal (LoadRoles (u_id u))) (\<lambda>roles.
        bindE (internal commit) (\<lambda>_. returnE (UserToResponse u roles))))))"

subsection \<open>Sessions and passwords\<close>

definition evict :: "string list \<Rightarrow> unit io" where
  "evict hashes = ignoreE (Cache_Delete UserCacheKeyPrefix hashes)"

definition revokeAllSessions :: "string \<Rightarrow> unit io" where
  "revokeAllSessions userID = do {
     now \<leftarrow> now_milli;
     r \<leftarrow> RevokeAllForUser userID now;
     (case r of Inl _ \<Rightarrow> ret () | Inr hashes \<Rightarrow> evict hashes) }"

definition patched_user :: "update_user_request \<Rightarrow> user \<Rightarrow> user" where
  "patched_user request u = u\<lparr>u_name := (if uuq_name request \<noteq> [] then uuq_name request else u_name u),
     u_timezone := (if uuq_timezone request \<noteq> [] then uuq_timezone request else u_timezone u)\<rparr>"

definition new_password :: "user_uc \<Rightarrow> string \<Rightarrow> user \<Rightarrow> user ioE" where
  "new_password U password u =
     (if password = [] then returnE u
      else bindE (internal (hash_password U password)) (\<lambda>h. returnE (u\<lparr>u_password := h\<rparr>)))"

definition update_user :: "user_uc \<Rightarrow> ctx \<Rightarrow> update_user_request \<Rightarrow> (user \<times> role list) ioE" where
  "update_user U c request = tx_scope (
     bindE (mapErr (\<lambda>_. ErrNotFound) (Repo_FindById users_table (uuq_id request))) (\<lambda>u0.
     bindE (new_password U (uuq_password request) (patched_user request u0)) (\<lambda>u1.
     bindE (internal (Repo_Update users_table u1)) (\<lambda>u.
     bindE (internal (LoadRoles (u_id u))) (\<lambda>roles.
     bindE (record_and_commit c (entry (u_id u) ''user.updated'' ''users'' (u_id u))) (\<lambda>_. returnE (u, roles)))))))"

definition User_Update :: "user_uc \<Rightarrow> ctx \<Rightarrow> update_user_request \<Rightarrow> user_response ioE" where
  "User_Update U c request =
     (if \<not> uu_valid_update U request then failE ErrBadRequest
      else bindE (update_user U c request) (\<lambda>(u, roles).
        State_Monad.bind (if uuq_password request \<noteq> [] then revokeAllSessions (u_id u) else ret ()) (\<lambda>_.
        returnE (UserToResponse u roles))))"

definition Logout :: "user_uc \<Rightarrow> logout_user_request \<Rightarrow> bool ioE" where
  "Logout U request =
     (if \<not> uu_valid_logout U request then failE ErrBadRequest
      else bindE (tx_scope (State_Monad.bind now_milli (\<lambda>now.
          bindE (internal (Session_Revoke (luq_session_id request) now)) (\<lambda>_. internal commit)))) (\<lambda>_.
        State_Monad.bind (if luq_token request \<noteq> [] then evict [hashToken U (luq_token request)] else ret ()) (\<lambda>_.
        returnE True)))"

definition ListSessions :: "user_uc \<Rightarrow> list_session_request \<Rightarrow> session_response list ioE" where
  "ListSessions U request =
     (if \<not> uu_valid_list U request then failE ErrBadRequest
      else State_Monad.bind now_milli (\<lambda>now.
        bindE (internal (FindActiveByUser (lsq_user_id request) now)) (\<lambda>ss.
        returnE (SessionsToResponses ss (lsq_current_session_id request)))))"

definition revoke_session :: "revoke_session_request \<Rightarrow> user_session ioE" where
  "revoke_session request = tx_scope (
     bindE (mapErr (\<lambda>_. ErrNotFound)
       (Repo_FindByIdAndUser sessions_table (rsq_session_id request) (rsq_user_id request))) (\<lambda>s.
     State_Monad.bind now_milli (\<lambda>now.
     bindE (internal (Session_Revoke (us_id s) now)) (\<lambda>_.
     bindE (internal commit) (\<lambda>_. returnE s)))))"

definition RevokeSession :: "user_uc \<Rightarrow> revoke_session_request \<Rightarrow> bool ioE" where
  "RevokeSession U request =
     (if \<not> uu_valid_revoke U request then failE ErrBadRequest
      else bindE (revoke_session request) (\<lambda>s.
        State_Monad.bind (evict [us_token_hash s]) (\<lambda>_. returnE True)))"

definition ForgotPassword :: "user_uc \<Rightarrow> forgot_password_request \<Rightarrow> bool ioE" where
  "ForgotPassword U request0 =
     (let email = to_lower (uu_unicode U) (trim_space (uu_unicode U) (fpq_email request0));
          request = request0\<lparr>fpq_email := email\<rparr> in
      if \<not> uu_valid_forgot U request then failE ErrBadRequest
      else State_Monad.bind (User_FindByEmail email) (\<lambda>r. case r of
          Inl _ \<Rightarrow> returnE True
        | Inr u \<Rightarrow> State_Monad.bind new_uuid (\<lambda>t1. State_Monad.bind new_uuid (\<lambda>t2.
            bindE (internal (Cache_Set PasswordResetKeyPrefix (ttl_reset (uu_ttls U)) (t1 @ t2)
              (RReset \<lparr>pr_user_id = u_id u, pr_email = u_email u\<rparr>))) (\<lambda>_. returnE True)))))"

definition reset_password :: "user_uc \<Rightarrow> ctx \<Rightarrow> reset_password_request \<Rightarrow> password_reset \<Rightarrow> user ioE" where
  "reset_password U c request reset = tx_scope (
     bindE (mapErr (\<lambda>_. ErrNotFound) (Repo_FindById users_table (pr_user_id reset))) (\<lambda>u0.
     bindE (internal (hash_password U (rpq_password request))) (\<lambda>h.
     bindE (internal (Repo_Update users_table (u0\<lparr>u_password := h\<rparr>))) (\<lambda>u.
     bindE (record_and_commit c (entry (u_id u) ''user.password_reset'' ''users'' (u_id u))) (\<lambda>_. returnE u)))))"

definition ResetPassword :: "user_uc \<Rightarrow> ctx \<Rightarrow> reset_password_request \<Rightarrow> bool ioE" where
  "ResetPassword U c request =
     (if \<not> uu_valid_reset U request then failE ErrBadRequest
      else State_Monad.bind (Cache_Get PasswordResetKeyPrefix as_reset (rpq_token request)) (\<lambda>r. case r of
          Inr (Some reset) \<Rightarrow> bindE (reset_password U c request reset) (\<lambda>u.
            State_Monad.bind (ignoreE (Cache_Delete PasswordResetKeyPrefix [rpq_token request])) (\<lambda>_.
            State_Monad.bind (revokeAllSessions (u_id u)) (\<lambda>_. returnE True)))
        | _ \<Rightarrow> failE (HttpErr 400 ''that reset link is invalid or has expired'')))"

subsection \<open>A token that no session backs\<close>

lemma Cache_Get_none:
  "redis w (Cache_Key p i) = None \<Longrightarrow>
   (fst (run_state (Cache_Get p dec i) w) = Inr None \<or> fst (run_state (Cache_Get p dec i) w) = Inl RedisErr)
   \<and> wdb (snd (run_state (Cache_Get p dec i) w)) = wdb w"
  by (simp add: Cache_Get_def cmd_get_def run_redis_cmd)

lemma session_auth_dead:
  assumes "\<And>s. s \<in> set (sessions_of (wdb w)) \<Longrightarrow> us_token_hash s = h \<Longrightarrow> us_revoked_at s \<noteq> None"
  shows "fst (run_state (session_auth U h) w) = Inl ErrUnauthorized"
proof -
  let ?p = "\<lambda>now s. us_token_hash s = h \<and> active_session now s"
  have "take_first (?p now) (sessions_of (wdb w)) = None" for now
    using assms by (auto simp: take_first_None list_ex_iff active_session_def)
  then show ?thesis
    by (auto simp: session_auth_def FindActiveByTokenHash_def query_def run_stmt take_row_def
        split: prod.splits sum.splits option.splits)
qed

lemma User_Verify_dead:
  assumes "redis w (Cache_Key UserCacheKeyPrefix (hashToken U t)) = None"
    and "\<And>s. s \<in> set (sessions_of (wdb w)) \<Longrightarrow> us_token_hash s = hashToken U t \<Longrightarrow> us_revoked_at s \<noteq> None"
  shows "fst (run_state (User_Verify U \<lparr>vuq_token = t\<rparr>) w) = Inl ErrUnauthorized"
proof -
  obtain hit v where get: "run_state (Cache_Get UserCacheKeyPrefix as_auth (hashToken U t)) w = (hit, v)"
    by (metis surj_pair)
  with Cache_Get_none [OF assms(1), of as_auth] have hit: "hit = Inr None \<or> hit = Inl RedisErr" and "wdb v = wdb w"
    by auto
  then have "fst (run_state (session_auth U (hashToken U t)) v) = Inl ErrUnauthorized"
    using assms(2) by (intro session_auth_dead) auto
  then obtain v' where "run_state (session_auth U (hashToken U t)) v = (Inl ErrUnauthorized, v')"
    by (metis prod.collapse)
  then show ?thesis using get hit by (auto simp: User_Verify_def Let_def)
qed

subsection \<open>Revocation\<close>

lemma redis_up_program [pres]:
  "preserves redis_up now_milli" "preserves redis_up time_now" "preserves redis_up new_uuid"
  "preserves redis_up (read_random n)" "preserves redis_up (stmt f)" "preserves redis_up (query q)"
  "preserves redis_up (exec g)" "preserves redis_up commit" "preserves redis_up (redis_cmd c)"
  by (simp_all add: preserves_def query_def exec_def commit_def run_stmt run_redis_cmd split: option.splits)

lemma redis_up_tx_scope [pres]: "preserves redis_up m \<Longrightarrow> preserves redis_up (tx_scope m)"
  by (auto simp: preserves_def split: prod.splits sum.splits)

lemma redis_up_repository [pres]:
  "preserves redis_up (Repo_FindById T i)" "preserves redis_up (Repo_FindByIdAndUser T i u)"
  "preserves redis_up (Repo_Create T x)" "preserves redis_up (Repo_Update T x)"
  "preserves redis_up (Repo_UpdateWhere T p f)"
  unfolding Repo_FindById_def Repo_FindByIdAndUser_def Repo_Create_def Repo_Update_def Repo_UpdateWhere_def
  by (intro pres)+

lemma redis_up_users [pres]:
  "preserves redis_up (LoadRoles u)" "preserves redis_up (Session_Revoke i n)"
  "preserves redis_up (record_and_commit c e)" "preserves redis_up (hash_password U p)"
  unfolding LoadRoles_def Session_Revoke_def record_and_commit_def Record_def tx_commit_def hash_password_def
  by (intro pres)+

lemma up_users [pres]:
  "preserves db_up (LoadRoles u)" "preserves db_up (hash_password U p)"
  unfolding LoadRoles_def hash_password_def by (intro pres)+

lemma evict_ok:
  assumes "redis_up w" and "run_state (evict hs) w = (u, w')" and "h \<in> set hs"
  shows "wdb w' = wdb w \<and> redis w' (Cache_Key UserCacheKeyPrefix h) = None"
  using assms by (auto simp: evict_def Cache_Delete_def cmd_del_def del_keys_def restrict_map_def split: if_splits)

lemma sessions_rows [simp]: "tb_rows sessions_table d = sessions_of d" "tb_key sessions_table s = us_id s"
  "tb_put sessions_table xs d = d\<lparr>sessions_of := xs\<rparr>" "tb_owner sessions_table s = us_user_id s"
  by (simp_all add: sessions_table_def)

lemma hash_unique:
  assumes "distinct (map us_token_hash xs)" "s \<in> set xs" "z \<in> set xs" "us_token_hash z = us_token_hash s"
  shows "z = s"
  using assms by (induction xs) (auto simp: image_iff)

text \<open>After some sessions were marked revoked and their cache entries dropped, their tokens are refused.\<close>

lemma revoked_rejected:
  assumes rows: "sessions_of (wdb w') = update_where p (\<lambda>x. tb_touch sessions_table k (x\<lparr>us_revoked_at := Some now\<rparr>)) (sessions_of d)"
    and gone: "redis w' (Cache_Key UserCacheKeyPrefix (us_token_hash s)) = None"
    and s: "s \<in> set (sessions_of d)" "p s" "distinct (map us_token_hash (sessions_of d))"
    and t: "hashToken U t = us_token_hash s"
  shows "fst (run_state (User_Verify U \<lparr>vuq_token = t\<rparr>) (w'\<lparr>ticks := n\<rparr>)) = Inl ErrUnauthorized"
proof (rule User_Verify_dead)
  fix x assume "x \<in> set (sessions_of (wdb (w'\<lparr>ticks := n\<rparr>)))" and h: "us_token_hash x = hashToken U t"
  then obtain y where y: "y \<in> set (sessions_of d)" "x = (if p y then tb_touch sessions_table k (y\<lparr>us_revoked_at := Some now\<rparr>) else y)"
    by (auto simp: rows set_update_where split: if_splits)
  then have "us_token_hash y = us_token_hash s" using h t by (auto simp: sessions_table_def split: if_splits)
  with hash_unique [OF s(3,1) y(1)] have "y = s" by blast
  with y(2) s(2) show "us_revoked_at x \<noteq> None" by (simp add: sessions_table_def)
qed (use gone t in simp)

lemma revokeAll_locks_out:
  assumes up: "db_up w" "redis_up w" and run: "run_state (revokeAllSessions u) w = ((), w')"
    and s: "s \<in> set (sessions_of (wdb w))" "us_user_id s = u" "us_revoked_at s = None"
    and d: "distinct (map us_token_hash (sessions_of (wdb w)))"
    and t: "hashToken U t = us_token_hash s"
  shows "fst (run_state (User_Verify U \<lparr>vuq_token = t\<rparr>) (w'\<lparr>ticks := n\<rparr>)) = Inl ErrUnauthorized"
proof -
  let ?mine = "\<lambda>s. us_user_id s = u \<and> us_revoked_at s = None"
  let ?hs = "map us_token_hash (filter ?mine (sessions_of (wdb w)))"
  have ne: "filter ?mine (sessions_of (wdb w)) \<noteq> []" and mem: "us_token_hash s \<in> set ?hs"
    using s by (auto simp: filter_empty_conv)
  obtain now k v where ev: "run_state (evict ?hs) v = ((), w')" and upv: "redis_up v"
    and rows: "sessions_of (wdb v) = update_where ?mine (\<lambda>x. tb_touch sessions_table k (x\<lparr>us_revoked_at := Some now\<rparr>)) (sessions_of (wdb w))"
    using run up ne by (simp add: revokeAllSessions_def RevokeAllForUser_def Let_def Repo_UpdateWhere_def query_def)
  note gone = evict_ok [OF upv ev mem]
  show ?thesis
    by (rule revoked_rejected [where p = ?mine and k = k and now = now, OF _ _ s(1) _ d t]) (use s gone rows in auto)
qed

lemma RevokeSession_rows:
  assumes "redis_up w" and run: "run_state (RevokeSession U request) w = (Inr r, w')"
  obtains x k now where "x \<in> set (sessions_of (wdb w))" "us_id x = rsq_session_id request"
    "us_user_id x = rsq_user_id request" "redis w' (Cache_Key UserCacheKeyPrefix (us_token_hash x)) = None"
    "sessions_of (wdb w') = update_where (\<lambda>y. us_id y = us_id x \<and> us_revoked_at y = None)
      (\<lambda>y. tb_touch sessions_table k (y\<lparr>us_revoked_at := Some now\<rparr>)) (sessions_of (wdb w))"
proof -
  obtain x w1 where rev: "run_state (revoke_session request) w = (Inr x, w1)"
    and ev: "run_state (evict [us_token_hash x]) w1 = ((), w')"
    using run unfolding RevokeSession_def by (auto simp del: run_bindE elim!: bindE_okE split: if_splits prod.splits)
  have "preserves redis_up (revoke_session request)" unfolding revoke_session_def by (intro pres)
  from preserves_run [of redis_up, OF this assms(1) rev] have up1: "redis_up w1" .
  obtain w2 now w3 w4 w5 where f: "run_state (Repo_FindByIdAndUser sessions_table (rsq_session_id request) (rsq_user_id request)) w = (Inr x, w2)"
    and nm: "run_state now_milli w2 = (now, w3)"
    and r: "run_state (Session_Revoke (us_id x) now) w3 = (Inr (), w4)" and cm: "run_state commit w4 = (Inr (), w5)"
    and w1: "w1 = w5"
    using rev unfolding revoke_session_def
    by (elim tx_scope_okE bindE_okE mapErr_okE bind_okE returnE_okE) (rule that; (assumption | simp))
  have c: "wdb w1 = wdb w4" "wdb w3 = wdb w2" using commit_ok [OF cm] w1 nm by auto
  from FindByIdAndUser_row [OF f] have x: "x \<in> set (sessions_of (wdb w))" "us_id x = rsq_session_id request"
    "us_user_id x = rsq_user_id request" "wdb w2 = wdb w" by auto
  obtain k where "sessions_of (wdb w') = update_where (\<lambda>y. us_id y = us_id x \<and> us_revoked_at y = None)
      (\<lambda>y. tb_touch sessions_table k (y\<lparr>us_revoked_at := Some now\<rparr>)) (sessions_of (wdb w))"
    using r x(4) c evict_ok [OF up1 ev, of "us_token_hash x"] unfolding Session_Revoke_def
    by (auto simp del: run_bindE elim!: bindE_okE dest!: Repo_UpdateWhere_ok)
  with x evict_ok [OF up1 ev, of "us_token_hash x"] show ?thesis by (intro that) auto
qed

text \<open>C30: Revoking a session takes effect at once: while redis answers, after \<open>RevokeSession\<close> of a
  session of the caller its token is refused, whenever it comes back, although it may have
  been cached a moment before; the sessions of everybody else stay as they were.\<close>

theorem RevokeSession_immediate:
  assumes "redis_up w" and run: "run_state (RevokeSession U request) w = (Inr r, w')"
    and s: "s \<in> set (sessions_of (wdb w))" "us_id s = rsq_session_id request"
    and d: "distinct (map us_id (sessions_of (wdb w)))" "distinct (map us_token_hash (sessions_of (wdb w)))"
    and live: "us_revoked_at s = None" and t: "hashToken U t = us_token_hash s"
  shows "fst (run_state (User_Verify U \<lparr>vuq_token = t\<rparr>) (w'\<lparr>ticks := n\<rparr>)) = Inl ErrUnauthorized
    \<and> us_user_id s = rsq_user_id request
    \<and> filter (\<lambda>x. us_id x \<noteq> us_id s) (sessions_of (wdb w')) = filter (\<lambda>x. us_id x \<noteq> us_id s) (sessions_of (wdb w))"
proof -
  obtain x k now where x: "x \<in> set (sessions_of (wdb w))" "us_id x = rsq_session_id request" "us_user_id x = rsq_user_id request"
    and gone: "redis w' (Cache_Key UserCacheKeyPrefix (us_token_hash x)) = None"
    and rows: "sessions_of (wdb w') = update_where (\<lambda>y. us_id y = us_id x \<and> us_revoked_at y = None)
      (\<lambda>y. tb_touch sessions_table k (y\<lparr>us_revoked_at := Some now\<rparr>)) (sessions_of (wdb w))"
    by (rule RevokeSession_rows [OF assms(1) run], rule that)
  have "x = s" using x(1,2) s d(1) by (metis distinct_map inj_onD)
  then have "fst (run_state (User_Verify U \<lparr>vuq_token = t\<rparr>) (w'\<lparr>ticks := n\<rparr>)) = Inl ErrUnauthorized"
    using gone live by (intro revoked_rejected [OF rows _ s(1) _ d(2) t]) auto
  moreover have "filter (\<lambda>y. us_id y \<noteq> us_id x) (update_where (\<lambda>y. us_id y = us_id x \<and> us_revoked_at y = None)
      (\<lambda>y. tb_touch sessions_table k (y\<lparr>us_revoked_at := v\<rparr>)) xs) = filter (\<lambda>y. us_id y \<noteq> us_id x) xs" for v xs
    by (induction xs) (auto simp: sessions_table_def)
  ultimately show ?thesis using x(3) \<open>x = s\<close> by (simp add: rows)
qed

text \<open>C31: A revocation that falls between the two halves of \<open>Verify\<close> is lost: \<open>Verify\<close> reads the session
  in a transaction and caches the result afterwards, so a revocation in between evicts a key
  that is not there yet, and the token of the revoked session authenticates from the cache.\<close>

theorem revocation_race:
  assumes load: "run_state (session_auth U (hashToken U t)) w = (Inr a, w1)"
    and rev: "run_state (RevokeSession U request) w1 = (Inr r, w2)" "rsq_session_id request = au_session_id a"
    and store: "run_state (store_auth U (hashToken U t) a) w2 = (Inr (), w3)"
    and up: "redis_up w1" "redis_up w3" and ttl: "0 < ttl_user (uu_ttls U)" and valid: "uu_valid_verify U \<lparr>vuq_token = t\<rparr>"
  shows "fst (run_state (User_Verify U \<lparr>vuq_token = t\<rparr>) w3) = Inr a
    \<and> list_ex (\<lambda>s. us_id s = au_session_id a \<and> us_revoked_at s \<noteq> None) (sessions_of (wdb w3))"
proof -
  have w3: "redis w3 (Cache_Key UserCacheKeyPrefix (hashToken U t)) = Some (RAuth a, Some (clock w3 (ticks w3) + ttl_user (uu_ttls U)))"
    "wdb w3 = wdb w2"
    using store ttl by (auto simp: store_auth_def Cache_Set_def cmd_set_def run_redis_cmd split: if_splits)
  then have "run_state (Cache_Get UserCacheKeyPrefix as_auth (hashToken U t)) w3 = (Inr (Some a), w3\<lparr>rcmds := Suc (rcmds w3)\<rparr>)"
    using up(2) ttl by (simp add: Cache_Get_def cmd_get_def redis_lookup_def live_def)
  then have "fst (run_state (User_Verify U \<lparr>vuq_token = t\<rparr>) w3) = Inr a"
    using valid by (simp add: User_Verify_def Let_def)
  moreover obtain x k now where x: "x \<in> set (sessions_of (wdb w1))" "us_id x = rsq_session_id request"
    and rows: "sessions_of (wdb w2) = update_where (\<lambda>y. us_id y = us_id x \<and> us_revoked_at y = None)
      (\<lambda>y. tb_touch sessions_table k (y\<lparr>us_revoked_at := Some now\<rparr>)) (sessions_of (wdb w1))"
    by (rule RevokeSession_rows [OF up(1) rev(1)], rule that)
  have "list_ex (\<lambda>s. us_id s = us_id x \<and> us_revoked_at s \<noteq> None) (sessions_of (wdb w2))"
  proof (cases "us_revoked_at x")
    case None
    then have "tb_touch sessions_table k (x\<lparr>us_revoked_at := Some now\<rparr>) \<in> set (sessions_of (wdb w2))"
      using x(1) by (auto simp: rows set_update_where)
    then show ?thesis unfolding list_ex_iff by (rule bexI [rotated]) (simp add: sessions_table_def)
  next
    case (Some v)
    then have "x \<in> set (sessions_of (wdb w2))" using x(1) by (auto simp: rows set_update_where)
    with Some show ?thesis by (auto simp: list_ex_iff)
  qed
  ultimately show ?thesis using x(2) rev(2) w3(2) by simp
qed

lemma pres_user_row: "preserves (db_inv (\<lambda>d. sessions_of d = S)) (Repo_Update users_table u)"
  by (rule pres_Repo_Update) (simp add: save_row_def users_table_def)

lemma pres_update_user: "preserves (db_inv (\<lambda>d. sessions_of d = S)) (update_user U c request)"
proof -
  have "preserves (db_inv (\<lambda>d. sessions_of d = S)) (record_and_commit c e)" for e
    by (rule pres_audit) simp
  then show ?thesis unfolding update_user_def new_password_def hash_password_def
    by (intro pres pres_user_row)
qed

lemma up_update_user:
  "preserves db_up (update_user U c request)" "preserves redis_up (update_user U c request)"
  unfolding update_user_def new_password_def by (intro pres)+

text \<open>C32: Changing the password locks every open session of the user out, cached or not: while the
  database and redis answer, no token of a session that was open before \<open>Update\<close> is accepted
  afterwards, at any time.\<close>

theorem password_change_locks_out:
  assumes up: "db_up w" "redis_up w" and run: "run_state (User_Update U c request) w = (Inr r, w')"
    and pw: "uuq_password request \<noteq> []"
    and s: "s \<in> set (sessions_of (wdb w))" "us_user_id s = uuq_id request" "us_revoked_at s = None"
    and d: "distinct (map us_token_hash (sessions_of (wdb w)))" and t: "hashToken U t = us_token_hash s"
  shows "fst (run_state (User_Verify U \<lparr>vuq_token = t\<rparr>) (w'\<lparr>ticks := n\<rparr>)) = Inl ErrUnauthorized"
proof -
  obtain u roles w1 where u: "run_state (update_user U c request) w = (Inr (u, roles), w1)"
    and rev: "run_state (revokeAllSessions (u_id u)) w1 = ((), w')"
    using run pw unfolding User_Update_def by (auto simp del: run_bindE elim!: bindE_okE split: if_splits prod.splits)
  obtain w2 u0 u1 w3 w4 where f: "run_state (Repo_FindById users_table (uuq_id request)) w = (Inr u0, w2)"
    and n: "run_state (new_password U (uuq_password request) (patched_user request u0)) w2 = (Inr u1, w3)"
    and m: "run_state (Repo_Update users_table u1) w3 = (Inr u, w4)"
    using u unfolding update_user_def
    by (elim tx_scope_okE bindE_okE mapErr_okE returnE_okE) (rule that; (assumption | simp))
  have "u_id u = uuq_id request"
    using FindById_row [OF f] n m
    by (auto simp: new_password_def patched_user_def Repo_Update_def users_table_def save_row_def run_stmt
        split: if_splits option.splits prod.splits sum.splits)
  have w1: "sessions_of (wdb w1) = sessions_of (wdb w)" "db_up w1" "redis_up w1"
    using preserves_run [OF pres_update_user _ u] preserves_run [OF up_update_user(1) up(1) u]
      preserves_run [OF up_update_user(2) up(2) u] by (simp_all add: db_inv_def)
  show ?thesis using s d t \<open>u_id u = uuq_id request\<close> w1
    by (intro revokeAll_locks_out [OF w1(2,3) rev]) auto
qed

subsection \<open>A concrete installation with users\<close>

definition sample_user_uc :: user_uc where
  "sample_user_uc = \<lparr>uu_unicode = sample_unicode, uu_ttls = \<lparr>ttl_user = Minute, ttl_reset = Hour, ttl_dashboard = Minute, ttl_provider = Minute, ttl_oauth = Minute\<rparr>, uu_session_ttl = Hour,
     uu_touch_interval = 5 * Minute, uu_sum256 = id, uu_bcrypt = (\<lambda>salt p. Inr (salt @ p)),
     uu_compare = (\<lambda>h p. drop 16 h = p), uu_valid_verify = (\<lambda>_. True), uu_valid_register = (\<lambda>_. True),
     uu_valid_login = (\<lambda>_. True), uu_valid_get = (\<lambda>_. True), uu_valid_update = (\<lambda>_. True),
     uu_valid_logout = (\<lambda>_. True), uu_valid_list = (\<lambda>_. True), uu_valid_revoke = (\<lambda>_. True),
     uu_valid_forgot = (\<lambda>_. True), uu_valid_reset = (\<lambda>_. True)\<rparr>"

lemma touch_session [simp]: "tb_touch sessions_table n s = s\<lparr>us_updated_at := n\<rparr>"
  by (simp add: sessions_table_def)

lemma sample_user_uc_simps [simp]:
  "uu_valid_verify sample_user_uc r1" "uu_valid_update sample_user_uc r2" "uu_valid_revoke sample_user_uc r3"
  "ttl_user (uu_ttls sample_user_uc) = Minute" "uu_bcrypt sample_user_uc x y = Inr (x @ y)"
  "uu_touch_interval sample_user_uc = 5 * Minute"
  by (simp_all add: sample_user_uc_def)

definition laptop :: user_session where
  "laptop = \<lparr>us_id = ''s1'', us_user_id = ''ann'', us_token_hash = hashToken sample_user_uc ''t'',
     us_user_agent = None, us_ip = None, us_impersonated_by = None, us_expires_at = 10000000,
     us_revoked_at = None, us_last_used_at = 1, us_created_at = 1, us_updated_at = 1\<rparr>"

definition users_world :: world where
  "users_world = world_of (sample_db\<lparr>sessions_of := [laptop]\<rparr>)"

lemma laptop_simps [simp]:
  "us_id laptop = ''s1''" "us_user_id laptop = ''ann''" "us_revoked_at laptop = None"
  "us_token_hash laptop = hashToken sample_user_uc ''t''"
  by (simp_all add: laptop_def)

lemma users_world_simps [simp]:
  "db_up users_world" "redis_up users_world" "sessions_of (wdb users_world) = [laptop]"
  by (simp_all add: users_world_def)

theorem RevokeSession_immediate_witness:
  "\<exists>w'. run_state (RevokeSession sample_user_uc \<lparr>rsq_user_id = ''ann'', rsq_session_id = ''s1''\<rparr>) users_world = (Inr True, w')
    \<and> fst (run_state (User_Verify sample_user_uc \<lparr>vuq_token = ''t''\<rparr>) (w'\<lparr>ticks := 9\<rparr>)) = Inl ErrUnauthorized"
proof -
  obtain w' where run: "run_state (RevokeSession sample_user_uc \<lparr>rsq_user_id = ''ann'', rsq_session_id = ''s1''\<rparr>) users_world = (Inr True, w')"
    by (simp add: RevokeSession_def revoke_session_def Repo_FindByIdAndUser_def take_row_def Session_Revoke_def
        Repo_UpdateWhere_def evict_def users_world_def laptop_def)
  have "fst (run_state (User_Verify sample_user_uc \<lparr>vuq_token = ''t''\<rparr>) (w'\<lparr>ticks := 9\<rparr>)) = Inl ErrUnauthorized"
    by (rule RevokeSession_immediate [OF _ run, of laptop, THEN conjunct1]) simp_all
  with run show ?thesis by blast
qed

theorem revocation_race_witness:
  "\<exists>a w1 w2 w3. run_state (session_auth sample_user_uc (hashToken sample_user_uc ''t'')) users_world = (Inr a, w1)
    \<and> run_state (RevokeSession sample_user_uc \<lparr>rsq_user_id = ''ann'', rsq_session_id = ''s1''\<rparr>) w1 = (Inr True, w2)
    \<and> run_state (store_auth sample_user_uc (hashToken sample_user_uc ''t'') a) w2 = (Inr (), w3)
    \<and> fst (run_state (User_Verify sample_user_uc \<lparr>vuq_token = ''t''\<rparr>) w3) = Inr a \<and> au_id a = ''ann''"
proof -
  obtain a w1 where load: "run_state (session_auth sample_user_uc (hashToken sample_user_uc ''t'')) users_world = (Inr a, w1)"
    and a: "au_id a = ''ann''" "au_session_id a = ''s1''" and w1: "redis_up w1" "db_up w1"
      "sessions_of (wdb w1) = [laptop\<lparr>us_last_used_at := 1000000, us_updated_at := 1001000\<rparr>]"
    by (simp add: session_auth_def FindActiveByTokenHash_def active_session_def take_row_def Repo_FindById_def users_table_def
        LoadRoles_def roles_for_def touch_def shouldTouch_def TouchLastUsed_def Repo_UpdateWhere_def tx_commit_def
        UserToAuth_def Let_def unix_milli_def users_world_def laptop_def sample_defs)
  obtain w2 where rev: "run_state (RevokeSession sample_user_uc \<lparr>rsq_user_id = ''ann'', rsq_session_id = ''s1''\<rparr>) w1 = (Inr True, w2)"
    and "redis_up w2" using w1
    by (simp add: RevokeSession_def revoke_session_def Repo_FindByIdAndUser_def take_row_def Session_Revoke_def
        Repo_UpdateWhere_def laptop_def evict_def Cache_Delete_def cmd_del_def)
  obtain w3 where store: "run_state (store_auth sample_user_uc (hashToken sample_user_uc ''t'') a) w2 = (Inr (), w3)"
    and "redis_up w3" using \<open>redis_up w2\<close> by (simp add: store_auth_def Cache_Set_def cmd_set_def)
  have "fst (run_state (User_Verify sample_user_uc \<lparr>vuq_token = ''t''\<rparr>) w3) = Inr a"
    using revocation_race [OF load rev _ store] a w1 \<open>redis_up w3\<close> by simp
  with load rev store a show ?thesis by blast
qed

theorem password_change_locks_out_witness:
  "\<exists>r w'. run_state (User_Update sample_user_uc None \<lparr>uuq_id = ''ann'', uuq_name = [], uuq_password = ''secret'', uuq_timezone = []\<rparr>)
      users_world = (Inr r, w')
    \<and> fst (run_state (User_Verify sample_user_uc \<lparr>vuq_token = ''t''\<rparr>) (w'\<lparr>ticks := 9\<rparr>)) = Inl ErrUnauthorized"
proof -
  let ?request = "\<lparr>uuq_id = ''ann'', uuq_name = [], uuq_password = ''secret'', uuq_timezone = []\<rparr>"
  obtain u roles w1 where "run_state (update_user sample_user_uc None ?request) users_world = (Inr (u, roles), w1)"
    by (simp add: update_user_def Repo_FindById_def take_row_def users_table_def new_password_def patched_user_def
        hash_password_def Repo_Update_def save_row_def unique_on_def LoadRoles_def record_and_commit_def Record_def tx_commit_def
        audit_table_def audit_row_def attribute_def entry_def opt_ref_def Repo_Create_def insert_row_def
        users_world_def laptop_def sample_defs)
  moreover obtain w' where "run_state (revokeAllSessions (u_id u)) w1 = ((), w')"
    by (cases "run_state (revokeAllSessions (u_id u)) w1") simp
  ultimately have run: "run_state (User_Update sample_user_uc None ?request) users_world = (Inr (UserToResponse u roles), w')"
    by (simp add: User_Update_def)
  have "fst (run_state (User_Verify sample_user_uc \<lparr>vuq_token = ''t''\<rparr>) (w'\<lparr>ticks := 9\<rparr>)) = Inl ErrUnauthorized"
    by (rule password_change_locks_out [OF _ _ run, of laptop]) simp_all
  with run show ?thesis by blast
qed

end
