(* ===== verification/Admin.thy ===== *)
theory Admin
  imports Users
begin

text \<open>
  internal/usecase/admin_usecase.go: the users as a superadmin sees them, roles, suspension,
  impersonation and the figures of the whole installation.
\<close>

record admin_uc =
  ad_users :: user_uc
  ad_ilike :: "string \<Rightarrow> string \<Rightarrow> bool"
  ad_valid_list :: "list_admin_user_request \<Rightarrow> bool"
  ad_valid_get :: "get_admin_user_request \<Rightarrow> bool"
  ad_valid_update :: "update_admin_user_request \<Rightarrow> bool"
  ad_valid_status :: "set_admin_user_status_request \<Rightarrow> bool"
  ad_valid_impersonate :: "impersonate_request \<Rightarrow> bool"

subsection \<open>Reading\<close>

text \<open>A count that fails is logged and reads back as zero.\<close>

definition or_zero :: "int ioE \<Rightarrow> int io" where
  "or_zero m = State_Monad.bind m (\<lambda>r. ret (case r of Inl _ \<Rightarrow> 0 | Inr n \<Rightarrow> n))"

definition or_empty :: "(string \<rightharpoonup> int) ioE \<Rightarrow> (string \<rightharpoonup> int) io" where
  "or_empty m = State_Monad.bind m (\<lambda>r. ret (case r of Inl _ \<Rightarrow> Map.empty | Inr n \<Rightarrow> n))"

definition countsForAll :: "user list \<Rightarrow> (string \<Rightarrow> admin_user_counts) io" where
  "countsForAll users = (let ids = map u_id users in do {
     ws \<leftarrow> or_empty (Watcher_CountForUsers ids);
     as \<leftarrow> or_empty (MailAccount_CountForUsers ids);
     ns \<leftarrow> or_empty (Notifier_CountForUsers ids);
     ms \<leftarrow> or_empty (Match_CountForUsers ids);
     ret (\<lambda>i. \<lparr>auc_watchers = count_of ws i, auc_mail_accounts = count_of as i,
               auc_notifiers = count_of ns i, auc_matches = count_of ms i\<rparr>) })"

definition countsFor :: "string \<Rightarrow> admin_user_counts io" where
  "countsFor userID = do {
     ws \<leftarrow> or_zero (Watcher_CountForUser userID);
     as \<leftarrow> or_zero (MailAccount_CountForUser userID);
     ns \<leftarrow> or_zero (Notifier_CountForUser userID);
     ms \<leftarrow> or_zero (Match_CountForUser userID);
     ret \<lparr>auc_watchers = ws, auc_mail_accounts = as, auc_notifiers = ns, auc_matches = ms\<rparr> }"

definition ListUsers :: "admin_uc \<Rightarrow> list_admin_user_request \<Rightarrow> (admin_user_response list \<times> page_metadata) ioE" where
  "ListUsers A request0 =
     (let (page, sz) = Normalize (lauq_page request0) (lauq_size request0);
          request = request0\<lparr>lauq_page := page, lauq_size := sz\<rparr> in
      if \<not> ad_valid_list A request then failE ErrBadRequest
      else bindE (internal (Repo_Paginate
          (User_Search (ad_ilike A) (lauq_query request) (lauq_role request) (lauq_status request)) page sz)) (\<lambda>(us, n).
        State_Monad.bind (LoadRolesForAll (map u_id us)) (\<lambda>r.
        let roles = (case r of Inl _ \<Rightarrow> (\<lambda>_. []) | Inr f \<Rightarrow> f) in
        State_Monad.bind (countsForAll us) (\<lambda>counts.
        returnE (map (\<lambda>u. \<lparr>aup_user = UserToResponse u (roles (u_id u)), aup_counts = counts (u_id u)\<rparr>) us,
          NewPageMetadata page sz n)))))"

definition found_user :: "string \<Rightarrow> user ioE" where
  "found_user i = not_found ''user not found'' (Repo_FindById users_table i)"

definition Admin_GetUser :: "admin_uc \<Rightarrow> get_admin_user_request \<Rightarrow> admin_user_response ioE" where
  "Admin_GetUser A request =
     (if \<not> ad_valid_get A request then failE ErrBadRequest
      else bindE (found_user (gauq_id request)) (\<lambda>u.
        bindE (internal (LoadRoles (u_id u))) (\<lambda>roles.
        State_Monad.bind (countsFor (u_id u)) (\<lambda>counts.
        returnE \<lparr>aup_user = UserToResponse u roles, aup_counts = counts\<rparr>))))"

subsection \<open>Roles and names\<close>

definition rename_user :: "string \<Rightarrow> user \<Rightarrow> user ioE" where
  "rename_user name u =
     (if name = [] then returnE u else internal (Repo_Update users_table (u\<lparr>u_name := name\<rparr>)))"

definition replace_roles :: "string list option \<Rightarrow> string \<Rightarrow> bool ioE" where
  "replace_roles slugs userID = (case slugs of
      None \<Rightarrow> returnE False
    | Some ss \<Rightarrow> bindE (internal (Role_FindBySlugs ss)) (\<lambda>roles.
        if length roles \<noteq> length ss then failE (HttpErr 400 ''one or more roles do not exist'')
        else bindE (internal (ReplaceRoles userID (map r_id roles))) (\<lambda>_. returnE True)))"

definition roles_metadata :: "unicode \<Rightarrow> string list option \<Rightarrow> json" where
  "roles_metadata N slugs = ''{'' @ json_string N ''roles'' @ '':''
     @ (case slugs of None \<Rightarrow> ''null'' | Some ss \<Rightarrow> json_strings N ss) @ ''}''"

definition update_roles :: "admin_uc \<Rightarrow> ctx \<Rightarrow> update_admin_user_request \<Rightarrow> (user \<times> bool) ioE" where
  "update_roles A c request = tx_scope (
     bindE (found_user (uauq_id request)) (\<lambda>u0.
     bindE (rename_user (uauq_name request) u0) (\<lambda>u.
     bindE (replace_roles (uauq_roles request) (u_id u)) (\<lambda>rolesChanged.
     bindE (record_and_commit c ((entry (uauq_actor_id request) ''admin.user.updated'' ''users'' (u_id u))
         \<lparr>ae_metadata := Some (roles_metadata (uu_unicode (ad_users A)) (uauq_roles request))\<rparr>)) (\<lambda>_.
     returnE (u, rolesChanged))))))"

definition UpdateUser :: "admin_uc \<Rightarrow> ctx \<Rightarrow> update_admin_user_request \<Rightarrow> admin_user_response ioE" where
  "UpdateUser A c request =
     (if \<not> ad_valid_update A request then failE ErrBadRequest
      else bindE (update_roles A c request) (\<lambda>(u, rolesChanged).
        State_Monad.bind (if rolesChanged then revokeAllSessions (u_id u) else ret ()) (\<lambda>_.
        Admin_GetUser A \<lparr>gauq_id = u_id u\<rparr>)))"

subsection \<open>Suspension\<close>

definition pause_all :: "string \<Rightarrow> string \<Rightarrow> int ioE" where
  "pause_all status userID =
     (if status = UserStatusSuspended then internal (PauseAllForUser userID) else returnE 0)"

definition set_status :: "ctx \<Rightarrow> set_admin_user_status_request \<Rightarrow> (user \<times> int) ioE" where
  "set_status c request = tx_scope (
     bindE (found_user (sausq_id request)) (\<lambda>u0.
     bindE (internal (Repo_Update users_table (u0\<lparr>u_status := sausq_status request\<rparr>))) (\<lambda>u.
     bindE (pause_all (sausq_status request) (u_id u)) (\<lambda>paused.
     bindE (record_and_commit c (entry (sausq_actor_id request) (''admin.user.'' @ sausq_status request) ''users'' (u_id u)))
       (\<lambda>_. returnE (u, paused))))))"

definition SetUserStatus :: "admin_uc \<Rightarrow> ctx \<Rightarrow> set_admin_user_status_request \<Rightarrow> suspend_user_response ioE" where
  "SetUserStatus A c request =
     (if \<not> ad_valid_status A request then failE ErrBadRequest
      else bindE (set_status c request) (\<lambda>(u, paused).
        State_Monad.bind (if sausq_status request = UserStatusSuspended then revokeAllSessions (u_id u) else ret ()) (\<lambda>_.
        returnE \<lparr>sup_status = u_status u, sup_watchers_paused = paused\<rparr>)))"

subsection \<open>Impersonation\<close>

definition mark_session :: "string \<Rightarrow> user_session \<Rightarrow> user_session ioE" where
  "mark_session actor s = State_Monad.bind time_now (\<lambda>now.
     internal (Repo_Update sessions_table (s\<lparr>us_expires_at := unix_milli (now + 30 * Minute), us_impersonated_by := Some actor\<rparr>)))"

definition Impersonate :: "admin_uc \<Rightarrow> ctx \<Rightarrow> impersonate_request \<Rightarrow> impersonate_response ioE" where
  "Impersonate A c request =
     (if \<not> ad_valid_impersonate A request then failE ErrBadRequest
      else if imq_actor_id request = imq_id request
        then failE (HttpErr 400 ''you are already signed in as that user'')
      else if (case c of None \<Rightarrow> False | Some a \<Rightarrow> au_impersonated a)
        then failE (HttpErr 403 ''end the current impersonation session before starting another'')
      else tx_scope (
        bindE (found_user (imq_id request)) (\<lambda>u.
        bindE (internal (LoadRoles (u_id u))) (\<lambda>roles.
        bindE (issueSession (ad_users A) u (imq_user_agent request) (imq_ip request)) (\<lambda>(token, s0).
        bindE (mark_session (imq_actor_id request) s0) (\<lambda>s.
        bindE (record_and_commit c ((entry (imq_actor_id request) ''admin.user.impersonated'' ''users'' (u_id u))
            \<lparr>ae_impersonated_user_id := Some (u_id u), ae_ip := nilIfEmpty (imq_ip request)\<rparr>)) (\<lambda>_.
        returnE \<lparr>imp_token = token, imp_expires_at = us_expires_at s,
          imp_impersonating = Some (UserToResponse u roles)\<rparr>)))))))"

subsection \<open>Figures\<close>

definition Stats :: "admin_stats_response ioE" where
  "Stats = State_Monad.bind time_now (\<lambda>now.
     bindE (internal User_CountByStatus) (\<lambda>users.
     bindE (internal Watcher_CountByStatus) (\<lambda>ws.
     bindE (internal (MailAccount_CountByStatus (\<lambda>_. True))) (\<lambda>as.
     bindE (internal (QueueDepth (unix_milli now))) (\<lambda>(pending, overdue, oldest).
     bindE (internal (CountByStatusSince (unix_milli (now - 24 * Hour)))) (\<lambda>rs.
     returnE \<lparr>asp_users = users, asp_watchers_active = count_of ws WatcherStatusActive,
       asp_mail_accounts_error = count_of as MailAccountStatusError,
       asp_queue = \<lparr>qs_pending_runs = pending, qs_overdue_runs = overdue, qs_oldest_pending_seconds = oldest\<rparr>,
       asp_runs24h = rs\<rparr>))))))"

subsection \<open>An impersonation session says so\<close>

lemma found_user_ok:
  "run_state (found_user i) w = (Inr u, w') \<Longrightarrow> u \<in> set (users_of (wdb w)) \<and> u_id u = i \<and> wdb w' = wdb w"
  unfolding found_user_def by (elim mapErr_okE) (drule FindById_row, simp add: users_table_def)

lemma issueSession_ok:
  assumes "run_state (issueSession U u agent ip) w = (Inr (token, s), w')"
  shows "us_user_id s = u_id u \<and> us_token_hash s = hashToken U token \<and> us_revoked_at s = None
    \<and> sessions_of (wdb w') = sessions_of (wdb w) @ [s]
    \<and> \<not> list_ex (\<lambda>x. us_token_hash x = us_token_hash s) (sessions_of (wdb w))
    \<and> \<not> has_id us_id (us_id s) (sessions_of (wdb w))"
  using assms
  by (auto simp: issueSession_def Repo_Create_def insert_row_def sessions_table_def unique_on_def run_stmt list_ex_iff list_all_iff
      split: prod.splits sum.splits option.splits if_splits)

lemma mark_session_ok:
  assumes "run_state (mark_session actor s) w = (Inr s', w')"
    and "sessions_of (wdb w) = xs @ [s]" and "\<not> has_id us_id (us_id s) xs"
  shows "sessions_of (wdb w') = xs @ [s'] \<and> us_user_id s' = us_user_id s \<and> us_token_hash s' = us_token_hash s
    \<and> us_impersonated_by s' = Some actor \<and> us_expires_at s' = unix_milli (clock w (ticks w) + 30 * Minute)"
proof -
  have "update_where (\<lambda>x. us_id x = us_id s) f (xs @ [s]) = xs @ [f s]" for f
    using assms(3) by (induction xs) (auto simp: list_ex_iff)
  then show ?thesis using assms
    by (auto simp: mark_session_def Repo_Update_def save_row_def sessions_table_def run_stmt
        split: prod.splits sum.splits option.splits if_splits)
qed

lemma env_admin:
  "preserves (same_env v) (found_user i)" "preserves (same_env v) (LoadRoles i)"
  "preserves (same_env v) (issueSession U u agent ip)"
  unfolding found_user_def LoadRoles_def issueSession_def by (intro pres)+

lemma session_auth_ok:
  assumes "run_state (session_auth U h) w = (Inr a, w')"
  obtains s where "s \<in> set (sessions_of (wdb w))" "us_token_hash s = h" "au_id a = us_user_id s"
    "au_session_id a = us_id s" "au_impersonated a = (case us_impersonated_by s of None \<Rightarrow> False | Some b \<Rightarrow> b \<noteq> [])"
    "au_impersonated_by a = derefString (us_impersonated_by s)"
proof -
  obtain now w1 s w2 u w3 roles w4 ok w5 c w6 where n: "run_state now_milli w = (now, w1)"
    and s: "run_state (FindActiveByTokenHash h now) w1 = (Inr s, w2)"
    and u: "run_state (Repo_FindById users_table (us_user_id s)) w2 = (Inr u, w3)"
    and "run_state (LoadRoles (u_id u)) w3 = (Inr roles, w4)" and "run_state (touch U s now) w4 = (ok, w5)"
    and "run_state (tx_commit ok) w5 = (Inr c, w6)"
    and a: "a = UserToAuth u roles (us_id s) (us_impersonated_by s)"
    using assms unfolding session_auth_def
    by (elim tx_scope_okE bindE_okE bind_okE mapErr_okE guard_okE returnE_okE) (rule that)
  have "wdb w1 = wdb w" using n by auto
  with query_ok(1) [OF s [unfolded FindActiveByTokenHash_def]]
  have "s \<in> set (sessions_of (wdb w))" "us_token_hash s = h"
    by (auto simp: take_row_def split: option.splits dest: take_first_Some)
  moreover have "u_id u = us_user_id s" using FindById_row [OF u] by (simp add: users_table_def)
  ultimately show ?thesis
    by (intro that [of s]) (auto simp: a UserToAuth_def Let_def derefString_def split: option.splits)
qed

lemma User_Verify_miss:
  assumes "run_state (User_Verify U \<lparr>vuq_token = t\<rparr>) w = (Inr a, w')"
    and "redis w (Cache_Key UserCacheKeyPrefix (hashToken U t)) = None"
  obtains v v' where "run_state (session_auth U (hashToken U t)) v = (Inr a, v')" "wdb v = wdb w"
proof -
  obtain hit v where get: "run_state (Cache_Get UserCacheKeyPrefix as_auth (hashToken U t)) w = (hit, v)"
    by (metis surj_pair)
  with Cache_Get_none [OF assms(2), of as_auth] have hit: "hit = Inr None \<or> hit = Inl RedisErr" and v: "wdb v = wdb w"
    by auto
  then have "run_state (bindE (session_auth U (hashToken U t)) (\<lambda>a.
      State_Monad.bind (store_auth U (hashToken U t) a) (\<lambda>_. returnE a))) v = (Inr a, w')"
    using assms(1) get by (auto simp: User_Verify_def Let_def simp del: run_bindE split: if_splits)
  then obtain b v1 where "run_state (session_auth U (hashToken U t)) v = (Inr b, v1)" "b = a"
    by (elim bindE_okE bind_okE returnE_okE) (rule that; (assumption | simp))
  then show ?thesis by (intro that [OF _ v]) simp
qed


subsection \<open>What a suspension stops, and what it does not\<close>

lemma pres_set_status:
  assumes "\<And>d xs. K d \<Longrightarrow> K (d\<lparr>users_of := xs\<rparr>)" and "\<And>d xs. K d \<Longrightarrow> K (d\<lparr>audit_logs_of := xs\<rparr>)"
    and "\<And>d f. K d \<Longrightarrow> K (d\<lparr>watchers_of := f (watchers_of d)\<rparr>)"
  shows "preserves (db_inv K) (set_status c request)"
proof -
  have "preserves (db_inv K) (Repo_Update users_table u)" for u
    using assms(1) by (intro pres_Repo_Update) (simp add: save_row_def, simp add: users_table_def)
  moreover have "preserves (db_inv K) (PauseAllForUser i)" for i
    using assms(3) unfolding PauseAllForUser_def by (intro pres_Repo_UpdateWhere) (simp add: watchers_table_def)
  ultimately show ?thesis
    unfolding set_status_def found_user_def pause_all_def by (intro pres pres_audit(2) assms(2))
qed

lemma up_set_status:
  "preserves db_up (set_status c request)" "preserves redis_up (set_status c request)"
  unfolding set_status_def found_user_def pause_all_def PauseAllForUser_def by (intro pres)+

lemma set_status_ok:
  assumes "run_state (set_status c request) w = (Inr (u, k), w')" and "sausq_status request = UserStatusSuspended"
  shows "u_id u = sausq_id request \<and> u_status u = UserStatusSuspended
    \<and> list_all (\<lambda>x. wa_user_id x = sausq_id request \<longrightarrow> wa_status x \<noteq> WatcherStatusActive) (watchers_of (wdb w'))"
proof -
  obtain u0 w1 w2 w3 b w4 where f: "run_state (found_user (sausq_id request)) w = (Inr u0, w1)"
    and up: "run_state (Repo_Update users_table (u0\<lparr>u_status := sausq_status request\<rparr>)) w1 = (Inr u, w2)"
    and ps: "run_state (pause_all (sausq_status request) (u_id u)) w2 = (Inr k, w3)"
    and rc: "run_state (record_and_commit c (entry (sausq_actor_id request) (''admin.user.'' @ sausq_status request) ''users'' (u_id u))) w3 = (Inr b, w4)"
    and w4: "w' = w4"
    using assms(1) unfolding set_status_def
    by (elim tx_scope_okE bindE_okE mapErr_okE returnE_okE) (rule that; (assumption | simp))
  have u: "u_id u = sausq_id request" "u_status u = UserStatusSuspended"
    using found_user_ok [OF f] up assms(2)
    by (auto simp: Repo_Update_def save_row_def users_table_def run_stmt split: if_splits option.splits)
  have "run_state (PauseAllForUser (u_id u)) w2 = (Inr k, w3)"
    using ps assms(2) by (simp add: pause_all_def del: run_mapErr) (elim mapErr_okE)
  from Repo_UpdateWhere_ok [OF this [unfolded PauseAllForUser_def]] obtain n where
    "watchers_of (wdb w3) = update_where (\<lambda>w. wa_user_id w = u_id u \<and> wa_status w = WatcherStatusActive)
      (\<lambda>x. tb_touch watchers_table n (x\<lparr>wa_status := WatcherStatusPaused\<rparr>)) (watchers_of (wdb w2))"
    by (auto simp: watchers_table_def)
  moreover have "watchers_of (wdb w') = watchers_of (wdb w3)" using record_and_commit_ok [OF rc] w4 by auto
  ultimately show ?thesis using u by (auto simp: list_all_iff set_update_where watchers_table_def)
qed

text \<open>C34: Suspending a user stops his access and his watchers at once: while the database and redis
  answer, no token of a session he had open is accepted afterwards, cached or not, and none
  of his watchers is active any more.\<close>

theorem suspend_locks_out:
  assumes up: "db_up w" "redis_up w" and run: "run_state (SetUserStatus A c request) w = (Inr r, w')"
    and susp: "sausq_status request = UserStatusSuspended"
    and s: "s \<in> set (sessions_of (wdb w))" "us_user_id s = sausq_id request" "us_revoked_at s = None"
    and d: "distinct (map us_token_hash (sessions_of (wdb w)))" and t: "hashToken U t = us_token_hash s"
  shows "fst (run_state (User_Verify U \<lparr>vuq_token = t\<rparr>) (w'\<lparr>ticks := n\<rparr>)) = Inl ErrUnauthorized
    \<and> list_all (\<lambda>x. wa_user_id x = sausq_id request \<longrightarrow> wa_status x \<noteq> WatcherStatusActive) (watchers_of (wdb w'))"
proof -
  obtain u k w1 where st: "run_state (set_status c request) w = (Inr (u, k), w1)"
    and rev: "run_state (revokeAllSessions (u_id u)) w1 = ((), w')"
    using run susp unfolding SetUserStatus_def by (auto simp del: run_bindE elim!: bindE_okE split: if_splits prod.splits)
  have "preserves (db_inv (\<lambda>d. sessions_of d = sessions_of (wdb w))) (set_status c request)"
    by (rule pres_set_status) simp_all
  from preserves_run [OF this _ st] have "sessions_of (wdb w1) = sessions_of (wdb w)" by (simp add: db_inv_def)
  moreover have "watchers_of (wdb w') = watchers_of (wdb w1)"
  proof -
    have "preserves (db_inv (\<lambda>d. watchers_of d = watchers_of (wdb w1))) (revokeAllSessions (u_id u))"
      unfolding revokeAllSessions_def RevokeAllForUser_def Let_def evict_def
      by (intro pres pres_Repo_UpdateWhere) simp
    from preserves_run [OF this _ rev] show ?thesis by (simp add: db_inv_def)
  qed
  ultimately show ?thesis
    using set_status_ok [OF st susp] s d t
      revokeAll_locks_out [OF preserves_run [OF up_set_status(1) up(1) st] preserves_run [OF up_set_status(2) up(2) st] rev, of s U t n]
    by simp
qed

lemma claim_all_up:
  "db_up w \<Longrightarrow> \<exists>w'. run_state (forE cs claim_run) w = (Inr (), w') \<and> db_up w'"
  by (induction cs arbitrary: w) (simp_all add: claim_run_def Repo_UpdateWhere_def)

lemma claim_takes_due:
  assumes "db_up w" and "r \<in> set (runs_of (wdb w))" "er_status r = RunStatusPending"
    and "er_scheduled_at r \<le> unix_milli (clock w (ticks w))" and "int (length (runs_of (wdb w))) \<le> limit"
  shows "\<exists>cs w'. run_state (claim_runs (\<lambda>_. False) limit) w = (Inr cs, w') \<and> r \<in> set cs"
proof -
  let ?now = "unix_milli (clock w (ticks w))"
  let ?due = "filter (\<lambda>r. er_status r = RunStatusPending \<and> er_scheduled_at r \<le> ?now) (runs_of (wdb w))"
  have "length ?due \<le> nat limit" using assms(5) length_filter_le [of _ "runs_of (wdb w)"]
    by (metis (no_types, lifting) le_trans nat_int nat_mono)
  then have "r \<in> set (order_limit er_scheduled_at limit ?due)" using assms by (simp add: order_limit_def)
  moreover have "\<exists>v. run_state (claim_runs (\<lambda>_. False) limit) w = (Inr (order_limit er_scheduled_at limit ?due), v)"
    using assms(1) claim_all_up [of "w\<lparr>ticks := Suc (ticks w), stmts := Suc (stmts w)\<rparr>" "order_limit er_scheduled_at limit ?due"]
    by (auto simp: claim_runs_def ClaimDue_def query_def)
  ultimately show ?thesis by blast
qed

text \<open>A suspension does not stop the work that is already scheduled: it leaves every run as it was,
  and the next claim of the dispatcher takes each run of the suspended user that is pending
  and due, also the occurrences of a chain that repeats without end.\<close>

lemma suspension_keeps_chains:
  assumes run: "run_state (SetUserStatus A c request) w = (Inr k, w')"
    and r: "r \<in> set (runs_of (wdb w))" "er_user_id r = sausq_id request" "er_status r = RunStatusPending"
    and later: "db_up v" "wdb v = wdb w'" "er_scheduled_at r \<le> unix_milli (clock v (ticks v))"
    and limit: "int (length (runs_of (wdb w))) \<le> limit"
  shows "runs_of (wdb w') = runs_of (wdb w)
    \<and> (\<exists>cs v'. run_state (claim_runs (\<lambda>_. False) limit) v = (Inr cs, v') \<and> r \<in> set cs)"
proof -
  have "preserves (db_inv (\<lambda>d. runs_of d = runs_of (wdb w))) (set_status c request)" by (rule pres_set_status) simp_all
  moreover have "preserves (db_inv (\<lambda>d. runs_of d = runs_of (wdb w))) (revokeAllSessions i)" for i
    unfolding revokeAllSessions_def RevokeAllForUser_def Let_def evict_def by (intro pres pres_Repo_UpdateWhere) simp
  ultimately have "preserves (db_inv (\<lambda>d. runs_of d = runs_of (wdb w))) (SetUserStatus A c request)"
    unfolding SetUserStatus_def by (intro pres)
  from preserves_run [OF this _ run] have "runs_of (wdb w') = runs_of (wdb w)" by (simp add: db_inv_def)
  with claim_takes_due [OF later(1), of r limit] r later limit show ?thesis by simp
qed

subsection \<open>A concrete installation with an admin\<close>

definition sample_admin_uc :: admin_uc where
  "sample_admin_uc = \<lparr>ad_users = sample_user_uc, ad_ilike = (\<lambda>_ _. True), ad_valid_list = (\<lambda>_. True),
     ad_valid_get = (\<lambda>_. True), ad_valid_update = (\<lambda>_. True), ad_valid_status = (\<lambda>_. True),
     ad_valid_impersonate = (\<lambda>_. True)\<rparr>"

definition root_world :: world where
  "root_world = world_of (sample_db\<lparr>users_of := [ann, ann\<lparr>u_id := ''root'', u_email := ''r@x''\<rparr>], sessions_of := [laptop]\<rparr>)"

lemma root_world_simps [simp]:
  "db_up root_world" "redis_up root_world" "sessions_of (wdb root_world) = [laptop]" "runs_of (wdb root_world) = [run1]"
  by (simp_all add: root_world_def sample_db_def)

abbreviation suspend_ann :: set_admin_user_status_request where
  "suspend_ann \<equiv> \<lparr>sausq_actor_id = ''root'', sausq_id = ''ann'', sausq_status = UserStatusSuspended\<rparr>"

lemma suspend_runs:
  "\<exists>r w'. run_state (SetUserStatus sample_admin_uc None suspend_ann) root_world = (Inr r, w')"
proof -
  obtain u k w1 where "run_state (set_status None suspend_ann) root_world = (Inr (u, k), w1)"
    by (simp add: set_status_def found_user_def Repo_FindById_def take_row_def users_table_def Repo_Update_def save_row_def
        unique_on_def pause_all_def PauseAllForUser_def Repo_UpdateWhere_def watchers_table_def record_and_commit_def Record_def tx_commit_def
        audit_table_def audit_row_def attribute_def entry_def opt_ref_def Repo_Create_def insert_row_def
        root_world_def sample_defs)
  moreover obtain w' where "run_state (revokeAllSessions (u_id u)) w1 = ((), w')"
    by (cases "run_state (revokeAllSessions (u_id u)) w1") simp
  ultimately show ?thesis by (simp add: SetUserStatus_def sample_admin_uc_def)
qed

theorem suspend_locks_out_witness:
  "\<exists>r w'. run_state (SetUserStatus sample_admin_uc None suspend_ann) root_world = (Inr r, w')
    \<and> fst (run_state (User_Verify sample_user_uc \<lparr>vuq_token = ''t''\<rparr>) (w'\<lparr>ticks := 9\<rparr>)) = Inl ErrUnauthorized"
proof -
  obtain r w' where run: "run_state (SetUserStatus sample_admin_uc None suspend_ann) root_world = (Inr r, w')"
    using suspend_runs by blast
  have "fst (run_state (User_Verify sample_user_uc \<lparr>vuq_token = ''t''\<rparr>) (w'\<lparr>ticks := 9\<rparr>)) = Inl ErrUnauthorized"
    by (rule suspend_locks_out [OF _ _ run, of laptop, THEN conjunct1]) simp_all
  with run show ?thesis by blast
qed


end
