(* ===== verification/Channels.thy ===== *)
theory Channels
  imports Handlers
begin

text \<open>
  The notification channels of internal/gateway/notifier: email over SMTP, SMS through Twilio,
  Telegram, and the web hooks (with Slack and Discord).  The decoding of a config, the secrets
  or a reply is a parameter (an error text, or the struct); so are the HTTP client, the SMTP
  dialogue and HMAC-SHA256.  What each channel sends, byte for byte, is computed here.
\<close>

subsection \<open>channel.go: decode\<close>

definition decode :: "(json \<Rightarrow> string + 'a) \<Rightarrow> 'a \<Rightarrow> json \<Rightarrow> string + 'a" where
  "decode unmarshal zero raw = (if raw = [] then Inr zero else unmarshal raw)"

subsection \<open>email\_channel.go\<close>

record email_config =
  ec_to :: string

record email_secrets =
  es_host :: string
  es_port :: int
  es_username :: string
  es_password :: string
  es_from :: string

text \<open>
  \<open>em_dialogue\<close> is the exchange \<open>smtp.SendMail\<close> has with the server: the address, the user and
  password when it authenticates, the envelope and the data; an error text when it fails.
\<close>

record email_channel =
  em_config :: "json \<Rightarrow> string + email_config"
  em_secrets :: "json \<Rightarrow> string + email_secrets"
  em_dialogue :: "string \<Rightarrow> (string \<times> string) option \<Rightarrow> string \<Rightarrow> string list \<Rightarrow> string \<Rightarrow> string option"

abbreviation crlf :: string where "crlf \<equiv> [CHR 0x0D, CHR 0x0A]"

abbreviation no_email_secrets :: email_secrets where
  "no_email_secrets \<equiv> \<lparr>es_host = [], es_port = 0, es_username = [], es_password = [], es_from = []\<rparr>"

definition email_ConfigSchema :: schema where
  "email_ConfigSchema = \<lparr>sc_fields =
     [(schema_field_of ''to'' ''Recipient'' ''string'')
        \<lparr>sf_required := True, sf_placeholder := ''alerts@example.com''\<rparr>,
      (schema_field_of ''smtp_host'' ''SMTP host'' ''secret'')\<lparr>sf_secret := True, sf_required := True\<rparr>,
      (schema_field_of ''smtp_port'' ''SMTP port'' ''int'')\<lparr>sf_secret := True\<rparr>,
      (schema_field_of ''smtp_username'' ''SMTP username'' ''secret'')\<lparr>sf_secret := True\<rparr>,
      (schema_field_of ''smtp_password'' ''SMTP password'' ''secret'')\<lparr>sf_secret := True\<rparr>,
      (schema_field_of ''smtp_from'' ''From address'' ''secret'')\<lparr>sf_secret := True\<rparr>]\<rparr>"

definition Email_Validate :: "email_channel \<Rightarrow> json \<Rightarrow> err option" where
  "Email_Validate C config = (case decode (em_config C) \<lparr>ec_to = []\<rparr> config of
      Inl _ \<Rightarrow> Some (HttpErr 400 ''email config is not valid JSON'')
    | Inr cfg \<Rightarrow>
        if CHR ''@'' \<notin> set (ec_to cfg)
        then Some (HttpErr 400 ''email config needs a recipient address'') else None)"

definition email_payload :: "string \<Rightarrow> string \<Rightarrow> string \<Rightarrow> string \<Rightarrow> string" where
  "email_payload sender recipient title body =
     ''From: '' @ sender @ crlf @ ''To: '' @ recipient @ crlf @ ''Subject: '' @ title @ crlf @ crlf @ body @ crlf"

definition email_body :: "out_message \<Rightarrow> string" where
  "email_body m = (if om_url m \<noteq> [] then om_body m @ crlf @ crlf @ om_url m else om_body m)"

text \<open>\<open>smtp.SendMail\<close> refuses an envelope address with a line break before it dials\<close>

definition validateLine :: "string \<Rightarrow> bool" where
  "validateLine s \<longleftrightarrow> CHR 0x0A \<notin> set s \<and> CHR 0x0D \<notin> set s"

definition SendMail :: "email_channel \<Rightarrow> string \<Rightarrow> (string \<times> string) option \<Rightarrow> string \<Rightarrow> string list \<Rightarrow> string
    \<Rightarrow> string option" where
  "SendMail C addr auth sender recipients payload =
     (if \<not> validateLine sender \<or> \<not> list_all validateLine recipients
      then Some ''smtp: A line must not contain CR or LF''
      else em_dialogue C addr auth sender recipients payload)"

definition email_defaults :: "email_secrets \<Rightarrow> email_secrets" where
  "email_defaults sec =
     (let s = (if es_port sec = 0 then sec\<lparr>es_port := 587\<rparr> else sec) in
      if es_from s = [] then s\<lparr>es_from := es_username s\<rparr> else s)"

definition Email_Send :: "email_channel \<Rightarrow> json \<Rightarrow> json \<Rightarrow> out_message \<Rightarrow> err + string" where
  "Email_Send C config secrets m = (case decode (em_config C) \<lparr>ec_to = []\<rparr> config of
      Inl e \<Rightarrow> Inl (PlainErr e)
    | Inr cfg \<Rightarrow> (case decode (em_secrets C) no_email_secrets secrets of
        Inl e \<Rightarrow> Inl (PlainErr e)
      | Inr sec0 \<Rightarrow>
          if es_host sec0 = [] then Inl (PlainErr ''email: notifier is missing smtp_host'')
          else let sec = email_defaults sec0 in
            (case SendMail C (es_host sec @ '':'' @ itoa (es_port sec))
                (if es_username sec \<noteq> [] then Some (es_username sec, es_password sec) else None)
                (es_from sec) [ec_to cfg]
                (email_payload (es_from sec) (ec_to cfg) (om_title m) (email_body m)) of
               Some e \<Rightarrow> Inl (PlainErr (''email: '' @ e))
             | None \<Rightarrow> Inr [])))"

definition EmailChannel :: "email_channel \<Rightarrow> channel" where
  "EmailChannel C = \<lparr>ch_type = ''email'', ch_label = ''Email'',
     ch_description = ''Send an email through your own SMTP server.'', ch_requires_verification = True,
     ch_config_schema = email_ConfigSchema, ch_validate = Email_Validate C, ch_send = Email_Send C\<rparr>"

subsection \<open>sms\_channel.go\<close>

record sms_config =
  mc_phone :: string

record sms_secrets =
  ms_account_sid :: string
  ms_auth_token :: string
  ms_from_number :: string

record sms_reply =
  mr_sid :: string
  mr_message :: string

text \<open>\<open>sm_reply\<close> is what unmarshalling the answer of Twilio leaves in a zero struct; its error
  is ignored by the code.\<close>

record sms_channel =
  sm_config :: "json \<Rightarrow> string + sms_config"
  sm_secrets :: "json \<Rightarrow> string + sms_secrets"
  sm_new_request :: "string \<Rightarrow> string \<Rightarrow> string option"
  sm_do :: "http_request \<Rightarrow> string + http_response"
  sm_reply :: "string \<Rightarrow> sms_reply"

abbreviation no_sms_secrets :: sms_secrets where
  "no_sms_secrets \<equiv> \<lparr>ms_account_sid = [], ms_auth_token = [], ms_from_number = []\<rparr>"

definition sms_ConfigSchema :: schema where
  "sms_ConfigSchema = \<lparr>sc_fields =
     [(schema_field_of ''phone'' ''Phone number'' ''string'')\<lparr>sf_required := True, sf_placeholder := ''+15551234567''\<rparr>,
      (schema_field_of ''account_sid'' ''Twilio account SID'' ''secret'')\<lparr>sf_secret := True, sf_required := True\<rparr>,
      (schema_field_of ''auth_token'' ''Twilio auth token'' ''secret'')\<lparr>sf_secret := True, sf_required := True\<rparr>,
      (schema_field_of ''from_number'' ''Twilio from number'' ''secret'')\<lparr>sf_secret := True, sf_required := True\<rparr>]\<rparr>"

definition SMS_Validate :: "sms_channel \<Rightarrow> json \<Rightarrow> err option" where
  "SMS_Validate C config = (case decode (sm_config C) \<lparr>mc_phone = []\<rparr> config of
      Inl _ \<Rightarrow> Some (HttpErr 400 ''sms config is not valid JSON'')
    | Inr cfg \<Rightarrow>
        if \<not> HasPrefix (mc_phone cfg) ''+'' \<or> length (mc_phone cfg) < 8
        then Some (HttpErr 400
          ''sms config needs a phone number in E.164 form, for example +15551234567'') else None)"

definition sms_missing :: "sms_secrets \<Rightarrow> string list" where
  "sms_missing sec = (if ms_account_sid sec = [] then [''account_sid''] else [])
     @ (if ms_auth_token sec = [] then [''auth_token''] else [])
     @ (if ms_from_number sec = [] then [''from_number''] else [])"

text \<open>The separator is a long dash between spaces, three bytes in UTF-8\<close>

definition sms_text :: "out_message \<Rightarrow> string" where
  "sms_text m =
     (let body = (if om_body m \<noteq> []
                  then om_title m @ [CHR '' '', CHR 0xE2, CHR 0x80, CHR 0x94, CHR '' ''] @ om_body m else om_title m) in
      if length body > 320 then take 317 body @ ''...'' else body)"

subsection \<open>net/url: the encoding of a form\<close>

definition form_encode :: "(string \<times> string) list \<Rightarrow> string" where
  "form_encode kvs = join ''&'' (map (\<lambda>(k, v). query_escape k @ ''='' @ query_escape v) (sort_key fst kvs))"

subsection \<open>sms\_channel.go: Send\<close>

definition sms_request :: "sms_config \<Rightarrow> sms_secrets \<Rightarrow> out_message \<Rightarrow> http_request" where
  "sms_request cfg sec m = \<lparr>hr_method = ''POST'',
     hr_url = ''https://api.twilio.com/2010-04-01/Accounts/'' @ ms_account_sid sec @ ''/Messages.json'',
     hr_headers = [(''Authorization'', ''Basic '' @ EncodeToString (ms_account_sid sec @ '':'' @ ms_auth_token sec)),
       (''Content-Type'', ''application/x-www-form-urlencoded'')],
     hr_payload = Some (form_encode [(''To'', mc_phone cfg), (''From'', ms_from_number sec), (''Body'', sms_text m)])\<rparr>"

definition sms_result :: "sms_channel \<Rightarrow> http_response \<Rightarrow> err + string" where
  "sms_result C response =
     (let reply = sm_reply C (take 8192 (hs_body response)) in
      if hs_status response < 200 \<or> hs_status response > 299
      then Inl (PlainErr (if mr_message reply \<noteq> [] then ''sms: '' @ mr_message reply
                          else ''sms: twilio returned '' @ itoa (hs_status response)))
      else Inr (mr_sid reply))"

definition SMS_Send :: "sms_channel \<Rightarrow> json \<Rightarrow> json \<Rightarrow> out_message \<Rightarrow> err + string" where
  "SMS_Send C config secrets m = (case decode (sm_config C) \<lparr>mc_phone = []\<rparr> config of
      Inl e \<Rightarrow> Inl (PlainErr e)
    | Inr cfg \<Rightarrow> (case decode (sm_secrets C) no_sms_secrets secrets of
        Inl e \<Rightarrow> Inl (PlainErr e)
      | Inr sec \<Rightarrow>
          if sms_missing sec \<noteq> []
          then Inl (PlainErr (''sms: notifier is missing '' @ join '', '' (sms_missing sec)))
          else (case sm_new_request C ''POST'' (hr_url (sms_request cfg sec m)) of
              Some e \<Rightarrow> Inl (PlainErr e)
            | None \<Rightarrow> (case sm_do C (sms_request cfg sec m) of
                Inl e \<Rightarrow> Inl (PlainErr (''sms: '' @ e))
              | Inr response \<Rightarrow> sms_result C response))))"

definition SMSChannel :: "sms_channel \<Rightarrow> channel" where
  "SMSChannel C = \<lparr>ch_type = ''sms'', ch_label = ''SMS'',
     ch_description = ''Text a phone number through Twilio.'', ch_requires_verification = True,
     ch_config_schema = sms_ConfigSchema, ch_validate = SMS_Validate C, ch_send = SMS_Send C\<rparr>"

subsection \<open>telegram\_channel.go\<close>

record telegram_secrets =
  ts_bot_token :: string

record telegram_config =
  tc_chat_id :: string

record telegram_reply =
  tr_ok :: bool
  tr_description :: string
  tr_message_id :: int

record telegram_channel =
  tl_unicode :: unicode
  tl_default_token :: string
  tl_config :: "json \<Rightarrow> string + telegram_config"
  tl_secrets :: "json \<Rightarrow> string + telegram_secrets"
  tl_new_request :: "string \<Rightarrow> string \<Rightarrow> string option"
  tl_do :: "http_request \<Rightarrow> string + http_response"
  tl_reply :: "string \<Rightarrow> telegram_reply option"

definition telegram_ConfigSchema :: schema where
  "telegram_ConfigSchema = \<lparr>sc_fields =
     [(schema_field_of ''chat_id'' ''Chat ID'' ''string'')\<lparr>sf_required := True, sf_placeholder := ''123456789'',
        sf_help := ''Message your bot, then send the verification code back to it to bind this chat.''\<rparr>,
      (schema_field_of ''bot_token'' ''Bot token'' ''secret'')\<lparr>sf_secret := True,
        sf_help := ''Leave empty to use the server's bot.''\<rparr>]\<rparr>"

definition Telegram_Validate :: "telegram_channel \<Rightarrow> json \<Rightarrow> err option" where
  "Telegram_Validate C config = (case decode (tl_config C) \<lparr>tc_chat_id = []\<rparr> config of
      Inl _ \<Rightarrow> Some (HttpErr 400 ''telegram config is not valid JSON'')
    | Inr cfg \<Rightarrow>
        if trim_space (tl_unicode C) (tc_chat_id cfg) = []
        then Some (HttpErr 400 ''telegram config needs a chat_id'') else None)"

definition bot_token :: "telegram_channel \<Rightarrow> telegram_secrets \<Rightarrow> string" where
  "bot_token C sec = (if ts_bot_token sec = [] then tl_default_token C else ts_bot_token sec)"

text \<open>The title, then the body and the link where there are any, after a separator\<close>

definition message_text :: "string \<Rightarrow> out_message \<Rightarrow> string" where
  "message_text sep m = om_title m @ (if om_body m \<noteq> [] then sep @ om_body m else [])
     @ (if om_url m \<noteq> [] then sep @ om_url m else [])"

definition telegram_request :: "telegram_channel \<Rightarrow> telegram_config \<Rightarrow> telegram_secrets \<Rightarrow> out_message \<Rightarrow> http_request" where
  "telegram_request C cfg sec m = \<lparr>hr_method = ''POST'',
     hr_url = ''https://api.telegram.org/bot'' @ bot_token C sec @ ''/sendMessage'',
     hr_headers = [(''Content-Type'', ''application/json'')],
     hr_payload = Some (json_object (tl_unicode C)
       [(''chat_id'', json_string (tl_unicode C) (tc_chat_id cfg)), (''disable_web_page_preview'', ''true''),
        (''text'', json_string (tl_unicode C) (message_text [CHR 0x0A, CHR 0x0A] m))])\<rparr>"

definition telegram_result :: "telegram_channel \<Rightarrow> http_response \<Rightarrow> err + string" where
  "telegram_result C response = (case tl_reply C (hs_body response) of
      None \<Rightarrow> Inl (PlainErr (''telegram: unreadable response (status '' @ itoa (hs_status response) @ '')''))
    | Some reply \<Rightarrow>
        if \<not> tr_ok reply then Inl (PlainErr (''telegram: '' @ tr_description reply))
        else Inr (itoa (tr_message_id reply)))"

definition Telegram_Send :: "telegram_channel \<Rightarrow> json \<Rightarrow> json \<Rightarrow> out_message \<Rightarrow> err + string" where
  "Telegram_Send C config secrets m = (case decode (tl_config C) \<lparr>tc_chat_id = []\<rparr> config of
      Inl e \<Rightarrow> Inl (PlainErr e)
    | Inr cfg \<Rightarrow> (case decode (tl_secrets C) \<lparr>ts_bot_token = []\<rparr> secrets of
        Inl e \<Rightarrow> Inl (PlainErr e)
      | Inr sec \<Rightarrow>
          if bot_token C sec = []
          then Inl (PlainErr ''telegram: no bot token configured for this notifier or the server'')
          else (case tl_new_request C ''POST'' (hr_url (telegram_request C cfg sec m)) of
              Some e \<Rightarrow> Inl (PlainErr e)
            | None \<Rightarrow> (case tl_do C (telegram_request C cfg sec m) of
                Inl e \<Rightarrow> Inl (PlainErr (''telegram: '' @ e))
              | Inr response \<Rightarrow> telegram_result C response))))"

definition TelegramChannel :: "telegram_channel \<Rightarrow> channel" where
  "TelegramChannel C = \<lparr>ch_type = ''telegram'', ch_label = ''Telegram'',
     ch_description = ''Send a message to a Telegram chat through your bot.'', ch_requires_verification = True,
     ch_config_schema = telegram_ConfigSchema, ch_validate = Telegram_Validate C, ch_send = Telegram_Send C\<rparr>"

subsection \<open>webhook\_channel.go\<close>

record webhook_config =
  wc_url :: string
  wc_method :: string

record webhook_secrets =
  ws_signing_secret :: string

text \<open>\<open>wh_do\<close> answers with a response and its headers; \<open>wh_hmac\<close> is HMAC-SHA256 of a secret and
  a text.\<close>

record webhook_channel =
  wh_unicode :: unicode
  wh_type :: string
  wh_label :: string
  wh_description :: string
  wh_payload_key :: string
  wh_config :: "json \<Rightarrow> string + webhook_config"
  wh_secrets :: "json \<Rightarrow> string + webhook_secrets"
  wh_new_request :: "string \<Rightarrow> string \<Rightarrow> string option"
  wh_hmac :: "string \<Rightarrow> string \<Rightarrow> string"
  wh_do :: "http_request \<Rightarrow> string + (http_response \<times> (string \<Rightarrow> string))"

text \<open>The three channels of this transport over the parameters of one\<close>

definition NewWebhookChannel :: "webhook_channel \<Rightarrow> webhook_channel" where
  "NewWebhookChannel C = C\<lparr>wh_type := ''webhook'', wh_label := ''Webhook'',
     wh_description := ''POST the match to a URL of your own.'', wh_payload_key := []\<rparr>"

definition NewSlackChannel :: "webhook_channel \<Rightarrow> webhook_channel" where
  "NewSlackChannel C = C\<lparr>wh_type := ''slack'', wh_label := ''Slack'',
     wh_description := ''Post to a Slack channel through an incoming webhook.'', wh_payload_key := ''text''\<rparr>"

definition NewDiscordChannel :: "webhook_channel \<Rightarrow> webhook_channel" where
  "NewDiscordChannel C = C\<lparr>wh_type := ''discord'', wh_label := ''Discord'',
     wh_description := ''Post to a Discord channel through an incoming webhook.'', wh_payload_key := ''content''\<rparr>"

definition webhook_ConfigSchema :: "webhook_channel \<Rightarrow> schema" where
  "webhook_ConfigSchema C = \<lparr>sc_fields =
     [(schema_field_of ''url'' ''URL'' ''string'')\<lparr>sf_required := True, sf_placeholder := ''https://example.com/hook''\<rparr>]
     @ (if wh_payload_key C = [] then
          [(schema_field_of ''method'' ''Method'' ''enum'')\<lparr>sf_options := [''POST'', ''PUT'']\<rparr>,
           (schema_field_of ''signing_secret'' ''Signing secret'' ''secret'')\<lparr>sf_secret := True,
             sf_help := ''When set, requests carry an X-Mailpulse-Signature HMAC-SHA256 of the body.''\<rparr>]
        else [])\<rparr>"

definition Webhook_Validate :: "webhook_channel \<Rightarrow> json \<Rightarrow> err option" where
  "Webhook_Validate C config = (case decode (wh_config C) \<lparr>wc_url = [], wc_method = []\<rparr> config of
      Inl _ \<Rightarrow> Some (HttpErr 400 (wh_type C @ '' config is not valid JSON''))
    | Inr cfg \<Rightarrow>
        if \<not> HasPrefix (wc_url cfg) ''http://'' \<and> \<not> HasPrefix (wc_url cfg) ''https://''
        then Some (HttpErr 400 (wh_type C @ '' config needs an http or https url''))
        else if wc_method cfg \<noteq> [] \<and> wc_method cfg \<noteq> ''POST'' \<and> wc_method cfg \<noteq> ''PUT''
        then Some (HttpErr 400 ''webhook method must be POST or PUT'')
        else None)"

text \<open>A nil map of meta data is the empty list; no caller passes an empty map that is not nil.\<close>

definition meta_json :: "unicode \<Rightarrow> (string \<times> string) list \<Rightarrow> json" where
  "meta_json U kvs = (if kvs = [] then ''null''
     else json_object U (map (\<lambda>(k, v). (k, json_string U v)) (sort_key fst kvs)))"

definition webhook_payload :: "webhook_channel \<Rightarrow> out_message \<Rightarrow> json" where
  "webhook_payload C m = (let q = json_string (wh_unicode C) in
     if wh_payload_key C \<noteq> []
     then json_object (wh_unicode C) [(wh_payload_key C, q (message_text [CHR 0x0A] m))]
     else json_object (wh_unicode C) [(''body'', q (om_body m)), (''meta'', meta_json (wh_unicode C) (om_meta m)),
       (''title'', q (om_title m)), (''url'', q (om_url m))])"

definition webhook_request :: "webhook_channel \<Rightarrow> webhook_config \<Rightarrow> webhook_secrets \<Rightarrow> out_message \<Rightarrow> http_request" where
  "webhook_request C cfg sec m = \<lparr>hr_method = (if wc_method cfg = [] then ''POST'' else wc_method cfg),
     hr_url = wc_url cfg,
     hr_headers = [(''Content-Type'', ''application/json'')]
       @ (if ws_signing_secret sec \<noteq> []
          then [(''X-Mailpulse-Signature'', hex_string (wh_hmac C (ws_signing_secret sec) (webhook_payload C m)))]
          else []),
     hr_payload = Some (webhook_payload C m)\<rparr>"

definition Webhook_Send :: "webhook_channel \<Rightarrow> json \<Rightarrow> json \<Rightarrow> out_message \<Rightarrow> err + string" where
  "Webhook_Send C config secrets m = (case decode (wh_config C) \<lparr>wc_url = [], wc_method = []\<rparr> config of
      Inl e \<Rightarrow> Inl (PlainErr e)
    | Inr cfg \<Rightarrow> (case decode (wh_secrets C) \<lparr>ws_signing_secret = []\<rparr> secrets of
        Inl e \<Rightarrow> Inl (PlainErr e)
      | Inr sec \<Rightarrow>
          (let request = webhook_request C cfg sec m in
           case wh_new_request C (hr_method request) (hr_url request) of
             Some e \<Rightarrow> Inl (PlainErr e)
           | None \<Rightarrow> (case wh_do C request of
               Inl e \<Rightarrow> Inl (PlainErr (wh_type C @ '': '' @ e))
             | Inr (response, header) \<Rightarrow>
                 if hs_status response < 200 \<or> hs_status response > 299
                 then Inl (PlainErr (wh_type C @ '': endpoint returned '' @ itoa (hs_status response)))
                 else Inr (header ''X-Request-Id'')))))"

definition WebhookChannel :: "webhook_channel \<Rightarrow> channel" where
  "WebhookChannel C = \<lparr>ch_type = wh_type C, ch_label = wh_label C, ch_description = wh_description C,
     ch_requires_verification = False, ch_config_schema = webhook_ConfigSchema C,
     ch_validate = Webhook_Validate C, ch_send = Webhook_Send C\<rparr>"

subsection \<open>What an email and a text message look like\<close>

text \<open>The lines of a text, and those of the header: all before the first empty one\<close>

fun crlf_lines :: "string \<Rightarrow> string list" where
  "crlf_lines [] = [[]]"
| "crlf_lines [c] = [[c]]"
| "crlf_lines (c # d # s) =
     (if c = CHR 0x0D \<and> d = CHR 0x0A then [] # crlf_lines s
      else (case crlf_lines (d # s) of [] \<Rightarrow> [[c]] | l # ls \<Rightarrow> (c # l) # ls))"

definition header_lines :: "string \<Rightarrow> string list" where
  "header_lines s = takeWhile (\<lambda>l. l \<noteq> []) (crlf_lines s)"

lemma crlf_lines_nonempty: "crlf_lines s \<noteq> []"
  by (induction s rule: crlf_lines.induct) (auto split: list.splits)

lemma crlf_lines_append: "crlf_lines (s @ crlf @ r) = crlf_lines s @ crlf_lines r"
proof (induction s rule: crlf_lines.induct)
  case (3 c d s)
  then show ?case by (cases "crlf_lines (d # s)") (simp_all add: crlf_lines_nonempty)
qed simp_all

lemma crlf_lines_one: "validateLine s \<Longrightarrow> crlf_lines s = [s]"
  by (induction s rule: crlf_lines.induct) (auto simp: validateLine_def)

lemma crlf_lines_mail:
  "crlf_lines (a @ crlf @ b @ crlf @ c @ crlf @ crlf @ d)
     = crlf_lines a @ crlf_lines b @ crlf_lines c @ [] # crlf_lines d"
proof -
  have "crlf_lines (crlf @ d) = [] # crlf_lines d" by simp
  then show ?thesis by (simp only: crlf_lines_append append_assoc)
qed

lemma takeWhile_stop: "\<not> P x \<Longrightarrow> takeWhile P (xs @ x # ys) = takeWhile P xs"
  by (induction xs) simp_all

lemma header_lines_payload:
  assumes "validateLine sender" "validateLine recipient"
  shows "header_lines (email_payload sender recipient title body)
    = [''From: '' @ sender, ''To: '' @ recipient]
      @ takeWhile (\<lambda>l. l \<noteq> []) (crlf_lines (''Subject: '' @ title))"
proof -
  have "validateLine (''From: '' @ sender)" "validateLine (''To: '' @ recipient)"
    using assms by (simp_all add: validateLine_def)
  then have "crlf_lines (''From: '' @ sender) = [''From: '' @ sender]"
    "crlf_lines (''To: '' @ recipient) = [''To: '' @ recipient]" by (simp_all only: crlf_lines_one)
  then have "crlf_lines (email_payload sender recipient title body)
    = [''From: '' @ sender, ''To: '' @ recipient] @ crlf_lines (''Subject: '' @ title)
      @ [] # crlf_lines (body @ crlf)"
    using crlf_lines_mail [of "''From: '' @ sender" "''To: '' @ recipient" "''Subject: '' @ title" "body @ crlf"]
    by (simp only: email_payload_def append_assoc append_Cons append_Nil)
  then have "header_lines (email_payload sender recipient title body)
    = takeWhile (\<lambda>l. l \<noteq> []) ([''From: '' @ sender, ''To: '' @ recipient]
        @ crlf_lines (''Subject: '' @ title) @ [] # crlf_lines (body @ crlf))"
    by (simp only: header_lines_def)
  also have "\<dots> = [''From: '' @ sender, ''To: '' @ recipient]
      @ takeWhile (\<lambda>l. l \<noteq> []) (crlf_lines (''Subject: '' @ title) @ [] # crlf_lines (body @ crlf))"
    by (simp del: crlf_lines.simps)
  also have "takeWhile (\<lambda>l. l \<noteq> []) (crlf_lines (''Subject: '' @ title) @ [] # crlf_lines (body @ crlf))
      = takeWhile (\<lambda>l. l \<noteq> []) (crlf_lines (''Subject: '' @ title))"
    by (rule takeWhile_stop) simp
  finally show ?thesis .
qed

text \<open>C36: The header of a notification mail is the From, the To and the Subject line only as
  long as the title has no line break.  An address with a line break is refused, but the title
  goes into the header as it is: each of its lines up to an empty one becomes a header line of
  the mail that is handed to the server, so a rendered subject can add a recipient.\<close>

theorem email_header_lines:
  assumes cfg: "decode (em_config C) \<lparr>ec_to = []\<rparr> config = Inr cfg"
    and sec: "decode (em_secrets C) no_email_secrets secrets = Inr sec"
    and host: "es_host sec \<noteq> []"
    and addresses: "validateLine (es_from (email_defaults sec))" "validateLine (ec_to cfg)"
  shows "\<exists>addr auth payload.
     Email_Send C config secrets m =
       (case em_dialogue C addr auth (es_from (email_defaults sec)) [ec_to cfg] payload of
          Some e \<Rightarrow> Inl (PlainErr (''email: '' @ e)) | None \<Rightarrow> Inr [])
     \<and> header_lines payload =
       [''From: '' @ es_from (email_defaults sec), ''To: '' @ ec_to cfg]
       @ takeWhile (\<lambda>l. l \<noteq> []) (crlf_lines (''Subject: '' @ om_title m))"
  using header_lines_payload [OF addresses, of "om_title m" "email_body m"]
  by (intro exI [of _ "es_host (email_defaults sec) @ '':'' @ itoa (es_port (email_defaults sec))"]
        exI [of _ "if es_username (email_defaults sec) \<noteq> []
          then Some (es_username (email_defaults sec), es_password (email_defaults sec)) else None"]
        exI [of _ "email_payload (es_from (email_defaults sec)) (ec_to cfg) (om_title m) (email_body m)"] conjI)
    (simp_all add: Email_Send_def cfg sec host addresses SendMail_def Let_def del: crlf_lines.simps)

definition sample_secrets :: email_secrets where
  "sample_secrets = \<lparr>es_host = ''mx'', es_port = 0, es_username = [], es_password = [], es_from = ''mp@x''\<rparr>"

definition sample_email :: email_channel where
  "sample_email = \<lparr>em_config = (\<lambda>_. Inr \<lparr>ec_to = ''ann@x''\<rparr>),
     em_secrets = (\<lambda>_. Inr sample_secrets),
     em_dialogue = (\<lambda>_ _ _ _ payload.
       if ''Bcc: eve@x'' \<in> set (header_lines payload) then None else Some ''no'')\<rparr>"

definition crafted :: out_message where
  "crafted = \<lparr>om_title = ''hi'' @ crlf @ ''Bcc: eve@x'', om_body = ''b'', om_url = [], om_meta = []\<rparr>"

theorem email_header_lines_witness:
  "\<exists>addr auth payload. em_dialogue sample_email addr auth ''mp@x'' [''ann@x''] payload = None
     \<and> header_lines payload = [''From: mp@x'', ''To: ann@x'', ''Subject: hi'', ''Bcc: eve@x'']"
proof -
  have "\<exists>addr auth payload.
     Email_Send sample_email ''{}'' ''{}'' crafted =
       (case em_dialogue sample_email addr auth ''mp@x'' [''ann@x''] payload of
          Some e \<Rightarrow> Inl (PlainErr (''email: '' @ e)) | None \<Rightarrow> Inr [])
     \<and> header_lines payload = [''From: mp@x'', ''To: ann@x'', ''Subject: hi'', ''Bcc: eve@x'']"
    using email_header_lines [of sample_email "''{}''" "\<lparr>ec_to = ''ann@x''\<rparr>" "''{}''" sample_secrets crafted]
    by (simp add: sample_email_def sample_secrets_def crafted_def decode_def email_defaults_def validateLine_def)
  then show ?thesis by (auto simp: sample_email_def)
qed

text \<open>A text message never exceeds two segments, and a text that fits is sent whole; but the cut
  is at a byte, so it can split a character.\<close>

lemma sms_text_fits:
  "length (sms_text m) \<le> 320
   \<and> (om_body m = [] \<and> length (om_title m) \<le> 320 \<longrightarrow> sms_text m = om_title m)"
  by (simp add: sms_text_def Let_def)

lemma sms_text_splits_character:
  "sms_text \<lparr>om_title = replicate 316 CHR ''a'' @ [CHR 0xC3, CHR 0xA9] @ replicate 9 CHR ''b'',
       om_body = [], om_url = u, om_meta = k\<rparr>
     = replicate 316 CHR ''a'' @ [CHR 0xC3] @ ''...''"
  by (simp add: sms_text_def Let_def)

text \<open>A form survives its encoding: no value can start another field\<close>

lemma upper_hex_plain: "n < 16 \<Longrightarrow> upper_hex n \<noteq> CHR ''&'' \<and> upper_hex n \<noteq> CHR ''=''"
proof -
  have "\<forall>m \<in> set [0..<16]. upper_hex m \<noteq> CHR ''&'' \<and> upper_hex m \<noteq> CHR ''=''" by code_simp
  then show "n < 16 \<Longrightarrow> ?thesis" by simp
qed

lemma escape_char_plain: "c \<in> set (escape_char d) \<Longrightarrow> c \<noteq> CHR ''&'' \<and> c \<noteq> CHR ''=''"
proof -
  have "of_char d div 16 < (16 :: nat)" using of_char_bound [of d] by linarith
  then show "c \<in> set (escape_char d) \<Longrightarrow> ?thesis"
    using upper_hex_plain [of "of_char d div 16"] upper_hex_plain [of "of_char d mod 16"]
    by (auto simp: escape_char_def unreserved_def Let_def split: if_splits)
qed

lemma escape_plain: "c \<in> set (query_escape s) \<Longrightarrow> c \<noteq> CHR ''&'' \<and> c \<noteq> CHR ''=''"
  by (auto simp: query_escape_def dest: escape_char_plain)

end
