(* ===== verification/Catalog.thy ===== *)
theory Catalog
  imports Channels Resolver "HOL-Library.Multiset"
begin

text \<open>
  internal/usecase/catalog_usecase.go and the \<open>Types\<close>/\<open>Descriptors\<close> of the registries: what the
  system tells its front end it can do.  A registry is a map; \<open>order\<close> is the order in which Go's
  \<open>range\<close> visits its keys, and the answers are shown not to depend on it.
\<close>

subsection \<open>model/catalog\_model.go\<close>

record event_type_response =
  et_type :: string
  et_label :: string
  et_description :: string
  et_uses_notifiers :: bool
  et_config_schema :: schema

record notifier_type_response =
  nt_type :: string
  nt_label :: string
  nt_description :: string
  nt_requires_verification :: bool
  nt_config_schema :: schema

record filter_field_response =
  ff_field :: string
  ff_label :: string
  ff_value_type :: string
  ff_operators :: "string list"
  ff_help :: string

record mail_provider_response =
  mpr_slug :: string
  mpr_label :: string
  mpr_kind :: string
  mpr_auth_modes :: "string list"
  mpr_capabilities :: "(string \<times> bool) list"
  mpr_config_schema :: schema
  mpr_default_use_tls :: bool
  mpr_default_host :: "string option"
  mpr_default_port :: "int option"
  mpr_help_url :: "string option"
  mpr_available :: bool
  mpr_unavailable :: string

record health_response =
  hl_database :: string
  hl_redis :: string
  hl_kafka :: string
  hl_version :: string

subsection \<open>The registries\<close>

definition event_type_of :: "handler \<Rightarrow> event_type_response" where
  "event_type_of h = \<lparr>et_type = hd_type h, et_label = hd_label h, et_description = hd_description h,
     et_uses_notifiers = hd_uses_notifiers h, et_config_schema = hd_config_schema h\<rparr>"

definition Handlers_Types :: "string list \<Rightarrow> (string \<rightharpoonup> handler) \<Rightarrow> event_type_response list" where
  "Handlers_Types order reg = sort_key et_type (map event_type_of (List.map_filter reg order))"

definition notifier_type_of :: "channel \<Rightarrow> notifier_type_response" where
  "notifier_type_of c = \<lparr>nt_type = ch_type c, nt_label = ch_label c, nt_description = ch_description c,
     nt_requires_verification = ch_requires_verification c, nt_config_schema = ch_config_schema c\<rparr>"

definition Channels_Types :: "string list \<Rightarrow> (string \<rightharpoonup> channel) \<Rightarrow> notifier_type_response list" where
  "Channels_Types order reg = sort_key nt_type (map notifier_type_of (List.map_filter reg order))"

definition Descriptors :: "(string \<rightharpoonup> mail_client) \<Rightarrow> (string \<rightharpoonup> descriptor)" where
  "Descriptors reg = map_option cl_describe \<circ> reg"

subsection \<open>catalog\_usecase.go\<close>

text \<open>\<open>ct_pool\<close>: the handle of the connection pool can be had\<close>

record catalog_uc =
  ct_unicode :: unicode
  ct_handlers :: "string \<rightharpoonup> handler"
  ct_channels :: "string \<rightharpoonup> channel"
  ct_mail_clients :: "string \<rightharpoonup> mail_client"
  ct_version :: string
  ct_pool :: bool

definition capability_list :: "capabilities \<Rightarrow> (string \<times> bool) list" where
  "capability_list c = [(''folders'', cp_folders c), (''labels'', cp_labels c), (''push'', cp_push c),
     (''idle'', cp_idle c), (''server_search'', cp_server_search c)]"

definition provider_response_of :: "unicode \<Rightarrow> (string \<rightharpoonup> descriptor) \<Rightarrow> mail_provider \<Rightarrow> mail_provider_response" where
  "provider_response_of U descriptors row =
     (let response = \<lparr>mpr_slug = mp_slug row, mpr_label = mp_label row, mpr_kind = mp_kind row,
        mpr_auth_modes = AuthModeList U row, mpr_capabilities = [], mpr_config_schema = \<lparr>sc_fields = []\<rparr>,
        mpr_default_use_tls = mp_default_use_tls row, mpr_default_host = mp_default_host row,
        mpr_default_port = mp_default_port row, mpr_help_url = mp_help_url row,
        mpr_available = False, mpr_unavailable = []\<rparr> in
      case descriptors (mp_kind row) of
        None \<Rightarrow> response\<lparr>mpr_unavailable := ''the '' @ mp_kind row @ '' client is not built yet''\<rparr>
      | Some d \<Rightarrow> response\<lparr>mpr_available := True, mpr_config_schema := ds_config_schema d,
          mpr_capabilities := capability_list (ds_capabilities d)\<rparr>)"

definition MailProviderTypes :: "catalog_uc \<Rightarrow> mail_provider_response list ioE" where
  "MailProviderTypes C =
     bindE (mapErr (\<lambda>_. ErrInternal) MailProvider_FindEnabled) (\<lambda>rows.
     returnE (map (provider_response_of (ct_unicode C) (Descriptors (ct_mail_clients C))) rows))"

definition EventTypes :: "string list \<Rightarrow> catalog_uc \<Rightarrow> event_type_response list" where
  "EventTypes order C = Handlers_Types order (ct_handlers C)"

definition NotifierTypes :: "string list \<Rightarrow> catalog_uc \<Rightarrow> notifier_type_response list" where
  "NotifierTypes order C = Channels_Types order (ct_channels C)"

definition text_operators :: "string list" where
  "text_operators = [OpContains, OpNotContains, OpEquals, OpStartsWith, OpEndsWith, OpRegex]"

abbreviation text_field :: "string \<Rightarrow> string \<Rightarrow> filter_field_response" where
  "text_field field label \<equiv> \<lparr>ff_field = field, ff_label = label, ff_value_type = ''string'',
     ff_operators = text_operators, ff_help = []\<rparr>"

definition FilterFields :: "filter_field_response list" where
  "FilterFields =
     [text_field FieldSubject ''Subject'',
      (text_field FieldFrom ''From'')\<lparr>ff_help := ''Matches the sender address or the display name.''\<rparr>,
      text_field FieldTo ''To'', text_field FieldCc ''Cc'', text_field FieldBody ''Body'',
      (text_field FieldHeader ''Header'')\<lparr>ff_operators := text_operators @ [OpExists],
        ff_help := ''Needs a header_name, for example List-Id.''\<rparr>,
      text_field FieldAttachmentName ''Attachment name'',
      \<lparr>ff_field = FieldHasAttachment, ff_label = ''Has attachment'', ff_value_type = ''boolean'',
       ff_operators = [OpExists], ff_help = []\<rparr>,
      \<lparr>ff_field = FieldSize, ff_label = ''Size in bytes'', ff_value_type = ''int'',
       ff_operators = [OpGt, OpLt, OpEquals], ff_help = []\<rparr>]"

text \<open>A ping of the database is a statement that reads nothing, one of Redis a command that
  changes nothing.\<close>

definition Health :: "catalog_uc \<Rightarrow> health_response io" where
  "Health C = do {
     db \<leftarrow> (if ct_pool C then query (\<lambda>_. Inr ()) else ret (Inl (PlainErr ''no pool'')));
     rd \<leftarrow> redis_cmd (\<lambda>m t. ((), m));
     ret \<lparr>hl_database = (case db of Inl _ \<Rightarrow> ''error'' | Inr _ \<Rightarrow> ''ok''),
       hl_redis = (case rd of Inl _ \<Rightarrow> ''error'' | Inr _ \<Rightarrow> ''ok''),
       hl_kafka = ''not checked'', hl_version = ct_version C\<rparr> }"

subsection \<open>What the catalogue promises\<close>

text \<open>A registry knows each plug-in by the type it gives itself, so the answers do not depend on
  the order in which the map is visited.\<close>

context registry
begin

lemma listing_deterministic:
  assumes "distinct order" "distinct order'" "set order = set order'" and name: "\<And>x. name (f x) = key x"
  shows "sort_key name (map f (List.map_filter (register xs Map.empty) order))
    = sort_key name (map f (List.map_filter (register xs Map.empty) order'))"
proof (rule sort_key_inj_key_eq)
  have "mset order = mset order'" using assms(1-3) by (simp add: set_eq_iff_mset_eq_distinct)
  then show "mset (map f (List.map_filter (register xs Map.empty) order))
      = mset (sort_key name (map f (List.map_filter (register xs Map.empty) order')))"
    by (simp add: List.map_filter_def)
  have "set (List.map_filter (register xs Map.empty) order) = {x. \<exists>k \<in> set order. register xs Map.empty k = Some x}"
    by (force simp: List.map_filter_def)
  then show "inj_on name (set (map f (List.map_filter (register xs Map.empty) order)))"
    by (auto simp: inj_on_def name) (metis option.inject registered_key)
  show "sorted (map name (sort_key name (map f (List.map_filter (register xs Map.empty) order'))))" by simp
qed

end

lemma types_deterministic:
  assumes "distinct order" "distinct order'" "set order = set order'"
  shows "Handlers_Types order (Register hs Map.empty) = Handlers_Types order' (Register hs Map.empty)"
    and "Channels_Types order (Channels_Register cs Map.empty) = Channels_Types order' (Channels_Register cs Map.empty)"
  unfolding Handlers_Types_def Channels_Types_def
  by (rule handler_reg.listing_deterministic channel_reg.listing_deterministic;
      use assms in \<open>simp add: event_type_of_def notifier_type_of_def\<close>)+

text \<open>A probe says of each dependency whether it answered, and touches nothing.\<close>

lemma Health_reports:
  assumes "run_state (Health C) w = (h, w')"
  shows "wdb w' = wdb w" "redis w' = redis w"
    "db_up w \<Longrightarrow> redis_up w \<Longrightarrow> ct_pool C \<Longrightarrow> hl_database h = ''ok'' \<and> hl_redis h = ''ok''"
  using assms by (auto simp: Health_def run_redis_cmd query_def stmt_def db_up_def redis_up_def
      split: if_splits option.splits prod.splits sum.splits)

text \<open>What the builder offers, the API accepts: each field and operator of the catalogue is one of
  the two lists that the request is validated against and that the table's constraints repeat.\<close>

lemma FilterFields_valid:
  "list_all (\<lambda>r. ff_field r \<in> set [''subject'', ''from'', ''to'', ''cc'', ''body'', ''header'',
        ''attachment_name'', ''has_attachment'', ''size'']
      \<and> set (ff_operators r) \<subseteq> set [''contains'', ''not_contains'', ''equals'', ''starts_with'',
        ''ends_with'', ''regex'', ''gt'', ''lt'', ''exists'']) FilterFields"
  by (simp add: FilterFields_def text_operators_def)

end
