(* ===== verification/Controllers.thy ===== *)
theory Controllers
  imports MailAccounts Notifiers Admin Catalog
begin

text \<open>
  The HTTP controllers of internal/delivery/http: each handler takes what fiber knows of the
  request and gives the answer, or the error that the error handler turns into one.  Fiber
  itself is a parameter: the query, path parameters, headers, address, and the body parser,
  which says for each request type whether it failed and what it left in the struct.  Encoding
  the answer as JSON is left out: the answer carries the data of \<open>model.WebResponse\<close>.
\<close>

subsection \<open>Requests and answers\<close>

record http_ctx =
  cx_method :: string
  cx_path :: string
  cx_params :: "string \<Rightarrow> string"
  cx_query :: "string \<Rightarrow> string"
  cx_query_int :: "string \<Rightarrow> int \<Rightarrow> int"
  cx_header :: "string \<Rightarrow> string"
  cx_ip :: string
  cx_user :: ctx
  cx_token :: string

datatype web_data =
    BoolData bool
  | UserData user_response
  | LoginData login_response
  | SessionsData "session_response list"
  | ProviderTypesData "mail_provider_response list"
  | EventTypesData "event_type_response list"
  | NotifierTypesData "notifier_type_response list"
  | FilterFieldsData "filter_field_response list"
  | HealthData health_response
  | AccountsData "mail_account_response list"
  | AccountData mail_account_response
  | VerifyAccountData verify_mail_account_response
  | SyncData sync_response
  | FoldersData "folder_response list"
  | SyncRunsData "mail_sync_run_response list"
  | AuthorizeData oauth_authorize_response
  | NotifiersData "notifier_response list"
  | NotifierData notifier_response
  | VerifyNotifierData verify_notifier_response
  | TestNotifierData test_notifier_response
  | WatchersData "watcher_response list"
  | WatcherData watcher_response
  | FiltersData "watcher_filter_response list"
  | TestWatcherData test_watcher_response
  | WatcherStatsData watcher_stats_response
  | EventsData "watcher_event_response list"
  | EventData watcher_event_response
  | RunData event_run_response
  | MatchesData "matched_email_response list"
  | MatchData matched_email_response
  | RunsData "event_run_response list"
  | CancelData cancel_run_response
  | AckData ack_run_response
  | DeliveriesData "delivery_response list"
  | DashboardData dashboard_summary
  | AdminStatsData admin_stats_response
  | AdminUsersData "admin_user_response list"
  | AdminUserData admin_user_response
  | SuspendData suspend_user_response
  | ImpersonateData impersonate_response
  | AuditLogsData "audit_log_response list"
  | TextData string
  | ErrorData string

record web_response =
  wr_status :: int
  wr_data :: "web_data option"
  wr_paging :: "page_metadata option"
  wr_headers :: "(string \<times> string) list"

text \<open>\<open>ctx.BodyParser\<close> into a fresh struct of each type\<close>

record body_parser =
  bp_register :: "http_ctx \<Rightarrow> bool \<times> register_user_request"
  bp_login :: "http_ctx \<Rightarrow> bool \<times> login_user_request"
  bp_update_user :: "http_ctx \<Rightarrow> bool \<times> update_user_request"
  bp_forgot :: "http_ctx \<Rightarrow> bool \<times> forgot_password_request"
  bp_reset :: "http_ctx \<Rightarrow> bool \<times> reset_password_request"
  bp_create_account :: "http_ctx \<Rightarrow> bool \<times> create_mail_account_request"
  bp_update_account :: "http_ctx \<Rightarrow> bool \<times> update_mail_account_request"
  bp_create_notifier :: "http_ctx \<Rightarrow> bool \<times> create_notifier_request"
  bp_update_notifier :: "http_ctx \<Rightarrow> bool \<times> update_notifier_request"
  bp_verify_notifier :: "http_ctx \<Rightarrow> bool \<times> verify_notifier_request"
  bp_telegram :: "http_ctx \<Rightarrow> bool \<times> telegram_webhook_request"
  bp_create_watcher :: "http_ctx \<Rightarrow> bool \<times> create_watcher_request"
  bp_update_watcher :: "http_ctx \<Rightarrow> bool \<times> update_watcher_request"
  bp_filters :: "http_ctx \<Rightarrow> bool \<times> replace_filters_request"
  bp_test_watcher :: "http_ctx \<Rightarrow> bool \<times> test_watcher_request"
  bp_create_event :: "http_ctx \<Rightarrow> bool \<times> create_watcher_event_request"
  bp_update_event :: "http_ctx \<Rightarrow> bool \<times> update_watcher_event_request"
  bp_reorder :: "http_ctx \<Rightarrow> bool \<times> reorder_watcher_event_request"
  bp_test_event :: "http_ctx \<Rightarrow> bool \<times> test_watcher_event_request"
  bp_admin_user :: "http_ctx \<Rightarrow> bool \<times> update_admin_user_request"

text \<open>The wired application; \<open>ap_handler_order\<close> and \<open>ap_channel_order\<close> are the orders of the maps.\<close>

record app =
  ap_users :: user_uc
  ap_accounts :: mail_account_uc
  ap_notifiers :: notifier_uc
  ap_watchers :: watcher_uc
  ap_events :: event_uc
  ap_activity :: activity
  ap_admin :: admin_uc
  ap_catalog :: catalog_uc
  ap_valid_audit :: "list_audit_log_request \<Rightarrow> bool"
  ap_handler_order :: "string list"
  ap_channel_order :: "string list"
  ap_static_max_age :: int
  ap_body :: body_parser
  ap_openapi :: string
  ap_docs_page :: string

type_synonym http_handler_fun = "app \<Rightarrow> http_ctx \<Rightarrow> web_response ioE"

definition answer :: "int \<Rightarrow> web_data \<Rightarrow> web_response" where
  "answer status d = \<lparr>wr_status = status, wr_data = Some d, wr_paging = None, wr_headers = []\<rparr>"

definition reply :: "('a \<Rightarrow> web_data) \<Rightarrow> 'a ioE \<Rightarrow> web_response ioE" where
  "reply tag m = bindE m (\<lambda>r. returnE (answer 200 (tag r)))"

definition created :: "('a \<Rightarrow> web_data) \<Rightarrow> 'a ioE \<Rightarrow> web_response ioE" where
  "created tag m = bindE m (\<lambda>r. returnE (answer 201 (tag r)))"

definition paged :: "('a \<Rightarrow> web_data) \<Rightarrow> ('a \<times> page_metadata) ioE \<Rightarrow> web_response ioE" where
  "paged tag m = bindE m (\<lambda>(r, metadata). returnE ((answer 200 (tag r))\<lparr>wr_paging := Some metadata\<rparr>))"

definition body_of :: "(body_parser \<Rightarrow> http_ctx \<Rightarrow> bool \<times> 'a) \<Rightarrow> app \<Rightarrow> http_ctx \<Rightarrow> 'a ioE" where
  "body_of parser A cx = (case parser (ap_body A) cx of
     (failed, request) \<Rightarrow> if failed then failE ErrBadRequest else returnE request)"

definition body_or_zero :: "(body_parser \<Rightarrow> http_ctx \<Rightarrow> bool \<times> 'a) \<Rightarrow> app \<Rightarrow> http_ctx \<Rightarrow> 'a" where
  "body_or_zero parser A cx = snd (parser (ap_body A) cx)"

subsection \<open>request.go\<close>

definition paging :: "http_ctx \<Rightarrow> int \<times> int" where
  "paging cx = Normalize (cx_query_int cx ''page'' 1) (cx_query_int cx ''size'' 20)"

definition queryMillis :: "http_ctx \<Rightarrow> string \<Rightarrow> int" where
  "queryMillis cx key = (let raw = cx_query cx key in
     if raw = [] then 0 else (case parse_int64 raw of None \<Rightarrow> 0 | Some v \<Rightarrow> v))"

definition clientIP :: "http_ctx \<Rightarrow> string" where
  "clientIP cx = cx_ip cx"

abbreviation caller :: "http_ctx \<Rightarrow> string" where
  "caller cx \<equiv> au_id (GetUser (cx_user cx))"

definition GetToken :: "http_ctx \<Rightarrow> string" where
  "GetToken cx = cx_token cx"

subsection \<open>user\_controller.go\<close>

definition UserController_Register :: http_handler_fun where
  "UserController_Register A cx = bindE (body_of bp_register A cx) (\<lambda>request.
     created UserData (User_Create (ap_users A) (cx_user cx) request))"

definition UserController_Login :: http_handler_fun where
  "UserController_Login A cx = bindE (body_of bp_login A cx) (\<lambda>request.
     reply LoginData (Login (ap_users A) (cx_user cx)
       (request\<lparr>lguq_user_agent := cx_header cx ''User-Agent'', lguq_ip := clientIP cx\<rparr>)))"

definition UserController_Logout :: http_handler_fun where
  "UserController_Logout A cx = reply BoolData (Logout (ap_users A)
     \<lparr>luq_id = caller cx, luq_session_id = au_session_id (GetUser (cx_user cx)), luq_token = GetToken cx\<rparr>)"

definition UserController_Current :: http_handler_fun where
  "UserController_Current A cx = reply UserData (Current (ap_users A) \<lparr>guq_id = caller cx\<rparr>)"

definition UserController_Update :: http_handler_fun where
  "UserController_Update A cx = bindE (body_of bp_update_user A cx) (\<lambda>request.
     reply UserData (User_Update (ap_users A) (cx_user cx) (request\<lparr>uuq_id := caller cx\<rparr>)))"

definition UserController_ListSessions :: http_handler_fun where
  "UserController_ListSessions A cx = reply SessionsData (ListSessions (ap_users A)
     \<lparr>lsq_user_id = caller cx, lsq_current_session_id = au_session_id (GetUser (cx_user cx))\<rparr>)"

definition UserController_RevokeSession :: http_handler_fun where
  "UserController_RevokeSession A cx = reply BoolData (RevokeSession (ap_users A)
     \<lparr>rsq_user_id = caller cx, rsq_session_id = cx_params cx ''sessionId''\<rparr>)"

definition UserController_ForgotPassword :: http_handler_fun where
  "UserController_ForgotPassword A cx = bindE (body_of bp_forgot A cx) (\<lambda>request.
     reply BoolData (ForgotPassword (ap_users A) request))"

definition UserController_ResetPassword :: http_handler_fun where
  "UserController_ResetPassword A cx = bindE (body_of bp_reset A cx) (\<lambda>request.
     reply BoolData (ResetPassword (ap_users A) (cx_user cx) request))"

subsection \<open>catalog\_controller.go\<close>

definition cacheStatic :: "app \<Rightarrow> web_response \<Rightarrow> web_response" where
  "cacheStatic A r = (if ap_static_max_age A \<le> 0 then r
     else r\<lparr>wr_headers := wr_headers r @ [(''Cache-Control'',
       ''private, max-age='' @ itoa (ap_static_max_age A div Second))]\<rparr>)"

definition CatalogController_MailProviderTypes :: http_handler_fun where
  "CatalogController_MailProviderTypes A cx = reply ProviderTypesData (MailProviderTypes (ap_catalog A))"

definition CatalogController_EventTypes :: http_handler_fun where
  "CatalogController_EventTypes A cx = returnE (cacheStatic A
     (answer 200 (EventTypesData (EventTypes (ap_handler_order A) (ap_catalog A)))))"

definition CatalogController_NotifierTypes :: http_handler_fun where
  "CatalogController_NotifierTypes A cx = returnE (cacheStatic A
     (answer 200 (NotifierTypesData (NotifierTypes (ap_channel_order A) (ap_catalog A)))))"

definition CatalogController_FilterFields :: http_handler_fun where
  "CatalogController_FilterFields A cx = returnE (cacheStatic A (answer 200 (FilterFieldsData FilterFields)))"

definition CatalogController_Health :: http_handler_fun where
  "CatalogController_Health A cx = State_Monad.bind (Health (ap_catalog A)) (\<lambda>h.
     returnE (answer (if hl_database h \<noteq> ''ok'' \<or> hl_redis h \<noteq> ''ok'' then 503 else 200) (HealthData h)))"

subsection \<open>docs\_controller.go\<close>

definition DocsController_Spec :: http_handler_fun where
  "DocsController_Spec A cx = returnE ((answer 200 (TextData (ap_openapi A)))
     \<lparr>wr_headers := [(''Content-Type'', ''application/yaml; charset=utf-8'')]\<rparr>)"

definition DocsController_UI :: http_handler_fun where
  "DocsController_UI A cx = returnE ((answer 200 (TextData (ap_docs_page A)))
     \<lparr>wr_headers := [(''Content-Type'', ''text/html; charset=utf-8'')]\<rparr>)"

subsection \<open>mail\_account\_controller.go\<close>

definition MailAccountController_List :: http_handler_fun where
  "MailAccountController_List A cx = paged AccountsData (Account_List (ap_accounts A)
     \<lparr>lmaq_page = fst (paging cx), lmaq_size = snd (paging cx), lmaq_user_id = caller cx,
       lmaq_status = cx_query cx ''status'', lmaq_provider = cx_query cx ''provider''\<rparr>)"

definition MailAccountController_Create :: http_handler_fun where
  "MailAccountController_Create A cx = bindE (body_of bp_create_account A cx) (\<lambda>request.
     created AccountData (Account_Create (ap_accounts A) (cx_user cx) (request\<lparr>cmaq_user_id := caller cx\<rparr>)))"

definition MailAccountController_Get :: http_handler_fun where
  "MailAccountController_Get A cx = reply AccountData (Account_Get \<lparr>gmaq_user_id = caller cx,
       gmaq_id = cx_params cx ''accountId''\<rparr>)"

definition MailAccountController_Update :: http_handler_fun where
  "MailAccountController_Update A cx = bindE (body_of bp_update_account A cx) (\<lambda>request.
     reply AccountData (Account_Update (ap_accounts A) (cx_user cx)
       (request\<lparr>umaq_user_id := caller cx, umaq_id := cx_params cx ''accountId''\<rparr>)))"

definition MailAccountController_Delete :: http_handler_fun where
  "MailAccountController_Delete A cx = reply BoolData (Account_Delete (cx_user cx)
     \<lparr>gmaq_user_id = caller cx, gmaq_id = cx_params cx ''accountId''\<rparr>)"

definition MailAccountController_Verify :: http_handler_fun where
  "MailAccountController_Verify A cx = reply VerifyAccountData (Account_Verify (ap_accounts A) (cx_user cx)
     \<lparr>gmaq_user_id = caller cx, gmaq_id = cx_params cx ''accountId''\<rparr>)"

definition MailAccountController_Sync :: http_handler_fun where
  "MailAccountController_Sync A cx = reply SyncData (Sync (ap_accounts A)
     \<lparr>gmaq_user_id = caller cx, gmaq_id = cx_params cx ''accountId''\<rparr>)"

definition MailAccountController_Folders :: http_handler_fun where
  "MailAccountController_Folders A cx = reply FoldersData (Folders (ap_accounts A)
     \<lparr>gmaq_user_id = caller cx, gmaq_id = cx_params cx ''accountId''\<rparr>)"

definition MailAccountController_SyncRuns :: http_handler_fun where
  "MailAccountController_SyncRuns A cx = paged SyncRunsData (ListSyncRuns
     \<lparr>gmaq_user_id = caller cx, gmaq_id = cx_params cx ''accountId''\<rparr> (fst (paging cx)) (snd (paging cx)))"

definition MailAccountController_OAuthAuthorize :: http_handler_fun where
  "MailAccountController_OAuthAuthorize A cx = reply AuthorizeData (Authorize (ap_accounts A)
     \<lparr>oaq_user_id = caller cx, oaq_provider = cx_params cx ''provider''\<rparr>)"

definition MailAccountController_OAuthReauthorize :: http_handler_fun where
  "MailAccountController_OAuthReauthorize A cx = reply AuthorizeData (Reauthorize (ap_accounts A)
     \<lparr>orq_user_id = caller cx, orq_id = cx_params cx ''accountId''\<rparr>)"

definition MailAccountController_OAuthCallback :: http_handler_fun where
  "MailAccountController_OAuthCallback A cx = State_Monad.bind (Callback (ap_accounts A) (cx_user cx)
     \<lparr>ocq_provider = cx_params cx ''provider'', ocq_code = cx_query cx ''code'',
       ocq_state = cx_query cx ''state'', ocq_denied = (cx_query cx ''error'' = ''access_denied'')\<rparr>)
     (\<lambda>url. returnE \<lparr>wr_status = 302, wr_data = None, wr_paging = None,
       wr_headers = [(''Location'', url)]\<rparr>)"

subsection \<open>notifier\_controller.go\<close>

definition NotifierController_List :: http_handler_fun where
  "NotifierController_List A cx = paged NotifiersData (Notifier_List (ap_notifiers A)
     \<lparr>lnq_page = fst (paging cx), lnq_size = snd (paging cx), lnq_user_id = caller cx,
       lnq_type = cx_query cx ''type'', lnq_status = cx_query cx ''status''\<rparr>)"

definition NotifierController_Create :: http_handler_fun where
  "NotifierController_Create A cx = bindE (body_of bp_create_notifier A cx) (\<lambda>request.
     created NotifierData (Notifier_Create (ap_notifiers A) (cx_user cx) (request\<lparr>cnq_user_id := caller cx\<rparr>)))"

definition NotifierController_Get :: http_handler_fun where
  "NotifierController_Get A cx = reply NotifierData (Notifier_Get
     \<lparr>gnq_user_id = caller cx, gnq_id = cx_params cx ''notifierId''\<rparr>)"

definition NotifierController_Update :: http_handler_fun where
  "NotifierController_Update A cx = bindE (body_of bp_update_notifier A cx) (\<lambda>request.
     reply NotifierData (Notifier_Update (ap_notifiers A) (cx_user cx)
       (request\<lparr>unq_user_id := caller cx, unq_id := cx_params cx ''notifierId''\<rparr>)))"

definition NotifierController_Delete :: http_handler_fun where
  "NotifierController_Delete A cx = reply BoolData (Notifier_Delete (cx_user cx)
     \<lparr>gnq_user_id = caller cx, gnq_id = cx_params cx ''notifierId''\<rparr>)"

definition NotifierController_Verify :: http_handler_fun where
  "NotifierController_Verify A cx = reply VerifyNotifierData (Verify (ap_notifiers A) (cx_user cx)
     ((body_or_zero bp_verify_notifier A cx)\<lparr>vnq_user_id := caller cx,
       vnq_id := cx_params cx ''notifierId''\<rparr>))"

definition NotifierController_Test :: http_handler_fun where
  "NotifierController_Test A cx = reply TestNotifierData (Notifier_Test (ap_notifiers A)
     \<lparr>gnq_user_id = caller cx, gnq_id = cx_params cx ''notifierId''\<rparr>)"

definition NotifierController_TelegramWebhook :: http_handler_fun where
  "NotifierController_TelegramWebhook A cx = (case bp_telegram (ap_body A) cx of (failed,
       request) \<Rightarrow>
     if failed then returnE (answer 200 (BoolData True))
     else State_Monad.bind (HandleTelegramUpdate (ap_notifiers A) (cx_user cx) request) (\<lambda>r. case r of
         Inl (Panic e) \<Rightarrow> failE (Panic e)
       | _ \<Rightarrow> returnE (answer 200 (BoolData True))))"

subsection \<open>watcher\_controller.go\<close>

definition WatcherController_List :: http_handler_fun where
  "WatcherController_List A cx = paged WatchersData (Watcher_List (ap_watchers A)
     \<lparr>lwq_page = fst (paging cx), lwq_size = snd (paging cx), lwq_user_id = caller cx,
       lwq_status = cx_query cx ''status'', lwq_mail_account_id = cx_query cx ''mail_account_id'',
         lwq_query = cx_query cx ''q''\<rparr>)"

definition WatcherController_Create :: http_handler_fun where
  "WatcherController_Create A cx = bindE (body_of bp_create_watcher A cx) (\<lambda>request.
     created WatcherData (Watcher_Create (ap_watchers A) (cx_user cx) (request\<lparr>cwq_user_id := caller cx\<rparr>)))"

definition WatcherController_Get :: http_handler_fun where
  "WatcherController_Get A cx = reply WatcherData (Watcher_Get
     \<lparr>gwq_user_id = caller cx, gwq_id = cx_params cx ''watcherId''\<rparr>)"

definition WatcherController_Update :: http_handler_fun where
  "WatcherController_Update A cx = bindE (body_of bp_update_watcher A cx) (\<lambda>request.
     reply WatcherData (Watcher_Update (ap_watchers A) (cx_user cx)
       (request\<lparr>uwq_user_id := caller cx, uwq_id := cx_params cx ''watcherId''\<rparr>)))"

definition WatcherController_Delete :: http_handler_fun where
  "WatcherController_Delete A cx = reply BoolData (Watcher_Delete (cx_user cx)
     \<lparr>gwq_user_id = caller cx, gwq_id = cx_params cx ''watcherId''\<rparr>)"

definition WatcherController_setStatus :: "string \<Rightarrow> http_handler_fun" where
  "WatcherController_setStatus status A cx = reply WatcherData (SetStatus (ap_watchers A) (cx_user cx)
     \<lparr>swsq_user_id = caller cx, swsq_id = cx_params cx ''watcherId'', swsq_status = status\<rparr>)"

definition WatcherController_Archive :: http_handler_fun where
  "WatcherController_Archive A cx = WatcherController_setStatus WatcherStatusArchived A cx"

definition WatcherController_Restore :: http_handler_fun where
  "WatcherController_Restore A cx = WatcherController_setStatus WatcherStatusPaused A cx"

definition WatcherController_Pause :: http_handler_fun where
  "WatcherController_Pause A cx = WatcherController_setStatus WatcherStatusPaused A cx"

definition WatcherController_Resume :: http_handler_fun where
  "WatcherController_Resume A cx = WatcherController_setStatus WatcherStatusActive A cx"

definition WatcherController_GetFilters :: http_handler_fun where
  "WatcherController_GetFilters A cx = reply FiltersData (GetFilters
     \<lparr>gwq_user_id = caller cx, gwq_id = cx_params cx ''watcherId''\<rparr>)"

definition WatcherController_ReplaceFilters :: http_handler_fun where
  "WatcherController_ReplaceFilters A cx = bindE (body_of bp_filters A cx) (\<lambda>request.
     reply FiltersData (ReplaceFilters (ap_watchers A) (cx_user cx)
       (request\<lparr>rfq_user_id := caller cx, rfq_watcher_id := cx_params cx ''watcherId''\<rparr>)))"

definition WatcherController_Test :: http_handler_fun where
  "WatcherController_Test A cx = reply TestWatcherData (Watcher_Test (ap_watchers A)
     ((body_or_zero bp_test_watcher A cx)\<lparr>twq_user_id := caller cx, twq_id := cx_params cx ''watcherId''\<rparr>))"

definition WatcherController_Stats :: http_handler_fun where
  "WatcherController_Stats A cx = reply WatcherStatsData (Watcher_Stats (ap_watchers A)
     \<lparr>wsq_user_id = caller cx, wsq_id = cx_params cx ''watcherId'',
       wsq_days = cx_query_int cx ''days'' 30\<rparr>)"

subsection \<open>watcher\_event\_controller.go\<close>

definition WatcherEventController_List :: http_handler_fun where
  "WatcherEventController_List A cx = reply EventsData (Event_List (ap_events A)
     \<lparr>lweq_user_id = caller cx, lweq_watcher_id = cx_params cx ''watcherId''\<rparr>)"

definition WatcherEventController_Create :: http_handler_fun where
  "WatcherEventController_Create A cx = bindE (body_of bp_create_event A cx) (\<lambda>request.
     created EventData (Event_Create (ap_events A) (cx_user cx)
       (request\<lparr>cweq_user_id := caller cx, cweq_watcher_id := cx_params cx ''watcherId''\<rparr>)))"

definition WatcherEventController_Get :: http_handler_fun where
  "WatcherEventController_Get A cx = reply EventData (Event_Get
     \<lparr>gweq_user_id = caller cx, gweq_watcher_id = cx_params cx ''watcherId'',
       gweq_id = cx_params cx ''eventId''\<rparr>)"

definition WatcherEventController_Update :: http_handler_fun where
  "WatcherEventController_Update A cx = bindE (body_of bp_update_event A cx) (\<lambda>request.
     reply EventData (Event_Update (ap_events A) (cx_user cx)
       (request\<lparr>uweq_user_id := caller cx, uweq_watcher_id := cx_params cx ''watcherId'',
         uweq_id := cx_params cx ''eventId''\<rparr>)))"

definition WatcherEventController_Delete :: http_handler_fun where
  "WatcherEventController_Delete A cx = reply BoolData (Event_Delete (cx_user cx)
     \<lparr>gweq_user_id = caller cx, gweq_watcher_id = cx_params cx ''watcherId'',
       gweq_id = cx_params cx ''eventId''\<rparr>)"

definition WatcherEventController_Reorder :: http_handler_fun where
  "WatcherEventController_Reorder A cx = bindE (body_of bp_reorder A cx) (\<lambda>request.
     reply EventsData (Event_Reorder (ap_events A)
       (request\<lparr>rweq_user_id := caller cx, rweq_watcher_id := cx_params cx ''watcherId''\<rparr>)))"

definition WatcherEventController_Test :: http_handler_fun where
  "WatcherEventController_Test A cx = reply RunData (Event_Test (ap_events A)
     ((body_or_zero bp_test_event A cx)\<lparr>tweq_user_id := caller cx,
       tweq_watcher_id := cx_params cx ''watcherId'',
       tweq_id := cx_params cx ''eventId''\<rparr>))"

subsection \<open>activity\_controller.go\<close>

definition ActivityController_ListMatches :: http_handler_fun where
  "ActivityController_ListMatches A cx = paged MatchesData (ListMatches (ap_activity A)
     \<lparr>lmeq_page = fst (paging cx), lmeq_size = snd (paging cx), lmeq_user_id = caller cx,
       lmeq_watcher_id = cx_query cx ''watcher_id'', lmeq_mail_account_id = cx_query cx ''mail_account_id'',
         lmeq_from = queryMillis cx ''from'', lmeq_to = queryMillis cx ''to'',
           lmeq_query = cx_query cx ''q''\<rparr>)"

definition ActivityController_GetMatch :: http_handler_fun where
  "ActivityController_GetMatch A cx = reply MatchData (GetMatch \<lparr>gmeq_user_id = caller cx,
       gmeq_id = cx_params cx ''matchId''\<rparr>)"

definition ActivityController_ListRuns :: http_handler_fun where
  "ActivityController_ListRuns A cx = paged RunsData (ListRuns (ap_activity A)
     \<lparr>lerq_page = fst (paging cx), lerq_size = snd (paging cx), lerq_user_id = caller cx,
       lerq_watcher_id = cx_query cx ''watcher_id'', lerq_status = cx_query cx ''status'',
         lerq_from = queryMillis cx ''from'', lerq_to = queryMillis cx ''to''\<rparr>)"

definition ActivityController_GetRun :: http_handler_fun where
  "ActivityController_GetRun A cx = reply RunData (GetRun (caller cx) (cx_params cx ''runId''))"

definition ActivityController_RetryRun :: http_handler_fun where
  "ActivityController_RetryRun A cx = reply RunData (Retry (ap_activity A) \<lparr>eraq_user_id = caller cx, eraq_id = cx_params cx ''runId''\<rparr>)"

definition ActivityController_CancelRun :: http_handler_fun where
  "ActivityController_CancelRun A cx = reply CancelData (Cancel (cx_user cx)
     \<lparr>eraq_user_id = caller cx, eraq_id = cx_params cx ''runId''\<rparr>)"

definition ActivityController_AckRun :: http_handler_fun where
  "ActivityController_AckRun A cx = reply AckData (Ack (cx_user cx) \<lparr>eraq_user_id = caller cx,
       eraq_id = cx_params cx ''runId''\<rparr>)"

definition ActivityController_ListDeliveries :: http_handler_fun where
  "ActivityController_ListDeliveries A cx = paged DeliveriesData (ListDeliveries (ap_activity A)
     \<lparr>ldq_page = fst (paging cx), ldq_size = snd (paging cx), ldq_user_id = caller cx,
       ldq_event_run_id = cx_query cx ''event_run_id'', ldq_notifier_id = cx_query cx ''notifier_id'',
         ldq_status = cx_query cx ''status''\<rparr>)"

definition ActivityController_DashboardSummary :: http_handler_fun where
  "ActivityController_DashboardSummary A cx = reply DashboardData (Dashboard (ap_activity A) \<lparr>dsq_user_id = caller cx\<rparr>)"

subsection \<open>admin\_controller.go\<close>

definition AdminController_Stats :: http_handler_fun where
  "AdminController_Stats A cx = reply AdminStatsData Stats"

definition AdminController_ListUsers :: http_handler_fun where
  "AdminController_ListUsers A cx = paged AdminUsersData (ListUsers (ap_admin A)
     \<lparr>lauq_page = fst (paging cx), lauq_size = snd (paging cx), lauq_query = cx_query cx ''q'',
       lauq_role = cx_query cx ''role'', lauq_status = cx_query cx ''status''\<rparr>)"

definition AdminController_GetUser :: http_handler_fun where
  "AdminController_GetUser A cx = reply AdminUserData (Admin_GetUser (ap_admin A) \<lparr>gauq_id = cx_params cx ''userId''\<rparr>)"

definition AdminController_UpdateUser :: http_handler_fun where
  "AdminController_UpdateUser A cx = bindE (body_of bp_admin_user A cx) (\<lambda>request.
     reply AdminUserData (UpdateUser (ap_admin A) (cx_user cx)
       (request\<lparr>uauq_actor_id := caller cx, uauq_id := cx_params cx ''userId''\<rparr>)))"

definition AdminController_setStatus :: "string \<Rightarrow> http_handler_fun" where
  "AdminController_setStatus status A cx = reply SuspendData (SetUserStatus (ap_admin A) (cx_user cx)
     \<lparr>sausq_actor_id = caller cx, sausq_id = cx_params cx ''userId'', sausq_status = status\<rparr>)"

definition AdminController_SuspendUser :: http_handler_fun where
  "AdminController_SuspendUser A cx = AdminController_setStatus UserStatusSuspended A cx"

definition AdminController_RestoreUser :: http_handler_fun where
  "AdminController_RestoreUser A cx = AdminController_setStatus UserStatusActive A cx"

definition AdminController_Impersonate :: http_handler_fun where
  "AdminController_Impersonate A cx = reply ImpersonateData (Impersonate (ap_admin A) (cx_user cx)
     \<lparr>imq_actor_id = caller cx, imq_id = cx_params cx ''userId'',
       imq_user_agent = cx_header cx ''User-Agent'', imq_ip = clientIP cx\<rparr>)"

definition AdminController_ListWatchers :: http_handler_fun where
  "AdminController_ListWatchers A cx = paged WatchersData (Watcher_List (ap_watchers A)
     \<lparr>lwq_page = fst (paging cx), lwq_size = snd (paging cx), lwq_user_id = cx_query cx ''user_id'',
       lwq_status = cx_query cx ''status'', lwq_mail_account_id = cx_query cx ''mail_account_id'',
         lwq_query = cx_query cx ''q''\<rparr>)"

definition AdminController_ListMailAccounts :: http_handler_fun where
  "AdminController_ListMailAccounts A cx = paged AccountsData (Account_List (ap_accounts A)
     \<lparr>lmaq_page = fst (paging cx), lmaq_size = snd (paging cx), lmaq_user_id = cx_query cx ''user_id'',
       lmaq_status = cx_query cx ''status'', lmaq_provider = cx_query cx ''provider''\<rparr>)"

definition AdminController_ListNotifiers :: http_handler_fun where
  "AdminController_ListNotifiers A cx = paged NotifiersData (Notifier_List (ap_notifiers A)
     \<lparr>lnq_page = fst (paging cx), lnq_size = snd (paging cx), lnq_user_id = cx_query cx ''user_id'',
       lnq_type = cx_query cx ''type'', lnq_status = cx_query cx ''status''\<rparr>)"

definition AdminController_ListRuns :: http_handler_fun where
  "AdminController_ListRuns A cx = paged RunsData (ListRuns (ap_activity A)
     \<lparr>lerq_page = fst (paging cx), lerq_size = snd (paging cx), lerq_user_id = cx_query cx ''user_id'',
       lerq_watcher_id = cx_query cx ''watcher_id'', lerq_status = cx_query cx ''status'',
         lerq_from = queryMillis cx ''from'', lerq_to = queryMillis cx ''to''\<rparr>)"

definition AdminController_ListAuditLogs :: http_handler_fun where
  "AdminController_ListAuditLogs A cx = paged AuditLogsData (Audit_List (ap_valid_audit A)
     \<lparr>lalq_page = fst (paging cx), lalq_size = snd (paging cx),
       lalq_actor_user_id = cx_query cx ''actor_user_id'', lalq_action = cx_query cx ''action'',
         lalq_entity_type = cx_query cx ''entity_type'', lalq_from = queryMillis cx ''from'',
           lalq_to = queryMillis cx ''to''\<rparr>)"

end
