(* ===== verification/Routes.thy ===== *)
theory Routes
  imports Controllers
begin

text \<open>
  The HTTP surface: the route table of internal/delivery/http/route/route.go, the middleware
  before the handlers, and the error handler of internal/config/fiber.go.  How fiber matches a
  method and a pattern, or a prefix, against a request is the parameter \<open>router\<close>; that it goes
  through what was registered in that order, a group's middleware included, is modelled.
\<close>

subsection \<open>Middleware\<close>

text \<open>An answer, or a refusal: headers already set, and the error\<close>

type_synonym refusal = "(string \<times> string) list \<times> err"
type_synonym outcome = "refusal + web_response"

text \<open>A middleware ends the request or hands the context on.\<close>

type_synonym middleware = "app \<Rightarrow> http_ctx \<Rightarrow> (outcome + http_ctx) io"

definition AuthMiddleware :: middleware where
  "AuthMiddleware A cx = State_Monad.bind (NewAuth (ap_users A) (cx_header cx ''Authorization'')) (\<lambda>r. ret (case r of
      Inl e \<Rightarrow> Inl (Inl ([], e))
    | Inr (a, token) \<Rightarrow> Inr (cx\<lparr>cx_user := Some a, cx_token := token\<rparr>)))"

definition RequireRole :: "string list \<Rightarrow> middleware" where
  "RequireRole slugs A cx = ret (case NewRequireRole slugs (cx_user cx) of
      Inl e \<Rightarrow> Inl (Inl ([], e)) | Inr _ \<Rightarrow> Inr cx)"

definition RateLimit :: "string \<Rightarrow> int \<Rightarrow> int \<Rightarrow> middleware" where
  "RateLimit scope limit window A cx = State_Monad.bind (NewRateLimit scope limit window (cx_ip cx)) (\<lambda>r. ret (case r of
      None \<Rightarrow> Inr cx
    | Some (retryAfter, e) \<Rightarrow> Inl (Inl ([(''Retry-After'', retryAfter)], e))))"

record cors_config =
  co_allow_origins :: string
  co_allow_methods :: string
  co_allow_headers :: string
  co_expose_headers :: string
  co_allow_credentials :: bool
  co_max_age :: int

text \<open>\<open>ro_match method pattern cx\<close> gives the path parameters when a route matches; \<open>ro_cors\<close> is
  fiber's CORS middleware, which may answer a preflight; the headers it adds to other answers
  are left out.\<close>

record router =
  ro_match :: "string \<Rightarrow> string \<Rightarrow> http_ctx \<Rightarrow> (string \<Rightarrow> string) option"
  ro_prefix :: "string \<Rightarrow> http_ctx \<Rightarrow> bool"
  ro_unmatched :: "http_ctx \<Rightarrow> err"
  ro_cors :: "cors_config \<Rightarrow> http_ctx \<Rightarrow> web_response option"

definition NewCORS :: "string list \<Rightarrow> cors_config" where
  "NewCORS origins = \<lparr>co_allow_origins = join '','' origins,
     co_allow_methods = join '','' [''GET'', ''POST'', ''PUT'', ''PATCH'', ''DELETE'', ''OPTIONS''],
     co_allow_headers = join '','' [''Authorization'', ''Content-Type''], co_expose_headers = ''Retry-After'',
     co_allow_credentials = False, co_max_age = 3600\<rparr>"

definition CORS :: "router \<Rightarrow> string list \<Rightarrow> middleware" where
  "CORS R origins A cx = ret (case ro_cors R (NewCORS origins) cx of
      None \<Rightarrow> Inr cx | Some r \<Rightarrow> Inl (Inr r))"

subsection \<open>route.go\<close>

datatype route =
    Use string "middleware list"
  | Route string string "middleware list" http_handler_fun

record route_config =
  rc_docs_enabled :: bool
  rc_cors_origins :: "string list"
  rc_login_rate :: "int \<times> int"
  rc_forgot_rate :: "int \<times> int"

abbreviation rget :: "string \<Rightarrow> http_handler_fun \<Rightarrow> route" where "rget p h \<equiv> Route ''GET'' p [] h"
abbreviation rpost :: "string \<Rightarrow> http_handler_fun \<Rightarrow> route" where "rpost p h \<equiv> Route ''POST'' p [] h"
abbreviation rput :: "string \<Rightarrow> http_handler_fun \<Rightarrow> route" where "rput p h \<equiv> Route ''PUT'' p [] h"
abbreviation rpatch :: "string \<Rightarrow> http_handler_fun \<Rightarrow> route" where "rpatch p h \<equiv> Route ''PATCH'' p [] h"
abbreviation rdelete :: "string \<Rightarrow> http_handler_fun \<Rightarrow> route" where "rdelete p h \<equiv> Route ''DELETE'' p [] h"

definition SetupCORS :: "router \<Rightarrow> route_config \<Rightarrow> route list" where
  "SetupCORS R c = (if rc_cors_origins c = [] then [] else [Use ''/'' [CORS R (rc_cors_origins c)]])"

definition SetupPublicRoute :: "route_config \<Rightarrow> route list" where
  "SetupPublicRoute c =
     [rget ''/api/health'' CatalogController_Health,
      rpost ''/api/users'' UserController_Register,
      Route ''POST'' ''/api/users/_login''
        [RateLimit ''login'' (fst (rc_login_rate c)) (snd (rc_login_rate c))] UserController_Login,
      Route ''POST'' ''/api/users/_forgot-password''
        [RateLimit ''forgot-password'' (fst (rc_forgot_rate c)) (snd (rc_forgot_rate c))] UserController_ForgotPassword,
      rpost ''/api/users/_reset-password'' UserController_ResetPassword,
      rget ''/api/mail-accounts/oauth/:provider/_callback'' MailAccountController_OAuthCallback,
      rpost ''/api/webhooks/telegram'' NotifierController_TelegramWebhook]"

definition SetupDocsRoute :: "route_config \<Rightarrow> route list" where
  "SetupDocsRoute c = (if rc_docs_enabled c
     then [rget ''/api/openapi.yaml'' DocsController_Spec, rget ''/api/docs'' DocsController_UI] else [])"

definition auth_routes :: "route list" where
  "auth_routes =
     [rdelete ''/api/users'' UserController_Logout,
      rget ''/api/users/_current'' UserController_Current,
      rpatch ''/api/users/_current'' UserController_Update,
      rget ''/api/users/_sessions'' UserController_ListSessions,
      rdelete ''/api/users/_sessions/:sessionId'' UserController_RevokeSession,
      rget ''/api/mail-provider-types'' CatalogController_MailProviderTypes,
      rget ''/api/event-types'' CatalogController_EventTypes,
      rget ''/api/notifier-types'' CatalogController_NotifierTypes,
      rget ''/api/filter-fields'' CatalogController_FilterFields,
      rget ''/api/mail-accounts'' MailAccountController_List,
      rpost ''/api/mail-accounts'' MailAccountController_Create,
      rget ''/api/mail-accounts/oauth/:provider/_authorize'' MailAccountController_OAuthAuthorize,
      rget ''/api/mail-accounts/:accountId'' MailAccountController_Get,
      rpatch ''/api/mail-accounts/:accountId'' MailAccountController_Update,
      rdelete ''/api/mail-accounts/:accountId'' MailAccountController_Delete,
      rpost ''/api/mail-accounts/:accountId/_verify'' MailAccountController_Verify,
      rpost ''/api/mail-accounts/:accountId/_sync'' MailAccountController_Sync,
      rpost ''/api/mail-accounts/:accountId/_reauthorize'' MailAccountController_OAuthReauthorize,
      rget ''/api/mail-accounts/:accountId/folders'' MailAccountController_Folders,
      rget ''/api/mail-accounts/:accountId/sync-runs'' MailAccountController_SyncRuns,
      rget ''/api/notifiers'' NotifierController_List,
      rpost ''/api/notifiers'' NotifierController_Create,
      rget ''/api/notifiers/:notifierId'' NotifierController_Get,
      rpatch ''/api/notifiers/:notifierId'' NotifierController_Update,
      rdelete ''/api/notifiers/:notifierId'' NotifierController_Delete,
      rpost ''/api/notifiers/:notifierId/_verify'' NotifierController_Verify,
      rpost ''/api/notifiers/:notifierId/_test'' NotifierController_Test,
      rget ''/api/watchers'' WatcherController_List,
      rpost ''/api/watchers'' WatcherController_Create,
      rget ''/api/watchers/:watcherId'' WatcherController_Get,
      rpatch ''/api/watchers/:watcherId'' WatcherController_Update,
      rdelete ''/api/watchers/:watcherId'' WatcherController_Delete,
      rpost ''/api/watchers/:watcherId/_archive'' WatcherController_Archive,
      rpost ''/api/watchers/:watcherId/_restore'' WatcherController_Restore,
      rpost ''/api/watchers/:watcherId/_pause'' WatcherController_Pause,
      rpost ''/api/watchers/:watcherId/_resume'' WatcherController_Resume,
      rpost ''/api/watchers/:watcherId/_test'' WatcherController_Test,
      rget ''/api/watchers/:watcherId/stats'' WatcherController_Stats,
      rget ''/api/watchers/:watcherId/filters'' WatcherController_GetFilters,
      rput ''/api/watchers/:watcherId/filters'' WatcherController_ReplaceFilters,
      rget ''/api/watchers/:watcherId/events'' WatcherEventController_List,
      rpost ''/api/watchers/:watcherId/events'' WatcherEventController_Create,
      rpost ''/api/watchers/:watcherId/events/_reorder'' WatcherEventController_Reorder,
      rget ''/api/watchers/:watcherId/events/:eventId'' WatcherEventController_Get,
      rpatch ''/api/watchers/:watcherId/events/:eventId'' WatcherEventController_Update,
      rdelete ''/api/watchers/:watcherId/events/:eventId'' WatcherEventController_Delete,
      rpost ''/api/watchers/:watcherId/events/:eventId/_test'' WatcherEventController_Test,
      rget ''/api/matches'' ActivityController_ListMatches,
      rget ''/api/matches/:matchId'' ActivityController_GetMatch,
      rget ''/api/event-runs'' ActivityController_ListRuns,
      rget ''/api/event-runs/:runId'' ActivityController_GetRun,
      rpost ''/api/event-runs/:runId/_retry'' ActivityController_RetryRun,
      rpost ''/api/event-runs/:runId/_cancel'' ActivityController_CancelRun,
      rpost ''/api/event-runs/:runId/_ack'' ActivityController_AckRun,
      rget ''/api/deliveries'' ActivityController_ListDeliveries,
      rget ''/api/dashboard/summary'' ActivityController_DashboardSummary]"

definition SetupAuthRoute :: "route list" where
  "SetupAuthRoute = Use ''/api'' [AuthMiddleware] # auth_routes"

definition admin_routes :: "route list" where
  "admin_routes =
     [rget ''/api/admin/stats'' AdminController_Stats,
      rget ''/api/admin/users'' AdminController_ListUsers,
      rget ''/api/admin/users/:userId'' AdminController_GetUser,
      rpatch ''/api/admin/users/:userId'' AdminController_UpdateUser,
      rpost ''/api/admin/users/:userId/_suspend'' AdminController_SuspendUser,
      rpost ''/api/admin/users/:userId/_restore'' AdminController_RestoreUser,
      rpost ''/api/admin/users/:userId/_impersonate'' AdminController_Impersonate,
      rget ''/api/admin/watchers'' AdminController_ListWatchers,
      rget ''/api/admin/mail-accounts'' AdminController_ListMailAccounts,
      rget ''/api/admin/notifiers'' AdminController_ListNotifiers,
      rget ''/api/admin/event-runs'' AdminController_ListRuns,
      rget ''/api/admin/audit-logs'' AdminController_ListAuditLogs]"

definition SetupAdminRoute :: "route list" where
  "SetupAdminRoute = Use ''/api/admin'' [AuthMiddleware, RequireRole [RoleSuperadmin]] # admin_routes"

definition Setup :: "router \<Rightarrow> route_config \<Rightarrow> route list" where
  "Setup R c = SetupCORS R c @ SetupPublicRoute c @ SetupDocsRoute c @ SetupAuthRoute @ SetupAdminRoute"

subsection \<open>Serving a request\<close>

fun through :: "middleware list \<Rightarrow> middleware" where
  "through [] A cx = ret (Inr cx)"
| "through (m # ms) A cx = State_Monad.bind (m A cx) (\<lambda>r. case r of
      Inl out \<Rightarrow> ret (Inl out) | Inr cx' \<Rightarrow> through ms A cx')"

definition run_handler :: "http_handler_fun \<Rightarrow> app \<Rightarrow> http_ctx \<Rightarrow> outcome io" where
  "run_handler h A cx = State_Monad.bind (h A cx) (\<lambda>r. ret (case r of Inl e \<Rightarrow> Inl ([], e) | Inr a \<Rightarrow> Inr a))"

fun dispatch :: "router \<Rightarrow> app \<Rightarrow> route list \<Rightarrow> http_ctx \<Rightarrow> outcome io" where
  "dispatch R A [] cx = ret (Inl ([], ro_unmatched R cx))"
| "dispatch R A (Use pre ms # rs) cx =
     (if ro_prefix R pre cx then State_Monad.bind (through ms A cx) (\<lambda>r. case r of
          Inl out \<Rightarrow> ret out | Inr cx' \<Rightarrow> dispatch R A rs cx')
      else dispatch R A rs cx)"
| "dispatch R A (Route method pattern ms h # rs) cx = (case ro_match R method pattern cx of
     None \<Rightarrow> dispatch R A rs cx
   | Some params \<Rightarrow> State_Monad.bind (through ms A (cx\<lparr>cx_params := params\<rparr>)) (\<lambda>r. case r of
       Inl out \<Rightarrow> ret out | Inr cx' \<Rightarrow> run_handler h A cx'))"

text \<open>\<open>NewErrorHandler\<close>; a panic is no error value: nothing recovers it and no answer is sent.\<close>

definition NewErrorHandler :: "refusal \<Rightarrow> web_response option" where
  "NewErrorHandler r = (case snd r of
      Panic _ \<Rightarrow> None
    | HttpErr code text \<Rightarrow> Some \<lparr>wr_status = code, wr_data = Some (ErrorData text), wr_paging = None, wr_headers = fst r\<rparr>
    | e \<Rightarrow> Some \<lparr>wr_status = 500, wr_data = Some (ErrorData (err_text e)), wr_paging = None, wr_headers = fst r\<rparr>)"

definition serve :: "router \<Rightarrow> route_config \<Rightarrow> app \<Rightarrow> http_ctx \<Rightarrow> web_response option io" where
  "serve R c A cx = State_Monad.bind (dispatch R A (Setup R c) (cx\<lparr>cx_user := None, cx_token := []\<rparr>)) (\<lambda>out.
     ret (case out of Inl r \<Rightarrow> NewErrorHandler r | Inr a \<Rightarrow> Some a))"

subsection \<open>Who gets through\<close>

text \<open>No route of the list takes the request.\<close>

definition passes :: "router \<Rightarrow> route list \<Rightarrow> http_ctx \<Rightarrow> bool" where
  "passes R rs cx \<longleftrightarrow> list_all (\<lambda>r. case r of Use _ _ \<Rightarrow> True
     | Route method pattern _ _ \<Rightarrow> ro_match R method pattern cx = None) rs"

text \<open>What fiber promises: matching looks at the method and the path of a request only.\<close>

definition path_only :: "router \<Rightarrow> bool" where
  "path_only R \<longleftrightarrow> (\<forall>cx cx'. cx_method cx = cx_method cx' \<and> cx_path cx = cx_path cx' \<longrightarrow>
     (\<forall>m p. ro_match R m p cx = ro_match R m p cx') \<and> (\<forall>p. ro_prefix R p cx = ro_prefix R p cx'))"

definition routes_only :: "route list \<Rightarrow> bool" where
  "routes_only rs \<longleftrightarrow> list_all (\<lambda>r. case r of Use _ _ \<Rightarrow> False | _ \<Rightarrow> True) rs"

lemma dispatch_passes:
  "routes_only rs \<Longrightarrow> passes R rs cx \<Longrightarrow> dispatch R A (rs @ rest) cx = dispatch R A rest cx"
proof (induction rs)
  case (Cons r rs)
  then show ?case by (cases r) (auto simp: routes_only_def passes_def)
qed simp

lemma routes_only_setup [simp]:
  "routes_only (SetupPublicRoute c)" "routes_only (SetupDocsRoute c)" "routes_only auth_routes"
  "routes_only admin_routes"
  by (simp_all add: routes_only_def SetupPublicRoute_def SetupDocsRoute_def auth_routes_def admin_routes_def)

lemma routes_only_append [simp]: "routes_only (xs @ ys) \<longleftrightarrow> routes_only xs \<and> routes_only ys"
  by (simp add: routes_only_def)

lemma passes_append [simp]: "passes R (xs @ ys) cx \<longleftrightarrow> passes R xs cx \<and> passes R ys cx"
  by (auto simp: passes_def)

lemma path_onlyD:
  assumes "path_only R" "cx_method cx = cx_method cx'" "cx_path cx = cx_path cx'"
  shows "ro_match R m p cx = ro_match R m p cx'" "ro_prefix R p cx = ro_prefix R p cx'"
  using assms unfolding path_only_def by blast+

lemma passes_cong:
  assumes "path_only R" "cx_method cx = cx_method cx'" "cx_path cx = cx_path cx'"
  shows "passes R rs cx = passes R rs cx'"
  unfolding passes_def path_onlyD(1) [OF assms] ..

definition finish :: "outcome io \<Rightarrow> web_response option io" where
  "finish m = State_Monad.bind m (\<lambda>out. ret (case out of Inl r \<Rightarrow> NewErrorHandler r | Inr a \<Rightarrow> Some a))"

definition signed_in :: "http_ctx \<Rightarrow> auth \<times> string \<Rightarrow> http_ctx" where
  "signed_in cx at = cx\<lparr>cx_user := Some (fst at), cx_token := snd at\<rparr>"

abbreviation authenticate_request :: "app \<Rightarrow> http_ctx \<Rightarrow> (auth \<times> string) ioE" where
  "authenticate_request A cx \<equiv> NewAuth (ap_users A) (cx_header cx ''Authorization'')"

lemma signed_in_simps [simp]:
  "cx_user (signed_in cx at) = Some (fst at)" "cx_header (signed_in cx at) = cx_header cx"
  "cx_method (signed_in cx at) = cx_method cx" "cx_path (signed_in cx at) = cx_path cx"
  by (simp_all add: signed_in_def)

lemma run_AuthMiddleware:
  "run_state (AuthMiddleware A cx) w = (case run_state (authenticate_request A cx) w of
     (Inl e, w') \<Rightarrow> (Inl (Inl ([], e)), w') | (Inr at, w') \<Rightarrow> (Inr (signed_in cx at), w'))"
  by (simp add: AuthMiddleware_def signed_in_def split: prod.splits sum.splits)

lemma cors_passes:
  "ro_cors R (NewCORS (rc_cors_origins c)) cx = None
     \<Longrightarrow> dispatch R A (SetupCORS R c @ rest) cx = dispatch R A rest cx"
  by (simp add: SetupCORS_def CORS_def)

text \<open>What resolving a token may write: when the session was last used\<close>

definition unused :: "user_session \<Rightarrow> user_session" where
  "unused s = s\<lparr>us_last_used_at := 0, us_updated_at := 0\<rparr>"

definition last_used_only :: "database \<Rightarrow> database \<Rightarrow> bool" where
  "last_used_only d d' \<longleftrightarrow> (\<exists>ss. d' = d\<lparr>sessions_of := ss\<rparr> \<and> map unused ss = map unused (sessions_of d))"

lemma last_used_only_refl: "last_used_only d d"
  unfolding last_used_only_def by (rule exI [of _ "sessions_of d"]) simp

lemma last_used_only_touch:
  assumes "last_used_only d d'" "\<And>x. unused (f x) = unused x"
  shows "last_used_only d (d'\<lparr>sessions_of := update_where p f (sessions_of d')\<rparr>)"
  using assms by (auto simp: last_used_only_def map_update_where)

lemma pres_TouchLastUsed: "preserves (db_inv (last_used_only d)) (TouchLastUsed i now)"
  unfolding TouchLastUsed_def
  by (intro pres pres_Repo_UpdateWhere)
     (simp add: sessions_table_def last_used_only_touch unused_def)

lemma pres_NewAuth: "preserves (db_inv (last_used_only d)) (NewAuth U h)"
  unfolding NewAuth_def User_Verify_def session_auth_def store_auth_def touch_def FindActiveByTokenHash_def LoadRoles_def
    tx_commit_def Let_def
  by (intro pres pres_TouchLastUsed)

lemma NewAuth_writes:
  assumes "run_state (NewAuth U h) w = (r, w')" "last_used_only d (wdb w)"
  shows "last_used_only d (wdb w')"
  using preserves_run [OF pres_NewAuth _ assms(1)] assms(2) by (simp add: db_inv_def)

text \<open>C37: The API is guarded by its structure.  A request under /api that none of the public routes
  takes gets an answer only after its token was resolved; and one in the admin area that no user
  route takes, only after the token was resolved again and the caller found to be a superadmin.
  Otherwise the error of the check is the answer, and all that a refused request may have
  changed in the database is when the session of the token was last used.\<close>

theorem admin_area_guarded:
  assumes "path_only R" "ro_cors R (NewCORS (rc_cors_origins c)) (cx\<lparr>cx_user := None, cx_token := []\<rparr>) = None"
    and "ro_prefix R ''/api'' cx" "ro_prefix R ''/api/admin'' cx"
    and "passes R (SetupPublicRoute c @ SetupDocsRoute c) cx" "passes R auth_routes cx"
  shows "case run_state (authenticate_request A cx) w of
       (Inl e, w1) \<Rightarrow> run_state (serve R c A cx) w = (NewErrorHandler ([], e), w1) \<and> last_used_only (wdb w) (wdb w1)
     | (Inr at, w1) \<Rightarrow> (case run_state (authenticate_request A cx) w1 of
         (Inl e, w2) \<Rightarrow> run_state (serve R c A cx) w = (NewErrorHandler ([], e), w2) \<and> last_used_only (wdb w) (wdb w2)
       | (Inr at', w2) \<Rightarrow> last_used_only (wdb w) (wdb w2) \<and> run_state (serve R c A cx) w =
           (if Auth_HasRole (fst at') RoleSuperadmin
            then run_state (finish (dispatch R A admin_routes (signed_in cx at'))) w2
            else (NewErrorHandler ([], HttpErr 403 ''this area needs additional permissions''), w2)))"
proof -
  let ?cx = "cx\<lparr>cx_user := None, cx_token := []\<rparr>"
  have same: "passes R rs ?cx = passes R rs cx" "passes R rs (signed_in ?cx at) = passes R rs cx" for rs at
    by (rule passes_cong [OF assms(1)]; simp)+
  have pre: "ro_prefix R p ?cx = ro_prefix R p cx" "ro_prefix R p (signed_in ?cx at) = ro_prefix R p cx" for p at
    by (rule path_onlyD(2) [OF assms(1)]; simp)+
  have public: "dispatch R A (Setup R c) ?cx = dispatch R A (SetupAuthRoute @ SetupAdminRoute) ?cx"
    unfolding Setup_def cors_passes [OF assms(2)]
    using dispatch_passes [of "SetupPublicRoute c @ SetupDocsRoute c" R ?cx A] assms(5) same by simp
  have user: "dispatch R A (auth_routes @ SetupAdminRoute) (signed_in ?cx at) = dispatch R A SetupAdminRoute (signed_in ?cx at)" for at
    by (rule dispatch_passes) (use assms(6) same in simp_all)
  have twice: "signed_in (signed_in ?cx at) at' = signed_in cx at'" for at at' by (simp add: signed_in_def)
  obtain r1 w1 where one: "run_state (authenticate_request A cx) w = (r1, w1)" by fastforce
  obtain r2 w2 where two: "run_state (authenticate_request A cx) w1 = (r2, w2)" by fastforce
  have db: "last_used_only (wdb w) (wdb w1)" using NewAuth_writes [OF one last_used_only_refl] .
  then have db2: "last_used_only (wdb w) (wdb w2)" by (rule NewAuth_writes [OF two])
  show ?thesis
  proof (cases r1)
    case (Inl e)
    then show ?thesis
      unfolding serve_def public by (simp add: SetupAuthRoute_def pre assms(3) run_AuthMiddleware one db)
  next
    case r1: (Inr at)
    have *: "run_state (serve R c A cx) w = run_state (finish (dispatch R A SetupAdminRoute (signed_in ?cx at))) w1"
      unfolding serve_def public
      by (simp add: SetupAuthRoute_def pre assms(3) run_AuthMiddleware one r1 user finish_def)
    show ?thesis
    proof (cases r2)
      case (Inl e)
      then show ?thesis
        unfolding * by (simp add: SetupAdminRoute_def pre assms(4) run_AuthMiddleware one two r1 finish_def db2)
    next
      case (Inr at')
      then show ?thesis
        unfolding * by (simp add: SetupAdminRoute_def pre assms(4) run_AuthMiddleware one two r1 finish_def db2
          RequireRole_def NewRequireRole_def GetUser_def twice)
    qed
  qed
qed

subsection \<open>A concrete router\<close>

definition plain_router :: router where
  "plain_router = \<lparr>ro_match = (\<lambda>m p cx. if m = cx_method cx \<and> p = cx_path cx then Some (\<lambda>_. []) else None),
     ro_prefix = (\<lambda>p cx. HasPrefix (cx_path cx) p),
     ro_unmatched = (\<lambda>cx. HttpErr 404 (''Cannot '' @ cx_method cx @ '' '' @ cx_path cx)),
     ro_cors = (\<lambda>_ _. None)\<rparr>"

definition plain_config :: route_config where
  "plain_config = \<lparr>rc_docs_enabled = True, rc_cors_origins = [], rc_login_rate = (30, 300 * Second),
     rc_forgot_rate = (10, 900 * Second)\<rparr>"

definition stats_request :: http_ctx where
  "stats_request = \<lparr>cx_method = ''GET'', cx_path = ''/api/admin/stats'', cx_params = (\<lambda>_. []), cx_query = (\<lambda>_. []),
     cx_query_int = (\<lambda>_ d. d), cx_header = (\<lambda>_. ''Bearer t''), cx_ip = ''10.0.0.1'', cx_user = None, cx_token = []\<rparr>"

lemma plain_router_path_only: "path_only plain_router"
  by (simp add: path_only_def plain_router_def)

lemma stats_passes:
  "passes plain_router (SetupPublicRoute plain_config @ SetupDocsRoute plain_config) stats_request"
  "passes plain_router auth_routes stats_request"
  by (simp_all add: passes_def SetupPublicRoute_def SetupDocsRoute_def auth_routes_def plain_router_def
      plain_config_def stats_request_def)

text \<open>An ordinary user with an open session: refused with 403, and the touch of the session stays.\<close>

lemma laptop_signs_in:
  "\<exists>a w1 w2. run_state (NewAuth sample_user_uc ''Bearer t'') users_world = (Inr (a, ''t''), w1)
    \<and> run_state (NewAuth sample_user_uc ''Bearer t'') w1 = (Inr (a, ''t''), w2)
    \<and> \<not> Auth_HasRole a RoleSuperadmin
    \<and> sessions_of (wdb w2) = [laptop\<lparr>us_last_used_at := 1000000, us_updated_at := 1001000\<rparr>]"
proof -
  have token: "bearer_token sample_user_uc ''Bearer t'' = ''t''"
    by (simp add: bearer_token_def trim_space_def trim_prefix_def HasPrefix_def is_ascii_def is_space_def)
  show ?thesis
    by (simp add: NewAuth_def token User_Verify_def session_auth_def FindActiveByTokenHash_def active_session_def take_row_def
        Repo_FindById_def users_table_def LoadRoles_def roles_for_def touch_def shouldTouch_def TouchLastUsed_def
        Repo_UpdateWhere_def tx_commit_def UserToAuth_def Auth_HasRole_def RoleSlugs_def store_auth_def Cache_Get_def Cache_Set_def
        cmd_defs redis_lookup_def live_def Let_def unix_milli_def users_world_def laptop_def sample_defs)
qed

theorem admin_area_guarded_witness:
  "\<exists>w'. (\<forall>A. run_state (serve plain_router plain_config (A\<lparr>ap_users := sample_user_uc\<rparr>) stats_request) users_world
       = (Some \<lparr>wr_status = 403, wr_data = Some (ErrorData ''this area needs additional permissions''), wr_paging = None,
            wr_headers = []\<rparr>, w'))
     \<and> last_used_only (wdb users_world) (wdb w') \<and> wdb w' \<noteq> wdb users_world"
proof -
  obtain a w1 w2 where auth: "run_state (NewAuth sample_user_uc ''Bearer t'') users_world = (Inr (a, ''t''), w1)"
      "run_state (NewAuth sample_user_uc ''Bearer t'') w1 = (Inr (a, ''t''), w2)"
    and user: "\<not> Auth_HasRole a RoleSuperadmin"
    and used: "sessions_of (wdb w2) = [laptop\<lparr>us_last_used_at := 1000000, us_updated_at := 1001000\<rparr>]"
    using laptop_signs_in by blast
  have "ro_cors plain_router cs cx = None" "ro_prefix plain_router ''/api'' stats_request"
      "ro_prefix plain_router ''/api/admin'' stats_request" for cs cx
    by (simp_all add: plain_router_def stats_request_def HasPrefix_def)
  from admin_area_guarded [OF plain_router_path_only this stats_passes, of "A\<lparr>ap_users := sample_user_uc\<rparr>" users_world for A]
  have "run_state (serve plain_router plain_config (A\<lparr>ap_users := sample_user_uc\<rparr>) stats_request) users_world
       = (Some \<lparr>wr_status = 403, wr_data = Some (ErrorData ''this area needs additional permissions''), wr_paging = None,
            wr_headers = []\<rparr>, w2) \<and> last_used_only (wdb users_world) (wdb w2)" for A
    using auth user by (simp add: NewErrorHandler_def stats_request_def)
  moreover have "wdb w2 \<noteq> wdb users_world"
  proof
    assume "wdb w2 = wdb users_world"
    with used show False by (simp add: laptop_def)
  qed
  ultimately show ?thesis by blast
qed

end
