(* ===== verification/OAuthProviders.thy ===== *)
theory OAuthProviders
  imports Resolver
begin

text \<open>
  The providers of internal/gateway/oauth (Google, Microsoft, Yandex and the stub) and what they
  share: \<open>getJSON\<close> and the claims of an id\_token.  The library x/oauth2 is the parameter
  \<open>oauth2_library\<close>, the HTTP client and the decoding of JSON are parameters too; URLs, scopes,
  checks and base64url are written out.
\<close>

subsection \<open>oauth.go: configuration\<close>

record oauth_config =
  og_client_id :: string
  og_client_secret :: string
  og_tenant :: string

definition Configured :: "oauth_config \<Rightarrow> bool" where
  "Configured c \<longleftrightarrow> og_client_id c \<noteq> [] \<and> og_client_secret c \<noteq> []"

definition CallbackURL :: "string \<Rightarrow> string \<Rightarrow> string" where
  "CallbackURL base slug =
     rev (dropWhile (\<lambda>c. c = CHR ''/'') (rev base)) @ ''/api/mail-accounts/oauth/'' @ slug @ ''/_callback''"

definition OAuth_Slugs :: "string list \<Rightarrow> (string \<rightharpoonup> oauth_client) \<Rightarrow> string list" where
  "OAuth_Slugs order reg = filter (\<lambda>s. reg s \<noteq> None) order"

definition OAuth_Has :: "(string \<rightharpoonup> oauth_client) \<Rightarrow> string \<Rightarrow> bool" where
  "OAuth_Has reg slug = (reg slug \<noteq> None)"

text \<open>What is handed to x/oauth2, and what it does with it\<close>

record oauth2_config =
  o2_client_id :: string
  o2_client_secret :: string
  o2_redirect_url :: string
  o2_scopes :: "string list"
  o2_auth_url :: string
  o2_token_url :: string

record oauth2_library =
  lib_auth_code_url :: "oauth2_config \<Rightarrow> (string \<times> string) list \<Rightarrow> string \<Rightarrow> string"
  lib_exchange :: "oauth2_config \<Rightarrow> string \<Rightarrow> retrieve_error + raw_token"
  lib_source :: "oauth2_config \<Rightarrow> string \<Rightarrow> retrieve_error + raw_token"

definition oauth_client_of :: "oauth2_library \<Rightarrow> string \<Rightarrow> oauth2_config \<Rightarrow> (string \<times> string) list
    \<Rightarrow> (tokens \<Rightarrow> err + identity) \<Rightarrow> oauth_client" where
  "oauth_client_of L slug config params ident =
     \<lparr>oc_slug = slug, oc_scopes = o2_scopes config,
      oc_authorize_url = lib_auth_code_url L config params, oc_exchange = lib_exchange L config,
      oc_source = lib_source L config, oc_identify = ident\<rparr>"

subsection \<open>oauth.go: getJSON\<close>

record get_request =
  gr_url :: string
  gr_headers :: "(string \<times> string) list"

text \<open>\<open>ht_do\<close> answers with a status and what reading the whole body gave.\<close>

record http_client =
  ht_new_request :: "string \<Rightarrow> string option"
  ht_do :: "get_request \<Rightarrow> string + (int \<times> (string + string))"

definition getJSON :: "http_client \<Rightarrow> string \<Rightarrow> string \<Rightarrow> (string \<Rightarrow> string + 'a) \<Rightarrow> err + 'a" where
  "getJSON H url authorization unmarshal = (case ht_new_request H url of
      Some e \<Rightarrow> Inl (PlainErr e)
    | None \<Rightarrow>
       (case ht_do H \<lparr>gr_url = url, gr_headers = [(''Authorization'', authorization),
            (''Accept'', ''application/json'')]\<rparr> of
          Inl e \<Rightarrow> Inl (PlainErr (''oauth: cannot reach '' @ url @ '': '' @ e))
        | Inr (status, answer) \<Rightarrow> (case answer of
            Inl e \<Rightarrow> Inl (PlainErr (''oauth: cannot read the response from '' @ url @ '': '' @ e))
          | Inr body \<Rightarrow>
              if status \<noteq> 200 then Inl (PlainErr (''oauth: '' @ url @ '' answered '' @ itoa status))
              else (case unmarshal (take 1048576 body) of
                  Inl e \<Rightarrow> Inl (PlainErr (''oauth: '' @ url @ '' returned something that is not JSON: '' @ e))
                | Inr x \<Rightarrow> Inr x))))"

subsection \<open>oauth.go: id tokens\<close>

definition b64url_val :: "char \<Rightarrow> nat option" where
  "b64url_val c = (if c = CHR ''-'' then Some 62 else if c = CHR ''_'' then Some 63
     else if c = CHR ''+'' \<or> c = CHR ''/'' then None else b64_val c)"

fun decode_raw_url :: "string \<Rightarrow> string option" where
  "decode_raw_url [] = Some []"
| "decode_raw_url [a] = None"
| "decode_raw_url [a, b] = (case (b64url_val a, b64url_val b) of
     (Some p, Some q) \<Rightarrow> Some (bytes1 p q) | _ \<Rightarrow> None)"
| "decode_raw_url [a, b, c] = (case (b64url_val a, b64url_val b, b64url_val c) of
     (Some p, Some q, Some r) \<Rightarrow> Some (bytes2 p q r) | _ \<Rightarrow> None)"
| "decode_raw_url (a # b # c # d # s) =
     (case (b64url_val a, b64url_val b, b64url_val c, b64url_val d) of
        (Some p, Some q, Some r, Some t) \<Rightarrow>
          (case decode_raw_url s of None \<Rightarrow> None | Some u \<Rightarrow> Some (bytes3 p q r t @ u))
      | _ \<Rightarrow> None)"

text \<open>\<open>RawURLEncoding.DecodeString\<close>; the text of its error is not modelled\<close>

definition RawURL_DecodeString :: "string \<Rightarrow> string option" where
  "RawURL_DecodeString s = decode_raw_url (filter (\<lambda>c. c \<noteq> CHR 0x0D \<and> c \<noteq> CHR 0x0A) s)"

text \<open>\<open>parse\<close> is \<open>json.Unmarshal\<close> into a map; of its values only the strings are ever read.\<close>

definition idTokenClaims :: "(string \<Rightarrow> string + (string \<rightharpoonup> string)) \<Rightarrow> string \<Rightarrow> err + (string \<rightharpoonup> string)" where
  "idTokenClaims parse raw =
     (let parts = split_on (CHR ''.'') raw in
      if length parts \<noteq> 3 then Inl (PlainErr ''oauth: the id_token is not a JWT'')
      else (case RawURL_DecodeString (parts ! 1) of
          None \<Rightarrow> Inl (PlainErr ''oauth: the id_token payload is not base64url'')
        | Some payload \<Rightarrow> (case parse payload of
            Inl e \<Rightarrow> Inl (PlainErr (''oauth: the id_token payload is not JSON: '' @ e))
          | Inr claims \<Rightarrow> Inr claims)))"

fun claim :: "(string \<rightharpoonup> string) \<Rightarrow> string list \<Rightarrow> string" where
  "claim claims [] = []"
| "claim claims (name # names) = (case claims name of
     Some v \<Rightarrow> if v \<noteq> [] then v else claim claims names
   | None \<Rightarrow> claim claims names)"

subsection \<open>google.go\<close>

abbreviation GoogleSlug :: string where "GoogleSlug \<equiv> ''gmail''"
abbreviation googleMailScope :: string where "googleMailScope \<equiv> ''https://mail.google.com/''"
abbreviation googleUserInfoURL :: string where
  "googleUserInfoURL \<equiv> ''https://www.googleapis.com/oauth2/v3/userinfo''"

text \<open>The two fields read from an answer: the account and its address\<close>

type_synonym userinfo = "string \<times> string"

definition googleIdentify :: "http_client \<Rightarrow> (string \<Rightarrow> string + userinfo) \<Rightarrow> tokens \<Rightarrow> err + identity" where
  "googleIdentify H parse ts =
     (case getJSON H googleUserInfoURL (''Bearer '' @ tn_access_token ts) parse of
        Inl e \<Rightarrow> Inl e
      | Inr (subject, email) \<Rightarrow>
          if email = [] then
            Inl (PlainErr ''oauth: Google returned no email address, the email scope was not granted'')
          else Inr \<lparr>id_email = email, id_account_id = subject\<rparr>)"

definition NewGoogle :: "oauth2_library \<Rightarrow> http_client \<Rightarrow> (string \<Rightarrow> string + userinfo) \<Rightarrow> oauth_config \<Rightarrow> string
    \<Rightarrow> oauth_client option" where
  "NewGoogle L H parse c callbackBase =
     (if \<not> Configured c then None
      else Some (oauth_client_of L GoogleSlug
        \<lparr>o2_client_id = og_client_id c, o2_client_secret = og_client_secret c,
         o2_redirect_url = CallbackURL callbackBase GoogleSlug,
         o2_scopes = [googleMailScope, ''openid'', ''email''],
         o2_auth_url = ''https://accounts.google.com/o/oauth2/v2/auth'',
         o2_token_url = ''https://oauth2.googleapis.com/token''\<rparr>
        [(''access_type'', ''offline''), (''prompt'', ''consent'')] (googleIdentify H parse)))"

subsection \<open>microsoft.go\<close>

abbreviation MicrosoftSlug :: string where "MicrosoftSlug \<equiv> ''outlook''"
abbreviation microsoftMailScope :: string where
  "microsoftMailScope \<equiv> ''https://outlook.office.com/IMAP.AccessAsUser.All''"

definition microsoftIdentify :: "(string \<Rightarrow> string + (string \<rightharpoonup> string)) \<Rightarrow> tokens \<Rightarrow> err + identity" where
  "microsoftIdentify parse ts =
     (if tn_id_token ts = [] then
        Inl (PlainErr ''oauth: Microsoft returned no id_token, the openid scope was not granted'')
      else (case idTokenClaims parse (tn_id_token ts) of
          Inl e \<Rightarrow> Inl e
        | Inr claims \<Rightarrow>
            (let email = claim claims [''email'', ''preferred_username'', ''upn''] in
             if email = [] then Inl (PlainErr ''oauth: Microsoft returned no email address in the id_token'')
             else Inr \<lparr>id_email = email, id_account_id = claim claims [''oid'', ''sub'']\<rparr>)))"

definition NewMicrosoft :: "oauth2_library \<Rightarrow> (string \<Rightarrow> string + (string \<rightharpoonup> string)) \<Rightarrow> oauth_config \<Rightarrow> string
    \<Rightarrow> oauth_client option" where
  "NewMicrosoft L parse c callbackBase =
     (if \<not> Configured c then None
      else let tenant = (if og_tenant c = [] then ''common'' else og_tenant c);
               base = ''https://login.microsoftonline.com/'' @ tenant @ ''/oauth2/v2.0'' in
        Some (oauth_client_of L MicrosoftSlug
          \<lparr>o2_client_id = og_client_id c, o2_client_secret = og_client_secret c,
           o2_redirect_url = CallbackURL callbackBase MicrosoftSlug,
           o2_scopes = [microsoftMailScope, ''offline_access'', ''openid'', ''email'', ''profile''],
           o2_auth_url = base @ ''/authorize'', o2_token_url = base @ ''/token''\<rparr>
          [] (microsoftIdentify parse)))"

subsection \<open>yandex.go\<close>

abbreviation YandexSlug :: string where "YandexSlug \<equiv> ''yandex''"
abbreviation yandexUserInfoURL :: string where
  "yandexUserInfoURL \<equiv> ''https://login.yandex.ru/info?format=json''"

definition yandexIdentify :: "http_client \<Rightarrow> (string \<Rightarrow> string + userinfo) \<Rightarrow> tokens \<Rightarrow> err + identity" where
  "yandexIdentify H parse ts =
     (case getJSON H yandexUserInfoURL (''OAuth '' @ tn_access_token ts) parse of
        Inl e \<Rightarrow> Inl e
      | Inr (account, email) \<Rightarrow>
          if email = [] then
            Inl (PlainErr ''oauth: Yandex returned no email address, the login:email scope was not granted'')
          else Inr \<lparr>id_email = email, id_account_id = account\<rparr>)"

definition NewYandex :: "oauth2_library \<Rightarrow> http_client \<Rightarrow> (string \<Rightarrow> string + userinfo) \<Rightarrow> oauth_config \<Rightarrow> string
    \<Rightarrow> oauth_client option" where
  "NewYandex L H parse c callbackBase =
     (if \<not> Configured c then None
      else Some (oauth_client_of L YandexSlug
        \<lparr>o2_client_id = og_client_id c, o2_client_secret = og_client_secret c,
         o2_redirect_url = CallbackURL callbackBase YandexSlug,
         o2_scopes = [''mail:imap_ro'', ''login:email''],
         o2_auth_url = ''https://oauth.yandex.ru/authorize'',
         o2_token_url = ''https://oauth.yandex.ru/token''\<rparr> [] (yandexIdentify H parse)))"

subsection \<open>stub.go\<close>

definition stubIdentify :: "http_client \<Rightarrow> (string \<Rightarrow> string + userinfo) \<Rightarrow> string \<Rightarrow> tokens \<Rightarrow> err + identity" where
  "stubIdentify H parse baseURL ts =
     (case getJSON H (baseURL @ ''/userinfo'') (''Bearer '' @ tn_access_token ts) parse of
        Inl e \<Rightarrow> Inl e
      | Inr (subject, email) \<Rightarrow>
          if email = [] then Inl (PlainErr ''oauth: the stub returned no email address'')
          else Inr \<lparr>id_email = email, id_account_id = subject\<rparr>)"

definition NewStub :: "oauth2_library \<Rightarrow> http_client \<Rightarrow> (string \<Rightarrow> string + userinfo) \<Rightarrow> string \<Rightarrow> string
    \<Rightarrow> oauth_client option" where
  "NewStub L H parse slug baseURL =
     (if baseURL = [] then None
      else Some (oauth_client_of L slug
        \<lparr>o2_client_id = ''stub-client-id'', o2_client_secret = ''stub-client-secret'',
         o2_redirect_url = CallbackURL baseURL slug, o2_scopes = [''mail:imap_ro''],
         o2_auth_url = baseURL @ ''/authorize'', o2_token_url = baseURL @ ''/token''\<rparr>
        [] (stubIdentify H parse baseURL)))"

subsection \<open>Who a consent is for\<close>

text \<open>No provider ever identifies an account without an address.\<close>

lemma identified:
  "googleIdentify H p ts = Inr i \<Longrightarrow> id_email i \<noteq> []"
  "yandexIdentify H p ts = Inr i \<Longrightarrow> id_email i \<noteq> []"
  "stubIdentify H p u ts = Inr i \<Longrightarrow> id_email i \<noteq> []"
  "microsoftIdentify q ts = Inr i \<Longrightarrow> id_email i \<noteq> []"
  by (auto simp: googleIdentify_def yandexIdentify_def stubIdentify_def microsoftIdentify_def Let_def
      split: sum.splits if_splits prod.splits)

definition identifying :: "oauth_client \<Rightarrow> bool" where
  "identifying c = (\<forall>ts i. oc_identify c ts = Inr i \<longrightarrow> id_email i \<noteq> [])"

lemma New_identifying:
  "NewGoogle L H p c b = Some x \<Longrightarrow> identifying x"
  "NewYandex L H p c b = Some x \<Longrightarrow> identifying x"
  "NewStub L H p s b = Some x \<Longrightarrow> identifying x"
  "NewMicrosoft L q c b = Some x \<Longrightarrow> identifying x"
  by (auto simp: NewGoogle_def NewYandex_def NewStub_def NewMicrosoft_def oauth_client_of_def Let_def
      identifying_def dest: identified split: if_splits)

text \<open>The client of a registry goes by its slug, and the registry holds only configured providers.\<close>

lemma OAuth_Register_slug: "OAuth_Register cs Map.empty s = Some c \<Longrightarrow> oc_slug c = s"
  unfolding OAuth_Register_configured [of cs] by (rule oauth_reg.registered_key)

lemma OAuth_Register_mem: "OAuth_Register cs Map.empty s = Some c \<Longrightarrow> Some c \<in> set cs"
  unfolding OAuth_Register_configured [of cs] by (drule oauth_reg.registered_mem) (auto simp: List.map_filter_def)

lemma OAuth_Register_append: "OAuth_Register ds (OAuth_Register cs reg) = OAuth_Register (cs @ ds) reg"
  by (simp add: OAuth_Register_def)

lemma OAuth_Register_identifying:
  "OAuth_Register cs Map.empty s = Some c \<Longrightarrow> (\<And>x. Some x \<in> set cs \<Longrightarrow> identifying x) \<Longrightarrow> identifying c"
  using OAuth_Register_mem by blast

lemma CallbackURL_slash: "CallbackURL (base @ ''/'') slug = CallbackURL base slug"
  by (simp add: CallbackURL_def)

end
