(* ===== verification/Imap.thy ===== *)
theory Imap
  imports Resolver
begin

unbundle bit_operations_syntax

text \<open>
  The mail client of internal/gateway/mail/imap (imap.go, parse.go, xoauth2.go) and the
  development stub beside it.  The IMAP connection (emersion/go-imap) and the MIME reader
  (emersion/go-message) are parameters: a connection is the outcomes of its commands, a parsed
  mail its header fields and parts.  What the client asks for, which messages it keeps, how it
  moves its cursor and how it flattens a message are modelled; UIDs and counts keep the 32
  bits they have in the code.
\<close>

subsection \<open>xoauth2.go\<close>

record xoauth2_client =
  xo_username :: string
  xo_token :: string

text \<open>The first message: the mechanism and the initial response, or an error\<close>

definition xoauth2_Start :: "xoauth2_client \<Rightarrow> string + string \<times> string" where
  "xoauth2_Start a =
     (if xo_token a = [] then Inl ''imap: cannot authenticate with an empty access token''
      else Inr (''XOAUTH2'', ''user='' @ xo_username a @ [CHR 0x01] @ ''auth=Bearer '' @ xo_token a
        @ [CHR 0x01, CHR 0x01]))"

text \<open>The answer to a challenge is always an error; this is its text.\<close>

definition xoauth2_Next :: "unicode \<Rightarrow> string \<Rightarrow> string" where
  "xoauth2_Next U challenge =
     (let detail = trim_space U challenge;
          detail' = (case DecodeString detail of Some decoded \<Rightarrow> trim_space U decoded | None \<Rightarrow> detail) in
      if detail' = [] then ''imap: the server rejected the access token''
      else ''imap: the server rejected the access token: '' @ detail')"

subsection \<open>What the libraries hand over\<close>

type_synonym uid = "32 word"

record imap_envelope =
  en_date :: "int option"
  en_subject :: string
  en_from :: "(string \<times> string) list"
  en_to :: "string list"
  en_cc :: "string list"
  en_message_id :: string

record imap_message =
  im_uid :: uid
  im_size :: "32 word"
  im_internal_date :: int
  im_envelope :: "imap_envelope option"
  im_body :: "string option"

record mailbox_status =
  mb_uid_validity :: "32 word"
  mb_messages :: "32 word"

text \<open>
  A connection.  \<open>cn_fetch a b\<close> is FETCH by sequence number and \<open>cn_uid_fetch a b\<close> by UID, the
  range \<open>a:b\<close> with 0 for \<open>*\<close>: the messages that arrived, and an error at the end.
  \<open>cn_authenticate\<close> is given the two functions of the SASL client.
\<close>

record imap_connection =
  cn_starttls_offered :: bool
  cn_starttls :: "string \<Rightarrow> string option"
  cn_authenticate :: "(string + string \<times> string) \<Rightarrow> (string \<Rightarrow> string) \<Rightarrow> string option"
  cn_login :: "string \<Rightarrow> string \<Rightarrow> string option"
  cn_list :: "(string \<times> string list) list \<times> string option"
  cn_status :: "string \<Rightarrow> 32 word option"
  cn_select :: "string \<Rightarrow> string + mailbox_status"
  cn_fetch :: "32 word \<Rightarrow> 32 word \<Rightarrow> imap_message list \<times> string option"
  cn_uid_fetch :: "uid \<Rightarrow> uid \<Rightarrow> imap_message list \<times> string option"

text \<open>The parts of a mail as the MIME reader yields them; \<open>BadPart\<close> is an error in between.\<close>

datatype mime_part =
    InlinePart string "string option"
  | AttachmentPart "string option"
  | BadPart string

record mime_mail =
  mm_fields :: "(string \<times> string option) list"
  mm_addresses :: "string \<Rightarrow> (string \<times> string) list option"
  mm_parts :: "mime_part list"

record imap_settings =
  is_host :: string
  is_port :: int
  is_use_tls :: "bool option"

record imap_cursor =
  cu_uid_validity :: "32 word"
  cu_last_uid :: uid

text \<open>\<open>ip_cursor\<close> is what unmarshalling leaves in a zero cursor: its error is ignored.\<close>

record imap_provider =
  ip_unicode :: unicode
  ip_settings :: "json \<Rightarrow> string + imap_settings"
  ip_cursor :: "string \<Rightarrow> imap_cursor"
  ip_dial_tls :: "string \<Rightarrow> string + imap_connection"
  ip_dial :: "string \<Rightarrow> string + imap_connection"
  ip_reader :: "string \<Rightarrow> string + mime_mail"

subsection \<open>imap.go: connect\<close>

definition imap_Describe :: descriptor where
  "imap_Describe = \<lparr>ds_kind = ''imap'', ds_label = ''IMAP'',
     ds_auth_modes = [AuthPassword, AuthAppPassword, AuthXOAuth2],
     ds_capabilities = \<lparr>cp_folders = True, cp_labels = False, cp_push = False, cp_idle = True,
       cp_server_search = True\<rparr>,
     ds_config_schema = \<lparr>sc_fields =
       [(schema_field_of ''host'' ''IMAP server'' ''string'')\<lparr>sf_required := True, sf_placeholder := ''imap.example.com''\<rparr>,
        (schema_field_of ''port'' ''Port'' ''int'')\<lparr>sf_required := True, sf_placeholder := ''993''\<rparr>,
        (schema_field_of ''use_tls'' ''Use TLS'' ''bool'')\<lparr>sf_help :=
          ''On for port 993. Off for 143, which is upgraded with STARTTLS when the server offers it.''\<rparr>,
        (schema_field_of ''username'' ''Username'' ''string'')\<lparr>sf_secret := True,
          sf_help := ''Only needed when the login differs from the email address.''\<rparr>,
        (schema_field_of ''password'' ''Password'' ''secret'')\<lparr>sf_required := True, sf_secret := True,
          sf_help := ''Most providers require an app-specific password rather than the account password.''\<rparr>]\<rparr>\<rparr>"

definition DecodeSettings :: "imap_provider \<Rightarrow> mail_target \<Rightarrow> string + imap_settings" where
  "DecodeSettings P account =
     (if tg_settings account = [] then Inr \<lparr>is_host = [], is_port = 0, is_use_tls = None\<rparr>
      else ip_settings P (tg_settings account))"

definition use_tls :: "imap_settings \<Rightarrow> bool" where
  "use_tls s = (case is_use_tls s of Some b \<Rightarrow> b | None \<Rightarrow> is_port s = 993)"

text \<open>The dialled connection, encrypted when it can be\<close>

definition dial :: "imap_provider \<Rightarrow> imap_settings \<Rightarrow> err + imap_connection" where
  "dial P s =
     (let address = is_host s @ '':'' @ itoa (is_port s) in
      case (if use_tls s then ip_dial_tls P address else ip_dial P address) of
        Inl e \<Rightarrow> Inl (PlainErr (''imap: cannot reach '' @ address @ '': '' @ e))
      | Inr c \<Rightarrow>
          if \<not> use_tls s \<and> cn_starttls_offered c then
            (case cn_starttls c (is_host s) of
               Some e \<Rightarrow> Inl (PlainErr (''imap: STARTTLS upgrade failed for '' @ address @ '': '' @ e))
             | None \<Rightarrow> Inr c)
          else Inr c)"

definition authenticate :: "imap_provider \<Rightarrow> mail_target \<Rightarrow> imap_connection \<Rightarrow> err + imap_connection" where
  "authenticate P account c =
     (let creds = tg_credentials account;
          username = (if mc_username creds = [] then tg_email_address account else mc_username creds) in
      if tg_auth_mode account = AuthOAuth2 \<or> tg_auth_mode account = AuthXOAuth2 then
        (if mc_access_token creds = [] then
           Inl (PlainErr (''imap: '' @ tg_email_address account
             @ '' has no access token stored, reconnect the mailbox''))
         else let x = \<lparr>xo_username = tg_email_address account, xo_token = mc_access_token creds\<rparr> in
           (case cn_authenticate c (xoauth2_Start x) (xoauth2_Next (ip_unicode P)) of
              Some e \<Rightarrow> Inl (PlainErr (''imap: token authentication failed for ''
                @ tg_email_address account @ '': '' @ e))
            | None \<Rightarrow> Inr c))
      else (case cn_login c username (mc_password creds) of
          Some e \<Rightarrow> Inl (PlainErr (''imap: login failed for '' @ username @ '': '' @ e))
        | None \<Rightarrow> Inr c))"

definition imap_connect :: "imap_provider \<Rightarrow> mail_target \<Rightarrow> err + imap_connection" where
  "imap_connect P account = (case DecodeSettings P account of
      Inl e \<Rightarrow> Inl (PlainErr (''imap: settings are not readable: '' @ e))
    | Inr s \<Rightarrow>
        if is_host s = [] \<or> is_port s = 0
        then Inl (PlainErr ''imap: this account has no host or port configured'')
        else (case dial P s of Inl e \<Rightarrow> Inl e | Inr c \<Rightarrow> authenticate P account c))"

subsection \<open>imap.go: folders\<close>

definition hasAttribute :: "unicode \<Rightarrow> string list \<Rightarrow> string \<Rightarrow> bool" where
  "hasAttribute U attributes want = list_ex (\<lambda>a. equal_fold U a want) attributes"

text \<open>The first fifty folders are counted, the others show zero.\<close>

definition count_folder :: "imap_connection \<Rightarrow> nat \<times> folder \<Rightarrow> folder" where
  "count_folder c = (\<lambda>(i, f).
     if i < 50 then (case cn_status c (fo_name f) of
         Some n \<Rightarrow> f\<lparr>fo_message_count := uint n\<rparr> | None \<Rightarrow> f) else f)"

definition listFolders :: "unicode \<Rightarrow> imap_connection \<Rightarrow> err + folder list" where
  "listFolders U c =
     (let folders = map (\<lambda>(name, _). \<lparr>fo_name = name, fo_message_count = 0\<rparr>)
            (filter (\<lambda>(_, attributes). \<not> hasAttribute U attributes ([CHR 0x5C] @ ''Noselect'')) (fst (cn_list c))) in
      case snd (cn_list c) of
        Some e \<Rightarrow> Inl (PlainErr (''imap: cannot list folders: '' @ e))
      | None \<Rightarrow> Inr (map (count_folder c) (enumerate 0 folders)))"

definition imap_Verify :: "imap_provider \<Rightarrow> mail_target \<Rightarrow> err + folder list" where
  "imap_Verify P account = (case imap_connect P account of
      Inl e \<Rightarrow> Inl e
    | Inr c \<Rightarrow> listFolders (ip_unicode P) c)"

definition imap_Folders :: "imap_provider \<Rightarrow> mail_target \<Rightarrow> err + folder list" where
  "imap_Folders P account = imap_Verify P account"

subsection \<open>imap.go: flattening a message\<close>

definition put_header :: "(string \<times> string) list \<Rightarrow> string \<times> string \<Rightarrow> (string \<times> string) list" where
  "put_header hs kv = (if fst kv \<in> set (map fst hs)
     then map (\<lambda>h. if fst h = fst kv then kv else h) hs else hs @ [kv])"

definition headerFields :: "mime_mail \<Rightarrow> (string \<times> string) list" where
  "headerFields m = map (\<lambda>(k, v). (k, case v of None \<Rightarrow> [] | Some t \<Rightarrow> t)) (take 60 (mm_fields m))"

text \<open>The loop over the parts, with the plain and the html text so far; an error ends it.\<close>

fun read_parts :: "mime_part list \<Rightarrow> string \<Rightarrow> string \<Rightarrow> message \<Rightarrow> message \<times> (string + string \<times> string)" where
  "read_parts [] plain html m = (m, Inr (plain, html))"
| "read_parts (BadPart e # ps) plain html m = (m, Inl e)"
| "read_parts (InlinePart contentType content # ps) plain html m = (case content of
     None \<Rightarrow> read_parts ps plain html m
   | Some text \<Rightarrow>
       (let t = take 1048576 text in
        if HasPrefix contentType ''text/plain'' \<and> plain = [] then read_parts ps t html m
        else if HasPrefix contentType ''text/html'' \<and> html = [] then read_parts ps plain t m
        else read_parts ps plain html m))"
| "read_parts (AttachmentPart filename # ps) plain html m =
     (let m' = m\<lparr>mg_has_attachment := True\<rparr> in
      read_parts ps plain html (case filename of
        Some f \<Rightarrow> if f \<noteq> [] then m'\<lparr>mg_attachment_names := mg_attachment_names m @ [f]\<rparr> else m'
      | None \<Rightarrow> m'))"

definition readBody :: "imap_provider \<Rightarrow> message \<Rightarrow> string \<Rightarrow> message \<times> string option" where
  "readBody P m body = (case ip_reader P body of
      Inl e \<Rightarrow> (m, Some e)
    | Inr mail \<Rightarrow>
        (case read_parts (mm_parts mail) [] []
            (m\<lparr>mg_headers := foldl put_header (mg_headers m) (headerFields mail)\<rparr>) of
           (m', Inl e) \<Rightarrow> (m', Some e)
         | (m', Inr (plain, html)) \<Rightarrow>
             (m'\<lparr>mg_body_text := (if plain = [] then html else plain)\<rparr>, None)))"

definition envelope_message :: "unicode \<Rightarrow> imap_message \<Rightarrow> imap_envelope \<Rightarrow> message" where
  "envelope_message U raw env =
     (let i = trim_space U (en_message_id env) in
      \<lparr>mg_message_id = (if i = [] then ''<uid-'' @ itoa (uint (im_uid raw)) @ ''@mailpulse.local>'' else i),
       mg_uid = itoa (uint (im_uid raw)), mg_subject = en_subject env,
       mg_from_address = (case en_from env of [] \<Rightarrow> [] | (a, _) # _ \<Rightarrow> a),
       mg_from_name = (case en_from env of [] \<Rightarrow> [] | (_, n) # _ \<Rightarrow> n),
       mg_to = en_to env, mg_cc = en_cc env, mg_body_text = [], mg_headers = [],
       mg_has_attachment = False, mg_attachment_names = [], mg_size_bytes = uint (im_size raw),
       mg_received_at = unix_milli (case en_date env of None \<Rightarrow> im_internal_date raw | Some d \<Rightarrow> d)\<rparr>)"

text \<open>Nothing for a message without an envelope, which is skipped\<close>

definition imap_convert :: "imap_provider \<Rightarrow> imap_message \<Rightarrow> message option" where
  "imap_convert P raw = (case im_envelope raw of
      None \<Rightarrow> None
    | Some env \<Rightarrow>
        (let m = envelope_message (ip_unicode P) raw env in
         Some (case im_body raw of None \<Rightarrow> m | Some body \<Rightarrow> fst (readBody P m body))))"

subsection \<open>imap.go: fetching\<close>

text \<open>\<open>fmt.Sscanf\<close> with \<open>%d\<close> into 32 unsigned bits; an error is read as 0\<close>

definition parseUID :: "string \<Rightarrow> uid" where
  "parseUID s =
     (let ds = takeWhile (\<lambda>c. char_digit c \<noteq> None) (dropWhile (\<lambda>c. is_space c \<and> c \<noteq> CHR 0x0A) s) in
      case (if ds = [] then None else parse_digits 0 ds) of
        None \<Rightarrow> 0
      | Some n \<Rightarrow> if n < 2 ^ 32 then word_of_nat n else 0)"

definition encodeCursor :: "imap_cursor \<Rightarrow> string" where
  "encodeCursor c = ''{'' @ [CHR 0x22] @ ''uid_validity'' @ [CHR 0x22] @ '':'' @ itoa (uint (cu_uid_validity c))
     @ '','' @ [CHR 0x22] @ ''last_uid'' @ [CHR 0x22] @ '':'' @ itoa (uint (cu_last_uid c)) @ ''}''"

text \<open>On a first run the newest messages by sequence number, afterwards all after the last UID\<close>

definition fetch_range :: "imap_connection \<Rightarrow> mailbox_status \<Rightarrow> imap_cursor \<Rightarrow> int
    \<Rightarrow> imap_message list \<times> string option" where
  "fetch_range c mailbox cursor limit =
     (if cu_last_uid cursor = 0 then
        cn_fetch c (if mb_messages mailbox > word_of_int limit
                    then mb_messages mailbox - word_of_int limit + 1 else 1) (mb_messages mailbox)
      else cn_uid_fetch c (cu_last_uid cursor + 1) 0)"

definition fetchMessages :: "imap_provider \<Rightarrow> imap_connection \<Rightarrow> mailbox_status \<Rightarrow> imap_cursor \<Rightarrow> int
    \<Rightarrow> err + message list" where
  "fetchMessages P c mailbox cursor limit =
     (let (incoming, done) = fetch_range c mailbox cursor limit;
          messages = List.map_filter (imap_convert P)
            (filter (\<lambda>raw. \<not> (cu_last_uid cursor > 0 \<and> im_uid raw \<le> cu_last_uid cursor)) incoming) in
      case done of
        Some e \<Rightarrow> Inl (PlainErr (''imap: fetch failed: '' @ e))
      | None \<Rightarrow> Inr messages)"

definition start_cursor :: "imap_provider \<Rightarrow> string \<Rightarrow> mailbox_status \<Rightarrow> imap_cursor" where
  "start_cursor P stored mailbox =
     (let cursor = (if stored \<noteq> [] then ip_cursor P stored else \<lparr>cu_uid_validity = 0, cu_last_uid = 0\<rparr>);
          kept = (if cu_uid_validity cursor \<noteq> 0 \<and> cu_uid_validity cursor \<noteq> mb_uid_validity mailbox
                  then \<lparr>cu_uid_validity = 0, cu_last_uid = 0\<rparr> else cursor) in
      kept\<lparr>cu_uid_validity := mb_uid_validity mailbox\<rparr>)"

definition advance_cursor :: "imap_cursor \<Rightarrow> message list \<Rightarrow> imap_cursor" where
  "advance_cursor cursor ms = foldl (\<lambda>c m.
     if parseUID (mg_uid m) > cu_last_uid c then c\<lparr>cu_last_uid := parseUID (mg_uid m)\<rparr> else c) cursor ms"

definition fetch_limit :: "int \<Rightarrow> int" where
  "fetch_limit n = (if n \<le> 0 \<or> n > 500 then 200 else n)"

definition imap_Fetch :: "imap_provider \<Rightarrow> mail_target \<Rightarrow> fetch_request \<Rightarrow> err + fetch_result" where
  "imap_Fetch P account request = (case imap_connect P account of
      Inl e \<Rightarrow> Inl e
    | Inr c \<Rightarrow>
       (let folder = (if fq_folder request = [] then ''INBOX'' else fq_folder request) in
        case cn_select c folder of
          Inl e \<Rightarrow> Inl (PlainErr (''imap: cannot open folder '' @ go_quote (ip_unicode P) folder @ '': '' @ e))
        | Inr mailbox \<Rightarrow>
           (let cursor = start_cursor P (fq_cursor request) mailbox in
            if mb_messages mailbox = 0 then Inr \<lparr>fr_messages = [], fr_cursor = encodeCursor cursor\<rparr>
            else (case fetchMessages P c mailbox cursor (fetch_limit (fq_limit request)) of
                Inl e \<Rightarrow> Inl e
              | Inr messages \<Rightarrow> Inr \<lparr>fr_messages = messages,
                  fr_cursor = encodeCursor (advance_cursor cursor messages)\<rparr>))))"

definition IMAPProvider :: "imap_provider \<Rightarrow> mail_client" where
  "IMAPProvider P = \<lparr>cl_describe = imap_Describe, cl_verify = imap_Verify P, cl_fetch = imap_Fetch P,
     cl_folders = Some (imap_Folders P)\<rparr>"

subsection \<open>parse.go\<close>

definition header_of :: "message \<Rightarrow> string \<Rightarrow> string" where
  "header_of m k = (case map_of (mg_headers m) k of None \<Rightarrow> [] | Some v \<Rightarrow> v)"

definition fillEnvelope :: "imap_provider \<Rightarrow> message \<Rightarrow> string \<Rightarrow> message" where
  "fillEnvelope P m0 raw =
     (let m1 = m0\<lparr>mg_subject := header_of m0 ''Subject''\<rparr> in
      case ip_reader P raw of
        Inl _ \<Rightarrow> m1
      | Inr mail \<Rightarrow>
         (let m2 = (case mm_addresses mail ''From'' of
                Some ((a, n) # _) \<Rightarrow> m1\<lparr>mg_from_address := a, mg_from_name := n\<rparr> | _ \<Rightarrow> m1);
              listed = (\<lambda>field. case mm_addresses mail field of None \<Rightarrow> [] | Some as \<Rightarrow> map fst as);
              m3 = m2\<lparr>mg_to := mg_to m2 @ listed ''To'', mg_cc := mg_cc m2 @ listed ''Cc''\<rparr>;
              i = trim_space (ip_unicode P) (header_of m0 ''Message-Id'') in
          if i \<noteq> [] then m3\<lparr>mg_message_id := i\<rparr> else m3))"

definition ParseMessage :: "imap_provider \<Rightarrow> string \<Rightarrow> message \<times> string option" where
  "ParseMessage P raw =
     (case readBody P \<lparr>mg_message_id = [], mg_uid = [], mg_subject = [], mg_from_address = [], mg_from_name = [],
          mg_to = [], mg_cc = [], mg_body_text = [], mg_headers = [], mg_has_attachment = False,
          mg_attachment_names = [], mg_size_bytes = int (length raw), mg_received_at = 0\<rparr> raw of
        (m, Some e) \<Rightarrow> (m, Some e)
      | (m, None) \<Rightarrow> (fillEnvelope P m raw, None))"

subsection \<open>What a poll brings\<close>

lemma digit_not_space: "d < 10 \<Longrightarrow> \<not> is_space (digit_char d)"
  by (auto simp: digit_char_def is_space_def Let_def of_char_of char_of_eq_iff)

lemma nat_str_digits: "c \<in> set (nat_str n) \<Longrightarrow> char_digit c \<noteq> None \<and> \<not> is_space c"
proof (induction n rule: nat_str.induct)
  case (1 n)
  then show ?case
    by (cases "n < 10") (auto simp: nat_str.simps [of n] char_digit_digit_char digit_not_space)
qed

lemma nat_str_nonempty: "nat_str n \<noteq> []"
  by (subst nat_str.simps) simp

lemma parseUID_prefix:
  assumes "r = [] \<or> char_digit (hd r) = None"
  shows "parseUID (itoa (uint u) @ r) = u"
proof -
  have i: "itoa (uint u) = nat_str (unat u)" by (simp add: itoa_def nat_uint_eq)
  obtain c where "c \<in> set (nat_str (unat u))" "\<not> is_space c"
    using nat_str_digits nat_str_nonempty by (metis list.set_intros(1) list.exhaust)
  moreover have "dropWhile (\<lambda>c. is_space c \<and> c \<noteq> CHR 0x0A) (nat_str (unat u)) = nat_str (unat u)"
    by (rule dropWhile_id) (use nat_str_digits in blast)
  ultimately have d: "dropWhile (\<lambda>c. is_space c \<and> c \<noteq> CHR 0x0A) (nat_str (unat u) @ r) = nat_str (unat u) @ r"
    by (subst dropWhile_append1) auto
  have "takeWhile (\<lambda>c. char_digit c \<noteq> None) r = []" using assms by (cases r) auto
  then have t: "takeWhile (\<lambda>c. char_digit c \<noteq> None) (nat_str (unat u) @ r) = nat_str (unat u)"
    by (subst takeWhile_append2) (use nat_str_digits in blast, simp)
  have "unat u < 2 ^ 32" using unsigned_less [of u, where ?'a = nat] by simp
  then show ?thesis
    unfolding parseUID_def Let_def i d t by (simp add: nat_str_nonempty parse_digits_nat_str)
qed

lemma parseUID_itoa [simp]: "parseUID (itoa (uint u)) = u"
  using parseUID_prefix [of "[]"] by simp

lemma read_parts_uid: "mg_uid (fst (read_parts ps plain html m)) = mg_uid m"
  by (induction ps plain html m rule: read_parts.induct) (simp_all add: Let_def split: option.splits)

lemma readBody_uid: "mg_uid (fst (readBody P m body)) = mg_uid m"
  using read_parts_uid by (auto simp: readBody_def split: sum.split prod.split) (metis fst_conv message.select_convs(2) message.surjective message.update_convs(9))+

lemma convert_uid: "imap_convert P raw = Some m \<Longrightarrow> mg_uid m = itoa (uint (im_uid raw))"
  by (auto simp: imap_convert_def Let_def readBody_uid envelope_message_def split: option.splits)

lemma convert_iff: "(\<exists>m. imap_convert P raw = Some m) \<longleftrightarrow> im_envelope raw \<noteq> None"
  by (auto simp: imap_convert_def Let_def split: option.split)

lemma fetched_uids:
  "map (\<lambda>m. parseUID (mg_uid m)) (List.map_filter (imap_convert P) rs)
     = map im_uid (filter (\<lambda>r. im_envelope r \<noteq> None) rs)"
proof (induction rs)
  case (Cons r rs)
  then show ?case
    using convert_uid [of P r] convert_iff [of P r]
    by (cases "imap_convert P r") (auto simp: List.map_filter_simps)
qed (simp add: List.map_filter_simps)

lemma advance_cursor_spec:
  "cu_uid_validity (advance_cursor c ms) = cu_uid_validity c
   \<and> cu_last_uid c \<le> cu_last_uid (advance_cursor c ms)
   \<and> (\<forall>m \<in> set ms. parseUID (mg_uid m) \<le> cu_last_uid (advance_cursor c ms))
   \<and> (cu_last_uid (advance_cursor c ms) = cu_last_uid c
      \<or> cu_last_uid (advance_cursor c ms) \<in> (\<lambda>m. parseUID (mg_uid m)) ` set ms)"
proof (induction ms arbitrary: c)
  case (Cons m ms)
  let ?c = "if parseUID (mg_uid m) > cu_last_uid c then c\<lparr>cu_last_uid := parseUID (mg_uid m)\<rparr> else c"
  have "advance_cursor c (m # ms) = advance_cursor ?c ms" by (simp add: advance_cursor_def)
  moreover have "cu_last_uid c \<le> cu_last_uid ?c" "parseUID (mg_uid m) \<le> cu_last_uid ?c"
    "cu_uid_validity ?c = cu_uid_validity c"
    "cu_last_uid ?c = cu_last_uid c \<or> cu_last_uid ?c = parseUID (mg_uid m)" by auto
  ultimately show ?case using Cons.IH [of ?c] by (auto intro: order_trans)
qed (simp add: advance_cursor_def)

text \<open>
  What IMAP promises of \<open>UID FETCH n:*\<close> in a folder that holds \<open>stored\<close>: every message with a UID
  from \<open>n\<close> on is sent, each message once, and only messages of the folder.
\<close>

definition serves :: "imap_connection \<Rightarrow> imap_message list \<Rightarrow> bool" where
  "serves c stored \<longleftrightarrow> (\<forall>n. n \<noteq> 0 \<longrightarrow> (\<exists>raws. cn_uid_fetch c n 0 = (raws, None) \<and> distinct (map im_uid raws)
     \<and> set raws \<subseteq> set stored \<and> (\<forall>m \<in> set stored. n \<le> im_uid m \<longrightarrow> m \<in> set raws)))"

definition folder_of :: "fetch_request \<Rightarrow> string" where
  "folder_of request = (if fq_folder request = [] then ''INBOX'' else fq_folder request)"

text \<open>A poll that finds the folder, or that cannot connect\<close>

definition working :: "mail_target \<Rightarrow> string \<Rightarrow> 32 word \<Rightarrow> imap_provider \<times> imap_message list \<Rightarrow> bool" where
  "working account folder v p \<longleftrightarrow> (\<exists>c box. imap_connect (fst p) account = Inr c \<and> cn_select c folder = Inr box
     \<and> mb_uid_validity box = v \<and> (mb_messages box = 0 \<longrightarrow> snd p = []) \<and> serves c (snd p))"

definition down :: "mail_target \<Rightarrow> imap_provider \<times> imap_message list \<Rightarrow> bool" where
  "down account p \<longleftrightarrow> (\<exists>e. imap_connect (fst p) account = Inl e)"

abbreviation uids_of :: "message list \<Rightarrow> uid list" where
  "uids_of ms \<equiv> map (\<lambda>m. parseUID (mg_uid m)) ms"

lemma word_ge_next: "(L :: 32 word) \<noteq> -1 \<Longrightarrow> L + 1 \<le> u \<longleftrightarrow> L < u"
proof -
  assume "L \<noteq> -1"
  then have "1 + L \<noteq> 0" by (metis add_eq_0_iff)
  then have "unat (L + 1) = Suc (unat L)" by (simp add: unatSuc add.commute)
  then show ?thesis by (simp add: word_le_nat_alt word_less_nat_alt Suc_le_eq)
qed

lemma Fetch_working:
  assumes w: "working account (folder_of request) v (P, s)"
    and cursor: "fq_cursor request = encodeCursor \<lparr>cu_uid_validity = v, cu_last_uid = L\<rparr>"
    and json: "ip_cursor P (encodeCursor \<lparr>cu_uid_validity = v, cu_last_uid = L\<rparr>) = \<lparr>cu_uid_validity = v, cu_last_uid = L\<rparr>"
    and L: "L \<noteq> 0" "L \<noteq> -1"
  obtains res L' where "imap_Fetch P account request = Inr res"
    "fr_cursor res = encodeCursor \<lparr>cu_uid_validity = v, cu_last_uid = L'\<rparr>" "L \<le> L'"
    "set (uids_of (fr_messages res)) = im_uid ` {m \<in> set s. L < im_uid m \<and> im_envelope m \<noteq> None}"
    "distinct (uids_of (fr_messages res))" "L' = L \<or> L' \<in> im_uid ` set s"
    "\<And>m. m \<in> set s \<Longrightarrow> im_envelope m \<noteq> None \<Longrightarrow> im_uid m \<le> L'"
proof -
  obtain c box where c: "imap_connect P account = Inr c" "cn_select c (folder_of request) = Inr box"
    "mb_uid_validity box = v" "mb_messages box = 0 \<longrightarrow> s = []" "serves c s"
    using w by (auto simp: working_def)
  let ?cu = "\<lparr>cu_uid_validity = v, cu_last_uid = L\<rparr>"
  have start: "start_cursor P (fq_cursor request) box = ?cu"
    using c(3) json by (simp add: start_cursor_def cursor encodeCursor_def [of ?cu])
  have folder: "(if fq_folder request = [] then ''INBOX'' else fq_folder request) = folder_of request"
    by (simp add: folder_of_def)
  show ?thesis
  proof (cases "mb_messages box = 0")
    case True
    have "imap_Fetch P account request = Inr \<lparr>fr_messages = [], fr_cursor = encodeCursor ?cu\<rparr>"
      unfolding imap_Fetch_def folder using c start True by (simp add: Let_def)
    then show ?thesis by (rule that [where L' = L]) (use c(4) True in simp_all)
  next
    case False
    have "L + 1 \<noteq> 0" using L(2) by (metis add.commute add_eq_0_iff)
    then obtain raws where raws: "cn_uid_fetch c (L + 1) 0 = (raws, None)" "distinct (map im_uid raws)"
      "set raws \<subseteq> set s" "\<And>m. m \<in> set s \<Longrightarrow> L + 1 \<le> im_uid m \<Longrightarrow> m \<in> set raws"
      using c(5) by (auto simp: serves_def)
    let ?new = "filter (\<lambda>raw. \<not> (L > 0 \<and> im_uid raw \<le> L)) raws"
    let ?ms = "List.map_filter (imap_convert P) ?new"
    have fetch: "fetchMessages P c box ?cu n = Inr ?ms" for n
      using L raws(1) by (simp add: fetchMessages_def fetch_range_def Let_def)
    have run: "imap_Fetch P account request
        = Inr \<lparr>fr_messages = ?ms, fr_cursor = encodeCursor (advance_cursor ?cu ?ms)\<rparr>"
      unfolding imap_Fetch_def folder using c start False fetch by (simp add: Let_def)
    have uids: "uids_of ?ms = map im_uid (filter (\<lambda>r. im_envelope r \<noteq> None) ?new)"
      by (rule fetched_uids)
    have "L > 0" using L(1) by (simp add: word_gt_0)
    then have set: "set (uids_of ?ms) = im_uid ` {m \<in> set s. L < im_uid m \<and> im_envelope m \<noteq> None}"
      unfolding uids using raws(3,4) L(2) by (auto simp: word_ge_next not_le)
    have d: "distinct (uids_of ?ms)"
      unfolding uids using raws(2) by (simp add: distinct_map inj_on_def)
    obtain L' where L': "advance_cursor ?cu ?ms = \<lparr>cu_uid_validity = v, cu_last_uid = L'\<rparr>" "L \<le> L'"
      "\<forall>u \<in> set (uids_of ?ms). u \<le> L'" "L' = L \<or> L' \<in> set (uids_of ?ms)"
      using advance_cursor_spec [of ?cu ?ms]
      by (cases "advance_cursor ?cu ?ms") auto
    show ?thesis
    proof (rule that [where L' = L'])
      show "imap_Fetch P account request = Inr \<lparr>fr_messages = ?ms, fr_cursor = encodeCursor (advance_cursor ?cu ?ms)\<rparr>"
        by (rule run)
      show "L' = L \<or> L' \<in> im_uid ` set s" using L'(4) set by auto
      show "im_uid m \<le> L'" if "m \<in> set s" "im_envelope m \<noteq> None" for m
      proof (cases "L < im_uid m")
        case True
        then have "im_uid m \<in> set (uids_of ?ms)" unfolding set using that by simp
        then show ?thesis using L'(3) by blast
      qed (use L'(2) in \<open>simp add: not_less order_trans [of _ L]\<close>)
    qed (use L' set d in simp_all)
  qed
qed

text \<open>Polls one after the other: a failed one leaves the cursor, as the pipeline does\<close>

fun polls :: "mail_target \<Rightarrow> fetch_request \<Rightarrow> imap_provider list \<Rightarrow> message list" where
  "polls account request [] = []"
| "polls account request (P # Ps) = (case imap_Fetch P account request of
     Inl _ \<Rightarrow> polls account request Ps
   | Inr res \<Rightarrow> fr_messages res @ polls account (request\<lparr>fq_cursor := fr_cursor res\<rparr>) Ps)"

text \<open>A folder that grew: what came later has a higher UID, as IMAP promises.\<close>

definition grew :: "imap_message list \<Rightarrow> imap_message list \<Rightarrow> bool" where
  "grew s s' \<longleftrightarrow> set s \<subseteq> set s' \<and> (\<forall>m \<in> set s'. m \<notin> set s \<longrightarrow> (\<forall>k \<in> set s. im_uid k < im_uid m))"

text \<open>What the folder holds beyond a UID, of the messages that have an envelope\<close>

definition beyond :: "uid \<Rightarrow> imap_message list \<Rightarrow> uid set" where
  "beyond L s = im_uid ` {m \<in> set s. L < im_uid m \<and> im_envelope m \<noteq> None}"

lemma beyond_split:
  assumes "grew s s'" "L \<le> L'" "L' = L \<or> L' \<in> im_uid ` set s"
    "\<And>m. m \<in> set s \<Longrightarrow> im_envelope m \<noteq> None \<Longrightarrow> im_uid m \<le> L'"
  shows "beyond L s \<union> beyond L' s' = beyond L s'" "beyond L s \<inter> beyond L' s' = {}"
proof -
  have old: "m \<in> set s" if "m \<in> set s'" "L < im_uid m" "im_uid m \<le> L'" for m
    using that assms(1,3) by (fastforce simp: grew_def)
  show "beyond L s \<union> beyond L' s' = beyond L s'"
  proof (intro set_eqI iffI)
    fix u assume "u \<in> beyond L s \<union> beyond L' s'"
    then show "u \<in> beyond L s'"
      using assms(1,2) by (auto simp: beyond_def grew_def intro: le_less_trans)
  next
    fix u assume "u \<in> beyond L s'"
    then obtain m where m: "u = im_uid m" "m \<in> set s'" "L < im_uid m" "im_envelope m \<noteq> None"
      by (auto simp: beyond_def)
    show "u \<in> beyond L s \<union> beyond L' s'"
      by (cases "L' < im_uid m") (use m old [of m] in \<open>auto simp: beyond_def not_less\<close>)
  qed
  show "beyond L s \<inter> beyond L' s' = {}" using assms(4) by (fastforce simp: beyond_def)
qed

lemma Fetch_down: "down account (P, s) \<Longrightarrow> \<exists>e. imap_Fetch P account request = Inl e"
  by (auto simp: down_def imap_Fetch_def)

text \<open>C35: New mail is seen exactly once.  Over any polls of a folder, some of which may fail to
  connect, from a cursor on: once a poll succeeds, the messages that were handed to the pipeline
  are exactly those of the folder beyond the cursor, each once, however the folder grew in
  between.  The promises of IMAP are that later messages have higher UIDs, none the largest, and
  that \<open>UID FETCH n:*\<close> sends what is there; and a written cursor is read back.\<close>

theorem polls_see_mail_once:
  assumes "\<forall>p \<in> set ps. working account (folder_of request) v p \<or> down account p"
    and "working account (folder_of request) v (P, final)"
    and "\<forall>p \<in> set ps. grew (snd p) final"
    and "\<forall>Q \<in> insert P (fst ` set ps). \<forall>c. ip_cursor Q (encodeCursor c) = c"
    and "\<forall>m \<in> set final. im_uid m \<noteq> -1"
    and "L \<noteq> 0" "L \<noteq> -1" "fq_cursor request = encodeCursor \<lparr>cu_uid_validity = v, cu_last_uid = L\<rparr>"
  shows "set (uids_of (polls account request (map fst ps @ [P]))) = beyond L final
    \<and> distinct (uids_of (polls account request (map fst ps @ [P])))"
  using assms
proof (induction ps arbitrary: request L)
  case Nil
  obtain res L' where "imap_Fetch P account request = Inr res"
    "set (uids_of (fr_messages res)) = im_uid ` {m \<in> set final. L < im_uid m \<and> im_envelope m \<noteq> None}"
    "distinct (uids_of (fr_messages res))"
    by (rule Fetch_working [OF Nil.prems(2,8) _ Nil.prems(6,7)]) (use Nil.prems(4) in auto)
  then show ?case by (simp add: beyond_def)
next
  case (Cons p ps)
  obtain Q s where p: "p = (Q, s)" by (cases p)
  show ?case
  proof (cases "down account p")
    case True
    then obtain e where "imap_Fetch Q account request = Inl e" using Fetch_down p by blast
    moreover have "set (uids_of (polls account request (map fst ps @ [P]))) = beyond L final
      \<and> distinct (uids_of (polls account request (map fst ps @ [P])))"
      by (rule Cons.IH) (use Cons.prems in auto)
    ultimately show ?thesis by (simp add: p)
  next
    case False
    have w: "working account (folder_of request) v (Q, s)" using False Cons.prems(1) p by auto
    obtain res L' where res: "imap_Fetch Q account request = Inr res"
      "fr_cursor res = encodeCursor \<lparr>cu_uid_validity = v, cu_last_uid = L'\<rparr>" "L \<le> L'"
      "set (uids_of (fr_messages res)) = im_uid ` {m \<in> set s. L < im_uid m \<and> im_envelope m \<noteq> None}"
      "distinct (uids_of (fr_messages res))" "L' = L \<or> L' \<in> im_uid ` set s"
      "\<And>m. m \<in> set s \<Longrightarrow> im_envelope m \<noteq> None \<Longrightarrow> im_uid m \<le> L'"
      by (rule Fetch_working [OF w Cons.prems(8) _ Cons.prems(6,7)]) (use Cons.prems(4) p in auto)
    let ?rest = "polls account (request\<lparr>fq_cursor := fr_cursor res\<rparr>) (map fst ps @ [P])"
    have grew: "grew s final" using Cons.prems(3) p by simp
    have "L' \<noteq> 0" using res(3) Cons.prems(6) by (metis word_gt_0 leD)
    moreover have "L' \<noteq> -1" using res(6) Cons.prems(5,7) grew by (auto simp: grew_def)
    ultimately have rest: "set (uids_of ?rest) = beyond L' final \<and> distinct (uids_of ?rest)"
      by (intro Cons.IH) (use Cons.prems(1-5) res(2) in \<open>auto simp: folder_of_def\<close>)
    have "set (uids_of (fr_messages res)) = beyond L s" unfolding res(4) beyond_def ..
    then show ?thesis
      using rest res(1,5) beyond_split [OF grew res(3,6,7)] by (simp add: p)
  qed
qed

definition plain_cursor :: "string \<Rightarrow> imap_cursor" where
  "plain_cursor s = \<lparr>cu_uid_validity = parseUID (drop 16 s),
     cu_last_uid = parseUID (drop 12 (dropWhile (\<lambda>c. c \<noteq> CHR '','') s))\<rparr>"

lemma plain_cursor: "plain_cursor (encodeCursor c) = c"
proof -
  have "\<forall>x \<in> set (itoa (uint (cu_uid_validity c))). x \<noteq> CHR '',''"
    using nat_str_digits [of "CHR '',''"] by (auto simp: itoa_def char_digit_def Let_def nat_uint_eq)
  then have "dropWhile (\<lambda>c. c \<noteq> CHR '','') (itoa (uint (cu_uid_validity c)) @ CHR '','' # r) = CHR '','' # r" for r
    by (simp add: dropWhile_append3)
  then show ?thesis
    by (cases c) (simp add: plain_cursor_def encodeCursor_def parseUID_prefix char_digit_def)
qed

definition letter_at :: "uid \<Rightarrow> imap_message" where
  "letter_at u = \<lparr>im_uid = u, im_size = 1, im_internal_date = 0, im_envelope = Some \<lparr>en_date = None,
     en_subject = ''s'', en_from = [], en_to = [], en_cc = [], en_message_id = []\<rparr>, im_body = None\<rparr>"

definition sample_connection :: "imap_message list \<Rightarrow> imap_connection" where
  "sample_connection s = \<lparr>cn_starttls_offered = False, cn_starttls = (\<lambda>_. None),
     cn_authenticate = (\<lambda>_ _. None), cn_login = (\<lambda>_ _. None), cn_list = ([], None), cn_status = (\<lambda>_. None),
     cn_select = (\<lambda>_. Inr \<lparr>mb_uid_validity = 7, mb_messages = word_of_nat (length s)\<rparr>),
     cn_fetch = (\<lambda>_ _. (s, None)), cn_uid_fetch = (\<lambda>n _. (filter (\<lambda>m. n \<le> im_uid m) s, None))\<rparr>"

definition sample_provider :: "(string + imap_connection) \<Rightarrow> imap_provider" where
  "sample_provider r = \<lparr>ip_unicode = sample_unicode, ip_settings = (\<lambda>_. Inr \<lparr>is_host = ''h'', is_port = 993,
     is_use_tls = None\<rparr>), ip_cursor = plain_cursor, ip_dial_tls = (\<lambda>_. r), ip_dial = (\<lambda>_. r),
     ip_reader = (\<lambda>_. Inl ''unused'')\<rparr>"

definition sample_target :: mail_target where
  "sample_target = \<lparr>tg_id = ''a'', tg_provider = ''imap'', tg_kind = ''imap'', tg_email_address = ''ann@x'',
     tg_auth_mode = ''password'', tg_settings = ''{}'', tg_credentials = \<lparr>mc_username = [], mc_password = ''p'',
       mc_access_token = [], mc_refresh_token = [], mc_expires_at = 0\<rparr>\<rparr>"

lemma sample_cursor [simp]: "ip_cursor (sample_provider r) = plain_cursor"
  by (simp add: sample_provider_def)

lemma sample_polls:
  "imap_connect (sample_provider r) sample_target = (case r of
     Inl e \<Rightarrow> Inl (PlainErr (''imap: cannot reach h:'' @ itoa 993 @ '': '' @ e)) | Inr c \<Rightarrow>
       (case cn_login c ''ann@x'' ''p'' of Some e \<Rightarrow> Inl (PlainErr (''imap: login failed for ann@x: '' @ e)) | None \<Rightarrow> Inr c))"
  by (simp add: imap_connect_def DecodeSettings_def sample_provider_def sample_target_def dial_def use_tls_def
      authenticate_def Let_def split: sum.split option.split)

lemma sample_working:
  "distinct (map im_uid s) \<Longrightarrow> word_of_nat (length s) = (0 :: 32 word) \<longrightarrow> s = []
     \<Longrightarrow> working sample_target f 7 (sample_provider (Inr (sample_connection s)), s)"
  by (auto simp: working_def sample_polls serves_def sample_connection_def distinct_map inj_on_def)

definition sample_request :: fetch_request where
  "sample_request = \<lparr>fq_folder = [], fq_since = 0,
     fq_cursor = encodeCursor \<lparr>cu_uid_validity = 7, cu_last_uid = 1\<rparr>, fq_limit = 200\<rparr>"

theorem polls_see_mail_once_witness:
  "set (uids_of (polls sample_target sample_request
       [sample_provider (Inr (sample_connection [letter_at 1, letter_at 2])), sample_provider (Inl ''down''),
        sample_provider (Inr (sample_connection [letter_at 1, letter_at 2, letter_at 4]))])) = {2, 4}"
proof -
  let ?s = "[letter_at 1, letter_at 2]" and ?f = "[letter_at 1, letter_at 2, letter_at 4]"
  let ?ps = "[(sample_provider (Inr (sample_connection ?s)), ?s), (sample_provider (Inl ''down''), [])]"
  have l: "im_uid (letter_at u) = u" "im_envelope (letter_at u) \<noteq> None" for u by (simp_all add: letter_at_def)
  have "set (uids_of (polls sample_target sample_request
      (map fst ?ps @ [sample_provider (Inr (sample_connection ?f))]))) = beyond 1 ?f"
    by (rule polls_see_mail_once [where ps = ?ps and v = 7 and L = 1, THEN conjunct1])
      (simp_all add: sample_working l grew_def down_def sample_polls sample_request_def plain_cursor)
  also have "beyond 1 ?f = {2, 4}" using l
    by (auto simp: beyond_def intro: image_eqI [of _ im_uid "letter_at 2"] image_eqI [of _ im_uid "letter_at 4"])
  finally show ?thesis by simp
qed

text \<open>A folder that was empty at its first poll is still at its first run at the next one, which
  asks only for the newest messages: what came before them in between is never seen.\<close>

lemma empty_folder_first_run:
  assumes "imap_connect P account = Inr c" "cn_select c (folder_of request) = Inr mailbox" "mb_messages mailbox = 0"
    "fq_cursor request = []"
  shows "imap_Fetch P account request = Inr \<lparr>fr_messages = [],
    fr_cursor = encodeCursor \<lparr>cu_uid_validity = mb_uid_validity mailbox, cu_last_uid = 0\<rparr>\<rparr>"
  using assms by (simp add: imap_Fetch_def folder_of_def start_cursor_def Let_def split: if_splits)

lemma first_run_newest:
  "mb_messages mailbox > word_of_int limit \<Longrightarrow> fetch_range c mailbox \<lparr>cu_uid_validity = v, cu_last_uid = 0\<rparr> limit
     = cn_fetch c (mb_messages mailbox - word_of_int limit + 1) (mb_messages mailbox)"
  by (simp add: fetch_range_def)

end
