(* ===== verification/MailStub.thy ===== *)
theory MailStub
  imports Resolver
begin

text \<open>
  The development stub of internal/gateway/mail/stub/stub.go, a mail client that contacts
  nothing.  The time of the call and the decoding of its cursor are parameters.
\<close>

record stub_provider =
  st_now :: int
  st_cursor :: "string \<Rightarrow> int"

definition stub_Describe :: descriptor where
  "stub_Describe = \<lparr>ds_kind = ''imap'', ds_label = ''IMAP (development stub)'',
     ds_auth_modes = [AuthPassword, AuthAppPassword],
     ds_capabilities = \<lparr>cp_folders = True, cp_labels = False, cp_push = False, cp_idle = False,
       cp_server_search = False\<rparr>,
     ds_config_schema = \<lparr>sc_fields = [schema_field_of ''host'' ''IMAP server'' ''string'',
       schema_field_of ''port'' ''Port'' ''int'']\<rparr>\<rparr>"

definition stub_Folders :: "mail_target \<Rightarrow> err + folder list" where
  "stub_Folders account = Inr [\<lparr>fo_name = ''INBOX'', fo_message_count = 128\<rparr>,
     \<lparr>fo_name = ''INBOX/Alerts'', fo_message_count = 12\<rparr>, \<lparr>fo_name = ''Archive'', fo_message_count = 940\<rparr>,
     \<lparr>fo_name = ''Sent'', fo_message_count = 64\<rparr>]"

definition stub_Verify :: "mail_target \<Rightarrow> err + folder list" where
  "stub_Verify account = stub_Folders account"

definition stub_samples :: "int \<Rightarrow> string \<Rightarrow> message list" where
  "stub_samples now mailbox =
     [\<lparr>mg_message_id = ''<signup-'' @ itoa now @ ''@stub.mailpulse>'', mg_uid = ''1001'',
       mg_subject = ''A new user signed up'', mg_from_address = ''notifications@stripe.com'',
       mg_from_name = ''Stripe'', mg_to = [mailbox], mg_cc = [],
       mg_body_text = ''Someone signed up for your product a moment ago. Account: acct_1234.'',
       mg_headers = [(''X-Mailer'', ''stub'')], mg_has_attachment = False, mg_attachment_names = [],
       mg_size_bytes = 4210, mg_received_at = now - 60000\<rparr>,
      \<lparr>mg_message_id = ''<invoice-'' @ itoa now @ ''@stub.mailpulse>'', mg_uid = ''1002'',
       mg_subject = ''Invoice INV-2201 is available'', mg_from_address = ''billing@vendor.example'',
       mg_from_name = ''Vendor Billing'', mg_to = [mailbox], mg_cc = [],
       mg_body_text = ''Your invoice for this month is attached and due in 14 days.'',
       mg_headers = [], mg_has_attachment = True, mg_attachment_names = [''INV-2201.pdf''],
       mg_size_bytes = 88400, mg_received_at = now - 45000\<rparr>,
      \<lparr>mg_message_id = ''<newsletter-'' @ itoa now @ ''@stub.mailpulse>'', mg_uid = ''1003'',
       mg_subject = ''Weekly digest: what shipped'', mg_from_address = ''news@letter.example'',
       mg_from_name = ''The Weekly'', mg_to = [mailbox], mg_cc = [],
       mg_body_text = ''Here is everything that shipped this week across the platform.'',
       mg_headers = [], mg_has_attachment = False, mg_attachment_names = [],
       mg_size_bytes = 15300, mg_received_at = now - 30000\<rparr>]"

definition stub_cursor :: "int \<Rightarrow> string" where
  "stub_cursor n = ''{'' @ [CHR 0x22] @ ''delivered'' @ [CHR 0x22] @ '':'' @ itoa n @ ''}''"

text \<open>A slice with a negative start panics.\<close>

definition stub_Fetch :: "stub_provider \<Rightarrow> mail_target \<Rightarrow> fetch_request \<Rightarrow> err + fetch_result" where
  "stub_Fetch P account request =
     (let delivered = (if fq_cursor request \<noteq> [] then st_cursor P (fq_cursor request) else 0);
          samples = stub_samples (st_now P) (tg_email_address account) in
      if delivered \<ge> int (length samples) then Inr \<lparr>fr_messages = [], fr_cursor = stub_cursor delivered\<rparr>
      else if delivered < 0 then Inl (Panic ''slice bounds out of range'')
      else let rest = drop (nat delivered) samples;
               messages = (if fq_limit request > 0 \<and> int (length rest) > fq_limit request
                           then take (nat (fq_limit request)) rest else rest) in
        Inr \<lparr>fr_messages = messages, fr_cursor = stub_cursor (delivered + int (length messages))\<rparr>)"

definition StubProvider :: "stub_provider \<Rightarrow> mail_client" where
  "StubProvider P = \<lparr>cl_describe = stub_Describe, cl_verify = stub_Verify, cl_fetch = stub_Fetch P,
     cl_folders = Some stub_Folders\<rparr>"

text \<open>The stub hands out its samples in order, none twice: what it gives and the cursor it
  returns are a prefix of the rest and its end.\<close>

lemma stub_Fetch_in_order:
  assumes "stub_Fetch P account request = Inr r" "fq_cursor request = stub_cursor (int n)"
    "st_cursor P (stub_cursor (int n)) = int n"
  shows "\<exists>k. fr_messages r = take k (drop n (stub_samples (st_now P) (tg_email_address account)))
    \<and> fr_cursor r = stub_cursor (int n + int (length (fr_messages r)))"
proof -
  have "fq_cursor request \<noteq> []" using assms(2) by (simp add: stub_cursor_def)
  then show ?thesis
    using assms
    by (auto simp: stub_Fetch_def Let_def min_def split: if_splits intro: exI [of _ 0]
        exI [of _ "length (stub_samples (st_now P) (tg_email_address account))"])
qed

end
