(* ===== verification/App.thy ===== *)
theory App
  imports Routes OAuthProviders Imap MailStub
begin

text \<open>
  internal/config: the settings with their defaults, the connection strings, and \<open>Bootstrap\<close>,
  which wires the registries, caches and use cases of the other theories together.  Viper is
  the parameter \<open>settings\<close>.  The platform holds the parts that come from third-party libraries,
  as use cases, clients and channels whose wiring is still open; \<open>Bootstrap\<close> sets every field
  that the code sets.  Repositories carry nothing but a logger, and Kafka is left out.
\<close>

subsection \<open>viper.go\<close>

datatype config_value = CStr string | CInt int | CBool bool

definition setDefaults :: "(string \<times> config_value) list" where
  "setDefaults =
     [(''app.name'', CStr ''mailpulse''), (''app.version'', CStr ''1.0.0''),
      (''app.base_url'', CStr ''http://localhost:3000''),
      (''web.port'', CInt 3000), (''web.prefork'', CBool False), (''web.trusted_proxies'', CStr []),
      (''web.cors_origins'', CStr []), (''web.docs_enabled'', CBool True), (''web.catalog_max_age'', CInt 0),
      (''security.encryption_key'', CStr []),
      (''security.ratelimit.login.attempts'', CInt 30), (''security.ratelimit.login.window'', CInt 300),
      (''security.ratelimit.forgot_password.attempts'', CInt 10),
      (''security.ratelimit.forgot_password.window'', CInt 900),
      (''session.ttl'', CInt 604800), (''session.touch_interval'', CInt 0),
      (''oauth.google.client_id'', CStr []), (''oauth.google.client_secret'', CStr []),
      (''oauth.microsoft.client_id'', CStr []), (''oauth.microsoft.client_secret'', CStr []),
      (''oauth.microsoft.tenant'', CStr ''common''), (''oauth.yandex.client_id'', CStr []),
      (''oauth.yandex.client_secret'', CStr []), (''oauth.callback_base_url'', CStr ''http://localhost:3000''),
      (''oauth.stub_url'', CStr []),
      (''worker.poll_interval'', CInt 30), (''worker.poll_batch'', CInt 20), (''worker.dispatch_interval'', CInt 5),
      (''worker.dispatch_batch'', CInt 50), (''worker.verify_interval'', CInt 3600), (''worker.verify_batch'', CInt 20),
      (''worker.dispatch_concurrency'', CInt 1), (''worker.poll_concurrency'', CInt 1),
      (''worker.dispatch_timeout'', CInt 60), (''worker.poll_timeout'', CInt 300), (''worker.health_port'', CInt 3001),
      (''mail.imap_timeout'', CInt 30), (''mail.reverify_after'', CInt 21600), (''mail.stub_enabled'', CBool False),
      (''telegram.bot_token'', CStr []),
      (''test.mail_host'', CStr ''greenmail''), (''test.mail_port'', CInt 3143), (''test.smtp_port'', CInt 3025),
      (''test.mail_username'', CStr ''demo''), (''test.mail_password'', CStr ''secret123''),
      (''test.mail_address'', CStr ''demo@corp.com''), (''log.level'', CInt 6),
      (''database.host'', CStr ''localhost''), (''database.port'', CInt 5432), (''database.username'', CStr ''postgres''),
      (''database.password'', CStr ''postgres''), (''database.name'', CStr ''mailpulse''),
      (''database.sslmode'', CStr ''disable''), (''database.sslrootcert'', CStr []), (''database.timezone'', CStr ''UTC''),
      (''database.pool.idle'', CInt 10), (''database.pool.max'', CInt 100), (''database.pool.lifetime'', CInt 300),
      (''redis.host'', CStr ''localhost''), (''redis.port'', CInt 6379), (''redis.username'', CStr []),
      (''redis.password'', CStr []), (''redis.db'', CInt 0), (''redis.pool.size'', CInt 100),
      (''redis.tls'', CBool False), (''redis.tls_insecure'', CBool False), (''redis.timeout.dial'', CInt 0),
      (''redis.timeout.read'', CInt 0), (''redis.timeout.write'', CInt 0), (''redis.max_retries'', CInt 3),
      (''redis.connect_attempts'', CInt 1), (''redis.ttl.auth'', CInt 300), (''redis.ttl.password_reset'', CInt 1800),
      (''redis.ttl.oauth_state'', CInt 600), (''redis.ttl.mail_provider'', CInt 600), (''redis.ttl.dashboard'', CInt 0),
      (''kafka.bootstrap.servers'', CStr ''localhost:9092''), (''kafka.group.id'', CStr ''mailpulse''),
      (''kafka.auto.offset.reset'', CStr ''earliest''), (''kafka.producer.enabled'', CBool False)]"

record settings =
  get_string :: "string \<Rightarrow> string"
  get_int :: "string \<Rightarrow> int"
  get_bool :: "string \<Rightarrow> bool"

text \<open>The settings of an empty environment: a key of another type or an unknown one reads zero.\<close>

definition default_settings :: settings where
  "default_settings = \<lparr>
     get_string = (\<lambda>k. case map_of setDefaults k of Some (CStr s) \<Rightarrow> s | _ \<Rightarrow> []),
     get_int = (\<lambda>k. case map_of setDefaults k of Some (CInt n) \<Rightarrow> n | _ \<Rightarrow> 0),
     get_bool = (\<lambda>k. case map_of setDefaults k of Some (CBool b) \<Rightarrow> b | _ \<Rightarrow> False)\<rparr>"

subsection \<open>fiber.go, gorm.go, redis.go\<close>

definition splitAndTrim :: "unicode \<Rightarrow> string \<Rightarrow> string list" where
  "splitAndTrim U csv = (if trim_space U csv = [] then []
     else filter (\<lambda>p. p \<noteq> []) (map (trim_space U) (split_on (CHR '','') csv)))"

record fiber_config =
  fc_app_name :: string
  fc_prefork :: bool
  fc_proxy_header :: string
  fc_trusted_proxy_check :: bool
  fc_trusted_proxies :: "string list"

definition NewFiber :: "unicode \<Rightarrow> settings \<Rightarrow> fiber_config" where
  "NewFiber U c = \<lparr>fc_app_name = get_string c ''app.name'', fc_prefork = get_bool c ''web.prefork'',
     fc_proxy_header = ''X-Forwarded-For'', fc_trusted_proxy_check = True,
     fc_trusted_proxies = splitAndTrim U (get_string c ''web.trusted_proxies'')\<rparr>"

definition dsn :: "settings \<Rightarrow> string" where
  "dsn c =
     (let base = ''host='' @ get_string c ''database.host'' @ '' user='' @ get_string c ''database.username''
        @ '' password='' @ get_string c ''database.password'' @ '' dbname='' @ get_string c ''database.name''
        @ '' port='' @ itoa (get_int c ''database.port'') @ '' sslmode='' @ get_string c ''database.sslmode''
        @ '' TimeZone='' @ get_string c ''database.timezone'';
          rootCert = get_string c ''database.sslrootcert'' in
      if rootCert \<noteq> [] then base @ '' sslrootcert='' @ rootCert else base)"

text \<open>\<open>duration\<close> of redis.go\<close>

definition redis_duration :: "settings \<Rightarrow> string \<Rightarrow> int" where
  "redis_duration c key = (let s = get_int c key in if s \<le> 0 then 0 else duration s Second)"

record redis_options =
  ro_addr :: string
  ro_username :: string
  ro_password :: string
  ro_db :: int
  ro_pool_size :: int
  ro_dial_timeout :: int
  ro_read_timeout :: int
  ro_write_timeout :: int
  ro_max_retries :: int
  ro_tls :: "(string \<times> bool) option"

definition NewRedis_options :: "settings \<Rightarrow> redis_options" where
  "NewRedis_options c = \<lparr>ro_addr = get_string c ''redis.host'' @ '':'' @ itoa (get_int c ''redis.port''),
     ro_username = get_string c ''redis.username'', ro_password = get_string c ''redis.password'',
     ro_db = get_int c ''redis.db'', ro_pool_size = get_int c ''redis.pool.size'',
     ro_dial_timeout = redis_duration c ''redis.timeout.dial'',
     ro_read_timeout = redis_duration c ''redis.timeout.read'',
     ro_write_timeout = redis_duration c ''redis.timeout.write'',
     ro_max_retries = get_int c ''redis.max_retries'',
     ro_tls = (if get_bool c ''redis.tls'' then Some (get_string c ''redis.host'', get_bool c ''redis.tls_insecure'')
               else None)\<rparr>"

text \<open>The attempts that are left; the wait between two of them is not modelled.\<close>

fun ping_rounds :: "nat \<Rightarrow> unit ioE" where
  "ping_rounds 0 = returnE ()"
| "ping_rounds (Suc n) = State_Monad.bind (redis_cmd (\<lambda>m t. ((), m))) (\<lambda>r. case r of
     Inr u \<Rightarrow> returnE u
   | Inl e \<Rightarrow> if n = 0 then failE e else ping_rounds n)"

definition pingRedis :: "settings \<Rightarrow> unit ioE" where
  "pingRedis c = (let attempts = get_int c ''redis.connect_attempts'' in
     ping_rounds (nat (if attempts < 1 then 1 else attempts)))"

subsection \<open>app.go\<close>

record platform =
  pf_parts :: app
  pf_aes_gcm :: "string \<Rightarrow> aead"
  pf_unicode :: unicode
  pf_oauth2 :: oauth2_library
  pf_http :: http_client
  pf_userinfo :: "string \<Rightarrow> string + userinfo"
  pf_claims :: "string \<Rightarrow> string + (string \<rightharpoonup> string)"
  pf_imap :: imap_provider
  pf_stub :: stub_provider
  pf_telegram :: telegram_channel
  pf_sms :: sms_channel
  pf_email :: email_channel
  pf_webhook :: webhook_channel
  pf_notify :: notify_handler
  pf_http_handler :: http_handler

definition seconds :: "settings \<Rightarrow> string \<Rightarrow> int" where
  "seconds c key = duration (get_int c key) Second"

definition newCaches :: "settings \<Rightarrow> cache_ttls" where
  "newCaches c = \<lparr>ttl_user = seconds c ''redis.ttl.auth'', ttl_reset = seconds c ''redis.ttl.password_reset'',
     ttl_dashboard = seconds c ''redis.ttl.dashboard'', ttl_provider = seconds c ''redis.ttl.mail_provider'',
     ttl_oauth = seconds c ''redis.ttl.oauth_state''\<rparr>"

definition newChannels :: "settings \<Rightarrow> platform \<Rightarrow> (string \<rightharpoonup> channel)" where
  "newChannels c P = Channels_Register
     [TelegramChannel ((pf_telegram P)\<lparr>tl_default_token := get_string c ''telegram.bot_token''\<rparr>),
      SMSChannel (pf_sms P), EmailChannel (pf_email P),
      WebhookChannel (NewWebhookChannel (pf_webhook P)), WebhookChannel (NewSlackChannel (pf_webhook P)),
      WebhookChannel (NewDiscordChannel (pf_webhook P))] Map.empty"

definition newHandlers :: "settings \<Rightarrow> platform \<Rightarrow> aead \<Rightarrow> (string \<rightharpoonup> handler)" where
  "newHandlers c P cipher = Register
     [NotifyHandler ((pf_notify P)\<lparr>nh_channels := newChannels c P, nh_cipher := cipher,
        nh_base_url := get_string c ''app.base_url''\<rparr>),
      HTTPHandler (NewWebhookHandler (pf_http_handler P)),
      HTTPHandler (NewHTTPRequestHandler (pf_http_handler P))] Map.empty"

definition newOAuthRegistry :: "settings \<Rightarrow> platform \<Rightarrow> (string \<rightharpoonup> oauth_client)" where
  "newOAuthRegistry c P =
     (let callbackBase = get_string c ''oauth.callback_base_url'';
          clients = OAuth_Register
            [NewGoogle (pf_oauth2 P) (pf_http P) (pf_userinfo P)
               \<lparr>og_client_id = get_string c ''oauth.google.client_id'',
                og_client_secret = get_string c ''oauth.google.client_secret'', og_tenant = []\<rparr> callbackBase,
             NewMicrosoft (pf_oauth2 P) (pf_claims P)
               \<lparr>og_client_id = get_string c ''oauth.microsoft.client_id'',
                og_client_secret = get_string c ''oauth.microsoft.client_secret'',
                og_tenant = get_string c ''oauth.microsoft.tenant''\<rparr> callbackBase,
             NewYandex (pf_oauth2 P) (pf_http P) (pf_userinfo P)
               \<lparr>og_client_id = get_string c ''oauth.yandex.client_id'',
                og_client_secret = get_string c ''oauth.yandex.client_secret'', og_tenant = []\<rparr> callbackBase]
            Map.empty;
          stubURL = get_string c ''oauth.stub_url'' in
      if stubURL \<noteq> [] then OAuth_Register [NewStub (pf_oauth2 P) (pf_http P) (pf_userinfo P) YandexSlug stubURL] clients
      else clients)"

definition newMailRegistry :: "settings \<Rightarrow> platform \<Rightarrow> (string \<rightharpoonup> mail_client)" where
  "newMailRegistry c P =
     (if get_bool c ''mail.stub_enabled'' then Mail_Register [StubProvider (pf_stub P)] Map.empty
      else Mail_Register [IMAPProvider (pf_imap P)] Map.empty)"

definition newUseCases :: "settings \<Rightarrow> platform \<Rightarrow> aead \<Rightarrow> app" where
  "newUseCases c P cipher =
     (let parts = pf_parts P; caches = newCaches c; channels = newChannels c P; handlers = newHandlers c P cipher;
          user = (ap_users parts)\<lparr>uu_ttls := caches, uu_session_ttl := seconds c ''session.ttl'',
            uu_touch_interval := seconds c ''session.touch_interval''\<rparr>;
          accounts = ap_accounts parts;
          resolver = (mu_resolver accounts)\<lparr>rs_ttls := caches, rs_cached := True,
            rs_clients := newMailRegistry c P, rs_oauth := newOAuthRegistry c P, rs_cipher := cipher\<rparr>;
          pipeline = (mu_pipeline accounts)\<lparr>pl_resolver := resolver\<rparr>;
          dispatcher = (ay_dispatcher (ap_activity parts))\<lparr>dp_handlers := handlers\<rparr> in
      parts\<lparr>ap_users := user,
        ap_accounts := accounts\<lparr>mu_pipeline := pipeline, mu_ui_base_url := get_string c ''app.base_url''\<rparr>,
        ap_notifiers := (ap_notifiers parts)\<lparr>nu_channels := channels, nu_cipher := cipher\<rparr>,
        ap_watchers := (ap_watchers parts)\<lparr>wu_events := dispatcher, wu_resolver := resolver\<rparr>,
        ap_events := (ap_events parts)\<lparr>vu_dispatcher := dispatcher\<rparr>,
        ap_activity := (ap_activity parts)\<lparr>ay_dispatcher := dispatcher, ay_ttls := caches\<rparr>,
        ap_admin := (ap_admin parts)\<lparr>ad_users := user\<rparr>,
        ap_catalog := (ap_catalog parts)\<lparr>ct_handlers := handlers, ct_channels := channels,
          ct_mail_clients := newMailRegistry c P, ct_version := get_string c ''app.version''\<rparr>,
        ap_static_max_age := seconds c ''web.catalog_max_age''\<rparr>)"

definition setupRoutes :: "settings \<Rightarrow> platform \<Rightarrow> route_config" where
  "setupRoutes c P = \<lparr>rc_docs_enabled = get_bool c ''web.docs_enabled'',
     rc_cors_origins = splitAndTrim (pf_unicode P) (get_string c ''web.cors_origins''),
     rc_login_rate = (get_int c ''security.ratelimit.login.attempts'', seconds c ''security.ratelimit.login.window''),
     rc_forgot_rate = (get_int c ''security.ratelimit.forgot_password.attempts'',
       seconds c ''security.ratelimit.forgot_password.window'')\<rparr>"

record container =
  co_app :: app
  co_routes :: route_config
  co_poll_tuning :: "int \<times> int"
  co_dispatch_tuning :: "int \<times> int"

definition Bootstrap :: "settings \<Rightarrow> platform \<Rightarrow> err + container" where
  "Bootstrap c P = (case NewCipher (pf_aes_gcm P) (get_string c ''security.encryption_key'') of
      Inl e \<Rightarrow> Inl e
    | Inr cipher \<Rightarrow> Inr \<lparr>co_app = newUseCases c P cipher, co_routes = setupRoutes c P,
        co_poll_tuning = (get_int c ''worker.poll_concurrency'', seconds c ''worker.poll_timeout''),
        co_dispatch_tuning = (get_int c ''worker.dispatch_concurrency'', seconds c ''worker.dispatch_timeout'')\<rparr>)"

subsection \<open>What a start gives\<close>

text \<open>There is no default key: without one the program does not start.\<close>

lemma no_default_key: "\<exists>e. Bootstrap default_settings P = Inl e"
  by (simp add: Bootstrap_def default_settings_def setDefaults_def NewCipher_def)

text \<open>The channels and handlers of a running program, each under its own type\<close>

lemma newChannels_types:
  "dom (newChannels c P) = {''telegram'', ''sms'', ''email'', ''webhook'', ''slack'', ''discord''}"
  "newChannels c P t = Some ch \<Longrightarrow> ch_type ch = t"
  unfolding newChannels_def channel_reg.dom_register
  by (auto simp: TelegramChannel_def SMSChannel_def EmailChannel_def WebhookChannel_def NewWebhookChannel_def
      NewSlackChannel_def NewDiscordChannel_def dest: channel_reg.registered_key)

lemma newHandlers_types:
  "dom (newHandlers c P cipher) = {''notify'', ''webhook'', ''http_request''}"
  "newHandlers c P cipher t = Some h \<Longrightarrow> hd_type h = t"
  unfolding newHandlers_def handler_reg.dom_register
  by (auto simp: NotifyHandler_def HTTPHandler_def NewWebhookHandler_def NewHTTPRequestHandler_def
      dest: handler_reg.registered_key)

text \<open>An OAuth client of a running program never identifies an account without its address.\<close>

lemma newOAuthRegistry_identifying: "newOAuthRegistry c P s = Some x \<Longrightarrow> identifying x"
  unfolding newOAuthRegistry_def Let_def OAuth_Register_append if_distrib [where f = "\<lambda>m. m s", symmetric]
  by (auto elim!: OAuth_Register_identifying intro: New_identifying [OF sym] split: if_splits)

text \<open>The wait for Redis gives up only when every attempt failed.\<close>

lemma ping_rounds_ok:
  "run_state (ping_rounds (Suc n)) w = (r, w') \<Longrightarrow>
     (\<exists>u. r = Inr u) \<longleftrightarrow> (\<exists>i \<le> n. \<not> redis_faults w (rcmds w + i))"
proof (induction n arbitrary: w r w')
  case (Suc n)
  show ?case
  proof (cases "redis_faults w (rcmds w)")
    case True
    then have "run_state (ping_rounds (Suc n)) (w\<lparr>rcmds := Suc (rcmds w)\<rparr>) = (r, w')"
      using Suc.prems by (simp add: run_redis_cmd del: ping_rounds.simps(2) add: ping_rounds.simps(2) [of "Suc n"])
    from Suc.IH [OF this] show ?thesis
      using True by simp (metis Suc_le_mono add_Suc_right le0 not0_implies_Suc add.right_neutral)
  next
    case False
    then show ?thesis using Suc.prems by (auto simp: run_redis_cmd intro: exI [of _ 0])
  qed
qed (auto simp: run_redis_cmd split: if_splits)

end
