(* ===== verification/Worker.thy ===== *)
theory Worker
  imports App
begin

text \<open>
  The worker process, cmd/worker: three ticking loops and the probe that watches them, and the
  consumer of internal/delivery/messaging.  A loop is the work of its ticks, one after the
  other, until its context is cancelled; timers, goroutines and signals are left out.  The pool
  order and the rows other workers hold are parameters of the work, as in the pipeline and the
  dispatcher.
\<close>

subsection \<open>health.go\<close>

record loop_state =
  lp_budget :: int
  lp_last_tick :: int

type_synonym loop_health = "string \<rightharpoonup> loop_state"

record loop_report =
  lr_silent_seconds :: int
  lr_budget_seconds :: int
  lr_stalled :: bool

definition newLoopHealth :: loop_health where
  "newLoopHealth = Map.empty"

definition loop_budget :: "int \<Rightarrow> int" where
  "loop_budget interval = (let b = wrap64 (3 * interval) in if b < Minute then Minute else b)"

definition loop_register :: "string \<Rightarrow> int \<Rightarrow> loop_health \<Rightarrow> loop_health io" where
  "loop_register name interval h = State_Monad.bind time_now (\<lambda>now.
     ret (h(name \<mapsto> \<lparr>lp_budget = loop_budget interval, lp_last_tick = now\<rparr>)))"

definition tick :: "string \<Rightarrow> loop_health \<Rightarrow> loop_health io" where
  "tick name h = (case h name of
      None \<Rightarrow> ret h
    | Some s \<Rightarrow> State_Monad.bind time_now (\<lambda>now. ret (h(name \<mapsto> s\<lparr>lp_last_tick := now\<rparr>))))"

definition report_of :: "int \<Rightarrow> loop_state \<Rightarrow> loop_report" where
  "report_of now s = (let silent = now - lp_last_tick s in
     \<lparr>lr_silent_seconds = trunc_div silent Second, lr_budget_seconds = trunc_div (lp_budget s) Second,
      lr_stalled = (silent > lp_budget s)\<rparr>)"

text \<open>The reports by loop, and whether any loop is stalled; \<open>names\<close> lists the loops of the map.\<close>

definition loop_reports :: "string list \<Rightarrow> loop_health \<Rightarrow> ((string \<rightharpoonup> loop_report) \<times> bool) io" where
  "loop_reports names h = State_Monad.bind time_now (\<lambda>now.
     ret (map_option (report_of now) \<circ> h,
          list_ex (\<lambda>n. case h n of None \<Rightarrow> False | Some s \<Rightarrow> lr_stalled (report_of now s)) names))"

record worker_health =
  wh_dependencies :: health_response
  wh_loops :: "string \<rightharpoonup> loop_report"

text \<open>The handler behind the health port: a status and the answer\<close>

definition serveHealth :: "catalog_uc \<Rightarrow> string list \<Rightarrow> loop_health \<Rightarrow> (int \<times> worker_health) io" where
  "serveHealth C names h = do {
     dependencies \<leftarrow> Health C;
     r \<leftarrow> loop_reports names h;
     (case r of (reports, stalled) \<Rightarrow>
        ret (if hl_database dependencies \<noteq> ''ok'' \<or> hl_redis dependencies \<noteq> ''ok'' \<or> stalled then 503 else 200,
             \<lparr>wh_dependencies = dependencies, wh_loops = reports\<rparr>)) }"

subsection \<open>main.go\<close>

text \<open>The ticks of a loop: the result of the work is logged and dropped, the loop reports itself.\<close>

fun run_loop :: "string \<Rightarrow> 'a ioE list \<Rightarrow> loop_health \<Rightarrow> loop_health io" where
  "run_loop name [] h = ret h"
| "run_loop name (work # rest) h = do { _ \<leftarrow> work; h' \<leftarrow> tick name h; run_loop name rest h' }"

record tick_input =
  tc_account_pool :: "mail_account list \<Rightarrow> mail_account list"
  tc_run_pool :: "event_run list \<Rightarrow> event_run list"
  tc_locked :: "string \<Rightarrow> bool"

definition runPoller :: "settings \<Rightarrow> container \<Rightarrow> tick_input list \<Rightarrow> loop_health \<Rightarrow> loop_health io" where
  "runPoller c K fires h = do {
     h' \<leftarrow> loop_register ''poller'' (seconds c ''worker.poll_interval'') h;
     run_loop ''poller'' (map (\<lambda>t. PollDue (mu_pipeline (ap_accounts (co_app K))) (tc_account_pool t) (tc_locked t)
       (get_int c ''worker.poll_batch'')) fires) h' }"

definition runDispatcher :: "settings \<Rightarrow> container \<Rightarrow> tick_input list \<Rightarrow> loop_health \<Rightarrow> loop_health io" where
  "runDispatcher c K fires h = do {
     h' \<leftarrow> loop_register ''dispatcher'' (seconds c ''worker.dispatch_interval'') h;
     run_loop ''dispatcher'' (map (\<lambda>t. Tick (ay_dispatcher (ap_activity (co_app K))) (tc_run_pool t) (tc_locked t)
       (get_int c ''worker.dispatch_batch'')) fires) h' }"

definition runCredentialChecker :: "settings \<Rightarrow> container \<Rightarrow> tick_input list \<Rightarrow> loop_health \<Rightarrow> loop_health io" where
  "runCredentialChecker c K fires h = do {
     h' \<leftarrow> loop_register ''credentials'' (seconds c ''worker.verify_interval'') h;
     run_loop ''credentials'' (map (\<lambda>t. ReverifyDue (ap_accounts (co_app K)) (tc_locked t)
       (seconds c ''mail.reverify_after'') (get_int c ''worker.verify_batch'')) fires) h' }"

subsection \<open>messaging/producer.go, consumer.go, user\_consumer.go\<close>

record user_event =
  ue_id :: string
  ue_name :: string
  ue_created_at :: int
  ue_updated_at :: int

record producer_message =
  pm_topic :: string
  pm_key :: string
  pm_value :: string

text \<open>The JSON of an event leaves out what is empty.\<close>

definition user_event_json :: "unicode \<Rightarrow> user_event \<Rightarrow> string" where
  "user_event_json U e = json_object U
     ((if ue_id e = [] then [] else [(''id'', json_string U (ue_id e))])
      @ (if ue_name e = [] then [] else [(''name'', json_string U (ue_name e))])
      @ (if ue_created_at e = 0 then [] else [(''created_at'', itoa (ue_created_at e))])
      @ (if ue_updated_at e = 0 then [] else [(''updated_at'', itoa (ue_updated_at e))]))"

text \<open>\<open>send\<close> is the broker's answer\<close>

definition Producer_Send :: "unicode \<Rightarrow> (producer_message \<Rightarrow> string option) \<Rightarrow> user_event \<Rightarrow> err option" where
  "Producer_Send U send e =
     (case send \<lparr>pm_topic = ''users'', pm_key = ue_id e, pm_value = user_event_json U e\<rparr> of
        Some t \<Rightarrow> Some (PlainErr t) | None \<Rightarrow> None)"

text \<open>\<open>UserConsumer.Consume\<close>: whether the message could be read\<close>

definition Consume_user :: "(string \<Rightarrow> user_event option) \<Rightarrow> string \<Rightarrow> bool" where
  "Consume_user unmarshal v = (unmarshal v \<noteq> None)"

text \<open>The messages of a claim with their offsets, to the end of the claim: those that are marked.
  The broker commits the highest marked offset, and what lies before it is not sent again.\<close>

fun ConsumeClaim :: "('a \<Rightarrow> bool) \<Rightarrow> (int \<times> 'a) list \<Rightarrow> int list" where
  "ConsumeClaim handler [] = []"
| "ConsumeClaim handler ((offset, m) # rest) =
     (if handler m then offset # ConsumeClaim handler rest else ConsumeClaim handler rest)"

definition committed :: "int list \<Rightarrow> int \<Rightarrow> bool" where
  "committed marked offset \<longleftrightarrow> list_ex (\<lambda>o'. offset \<le> o') marked"

subsection \<open>What the probe says\<close>

text \<open>The probe calls a loop stalled exactly when it has been silent for longer than its budget, of
  three intervals and at least a minute.\<close>

lemma probe_stalled:
  assumes "dom h = set names"
  shows "snd (fst (run_state (loop_reports names h) w))
    \<longleftrightarrow> (\<exists>n s. h n = Some s \<and> lp_last_tick s + lp_budget s < clock w (ticks w))"
proof -
  have "lr_stalled (report_of now s) \<longleftrightarrow> lp_last_tick s + lp_budget s < now" for now s
    by (auto simp: report_of_def Let_def)
  moreover have "set names = dom h" using assms ..
  ultimately show ?thesis
    by (simp add: loop_reports_def list_ex_iff Bex_def) (auto split: option.splits, blast+)
qed

lemma loop_budget_floor: "Minute \<le> loop_budget i"
  by (simp add: loop_budget_def Let_def)

text \<open>A loop that comes around is not stalled, whether or not its work fails.\<close>

lemma failing_work_still_ticks:
  assumes "h name = Some s" "run_state (run_loop name (works @ [work]) h) w = (h', w')"
  shows "\<exists>w1::world. h' name = Some (s\<lparr>lp_last_tick := clock w1 (ticks w1)\<rparr>)"
  using assms
proof (induction works arbitrary: h s w)
  case Nil
  obtain r w1 where "run_state work w = (r, w1)" by fastforce
  then have "h' = h(name \<mapsto> s\<lparr>lp_last_tick := clock w1 (ticks w1)\<rparr>)"
    using Nil by (simp add: tick_def)
  then have "h' name = Some (s\<lparr>lp_last_tick := clock w1 (ticks w1)\<rparr>)" by simp
  then show ?case ..
next
  case (Cons x xs)
  obtain r w1 where r: "run_state x w = (r, w1)" by fastforce
  let ?h = "h(name \<mapsto> s\<lparr>lp_last_tick := clock w1 (ticks w1)\<rparr>)"
  have "run_state (run_loop name (xs @ [work]) ?h) (w1\<lparr>ticks := Suc (ticks w1)\<rparr>) = (h', w')"
    using Cons.prems r by (simp add: tick_def)
  from Cons.IH [OF _ this] show ?case by fastforce
qed

text \<open>A message that fails is given up as soon as a later one of the claim succeeds.\<close>

lemma failed_message_lost:
  assumes "\<not> handler m" "handler m'" "offset < offset'"
  shows "offset \<notin> set (ConsumeClaim handler [(offset, m), (offset', m')])
    \<and> committed (ConsumeClaim handler [(offset, m), (offset', m')]) offset"
  using assms by (simp add: committed_def)

end
