(* ===== verification/Seeders.thy ===== *)
theory Seeders
  imports Dispatcher
begin

text \<open>
  The seeders of internal/seeder, which cmd/seeder runs: the registry that runs them in order,
  each in a transaction of its own (seeder.go), the accounts with their roles
  (user\_seeder.go) and the mail providers (mail\_provider\_seeder.go).

  The files of the seed directory (a clean path), their JSON and bcrypt are parameters.  An insert with
  \<open>ON CONFLICT DO NOTHING\<close> answers whether it wrote a row.  The lemmas show that seeding only
  adds, and that a second run changes nothing.
\<close>

subsection \<open>seeder.go\<close>

record seed_result =
  sd_created :: int
  sd_updated :: int
  sd_skipped :: int

definition no_result :: seed_result where
  "no_result = \<lparr>sd_created = 0, sd_updated = 0, sd_skipped = 0\<rparr>"

abbreviation one_created :: "seed_result \<Rightarrow> seed_result" where
  "one_created r \<equiv> r\<lparr>sd_created := sd_created r + 1\<rparr>"

abbreviation one_updated :: "seed_result \<Rightarrow> seed_result" where
  "one_updated r \<equiv> r\<lparr>sd_updated := sd_updated r + 1\<rparr>"

abbreviation one_skipped :: "seed_result \<Rightarrow> seed_result" where
  "one_skipped r \<equiv> r\<lparr>sd_skipped := sd_skipped r + 1\<rparr>"

record seeder =
  se_name :: string
  se_seed :: "string \<Rightarrow> seed_result ioE"

text \<open>What reading a file gives: it is not there, it cannot be read, its bytes.\<close>

datatype file_read = NoSuchFile | Unreadable err | Bytes string

record seed_env =
  sv_unicode :: unicode
  sv_read :: "string \<Rightarrow> file_read"
  sv_valid_json :: "string \<Rightarrow> bool"

text \<open>\<open>load\<close>: nothing where the file is missing\<close>

definition load_seeds :: "seed_env \<Rightarrow> string \<Rightarrow> string \<Rightarrow> err + string option" where
  "load_seeds E dir name =
     (let path = dir @ ''/'' @ name @ ''.json'' in
      case sv_read E path of
        NoSuchFile \<Rightarrow> Inr None
      | Unreadable e \<Rightarrow> Inl e
      | Bytes raw \<Rightarrow> if sv_valid_json E raw then Inr (Some raw)
                     else Inl (PlainErr (path @ '' is not valid JSON'')))"

definition seeder_names :: "seeder list \<Rightarrow> string list" where
  "seeder_names ss = map se_name ss"

definition selected :: "string \<Rightarrow> seeder \<Rightarrow> bool" where
  "selected only s \<longleftrightarrow> only = [] \<or> se_name s = only"

definition run_seeder :: "seed_env \<Rightarrow> string \<Rightarrow> seeder \<Rightarrow> unit ioE" where
  "run_seeder E dir s =
     (let failed = mapErr (\<lambda>e. PlainErr (se_name s @ '': '' @ err_text e)) in
      case load_seeds E dir (se_name s) of
        Inl e \<Rightarrow> failed (failE e)
      | Inr None \<Rightarrow> returnE ()
      | Inr (Some raw) \<Rightarrow> failed (tx_scope (bindE (se_seed s raw) (\<lambda>_. commit))))"

definition Run :: "seed_env \<Rightarrow> seeder list \<Rightarrow> string \<Rightarrow> string \<Rightarrow> unit ioE" where
  "Run E ss dir only =
     bindE (forE (filter (selected only) ss) (run_seeder E dir)) (\<lambda>_.
     whenE (only \<noteq> [] \<and> \<not> list_ex (selected only) ss)
       (PlainErr (''no seeder called '' @ go_quote (sv_unicode E) only @ '', known seeders: ['' @
         join '' '' (seeder_names ss) @ '']'')))"

subsection \<open>user\_seeder.go\<close>

record user_seed =
  su_email :: string
  su_name :: string
  su_password :: string
  su_status :: string
  su_timezone :: string
  su_roles :: "string list"

definition orDefault :: "unicode \<Rightarrow> string \<Rightarrow> string \<Rightarrow> string" where
  "orDefault U value fallback = (if trim_space U value = [] then fallback else value)"

definition link_if_new :: "user_role \<Rightarrow> database \<Rightarrow> (err + bool) \<times> database" where
  "link_if_new l d =
     (if l \<in> set (user_roles_of d) then (Inr False, d)
      else (case insert_links [l] d of (Inl e, d') \<Rightarrow> (Inl e, d') | (Inr _, d') \<Rightarrow> (Inr True, d')))"

definition link_role :: "unicode \<Rightarrow> string \<Rightarrow> string \<Rightarrow> bool ioE" where
  "link_role U user slug =
     bindE (mapErr (\<lambda>_. PlainErr (''role '' @ go_quote U slug @ '' does not exist, run the migrations first''))
       (Role_FindBySlug slug)) (\<lambda>role.
     bindE (query (\<lambda>d. Inr (count_rows (\<lambda>l. l = \<lparr>ur_user_id = user, ur_role_id = r_id role\<rparr>) (user_roles_of d)))) (\<lambda>linked.
     if linked > 0 then returnE False
     else stmt (link_if_new \<lparr>ur_user_id = user, ur_role_id = r_id role\<rparr>)))"

fun sync_roles :: "unicode \<Rightarrow> string \<Rightarrow> string list \<Rightarrow> bool \<Rightarrow> bool ioE" where
  "sync_roles U user [] changed = returnE changed"
| "sync_roles U user (slug # slugs) changed =
     bindE (link_role U user slug) (\<lambda>added. sync_roles U user slugs (changed \<or> added))"

definition syncRoles :: "unicode \<Rightarrow> string \<Rightarrow> string list \<Rightarrow> bool ioE" where
  "syncRoles U user slugs = sync_roles U user (if slugs = [] then [RoleUser] else slugs) False"

definition insert_user :: "user \<Rightarrow> database \<Rightarrow> (err + bool) \<times> database" where
  "insert_user u d =
     (if list_ex (\<lambda>x. u_email x = u_email u) (users_of d) then (Inr False, d)
      else (case insert_row users_table u d of (Inl e, d') \<Rightarrow> (Inl e, d') | (Inr _, d') \<Rightarrow> (Inr True, d')))"

definition seeded_user :: "unicode \<Rightarrow> user_seed \<Rightarrow> string \<Rightarrow> string \<Rightarrow> string \<Rightarrow> user" where
  "seeded_user U s i email hashed =
     \<lparr>u_id = i, u_email = email, u_name = orDefault U (su_name s) email, u_password = hashed,
      u_status = orDefault U (su_status s) UserStatusActive,
      u_timezone = orDefault U (su_timezone s) ''UTC'',
      u_email_verified_at = None, u_created_at = 0, u_updated_at = 0\<rparr>"

definition seed_email :: "unicode \<Rightarrow> user_seed \<Rightarrow> string" where
  "seed_email U s = to_lower U (trim_space U (su_email s))"

text \<open>The branch of an unknown address: create the user, or adopt the row that came first.\<close>

definition seed_new_user :: "unicode \<Rightarrow> (string \<Rightarrow> string \<Rightarrow> err + string) \<Rightarrow> user_seed \<Rightarrow> string \<Rightarrow> bool ioE" where
  "seed_new_user U bcrypt s email =
     bindE (bindE (read_random 16) (\<lambda>salt. liftE (bcrypt salt (su_password s)))) (\<lambda>hashed.
     do { i \<leftarrow> new_uuid;
          now \<leftarrow> now_milli;
          bindE (stmt (insert_user (tb_stamp users_table now (seeded_user U s i email hashed)))) (\<lambda>added.
          bindE (if added then returnE i
                 else bindE (User_FindByEmail email) (\<lambda>existing. returnE (u_id existing))) (\<lambda>i'.
          bindE (syncRoles U i' (su_roles s)) (\<lambda>_. returnE added))) })"

definition seed_user :: "unicode \<Rightarrow> (string \<Rightarrow> string \<Rightarrow> err + string) \<Rightarrow> user_seed \<Rightarrow> seed_result \<Rightarrow> seed_result ioE" where
  "seed_user U bcrypt s result =
     (let email = seed_email U s in
      if email = [] \<or> su_password s = [] then failE (PlainErr ''every user needs an email and a password'')
      else State_Monad.bind (User_FindByEmail email) (\<lambda>found. case found of
        Inr existing \<Rightarrow>
          bindE (syncRoles U (u_id existing) (su_roles s)) (\<lambda>changed.
          returnE (if changed then one_updated result else one_skipped result))
      | Inl RecordNotFound \<Rightarrow>
          bindE (seed_new_user U bcrypt s email) (\<lambda>added.
          returnE (if added then one_created result else one_skipped result))
      | Inl e \<Rightarrow> failE e))"

fun seed_users :: "unicode \<Rightarrow> (string \<Rightarrow> string \<Rightarrow> err + string) \<Rightarrow> user_seed list \<Rightarrow> seed_result \<Rightarrow> seed_result ioE" where
  "seed_users U bcrypt [] result = returnE result"
| "seed_users U bcrypt (s # ss) result =
     bindE (seed_user U bcrypt s result) (seed_users U bcrypt ss)"

definition UserSeeder_Seed ::
  "unicode \<Rightarrow> (string \<Rightarrow> string \<Rightarrow> err + string) \<Rightarrow> (string \<Rightarrow> err + user_seed list) \<Rightarrow> string \<Rightarrow> seed_result ioE" where
  "UserSeeder_Seed U bcrypt unmarshal raw =
     (case unmarshal raw of
        Inl e \<Rightarrow> failE (PlainErr (''users.json must be a list of users: '' @ err_text e))
      | Inr seeds \<Rightarrow> seed_users U bcrypt seeds no_result)"

subsection \<open>mail\_provider\_seeder.go\<close>

record mail_provider_seed =
  sm_slug :: string
  sm_label :: string
  sm_kind :: string
  sm_auth_modes :: string
  sm_default_host :: "string option"
  sm_default_port :: "int option"
  sm_default_use_tls :: "bool option"
  sm_help_url :: "string option"
  sm_enabled :: "bool option"
  sm_position :: int

definition boolOrDefault :: "bool option \<Rightarrow> bool \<Rightarrow> bool" where
  "boolOrDefault value fallback = (case value of None \<Rightarrow> fallback | Some b \<Rightarrow> b)"

definition seeded_provider :: "unicode \<Rightarrow> mail_provider_seed \<Rightarrow> mail_provider" where
  "seeded_provider U s =
     \<lparr>mp_slug = sm_slug s, mp_label = orDefault U (sm_label s) (sm_slug s), mp_kind = sm_kind s,
      mp_auth_modes = sm_auth_modes s, mp_default_host = sm_default_host s,
      mp_default_port = sm_default_port s,
      mp_default_use_tls = boolOrDefault (sm_default_use_tls s) True, mp_help_url = sm_help_url s,
      mp_enabled = boolOrDefault (sm_enabled s) True, mp_position = sm_position s\<rparr>"

definition samePtr :: "'a option \<Rightarrow> 'a option \<Rightarrow> bool" where
  "samePtr a b = (case (a, b) of (Some x, Some y) \<Rightarrow> x = y | (None, None) \<Rightarrow> True | _ \<Rightarrow> False)"

definition sameProvider :: "mail_provider \<Rightarrow> mail_provider \<Rightarrow> bool" where
  "sameProvider a b \<longleftrightarrow>
     mp_label a = mp_label b \<and> mp_kind a = mp_kind b \<and> mp_auth_modes a = mp_auth_modes b
     \<and> samePtr (mp_default_host a) (mp_default_host b) \<and> samePtr (mp_default_port a) (mp_default_port b)
     \<and> mp_default_use_tls a = mp_default_use_tls b \<and> samePtr (mp_help_url a) (mp_help_url b)
     \<and> mp_enabled a = mp_enabled b \<and> mp_position a = mp_position b"

definition insert_provider :: "mail_provider \<Rightarrow> database \<Rightarrow> (err + bool) \<times> database" where
  "insert_provider p d =
     (if list_ex (\<lambda>x. mp_slug x = mp_slug p) (providers_of d) then (Inr False, d)
      else (Inr True, d\<lparr>providers_of := providers_of d @ [p]\<rparr>))"

definition update_provider :: "mail_provider \<Rightarrow> database \<Rightarrow> database" where
  "update_provider p d =
     d\<lparr>providers_of := update_where (\<lambda>x. mp_slug x = mp_slug p)
        (\<lambda>x. x\<lparr>mp_label := mp_label p, mp_kind := mp_kind p, mp_auth_modes := mp_auth_modes p,
          mp_default_host := mp_default_host p, mp_default_port := mp_default_port p,
          mp_default_use_tls := mp_default_use_tls p, mp_help_url := mp_help_url p,
          mp_enabled := mp_enabled p, mp_position := mp_position p\<rparr>) (providers_of d)\<rparr>"

definition seed_provider :: "unicode \<Rightarrow> mail_provider_seed \<Rightarrow> seed_result \<Rightarrow> seed_result ioE" where
  "seed_provider U s result =
     (if sm_slug s = [] \<or> sm_kind s = [] \<or> sm_auth_modes s = []
      then failE (PlainErr (''provider '' @ go_quote U (sm_slug s) @ '' needs a slug, a kind and auth_modes''))
      else State_Monad.bind (query (\<lambda>d. take_row (\<lambda>x. mp_slug x = sm_slug s) (providers_of d))) (\<lambda>found.
        let row = seeded_provider U s in
        case found of
          Inl RecordNotFound \<Rightarrow>
            bindE (stmt (insert_provider row)) (\<lambda>added.
            returnE (if added then one_created result else one_skipped result))
        | Inl e \<Rightarrow> failE e
        | Inr existing \<Rightarrow>
            if sameProvider existing row then returnE (one_skipped result)
            else bindE (exec (update_provider row)) (\<lambda>_. returnE (one_updated result))))"

fun seed_providers :: "unicode \<Rightarrow> mail_provider_seed list \<Rightarrow> seed_result \<Rightarrow> seed_result ioE" where
  "seed_providers U [] result = returnE result"
| "seed_providers U (s # ss) result = bindE (seed_provider U s result) (seed_providers U ss)"

definition MailProviderSeeder_Seed ::
  "unicode \<Rightarrow> (string \<Rightarrow> err + mail_provider_seed list) \<Rightarrow> string \<Rightarrow> seed_result ioE" where
  "MailProviderSeeder_Seed U unmarshal raw =
     (case unmarshal raw of
        Inl e \<Rightarrow> failE (PlainErr (''mail_providers.json must be a list of providers: '' @ err_text e))
      | Inr seeds \<Rightarrow> seed_providers U seeds no_result)"

definition Default_seeders ::
  "unicode \<Rightarrow> (string \<Rightarrow> string \<Rightarrow> err + string) \<Rightarrow> (string \<Rightarrow> err + user_seed list)
   \<Rightarrow> (string \<Rightarrow> err + mail_provider_seed list) \<Rightarrow> seeder list" where
  "Default_seeders U bcrypt users providers =
     [\<lparr>se_name = ''mail_providers'', se_seed = MailProviderSeeder_Seed U providers\<rparr>,
      \<lparr>se_name = ''users'', se_seed = UserSeeder_Seed U bcrypt users\<rparr>]"

subsection \<open>Seeding only adds\<close>

definition seed_grown :: "database \<Rightarrow> database \<Rightarrow> bool" where
  "seed_grown d d' \<longleftrightarrow> (\<exists>us ls. d' = d\<lparr>users_of := users_of d @ us, user_roles_of := user_roles_of d @ ls\<rparr>)"

lemma seed_grown_refl [simp]: "seed_grown d d"
  unfolding seed_grown_def by (rule exI [of _ "[]"], rule exI [of _ "[]"]) simp

lemma seed_grown_user_row: "seed_grown d (d\<lparr>users_of := users_of d @ us\<rparr>)"
  unfolding seed_grown_def by (rule exI [of _ us], rule exI [of _ "[]"]) simp

lemma seed_grown_link_row: "seed_grown d (d\<lparr>user_roles_of := user_roles_of d @ ls\<rparr>)"
  unfolding seed_grown_def by (rule exI [of _ "[]"], rule exI [of _ ls]) simp

lemma seed_grown_trans:
  assumes "seed_grown a b" "seed_grown b c"
  shows "seed_grown a c"
proof -
  obtain us ls us' ls' where "b = a\<lparr>users_of := users_of a @ us, user_roles_of := user_roles_of a @ ls\<rparr>"
    "c = b\<lparr>users_of := users_of b @ us', user_roles_of := user_roles_of b @ ls'\<rparr>"
    using assms by (auto simp: seed_grown_def)
  then have "c = a\<lparr>users_of := users_of a @ (us @ us'), user_roles_of := user_roles_of a @ (ls @ ls')\<rparr>" by simp
  then show ?thesis unfolding seed_grown_def by blast
qed

lemma seed_grown_users: "seed_grown d d' \<Longrightarrow> \<exists>us. users_of d' = users_of d @ us"
  by (auto simp: seed_grown_def)

lemma seed_grown_links: "seed_grown d d' \<Longrightarrow> set (user_roles_of d) \<subseteq> set (user_roles_of d')"
  by (auto simp: seed_grown_def)

lemma seed_grown_roles: "seed_grown d d' \<Longrightarrow> roles_of d' = roles_of d"
  by (auto simp: seed_grown_def)

lemma seed_grown_link: "seed_grown d (snd (link_if_new l d))"
  by (simp add: link_if_new_def insert_links_def seed_grown_link_row)

lemma seed_grown_user: "seed_grown d (snd (insert_user u d))"
  by (simp add: insert_user_def insert_row_def users_table_def seed_grown_user_row)

abbreviation grows_from :: "database \<Rightarrow> world \<Rightarrow> bool" where
  "grows_from d \<equiv> db_inv (seed_grown d)"

lemma grows_stmt [pres]:
  "preserves (grows_from d) (stmt (link_if_new l))" "preserves (grows_from d) (stmt (insert_user u))"
  by (auto intro!: pres_stmt elim: seed_grown_trans [OF _ seed_grown_link] seed_grown_trans [OF _ seed_grown_user])

lemma grows_query [pres]:
  "preserves (db_inv K) (Role_FindBySlug slug)" "preserves (db_inv K) (User_FindByEmail email)"
  by (simp_all add: Role_FindBySlug_def User_FindByEmail_def pres)

lemma grows_link_role [pres]: "preserves (grows_from d) (link_role U user slug)"
  by (simp add: link_role_def pres)

lemma grows_sync_roles [pres]: "preserves (grows_from d) (sync_roles U user slugs changed)"
  by (induction U user slugs changed rule: sync_roles.induct) (auto intro!: pres)

lemma grows_syncRoles [pres]: "preserves (grows_from d) (syncRoles U user slugs)"
  by (simp add: syncRoles_def pres)

lemma grows_seed_user [pres]: "preserves (grows_from d) (seed_user U bcrypt s result)"
  unfolding seed_user_def seed_new_user_def Let_def by (auto intro!: pres split: sum.splits err.splits)

lemma grows_seed_users [pres]: "preserves (grows_from d) (seed_users U bcrypt ss result)"
  by (induction ss arbitrary: result) (auto intro!: pres)

subsection \<open>What a seed leaves behind\<close>

definition wanted_roles :: "string list \<Rightarrow> string list" where
  "wanted_roles slugs = (if slugs = [] then [RoleUser] else slugs)"

definition role_linked :: "database \<Rightarrow> string \<Rightarrow> string \<Rightarrow> bool" where
  "role_linked d user slug \<longleftrightarrow>
     (\<exists>r. take_first (\<lambda>r. r_slug r = slug) (roles_of d) = Some r
        \<and> \<lparr>ur_user_id = user, ur_role_id = r_id r\<rparr> \<in> set (user_roles_of d))"

definition user_present :: "unicode \<Rightarrow> database \<Rightarrow> user_seed \<Rightarrow> bool" where
  "user_present U d s \<longleftrightarrow> seed_email U s \<noteq> [] \<and> su_password s \<noteq> []
     \<and> (\<exists>u. take_first (\<lambda>u. u_email u = seed_email U s) (users_of d) = Some u
          \<and> (\<forall>slug \<in> set (wanted_roles (su_roles s)). role_linked d (u_id u) slug))"

lemma role_linked_grown: "seed_grown d d' \<Longrightarrow> role_linked d user slug \<Longrightarrow> role_linked d' user slug"
  using seed_grown_links [of d d'] seed_grown_roles [of d d'] by (auto simp: role_linked_def)

lemma user_present_grown: "seed_grown d d' \<Longrightarrow> user_present U d s \<Longrightarrow> user_present U d' s"
  using seed_grown_users [of d d'] role_linked_grown [of d d']
  by (fastforce simp: user_present_def take_first_append)

lemma count_rows_pos: "count_rows p xs > 0 \<longleftrightarrow> list_ex p xs"
  by (induction xs) (auto simp: count_rows_def)

lemma link_role_links:
  assumes "run_state (link_role U user slug) w = (Inr b, w')"
  shows "role_linked (wdb w') user slug"
proof -
  obtain r w1 n w2 where role: "run_state (Role_FindBySlug slug) w = (Inr r, w1)"
    and n: "run_state (query (\<lambda>d. Inr (count_rows (\<lambda>l. l = \<lparr>ur_user_id = user, ur_role_id = r_id r\<rparr>) (user_roles_of d)))) w1 = (Inr n, w2)"
    and step: "run_state (if n > 0 then returnE False
      else stmt (link_if_new \<lparr>ur_user_id = user, ur_role_id = r_id r\<rparr>)) w2 = (Inr b, w')"
    using assms unfolding link_role_def by (elim bindE_okE mapErr_okE) (rule that; assumption)
  have "take_first (\<lambda>r. r_slug r = slug) (roles_of (wdb w1)) = Some r"
    using query_ok [OF role [unfolded Role_FindBySlug_def]] by (simp add: take_row_def split: option.splits)
  then show ?thesis using step query_ok [OF n]
    by (auto simp: role_linked_def count_rows_pos list_ex_iff run_stmt link_if_new_def insert_links_def
        split: if_splits option.splits)
qed

lemma sync_roles_links:
  "run_state (sync_roles U user slugs changed) w = (Inr c, w') \<Longrightarrow>
   \<forall>slug \<in> set slugs. role_linked (wdb w') user slug"
proof (induction slugs arbitrary: changed w)
  case (Cons slug slugs)
  from Cons.prems obtain b w1 where link: "run_state (link_role U user slug) w = (Inr b, w1)"
    and rest: "run_state (sync_roles U user slugs (changed \<or> b)) w1 = (Inr c, w')"
    unfolding sync_roles.simps by (elim bindE_okE) (rule that; assumption)
  have "seed_grown (wdb w1) (wdb w')"
    using preserves_run [OF grows_sync_roles _ rest, of "wdb w1"] by (simp add: db_inv_def)
  then show ?case
    using role_linked_grown link_role_links [OF link] Cons.IH [OF rest] by auto
qed simp

lemma syncRoles_links:
  "run_state (syncRoles U user slugs) w = (Inr c, w') \<Longrightarrow>
   \<forall>slug \<in> set (wanted_roles slugs). role_linked (wdb w') user slug"
  unfolding syncRoles_def wanted_roles_def by (rule sync_roles_links)

lemma syncRoles_users:
  assumes "run_state (syncRoles U user slugs) w = (c, w')"
  shows "\<exists>us. users_of (wdb w') = users_of (wdb w) @ us"
  using preserves_run [OF grows_syncRoles _ assms, of "wdb w"] seed_grown_users by (auto simp: db_inv_def)

lemma insert_user_finds:
  assumes "run_state (stmt (insert_user u)) w = (Inr added, w')" "added"
    "take_first (\<lambda>x. u_email x = u_email u) (users_of (wdb w)) = None"
  shows "take_first (\<lambda>x. u_email x = u_email u) (users_of (wdb w')) = Some u"
  using assms
  by (auto simp: run_stmt insert_user_def insert_row_def users_table_def take_first_append split: option.splits if_splits)

lemma seed_new_user_present:
  assumes run: "run_state (seed_new_user U bcrypt s email) w = (Inr added, w')"
    and new: "take_first (\<lambda>u. u_email u = email) (users_of (wdb w)) = None"
  shows "\<exists>u. take_first (\<lambda>u. u_email u = email) (users_of (wdb w')) = Some u
    \<and> (\<forall>slug \<in> set (wanted_roles (su_roles s)). role_linked (wdb w') (u_id u) slug)"
proof -
  obtain hashed w1 i w2 now w3 w4 i' w5 c
    where r1: "run_state (bindE (read_random 16) (\<lambda>salt. liftE (bcrypt salt (su_password s)))) w = (Inr hashed, w1)"
      and r2: "run_state new_uuid w1 = (i, w2)" "run_state now_milli w2 = (now, w3)"
      and r3: "run_state (stmt (insert_user (tb_stamp users_table now (seeded_user U s i email hashed)))) w3 = (Inr added, w4)"
      and r4: "run_state (if added then returnE i
        else bindE (User_FindByEmail email) (\<lambda>existing. returnE (u_id existing))) w4 = (Inr i', w5)"
      and r5: "run_state (syncRoles U i' (su_roles s)) w5 = (Inr c, w')"
    using run unfolding seed_new_user_def
    by (elim bindE_okE [where m = "bindE (read_random 16) _"] bind_okE)
      (elim bindE_okE [where m = "stmt _"], elim bindE_okE [where m = "if _ then _ else _"],
       elim bindE_okE [where m = "syncRoles _ _ _"], elim returnE_okE, rule that; (assumption | simp))
  let ?u = "tb_stamp users_table now (seeded_user U s i email hashed)"
  have same: "wdb w3 = wdb w" using r1 r2 by (auto split: sum.splits)
  have mail: "u_email ?u = email" "u_id ?u = i" by (simp_all add: users_table_def seeded_user_def)
  have here: "\<exists>u. take_first (\<lambda>u. u_email u = email) (users_of (wdb w5)) = Some u \<and> u_id u = i'"
  proof (cases added)
    case True
    then show ?thesis using r4 insert_user_finds [OF r3] new same mail by simp
  next
    case False
    then obtain e where "run_state (User_FindByEmail email) w4 = (Inr e, w5)" "i' = u_id e"
      using r4 by (auto elim!: bindE_okE returnE_okE simp del: run_bindE)
    then show ?thesis
      using query_ok [of "\<lambda>d. take_row (\<lambda>u. u_email u = email) (users_of d)" w4 e w5]
      by (simp add: User_FindByEmail_def take_row_def split: option.splits)
  qed
  then obtain u where "take_first (\<lambda>u. u_email u = email) (users_of (wdb w5)) = Some u" "u_id u = i'" by blast
  moreover obtain us where "users_of (wdb w') = users_of (wdb w5) @ us" using syncRoles_users [OF r5] ..
  ultimately show ?thesis using syncRoles_links [OF r5] by (simp add: take_first_append)
qed

lemma seed_user_present:
  assumes run: "run_state (seed_user U bcrypt s result) w = (Inr r, w')"
  shows "user_present U (wdb w') s"
proof -
  let ?email = "seed_email U s"
  have given: "?email \<noteq> [] \<and> su_password s \<noteq> []" using run by (auto simp: seed_user_def Let_def split: if_splits)
  obtain found w1 where found: "run_state (User_FindByEmail ?email) w = (found, w1)" by fastforce
  have same: "wdb w1 = wdb w" using found by (auto intro: same_run pres)
  show ?thesis
  proof (cases found)
    case (Inl e)
    then have "e = RecordNotFound" using run found given by (auto simp: seed_user_def Let_def split: err.splits)
    moreover from this Inl have "take_first (\<lambda>u. u_email u = ?email) (users_of (wdb w1)) = None"
      using found by (auto simp: User_FindByEmail_def query_def run_stmt take_row_def split: option.splits)
    moreover obtain added where "run_state (seed_new_user U bcrypt s ?email) w1 = (Inr added, w')"
      using run found given Inl \<open>e = RecordNotFound\<close>
      by (auto simp: seed_user_def Let_def simp del: run_bindE elim: bindE_okE returnE_okE)
    ultimately show ?thesis using given seed_new_user_present by (auto simp: user_present_def)
  next
    case (Inr u)
    then obtain c where sync: "run_state (syncRoles U (u_id u) (su_roles s)) w1 = (Inr c, w')"
      using run found given
      by (auto simp: seed_user_def Let_def simp del: run_bindE elim: bindE_okE returnE_okE)
    have "take_first (\<lambda>u. u_email u = ?email) (users_of (wdb w1)) = Some u"
      using query_ok [of "\<lambda>d. take_row (\<lambda>u. u_email u = ?email) (users_of d)" w u w1] found Inr
      by (simp add: User_FindByEmail_def take_row_def split: option.splits)
    then show ?thesis using syncRoles_users [OF sync] syncRoles_links [OF sync] given
      by (auto simp: user_present_def take_first_append)
  qed
qed

lemma seed_users_present:
  "run_state (seed_users U bcrypt ss result) w = (Inr r, w') \<Longrightarrow> \<forall>s \<in> set ss. user_present U (wdb w') s"
proof (induction ss arbitrary: result w)
  case (Cons s ss)
  from Cons.prems obtain r1 w1 where one: "run_state (seed_user U bcrypt s result) w = (Inr r1, w1)"
    and rest: "run_state (seed_users U bcrypt ss r1) w1 = (Inr r, w')"
    unfolding seed_users.simps by (elim bindE_okE) (rule that; assumption)
  have "seed_grown (wdb w1) (wdb w')"
    using preserves_run [OF grows_seed_users _ rest, of "wdb w1"] by (simp add: db_inv_def)
  then show ?case using user_present_grown seed_user_present [OF one] Cons.IH [OF rest] by auto
qed simp

subsection \<open>The second run\<close>

lemma link_role_again:
  assumes "db_up w" "role_linked (wdb w) user slug"
  shows "\<exists>w'. run_state (link_role U user slug) w = (Inr False, w') \<and> wdb w' = wdb w \<and> db_up w'"
proof -
  obtain r where r: "take_first (\<lambda>r. r_slug r = slug) (roles_of (wdb w)) = Some r"
    and "\<lparr>ur_user_id = user, ur_role_id = r_id r\<rparr> \<in> set (user_roles_of (wdb w))"
    using assms(2) by (auto simp: role_linked_def)
  then have "count_rows (\<lambda>l. l = \<lparr>ur_user_id = user, ur_role_id = r_id r\<rparr>) (user_roles_of (wdb w)) > 0"
    by (auto simp: count_rows_pos list_ex_iff)
  then show ?thesis using assms(1) r by (simp add: link_role_def Role_FindBySlug_def take_row_def)
qed

lemma sync_roles_again:
  assumes "db_up w" "\<forall>slug \<in> set slugs. role_linked (wdb w) user slug"
  shows "\<exists>w'. run_state (sync_roles U user slugs b) w = (Inr b, w') \<and> wdb w' = wdb w \<and> db_up w'"
  using assms
proof (induction slugs arbitrary: w)
  case (Cons slug slugs)
  obtain w1 where "run_state (link_role U user slug) w = (Inr False, w1)" "wdb w1 = wdb w" "db_up w1"
    using link_role_again Cons.prems by force
  then show ?case using Cons.IH [of w1] Cons.prems by auto
qed simp

lemma seed_user_again:
  assumes "db_up w" "user_present U (wdb w) s"
  shows "\<exists>w'. run_state (seed_user U bcrypt s result) w = (Inr (one_skipped result), w') \<and> wdb w' = wdb w \<and> db_up w'"
proof -
  obtain u where u: "take_first (\<lambda>u. u_email u = seed_email U s) (users_of (wdb w)) = Some u"
    and roles: "\<forall>slug \<in> set (wanted_roles (su_roles s)). role_linked (wdb w) (u_id u) slug"
    and given: "seed_email U s \<noteq> []" "su_password s \<noteq> []"
    using assms(2) by (auto simp: user_present_def)
  let ?w = "w\<lparr>stmts := Suc (stmts w)\<rparr>"
  obtain w' where "run_state (syncRoles U (u_id u) (su_roles s)) ?w = (Inr False, w')" "wdb w' = wdb w" "db_up w'"
    using sync_roles_again [of ?w "wanted_roles (su_roles s)" "u_id u" U False] roles assms(1)
    by (auto simp: syncRoles_def wanted_roles_def)
  then show ?thesis using assms(1) u given
    by (simp add: seed_user_def User_FindByEmail_def take_row_def Let_def)
qed

lemma seed_users_again:
  assumes "db_up w" "\<forall>s \<in> set ss. user_present U (wdb w) s"
  shows "\<exists>w'. run_state (seed_users U bcrypt ss result) w
    = (Inr (result\<lparr>sd_skipped := sd_skipped result + int (length ss)\<rparr>), w') \<and> wdb w' = wdb w"
  using assms
proof (induction ss arbitrary: w result)
  case (Cons s ss)
  obtain w1 where "run_state (seed_user U bcrypt s result) w = (Inr (one_skipped result), w1)" "wdb w1 = wdb w" "db_up w1"
    using seed_user_again Cons.prems by force
  then show ?case using Cons.IH [of w1 "one_skipped result"] Cons.prems by (auto simp: algebra_simps)
qed simp

text \<open>C38: Seeding the accounts is idempotent: after a run that succeeded, another run of the same file on
  the same rows creates and updates nothing, skips every entry and leaves the database as it is;
  and a run keeps every row of the users, so that no password that was changed is reset.\<close>

theorem seeding_users_twice:
  assumes "unmarshal raw = Inr seeds"
    and "run_state (UserSeeder_Seed U bcrypt unmarshal raw) w = (Inr r, w')"
    and "db_up v" "wdb v = wdb w'"
  shows "take (length (users_of (wdb w))) (users_of (wdb w')) = users_of (wdb w)
    \<and> (\<exists>v'. run_state (UserSeeder_Seed U bcrypt unmarshal raw) v
         = (Inr \<lparr>sd_created = 0, sd_updated = 0, sd_skipped = int (length seeds)\<rparr>, v') \<and> wdb v' = wdb w')"
proof -
  have run: "run_state (seed_users U bcrypt seeds no_result) w = (Inr r, w')"
    using assms(1,2) by (simp add: UserSeeder_Seed_def)
  have "seed_grown (wdb w) (wdb w')"
    using preserves_run [OF grows_seed_users _ run, of "wdb w"] by (simp add: db_inv_def)
  then have "take (length (users_of (wdb w))) (users_of (wdb w')) = users_of (wdb w)"
    using seed_grown_users by fastforce
  then show ?thesis
    using seed_users_again [OF assms(3), of seeds U bcrypt no_result] seed_users_present [OF run] assms(1,4)
    by (simp add: UserSeeder_Seed_def no_result_def)
qed

definition user_role :: role where
  "user_role = \<lparr>r_id = ''r-user'', r_slug = RoleUser, r_name = ''User'', r_description = None\<rparr>"

definition two_seeds :: "user_seed list" where
  "two_seeds = [\<lparr>su_email = '' Ann@X '', su_name = [], su_password = ''pw'', su_status = [], su_timezone = [],
      su_roles = []\<rparr>,
    \<lparr>su_email = ''bob@x'', su_name = ''Bob'', su_password = ''pw'', su_status = [], su_timezone = [],
      su_roles = [RoleUser]\<rparr>]"

definition seed_world :: world where
  "seed_world = world_of (empty_db\<lparr>users_of := [ann], roles_of := [user_role]\<rparr>)"

lemma lower_sample: "map lower_char ''Ann@X'' = ''ann@x''" "map lower_char ''bob@x'' = ''bob@x''"
  by code_simp+

lemma seeds_run:
  "\<exists>w'. run_state (UserSeeder_Seed sample_unicode (\<lambda>salt p. Inr (salt @ p)) (\<lambda>_. Inr two_seeds) ''[]'') seed_world
     = (Inr \<lparr>sd_created = 1, sd_updated = 1, sd_skipped = 0\<rparr>, w') \<and> db_up w'"
  by (simp add: UserSeeder_Seed_def two_seeds_def seed_user_def seed_new_user_def seed_email_def to_lower_def
      trim_space_def is_ascii_def seed_world_def empty_db_def ann_def User_FindByEmail_def take_row_def
      syncRoles_def link_role_def Role_FindBySlug_def user_role_def count_rows_def link_if_new_def
      insert_links_def no_result_def insert_user_def insert_row_def users_table_def seeded_user_def
      orDefault_def unique_on_def is_space_def Let_def lower_sample [simplified])

theorem seeding_users_twice_witness:
  "\<exists>w' v'. run_state (UserSeeder_Seed sample_unicode (\<lambda>salt p. Inr (salt @ p)) (\<lambda>_. Inr two_seeds) ''[]'') seed_world
       = (Inr \<lparr>sd_created = 1, sd_updated = 1, sd_skipped = 0\<rparr>, w')
     \<and> run_state (UserSeeder_Seed sample_unicode (\<lambda>salt p. Inr (salt @ p)) (\<lambda>_. Inr two_seeds) ''[]'') w'
       = (Inr \<lparr>sd_created = 0, sd_updated = 0, sd_skipped = 2\<rparr>, v') \<and> wdb v' = wdb w'"
proof -
  obtain w' where run: "run_state (UserSeeder_Seed sample_unicode (\<lambda>salt p. Inr (salt @ p)) (\<lambda>_. Inr two_seeds) ''[]'') seed_world
      = (Inr \<lparr>sd_created = 1, sd_updated = 1, sd_skipped = 0\<rparr>, w')" and up: "db_up w'"
    using seeds_run by blast
  have "length two_seeds = 2" by (simp add: two_seeds_def)
  then show ?thesis using run seeding_users_twice [OF _ run up refl] by fastforce
qed

subsection \<open>The providers\<close>

lemma samePtr_eq [simp]: "samePtr a b \<longleftrightarrow> a = b"
  by (auto simp: samePtr_def split: option.splits)

definition provider_present :: "unicode \<Rightarrow> database \<Rightarrow> mail_provider_seed \<Rightarrow> bool" where
  "provider_present U d s \<longleftrightarrow> sm_slug s \<noteq> [] \<and> sm_kind s \<noteq> [] \<and> sm_auth_modes s \<noteq> []
     \<and> (\<exists>p. take_first (\<lambda>x. mp_slug x = sm_slug s) (providers_of d) = Some p \<and> sameProvider p (seeded_provider U s))"

lemma update_provider_first:
  "take_first (\<lambda>x. mp_slug x = i) xs = Some p \<Longrightarrow> (\<And>x. mp_slug (f x) = mp_slug x) \<Longrightarrow>
   take_first (\<lambda>x. mp_slug x = i) (update_where (\<lambda>x. mp_slug x = j) f xs) = Some (if i = j then f p else p)"
  by (induction xs) (auto split: if_splits)

lemma has_id_first: "list_ex p xs \<longleftrightarrow> take_first p xs \<noteq> None"
  by (auto simp: take_first_None list_ex_iff)

lemma seed_provider_present:
  assumes "run_state (seed_provider U s result) w = (Inr r, w')"
  shows "provider_present U (wdb w') s
    \<and> (\<forall>s'. sm_slug s' \<noteq> sm_slug s \<longrightarrow> provider_present U (wdb w) s' \<longrightarrow> provider_present U (wdb w') s')"
proof -
  have same: "sameProvider p p" for p by (simp add: sameProvider_def)
  have slug: "mp_slug (seeded_provider U s) = sm_slug s" by (simp add: seeded_provider_def)
  show ?thesis
    using assms
    by (auto simp: seed_provider_def query_def exec_def run_stmt Let_def take_row_def provider_present_def
        insert_provider_def update_provider_def take_first_append has_id_first update_provider_first same slug sameProvider_def
        split: option.splits if_splits)
qed

lemma seed_providers_present:
  "run_state (seed_providers U ss result) w = (Inr r, w') \<Longrightarrow> distinct (map sm_slug ss) \<Longrightarrow>
   (\<forall>s \<in> set ss. provider_present U (wdb w') s)
   \<and> (\<forall>s'. sm_slug s' \<notin> sm_slug ` set ss \<longrightarrow> provider_present U (wdb w) s' \<longrightarrow> provider_present U (wdb w') s')"
proof (induction ss arbitrary: result w)
  case (Cons s ss)
  from Cons.prems(1) obtain r1 w1 where one: "run_state (seed_provider U s result) w = (Inr r1, w1)"
    and rest: "run_state (seed_providers U ss r1) w1 = (Inr r, w')"
    unfolding seed_providers.simps by (elim bindE_okE) (rule that; assumption)
  show ?case using seed_provider_present [OF one] Cons.IH [OF rest] Cons.prems(2) by auto
qed simp

lemma seed_provider_again:
  "db_up w \<Longrightarrow> provider_present U (wdb w) s \<Longrightarrow>
   run_state (seed_provider U s result) w = (Inr (one_skipped result), w\<lparr>stmts := Suc (stmts w)\<rparr>)"
  by (auto simp: provider_present_def seed_provider_def take_row_def Let_def)

lemma seed_providers_again:
  "db_up w \<Longrightarrow> \<forall>s \<in> set ss. provider_present U (wdb w) s \<Longrightarrow>
   \<exists>w'. run_state (seed_providers U ss result) w
     = (Inr (result\<lparr>sd_skipped := sd_skipped result + int (length ss)\<rparr>), w') \<and> wdb w' = wdb w"
proof (induction ss arbitrary: w result)
  case (Cons s ss)
  then show ?case using Cons.IH [of "w\<lparr>stmts := Suc (stmts w)\<rparr>" "one_skipped result"]
    by (auto simp: seed_provider_again algebra_simps)
qed simp

text \<open>The same for the providers, as long as the file names every slug once.\<close>

lemma seeding_providers_twice:
  assumes "unmarshal raw = Inr seeds" "distinct (map sm_slug seeds)"
    and "run_state (MailProviderSeeder_Seed U unmarshal raw) w = (Inr r, w')"
    and "db_up v" "wdb v = wdb w'"
  shows "\<exists>v'. run_state (MailProviderSeeder_Seed U unmarshal raw) v
     = (Inr \<lparr>sd_created = 0, sd_updated = 0, sd_skipped = int (length seeds)\<rparr>, v') \<and> wdb v' = wdb w'"
proof -
  have "run_state (seed_providers U seeds no_result) w = (Inr r, w')"
    using assms(1,3) by (simp add: MailProviderSeeder_Seed_def)
  then show ?thesis
    using seed_providers_present assms seed_providers_again [OF assms(4), of seeds U no_result]
    by (fastforce simp: MailProviderSeeder_Seed_def no_result_def)
qed

end
