(* ===== verification/RunMachine.thy ===== *)
theory RunMachine
  imports Activity "HOL-Library.Multiset"
begin

text \<open>
  The life cycle of a run as an abstract machine, and the proof that the operations on runs
  refine it step by step: a tick of the dispatcher (internal/usecase/dispatcher\_usecase.go) and
  the retry, cancel and acknowledge handlers (internal/usecase/activity\_usecase.go) take the
  row of every run along at most one step of the machine, one that this operation may make,
  whatever the handlers answer and whichever statement fails.
\<close>

subsection \<open>The machine\<close>

text \<open>The phase of a run is its status, the attempts made, and the attempts it is granted;
  \<open>None\<close> before it is scheduled.\<close>

type_synonym phase = "(string \<times> int \<times> int) option"

text \<open>What an operation is asked to do: handle due runs, start a run again by hand, cancel from
  some run on, or acknowledge a run\<close>

datatype run_op = TickRuns | RetryRun string | CancelRuns | AckRun string

text \<open>Where an attempt ends that begins after \<open>a\<close> others, of \<open>m\<close> granted; it is interrupted when the
  database refuses the save at its end.\<close>

inductive after_attempt :: "int \<Rightarrow> int \<Rightarrow> string \<times> int \<times> int \<Rightarrow> bool" for a m where
  interrupted: "after_attempt a m (RunStatusRunning, a, m)"
| succeeded: "after_attempt a m (RunStatusSucceeded, a + 1, m)"
| postponed: "a + 1 < m \<Longrightarrow> after_attempt a m (RunStatusPending, a + 1, m)"
| given_up: "after_attempt a m (RunStatusFailed, a + 1, m)"

text \<open>The step an operation may make on the run \<open>i\<close>.  Only a pending run is attempted by a tick;
  only a retry that names the run starts one that has ended, and none that is running; only a
  pending run is cancelled, and never the one that is acknowledged.\<close>

inductive run_step :: "run_op \<Rightarrow> string \<Rightarrow> phase \<Rightarrow> phase \<Rightarrow> bool" where
  stay: "run_step op i p p"
| attempt: "after_attempt a m q \<Longrightarrow> run_step TickRuns i (Some (RunStatusPending, a, m)) (Some q)"
| restart: "s \<noteq> RunStatusRunning \<Longrightarrow> after_attempt 0 m q \<Longrightarrow> run_step (RetryRun i) i (Some (s, a, m)) (Some q)"
| follow_tick: "run_step TickRuns i None (Some (RunStatusPending, 0, m))"
| follow_retry: "j \<noteq> i \<Longrightarrow> run_step (RetryRun j) i None (Some (RunStatusPending, 0, m))"
| cancel: "run_step CancelRuns i (Some (RunStatusPending, a, m)) (Some (RunStatusCancelled, a, m))"
| cancel_later: "j \<noteq> i \<Longrightarrow> run_step (AckRun j) i (Some (RunStatusPending, a, m)) (Some (RunStatusCancelled, a, m))"

lemmas steps = run_step.intros after_attempt.intros

inductive_simps from_phase: "run_step op i (Some (s, a, m)) q"
inductive_simps from_nothing: "run_step op i None q"

text \<open>What the machine promises: a run that is not pending is left alone by every operation but a
  retry that names it, and by that one while it is running; and the attempts never exceed what
  was granted.\<close>

lemma settled_stays:
  "run_step op i (Some (s, a, m)) q \<Longrightarrow> s \<noteq> RunStatusPending \<Longrightarrow> op \<noteq> RetryRun i \<or> s = RunStatusRunning \<Longrightarrow>
   q = Some (s, a, m)"
  by (auto simp: from_phase)

definition within :: "phase \<Rightarrow> bool" where
  "within p = (case p of None \<Rightarrow> True | Some (s, a, m) \<Rightarrow>
     1 \<le> m \<longrightarrow> 0 \<le> a \<and> a \<le> m \<and> (s = RunStatusPending \<or> s = RunStatusRunning \<longrightarrow> a < m))"

lemma step_within: "run_step op i p q \<Longrightarrow> within p \<Longrightarrow> within q"
  by (induction rule: run_step.induct) (auto simp: within_def after_attempt.simps)

subsection \<open>The phases of the rows\<close>

definition phase_of_run :: "event_run \<Rightarrow> string \<times> int \<times> int" where
  "phase_of_run r = (er_status r, er_attempt r, er_max_attempts r)"

definition phase_of :: "database \<Rightarrow> string \<Rightarrow> phase" where
  "phase_of d i = map_option phase_of_run (take_first (\<lambda>r. er_id r = i) (runs_of d))"

definition runs_step :: "run_op \<Rightarrow> database \<Rightarrow> database \<Rightarrow> bool" where
  "runs_step op d d' \<longleftrightarrow> (\<forall>i. run_step op i (phase_of d i) (phase_of d' i))"

lemma runs_step_refl: "runs_step op d d"
  by (simp add: runs_step_def stay)

lemma phase_of_other [simp]:
  "phase_of (d\<lparr>deliveries_of := xs\<rparr>) = phase_of d" "phase_of (d\<lparr>audit_logs_of := ls\<rparr>) = phase_of d"
  by (simp_all add: phase_of_def fun_eq_iff)

lemma phase_of_append:
  "phase_of (d\<lparr>runs_of := runs_of d @ [x]\<rparr>) j =
     (if phase_of d j = None \<and> er_id x = j then Some (phase_of_run x) else phase_of d j)"
  by (auto simp: phase_of_def take_first_append split: option.splits)

lemma phase_of_put_run:
  "phase_of (d\<lparr>runs_of := put_run x (runs_of d)\<rparr>) j =
     (if j = er_id x \<and> phase_of d j \<noteq> None then Some (phase_of_run x) else phase_of d j)"
proof -
  have "take_first (\<lambda>r. er_id r = j) (put_run x rs) =
      map_option (\<lambda>r. if er_id r = er_id x then x else r) (take_first (\<lambda>r. er_id r = j) rs)" for rs
    unfolding put_run_def by (induction rs) auto
  then show ?thesis
    by (cases "take_first (\<lambda>r. er_id r = j) (runs_of d)") (auto simp: phase_of_def dest: take_first_Some)
qed

lemma phase_of_update:
  assumes "\<And>x. er_id (f x) = er_id x"
  shows "phase_of (d\<lparr>runs_of := update_where p f (runs_of d)\<rparr>) j =
    map_option (\<lambda>r. phase_of_run (if p r then f r else r)) (take_first (\<lambda>r. er_id r = j) (runs_of d))"
  using assms by (simp add: phase_of_def take_first_update_where option.map_comp o_def)

lemma phase_of_row:
  "distinct (map er_id (runs_of d)) \<Longrightarrow> r \<in> set (runs_of d) \<Longrightarrow> phase_of d (er_id r) = Some (phase_of_run r)"
  by (simp add: phase_of_def take_first_key)

subsection \<open>One execution\<close>

text \<open>What an execution does to a run it was not called with: at most it is scheduled\<close>

definition bystander :: "database \<Rightarrow> database \<Rightarrow> string \<Rightarrow> bool" where
  "bystander d0 d j \<longleftrightarrow> phase_of d j = phase_of d0 j
     \<or> phase_of d0 j = None \<and> (\<exists>k. phase_of d j = Some (RunStatusPending, 0, k))"

lemma bystander_trans: "bystander a b j \<Longrightarrow> bystander b c j \<Longrightarrow> bystander a c j"
  by (auto simp: bystander_def)

lemma bystander_there: "bystander d0 d j \<Longrightarrow> phase_of d0 j = Some p \<Longrightarrow> phase_of d j = Some p"
  by (auto simp: bystander_def)

definition executed :: "database \<Rightarrow> string \<Rightarrow> int \<Rightarrow> int \<Rightarrow> database \<Rightarrow> bool" where
  "executed d0 i a m d \<longleftrightarrow> (\<exists>q. phase_of d i = Some q \<and> after_attempt a m q)
     \<and> (\<forall>j. j \<noteq> i \<longrightarrow> bystander d0 d j)"

lemma executed_start:
  "phase_of d i = Some (RunStatusRunning, a, m) \<Longrightarrow> executed d i a m d"
  by (simp add: executed_def bystander_def interrupted)

lemma save_executed:
  assumes "er_id r = i" "er_max_attempts r = m" "er_attempt r = a + 1"
    and "er_status r = RunStatusSucceeded \<or> er_status r = RunStatusFailed
      \<or> er_status r = RunStatusPending \<and> a + 1 < m"
  shows "preserves (db_inv (executed d0 i a m)) (save r)"
proof -
  have "executed d0 i a m (snd (save_row runs_table (saved_run n r) d))" if d: "executed d0 i a m d" for n d
  proof -
    have "has_id er_id i (runs_of d)"
      using d by (auto simp: executed_def phase_of_def list_ex_iff dest: take_first_Some)
    then have "save_row runs_table (saved_run n r) d =
        (if tb_check runs_table d (saved_run n r)
         then (Inr (saved_run n r), d\<lparr>runs_of := put_run (saved_run n r) (runs_of d)\<rparr>) else (Inl ErrConstraint, d))"
      using assms(1) by (simp add: save_row_def put_run_def) (simp add: runs_table_def)
    then show ?thesis
      using d assms by (auto simp: executed_def bystander_def phase_of_put_run phase_of_run_def after_attempt.simps)
  qed
  then show ?thesis unfolding save_def by (intro pres pres_Repo_Update) (simp add: saved_run_def)
qed

lemma executed_append:
  assumes d: "executed d0 i a m d" and x: "phase_of_run x = (RunStatusPending, 0, k)"
  shows "executed d0 i a m (d\<lparr>runs_of := runs_of d @ [x]\<rparr>)"
proof -
  have "bystander d0 (d\<lparr>runs_of := runs_of d @ [x]\<rparr>) j" if "j \<noteq> i" for j
    using d that unfolding executed_def bystander_def
    by (cases "phase_of d j") (auto simp: phase_of_append x dest: spec [of _ j])
  moreover have "phase_of (d\<lparr>runs_of := runs_of d @ [x]\<rparr>) i = phase_of d i"
    using d by (auto simp: executed_def phase_of_append)
  ultimately show ?thesis using d by (simp add: executed_def)
qed

lemma schedule_executed:
  assumes "er_status x = RunStatusPending" "er_attempt x = 0"
  shows "preserves (db_inv (executed d0 i a m)) (Repo_Create runs_table x)"
proof (rule pres_Repo_Create)
  fix d n
  assume d: "executed d0 i a m d"
  have x: "phase_of_run (tb_stamp runs_table n x) = (RunStatusPending, 0, er_max_attempts x)"
    using assms by (simp add: phase_of_run_def runs_table_def)
  have "tb_rows runs_table d = runs_of d" "tb_put runs_table ys d = d\<lparr>runs_of := ys\<rparr>" for ys
    by (simp_all add: runs_table_def)
  then show "executed d0 i a m (snd (insert_row runs_table (tb_stamp runs_table n x) d))"
    using d executed_append [OF d x] by (simp add: insert_row_def)
qed

lemma execute_executed:
  assumes "er_id r = i" "er_attempt r = a" "er_max_attempts r = m"
  shows "preserves (db_inv (executed d0 i a m)) (execute D r)"
proof -
  have writes: "preserves (db_inv (executed d0 i a m)) (writeDeliveries x ds)" for x ds
    by (rule pres_writeDeliveries) (simp add: executed_def bystander_def)
  show ?thesis
    unfolding execute_def finish_run_def fail_run_def scheduleNext_def Let_def
    using assms by (intro pres writes save_executed schedule_executed) (simp_all add: follow_run_def)
qed

lemma execute_moves:
  assumes "phase_of (wdb w) (er_id r) = Some (RunStatusRunning, er_attempt r, er_max_attempts r)"
    and "run_state (execute D r) w = (u, w')"
  shows "executed (wdb w) (er_id r) (er_attempt r) (er_max_attempts r) (wdb w')"
  using preserves_run [OF execute_executed [OF refl refl refl] _ assms(2)] executed_start [OF assms(1)]
  by (simp add: db_inv_def)

subsection \<open>A batch\<close>

definition all_running :: "event_run list \<Rightarrow> database \<Rightarrow> bool" where
  "all_running cs d \<longleftrightarrow>
     (\<forall>c \<in> set cs. phase_of d (er_id c) = Some (RunStatusRunning, er_attempt c, er_max_attempts c))"

lemma batch_ends:
  assumes "distinct (map er_id cs)" "all_running cs (wdb w)" "run_state (for_each cs (execute D)) w = (u, w')"
  shows "(\<forall>c \<in> set cs. \<exists>q. phase_of (wdb w') (er_id c) = Some q \<and> after_attempt (er_attempt c) (er_max_attempts c) q)
    \<and> (\<forall>j. j \<notin> er_id ` set cs \<longrightarrow> bystander (wdb w) (wdb w') j)"
  using assms
proof (induction cs arbitrary: w)
  case Nil
  then show ?case by (simp add: bystander_def)
next
  case (Cons c cs)
  obtain u1 w1 where one: "run_state (execute D c) w = (u1, w1)"
    and rest: "run_state (for_each cs (execute D)) w1 = (u, w')"
    using Cons.prems(3) by (auto split: prod.splits)
  have c: "phase_of (wdb w) (er_id c) = Some (RunStatusRunning, er_attempt c, er_max_attempts c)"
    using Cons.prems(2) by (simp add: all_running_def)
  note step = execute_moves [OF c one, unfolded executed_def]
  have fresh: "er_id c \<notin> er_id ` set cs" using Cons.prems(1) by simp
  have "all_running cs (wdb w1)"
    unfolding all_running_def
  proof
    fix x
    assume x: "x \<in> set cs"
    then have "er_id x \<noteq> er_id c" using fresh by (metis imageI)
    with x show "phase_of (wdb w1) (er_id x) = Some (RunStatusRunning, er_attempt x, er_max_attempts x)"
      using Cons.prems(2) step bystander_there by (auto simp: all_running_def)
  qed
  from Cons.IH [OF _ this rest] Cons.prems(1)
  have IH: "\<forall>x \<in> set cs. \<exists>q. phase_of (wdb w') (er_id x) = Some q \<and> after_attempt (er_attempt x) (er_max_attempts x) q"
      "\<And>j. j \<notin> er_id ` set cs \<Longrightarrow> bystander (wdb w1) (wdb w') j"
    by auto
  obtain q where q: "phase_of (wdb w1) (er_id c) = Some q" "after_attempt (er_attempt c) (er_max_attempts c) q"
    using step by blast
  have "phase_of (wdb w') (er_id c) = Some q" using bystander_there [OF IH(2) [OF fresh] q(1)] .
  moreover have "bystander (wdb w) (wdb w') j" if "j \<notin> er_id ` set (c # cs)" for j
    using that step IH(2) [of j] by (auto intro: bystander_trans)
  ultimately show ?case using IH(1) q(2) by (auto simp del: split_paired_Ex)
qed

lemma distinct_order_limit: "distinct (map f xs) \<Longrightarrow> distinct (map f (order_limit k n xs))"
  unfolding order_limit_def take_map [symmetric] by (rule distinct_take) (simp add: distinct_map)

lemma claim_run_phases:
  assumes "run_state (claim_run c) w = (Inr u, w')"
  shows "phase_of (wdb w') j =
    (if j = er_id c then map_option (\<lambda>(s, a, m). (RunStatusRunning, a, m)) (phase_of (wdb w) j) else phase_of (wdb w) j)"
proof -
  obtain n t where "wdb w' = (wdb w)\<lparr>runs_of := update_where (\<lambda>x. er_id x = er_id c)
      (\<lambda>x. x\<lparr>er_status := RunStatusRunning, er_started_at := t, er_updated_at := n\<rparr>) (runs_of (wdb w))\<rparr>"
    using assms by (auto simp: claim_run_def Repo_UpdateWhere_def run_stmt runs_table_def split: option.splits)
  then show ?thesis
    by (cases "take_first (\<lambda>r. er_id r = j) (runs_of (wdb w))")
      (auto simp: phase_of_update, auto simp: phase_of_def phase_of_run_def dest: take_first_Some)
qed

lemma claim_loop_phases:
  assumes "run_state (forE cs claim_run) w = (Inr u, w')"
  shows "phase_of (wdb w') j =
    (if j \<in> er_id ` set cs then map_option (\<lambda>(s, a, m). (RunStatusRunning, a, m)) (phase_of (wdb w) j)
     else phase_of (wdb w) j)"
  using assms
proof (induction cs arbitrary: w)
  case (Cons c cs)
  obtain w1 where c: "run_state (claim_run c) w = (Inr (), w1)"
      and rest: "run_state (forE cs claim_run) w1 = (Inr u, w')"
    using Cons.prems by (auto split: prod.splits sum.splits)
  show ?case using Cons.IH [OF rest] claim_run_phases [OF c]
    by (cases "phase_of (wdb w) j") auto
qed simp

lemma claim_runs_moves:
  assumes ids: "distinct (map er_id (runs_of (wdb w)))" and run: "run_state (claim_runs locked limit) w = (Inr cs, w')"
  shows "all_running cs (wdb w') \<and> distinct (map er_id cs)
    \<and> (\<forall>c \<in> set cs. phase_of (wdb w) (er_id c) = Some (RunStatusPending, er_attempt c, er_max_attempts c))
    \<and> (\<forall>j. j \<notin> er_id ` set cs \<longrightarrow> phase_of (wdb w') j = phase_of (wdb w) j)"
proof -
  let ?w = "w\<lparr>ticks := Suc (ticks w)\<rparr>"
  obtain w1 w2 where cl: "run_state (ClaimDue locked (unix_milli (clock w (ticks w))) limit) ?w = (Inr cs, w1)"
      and lp: "run_state (forE cs claim_run) w1 = (Inr (), w2)" and cm: "wdb w' = wdb w2"
    using run by (auto simp: claim_runs_def commit_def run_stmt split: prod.splits sum.splits option.splits)
  note q = query_ok [OF cl [unfolded ClaimDue_def]]
  have same: "wdb w1 = wdb w" using q(2) by simp
  have pending: "phase_of (wdb w) (er_id c) = Some (RunStatusPending, er_attempt c, er_max_attempts c)" if "c \<in> set cs" for c
    using claim_runs_ok [OF run] phase_of_row [OF ids, of c] that by (simp add: phase_of_run_def)
  have "distinct (map er_id cs)"
  proof -
    have "cs = order_limit er_scheduled_at limit (filter (\<lambda>r. er_status r = RunStatusPending
        \<and> er_scheduled_at r \<le> unix_milli (clock w (ticks w)) \<and> \<not> locked (er_id r)) (runs_of (wdb w)))" (is "_ = order_limit _ _ ?due")
      using q(1) by simp
    moreover have "distinct (map er_id ?due)" using ids by (rule distinct_map_filter)
    ultimately show ?thesis by (simp add: distinct_order_limit)
  qed
  then show ?thesis
    using claim_loop_phases [OF lp] pending same cm
    by (auto simp: all_running_def)
qed

lemma Tick_step:
  assumes ids: "distinct (map er_id (runs_of (wdb w)))" and pool: "\<And>xs. mset (pool xs) = mset xs"
    and run: "run_state (Tick D pool locked limit) w = (r, w')"
  shows "runs_step TickRuns (wdb w) (wdb w')"
proof (cases "run_state (claim_runs locked limit) w")
  case (Pair res w1)
  show ?thesis
  proof (cases res)
    case (Inl e)
    then have "wdb w1 = wdb w" using Pair tx_scope_error unfolding claim_runs_def by blast
    with Pair Inl run show ?thesis by (simp add: Tick_def runs_step_refl)
  next
    case (Inr cs)
    note claim = claim_runs_moves [OF ids Pair [unfolded Inr]]
    have same: "set (pool cs) = set cs" "distinct (map er_id (pool cs)) = distinct (map er_id cs)"
      using pool [of cs] mset_eq_setD by (auto intro!: mset_eq_imp_distinct_iff)
    then have "distinct (map er_id (pool cs))" "all_running (pool cs) (wdb w1)"
      using claim by (auto simp: all_running_def)
    moreover obtain u where "run_state (for_each (pool cs) (execute D)) w1 = (u, w')"
      using run Pair Inr by (auto simp: Tick_def runBatch_def split: prod.splits)
    ultimately have batch:
      "\<forall>c \<in> set cs. \<exists>q. phase_of (wdb w') (er_id c) = Some q \<and> after_attempt (er_attempt c) (er_max_attempts c) q"
      "\<forall>j. j \<notin> er_id ` set cs \<longrightarrow> bystander (wdb w1) (wdb w') j"
      using batch_ends unfolding same(1) [symmetric] by blast+
    show ?thesis
      unfolding runs_step_def
    proof
      fix j
      show "run_step TickRuns j (phase_of (wdb w) j) (phase_of (wdb w') j)"
      proof (cases "j \<in> er_id ` set cs")
        case True
        then obtain x where x: "x \<in> set cs" "j = er_id x" by blast
        with batch(1) obtain q where "phase_of (wdb w') j = Some q" "after_attempt (er_attempt x) (er_max_attempts x) q"
          by blast
        with claim x show ?thesis by (simp add: attempt)
      next
        case False
        then have "bystander (wdb w) (wdb w') j" using claim batch(2) by (auto simp: bystander_def)
        then show ?thesis by (auto simp: bystander_def intro: stay follow_tick)
      qed
    qed
  qed
qed

subsection \<open>By hand\<close>

lemma cancel_phases:
  assumes "run_state (CancelPendingAfter m e occ) w = (Inr k, w')"
  shows "phase_of (wdb w') j = phase_of (wdb w) j
    \<or> (\<exists>r \<in> set (runs_of (wdb w)). er_id r = j \<and> occ \<le> er_occurrence r \<and>
         (\<exists>a b. phase_of (wdb w) j = Some (RunStatusPending, a, b)
            \<and> phase_of (wdb w') j = Some (RunStatusCancelled, a, b)))"
proof -
  obtain n where w': "wdb w' = (wdb w)\<lparr>runs_of := update_where (pending_after m e occ)
      (\<lambda>r. r\<lparr>er_status := RunStatusCancelled, er_updated_at := n\<rparr>) (runs_of (wdb w))\<rparr>"
    using CancelPendingAfter_ok [OF assms] by blast
  show ?thesis
  proof (cases "take_first (\<lambda>r. er_id r = j) (runs_of (wdb w))")
    case None
    then show ?thesis unfolding w' by (subst phase_of_update) (simp_all add: phase_of_def)
  next
    case (Some r)
    then have r: "r \<in> set (runs_of (wdb w))" "er_id r = j" "phase_of (wdb w) j = Some (phase_of_run r)"
      by (auto simp: phase_of_def dest: take_first_Some)
    have "phase_of (wdb w') j = Some (phase_of_run (if pending_after m e occ r
        then r\<lparr>er_status := RunStatusCancelled, er_updated_at := n\<rparr> else r))"
      unfolding w' by (subst phase_of_update) (simp_all add: Some)
    then show ?thesis using r
      by (cases "pending_after m e occ r") (auto simp: pending_after_def phase_of_run_def intro!: bexI [of _ r])
  qed
qed

lemma findRun_any:
  assumes "run_state (findRun i user) w = (Inr run, w')"
  shows "run \<in> set (runs_of (wdb w)) \<and> er_id run = i \<and> wdb w' = wdb w"
  using assms unfolding findRun_def
  by (auto elim!: mapErr_okE dest: FindByIdAndUser_row FindById_row simp del: run_mapErr simp: runs_table_def split: if_splits)

lemma findRun_failed: "run_state (findRun i user) w = (Inl e, w') \<Longrightarrow> wdb w' = wdb w"
  by (erule same_run) (simp add: findRun_def pres)

lemma record_phases: "run_state (record_and_commit c e) w = (Inr u, w') \<Longrightarrow> phase_of (wdb w') = phase_of (wdb w)"
  by (drule record_and_commit_db) auto

lemma Cancel_step:
  assumes "run_state (Cancel c request) w = (r, w')"
  shows "runs_step CancelRuns (wdb w) (wdb w')"
proof (cases r)
  case (Inl e)
  then have "wdb w' = wdb w" using assms tx_scope_error unfolding Cancel_def by blast
  then show ?thesis by (simp add: runs_step_refl)
next
  case (Inr response)
  obtain run w1 k w2 u where f: "run_state (findRun (eraq_id request) (eraq_user_id request)) w = (Inr run, w1)"
    and k: "run_state (CancelPendingAfter (er_matched_email_id run) (er_watcher_event_id run) (er_occurrence run)) w1 = (Inr k, w2)"
    and r: "run_state (record_and_commit c (entry (eraq_user_id request) ''event_run.cancelled'' ''event_runs'' (er_id run))) w2 = (Inr u, w')"
    using assms unfolding Inr Cancel_def by (elim okE) (rule that; (assumption | simp))
  show ?thesis
    unfolding runs_step_def
  proof
    fix j
    show "run_step CancelRuns j (phase_of (wdb w) j) (phase_of (wdb w') j)"
      using cancel_phases [OF k, of j] findRun_any [OF f] record_phases [OF r]
      by (auto intro: stay cancel)
  qed
qed

lemma update_run:
  assumes "run_state (Repo_Update runs_table x) w = (Inr y, w')" "has_id er_id (er_id x) (runs_of (wdb w))"
  shows "phase_of_run y = phase_of_run x \<and> er_id y = er_id x \<and> er_occurrence y = er_occurrence x
    \<and> wdb w' = (wdb w)\<lparr>runs_of := put_run y (runs_of (wdb w))\<rparr>"
proof -
  obtain n where y: "y = saved_run n x" and s: "save_row runs_table y (wdb w) = (Inr y, wdb w')"
    using Repo_Update_ok [OF assms(1)] by (auto simp: saved_run_def)
  then show ?thesis
    using assms(2) by (auto simp: save_row_def put_run_def phase_of_run_def split: if_splits) (auto simp: runs_table_def)
qed

lemma update_run_failed:
  "run_state (Repo_Update T x) w = (Inl e, w') \<Longrightarrow> wdb w' = wdb w"
  by (auto simp: Repo_Update_def run_stmt save_row_def split: option.splits if_splits)

lemma GetRun_same: "run_state (GetRun user i) w = (r, w') \<Longrightarrow> wdb w' = wdb w"
  by (erule same_run) (simp add: GetRun_def findRun_def Delivery_FindByRun_def Let_def pres)

text \<open>The run as \<open>Retry\<close> starts it: running again, with no attempt made\<close>

lemma restart_step:
  assumes ids: "distinct (map er_id (runs_of (wdb w)))" and run: "run \<in> set (runs_of (wdb w))"
    and idle: "er_status run \<noteq> RunStatusRunning"
    and upd: "run_state (Repo_Update runs_table (run\<lparr>er_status := RunStatusRunning, er_attempt := 0,
      er_error := None, er_finished_at := None, er_started_at := t\<rparr>)) w = (Inr y, w1)"
    and ex: "run_state (execute D y) w1 = (u, w2)"
  shows "runs_step (RetryRun (er_id run)) (wdb w) (wdb w2)"
  unfolding runs_step_def
proof
  fix j
  have "has_id er_id (er_id run) (runs_of (wdb w))" using run by (auto simp: list_ex_iff)
  with update_run [OF upd] have y: "phase_of_run y = (RunStatusRunning, 0, er_max_attempts run)" "er_id y = er_id run"
    "wdb w1 = (wdb w)\<lparr>runs_of := put_run y (runs_of (wdb w))\<rparr>"
    by (simp_all add: phase_of_run_def)
  have row: "phase_of (wdb w) (er_id run) = Some (phase_of_run run)" by (rule phase_of_row [OF ids run])
  have first: "phase_of (wdb w1) i = (if i = er_id run then Some (phase_of_run y) else phase_of (wdb w) i)" for i
    using row by (simp add: y(2,3) phase_of_put_run del: split_paired_Ex split_paired_All)
  then have "executed (wdb w1) (er_id run) 0 (er_max_attempts run) (wdb w2)"
    using execute_moves [OF _ ex] y(1,2) by (simp add: phase_of_run_def)
  note ends = this [unfolded executed_def]
  show "run_step (RetryRun (er_id run)) j (phase_of (wdb w) j) (phase_of (wdb w2) j)"
  proof (cases "j = er_id run")
    case True
    then show ?thesis using ends row idle by (auto simp: phase_of_run_def intro: restart)
  next
    case False
    then have "bystander (wdb w) (wdb w2) j" using ends first by (simp add: bystander_def)
    then show ?thesis using False by (auto simp: bystander_def intro: stay follow_retry)
  qed
qed

lemma Retry_step:
  assumes ids: "distinct (map er_id (runs_of (wdb w)))" and retry: "run_state (Retry A request) w = (r, w')"
  shows "runs_step (RetryRun (eraq_id request)) (wdb w) (wdb w')"
proof (cases "run_state (findRun (eraq_id request) (eraq_user_id request)) w")
  case (Pair found w1)
  show ?thesis
  proof (cases found)
    case (Inl e)
    then have "w' = w1" using retry Pair by (simp add: Retry_def)
    then show ?thesis using findRun_failed Pair Inl runs_step_refl by metis
  next
    case (Inr run)
    note run = findRun_any [OF Pair [unfolded Inr]]
    let ?x = "run\<lparr>er_status := RunStatusRunning, er_attempt := 0, er_error := None, er_finished_at := None,
      er_started_at := Some (unix_milli (clock w1 (ticks w1)))\<rparr>"
    obtain upd w2 where upd: "run_state (Repo_Update runs_table ?x) (w1\<lparr>ticks := Suc (ticks w1)\<rparr>) = (upd, w2)" by fastforce
    consider "er_status run = RunStatusRunning" | e where "er_status run \<noteq> RunStatusRunning" "upd = Inl e"
      | y where "er_status run \<noteq> RunStatusRunning" "upd = Inr y" by (cases upd) auto
    then show ?thesis
    proof cases
      case 1
      then show ?thesis using retry Pair Inr run by (simp add: Retry_def runs_step_refl)
    next
      case 2
      then have "w' = w2" using retry Pair Inr upd by (simp add: Retry_def)
      then show ?thesis using update_run_failed [of runs_table ?x "w1\<lparr>ticks := Suc (ticks w1)\<rparr>" e w2] upd 2 run
        by (simp add: runs_step_refl)
    next
      case 3
      obtain u w3 r3 w4 where ex: "run_state (execute (ay_dispatcher A) y) w2 = (u, w3)"
        and got: "run_state (GetRun (eraq_user_id request) (eraq_id request)) w3 = (r3, w4)"
        by (metis surj_pair)
      then have w': "w' = w4" using retry Pair Inr upd 3 by (simp add: Retry_def)
      have "runs_step (RetryRun (eraq_id request)) (wdb w) (wdb w3)"
        using restart_step [OF _ _ 3(1) upd [unfolded 3(2)] ex] ids run by simp
      then show ?thesis using GetRun_same [OF got] w' by simp
    qed
  qed
qed

lemma Ack_step:
  assumes ids: "distinct (map er_id (runs_of (wdb w)))" and ack: "run_state (Ack c request) w = (r, w')"
  shows "runs_step (AckRun (eraq_id request)) (wdb w) (wdb w')"
proof (cases r)
  case (Inl e)
  then have "wdb w' = wdb w" using ack tx_scope_error unfolding Ack_def by blast
  then show ?thesis by (simp add: runs_step_refl)
next
  case (Inr response)
  let ?kind = "''event_run.acknowledged''"
  obtain run w1 now w2 y w3 e w4 k w5 u
    where f: "run_state (findRun (eraq_id request) (eraq_user_id request)) w = (Inr run, w1)"
      and t: "run_state now_milli w1 = (now, w2)"
      and s: "run_state (Repo_Update runs_table (run\<lparr>er_acknowledged_at := Some now\<rparr>)) w2 = (Inr y, w3)"
      and ev: "run_state (Repo_FindById events_table (er_watcher_event_id run)) w3 = (e, w4)"
      and k: "run_state (case e of Inl RecordNotFound \<Rightarrow> returnE 0 | Inl _ \<Rightarrow> failE ErrInternal
        | Inr ev \<Rightarrow> if we_stop_on_ack ev
            then internal (CancelPendingAfter (er_matched_email_id run) (er_watcher_event_id run) (er_occurrence run + 1))
            else returnE 0) w4 = (Inr k, w5)"
      and r: "run_state (record_and_commit c (entry (eraq_user_id request) ?kind ''event_runs'' (er_id run))) w5 = (Inr u, w')"
    using ack unfolding Inr Ack_def by (elim tx_scope_okE bindE_okE bind_okE mapErr_okE returnE_okE) (rule that; (assumption | simp))
  note run = findRun_any [OF f]
  have w2: "wdb w2 = wdb w" using t run by auto
  have "has_id er_id (er_id run) (runs_of (wdb w2))" using run w2 by (auto simp: list_ex_iff)
  then have y: "phase_of_run y = phase_of_run run" "er_id y = eraq_id request" "er_occurrence y = er_occurrence run"
    "wdb w3 = (wdb w)\<lparr>runs_of := put_run y (runs_of (wdb w))\<rparr>"
    using update_run [OF s] w2 run by (simp_all add: phase_of_run_def)
  have w4: "wdb w4 = wdb w3" using ev by (rule same_run) (rule pres)
  have saved: "phase_of (wdb w4) = phase_of (wdb w)"
    using phase_of_row [OF ids, of run] run y(1,2) unfolding w4 y(4) by (auto simp: phase_of_put_run)
  have named: "er_occurrence r = er_occurrence run" if "r \<in> set (runs_of (wdb w4))" "er_id r = eraq_id request" for r
    using that y(2,3) by (auto simp: w4 y(4) put_run_def set_update_where split: if_splits)
  have "phase_of (wdb w5) = phase_of (wdb w4)
      \<or> (\<exists>k'. run_state (CancelPendingAfter (er_matched_email_id run) (er_watcher_event_id run) (er_occurrence run + 1)) w4 = (Inr k', w5))"
    using k by (auto elim!: mapErr_okE simp del: run_mapErr split: sum.splits err.splits if_splits)
  then have "run_step (AckRun (eraq_id request)) j (phase_of (wdb w4) j) (phase_of (wdb w5) j)" for j
    using cancel_phases [where w = w4 and w' = w5 and j = j] named
    by (fastforce intro: stay cancel_later)
  then show ?thesis
    unfolding runs_step_def record_phases [OF r] saved by blast
qed

subsection \<open>The operations, and any sequence of them\<close>

datatype run_call =
    CallTick "event_run list \<Rightarrow> event_run list" "string \<Rightarrow> bool" int
  | CallRetry event_run_action_request
  | CallCancel ctx event_run_action_request
  | CallAck ctx event_run_action_request

fun perform :: "dispatcher \<Rightarrow> activity \<Rightarrow> run_call \<Rightarrow> world \<Rightarrow> world" where
  "perform D A (CallTick pool locked limit) w = snd (run_state (Tick D pool locked limit) w)"
| "perform D A (CallRetry request) w = snd (run_state (Retry A request) w)"
| "perform D A (CallCancel c request) w = snd (run_state (Cancel c request) w)"
| "perform D A (CallAck c request) w = snd (run_state (Ack c request) w)"

fun label :: "run_call \<Rightarrow> run_op" where
  "label (CallTick pool locked limit) = TickRuns"
| "label (CallRetry request) = RetryRun (eraq_id request)"
| "label (CallCancel c request) = CancelRuns"
| "label (CallAck c request) = AckRun (eraq_id request)"

text \<open>The pool works through the runs it is given, in some order.\<close>

fun fair :: "run_call \<Rightarrow> bool" where
  "fair (CallTick pool locked limit) = (\<forall>xs. mset (pool xs) = mset xs)"
| "fair _ = True"

lemma perform_step:
  assumes "distinct (map er_id (runs_of (wdb w)))" "fair call"
  shows "runs_step (label call) (wdb w) (wdb (perform D A call w))"
proof (cases call)
  case (CallTick pool locked limit)
  then have "\<And>xs. mset (pool xs) = mset xs" using assms(2) by simp
  from Tick_step [OF assms(1) this prod.collapse [symmetric]] CallTick show ?thesis by simp
next
  case (CallRetry request)
  with Retry_step [OF assms(1) prod.collapse [symmetric]] show ?thesis by simp
next
  case (CallCancel c request)
  with Cancel_step [OF prod.collapse [symmetric]] show ?thesis by simp
next
  case (CallAck c request)
  with Ack_step [OF assms(1) prod.collapse [symmetric]] show ?thesis by simp
qed

text \<open>The identifiers stay unique, so that the steps can be followed through any sequence of calls.\<close>

definition keyed :: "database \<Rightarrow> bool" where
  "keyed d \<longleftrightarrow> distinct (map er_id (runs_of d))"

lemma keyed_other [simp]:
  "keyed (d\<lparr>deliveries_of := xs\<rparr>) = keyed d" "keyed (d\<lparr>audit_logs_of := ls\<rparr>) = keyed d"
  by (simp_all add: keyed_def)

lemma keyed_writes:
  "preserves (db_inv keyed) (Repo_Create runs_table x)" "preserves (db_inv keyed) (Repo_Update runs_table x)"
  by (intro pres_Repo_Create pres_Repo_Update;
      auto simp: keyed_def insert_row_def save_row_def runs_table_def list_ex_iff map_update_where)+

lemma keyed_update_where:
  assumes "\<And>x. er_id (f x) = er_id x"
  shows "preserves (db_inv keyed) (Repo_UpdateWhere runs_table p f)"
  using assms by (intro pres_Repo_UpdateWhere) (simp add: keyed_def runs_table_def map_update_where)

lemma keyed_execute: "preserves (db_inv keyed) (execute D r)"
  unfolding execute_def finish_run_def fail_run_def scheduleNext_def save_def Let_def
  by (intro pres keyed_writes pres_writeDeliveries) simp

lemma keyed_audit: "preserves (db_inv keyed) (record_and_commit c e)"
  unfolding record_and_commit_def tx_commit_def by (intro pres pres_audit) simp

lemma perform_keyed:
  assumes "keyed (wdb w)"
  shows "keyed (wdb (perform D A call w))"
proof -
  have cancel: "preserves (db_inv keyed) (CancelPendingAfter m e occ)" for m e occ
    unfolding CancelPendingAfter_def by (intro keyed_update_where) simp
  have ops: "preserves (db_inv keyed) (Tick D pool locked limit)" "preserves (db_inv keyed) (Retry A request)"
      "preserves (db_inv keyed) (Cancel c request)" "preserves (db_inv keyed) (Ack c request)" for pool locked limit request c
    unfolding Tick_def claim_runs_def claim_run_def runBatch_def Retry_def Cancel_def Ack_def findRun_def GetRun_def Let_def
      ClaimDue_def Delivery_FindByRun_def
    by (intro pres keyed_update_where keyed_writes keyed_execute keyed_audit cancel; simp)+
  show ?thesis
    using preservesD [OF ops(1)] preservesD [OF ops(2)] preservesD [OF ops(3)] preservesD [OF ops(4)] assms
    by (cases call) (simp_all add: db_inv_def)
qed

text \<open>A run that has ended stays as it is, and a running one is left to its worker, through every
  sequence of calls in which no retry names it; and no run is attempted more often than granted.\<close>

lemma settled_through:
  assumes "keyed (wdb w)" "list_all fair calls" "phase_of (wdb w) i = Some (s, a, m)" "s \<noteq> RunStatusPending"
    and "list_all (\<lambda>call. label call \<noteq> RetryRun i) calls"
  shows "phase_of (wdb (fold (perform D A) calls w)) i = Some (s, a, m)"
  using assms
proof (induction calls arbitrary: w)
  case (Cons call calls)
  have "run_step (label call) i (phase_of (wdb w) i) (phase_of (wdb (perform D A call w)) i)"
    using perform_step [of w call D A] Cons.prems(1,2) unfolding keyed_def runs_step_def by simp
  then have "phase_of (wdb (perform D A call w)) i = Some (s, a, m)"
    using settled_stays Cons.prems by simp
  with Cons.IH [of "perform D A call w"] perform_keyed Cons.prems show ?case by simp
qed simp

lemma within_through:
  assumes "keyed (wdb w)" "list_all fair calls" "within (phase_of (wdb w) i)"
  shows "within (phase_of (wdb (fold (perform D A) calls w)) i)"
  using assms
proof (induction calls arbitrary: w)
  case (Cons call calls)
  have "run_step (label call) i (phase_of (wdb w) i) (phase_of (wdb (perform D A call w)) i)"
    using perform_step [of w call D A] Cons.prems(1,2) unfolding keyed_def runs_step_def by simp
  then have "within (phase_of (wdb (perform D A call w)) i)" using step_within Cons.prems by blast
  with Cons.IH [of "perform D A call w"] perform_keyed Cons.prems show ?case by simp
qed simp

text \<open>C1: The operations on runs refine the life cycle, one step at a time: whatever the handlers
  answer, in whatever order the pool finishes and whichever statements fail, an operation leaves
  the row of a run alone or takes it along one step of the machine that this operation may make.
  A tick attempts pending runs only, once, and adds occurrences that are pending and untried; a
  retry starts the run it names, unless it is running, from its first attempt; a cancel and an
  acknowledgement turn pending runs into cancelled ones, never the acknowledged run.  So
  what has ended is changed by nothing but a retry that names it, and a run whose save was
  refused, and that is left running after the operation, not even by that.\<close>

theorem operations_refine_machine:
  assumes "distinct (map er_id (runs_of (wdb w)))" and "\<And>xs. mset (pool xs) = mset xs"
  shows "run_step TickRuns i (phase_of (wdb w) i) (phase_of (wdb (snd (run_state (Tick D pool locked limit) w))) i)
    \<and> run_step (RetryRun (eraq_id request)) i (phase_of (wdb w) i) (phase_of (wdb (snd (run_state (Retry A request) w))) i)
    \<and> run_step CancelRuns i (phase_of (wdb w) i) (phase_of (wdb (snd (run_state (Cancel c request) w))) i)
    \<and> run_step (AckRun (eraq_id request)) i (phase_of (wdb w) i) (phase_of (wdb (snd (run_state (Ack c request) w))) i)"
  using perform_step [OF assms(1), of "CallTick pool locked limit" D A] perform_step [OF assms(1), of "CallRetry request" D A]
    perform_step [OF assms(1), of "CallCancel c request" D A] perform_step [OF assms(1), of "CallAck c request" D A] assms(2)
  by (simp add: runs_step_def)

text \<open>The sample run is pending: a tick may attempt it, and one who cancels it may only cancel it.\<close>

theorem operations_refine_machine_witness:
  "run_step TickRuns ''r1'' (Some (RunStatusPending, 0, 3))
     (phase_of (wdb (snd (run_state (Tick (sample_dispatcher quiet_handler) rev (\<lambda>_. False) 5) sample_world))) ''r1'')
   \<and> phase_of (wdb (snd (run_state (Cancel None ann_acts) sample_world))) ''r1''
      \<in> {Some (RunStatusPending, 0, 3), Some (RunStatusCancelled, 0, 3)}"
proof -
  have "distinct (map er_id (runs_of (wdb sample_world)))" by (simp add: sample_defs)
  moreover have "phase_of (wdb sample_world) ''r1'' = Some (RunStatusPending, 0, 3)"
    by (simp add: phase_of_def phase_of_run_def sample_defs)
  ultimately show ?thesis
    using operations_refine_machine [where w = sample_world and pool = rev and i = "''r1''"
        and D = "sample_dispatcher quiet_handler" and locked = "\<lambda>_. False" and limit = 5 and request = ann_acts and c = None]
    by (auto simp: from_phase)
qed

end
