(* ===== verification/SyncMatches.thy ===== *)
theory SyncMatches
  imports Pipeline
begin

text \<open>
  What a sync counts and schedules (internal/usecase/pipeline\_usecase.go).  The matches, the
  match counters of the watchers, the number the sync reports and the runs it schedules agree:
  all of them move for new matches only, and mail that is fetched again moves none of them.
\<close>

subsection \<open>New matches and what goes with them\<close>

definition count_for :: "string \<Rightarrow> matched_email list \<Rightarrow> int" where
  "count_for i ms = int (length (filter (\<lambda>m. me_watcher_id m = i) ms))"

lemma count_for_simps [simp]:
  "count_for i [] = 0" "count_for i (ms @ ns) = count_for i ms + count_for i ns"
  "count_for i [m] = (if me_watcher_id m = i then 1 else 0)"
  by (simp_all add: count_for_def)

text \<open>The row of a watcher after the new matches \<open>ms\<close>: its counter has moved by those that are its own,
  and nothing else but the time of its last match.\<close>

definition bumped :: "matched_email list \<Rightarrow> watcher \<Rightarrow> watcher \<Rightarrow> bool" where
  "bumped ms x y \<longleftrightarrow> y = x\<lparr>wa_match_count := wa_match_count x + count_for (wa_id x) ms,
     wa_last_matched_at := wa_last_matched_at y, wa_updated_at := wa_updated_at y\<rparr>"

lemma bumped_refl [simp]: "bumped [] x x"
  by (simp add: bumped_def)

lemma bumped_keys: "bumped ms x y \<Longrightarrow> wa_id y = wa_id x \<and> wa_user_id y = wa_user_id x"
  by (cases x; cases y) (simp add: bumped_def)

lemma bumped_trans: "bumped ms x y \<Longrightarrow> bumped ns y z \<Longrightarrow> bumped (ms @ ns) x z"
  by (cases x; cases y; cases z) (simp add: bumped_def)

text \<open>\<open>d'\<close> is \<open>d\<close> with the new matches \<open>ms\<close>, each counted once by its watcher, and runs that belong
  to them\<close>

definition new_matches :: "database \<Rightarrow> matched_email list \<Rightarrow> database \<Rightarrow> bool" where
  "new_matches d ms d' \<longleftrightarrow> matches_of d' = matches_of d @ ms
     \<and> distinct (map match_slot ms) \<and> list_all (\<lambda>m. match_slot m \<notin> match_slot ` set (matches_of d)) ms
     \<and> list_all2 (bumped ms) (watchers_of d) (watchers_of d')
     \<and> (\<exists>rs. runs_of d' = runs_of d @ rs \<and> list_all (\<lambda>r. er_matched_email_id r \<in> me_id ` set ms) rs)"

lemma new_matches_same:
  "matches_of d' = matches_of d \<Longrightarrow> watchers_of d' = watchers_of d \<Longrightarrow> runs_of d' = runs_of d \<Longrightarrow> new_matches d [] d'"
  by (simp add: new_matches_def list_all2_refl)

lemma new_matches_cong:
  assumes "matches_of a' = matches_of a" "watchers_of a' = watchers_of a" "runs_of a' = runs_of a"
    and "matches_of b' = matches_of b" "watchers_of b' = watchers_of b" "runs_of b' = runs_of b"
  shows "new_matches a' ms b' = new_matches a ms b"
  by (simp add: new_matches_def assms)

lemma new_matches_trans:
  assumes ab: "new_matches a ms b" and bc: "new_matches b ns c"
  shows "new_matches a (ms @ ns) c"
proof -
  have "list_all2 (bumped (ms @ ns)) (watchers_of a) (watchers_of c)"
    by (rule list_all2_trans [of "bumped ms" "bumped ns" _ _ "watchers_of b", OF bumped_trans])
      (use ab bc in \<open>auto simp: new_matches_def\<close>)
  moreover obtain rs qs where "runs_of b = runs_of a @ rs" "list_all (\<lambda>r. er_matched_email_id r \<in> me_id ` set ms) rs"
      "runs_of c = runs_of b @ qs" "list_all (\<lambda>r. er_matched_email_id r \<in> me_id ` set ns) qs"
    using ab bc unfolding new_matches_def by blast
  then have "\<exists>rs. runs_of c = runs_of a @ rs \<and> list_all (\<lambda>r. er_matched_email_id r \<in> me_id ` set (ms @ ns)) rs"
    by (intro exI [of _ "rs @ qs"]) (auto simp: list_all_iff)
  moreover have "distinct (map match_slot (ms @ ns))"
      "list_all (\<lambda>m. match_slot m \<notin> match_slot ` set (matches_of a)) (ms @ ns)"
    using ab bc by (auto simp: new_matches_def list_all_iff)
  ultimately show ?thesis
    using ab bc unfolding new_matches_def by simp
qed

text \<open>The watchers an evaluation is called with are rows, and their owners exist.\<close>

definition known :: "database \<Rightarrow> watcher \<Rightarrow> bool" where
  "known d x \<longleftrightarrow> has_id wa_id (wa_id x) (watchers_of d) \<and> has_id u_id (wa_user_id x) (users_of d)"

text \<open>What keeps the database from refusing a match: the references of the watchers and of the
  mailbox hold, and identifiers to come are new.\<close>

definition sync_sound :: "string \<Rightarrow> world \<Rightarrow> bool" where
  "sync_sound i w \<longleftrightarrow> db_up w \<and> has_id ma_id i (accounts_of (wdb w)) \<and> list_all (known (wdb w)) (watchers_of (wdb w))
     \<and> inj (uuids w) \<and> (\<forall>n \<ge> uuid_pos w. \<forall>m \<in> set (matches_of (wdb w)). me_id m \<noteq> uuids w n)"

definition sync_adds :: "world \<Rightarrow> matched_email list \<Rightarrow> world \<Rightarrow> bool" where
  "sync_adds w ms w' \<longleftrightarrow> new_matches (wdb w) ms (wdb w') \<and> users_of (wdb w') = users_of (wdb w)
     \<and> accounts_of (wdb w') = accounts_of (wdb w) \<and> later w w'
     \<and> (\<forall>m \<in> set ms. \<exists>k. uuid_pos w \<le> k \<and> k < uuid_pos w' \<and> me_id m = uuids w k)"

lemma sync_adds_trans:
  assumes "sync_adds u ms v" "sync_adds v ns w"
  shows "sync_adds u (ms @ ns) w"
proof -
  have "\<exists>k. uuid_pos u \<le> k \<and> k < uuid_pos w \<and> me_id m = uuids u k" if "m \<in> set (ms @ ns)" for m
  proof (cases "m \<in> set ms")
    case True
    then obtain k where "uuid_pos u \<le> k" "k < uuid_pos v" "me_id m = uuids u k" using assms(1) by (auto simp: sync_adds_def)
    moreover have "uuid_pos v \<le> uuid_pos w" using assms(2) by (simp add: sync_adds_def later_def same_env_def)
    ultimately show ?thesis by (meson less_le_trans)
  next
    case False
    with that obtain k where "uuid_pos v \<le> k" "k < uuid_pos w" "me_id m = uuids v k" using assms(2) by (auto simp: sync_adds_def)
    moreover have "uuid_pos u \<le> uuid_pos v" "uuids v = uuids u" using assms(1) by (simp_all add: sync_adds_def later_def same_env_def)
    ultimately show ?thesis by (metis le_trans)
  qed
  then show ?thesis
    using assms new_matches_trans [of "wdb u" ms "wdb v" ns "wdb w"] by (auto simp: sync_adds_def later_def same_env_def)
qed

lemma sync_adds_refl: "db_up w \<Longrightarrow> sync_adds w [] w"
  by (simp add: sync_adds_def new_matches_same later_def)

lemma has_id_map: "has_id key i xs \<longleftrightarrow> i \<in> set (map key xs)"
  by (auto simp: list_ex_iff)

lemma bumped_ids: "list_all2 (bumped ms) xs ys \<Longrightarrow> map wa_id ys = map wa_id xs"
  by (induction rule: list_all2_induct) (auto dest: bumped_keys)

lemma new_matches_ids: "new_matches d ms d' \<Longrightarrow> map wa_id (watchers_of d') = map wa_id (watchers_of d)"
  unfolding new_matches_def using bumped_ids by blast

lemma sync_adds_known: "sync_adds w ms w' \<Longrightarrow> known (wdb w') = known (wdb w)"
  using new_matches_ids [of "wdb w" ms "wdb w'"] unfolding known_def has_id_map by (simp add: sync_adds_def fun_eq_iff)

lemma sync_adds_sound:
  assumes s: "sync_sound i w" and a: "sync_adds w ms w'"
  shows "sync_sound i w'"
proof -
  have "list_all (known (wdb w')) (watchers_of (wdb w'))"
    unfolding list_all_iff
  proof
    fix y assume y: "y \<in> set (watchers_of (wdb w'))"
    obtain x where "x \<in> set (watchers_of (wdb w))" "bumped ms x y"
      using a y unfolding sync_adds_def new_matches_def list_all2_conv_all_nth by (metis in_set_conv_nth)
    then have "known (wdb w) y" using s by (auto simp: sync_sound_def list_all_iff known_def dest!: bumped_keys)
    then show "known (wdb w') y" using sync_adds_known [OF a] by simp
  qed
  moreover have "me_id m \<noteq> uuids w' n" if n: "uuid_pos w' \<le> n" and m: "m \<in> set (matches_of (wdb w'))" for m n
  proof (cases "m \<in> set ms")
    case True
    then obtain k where k: "k < uuid_pos w'" "me_id m = uuids w k" using a by (auto simp: sync_adds_def)
    moreover have "uuids w k \<noteq> uuids w n" using s k(1) n by (metis injD leD sync_sound_def)
    ultimately show ?thesis using a by (simp add: sync_adds_def later_def same_env_def)
  next
    case False
    then have "m \<in> set (matches_of (wdb w))" using a m by (auto simp: sync_adds_def new_matches_def)
    then show ?thesis using s a n by (auto simp: sync_sound_def sync_adds_def later_def same_env_def)
  qed
  ultimately show ?thesis using s a by (auto simp: sync_sound_def sync_adds_def later_def same_env_def)
qed

subsection \<open>One message\<close>

lemma list_all2_update_where:
  "(\<And>x. P x (if p x then f x else x)) \<Longrightarrow> list_all2 P xs (update_where p f xs)"
  by (induction xs) auto

lemma RecordMatch_up:
  assumes "db_up w" and "me_watcher_id m = i"
  shows "\<exists>w'. run_state (RecordMatch i t) w = (Inr (), w') \<and> later w w'
    \<and> (\<exists>ws. wdb w' = (wdb w)\<lparr>watchers_of := ws\<rparr> \<and> list_all2 (bumped [m]) (watchers_of (wdb w)) ws)"
proof -
  let ?ws = "update_where (\<lambda>x. wa_id x = i) (\<lambda>x. x\<lparr>wa_match_count := wa_match_count x + 1, wa_last_matched_at := Some t,
      wa_updated_at := unix_milli (clock w (ticks w))\<rparr>) (watchers_of (wdb w))"
  have "list_all2 (bumped [m]) (watchers_of (wdb w)) ?ws"
  proof (rule list_all2_update_where)
    fix x
    show "bumped [m] x (if wa_id x = i then x\<lparr>wa_match_count := wa_match_count x + 1, wa_last_matched_at := Some t,
        wa_updated_at := unix_milli (clock w (ticks w))\<rparr> else x)"
      using assms(2) by (cases x) (simp add: bumped_def)
  qed
  moreover have "\<exists>w'. run_state (RecordMatch i t) w = (Inr (), w') \<and> later w w' \<and> wdb w' = (wdb w)\<lparr>watchers_of := ?ws\<rparr>"
    using assms(1) by (simp add: RecordMatch_def Repo_UpdateWhere_def later_def same_env_def watchers_table_def)
  ultimately show ?thesis by blast
qed

lemma CreateIfNew_up:
  assumes "db_up w" and "\<not> has_id me_id (me_id m) (matches_of (wdb w))"
    and "has_id u_id (me_user_id m) (users_of (wdb w))" "has_id wa_id (me_watcher_id m) (watchers_of (wdb w))"
      "has_id ma_id (me_mail_account_id m) (accounts_of (wdb w))"
  shows "\<exists>m' w'. me_id m' = me_id m \<and> match_slot m' = match_slot m \<and> later w w' \<and> uuid_pos w' = uuid_pos w \<and>
    (if match_slot m \<in> match_slot ` set (matches_of (wdb w))
     then run_state (CreateIfNew m) w = (Inr (m', False), w') \<and> wdb w' = wdb w
     else run_state (CreateIfNew m) w = (Inr (m', True), w') \<and> wdb w' = (wdb w)\<lparr>matches_of := matches_of (wdb w) @ [m']\<rparr>)"
proof -
  define m' where "m' = tb_stamp matches_table (unix_milli (clock w (ticks w))) m"
  have m': "me_id m' = me_id m" "match_slot m' = match_slot m" "me_user_id m' = me_user_id m"
      "me_watcher_id m' = me_watcher_id m" "me_message_id m' = me_message_id m" "me_mail_account_id m' = me_mail_account_id m"
    by (simp_all add: m'_def matches_table_def match_slot_def)
  have slot: "list_ex (\<lambda>x. me_watcher_id x = me_watcher_id m \<and> me_message_id x = me_message_id m) (matches_of (wdb w))
      \<longleftrightarrow> match_slot m \<in> match_slot ` set (matches_of (wdb w))"
    unfolding match_slot_def list_ex_iff image_iff prod.inject by metis
  have "insert_if_new m' (wdb w) = (if match_slot m \<in> match_slot ` set (matches_of (wdb w)) then (Inr (m', False), wdb w)
      else (Inr (m', True), (wdb w)\<lparr>matches_of := matches_of (wdb w) @ [m']\<rparr>))"
    using assms(2-) slot unfolding insert_if_new_def m'
    by (auto simp: insert_row_def matches_table_def m' unique_on_def match_slot_def list_all_iff list_ex_iff)
  then show ?thesis using assms(1) m'
    by (intro exI [of _ m'] exI [of _ "snd (run_state (CreateIfNew m) w)"])
       (auto simp: CreateIfNew_def m'_def later_def same_env_def)
qed

lemma recordMatch_adds:
  assumes s: "sync_sound (ma_id a) w" and x: "known (wdb w) x"
  shows "\<exists>m new w'. run_state (recordMatch P a x msg out) w = (Inr (m, new), w')
    \<and> sync_adds w (if new then [m] else []) w'"
proof -
  let ?i = "uuids w (uuid_pos w)" and ?t = "unix_milli (clock w (ticks w))"
  let ?v = "w\<lparr>uuid_pos := Suc (uuid_pos w), ticks := Suc (ticks w)\<rparr>"
  let ?m = "match_row (mx_unicode (pl_matcher P)) a x msg out ?i ?t"
  have up: "db_up w" and fresh: "\<not> has_id me_id ?i (matches_of (wdb w))" and acc: "has_id ma_id (ma_id a) (accounts_of (wdb w))"
    using s by (auto simp: sync_sound_def list_ex_iff)
  have row: "me_id ?m = ?i" "me_user_id ?m = wa_user_id x" "me_watcher_id ?m = wa_id x" "me_mail_account_id ?m = ma_id a"
    by (simp_all add: match_row_def)
  obtain m w1 where m: "me_id m = ?i" "match_slot m = match_slot ?m" and l1: "later ?v w1" "uuid_pos w1 = Suc (uuid_pos w)"
    and c: "if match_slot ?m \<in> match_slot ` set (matches_of (wdb w))
     then run_state (CreateIfNew ?m) ?v = (Inr (m, False), w1) \<and> wdb w1 = wdb w
     else run_state (CreateIfNew ?m) ?v = (Inr (m, True), w1) \<and> wdb w1 = (wdb w)\<lparr>matches_of := matches_of (wdb w) @ [m]\<rparr>"
    using CreateIfNew_up [of ?v ?m] up fresh acc x row by (auto simp: known_def)
  have env: "later w w1" using l1(1) by (simp add: later_def same_env_def)
  show ?thesis
  proof (cases "match_slot ?m \<in> match_slot ` set (matches_of (wdb w))")
    case True
    then have "run_state (recordMatch P a x msg out) w = (Inr (m, False), w1)" and "wdb w1 = wdb w"
      using c by (simp_all add: recordMatch_def)
    moreover from this(2) have "sync_adds w [] w1" using env by (simp add: sync_adds_def new_matches_same)
    ultimately show ?thesis by (intro exI [of _ m] exI [of _ False] exI [of _ w1]) simp
  next
    case False
    have wid: "me_watcher_id m = wa_id x" using m(2) row(3) by (simp add: match_slot_def)
    obtain w2 ws where r: "run_state (RecordMatch (wa_id x) (me_matched_at m)) w1 = (Inr (), w2)" "later w1 w2"
        "wdb w2 = (wdb w1)\<lparr>watchers_of := ws\<rparr>" "list_all2 (bumped [m]) (watchers_of (wdb w1)) ws"
      using RecordMatch_up [OF _ wid, of w1 "me_matched_at m"] env unfolding later_def by blast
    have "run_state (recordMatch P a x msg out) w = (Inr (m, True), w2)"
      using c False r(1) by (simp add: recordMatch_def)
    moreover have "sync_adds w [m] w2"
      using c False r(2-) env m l1(2) by (auto simp: sync_adds_def new_matches_def later_def same_env_def intro!: exI [of _ "uuid_pos w"])
    ultimately show ?thesis by (intro exI [of _ m] exI [of _ True] exI [of _ w2]) simp
  qed
qed

lemma env_schedule [pres]: "preserves (same_env v) (ScheduleEvents x m)" "preserves (same_env v) (cooling x)"
  unfolding ScheduleEvents_def FindEnabledByWatcher_def cooling_def by (intro pres)+

lemma schedule_adds:
  assumes w1: "sync_adds w [m] w1" and run: "run_state (ScheduleEvents x m) w1 = (r, w2)"
  shows "sync_adds w [m] w2"
proof -
  define K where "K = (\<lambda>d. \<exists>rs. d = (wdb w1)\<lparr>runs_of := runs_of (wdb w1) @ rs\<rparr> \<and> list_all (\<lambda>r. er_matched_email_id r = me_id m) rs)"
  have create: "preserves (db_inv K) (Repo_Create runs_table (first_run x m e at i))" for e at i
  proof (rule pres_Repo_Create)
    fix d n assume "K d"
    then obtain rs where d: "d = (wdb w1)\<lparr>runs_of := runs_of (wdb w1) @ rs\<rparr>"
      and rs: "list_all (\<lambda>r. er_matched_email_id r = me_id m) rs" unfolding K_def by blast
    let ?r = "tb_stamp runs_table n (first_run x m e at i)"
    have "er_matched_email_id ?r = me_id m" by (simp add: runs_table_def first_run_def)
    then show "K (snd (insert_row runs_table ?r d))"
      using rs by (auto simp: insert_row_def d runs_table_def K_def)
  qed
  have "preserves (db_inv K) (ScheduleEvents x m)"
    unfolding ScheduleEvents_def FindEnabledByWatcher_def by (intro pres create)
  moreover have "K (wdb w1)" unfolding K_def by (rule exI [of _ "[]"]) simp
  then have "db_inv K w1" by (simp add: db_inv_def)
  ultimately have "db_inv K w2" using run by (rule preserves_run)
  then obtain rs where d: "wdb w2 = (wdb w1)\<lparr>runs_of := runs_of (wdb w1) @ rs\<rparr>"
    and rs: "list_all (\<lambda>r. er_matched_email_id r = me_id m) rs" unfolding K_def db_inv_def by blast
  have env: "later w1 w2" by (rule later_step [OF run]) (use w1 in \<open>auto intro!: pres simp: sync_adds_def later_def\<close>)
  obtain qs where "runs_of (wdb w1) = runs_of (wdb w) @ qs" "list_all (\<lambda>r. er_matched_email_id r = me_id m) qs"
    using w1 by (auto simp: sync_adds_def new_matches_def)
  with rs have "\<exists>rs. runs_of (wdb w2) = runs_of (wdb w) @ rs \<and> list_all (\<lambda>r. er_matched_email_id r \<in> me_id ` set [m]) rs"
    by (intro exI [of _ "qs @ rs"]) (simp add: d)
  then show ?thesis
    using w1 env by (auto simp: sync_adds_def new_matches_def d later_def same_env_def)
qed

text \<open>One message against the watchers: what is counted are the new matches.\<close>

lemma evaluate_adds:
  assumes "sync_sound (ma_id a) w" "list_all (known (wdb w)) ws"
  shows "\<exists>ms w'. run_state (evaluate P a fs msg ws n) w = (Inr (n + int (length ms)), w') \<and> sync_adds w ms w'"
  using assms
proof (induction ws arbitrary: w n)
  case Nil
  then show ?case using sync_adds_refl by (auto simp: sync_sound_def intro!: exI [of _ "[]"])
next
  case (Cons x ws)
  have go: "\<exists>ms' w'. run_state (evaluate P a fs msg ws (n + int (length ms))) v = (Inr (n + int (length ms')), w') \<and> sync_adds w ms' w'"
    if v: "sync_adds w ms v" for ms v
  proof -
    have "sync_sound (ma_id a) v" "list_all (known (wdb v)) ws"
      using sync_adds_sound [OF Cons.prems(1) v] Cons.prems(2) sync_adds_known [OF v] by simp_all
    from Cons.IH [OF this, of "n + int (length ms)"] obtain ns w' where
      "run_state (evaluate P a fs msg ws (n + int (length ms))) v = (Inr (n + int (length (ms @ ns))), w')" "sync_adds v ns w'"
      by (auto simp: add.assoc)
    then show ?thesis using sync_adds_trans [OF v] by blast
  qed
  have up: "db_up w" using Cons.prems(1) by (simp add: sync_sound_def)
  show ?case
  proof (cases "before_start x msg")
    case True
    then show ?thesis using go [OF sync_adds_refl [OF up]] by simp
  next
    case False
    obtain cool w1 where c: "run_state (cooling x) w = (cool, w1)" by fastforce
    have "later w w1" by (rule later_step [OF c]) (use up in \<open>auto intro!: pres simp: later_def\<close>)
    then have a1: "sync_adds w [] w1"
      using run_cooling [of x w] c by (simp add: sync_adds_def new_matches_same)
    let ?out = "EvaluateFilters (pl_matcher P) x (fs (wa_id x)) msg"
    show ?thesis
    proof (cases "cool \<or> \<not> mr_matched ?out")
      case True
      then show ?thesis using go [OF a1] c False by (auto simp: Let_def)
    next
      case m: False
      have "sync_sound (ma_id a) w1" "known (wdb w1) x"
        using sync_adds_sound [OF Cons.prems(1) a1] Cons.prems(2) sync_adds_known [OF a1] by simp_all
      from recordMatch_adds [OF this, of P msg ?out] obtain m new w2 where
        rec: "run_state (recordMatch P a x msg ?out) w1 = (Inr (m, new), w2)"
        and a2: "sync_adds w1 (if new then [m] else []) w2" by blast
      from sync_adds_trans [OF a1 a2] have a2': "sync_adds w (if new then [m] else []) w2" by simp
      show ?thesis
      proof (cases new)
        case True
        obtain r w3 where s: "run_state (ScheduleEvents x m) w2 = (r, w3)" by fastforce
        have "sync_adds w [m] w3" using schedule_adds [OF _ s] a2' True by simp
        from go [OF this] show ?thesis using c m False rec s True by (auto simp: Let_def)
      next
        case old: False
        then show ?thesis using go [of "[]" w2] a2' c m False rec by (auto simp: Let_def)
      qed
    qed
  qed
qed

lemma evaluate_all_adds:
  assumes "sync_sound (ma_id a) w" "list_all (known (wdb w)) ws"
  shows "\<exists>ms w'. run_state (evaluate_all P a fs ws msgs n) w = (n + int (length ms), w') \<and> sync_adds w ms w'"
  using assms
proof (induction msgs arbitrary: w n)
  case Nil
  then show ?case using sync_adds_refl by (auto simp: sync_sound_def intro!: exI [of _ "[]"])
next
  case (Cons msg msgs)
  obtain ms w1 where one: "run_state (evaluate P a fs msg ws 0) w = (Inr (int (length ms)), w1)" and a1: "sync_adds w ms w1"
    using evaluate_adds [OF Cons.prems, of P fs msg 0] by auto
  have "sync_sound (ma_id a) w1" "list_all (known (wdb w1)) ws"
    using sync_adds_sound [OF Cons.prems(1) a1] Cons.prems(2) sync_adds_known [OF a1] by simp_all
  from Cons.IH [OF this, of "n + int (length ms)"] obtain ns w' where
    "run_state (evaluate_all P a fs ws msgs (n + int (length ms))) w1 = (n + int (length (ms @ ns)), w')" "sync_adds w1 ns w'"
    by (auto simp: add.assoc)
  then show ?case using one sync_adds_trans [OF a1] by (auto simp del: length_append)
qed

subsection \<open>A whole sync\<close>

lemma env_redis_cmd [pres]: "preserves (same_env v) (redis_cmd f)"
  by (simp add: preserves_def run_redis_cmd same_env_def)

lemma env_await_rounds: "preserves (same_env v) (await_rounds R i n a)"
proof (induction n arbitrary: i)
  case (Suc n)
  have "preserves (same_env v) (reload j)" "preserves (same_env v) (needsRefresh b)" for j b
    unfolding reload_def needsRefresh_def by (intro pres)+
  with Suc.IH show ?case unfolding await_rounds.simps by (intro pres)
qed (simp add: preserves_ret)

lemma env_Resolve [pres]: "preserves (same_env v) (Resolve R a)"
proof -
  have "preserves (same_env v) (handleRefreshFailure b e)" for b e
    unfolding handleRefreshFailure_def Let_def by (cases e) (auto intro!: pres)
  then have "preserves (same_env v) (refresh_locked R c b)" for c b
    unfolding refresh_locked_def store_tokens_def reload_def needsRefresh_def Encrypt_credentials_def Encrypt_def Let_def
    by (intro pres)
  then show ?thesis
    unfolding Resolve_def refresh_def awaitRefresh_def Row_def Row_uncached_def remember_def Remember_def Provider_Lookup_def
      Cache_Get_def Cache_Set_def Acquire_def Release_def cmd_defs needsRefresh_def MailProvider_FindBySlug_def
    by (intro pres env_await_rounds)
qed

lemma env_sync_steps [pres]:
  "preserves (same_env v) (FindByWatchers ids)" "preserves (same_env v) (FindActiveByMailAccount i)"
  unfolding FindByWatchers_def FindActiveByMailAccount_def by (intro pres)+

text \<open>The rest of a sync, its bookkeeping, leaves the three tables alone.\<close>

definition framed :: "string \<Rightarrow> database \<Rightarrow> database \<Rightarrow> bool" where
  "framed i d d' \<longleftrightarrow> matches_of d' = matches_of d \<and> watchers_of d' = watchers_of d \<and> runs_of d' = runs_of d
     \<and> users_of d' = users_of d \<and> (has_id ma_id i (accounts_of d) \<longrightarrow> has_id ma_id i (accounts_of d'))"

lemma framed_refl: "framed i d d"
  by (simp add: framed_def)

lemma framed_writes:
  "preserves (db_inv (framed i d)) (Repo_Create sync_runs_table r)"
  "preserves (db_inv (framed i d)) (Repo_Update sync_runs_table r)"
  "preserves (db_inv (framed i d)) (Repo_Update accounts_table a)"
proof -
  show "preserves (db_inv (framed i d)) (Repo_Create sync_runs_table r)"
      "preserves (db_inv (framed i d)) (Repo_Update sync_runs_table r)"
    by (rule pres_sync_runs; simp add: framed_def)+
  show "preserves (db_inv (framed i d)) (Repo_Update accounts_table a)"
  proof (rule pres_Repo_Update)
    fix d' n assume "framed i d d'"
    moreover have "ma_id ` set (update_where (\<lambda>y. ma_id y = ma_id x) (\<lambda>_. x) xs) = ma_id ` set xs" for x :: mail_account and xs
      unfolding set_map [symmetric] by (subst map_update_where) simp_all
    ultimately have "framed i d (snd (save_row accounts_table x d'))" for x
      unfolding framed_def save_row_def has_id_map by (simp add: accounts_table_def)
    then show "framed i d (snd (save_row accounts_table (tb_stamp accounts_table n (tb_touch accounts_table n a)) d'))" .
  qed
qed

lemma framed_finish: "preserves (db_inv (framed i d)) (finish_sync r s f n c)"
  unfolding finish_sync_def by (intro pres framed_writes)

lemma framed_after:
  assumes "preserves (db_inv (framed i (wdb w))) m"
  shows "framed i (wdb w) (wdb (snd (run_state m w)))"
  using preservesD [OF assms, of w] by (simp add: db_inv_def framed_refl)

lemma framed_none: "framed i d d' \<Longrightarrow> new_matches d [] d'"
  by (simp add: framed_def new_matches_same)

lemma framed_sound: "sync_sound i w \<Longrightarrow> later w w' \<Longrightarrow> framed i (wdb w) (wdb w') \<Longrightarrow> sync_sound i w' \<and> known (wdb w') = known (wdb w)"
  unfolding sync_sound_def later_def same_env_def framed_def known_def [abs_def] by simp

definition reported :: "database \<Rightarrow> database \<Rightarrow> (err + sync_response) \<Rightarrow> bool" where
  "reported d d' res \<longleftrightarrow> (\<exists>ms. new_matches d ms d'
     \<and> (case res of Inl _ \<Rightarrow> ms = [] | Inr response \<Rightarrow> sy_matches_created response = int (length ms)))"

lemma reported_error: "framed i d d' \<Longrightarrow> reported d d' (Inl e)"
  by (auto simp: reported_def dest: framed_none)

lemma reported_from: "framed i d d1 \<Longrightarrow> reported d1 d' res \<Longrightarrow> reported d d' res"
  by (simp add: reported_def framed_def new_matches_def)

lemma sync_messages_reported:
  assumes s: "sync_sound (ma_id a) w" and ws: "list_all (known (wdb w)) ws"
    and run: "run_state (sync_messages P r a ws result) w = ((a', res), w')"
  shows "reported (wdb w) (wdb w') res"
proof -
  obtain f w1 where f: "run_state (FindByWatchers (map wa_id ws)) w = (f, w1)" by fastforce
  have l: "later w w1" by (rule later_step [OF f]) (use s in \<open>auto intro!: pres simp: later_def sync_sound_def\<close>)
  have db: "wdb w1 = wdb w" using f by (rule same_run) (rule pres)
  show ?thesis
  proof (cases f)
    case (Inl e)
    then have "res = Inl ErrInternal" and "w' = snd (run_state (finish_sync r SyncStatusError 0 0 (Some e)) w1)"
      using run f by (auto simp: sync_messages_def split: prod.splits)
    then show ?thesis
      using reported_error [OF framed_after [OF framed_finish, of "ma_id a" w1]] db by simp
  next
    case (Inr fs)
    have "framed (ma_id a) (wdb w) (wdb w1)" by (simp add: db framed_refl)
    then have "sync_sound (ma_id a) w1" "list_all (known (wdb w1)) ws" using framed_sound [OF s l] ws by simp_all
    from evaluate_all_adds [OF this, of P fs "fr_messages result" 0] obtain ms w2 where
      ev: "run_state (evaluate_all P a fs ws (fr_messages result) 0) w1 = (int (length ms), w2)" and a2: "sync_adds w1 ms w2"
      by auto
    let ?rest = "\<lambda>now. do {
          ignoreE (Repo_Update accounts_table (a\<lparr>ma_last_synced_at := Some now, ma_last_error := None,
            ma_sync_state := (if fr_cursor result \<noteq> [] then fr_cursor result else ma_sync_state a)\<rparr>));
          finish_sync r SyncStatusOK (int (length (fr_messages result))) (int (length ms)) None }"
    obtain now w3 where n: "run_state now_milli w2 = (now, w3)" by fastforce
    have w3: "wdb w3 = wdb w2" using n by (rule same_run) (rule pres)
    have res: "res = Inr \<lparr>sy_sync_run_id = sr_id r, sy_messages_fetched = int (length (fr_messages result)),
            sy_matches_created = int (length ms), sy_status = SyncStatusOK\<rparr>" and w': "w' = snd (run_state (?rest now) w3)"
      using run f ev n by (auto simp: sync_messages_def Inr Let_def split: prod.splits)
    have "framed (ma_id a) (wdb w3) (wdb w')"
      unfolding w' by (rule framed_after) (intro pres framed_writes framed_finish)
    then have "new_matches (wdb w) ms (wdb w')"
      using a2 db unfolding w3 by (simp add: sync_adds_def framed_def new_matches_def)
    then show ?thesis by (auto simp: reported_def res)
  qed
qed

lemma sync_fetch_reported:
  assumes s: "sync_sound (ma_id a) w" and run: "run_state (sync_fetch P r a client target) w = ((a', res), w')"
  shows "reported (wdb w) (wdb w') res"
proof -
  obtain f w1 where f: "run_state (FindActiveByMailAccount (ma_id a)) w = (f, w1)" by fastforce
  have l: "later w w1" by (rule later_step [OF f]) (use s in \<open>auto intro!: pres simp: later_def sync_sound_def\<close>)
  have db: "wdb w1 = wdb w" using f by (rule same_run) (rule pres)
  show ?thesis
  proof (cases f)
    case (Inl e)
    then have "res = Inl ErrInternal" and "w' = snd (run_state (finish_sync r SyncStatusError 0 0 (Some e)) w1)"
      using run f by (auto simp: sync_fetch_def split: prod.splits)
    then show ?thesis using reported_error [OF framed_after [OF framed_finish, of "ma_id a" w1]] db by simp
  next
    case (Inr ws)
    show ?thesis
    proof (cases "cl_fetch client target \<lparr>fq_folder = sync_folder ws, fq_since = 0, fq_cursor = ma_sync_state a, fq_limit = 200\<rparr>")
      case e: (Inl e)
      let ?rest = "do { finish_sync r SyncStatusError 0 0 (Some e);
          ignoreE (Repo_Update accounts_table (a\<lparr>ma_status := MailAccountStatusError, ma_last_error := Some (err_text e)\<rparr>)) }"
      have res: "res = Inl (HttpErr 422 (err_text e))" and w': "w' = snd (run_state ?rest w1)"
        using run f Inr e by (auto simp: sync_fetch_def Let_def split: prod.splits)
      have "framed (ma_id a) (wdb w1) (wdb w')"
        unfolding w' by (rule framed_after) (intro pres framed_writes framed_finish)
      then show ?thesis unfolding res db by (rule reported_error)
    next
      case result: (Inr result)
      have "framed (ma_id a) (wdb w) (wdb w1)" by (simp add: db framed_refl)
      moreover have "list_all (known (wdb w)) ws"
        using s FindActive_rows [OF f [unfolded Inr]] by (auto simp: sync_sound_def list_all_iff watched_def)
      ultimately have "sync_sound (ma_id a) w1" "list_all (known (wdb w1)) ws" using framed_sound [OF s l] by simp_all
      from sync_messages_reported [OF this, of P r result a' res w'] show ?thesis
        using run f Inr result db by (simp add: sync_fetch_def)
    qed
  qed
qed

lemma SyncAccount_reported:
  assumes s: "sync_sound (ma_id a) w" and run: "run_state (SyncAccount P a) w = ((a', res), w')"
  shows "reported (wdb w) (wdb w') res"
proof -
  let ?i = "ma_id a"
  define r0 where "r0 = \<lparr>sr_id = uuids w (uuid_pos w), sr_mail_account_id = ?i, sr_status = SyncStatusRunning,
     sr_started_at = unix_milli (clock w (ticks w)), sr_finished_at = None, sr_messages_fetched = 0,
     sr_matches_created = 0, sr_error = None, sr_created_at = 0, sr_updated_at = 0\<rparr>"
  define v where "v = w\<lparr>uuid_pos := Suc (uuid_pos w), ticks := Suc (ticks w)\<rparr>"
  obtain opened w1 where create: "run_state (Repo_Create sync_runs_table r0) v = (opened, w1)" by fastforce
  have v: "later w v" "wdb v = wdb w" using s by (simp_all add: v_def sync_sound_def later_def same_env_def)
  have l1: "later w w1" by (rule later_step [OF create v(1)]) (intro pres)+
  have "framed ?i (wdb v) (wdb (snd (run_state (Repo_Create sync_runs_table r0) v)))" by (rule framed_after [OF framed_writes(1)])
  then have f1: "framed ?i (wdb w) (wdb w1)" using create v(2) by simp
  show ?thesis
  proof (cases opened)
    case (Inl e)
    then have "res = Inl ErrInternal" "w' = w1"
      using run create by (auto simp: SyncAccount_def Let_def r0_def v_def split: prod.splits)
    then show ?thesis using reported_error [OF f1] by simp
  next
    case (Inr syncRun)
    obtain b res2 w2 where resolve: "run_state (Resolve (pl_resolver P) a) w1 = ((b, res2), w2)" by (metis surj_pair)
    have b: "ma_id b = ?i" using returnsD [OF returns_Resolve resolve] by (simp add: account_key_def)
    have l2: "later w w2" by (rule later_step [OF resolve l1]) (intro pres)+
    have "framed ?i (wdb w1) (wdb (snd (run_state (Resolve (pl_resolver P) a) w1)))"
      by (rule framed_after [OF pres_Resolve]) (rule framed_writes)
    then have f2: "framed ?i (wdb w) (wdb w2)" using f1 resolve by (simp add: framed_def)
    show ?thesis
    proof (cases res2)
      case e: (Inl e)
      then have res: "res = Inl e" and w': "w' = snd (run_state (finish_sync syncRun SyncStatusError 0 0 (Some e)) w2)"
        using run create Inr resolve by (auto simp: SyncAccount_def Let_def r0_def v_def split: prod.splits)
      have "framed ?i (wdb w2) (wdb w')" unfolding w' by (rule framed_after [OF framed_finish])
      then show ?thesis unfolding res using f2 by (intro reported_from [OF f2] reported_error)
    next
      case ct: (Inr ct)
      obtain client target where "ct = (client, target)" by fastforce
      then have fetch: "run_state (sync_fetch P syncRun b client target) w2 = ((a', res), w')"
        using run create Inr resolve ct by (auto simp: SyncAccount_def Let_def r0_def v_def split: prod.splits)
      have "sync_sound (ma_id b) w2" using framed_sound [OF s l2 f2] b by simp
      from sync_fetch_reported [OF this fetch] show ?thesis by (rule reported_from [OF f2])
    qed
  qed
qed

text \<open>C8: A sync counts and schedules a message once.  What it records are matches no watcher had for that
  message before, each once however often the message is fetched; the number it reports is their
  number; each of them moves the counter of its watcher by one, and nothing else does; and every
  run it schedules belongs to one of them.  A sync that fails records nothing.  So mail that is
  fetched again is not counted, not reported and not scheduled again.\<close>

theorem sync_counts_once:
  assumes "sync_sound (ma_id account) w" and "run_state (SyncAccount P account) w = ((account', res), w')"
  shows "\<exists>ms. matches_of (wdb w') = matches_of (wdb w) @ ms
    \<and> distinct (map match_slot ms) \<and> list_all (\<lambda>m. match_slot m \<notin> match_slot ` set (matches_of (wdb w))) ms
    \<and> (case res of Inl _ \<Rightarrow> ms = [] | Inr response \<Rightarrow> sy_matches_created response = int (length ms))
    \<and> list_all2 (bumped ms) (watchers_of (wdb w)) (watchers_of (wdb w'))
    \<and> (\<exists>rs. runs_of (wdb w') = runs_of (wdb w) @ rs \<and> list_all (\<lambda>r. er_matched_email_id r \<in> me_id ` set ms) rs)"
  using SyncAccount_reported [OF assms] unfolding reported_def new_matches_def by blast

text \<open>The sample mailbox hands over two letters, of which the watcher has recorded the first.\<close>

lemma poll_world_sound: "sync_sound (ma_id plain_box) poll_world"
proof -
  have "inj (uuids poll_world)" unfolding inj_def poll_world_def by (auto dest: arg_cong [of _ _ length])
  moreover have "uuids poll_world n \<noteq> ''m1''" for n by (cases n) (auto simp: poll_world_def)
  ultimately show ?thesis
    unfolding sync_sound_def by (auto simp: poll_world_def known_def plain_box_def sample_defs)
qed

lemma two_letters:
  assumes "db_up w" and "wdb w = sample_db\<lparr>accounts_of := [plain_box], sync_runs_of := xs\<rparr>"
    and "uuids w = uuids poll_world"
  shows "fst (run_state (evaluate_all P plain_box (\<lambda>_. []) [invoices] [letter ''<1@x>'', letter ''<2@x>''] 0) w) = 1"
proof -
  have id: "uuids w n \<noteq> ''m1''" "''m1'' \<noteq> uuids w n" for n unfolding assms(3) by (cases n; auto simp: poll_world_def)+
  have "\<exists>w1. run_state (evaluate P plain_box (\<lambda>_. []) (letter ''<1@x>'') [invoices] 0) w = (Inr 0, w1) \<and> wdb w1 = wdb w
      \<and> db_up w1 \<and> uuids w1 = uuids w"
    using assms(1,2)
    by (simp add: before_start_def cooling_def EvaluateFilters_def Let_def recordMatch_def CreateIfNew_def insert_if_new_def
        match_row_def matches_table_def letter_def sample_defs)
  then obtain w1 where 1: "run_state (evaluate P plain_box (\<lambda>_. []) (letter ''<1@x>'') [invoices] 0) w = (Inr 0, w1)"
    "wdb w1 = wdb w" "db_up w1" "uuids w1 = uuids w" by blast
  have "\<exists>w2. run_state (evaluate P plain_box (\<lambda>_. []) (letter ''<2@x>'') [invoices] 0) w1 = (Inr 1, w2)"
    using 1(2-) assms(2) id
    by (simp add: before_start_def cooling_def EvaluateFilters_def Let_def recordMatch_def CreateIfNew_def insert_if_new_def
        match_row_def matches_table_def insert_row_def unique_on_def plain_box_def letter_def RecordMatch_def Repo_UpdateWhere_def
        ScheduleEvents_def FindEnabledByWatcher_def sample_defs)
  with 1(1) show ?thesis by auto
qed

lemma sync_two_letters:
  "\<exists>a response w'. run_state (SyncAccount (sample_pipeline post_box) plain_box) poll_world = ((a, Inr response), w')
    \<and> sy_messages_fetched response = 2 \<and> sy_matches_created response = 1"
proof -
  let ?P = "sample_pipeline post_box"
  define r0 where "r0 = \<lparr>sr_id = uuids poll_world 0, sr_mail_account_id = ma_id plain_box, sr_status = SyncStatusRunning,
       sr_started_at = unix_milli (clock poll_world 0), sr_finished_at = None, sr_messages_fetched = 0,
       sr_matches_created = 0, sr_error = None, sr_created_at = 0, sr_updated_at = 0\<rparr>"
  let ?w = "poll_world\<lparr>uuid_pos := Suc 0, ticks := Suc 0\<rparr>"
  obtain r w1 xs where create: "run_state (Repo_Create sync_runs_table r0) ?w = (Inr r, w1)" "db_up w1" "redis_up w1"
      "redis w1 = Map.empty" "wdb w1 = sample_db\<lparr>accounts_of := [plain_box], sync_runs_of := xs\<rparr>" "uuids w1 = uuids poll_world"
    by (simp add: Repo_Create_def insert_row_def sync_runs_table_def r0_def poll_world_def plain_box_def sample_defs)
  have "take_row (\<lambda>p. mp_slug p = ''gmail'') (providers_of (wdb w1)) = Inr gmail"
    by (simp add: create take_row_def sample_defs)
  from Resolve_plain [OF create(2-4) this, of post_box] obtain t w2 where
    resolve: "run_state (Resolve (pl_resolver ?P) plain_box) w1 = ((plain_box, Inr (post_box, t)), w2)"
      and w2: "db_up w2" "wdb w2 = wdb w1" by blast
  have "same_env w1 w2" using preserves_run [OF env_Resolve _ resolve, of w1] by simp
  then have u2: "uuids w2 = uuids poll_world" using create by (simp add: same_env_def)
  obtain w3 where ws: "run_state (FindActiveByMailAccount (ma_id plain_box)) w2 = (Inr [invoices], w3)"
    and w3: "db_up w3" "wdb w3 = wdb w1" "uuids w3 = uuids poll_world"
    using w2 u2 by (simp add: FindActiveByMailAccount_def create plain_box_def sample_defs)
  obtain w4 where fs: "run_state (FindByWatchers (map wa_id [invoices])) w3 = (Inr (\<lambda>_. []), w4)"
    and w4: "db_up w4" "wdb w4 = wdb w1" "uuids w4 = uuids poll_world"
    using w3 by (simp add: FindByWatchers_def create sample_defs)
  obtain w5 where ev: "run_state (evaluate_all ?P plain_box (\<lambda>_. []) [invoices] [letter ''<1@x>'', letter ''<2@x>''] 0) w4 = (1, w5)"
    using two_letters [OF w4(1) _ w4(3), of xs ?P] w4(2) create(5) by (metis prod.collapse)
  let ?res = "\<lparr>fr_messages = [letter ''<1@x>'', letter ''<2@x>''], fr_cursor = ''c''\<rparr>"
  have fetched: "cl_fetch post_box t q = Inr ?res" for q by (simp add: post_box_def)
  have start: "uuid_pos poll_world = 0" "ticks poll_world = 0" by (simp_all add: poll_world_def)
  obtain a response w' where sm: "run_state (sync_messages ?P r plain_box [invoices] ?res) w3 = ((a, Inr response), w')"
    and resp: "sy_messages_fetched response = 2" "sy_matches_created response = 1"
    using fs ev by (simp add: sync_messages_def Let_def split_beta)
  have "run_state (SyncAccount ?P plain_box) poll_world = run_state (sync_fetch ?P r plain_box post_box t) w2"
    using create(1) resolve by (simp add: SyncAccount_def Let_def start r0_def)
  also have "\<dots> = ((a, Inr response), w')"
    using ws sm by (simp add: sync_fetch_def fetched)
  finally show ?thesis using resp by blast
qed

theorem sync_counts_once_witness:
  "\<exists>a response w' m. run_state (SyncAccount (sample_pipeline post_box) plain_box) poll_world = ((a, Inr response), w')
    \<and> sy_messages_fetched response = 2 \<and> matches_of (wdb w') = [mail1, m] \<and> match_slot m \<noteq> match_slot mail1
    \<and> map wa_match_count (watchers_of (wdb w')) = [count_for ''inv'' [m]]"
proof -
  obtain a response w' where run: "run_state (SyncAccount (sample_pipeline post_box) plain_box) poll_world = ((a, Inr response), w')"
    and resp: "sy_messages_fetched response = 2" "sy_matches_created response = 1"
    using sync_two_letters by blast
  have db: "matches_of (wdb poll_world) = [mail1]" "watchers_of (wdb poll_world) = [invoices]"
    by (simp_all add: poll_world_def sample_db_def)
  obtain ms where ms: "matches_of (wdb w') = [mail1] @ ms" "list_all (\<lambda>m. match_slot m \<notin> match_slot ` {mail1}) ms"
      "length ms = 1" "list_all2 (bumped ms) [invoices] (watchers_of (wdb w'))"
    using sync_counts_once [OF poll_world_sound run] resp(2) unfolding db by auto
  from ms(3) obtain m where m: "ms = [m]" by (cases ms) auto
  from ms(4) obtain y where y: "watchers_of (wdb w') = [y]" "bumped ms invoices y" by (auto simp: list_all2_Cons1)
  have "wa_match_count y = count_for ''inv'' [m]"
    using y(2) unfolding bumped_def m by (cases y) (simp add: invoices_def)
  with run resp ms y show ?thesis by (auto simp: m)
qed

end
