(* ===== verification/Fixtures.thy ===== *)
theory Fixtures
  imports Dispatcher Resolver
begin

text \<open>
  The world a load run measures against, internal/loadtest/fixtures: \<open>Build\<close> (fixtures.go) inserts
  users with mailboxes, watchers, filters and events, \<open>Cleanup\<close> (cleanup.go) deletes them again.
  Every row hangs on a user whose address is in the load domain.

  The generator of a seed is the parameter \<open>fe_intn\<close>: the \<open>k\<close>-th number it draws below a bound.
  bcrypt and the cipher are parameters too.  A delete is the set of rows that go, with the cascades
  and restrictions of db/migrations in the order Postgres fires them, by age of the key.
  The lemmas show that cleaning up removes exactly what hangs on users of the load domain, and that
  building and cleaning up leave the rows as they were.
\<close>

subsection \<open>fixtures.go: the rows\<close>

definition EmailDomain :: string where
  "EmailDomain = ''loadtest.invalid''"

definition batchSize :: nat where
  "batchSize = 500"

record shape =
  sh_users :: int
  sh_accounts_per_user :: int
  sh_watchers_per_account :: int
  sh_filters_per_watcher :: int
  sh_events_per_watcher :: int
  sh_provider :: string
  sh_poll_interval_seconds :: int
  sh_due_now :: bool

record built =
  bu_user_ids :: "string list"
  bu_account_ids :: "string list"
  bu_watcher_ids :: "string list"
  bu_password :: string

definition built_Accounts :: "built \<Rightarrow> int" where
  "built_Accounts b = int (length (bu_account_ids b))"

record fixture_env =
  fe_unicode :: unicode
  fe_bcrypt :: "string \<Rightarrow> string \<Rightarrow> err + string"
  fe_intn :: "int \<Rightarrow> nat \<Rightarrow> int \<Rightarrow> int"
  fe_cipher :: aead

text \<open>The variables of \<open>Build\<close>: what is built so far and how often the generator was used\<close>

record fixture =
  fx_built :: built
  fx_users :: "user list"
  fx_accounts :: "mail_account list"
  fx_watchers :: "watcher list"
  fx_filters :: "watcher_filter list"
  fx_events :: "watcher_event list"
  fx_drawn :: nat

definition no_fixture :: fixture where
  "no_fixture = \<lparr>fx_built = \<lparr>bu_user_ids = [], bu_account_ids = [], bu_watcher_ids = [],
       bu_password = ''loadtest-password''\<rparr>,
     fx_users = [], fx_accounts = [], fx_watchers = [], fx_filters = [], fx_events = [], fx_drawn = 0\<rparr>"

text \<open>\<open>%06d\<close> and \<open>%02d\<close>\<close>

definition padded :: "nat \<Rightarrow> nat \<Rightarrow> string" where
  "padded k n = (let s = nat_str n in replicate (k - length s) (CHR ''0'') @ s)"

definition quoted :: "string \<Rightarrow> string" where
  "quoted s = [CHR 0x22] @ s @ [CHR 0x22]"

definition fixture_settings :: json where
  "fixture_settings = ''{'' @ quoted ''host'' @ '':'' @ quoted ''loadstub.invalid'' @ '','' @ quoted ''port''
     @ '':993,'' @ quoted ''use_tls'' @ '':true}''"

definition filterFields :: "string list" where
  "filterFields = [FieldSubject, FieldFrom, FieldBody, FieldTo]"

definition filterValues :: "string list" where
  "filterValues = [''invoice'', ''alert'', ''load'', ''@'' @ EmailDomain]"

definition fixture_user :: "string \<Rightarrow> int \<Rightarrow> string \<Rightarrow> nat \<Rightarrow> user" where
  "fixture_user hash now i u = \<lparr>u_id = i, u_email = ''user-'' @ padded 6 u @ ''@'' @ EmailDomain,
     u_name = ''Load User '' @ padded 6 u, u_password = hash, u_status = UserStatusActive,
     u_timezone = ''UTC'', u_email_verified_at = Some now, u_created_at = 0, u_updated_at = 0\<rparr>"

definition fixture_interval :: "shape \<Rightarrow> int" where
  "fixture_interval sh = (if sh_poll_interval_seconds sh \<le> 0 then 120 else sh_poll_interval_seconds sh)"

definition fixture_provider :: "shape \<Rightarrow> string" where
  "fixture_provider sh = (if sh_provider sh = [] then ''imap'' else sh_provider sh)"

definition fixture_account :: "shape \<Rightarrow> string \<Rightarrow> int \<Rightarrow> string \<Rightarrow> string \<Rightarrow> nat \<Rightarrow> nat \<Rightarrow> mail_account" where
  "fixture_account sh credentials next user i u a = \<lparr>ma_id = i, ma_user_id = user,
     ma_provider = fixture_provider sh,
     ma_email_address = ''mailbox-'' @ padded 6 u @ ''-'' @ padded 2 a @ ''@'' @ EmailDomain,
     ma_display_name = None, ma_auth_mode = ''password'', ma_credentials = credentials,
     ma_settings = fixture_settings, ma_provider_account_id = None, ma_scopes = None,
     ma_token_expires_at = None, ma_status = MailAccountStatusVerified, ma_last_verified_at = None,
     ma_last_error = None, ma_sync_state = ''{}'', ma_last_synced_at = None, ma_last_push_at = None,
     ma_poll_interval_seconds = fixture_interval sh, ma_next_poll_at = next,
     ma_created_at = 0, ma_updated_at = 0\<rparr>"

definition fixture_watcher :: "string \<Rightarrow> string \<Rightarrow> string \<Rightarrow> nat \<Rightarrow> nat \<Rightarrow> nat \<Rightarrow> watcher" where
  "fixture_watcher user account i u a k = \<lparr>wa_id = i, wa_user_id = user, wa_mail_account_id = account,
     wa_name = ''watcher '' @ nat_str u @ ''/'' @ nat_str a @ ''/'' @ nat_str k, wa_description = None,
     wa_status = WatcherStatusActive, wa_match_mode = MatchModeAll, wa_folder = ''INBOX'',
     wa_watch_from = None, wa_cooldown_seconds = 0, wa_last_matched_at = None, wa_match_count = 0,
     wa_archived_at = None, wa_created_at = 0, wa_updated_at = 0\<rparr>"

definition fixture_filter :: "string \<Rightarrow> string \<Rightarrow> nat \<Rightarrow> watcher_filter" where
  "fixture_filter watcher i f = \<lparr>wf_id = i, wf_watcher_id = watcher,
     wf_field = filterFields ! (f mod length filterFields), wf_header_name = None,
     wf_operator = OpContains, wf_value = filterValues ! (f mod length filterValues),
     wf_case_sensitive = False, wf_position = int f, wf_created_at = 0, wf_updated_at = 0\<rparr>"

definition fixture_event :: "string \<Rightarrow> string \<Rightarrow> nat \<Rightarrow> watcher_event" where
  "fixture_event watcher i e = \<lparr>we_id = i, we_watcher_id = watcher, we_type = ''notify'',
     we_config = ''{'' @ quoted ''message'' @ '':'' @ quoted ''load'' @ ''}'', we_position = int e,
     we_enabled = True, we_run_mode = RunModeImmediate, we_delay_seconds = 0,
     we_repeat_interval_seconds = None, we_repeat_max = None, we_repeat_until = None,
     we_cron_expression = None, we_stop_on_ack = False, we_created_at = 0, we_updated_at = 0\<rparr>"

subsection \<open>fixtures.go: the loops\<close>

fun loop :: "(nat \<Rightarrow> 'a \<Rightarrow> 'a io) \<Rightarrow> nat list \<Rightarrow> 'a \<Rightarrow> 'a io" where
  "loop f [] a = ret a"
| "loop f (k # ks) a = State_Monad.bind (f k a) (loop f ks)"

abbreviation up_to :: "int \<Rightarrow> nat list" where
  "up_to n \<equiv> [0..<nat n]"

definition build_filter :: "string \<Rightarrow> nat \<Rightarrow> fixture \<Rightarrow> fixture io" where
  "build_filter watcher f F = do { i \<leftarrow> new_uuid; ret (F\<lparr>fx_filters := fx_filters F @ [fixture_filter watcher i f]\<rparr>) }"

definition build_event :: "string \<Rightarrow> nat \<Rightarrow> fixture \<Rightarrow> fixture io" where
  "build_event watcher e F = do { i \<leftarrow> new_uuid; ret (F\<lparr>fx_events := fx_events F @ [fixture_event watcher i e]\<rparr>) }"

definition build_watcher :: "shape \<Rightarrow> string \<Rightarrow> string \<Rightarrow> nat \<Rightarrow> nat \<Rightarrow> nat \<Rightarrow> fixture \<Rightarrow> fixture io" where
  "build_watcher sh user account u a k F = do {
     i \<leftarrow> new_uuid;
     let F1 = F\<lparr>fx_built := (fx_built F)\<lparr>bu_watcher_ids := bu_watcher_ids (fx_built F) @ [i]\<rparr>,
                fx_watchers := fx_watchers F @ [fixture_watcher user account i u a k]\<rparr>;
     F2 \<leftarrow> loop (build_filter i) (up_to (sh_filters_per_watcher sh)) F1;
     loop (build_event i) (up_to (sh_events_per_watcher sh)) F2 }"

definition build_account :: "fixture_env \<Rightarrow> shape \<Rightarrow> int \<Rightarrow> int \<Rightarrow> string \<Rightarrow> string \<Rightarrow> nat \<Rightarrow> nat \<Rightarrow> fixture \<Rightarrow> fixture io" where
  "build_account E sh seed now credentials user u a F = do {
     i \<leftarrow> new_uuid;
     let next = (if \<not> sh_due_now sh
                 then now + fe_intn E seed (fx_drawn F) (fixture_interval sh * 1000)
                 else now - fe_intn E seed (fx_drawn F) 60000);
     loop (build_watcher sh user i u a) (up_to (sh_watchers_per_account sh))
       (F\<lparr>fx_built := (fx_built F)\<lparr>bu_account_ids := bu_account_ids (fx_built F) @ [i]\<rparr>,
          fx_accounts := fx_accounts F @ [fixture_account sh credentials next user i u a],
          fx_drawn := Suc (fx_drawn F)\<rparr>) }"

definition build_user :: "fixture_env \<Rightarrow> shape \<Rightarrow> int \<Rightarrow> int \<Rightarrow> string \<Rightarrow> string \<Rightarrow> nat \<Rightarrow> fixture \<Rightarrow> fixture io" where
  "build_user E sh seed now hash credentials u F = do {
     i \<leftarrow> new_uuid;
     loop (build_account E sh seed now credentials i u) (up_to (sh_accounts_per_user sh))
       (F\<lparr>fx_built := (fx_built F)\<lparr>bu_user_ids := bu_user_ids (fx_built F) @ [i]\<rparr>,
          fx_users := fx_users F @ [fixture_user hash now i u]\<rparr>) }"

text \<open>gorm splits a long slice into batches, within one transaction.\<close>

definition createInBatches :: "'a table \<Rightarrow> 'a list \<Rightarrow> unit ioE" where
  "createInBatches T rows =
     (if rows = [] then returnE ()
      else if length rows \<le> batchSize then Repo_CreateInBatch T rows batchSize
      else tx_scope (bindE (Repo_CreateInBatch T rows batchSize) (\<lambda>_. commit)))"

definition wrapped :: "string \<Rightarrow> 'a ioE \<Rightarrow> 'a ioE" where
  "wrapped what m = mapErr (\<lambda>e. PlainErr (what @ '': '' @ err_text e)) m"

definition hashOnce :: "fixture_env \<Rightarrow> string \<Rightarrow> string ioE" where
  "hashOnce E password = bindE (read_random 16) (\<lambda>salt. liftE (fe_bcrypt E salt password))"

definition insert_fixture :: "fixture \<Rightarrow> built ioE" where
  "insert_fixture F =
     bindE (wrapped ''inserting users'' (createInBatches users_table (fx_users F))) (\<lambda>_.
     bindE (wrapped ''inserting mail_accounts'' (createInBatches accounts_table (fx_accounts F))) (\<lambda>_.
     bindE (wrapped ''inserting watchers'' (createInBatches watchers_table (fx_watchers F))) (\<lambda>_.
     bindE (wrapped ''inserting watcher_filters'' (createInBatches filters_table (fx_filters F))) (\<lambda>_.
     bindE (wrapped ''inserting watcher_events'' (createInBatches events_table (fx_events F))) (\<lambda>_.
     returnE (fx_built F))))))"

definition Build :: "fixture_env \<Rightarrow> shape \<Rightarrow> int \<Rightarrow> built ioE" where
  "Build E sh seed = do {
     now \<leftarrow> now_milli;
     bindE (hashOnce E (bu_password (fx_built no_fixture))) (\<lambda>hash.
     bindE (wrapped ''encrypting fixture credentials'' (Encrypt (fe_cipher E) (Encode (fe_unicode E)
         (no_credentials\<lparr>cr_username := ''loadtest'', cr_password := ''loadtest''\<rparr>)))) (\<lambda>credentials.
     State_Monad.bind (loop (build_user E sh seed now hash credentials) (up_to (sh_users sh)) no_fixture)
       insert_fixture)) }"

subsection \<open>cleanup.go\<close>

definition load_email :: "string \<Rightarrow> bool" where
  "load_email e = suffix (''@'' @ EmailDomain) e"

definition load_users :: "database \<Rightarrow> string list" where
  "load_users d = map u_id (filter (\<lambda>u. load_email (u_email u)) (users_of d))"

definition load_accounts :: "database \<Rightarrow> string list" where
  "load_accounts d = map ma_id (filter (\<lambda>a. ma_user_id a \<in> set (load_users d)) (accounts_of d))"

definition load_watchers :: "database \<Rightarrow> string list" where
  "load_watchers d = map wa_id (filter (\<lambda>x. wa_user_id x \<in> set (load_users d)) (watchers_of d))"

definition load_events :: "database \<Rightarrow> string list" where
  "load_events d = map we_id (filter (\<lambda>e. we_watcher_id e \<in> set (load_watchers d)) (events_of d))"

definition load_runs :: "database \<Rightarrow> string list" where
  "load_runs d = map er_id (filter (\<lambda>r. er_watcher_event_id r \<in> set (load_events d)) (runs_of d))"

text \<open>Deleting by a condition; \<open>None\<close> where a restricting key refuses\<close>

definition remove_watchers :: "(watcher \<Rightarrow> bool) \<Rightarrow> database \<Rightarrow> database" where
  "remove_watchers p d =
     (let gone = set (map wa_id (filter p (watchers_of d))) in
      remove_matches (\<lambda>m. me_watcher_id m \<in> gone)
        (remove_events (\<lambda>e. we_watcher_id e \<in> gone)
          (remove_filters (\<lambda>f. wf_watcher_id f \<in> gone)
            (d\<lparr>watchers_of := filter (\<lambda>x. \<not> p x) (watchers_of d)\<rparr>))))"

definition remove_accounts :: "(mail_account \<Rightarrow> bool) \<Rightarrow> database \<Rightarrow> database option" where
  "remove_accounts p d =
     (let gone = set (map ma_id (filter p (accounts_of d))) in
      if list_ex (\<lambda>x. wa_mail_account_id x \<in> gone) (watchers_of d) then None
      else Some (remove_matches (\<lambda>m. me_mail_account_id m \<in> gone)
        (d\<lparr>accounts_of := filter (\<lambda>a. \<not> p a) (accounts_of d),
           sync_runs_of := filter (\<lambda>s. sr_mail_account_id s \<notin> gone) (sync_runs_of d)\<rparr>)))"

definition refers :: "string set \<Rightarrow> string option \<Rightarrow> bool" where
  "refers gone v = (case v of None \<Rightarrow> False | Some i \<Rightarrow> i \<in> gone)"

definition remove_notifiers :: "(notifier \<Rightarrow> bool) \<Rightarrow> database \<Rightarrow> database option" where
  "remove_notifiers p d =
     (let gone = set (map no_id (filter p (notifiers_of d))) in
      if list_ex (\<lambda>l. wen_notifier_id l \<in> gone) (event_notifiers_of d) then None
      else Some (d\<lparr>notifiers_of := filter (\<lambda>n. \<not> p n) (notifiers_of d),
        deliveries_of := update_where (\<lambda>n. refers gone (nd_notifier_id n))
          (\<lambda>n. n\<lparr>nd_notifier_id := None\<rparr>) (deliveries_of d)\<rparr>))"

definition forget_user :: "string set \<Rightarrow> audit_log \<Rightarrow> audit_log" where
  "forget_user gone l = l\<lparr>al_actor_user_id := (if refers gone (al_actor_user_id l) then None else al_actor_user_id l),
     al_impersonated_user_id := (if refers gone (al_impersonated_user_id l) then None else al_impersonated_user_id l)\<rparr>"

definition remove_users :: "(user \<Rightarrow> bool) \<Rightarrow> database \<Rightarrow> database option" where
  "remove_users p d =
     (let gone = set (map u_id (filter p (users_of d))) in
      case remove_accounts (\<lambda>a. ma_user_id a \<in> gone)
          (d\<lparr>users_of := filter (\<lambda>u. \<not> p u) (users_of d),
             user_roles_of := filter (\<lambda>l. ur_user_id l \<notin> gone) (user_roles_of d),
             sessions_of := filter (\<lambda>s. us_user_id s \<notin> gone) (sessions_of d)\<rparr>) of
        None \<Rightarrow> None
      | Some d1 \<Rightarrow> (case remove_notifiers (\<lambda>n. no_user_id n \<in> gone) d1 of
          None \<Rightarrow> None
        | Some d2 \<Rightarrow>
            let d3 = remove_runs (\<lambda>r. er_user_id r \<in> gone)
              (remove_matches (\<lambda>m. me_user_id m \<in> gone) (remove_watchers (\<lambda>x. wa_user_id x \<in> gone) d2)) in
            Some (d3\<lparr>audit_logs_of := map (forget_user gone) (audit_logs_of d3),
              sessions_of := filter (\<lambda>s. \<not> refers gone (us_impersonated_by s)) (sessions_of d3)\<rparr>)))"

text \<open>The subqueries and the statements, as text and as what they do\<close>

definition sql_users :: string where
  "sql_users = ''SELECT id FROM users WHERE email LIKE '' @ [CHR 0x27] @ ''%@'' @ EmailDomain @ [CHR 0x27]"

definition sql_in :: "string \<Rightarrow> string \<Rightarrow> string \<Rightarrow> string" where
  "sql_in table column inner = ''SELECT id FROM '' @ table @ '' WHERE '' @ column @ '' IN ('' @ inner @ '')''"

definition sql_delete :: "string \<Rightarrow> string \<Rightarrow> string \<Rightarrow> string" where
  "sql_delete table column inner = ''DELETE FROM '' @ table @ '' WHERE '' @ column @ '' IN ('' @ inner @ '')''"

definition statements :: "(string \<times> (database \<Rightarrow> database option)) list" where
  "statements =
     (let accounts = sql_in ''mail_accounts'' ''user_id'' sql_users;
          watchers = sql_in ''watchers'' ''user_id'' sql_users;
          events = sql_in ''watcher_events'' ''watcher_id'' watchers in
      [(sql_delete ''notification_deliveries'' ''event_run_id'' (sql_in ''event_runs'' ''watcher_event_id'' events),
        \<lambda>d. Some (d\<lparr>deliveries_of := filter (\<lambda>n. nd_event_run_id n \<notin> set (load_runs d)) (deliveries_of d)\<rparr>)),
       (sql_delete ''event_runs'' ''watcher_event_id'' events,
        \<lambda>d. Some (remove_runs (\<lambda>r. er_watcher_event_id r \<in> set (load_events d)) d)),
       (sql_delete ''watcher_event_notifiers'' ''watcher_event_id'' events,
        \<lambda>d. Some (d\<lparr>event_notifiers_of := filter (\<lambda>l. wen_watcher_event_id l \<notin> set (load_events d)) (event_notifiers_of d)\<rparr>)),
       (sql_delete ''watcher_events'' ''watcher_id'' watchers,
        \<lambda>d. Some (remove_events (\<lambda>e. we_watcher_id e \<in> set (load_watchers d)) d)),
       (sql_delete ''watcher_filters'' ''watcher_id'' watchers,
        \<lambda>d. Some (remove_filters (\<lambda>f. wf_watcher_id f \<in> set (load_watchers d)) d)),
       (sql_delete ''matched_emails'' ''watcher_id'' watchers,
        \<lambda>d. Some (remove_matches (\<lambda>m. me_watcher_id m \<in> set (load_watchers d)) d)),
       (sql_delete ''watchers'' ''user_id'' sql_users,
        \<lambda>d. Some (remove_watchers (\<lambda>x. wa_user_id x \<in> set (load_users d)) d)),
       (sql_delete ''mail_sync_runs'' ''mail_account_id'' accounts,
        \<lambda>d. Some (d\<lparr>sync_runs_of := filter (\<lambda>s. sr_mail_account_id s \<notin> set (load_accounts d)) (sync_runs_of d)\<rparr>)),
       (sql_delete ''mail_accounts'' ''user_id'' sql_users,
        \<lambda>d. remove_accounts (\<lambda>a. ma_user_id a \<in> set (load_users d)) d),
       (sql_delete ''notifiers'' ''user_id'' sql_users,
        \<lambda>d. remove_notifiers (\<lambda>n. no_user_id n \<in> set (load_users d)) d),
       (sql_delete ''audit_logs'' ''actor_user_id'' sql_users @ '' OR impersonated_user_id IN ('' @ sql_users @ '')'',
        \<lambda>d. Some (d\<lparr>audit_logs_of := filter (\<lambda>l. \<not> refers (set (load_users d)) (al_actor_user_id l)
          \<and> \<not> refers (set (load_users d)) (al_impersonated_user_id l)) (audit_logs_of d)\<rparr>)),
       (sql_delete ''user_sessions'' ''user_id'' sql_users,
        \<lambda>d. Some (d\<lparr>sessions_of := filter (\<lambda>s. us_user_id s \<notin> set (load_users d)) (sessions_of d)\<rparr>)),
       (sql_delete ''user_roles'' ''user_id'' sql_users,
        \<lambda>d. Some (d\<lparr>user_roles_of := filter (\<lambda>l. ur_user_id l \<notin> set (load_users d)) (user_roles_of d)\<rparr>)),
       (''DELETE FROM users WHERE email LIKE '' @ [CHR 0x27] @ ''%@'' @ EmailDomain @ [CHR 0x27],
        \<lambda>d. remove_users (\<lambda>u. load_email (u_email u)) d)])"

definition run_statement :: "string \<times> (database \<Rightarrow> database option) \<Rightarrow> unit ioE" where
  "run_statement s = wrapped (fst s) (stmt (\<lambda>d. case snd s d of None \<Rightarrow> (Inl ErrConstraint, d) | Some d' \<Rightarrow> (Inr (), d')))"

definition Cleanup :: "unit ioE" where
  "Cleanup = tx_scope (bindE (forE statements run_statement) (\<lambda>_. commit))"

definition Fixtures_Count :: "(int \<times> int) ioE" where
  "Fixtures_Count =
     bindE (query (\<lambda>d. Inr (int (length (load_users d))))) (\<lambda>users.
     bindE (query (\<lambda>d. Inr (int (length (filter (\<lambda>a. load_email (ma_email_address a)) (accounts_of d)))))) (\<lambda>accounts.
     returnE (users, accounts)))"

subsection \<open>What the cleanup removes\<close>

definition load_notifiers :: "database \<Rightarrow> string list" where
  "load_notifiers d = map no_id (filter (\<lambda>n. no_user_id n \<in> set (load_users d)) (notifiers_of d))"

definition load_matches :: "database \<Rightarrow> string list" where
  "load_matches d = map me_id (filter (\<lambda>m. me_watcher_id m \<in> set (load_watchers d)) (matches_of d))"

text \<open>The rows that do not hang on a user of the load domain, in the order they had\<close>

definition without_load :: "database \<Rightarrow> database" where
  "without_load d = d\<lparr>
     users_of := filter (\<lambda>u. \<not> load_email (u_email u)) (users_of d),
     user_roles_of := filter (\<lambda>l. ur_user_id l \<notin> set (load_users d)) (user_roles_of d),
     sessions_of := filter (\<lambda>s. us_user_id s \<notin> set (load_users d)) (sessions_of d),
     audit_logs_of := filter (\<lambda>l. \<not> refers (set (load_users d)) (al_actor_user_id l)
       \<and> \<not> refers (set (load_users d)) (al_impersonated_user_id l)) (audit_logs_of d),
     accounts_of := filter (\<lambda>a. ma_user_id a \<notin> set (load_users d)) (accounts_of d),
     sync_runs_of := filter (\<lambda>s. sr_mail_account_id s \<notin> set (load_accounts d)) (sync_runs_of d),
     watchers_of := filter (\<lambda>x. wa_user_id x \<notin> set (load_users d)) (watchers_of d),
     filters_of := filter (\<lambda>f. wf_watcher_id f \<notin> set (load_watchers d)) (filters_of d),
     events_of := filter (\<lambda>e. we_watcher_id e \<notin> set (load_watchers d)) (events_of d),
     event_notifiers_of := filter (\<lambda>l. wen_watcher_event_id l \<notin> set (load_events d)) (event_notifiers_of d),
     notifiers_of := filter (\<lambda>n. no_user_id n \<notin> set (load_users d)) (notifiers_of d),
     matches_of := filter (\<lambda>m. me_watcher_id m \<notin> set (load_watchers d)) (matches_of d),
     runs_of := filter (\<lambda>r. er_watcher_event_id r \<notin> set (load_events d)) (runs_of d),
     deliveries_of := filter (\<lambda>n. nd_event_run_id n \<notin> set (load_runs d)) (deliveries_of d)\<rparr>"

text \<open>No row of another user refers to a row of a user of the load domain.\<close>

definition tenants_apart :: "database \<Rightarrow> bool" where
  "tenants_apart d \<longleftrightarrow>
     (\<forall>x \<in> set (watchers_of d). wa_user_id x \<notin> set (load_users d) \<longrightarrow> wa_mail_account_id x \<notin> set (load_accounts d))
     \<and> (\<forall>m \<in> set (matches_of d). me_watcher_id m \<notin> set (load_watchers d) \<longrightarrow>
          me_user_id m \<notin> set (load_users d) \<and> me_mail_account_id m \<notin> set (load_accounts d))
     \<and> (\<forall>r \<in> set (runs_of d). er_watcher_event_id r \<notin> set (load_events d) \<longrightarrow>
          er_user_id r \<notin> set (load_users d) \<and> er_matched_email_id r \<notin> set (load_matches d))
     \<and> (\<forall>l \<in> set (event_notifiers_of d). wen_watcher_event_id l \<notin> set (load_events d) \<longrightarrow>
          wen_notifier_id l \<notin> set (load_notifiers d))
     \<and> (\<forall>n \<in> set (deliveries_of d). nd_event_run_id n \<notin> set (load_runs d) \<longrightarrow>
          \<not> refers (set (load_notifiers d)) (nd_notifier_id n))
     \<and> (\<forall>s \<in> set (sessions_of d). us_user_id s \<notin> set (load_users d) \<longrightarrow>
          \<not> refers (set (load_users d)) (us_impersonated_by s))"

text \<open>A delete whose rows nothing refers to any more removes just them.\<close>

lemma remove_runs_alone:
  "(\<And>n r. n \<in> set (deliveries_of d) \<Longrightarrow> r \<in> set (runs_of d) \<Longrightarrow> p r \<Longrightarrow> nd_event_run_id n \<noteq> er_id r) \<Longrightarrow>
   remove_runs p d = d\<lparr>runs_of := filter (\<lambda>r. \<not> p r) (runs_of d)\<rparr>"
  unfolding remove_runs_def Let_def by (subst filter_True) auto

lemma remove_matches_alone:
  assumes "\<And>r m. r \<in> set (runs_of d) \<Longrightarrow> m \<in> set (matches_of d) \<Longrightarrow> p m \<Longrightarrow> er_matched_email_id r \<noteq> me_id m"
  shows "remove_matches p d = d\<lparr>matches_of := filter (\<lambda>m. \<not> p m) (matches_of d)\<rparr>"
proof -
  have "filter (\<lambda>r. er_matched_email_id r \<notin> set (map me_id (filter p (matches_of d)))) (runs_of d) = runs_of d"
    using assms by (intro filter_True) auto
  then show ?thesis using assms unfolding remove_matches_def Let_def by (subst remove_runs_alone) auto
qed

lemma remove_events_alone:
  assumes "\<And>r e. r \<in> set (runs_of d) \<Longrightarrow> e \<in> set (events_of d) \<Longrightarrow> p e \<Longrightarrow> er_watcher_event_id r \<noteq> we_id e"
    and "\<And>l e. l \<in> set (event_notifiers_of d) \<Longrightarrow> e \<in> set (events_of d) \<Longrightarrow> p e \<Longrightarrow> wen_watcher_event_id l \<noteq> we_id e"
  shows "remove_events p d = d\<lparr>events_of := filter (\<lambda>e. \<not> p e) (events_of d)\<rparr>"
proof -
  have "filter (\<lambda>r. er_watcher_event_id r \<notin> set (map we_id (filter p (events_of d)))) (runs_of d) = runs_of d"
    and "filter (\<lambda>l. wen_watcher_event_id l \<notin> set (map we_id (filter p (events_of d)))) (event_notifiers_of d)
      = event_notifiers_of d"
    using assms by (auto intro!: filter_True)
  then show ?thesis using assms unfolding remove_events_def Let_def by (subst remove_runs_alone) auto
qed

lemma remove_none:
  "\<forall>m \<in> set (matches_of d). \<not> p m \<Longrightarrow> remove_matches p d = d"
  "\<forall>e \<in> set (events_of d). \<not> q e \<Longrightarrow> remove_events q d = d"
  "\<forall>f \<in> set (filters_of d). \<not> s f \<Longrightarrow> remove_filters s d = d"
  "\<forall>r \<in> set (runs_of d). \<not> t r \<Longrightarrow> remove_runs t d = d"
  by (subst remove_matches_alone remove_events_alone remove_runs_alone remove_filters_def;
      auto simp: filter_True)+

lemma remove_watchers_alone:
  assumes "\<And>x m. x \<in> set (watchers_of d) \<Longrightarrow> p x \<Longrightarrow> m \<in> set (matches_of d) \<Longrightarrow> me_watcher_id m \<noteq> wa_id x"
    and "\<And>x e. x \<in> set (watchers_of d) \<Longrightarrow> p x \<Longrightarrow> e \<in> set (events_of d) \<Longrightarrow> we_watcher_id e \<noteq> wa_id x"
    and "\<And>x f. x \<in> set (watchers_of d) \<Longrightarrow> p x \<Longrightarrow> f \<in> set (filters_of d) \<Longrightarrow> wf_watcher_id f \<noteq> wa_id x"
  shows "remove_watchers p d = d\<lparr>watchers_of := filter (\<lambda>x. \<not> p x) (watchers_of d)\<rparr>"
proof -
  have "\<forall>f \<in> set (filters_of d). wf_watcher_id f \<notin> set (map wa_id (filter p (watchers_of d)))"
    using assms(3) by auto
  moreover have "\<forall>e \<in> set (events_of d). we_watcher_id e \<notin> set (map wa_id (filter p (watchers_of d)))"
    using assms(2) by auto
  moreover have "\<forall>m \<in> set (matches_of d). me_watcher_id m \<notin> set (map wa_id (filter p (watchers_of d)))"
    using assms(1) by auto
  ultimately show ?thesis by (simp add: remove_watchers_def Let_def remove_none)
qed

lemma remove_accounts_alone:
  assumes "\<And>a x. a \<in> set (accounts_of d) \<Longrightarrow> p a \<Longrightarrow> x \<in> set (watchers_of d) \<Longrightarrow> wa_mail_account_id x \<noteq> ma_id a"
    and "\<And>a m. a \<in> set (accounts_of d) \<Longrightarrow> p a \<Longrightarrow> m \<in> set (matches_of d) \<Longrightarrow> me_mail_account_id m \<noteq> ma_id a"
    and "\<And>a s. a \<in> set (accounts_of d) \<Longrightarrow> p a \<Longrightarrow> s \<in> set (sync_runs_of d) \<Longrightarrow> sr_mail_account_id s \<noteq> ma_id a"
  shows "remove_accounts p d = Some (d\<lparr>accounts_of := filter (\<lambda>a. \<not> p a) (accounts_of d)\<rparr>)"
proof -
  let ?gone = "set (map ma_id (filter p (accounts_of d)))"
  have "\<not> list_ex (\<lambda>x. wa_mail_account_id x \<in> ?gone) (watchers_of d)"
    using assms by (auto simp: list_ex_iff)
  moreover have "\<forall>m \<in> set (matches_of d). me_mail_account_id m \<notin> ?gone" using assms(2) by auto
  moreover have "filter (\<lambda>s. sr_mail_account_id s \<notin> ?gone) (sync_runs_of d) = sync_runs_of d"
    using assms by (intro filter_True) auto
  ultimately show ?thesis by (simp add: remove_accounts_def Let_def remove_none)
qed

lemma remove_notifiers_alone:
  assumes "\<And>n l. n \<in> set (notifiers_of d) \<Longrightarrow> p n \<Longrightarrow> l \<in> set (event_notifiers_of d) \<Longrightarrow> wen_notifier_id l \<noteq> no_id n"
    and "\<And>n x. n \<in> set (notifiers_of d) \<Longrightarrow> p n \<Longrightarrow> x \<in> set (deliveries_of d) \<Longrightarrow> nd_notifier_id x \<noteq> Some (no_id n)"
  shows "remove_notifiers p d = Some (d\<lparr>notifiers_of := filter (\<lambda>n. \<not> p n) (notifiers_of d)\<rparr>)"
proof -
  let ?gone = "set (map no_id (filter p (notifiers_of d)))"
  have "\<not> list_ex (\<lambda>l. wen_notifier_id l \<in> ?gone) (event_notifiers_of d)"
    using assms by (auto simp: list_ex_iff)
  moreover have "\<not> refers ?gone (nd_notifier_id x)" if "x \<in> set (deliveries_of d)" for x
    using that assms by (auto simp: refers_def image_iff split: option.splits)
  then have "update_where (\<lambda>n. refers ?gone (nd_notifier_id n)) (\<lambda>n. n\<lparr>nd_notifier_id := None\<rparr>) (deliveries_of d)
      = deliveries_of d"
    by (simp add: update_where_def map_idI)
  ultimately show ?thesis by (simp add: remove_notifiers_def Let_def)
qed

text \<open>The subqueries read a few tables only.\<close>

lemma load_update [simp]:
  "load_users (d\<lparr>user_roles_of := v_user_roles\<rparr>) = load_users d"
  "load_users (d\<lparr>sessions_of := v_sessions\<rparr>) = load_users d"
  "load_users (d\<lparr>audit_logs_of := v_audit_logs\<rparr>) = load_users d"
  "load_users (d\<lparr>accounts_of := v_accounts\<rparr>) = load_users d"
  "load_users (d\<lparr>providers_of := v_providers\<rparr>) = load_users d"
  "load_users (d\<lparr>sync_runs_of := v_sync_runs\<rparr>) = load_users d"
  "load_users (d\<lparr>watchers_of := v_watchers\<rparr>) = load_users d"
  "load_users (d\<lparr>filters_of := v_filters\<rparr>) = load_users d"
  "load_users (d\<lparr>events_of := v_events\<rparr>) = load_users d"
  "load_users (d\<lparr>event_notifiers_of := v_event_notifiers\<rparr>) = load_users d"
  "load_users (d\<lparr>notifiers_of := v_notifiers\<rparr>) = load_users d"
  "load_users (d\<lparr>matches_of := v_matches\<rparr>) = load_users d"
  "load_users (d\<lparr>runs_of := v_runs\<rparr>) = load_users d"
  "load_users (d\<lparr>deliveries_of := v_deliveries\<rparr>) = load_users d"
  "load_accounts (d\<lparr>user_roles_of := v_user_roles\<rparr>) = load_accounts d"
  "load_accounts (d\<lparr>sessions_of := v_sessions\<rparr>) = load_accounts d"
  "load_accounts (d\<lparr>audit_logs_of := v_audit_logs\<rparr>) = load_accounts d"
  "load_accounts (d\<lparr>providers_of := v_providers\<rparr>) = load_accounts d"
  "load_accounts (d\<lparr>sync_runs_of := v_sync_runs\<rparr>) = load_accounts d"
  "load_accounts (d\<lparr>watchers_of := v_watchers\<rparr>) = load_accounts d"
  "load_accounts (d\<lparr>filters_of := v_filters\<rparr>) = load_accounts d"
  "load_accounts (d\<lparr>events_of := v_events\<rparr>) = load_accounts d"
  "load_accounts (d\<lparr>event_notifiers_of := v_event_notifiers\<rparr>) = load_accounts d"
  "load_accounts (d\<lparr>notifiers_of := v_notifiers\<rparr>) = load_accounts d"
  "load_accounts (d\<lparr>matches_of := v_matches\<rparr>) = load_accounts d"
  "load_accounts (d\<lparr>runs_of := v_runs\<rparr>) = load_accounts d"
  "load_accounts (d\<lparr>deliveries_of := v_deliveries\<rparr>) = load_accounts d"
  "load_watchers (d\<lparr>user_roles_of := v_user_roles\<rparr>) = load_watchers d"
  "load_watchers (d\<lparr>sessions_of := v_sessions\<rparr>) = load_watchers d"
  "load_watchers (d\<lparr>audit_logs_of := v_audit_logs\<rparr>) = load_watchers d"
  "load_watchers (d\<lparr>accounts_of := v_accounts\<rparr>) = load_watchers d"
  "load_watchers (d\<lparr>providers_of := v_providers\<rparr>) = load_watchers d"
  "load_watchers (d\<lparr>sync_runs_of := v_sync_runs\<rparr>) = load_watchers d"
  "load_watchers (d\<lparr>filters_of := v_filters\<rparr>) = load_watchers d"
  "load_watchers (d\<lparr>events_of := v_events\<rparr>) = load_watchers d"
  "load_watchers (d\<lparr>event_notifiers_of := v_event_notifiers\<rparr>) = load_watchers d"
  "load_watchers (d\<lparr>notifiers_of := v_notifiers\<rparr>) = load_watchers d"
  "load_watchers (d\<lparr>matches_of := v_matches\<rparr>) = load_watchers d"
  "load_watchers (d\<lparr>runs_of := v_runs\<rparr>) = load_watchers d"
  "load_watchers (d\<lparr>deliveries_of := v_deliveries\<rparr>) = load_watchers d"
  "load_events (d\<lparr>user_roles_of := v_user_roles\<rparr>) = load_events d"
  "load_events (d\<lparr>sessions_of := v_sessions\<rparr>) = load_events d"
  "load_events (d\<lparr>audit_logs_of := v_audit_logs\<rparr>) = load_events d"
  "load_events (d\<lparr>accounts_of := v_accounts\<rparr>) = load_events d"
  "load_events (d\<lparr>providers_of := v_providers\<rparr>) = load_events d"
  "load_events (d\<lparr>sync_runs_of := v_sync_runs\<rparr>) = load_events d"
  "load_events (d\<lparr>filters_of := v_filters\<rparr>) = load_events d"
  "load_events (d\<lparr>event_notifiers_of := v_event_notifiers\<rparr>) = load_events d"
  "load_events (d\<lparr>notifiers_of := v_notifiers\<rparr>) = load_events d"
  "load_events (d\<lparr>matches_of := v_matches\<rparr>) = load_events d"
  "load_events (d\<lparr>runs_of := v_runs\<rparr>) = load_events d"
  "load_events (d\<lparr>deliveries_of := v_deliveries\<rparr>) = load_events d"
  "load_runs (d\<lparr>user_roles_of := v_user_roles\<rparr>) = load_runs d"
  "load_runs (d\<lparr>sessions_of := v_sessions\<rparr>) = load_runs d"
  "load_runs (d\<lparr>audit_logs_of := v_audit_logs\<rparr>) = load_runs d"
  "load_runs (d\<lparr>accounts_of := v_accounts\<rparr>) = load_runs d"
  "load_runs (d\<lparr>providers_of := v_providers\<rparr>) = load_runs d"
  "load_runs (d\<lparr>sync_runs_of := v_sync_runs\<rparr>) = load_runs d"
  "load_runs (d\<lparr>filters_of := v_filters\<rparr>) = load_runs d"
  "load_runs (d\<lparr>event_notifiers_of := v_event_notifiers\<rparr>) = load_runs d"
  "load_runs (d\<lparr>notifiers_of := v_notifiers\<rparr>) = load_runs d"
  "load_runs (d\<lparr>matches_of := v_matches\<rparr>) = load_runs d"
  "load_runs (d\<lparr>deliveries_of := v_deliveries\<rparr>) = load_runs d"
  by (simp_all add: load_users_def load_accounts_def load_watchers_def load_events_def load_runs_def)

fun apply_all :: "(database \<Rightarrow> database option) list \<Rightarrow> database \<Rightarrow> database option" where
  "apply_all [] d = Some d"
| "apply_all (f # fs) d = (case f d of None \<Rightarrow> None | Some d' \<Rightarrow> apply_all fs d')"

lemma run_statements:
  "db_up w \<Longrightarrow> apply_all (map snd ss) (wdb w) = Some d' \<Longrightarrow>
   \<exists>w'. run_state (forE ss run_statement) w = (Inr (), w') \<and> wdb w' = d' \<and> db_up w'"
proof (induction ss arbitrary: w)
  case (Cons s ss)
  then obtain d1 where d1: "snd s (wdb w) = Some d1" "apply_all (map snd ss) d1 = Some d'"
    by (auto split: option.splits)
  let ?w1 = "w\<lparr>wdb := d1, stmts := Suc (stmts w)\<rparr>"
  have "run_state (run_statement s) w = (Inr (), ?w1)"
    using d1 Cons.prems by (simp add: run_statement_def wrapped_def)
  with Cons.IH [of ?w1] d1 Cons.prems show ?case by simp
qed simp

lemma run_Cleanup:
  assumes "db_up w" and "apply_all (map snd statements) (wdb w) = Some d'"
  shows "\<exists>w'. run_state Cleanup w = (Inr (), w') \<and> wdb w' = d'"
  using run_statements [OF assms] by (auto simp: Cleanup_def)

lemma remove_users_alone:
  fixes d p defines "gone \<equiv> u_id ` {u \<in> set (users_of d). p u}"
  assumes "\<forall>a \<in> set (accounts_of d). ma_user_id a \<notin> gone" "\<forall>n \<in> set (notifiers_of d). no_user_id n \<notin> gone"
    and "\<forall>x \<in> set (watchers_of d). wa_user_id x \<notin> gone" "\<forall>m \<in> set (matches_of d). me_user_id m \<notin> gone"
    and "\<forall>r \<in> set (runs_of d). er_user_id r \<notin> gone" "\<forall>l \<in> set (user_roles_of d). ur_user_id l \<notin> gone"
    and "\<forall>s \<in> set (sessions_of d). us_user_id s \<notin> gone \<and> \<not> refers gone (us_impersonated_by s)"
    and "\<forall>l \<in> set (audit_logs_of d). \<not> refers gone (al_actor_user_id l) \<and> \<not> refers gone (al_impersonated_user_id l)"
  shows "remove_users p d = Some (d\<lparr>users_of := filter (\<lambda>u. \<not> p u) (users_of d)\<rparr>)"
proof -
  have gone: "set (map u_id (filter p (users_of d))) = gone" by (simp add: gone_def)
  have keep: "filter (\<lambda>l. ur_user_id l \<notin> gone) (user_roles_of d) = user_roles_of d"
    "filter (\<lambda>s. us_user_id s \<notin> gone) (sessions_of d) = sessions_of d"
    "filter (\<lambda>s. \<not> refers gone (us_impersonated_by s)) (sessions_of d) = sessions_of d"
    "map (forget_user gone) (audit_logs_of d) = audit_logs_of d"
    using assms by (auto intro!: filter_True map_idI simp: forget_user_def)
  let ?d = "d\<lparr>users_of := filter (\<lambda>u. \<not> p u) (users_of d)\<rparr>"
  have acc: "remove_accounts (\<lambda>a. ma_user_id a \<in> gone) ?d = Some ?d"
    using assms by (subst remove_accounts_alone) (auto simp: filter_True)
  have noti: "remove_notifiers (\<lambda>n. no_user_id n \<in> gone) ?d = Some ?d"
    using assms by (subst remove_notifiers_alone) (auto simp: filter_True)
  have wat: "remove_watchers (\<lambda>x. wa_user_id x \<in> gone) ?d = ?d"
    using assms by (subst remove_watchers_alone) (auto simp: filter_True)
  show ?thesis
    using assms(5,6) unfolding remove_users_def Let_def gone
    by (simp add: keep acc noti wat remove_none)
qed

lemma cleanup_statements:
  assumes "tenants_apart d"
  shows "apply_all (map snd statements) d = Some (without_load d)"
proof -
  define U A W E R where "U = set (load_users d)" and "A = set (load_accounts d)" and "W = set (load_watchers d)"
    and "E = set (load_events d)" and "R = set (load_runs d)"
  note sets = U_def [symmetric] A_def [symmetric] W_def [symmetric] E_def [symmetric] R_def [symmetric]
  define d1 where "d1 = d\<lparr>deliveries_of := filter (\<lambda>n. nd_event_run_id n \<notin> R) (deliveries_of d)\<rparr>"
  define d2 where "d2 = d1\<lparr>runs_of := filter (\<lambda>r. er_watcher_event_id r \<notin> E) (runs_of d)\<rparr>"
  define d3 where "d3 = d2\<lparr>event_notifiers_of := filter (\<lambda>l. wen_watcher_event_id l \<notin> E) (event_notifiers_of d)\<rparr>"
  define d4 where "d4 = d3\<lparr>events_of := filter (\<lambda>e. we_watcher_id e \<notin> W) (events_of d)\<rparr>"
  define d5 where "d5 = d4\<lparr>filters_of := filter (\<lambda>f. wf_watcher_id f \<notin> W) (filters_of d)\<rparr>"
  define d6 where "d6 = d5\<lparr>matches_of := filter (\<lambda>m. me_watcher_id m \<notin> W) (matches_of d)\<rparr>"
  define d7 where "d7 = d6\<lparr>watchers_of := filter (\<lambda>x. wa_user_id x \<notin> U) (watchers_of d)\<rparr>"
  define d8 where "d8 = d7\<lparr>sync_runs_of := filter (\<lambda>s. sr_mail_account_id s \<notin> A) (sync_runs_of d)\<rparr>"
  define d9 where "d9 = d8\<lparr>accounts_of := filter (\<lambda>a. ma_user_id a \<notin> U) (accounts_of d)\<rparr>"
  define d10 where "d10 = d9\<lparr>notifiers_of := filter (\<lambda>n. no_user_id n \<notin> U) (notifiers_of d)\<rparr>"
  define d11 where "d11 = d10\<lparr>audit_logs_of := filter (\<lambda>l. \<not> refers U (al_actor_user_id l) \<and> \<not> refers U (al_impersonated_user_id l)) (audit_logs_of d)\<rparr>"
  define d12 where "d12 = d11\<lparr>sessions_of := filter (\<lambda>s. us_user_id s \<notin> U) (sessions_of d)\<rparr>"
  define d13 where "d13 = d12\<lparr>user_roles_of := filter (\<lambda>l. ur_user_id l \<notin> U) (user_roles_of d)\<rparr>"
  note ds = d1_def d2_def d3_def d4_def d5_def d6_def d7_def d8_def d9_def d10_def d11_def d12_def d13_def
  note mem = load_runs_def load_events_def load_watchers_def load_accounts_def load_users_def
  have a: "\<forall>x \<in> set (watchers_of d). wa_user_id x \<notin> U \<longrightarrow> wa_mail_account_id x \<notin> A"
    "\<forall>m \<in> set (matches_of d). me_watcher_id m \<notin> W \<longrightarrow> me_user_id m \<notin> U \<and> me_mail_account_id m \<notin> A"
    "\<forall>r \<in> set (runs_of d). er_watcher_event_id r \<notin> E \<longrightarrow> er_user_id r \<notin> U \<and> er_matched_email_id r \<notin> set (load_matches d)"
    "\<forall>l \<in> set (event_notifiers_of d). wen_watcher_event_id l \<notin> E \<longrightarrow> wen_notifier_id l \<notin> set (load_notifiers d)"
    "\<forall>n \<in> set (deliveries_of d). nd_event_run_id n \<notin> R \<longrightarrow> \<not> refers (set (load_notifiers d)) (nd_notifier_id n)"
    "\<forall>s \<in> set (sessions_of d). us_user_id s \<notin> U \<longrightarrow> \<not> refers U (us_impersonated_by s)"
    using assms unfolding tenants_apart_def sets by blast+
  have s2: "remove_runs (\<lambda>r. er_watcher_event_id r \<in> E) d1 = d2"
    unfolding d2_def by (subst remove_runs_alone) (auto simp: d1_def E_def R_def load_runs_def)
  have s4: "remove_events (\<lambda>e. we_watcher_id e \<in> W) d3 = d4"
    unfolding d4_def by (subst remove_events_alone) (auto simp: ds E_def W_def load_events_def)
  have s5: "remove_filters (\<lambda>f. wf_watcher_id f \<in> W) d4 = d5"
    by (simp add: remove_filters_def ds)
  have s6: "remove_matches (\<lambda>m. me_watcher_id m \<in> W) d5 = d6"
    unfolding d6_def using a(3) by (subst remove_matches_alone) (auto simp: ds W_def load_matches_def)
  have s7: "remove_watchers (\<lambda>x. wa_user_id x \<in> U) d6 = d7"
    unfolding d7_def by (subst remove_watchers_alone) (auto simp: ds U_def W_def load_watchers_def)
  have s9: "remove_accounts (\<lambda>a. ma_user_id a \<in> U) d8 = Some d9"
    unfolding d9_def using a(1,2)
    by (subst remove_accounts_alone) (auto simp: ds U_def A_def load_accounts_def)
  have s10: "remove_notifiers (\<lambda>n. no_user_id n \<in> U) d9 = Some d10"
    unfolding d10_def using a(4,5)
    by (subst remove_notifiers_alone) (auto simp: ds U_def load_notifiers_def refers_def)
  have gone: "u_id ` {u \<in> set (users_of d13). load_email (u_email u)} = U"
    by (simp add: ds U_def load_users_def)
  have s14: "remove_users (\<lambda>u. load_email (u_email u)) d13 = Some (without_load d)"
    using a(2,3,6) by (subst remove_users_alone, unfold gone) (auto simp: ds without_load_def sets)
  have rest: "d\<lparr>deliveries_of := filter (\<lambda>n. nd_event_run_id n \<notin> R) (deliveries_of d)\<rparr> = d1"
    "d2\<lparr>event_notifiers_of := filter (\<lambda>l. wen_watcher_event_id l \<notin> E) (event_notifiers_of d2)\<rparr> = d3"
    "d7\<lparr>sync_runs_of := filter (\<lambda>s. sr_mail_account_id s \<notin> A) (sync_runs_of d7)\<rparr> = d8"
    "d10\<lparr>audit_logs_of := filter (\<lambda>l. \<not> refers U (al_actor_user_id l) \<and> \<not> refers U (al_impersonated_user_id l))
       (audit_logs_of d10)\<rparr> = d11"
    "d11\<lparr>sessions_of := filter (\<lambda>s. us_user_id s \<notin> U) (sessions_of d11)\<rparr> = d12"
    "d12\<lparr>user_roles_of := filter (\<lambda>l. ur_user_id l \<notin> U) (user_roles_of d12)\<rparr> = d13"
    by (simp_all add: ds)
  have seen: "load_events d1 = load_events d" "load_events d2 = load_events d" "load_watchers d3 = load_watchers d"
    "load_watchers d4 = load_watchers d" "load_watchers d5 = load_watchers d" "load_users d6 = load_users d"
    "load_accounts d7 = load_accounts d" "load_users d8 = load_users d" "load_users d9 = load_users d"
    "load_users d10 = load_users d" "load_users d11 = load_users d" "load_users d12 = load_users d"
    by (simp_all add: ds)
  show ?thesis
    unfolding statements_def Let_def
    by (simp add: sets seen rest s2 s4 s5 s6 s7 s9 s10 s14)
qed

subsection \<open>What \<open>Build\<close> inserts\<close>

context table_laws
begin

lemma insert_rows_fresh:
  "insert_rows T xs d = (Inr u, d') \<Longrightarrow> x \<in> set xs \<Longrightarrow> tb_key T x \<notin> tb_key T ` set (tb_rows T d)"
proof (induction xs arbitrary: d)
  case (Cons y ys)
  then obtain d1 z where y: "insert_row T y d = (Inr z, d1)" and ys: "insert_rows T ys d1 = (Inr u, d')"
    by (auto split: prod.splits sum.splits)
  from insert_row_ok [OF y] have "set (tb_rows T d) \<subseteq> set (tb_rows T d1)"
    and "tb_key T y \<notin> tb_key T ` set (tb_rows T d)" by (auto simp: list_ex_iff)
  with Cons.IH [OF ys] Cons.prems(2) show ?case by auto
qed simp

lemma batches_fresh:
  "run_state (forE bs (\<lambda>b. stmt (insert_rows T b))) w = (Inr u, w') \<Longrightarrow> x \<in> set (concat bs) \<Longrightarrow>
   tb_key T x \<notin> tb_key T ` set (tb_rows T (wdb w))"
proof (induction bs arbitrary: w)
  case (Cons b bs)
  then obtain v w1 where b: "run_state (stmt (insert_rows T b)) w = (Inr v, w1)"
    and bs: "run_state (forE bs (\<lambda>b. stmt (insert_rows T b))) w1 = (Inr u, w')"
    unfolding forE.simps by (elim bindE_okE) (rule that)
  have ins: "insert_rows T b (wdb w) = (Inr v, wdb w1)" using b by (auto simp: run_stmt prod_eq_iff split: option.splits)
  have "set (tb_rows T (wdb w)) \<subseteq> set (tb_rows T (wdb w1))" using insert_rows_ok [OF ins] by simp
  with Cons.IH [OF bs] Cons.prems(2) insert_rows_fresh [OF ins] show ?case by auto
qed simp

lemma CreateInBatch_fresh:
  assumes "run_state (Repo_CreateInBatch T xs n) w = (Inr u, w')" and "x \<in> set xs"
  shows "tb_key T x \<notin> tb_key T ` set (tb_rows T (wdb w))"
proof -
  let ?t = "unix_milli (clock w (ticks w))"
  have "xs \<noteq> []" using assms(2) by auto
  then have "run_state (forE (chunks (n - 1) (map (tb_stamp T ?t) xs)) (\<lambda>b. stmt (insert_rows T b)))
      (w\<lparr>ticks := Suc (ticks w)\<rparr>) = (Inr u, w')"
    using assms by (simp add: Repo_CreateInBatch_def)
  from batches_fresh [OF this, of "tb_stamp T ?t x"] assms(2) show ?thesis by (simp only: concat_chunks) simp
qed

lemma createInBatches_ok:
  assumes "run_state (wrapped what (createInBatches T xs)) w = (Inr u, w')"
  shows "\<exists>t. wdb w' = tb_put T (tb_rows T (wdb w) @ map (tb_stamp T t) xs) (wdb w)
    \<and> (\<forall>x \<in> set xs. tb_key T x \<notin> tb_key T ` set (tb_rows T (wdb w)))"
proof (cases "xs = []")
  case True
  with assms show ?thesis by (auto simp: wrapped_def createInBatches_def put_rows)
next
  case False
  have run: "run_state (createInBatches T xs) w = (Inr u, w')"
    using assms unfolding wrapped_def by (elim mapErr_okE)
  have "\<exists>w1 v. run_state (Repo_CreateInBatch T xs batchSize) w = (Inr v, w1) \<and> wdb w' = wdb w1"
  proof (cases "length xs \<le> batchSize")
    case True
    with run False show ?thesis by (auto simp: createInBatches_def)
  next
    case long: False
    have "run_state (tx_scope (bindE (Repo_CreateInBatch T xs batchSize) (\<lambda>_. commit))) w = (Inr u, w')"
      using run False long by (simp only: createInBatches_def if_False)
    then show ?thesis by (elim tx_scope_okE bindE_okE) (blast dest: commit_ok)
  qed
  then obtain w1 v where "run_state (Repo_CreateInBatch T xs batchSize) w = (Inr v, w1)" "wdb w' = wdb w1" by blast
  with CreateInBatch_ok [OF this(1)] CreateInBatch_fresh [OF this(1)] show ?thesis by simp
qed

end

lemma loop_inv:
  "(\<And>k a w. P a \<Longrightarrow> P (fst (run_state (f k a) w))) \<Longrightarrow> P a \<Longrightarrow> P (fst (run_state (loop f ks a) w))"
proof (induction ks arbitrary: a w)
  case (Cons k ks)
  then show ?case using Cons.IH [of "fst (run_state (f k a) w)"] by (simp split: prod.split) (metis fst_conv)
qed simp

lemma pres_loop [pres]: "(\<And>k a. preserves I (f k a)) \<Longrightarrow> preserves I (loop f ks a)"
  by (induction ks arbitrary: a) (auto intro!: pres)

lemma pres_build [pres]: "preserves (db_inv K) (build_user E sh seed now hash credentials u F)"
  unfolding build_user_def build_account_def build_watcher_def build_filter_def build_event_def Let_def
  by (intro pres)

text \<open>Every row that is built hangs on a user that is built.\<close>

definition linked :: "fixture \<Rightarrow> bool" where
  "linked F \<longleftrightarrow>
     bu_user_ids (fx_built F) = map u_id (fx_users F) \<and> bu_account_ids (fx_built F) = map ma_id (fx_accounts F)
     \<and> (\<forall>u \<in> set (fx_users F). load_email (u_email u))
     \<and> (\<forall>a \<in> set (fx_accounts F). ma_user_id a \<in> u_id ` set (fx_users F))
     \<and> (\<forall>x \<in> set (fx_watchers F). wa_user_id x \<in> u_id ` set (fx_users F))
     \<and> (\<forall>f \<in> set (fx_filters F). wf_watcher_id f \<in> wa_id ` set (fx_watchers F))
     \<and> (\<forall>e \<in> set (fx_events F). we_watcher_id e \<in> wa_id ` set (fx_watchers F))"

definition linked_under :: "user list \<Rightarrow> string \<Rightarrow> fixture \<Rightarrow> bool" where
  "linked_under us i F \<longleftrightarrow> linked F \<and> fx_users F = us \<and> i \<in> wa_id ` set (fx_watchers F)"

lemma linked_filters:
  "linked_under us i F \<Longrightarrow> linked_under us i (fst (run_state (loop (build_filter i) ks F) w))"
  by (rule loop_inv) (auto simp: build_filter_def linked_under_def linked_def fixture_filter_def)

lemma linked_events:
  "linked_under us i F \<Longrightarrow> linked_under us i (fst (run_state (loop (build_event i) ks F) w))"
  by (rule loop_inv) (auto simp: build_event_def linked_under_def linked_def fixture_event_def)

definition linked_to :: "user list \<Rightarrow> string \<Rightarrow> fixture \<Rightarrow> bool" where
  "linked_to us user F \<longleftrightarrow> linked F \<and> fx_users F = us \<and> user \<in> u_id ` set us"

lemma linked_watcher:
  assumes "linked_to us user F"
  shows "linked_to us user (fst (run_state (build_watcher sh user account u a k F) w))"
proof -
  let ?i = "uuids w (uuid_pos w)"
  let ?F = "F\<lparr>fx_built := (fx_built F)\<lparr>bu_watcher_ids := bu_watcher_ids (fx_built F) @ [?i]\<rparr>,
    fx_watchers := fx_watchers F @ [fixture_watcher user account ?i u a k]\<rparr>"
  obtain G w1 where G: "run_state (loop (build_filter ?i) (up_to (sh_filters_per_watcher sh)) ?F)
      (w\<lparr>uuid_pos := Suc (uuid_pos w)\<rparr>) = (G, w1)" by fastforce
  have "linked_under us ?i ?F"
    using assms by (auto simp: linked_to_def linked_under_def linked_def fixture_watcher_def)
  from linked_filters [OF this, of "up_to (sh_filters_per_watcher sh)" "w\<lparr>uuid_pos := Suc (uuid_pos w)\<rparr>"]
  have "linked_under us ?i G" by (simp add: G)
  from linked_events [OF this, of "up_to (sh_events_per_watcher sh)" w1]
  show ?thesis using assms by (simp add: build_watcher_def Let_def G linked_under_def linked_to_def)
qed

lemma linked_watchers:
  "linked_to us user F \<Longrightarrow> linked_to us user (fst (run_state (loop (build_watcher sh user account u a) ks F) w))"
  by (rule loop_inv) (rule linked_watcher)

lemma linked_account:
  assumes "linked_to us user F"
  shows "linked_to us user (fst (run_state (build_account E sh seed now credentials user u a F) w))"
proof -
  let ?i = "uuids w (uuid_pos w)"
  have "linked_to us user (F\<lparr>fx_built := (fx_built F)\<lparr>bu_account_ids := bu_account_ids (fx_built F) @ [?i]\<rparr>,
      fx_accounts := fx_accounts F @ [fixture_account sh credentials n user ?i u a], fx_drawn := k\<rparr>)" for n k
    using assms by (auto simp: linked_to_def linked_def fixture_account_def)
  from linked_watchers [OF this] show ?thesis by (simp add: build_account_def Let_def)
qed

lemma linked_accounts:
  "linked_to us user F \<Longrightarrow>
   linked_to us user (fst (run_state (loop (build_account E sh seed now credentials user u) ks F) w))"
  by (rule loop_inv) (rule linked_account)

lemma linked_user:
  assumes "linked F"
  shows "linked (fst (run_state (build_user E sh seed now hash credentials u F) w))"
proof -
  let ?i = "uuids w (uuid_pos w)"
  let ?us = "fx_users F @ [fixture_user hash now ?i u]"
  let ?F = "F\<lparr>fx_built := (fx_built F)\<lparr>bu_user_ids := bu_user_ids (fx_built F) @ [?i]\<rparr>, fx_users := ?us\<rparr>"
  have "load_email (u_email (fixture_user hash now ?i u))"
    by (auto simp: load_email_def fixture_user_def suffix_def intro!: exI [of _ "''user-'' @ padded 6 u"])
  then have "linked_to ?us ?i ?F"
    using assms by (auto simp: linked_to_def linked_def fixture_user_def)
  from linked_accounts [OF this, of E sh seed now credentials u "up_to (sh_accounts_per_user sh)"
      "w\<lparr>uuid_pos := Suc (uuid_pos w)\<rparr>"]
  show ?thesis by (simp add: build_user_def linked_to_def)
qed

lemma linked_build: "linked (fst (run_state (loop (build_user E sh seed now hash credentials) ks no_fixture) w))"
  by (rule loop_inv, erule linked_user) (simp add: linked_def no_fixture_def)

lemma insert_fixture_ok:
  assumes "run_state (insert_fixture F) w = (Inr b, w')"
  shows "b = fx_built F \<and> (\<exists>t1 t2 t3 t4 t5. wdb w' = (wdb w)\<lparr>
      users_of := users_of (wdb w) @ map (tb_stamp users_table t1) (fx_users F),
      accounts_of := accounts_of (wdb w) @ map (tb_stamp accounts_table t2) (fx_accounts F),
      watchers_of := watchers_of (wdb w) @ map (tb_stamp watchers_table t3) (fx_watchers F),
      filters_of := filters_of (wdb w) @ map (tb_stamp filters_table t4) (fx_filters F),
      events_of := events_of (wdb w) @ map (tb_stamp events_table t5) (fx_events F)\<rparr>)
    \<and> (\<forall>x \<in> set (fx_users F). u_id x \<notin> u_id ` set (users_of (wdb w)))
    \<and> (\<forall>x \<in> set (fx_accounts F). ma_id x \<notin> ma_id ` set (accounts_of (wdb w)))
    \<and> (\<forall>x \<in> set (fx_watchers F). wa_id x \<notin> wa_id ` set (watchers_of (wdb w)))
    \<and> (\<forall>x \<in> set (fx_events F). we_id x \<notin> we_id ` set (events_of (wdb w)))"
proof -
  obtain u1 w1 u2 w2 u3 w3 u4 w4 u5 where
    1: "run_state (wrapped ''inserting users'' (createInBatches users_table (fx_users F))) w = (Inr u1, w1)" and
    2: "run_state (wrapped ''inserting mail_accounts'' (createInBatches accounts_table (fx_accounts F))) w1 = (Inr u2, w2)" and
    3: "run_state (wrapped ''inserting watchers'' (createInBatches watchers_table (fx_watchers F))) w2 = (Inr u3, w3)" and
    4: "run_state (wrapped ''inserting watcher_filters'' (createInBatches filters_table (fx_filters F))) w3 = (Inr u4, w4)" and
    5: "run_state (wrapped ''inserting watcher_events'' (createInBatches events_table (fx_events F))) w4 = (Inr u5, w')" and
    b: "b = fx_built F"
    using assms unfolding insert_fixture_def by (elim bindE_okE) auto
  have k: "tb_key users_table = u_id" "tb_key accounts_table = ma_id" "tb_key watchers_table = wa_id"
    "tb_key events_table = we_id" "tb_rows users_table = users_of" "tb_rows accounts_table = accounts_of"
    "tb_rows watchers_table = watchers_of" "tb_rows events_table = events_of" "tb_rows filters_table = filters_of"
    "tb_put users_table = (\<lambda>xs d. d\<lparr>users_of := xs\<rparr>)" "tb_put accounts_table = (\<lambda>xs d. d\<lparr>accounts_of := xs\<rparr>)"
    "tb_put watchers_table = (\<lambda>xs d. d\<lparr>watchers_of := xs\<rparr>)" "tb_put filters_table = (\<lambda>xs d. d\<lparr>filters_of := xs\<rparr>)"
    "tb_put events_table = (\<lambda>xs d. d\<lparr>events_of := xs\<rparr>)"
    by (simp_all add: table_defs)
  show ?thesis
    using users.createInBatches_ok [OF 1] accounts.createInBatches_ok [OF 2] watchers.createInBatches_ok [OF 3]
      filters.createInBatches_ok [OF 4] events.createInBatches_ok [OF 5] b
    unfolding k by (elim exE conjE) (simp, blast)
qed

lemma pres_fixture_steps [pres]:
  "preserves (db_inv K) (hashOnce E p)"
  "preserves (db_inv K) (Encrypt A q)"
  "preserves (db_inv K) m \<Longrightarrow> preserves (db_inv K) (wrapped what m)"
  unfolding hashOnce_def Encrypt_def wrapped_def by (intro pres | assumption)+

lemma Build_ok:
  assumes "run_state (Build E sh seed) w = (Inr b, w')"
  obtains F w1 where "linked F" "run_state (insert_fixture F) w1 = (Inr b, w')" "wdb w1 = wdb w"
proof -
  let ?creds = "Encode (fe_unicode E) (no_credentials\<lparr>cr_username := ''loadtest'', cr_password := ''loadtest''\<rparr>)"
  obtain n s1 h s2 c s3 F s4 where
    1: "run_state now_milli w = (n, s1)" and
    2: "run_state (hashOnce E (bu_password (fx_built no_fixture))) s1 = (Inr h, s2)" and
    3: "run_state (wrapped ''encrypting fixture credentials'' (Encrypt (fe_cipher E) ?creds)) s2 = (Inr c, s3)" and
    4: "run_state (loop (build_user E sh seed n h c) (up_to (sh_users sh)) no_fixture) s3 = (F, s4)" and
    5: "run_state (insert_fixture F) s4 = (Inr b, w')"
    using assms unfolding Build_def by (elim bind_okE bindE_okE)
  have "wdb s4 = wdb w"
    using same_run [OF 1] same_run [OF 2] same_run [OF 3] same_run [OF 4] by (simp add: pres)
  moreover have "linked F" using linked_build [of E sh seed n h c "up_to (sh_users sh)" s3] by (simp add: 4)
  ultimately show ?thesis using that 5 by blast
qed

subsection \<open>A load run leaves no trace\<close>

text \<open>Every reference of a row is to a row that is there.\<close>

definition keys_hold :: "database \<Rightarrow> bool" where
  "keys_hold d \<longleftrightarrow>
     list_all (\<lambda>l. has_id u_id (ur_user_id l) (users_of d)) (user_roles_of d)
     \<and> list_all (\<lambda>s. has_id u_id (us_user_id s) (users_of d) \<and> opt_ref u_id (us_impersonated_by s) (users_of d)) (sessions_of d)
     \<and> list_all (\<lambda>l. opt_ref u_id (al_actor_user_id l) (users_of d) \<and> opt_ref u_id (al_impersonated_user_id l) (users_of d))
         (audit_logs_of d)
     \<and> list_all (\<lambda>a. has_id u_id (ma_user_id a) (users_of d)) (accounts_of d)
     \<and> list_all (\<lambda>s. has_id ma_id (sr_mail_account_id s) (accounts_of d)) (sync_runs_of d)
     \<and> list_all (\<lambda>x. has_id u_id (wa_user_id x) (users_of d) \<and> has_id ma_id (wa_mail_account_id x) (accounts_of d))
         (watchers_of d)
     \<and> list_all (\<lambda>f. has_id wa_id (wf_watcher_id f) (watchers_of d)) (filters_of d)
     \<and> list_all (\<lambda>e. has_id wa_id (we_watcher_id e) (watchers_of d)) (events_of d)
     \<and> list_all (\<lambda>l. has_id we_id (wen_watcher_event_id l) (events_of d)) (event_notifiers_of d)
     \<and> list_all (\<lambda>n. has_id u_id (no_user_id n) (users_of d)) (notifiers_of d)
     \<and> list_all (\<lambda>m. has_id u_id (me_user_id m) (users_of d) \<and> has_id wa_id (me_watcher_id m) (watchers_of d)
         \<and> has_id ma_id (me_mail_account_id m) (accounts_of d)) (matches_of d)
     \<and> list_all (\<lambda>r. has_id u_id (er_user_id r) (users_of d) \<and> has_id we_id (er_watcher_event_id r) (events_of d))
         (runs_of d)"

lemma filter_new:
  "(\<And>x. x \<in> set xs \<Longrightarrow> P x) \<Longrightarrow> (\<And>y. y \<in> set ys \<Longrightarrow> \<not> P y) \<Longrightarrow> filter P (xs @ ys) = xs"
  by (simp add: filter_True filter_False)

lemma filter_old:
  "(\<And>x. x \<in> set xs \<Longrightarrow> \<not> P x) \<Longrightarrow> (\<And>y. y \<in> set ys \<Longrightarrow> P y) \<Longrightarrow> filter P (xs @ ys) = ys"
  by (simp add: filter_True filter_False)

lemma old_id: "has_id key i xs \<Longrightarrow> (\<forall>y \<in> set ys. key y \<notin> key ` set xs) \<Longrightarrow> i \<notin> key ` set ys"
  by (fastforce simp: list_ex_iff rev_image_eqI)

lemma old_ref: "opt_ref key v xs \<Longrightarrow> (\<forall>y \<in> set ys. key y \<notin> key ` set xs) \<Longrightarrow> \<not> refers (key ` set ys) v"
  using old_id [of key _ xs ys] by (auto simp: opt_ref_def refers_def split: option.splits)

text \<open>The rows of \<open>F\<close>, stamped, beside those of a database\<close>

definition with_fixture :: "fixture \<Rightarrow> database \<Rightarrow> database" where
  "with_fixture F d = d\<lparr>users_of := users_of d @ fx_users F, accounts_of := accounts_of d @ fx_accounts F,
     watchers_of := watchers_of d @ fx_watchers F, filters_of := filters_of d @ fx_filters F,
     events_of := events_of d @ fx_events F\<rparr>"

definition fresh_fixture :: "fixture \<Rightarrow> database \<Rightarrow> bool" where
  "fresh_fixture F d \<longleftrightarrow>
     (\<forall>x \<in> set (fx_users F). u_id x \<notin> u_id ` set (users_of d))
     \<and> (\<forall>x \<in> set (fx_accounts F). ma_id x \<notin> ma_id ` set (accounts_of d))
     \<and> (\<forall>x \<in> set (fx_watchers F). wa_id x \<notin> wa_id ` set (watchers_of d))
     \<and> (\<forall>x \<in> set (fx_events F). we_id x \<notin> we_id ` set (events_of d))"

lemma old_ids:
  assumes "fresh_fixture F d"
  shows "has_id u_id i (users_of d) \<Longrightarrow> i \<notin> u_id ` set (fx_users F)"
    "has_id ma_id i (accounts_of d) \<Longrightarrow> i \<notin> ma_id ` set (fx_accounts F)"
    "has_id wa_id i (watchers_of d) \<Longrightarrow> i \<notin> wa_id ` set (fx_watchers F)"
    "has_id we_id i (events_of d) \<Longrightarrow> i \<notin> we_id ` set (fx_events F)"
    "opt_ref u_id v (users_of d) \<Longrightarrow> \<not> refers (u_id ` set (fx_users F)) v"
  by (insert assms [unfolded fresh_fixture_def], elim conjE, (erule old_id | erule old_ref), assumption)+

lemma old_rows:
  assumes "keys_hold d" "fresh_fixture F d"
  shows "\<forall>l \<in> set (user_roles_of d). ur_user_id l \<notin> u_id ` set (fx_users F)"
    "\<forall>s \<in> set (sessions_of d). us_user_id s \<notin> u_id ` set (fx_users F) \<and> \<not> refers (u_id ` set (fx_users F)) (us_impersonated_by s)"
    "\<forall>t \<in> set (audit_logs_of d). \<not> refers (u_id ` set (fx_users F)) (al_actor_user_id t)
       \<and> \<not> refers (u_id ` set (fx_users F)) (al_impersonated_user_id t)"
    "\<forall>a \<in> set (accounts_of d). ma_user_id a \<notin> u_id ` set (fx_users F)"
    "\<forall>y \<in> set (sync_runs_of d). sr_mail_account_id y \<notin> ma_id ` set (fx_accounts F)"
    "\<forall>x \<in> set (watchers_of d). wa_user_id x \<notin> u_id ` set (fx_users F) \<and> wa_mail_account_id x \<notin> ma_id ` set (fx_accounts F)"
    "\<forall>f \<in> set (filters_of d). wf_watcher_id f \<notin> wa_id ` set (fx_watchers F)"
    "\<forall>e \<in> set (events_of d). we_watcher_id e \<notin> wa_id ` set (fx_watchers F)"
    "\<forall>p \<in> set (event_notifiers_of d). wen_watcher_event_id p \<notin> we_id ` set (fx_events F)"
    "\<forall>n \<in> set (notifiers_of d). no_user_id n \<notin> u_id ` set (fx_users F)"
    "\<forall>m \<in> set (matches_of d). me_user_id m \<notin> u_id ` set (fx_users F) \<and> me_watcher_id m \<notin> wa_id ` set (fx_watchers F)
       \<and> me_mail_account_id m \<notin> ma_id ` set (fx_accounts F)"
    "\<forall>r \<in> set (runs_of d). er_user_id r \<notin> u_id ` set (fx_users F) \<and> er_watcher_event_id r \<notin> we_id ` set (fx_events F)"
  by (intro ballI conjI old_ids [OF assms(2)];
      insert assms(1) [unfolded keys_hold_def list_all_iff], elim conjE, blast)+

lemma load_ids_with_fixture:
  assumes "keys_hold d" "fresh_fixture F d" "linked F" "load_users d = []"
  shows "load_users (with_fixture F d) = map u_id (fx_users F)"
    "load_accounts (with_fixture F d) = map ma_id (fx_accounts F)"
    "load_watchers (with_fixture F d) = map wa_id (fx_watchers F)"
    "load_events (with_fixture F d) = map we_id (fx_events F)"
    "load_runs (with_fixture F d) = []" "load_notifiers (with_fixture F d) = []" "load_matches (with_fixture F d) = []"
proof -
  note old = old_rows [OF assms(1,2)]
  have link: "\<forall>u \<in> set (fx_users F). load_email (u_email u)"
    "\<forall>a \<in> set (fx_accounts F). ma_user_id a \<in> u_id ` set (fx_users F)"
    "\<forall>x \<in> set (fx_watchers F). wa_user_id x \<in> u_id ` set (fx_users F)"
    "\<forall>e \<in> set (fx_events F). we_watcher_id e \<in> wa_id ` set (fx_watchers F)"
    using assms(3) by (simp_all add: linked_def)
  have none: "\<forall>u \<in> set (users_of d). \<not> load_email (u_email u)"
    using assms(4) by (simp add: load_users_def filter_empty_conv)
  show u: "load_users (with_fixture F d) = map u_id (fx_users F)"
    using none link(1) by (simp add: load_users_def with_fixture_def)
  show "load_accounts (with_fixture F d) = map ma_id (fx_accounts F)"
    unfolding load_accounts_def u using old(4) link(2) by (simp add: with_fixture_def)
  show x: "load_watchers (with_fixture F d) = map wa_id (fx_watchers F)"
    unfolding load_watchers_def u using old(6) link(3) by (simp add: with_fixture_def)
  show e: "load_events (with_fixture F d) = map we_id (fx_events F)"
    unfolding load_events_def x using old(8) link(4) by (simp add: with_fixture_def)
  show "load_runs (with_fixture F d) = []"
    unfolding load_runs_def e using old(12) by (simp add: with_fixture_def)
  show "load_notifiers (with_fixture F d) = []"
    unfolding load_notifiers_def u using old(10) by (simp add: with_fixture_def)
  show "load_matches (with_fixture F d) = []"
    unfolding load_matches_def x using old(11) by (simp add: with_fixture_def)
qed

lemma apart_with_fixture:
  assumes "keys_hold d" "fresh_fixture F d" "linked F" "load_users d = []"
  shows "tenants_apart (with_fixture F d)"
  unfolding tenants_apart_def load_ids_with_fixture [OF assms]
  using old_rows [OF assms(1,2)] assms(3) by (simp add: with_fixture_def linked_def ball_Un refers_def split: option.splits)

lemma without_fixture:
  assumes "keys_hold d" "fresh_fixture F d" "linked F" "load_users d = []"
  shows "without_load (with_fixture F d) = d"
proof -
  have link: "\<forall>u \<in> set (fx_users F). load_email (u_email u)"
    "\<forall>a \<in> set (fx_accounts F). ma_user_id a \<in> u_id ` set (fx_users F)"
    "\<forall>x \<in> set (fx_watchers F). wa_user_id x \<in> u_id ` set (fx_users F)"
    "\<forall>f \<in> set (fx_filters F). wf_watcher_id f \<in> wa_id ` set (fx_watchers F)"
    "\<forall>e \<in> set (fx_events F). we_watcher_id e \<in> wa_id ` set (fx_watchers F)"
    using assms(3) by (simp_all add: linked_def)
  have none: "\<forall>u \<in> set (users_of d). \<not> load_email (u_email u)"
    using assms(4) by (simp add: load_users_def filter_empty_conv)
  note old = old_rows [OF assms(1,2)]
  show ?thesis
    unfolding without_load_def load_ids_with_fixture [OF assms]
    using none old link by (simp add: with_fixture_def)
qed

text \<open>While the database answers, cleaning up after a load run deletes exactly the rows that hang
  on a user of the load domain, provided that no row of another user refers to one of theirs; every
  other row stays as it is, in its place.
\<close>

lemma cleanup_exact:
  assumes "db_up w" and "tenants_apart (wdb w)"
  shows "\<exists>w'. run_state Cleanup w = (Inr (), w') \<and> wdb w' = without_load (wdb w)"
  using run_Cleanup [OF assms(1) cleanup_statements [OF assms(2)]] .

definition stamped :: "int \<Rightarrow> int \<Rightarrow> int \<Rightarrow> int \<Rightarrow> int \<Rightarrow> fixture \<Rightarrow> fixture" where
  "stamped t1 t2 t3 t4 t5 F = F\<lparr>fx_users := map (tb_stamp users_table t1) (fx_users F),
     fx_accounts := map (tb_stamp accounts_table t2) (fx_accounts F),
     fx_watchers := map (tb_stamp watchers_table t3) (fx_watchers F),
     fx_filters := map (tb_stamp filters_table t4) (fx_filters F),
     fx_events := map (tb_stamp events_table t5) (fx_events F)\<rparr>"

lemma stamped_fixture:
  "linked F \<Longrightarrow> linked (stamped t1 t2 t3 t4 t5 F)"
  "fresh_fixture (stamped t1 t2 t3 t4 t5 F) d = fresh_fixture F d"
  "map u_id (fx_users (stamped t1 t2 t3 t4 t5 F)) = map u_id (fx_users F)"
  by (auto simp: linked_def fresh_fixture_def stamped_def table_defs image_image comp_def)

text \<open>C40: Building the world of a load run and cleaning up afterwards leaves no trace.  In a database
  whose references hold and that has no user of the load domain, whatever shape is built: the users
  of the load domain are then the ones built, and a cleanup while the database answers succeeds and
  puts every table back to the rows it had before.
\<close>

theorem load_run_leaves_no_trace:
  assumes "keys_hold (wdb w)" "load_users (wdb w) = []"
    and "run_state (Build E sh seed) w = (Inr b, w')"
    and "db_up v" "wdb v = wdb w'"
  shows "load_users (wdb v) = bu_user_ids b
    \<and> (\<exists>v'. run_state Cleanup v = (Inr (), v') \<and> wdb v' = wdb w)"
proof -
  obtain F w1 where F: "linked F" "run_state (insert_fixture F) w1 = (Inr b, w')" "wdb w1 = wdb w"
    using assms(3) by (rule Build_ok)
  from insert_fixture_ok [OF F(2)] F(3) obtain t1 t2 t3 t4 t5 where b: "b = fx_built F"
    and w': "wdb w' = with_fixture (stamped t1 t2 t3 t4 t5 F) (wdb w)" and "fresh_fixture F (wdb w)"
    by (auto simp: with_fixture_def fresh_fixture_def stamped_def)
  then have G: "keys_hold (wdb w)" "fresh_fixture (stamped t1 t2 t3 t4 t5 F) (wdb w)"
    "linked (stamped t1 t2 t3 t4 t5 F)" "load_users (wdb w) = []"
    using assms(1,2) F(1) by (simp_all add: stamped_fixture)
  have "load_users (wdb v) = bu_user_ids b"
    using load_ids_with_fixture(1) [OF G] F(1) by (simp add: assms(5) w' b stamped_fixture linked_def)
  moreover have "tenants_apart (wdb v)" "without_load (wdb v) = wdb w"
    using apart_with_fixture [OF G] without_fixture [OF G] by (simp_all add: assms(5) w')
  ultimately show ?thesis using run_Cleanup [OF assms(4) cleanup_statements] by simp
qed

text \<open>A cipher and a generator for the examples: one user with one mailbox, one watcher, one filter, one event\<close>

definition sample_fixtures :: fixture_env where
  "sample_fixtures = \<lparr>fe_unicode = sample_unicode, fe_bcrypt = (\<lambda>salt p. Inr ''hash''), fe_intn = (\<lambda>s k n. 7),
     fe_cipher = \<lparr>ae_nonce_size = 0, ae_seal = (\<lambda>n p. []), ae_open = (\<lambda>n c. None)\<rparr>\<rparr>"

definition small_shape :: "string \<Rightarrow> shape" where
  "small_shape provider = \<lparr>sh_users = 1, sh_accounts_per_user = 1, sh_watchers_per_account = 1,
     sh_filters_per_watcher = 1, sh_events_per_watcher = 1, sh_provider = provider,
     sh_poll_interval_seconds = 60, sh_due_now = True\<rparr>"

lemma up_to_one: "up_to 1 = [0]"
  by simp

lemmas build_defs = Build_def hashOnce_def Encrypt_def wrapped_def insert_fixture_def createInBatches_def
  Repo_CreateInBatch_def insert_row_def build_user_def build_account_def build_watcher_def build_filter_def
  build_event_def no_fixture_def fixture_user_def fixture_account_def fixture_watcher_def fixture_filter_def
  fixture_event_def sample_fixtures_def small_shape_def batchSize_def fixture_provider_def up_to_one
  all_table_defs unique_on_def opt_ref_def

lemma build_small:
  "\<exists>b w'. run_state (Build sample_fixtures (small_shape ''gmail'') 7) sample_world = (Inr b, w')
     \<and> bu_account_ids b = [''uu''] \<and> db_up w'"
  by (simp add: build_defs sample_defs padded_def nat_str.simps digit_char_def EmailDomain_def Encode_nonempty
      filterFields_def Let_def)

theorem load_run_leaves_no_trace_witness:
  "\<exists>b w' v'. run_state (Build sample_fixtures (small_shape ''gmail'') 7) sample_world = (Inr b, w')
     \<and> bu_account_ids b = [''uu''] \<and> run_state Cleanup w' = (Inr (), v') \<and> wdb v' = sample_db"
proof -
  have "keys_hold sample_db" by (simp add: keys_hold_def sample_defs opt_ref_def)
  moreover have "load_users sample_db = []"
    by (simp add: load_users_def sample_defs load_email_def EmailDomain_def suffix_to_prefix)
  ultimately show ?thesis
    using build_small load_run_leaves_no_trace [of sample_world sample_fixtures "small_shape ''gmail''" 7] by fastforce
qed

text \<open>Until \<open>Build\<close> has returned, no suite has arranged for the cleanup: a build that fails at a later
  table, here because the provider of the shape is not seeded, leaves the users it inserted.\<close>

lemma failed_build_leaves_users:
  "\<exists>e w'. run_state (Build sample_fixtures (small_shape []) 7) sample_world = (Inl e, w')
     \<and> load_users (wdb w') = [''u'']"
  by (simp add: build_defs sample_defs padded_def nat_str.simps digit_char_def EmailDomain_def Encode_nonempty
      filterFields_def Let_def load_users_def load_email_def suffix_to_prefix)

end
