(* ===== verification/LoadRunner.thy ===== *)
theory LoadRunner
  imports GoStd Complex_Main "HOL-Library.Multiset"
begin

text \<open>
  How a load run is driven and measured: internal/loadtest/runner (drive.go, stats.go), the registry
  of suites (suites/suite.go), the counts of refused answers (suites/endpoints/statuses.go) and the
  result a suite fills (report/report.go).

  \<open>Drive\<close> starts workers that share a counter: it is a machine whose steps are those of one worker
  or the deadline.  Each step of a worker is one access to what the workers share.  Floating-point
  numbers are rationals; for the percentiles the code asks for, one half, 0.95 and 0.99, the rank is
  the same.  The lemmas show that every index below the number of iterations is worked on once and
  that a percentile is a sample of the right rank.
\<close>

subsection \<open>stats.go\<close>

record stats =
  st_count :: int
  st_errors :: int
  st_min :: int
  st_p50 :: int
  st_p95 :: int
  st_p99 :: int
  st_max :: int
  st_mean :: int
  st_elapsed :: int
  st_per_second :: rat

definition Percentile :: "int list \<Rightarrow> rat \<Rightarrow> int" where
  "Percentile samples p =
     (if samples = [] then 0
      else let rank = \<lceil>p * of_nat (length samples)\<rceil> - 1;
               rank1 = (if rank < 0 then 0 else rank);
               rank2 = (if rank1 \<ge> int (length samples) then int (length samples) - 1 else rank1) in
        samples ! nat rank2)"

definition Reduce :: "int list \<Rightarrow> int \<Rightarrow> int \<Rightarrow> stats" where
  "Reduce durations errors elapsed =
     (if durations = [] then
        \<lparr>st_count = 0, st_errors = errors, st_min = 0, st_p50 = 0, st_p95 = 0, st_p99 = 0, st_max = 0,
         st_mean = 0, st_elapsed = elapsed, st_per_second = 0\<rparr>
      else
        let samples = sort durations;
            total = foldl (\<lambda>t d. wrap64 (t + d)) 0 samples in
        \<lparr>st_count = int (length durations), st_errors = errors,
         st_min = hd samples, st_p50 = Percentile samples (50 / 100), st_p95 = Percentile samples (95 / 100),
         st_p99 = Percentile samples (99 / 100), st_max = last samples,
         st_mean = trunc_div total (int (length samples)), st_elapsed = elapsed,
         st_per_second = (if elapsed > 0 then of_nat (length durations) / (of_int elapsed / 1000000000) else 0)\<rparr>)"

lemma Reduce_count: "st_count (Reduce durations errors elapsed) = int (length durations)"
  by (simp add: Reduce_def Let_def)

text \<open>The rank of a percentile lies within the samples.\<close>

definition rank_of :: "nat \<Rightarrow> rat \<Rightarrow> nat" where
  "rank_of n p = nat (\<lceil>p * of_nat n\<rceil> - 1)"

lemma Percentile_rank:
  assumes "xs \<noteq> []" "0 \<le> p" "p \<le> 1"
  shows "Percentile xs p = xs ! rank_of (length xs) p" and "rank_of (length xs) p < length xs"
proof -
  have "p * of_nat (length xs) \<le> of_nat (length xs)" using assms(2,3) by (simp add: mult_left_le_one_le)
  then have le: "\<lceil>p * of_nat (length xs)\<rceil> \<le> int (length xs)" by (simp add: ceiling_le_iff)
  moreover have "0 < length xs" using assms(1) by simp
  ultimately show "rank_of (length xs) p < length xs" unfolding rank_of_def by linarith
  show "Percentile xs p = xs ! rank_of (length xs) p"
    using assms(1) le by (simp add: Percentile_def Let_def rank_of_def)
qed

lemma rank_mono: "p \<le> q \<Longrightarrow> rank_of n p \<le> rank_of n q"
  unfolding rank_of_def by (intro nat_mono diff_mono ceiling_mono mult_right_mono) simp_all

lemma sort_empty [simp]: "sort xs = [] \<longleftrightarrow> xs = []" for xs :: "int list"
  by (metis set_empty set_sort)

text \<open>A percentile is one of the samples: at least the share \<open>p\<close> of all samples is not above it,
  and less than that share is below it.\<close>

lemma Percentile_share:
  assumes "xs \<noteq> []" "0 < p" "p \<le> 1"
  shows "Percentile (sort xs) p \<in> set xs"
    and "p * of_nat (length xs) \<le> of_nat (length (filter (\<lambda>d. d \<le> Percentile (sort xs) p) xs))"
    and "of_nat (length (filter (\<lambda>d. d < Percentile (sort xs) p) xs)) < p * of_nat (length xs)"
proof -
  let ?ys = "sort xs" and ?r = "rank_of (length xs) p"
  have rank: "Percentile ?ys p = ?ys ! ?r" "?r < length ?ys"
    using Percentile_rank [of ?ys p] assms by simp_all
  then show "Percentile ?ys p \<in> set xs" using nth_mem [of ?r ?ys] by simp
  have len: "length (filter P xs) = length (filter P ?ys)" for P
    by (metis filter_sort length_sort)
  have pos: "0 < p * of_nat (length xs)" using assms by simp
  have "{..?r} \<subseteq> {i. i < length ?ys \<and> ?ys ! i \<le> ?ys ! ?r}"
    using rank(2) by (auto intro: sorted_nth_mono [OF sorted_sort])
  then have "Suc ?r \<le> length (filter (\<lambda>d. d \<le> ?ys ! ?r) ?ys)"
    using card_mono [of "{i. i < length ?ys \<and> ?ys ! i \<le> ?ys ! ?r}" "{..?r}"] by (simp add: length_filter_conv_card)
  moreover have "p * of_nat (length xs) \<le> of_nat (Suc ?r)"
    using le_of_int_ceiling [of "p * of_nat (length xs)"] pos by (simp add: rank_of_def of_nat_diff)
  ultimately show "p * of_nat (length xs) \<le> of_nat (length (filter (\<lambda>d. d \<le> Percentile ?ys p) xs))"
    unfolding len rank(1) by (elim order_trans) (simp only: of_nat_le_iff)
  have "x < ?r" if "x < length ?ys" "?ys ! x < ?ys ! ?r" for x
    using that sorted_nth_mono [OF sorted_sort, of ?r x xs] by (cases "x < ?r") auto
  then have "{i. i < length ?ys \<and> ?ys ! i < ?ys ! ?r} \<subseteq> {..<?r}" by blast
  then have "length (filter (\<lambda>d. d < ?ys ! ?r) ?ys) \<le> ?r"
    using card_mono [of "{..<?r}"] by (simp add: length_filter_conv_card)
  moreover have "of_nat ?r < p * of_nat (length xs)"
    using pos ceiling_correct [of "p * of_nat (length xs)"] by (simp add: rank_of_def of_nat_diff)
  ultimately show "of_nat (length (filter (\<lambda>d. d < Percentile ?ys p) xs)) < p * of_nat (length xs)"
    unfolding len rank(1) by (elim le_less_trans [rotated]) (simp only: of_nat_le_iff)
qed

text \<open>The numbers of a reduction are in order.\<close>

lemma Reduce_ordered:
  fixes durations errors elapsed
  assumes "durations \<noteq> []"
  defines "s \<equiv> Reduce durations errors elapsed"
  shows "st_min s \<le> st_p50 s \<and> st_p50 s \<le> st_p95 s \<and> st_p95 s \<le> st_p99 s \<and> st_p99 s \<le> st_max s"
proof -
  let ?ys = "sort durations"
  have ys: "?ys \<noteq> []" using assms by simp
  note rank = Percentile_rank [OF ys]
  have r: "rank_of (length ?ys) (50 / 100) \<le> rank_of (length ?ys) (95 / 100)"
    "rank_of (length ?ys) (95 / 100) \<le> rank_of (length ?ys) (99 / 100)"
    by (rule rank_mono, simp)+
  have top: "rank_of (length ?ys) (99 / 100) < length ?ys" by (rule rank(2)) simp_all
  note mono = sorted_nth_mono [OF sorted_sort]
  have "?ys ! 0 \<le> ?ys ! rank_of (length ?ys) (50 / 100)" using r top by (intro mono) linarith+
  moreover have "?ys ! rank_of (length ?ys) (50 / 100) \<le> ?ys ! rank_of (length ?ys) (95 / 100)"
    using r top by (intro mono) linarith+
  moreover have "?ys ! rank_of (length ?ys) (95 / 100) \<le> ?ys ! rank_of (length ?ys) (99 / 100)"
    using r top by (intro mono)
  moreover have "?ys ! rank_of (length ?ys) (99 / 100) \<le> ?ys ! (length ?ys - 1)"
    using top by (intro mono) linarith+
  moreover have "Percentile ?ys p = ?ys ! rank_of (length ?ys) p" if "0 \<le> p" "p \<le> 1" for p
    using that by (rule rank(1))
  ultimately show ?thesis
    using assms(1) ys by (simp add: s_def Reduce_def Let_def hd_conv_nth last_conv_nth del: length_sort)
qed

subsection \<open>drive.go\<close>

record plan =
  pn_concurrency :: int
  pn_duration :: int
  pn_iterations :: int

text \<open>A worker before the check of the context, past it, at work on an index, or returned\<close>

datatype load_worker = AtTop | Passed | Working nat | Gone

text \<open>What the workers share: the counter, the samples with the index each is of, the count of
  errors, and whether the context is done\<close>

record drive =
  dv_next :: nat
  dv_workers :: "load_worker list"
  dv_samples :: "(nat \<times> int) list"
  dv_errors :: int
  dv_expired :: bool

definition drive_start :: "plan \<Rightarrow> drive" where
  "drive_start P = \<lparr>dv_next = 0,
     dv_workers = replicate (nat (if pn_concurrency P < 1 then 1 else pn_concurrency P)) AtTop,
     dv_samples = [], dv_errors = 0, dv_expired = False\<rparr>"

definition exhausted :: "plan \<Rightarrow> nat \<Rightarrow> bool" where
  "exhausted P index \<longleftrightarrow> pn_iterations P > 0 \<and> int index \<ge> pn_iterations P"

definition worker_at :: "drive \<Rightarrow> nat \<Rightarrow> load_worker \<Rightarrow> bool" where
  "worker_at s i x \<longleftrightarrow> i < length (dv_workers s) \<and> dv_workers s ! i = x"

abbreviation move :: "drive \<Rightarrow> nat \<Rightarrow> load_worker \<Rightarrow> drive" where
  "move s i x \<equiv> s\<lparr>dv_workers := (dv_workers s)[i := x]\<rparr>"

inductive drive_step :: "plan \<Rightarrow> drive \<Rightarrow> drive \<Rightarrow> bool" for P where
  expire: "\<not> dv_expired s \<Longrightarrow> drive_step P s (s\<lparr>dv_expired := True\<rparr>)"
| leave: "worker_at s i AtTop \<Longrightarrow> dv_expired s \<Longrightarrow> drive_step P s (move s i Gone)"
| pass: "worker_at s i AtTop \<Longrightarrow> \<not> dv_expired s \<Longrightarrow> drive_step P s (move s i Passed)"
| draw: "worker_at s i Passed \<Longrightarrow> \<not> exhausted P (dv_next s) \<Longrightarrow>
    drive_step P s ((move s i (Working (dv_next s)))\<lparr>dv_next := Suc (dv_next s)\<rparr>)"
| finished: "worker_at s i Passed \<Longrightarrow> exhausted P (dv_next s) \<Longrightarrow>
    drive_step P s ((move s i Gone)\<lparr>dv_next := Suc (dv_next s)\<rparr>)"
| cut_short: "worker_at s i (Working index) \<Longrightarrow> dv_expired s \<Longrightarrow> drive_step P s (move s i Gone)"
| worked: "worker_at s i (Working index) \<Longrightarrow>
    drive_step P s ((move s i AtTop)\<lparr>dv_samples := dv_samples s @ [(index, took)]\<rparr>)"
| failed: "worker_at s i (Working index) \<Longrightarrow> \<not> dv_expired s \<Longrightarrow>
    drive_step P s ((move s i AtTop)\<lparr>dv_samples := dv_samples s @ [(index, took)], dv_errors := dv_errors s + 1\<rparr>)"

inductive_cases drive_stepE: "drive_step P s s'"

definition Drive_result :: "drive \<Rightarrow> int \<Rightarrow> stats" where
  "Drive_result s elapsed = Reduce (map snd (dv_samples s)) (dv_errors s) elapsed"

text \<open>The indices that were handed out and are worked on or recorded, and all that were handed out\<close>

fun indices_of :: "load_worker \<Rightarrow> nat multiset" where
  "indices_of (Working k) = {#k#}"
| "indices_of _ = {#}"

definition held :: "drive \<Rightarrow> nat multiset" where
  "held s = mset (map fst (dv_samples s)) + \<Sum>\<^sub># (mset (map indices_of (dv_workers s)))"

definition handed :: "plan \<Rightarrow> drive \<Rightarrow> nat multiset" where
  "handed P s = mset_set {k. k < dv_next s \<and> \<not> exhausted P k}"

text \<open>What is left to do, in steps\<close>

fun weight :: "load_worker \<Rightarrow> nat" where
  "weight AtTop = 2"
| "weight Passed = 1"
| "weight (Working k) = 3"
| "weight Gone = 0"

definition drive_measure :: "plan \<Rightarrow> drive \<Rightarrow> nat" where
  "drive_measure P s = 4 * (nat (pn_iterations P) - dv_next s) + sum_list (map weight (dv_workers s))
     + (if dv_expired s then 0 else 1)"

lemma indices_update:
  "i < length ws \<Longrightarrow> \<Sum>\<^sub># (mset (map indices_of (ws[i := x]))) + indices_of (ws ! i)
     = \<Sum>\<^sub># (mset (map indices_of ws)) + indices_of x"
  by (induction ws arbitrary: i) (auto simp: nth_Cons ac_simps split: nat.splits)

lemma weight_update:
  "i < length ws \<Longrightarrow> sum_list (map weight (ws[i := x])) + weight (ws ! i) = sum_list (map weight ws) + weight x"
  by (induction ws arbitrary: i) (auto simp: nth_Cons split: nat.splits)

lemma measure_decreases:
  assumes "drive_step P s s'" "0 < pn_iterations P"
  shows "drive_measure P s' < drive_measure P s"
  using assms
proof (cases rule: drive_step.cases)
  case (draw i)
  then have "dv_next s < nat (pn_iterations P)" using assms(2) by (simp add: exhausted_def)
  with draw weight_update [of i "dv_workers s" "Working (dv_next s)"] show ?thesis
    by (simp add: drive_measure_def worker_at_def)
next
  case (finished i)
  with weight_update [of i "dv_workers s" Gone] show ?thesis by (simp add: drive_measure_def worker_at_def)
next
  case (leave i)
  with weight_update [of i "dv_workers s" Gone] show ?thesis by (simp add: drive_measure_def worker_at_def)
next
  case (pass i)
  with weight_update [of i "dv_workers s" Passed] show ?thesis by (simp add: drive_measure_def worker_at_def)
next
  case (cut_short i index)
  with weight_update [of i "dv_workers s" Gone] show ?thesis by (simp add: drive_measure_def worker_at_def)
next
  case (worked i index took)
  with weight_update [of i "dv_workers s" AtTop] show ?thesis by (simp add: drive_measure_def worker_at_def)
next
  case (failed i index took)
  with weight_update [of i "dv_workers s" AtTop] show ?thesis by (simp add: drive_measure_def worker_at_def)
qed (simp add: drive_measure_def)

text \<open>While the context is alive, what is recorded or at work is just what was handed out; afterwards
  an index may be dropped, none is worked on twice.\<close>

definition drive_inv :: "plan \<Rightarrow> drive \<Rightarrow> bool" where
  "drive_inv P s \<longleftrightarrow> held s \<subseteq># handed P s \<and> (dv_expired s \<or> held s = handed P s)"

lemma held_move:
  assumes "worker_at s i x"
  shows "held (move s i y) + indices_of x = held s + indices_of y"
  using assms indices_update [of i "dv_workers s" y] by (simp add: held_def worker_at_def ac_simps)

lemma handed_simps [simp]:
  "handed P (s\<lparr>dv_workers := ws\<rparr>) = handed P s" "handed P (s\<lparr>dv_samples := xs\<rparr>) = handed P s"
  "handed P (s\<lparr>dv_errors := n\<rparr>) = handed P s" "handed P (s\<lparr>dv_expired := b\<rparr>) = handed P s"
  by (simp_all add: handed_def)

lemma held_simps [simp]:
  "held (s\<lparr>dv_next := n\<rparr>) = held s" "held (s\<lparr>dv_errors := e\<rparr>) = held s" "held (s\<lparr>dv_expired := b\<rparr>) = held s"
  "held (s\<lparr>dv_workers := ws, dv_samples := dv_samples s @ [(k, t)]\<rparr>) = add_mset k (held (s\<lparr>dv_workers := ws\<rparr>))"
  by (simp_all add: held_def)

lemma handed_next:
  "handed P (s\<lparr>dv_next := Suc (dv_next s)\<rparr>) =
     (if exhausted P (dv_next s) then handed P s else add_mset (dv_next s) (handed P s))"
proof -
  have "{k. k < Suc (dv_next s) \<and> \<not> exhausted P k} =
      (if exhausted P (dv_next s) then {} else {dv_next s}) \<union> {k. k < dv_next s \<and> \<not> exhausted P k}"
    by (auto simp: less_Suc_eq)
  then show ?thesis by (simp add: handed_def)
qed

lemma drive_inv_step:
  assumes "drive_step P s s'" "drive_inv P s"
  shows "drive_inv P s'"
  using assms(1)
proof (cases rule: drive_step.cases)
  case (draw i)
  with held_move [OF draw(2), of "Working (dv_next s)"] assms(2) handed_next [of P s] show ?thesis
    by (simp add: drive_inv_def handed_def)
next
  case (cut_short i index)
  then have "add_mset index (held s') \<subseteq># handed P s"
    using held_move [OF cut_short(2), of Gone] assms(2) by (simp add: drive_inv_def)
  with cut_short show ?thesis
    by (auto simp: drive_inv_def subset_mset.less_imp_le dest: mset_subset_eq_insertD)
next
  case (worked i index took)
  with held_move [OF worked(2), of AtTop] assms(2) show ?thesis by (simp add: drive_inv_def)
next
  case (failed i index took)
  with held_move [OF failed(2), of AtTop] assms(2) show ?thesis by (simp add: drive_inv_def)
next
  case (finished i)
  with held_move [OF finished(2), of Gone] assms(2) handed_next [of P s] show ?thesis
    by (simp add: drive_inv_def handed_def)
next
  case (leave i)
  with held_move [OF leave(2), of Gone] assms(2) show ?thesis by (simp add: drive_inv_def)
next
  case (pass i)
  with held_move [OF pass(2), of Passed] assms(2) show ?thesis by (simp add: drive_inv_def)
qed (use assms(2) in \<open>simp add: drive_inv_def\<close>)

lemma drive_inv_start: "drive_inv P (drive_start P)"
  by (simp add: drive_inv_def drive_start_def held_def handed_def)

lemma drive_inv_reachable: "(drive_step P)\<^sup>*\<^sup>* (drive_start P) s \<Longrightarrow> drive_inv P s"
  by (induction rule: rtranclp_induct) (auto intro: drive_inv_start drive_inv_step)

text \<open>Before the context is done a worker returns only when the indices are used up.\<close>

definition quit_inv :: "plan \<Rightarrow> drive \<Rightarrow> bool" where
  "quit_inv P s \<longleftrightarrow> dv_workers s \<noteq> []
     \<and> (Gone \<in> set (dv_workers s) \<longrightarrow> dv_expired s \<or> exhausted P (dv_next s))"

lemma exhausted_Suc: "exhausted P k \<Longrightarrow> exhausted P (Suc k)"
  by (simp add: exhausted_def)

lemma Gone_update: "Gone \<in> set (ws[i := x]) \<Longrightarrow> x \<noteq> Gone \<Longrightarrow> Gone \<in> set ws"
  using set_update_subset_insert [of ws i x] by blast

lemma quit_inv_reachable: "(drive_step P)\<^sup>*\<^sup>* (drive_start P) s \<Longrightarrow> quit_inv P s"
proof (induction rule: rtranclp_induct)
  case base
  show ?case by (simp add: quit_inv_def drive_start_def)
next
  case (step s s')
  then show ?case
    by (elim drive_step.cases) (auto simp: quit_inv_def exhausted_Suc dest: Gone_update)
qed

text \<open>A worker that has not returned can go on.\<close>

lemma drive_progress:
  assumes "x \<in> set (dv_workers s)" "x \<noteq> Gone"
  shows "\<exists>s'. drive_step P s s' \<and> dv_expired s' = dv_expired s"
proof -
  obtain i where i: "worker_at s i x" using assms(1) by (auto simp: in_set_conv_nth worker_at_def)
  show ?thesis
  proof (cases x)
    case AtTop
    then show ?thesis
      using i drive_step.leave [of s i P] drive_step.pass [of s i P] by (cases "dv_expired s") force+
  next
    case Passed
    then show ?thesis
      using i drive_step.draw [of s i P] drive_step.finished [of s i P] by (cases "exhausted P (dv_next s)") force+
  next
    case (Working k)
    then show ?thesis using i drive_step.worked [of s i k P 0] by force
  qed (use assms(2) in simp)
qed

lemma gone_held: "\<forall>x \<in> set ws. x = Gone \<Longrightarrow> \<Sum>\<^sub># (mset (map indices_of ws)) = {#}"
  by (induction ws) auto

text \<open>C39: A drive with a number of iterations hands every index to at most one worker and never one
  beyond the number, however the workers interleave and whenever the deadline falls.  It ends: every
  step leaves less to do, and a worker that has not returned can go on.  When the workers have
  returned before the deadline, the samples are those of all the indices, each once.\<close>

theorem drive_each_index_once:
  assumes "0 < pn_iterations P" and "(drive_step P)\<^sup>*\<^sup>* (drive_start P) s"
  shows "distinct (map fst (dv_samples s)) \<and> fst ` set (dv_samples s) \<subseteq> {..<nat (pn_iterations P)}
    \<and> (\<forall>s'. drive_step P s s' \<longrightarrow> drive_measure P s' < drive_measure P s)
    \<and> (\<forall>x \<in> set (dv_workers s). x \<noteq> Gone \<longrightarrow> (\<exists>s'. drive_step P s s' \<and> dv_expired s' = dv_expired s))
    \<and> ((\<forall>x \<in> set (dv_workers s). x = Gone) \<and> \<not> dv_expired s \<longrightarrow>
        fst ` set (dv_samples s) = {..<nat (pn_iterations P)}
        \<and> st_count (Drive_result s elapsed) = pn_iterations P)"
proof (intro conjI impI)
  have inv: "drive_inv P s" and quit: "quit_inv P s"
    using assms(2) by (rule drive_inv_reachable, rule quit_inv_reachable)
  let ?X = "{k. k < dv_next s \<and> \<not> exhausted P k}"
  have sub: "mset (map fst (dv_samples s)) \<subseteq># mset_set ?X"
    using inv by (auto simp: drive_inv_def held_def handed_def intro: subset_mset.order_trans [OF mset_subset_eq_add_left])
  have "count (mset (map fst (dv_samples s))) k \<le> 1" for k
    using mset_subset_eq_count [OF sub, of k] by (auto simp: count_mset_set' split: if_splits)
  then show distinct: "distinct (map fst (dv_samples s))"
    unfolding distinct_count_atmost_1 by (metis count_mset_0_iff le_antisym less_one not_less)
  show "fst ` set (dv_samples s) \<subseteq> {..<nat (pn_iterations P)}"
    using set_mset_mono [OF sub] assms(1) by (auto simp: exhausted_def)
  show "\<forall>s'. drive_step P s s' \<longrightarrow> drive_measure P s' < drive_measure P s"
    using measure_decreases assms(1) by blast
  show "\<forall>x \<in> set (dv_workers s). x \<noteq> Gone \<longrightarrow> (\<exists>s'. drive_step P s s' \<and> dv_expired s' = dv_expired s)"
    using drive_progress by blast
  assume ended: "(\<forall>x \<in> set (dv_workers s). x = Gone) \<and> \<not> dv_expired s"
  have "exhausted P (dv_next s)"
    using quit ended by (cases "dv_workers s") (auto simp: quit_inv_def)
  then have X: "?X = {..<nat (pn_iterations P)}" by (auto simp: exhausted_def)
  have eq: "mset (map fst (dv_samples s)) = mset_set {..<nat (pn_iterations P)}"
    using inv ended X unfolding drive_inv_def handed_def held_def gone_held [OF conjunct1 [OF ended]] by simp
  show "fst ` set (dv_samples s) = {..<nat (pn_iterations P)}"
    using arg_cong [OF eq, of set_mset] by simp
  have "length (dv_samples s) = nat (pn_iterations P)"
    using arg_cong [OF eq, of size] by simp
  then show "st_count (Drive_result s elapsed) = pn_iterations P"
    using assms(1) by (simp add: Drive_result_def Reduce_count)
qed

text \<open>Two workers and one index: the second worker finds the indices used up.\<close>

definition one_index :: plan where
  "one_index = \<lparr>pn_concurrency = 2, pn_duration = 0, pn_iterations = 1\<rparr>"

lemma one_index_run:
  "(drive_step one_index)\<^sup>*\<^sup>* (drive_start one_index)
     \<lparr>dv_next = 3, dv_workers = [Gone, Gone], dv_samples = [(0, 5)], dv_errors = 0, dv_expired = False\<rparr>"
proof -
  let ?s = "\<lambda>n a b xs. \<lparr>dv_next = n, dv_workers = [a, b], dv_samples = xs, dv_errors = 0, dv_expired = False\<rparr>"
  have "drive_start one_index = ?s 0 AtTop AtTop []"
    by (simp add: drive_start_def one_index_def numeral_2_eq_2)
  moreover have "drive_step one_index (?s 0 AtTop AtTop []) (?s 0 Passed AtTop [])"
    using drive_step.pass [of "?s 0 AtTop AtTop []" 0] by (simp add: worker_at_def)
  moreover have "drive_step one_index (?s 0 Passed AtTop []) (?s 0 Passed Passed [])"
    using drive_step.pass [of "?s 0 Passed AtTop []" 1] by (simp add: worker_at_def)
  moreover have "drive_step one_index (?s 0 Passed Passed []) (?s 1 Passed (Working 0) [])"
    using drive_step.draw [of "?s 0 Passed Passed []" 1] by (simp add: worker_at_def exhausted_def one_index_def)
  moreover have "drive_step one_index (?s 1 Passed (Working 0) []) (?s 2 Gone (Working 0) [])"
    using drive_step.finished [of "?s 1 Passed (Working 0) []" 0]
    by (simp add: worker_at_def exhausted_def one_index_def numeral_2_eq_2)
  moreover have "drive_step one_index (?s 2 Gone (Working 0) []) (?s 2 Gone AtTop [(0, 5)])"
    using drive_step.worked [of "?s 2 Gone (Working 0) []" 1 0 _ 5] by (simp add: worker_at_def)
  moreover have "drive_step one_index (?s 2 Gone AtTop [(0, 5)]) (?s 2 Gone Passed [(0, 5)])"
    using drive_step.pass [of "?s 2 Gone AtTop [(0, 5)]" 1] by (simp add: worker_at_def)
  moreover have "drive_step one_index (?s 2 Gone Passed [(0, 5)]) (?s 3 Gone Gone [(0, 5)])"
    using drive_step.finished [of "?s 2 Gone Passed [(0, 5)]" 1]
    by (simp add: worker_at_def exhausted_def one_index_def numeral_3_eq_3 numeral_2_eq_2)
  ultimately show ?thesis by (metis (no_types, lifting) rtranclp.rtrancl_refl rtranclp.rtrancl_into_rtrancl)
qed

theorem drive_each_index_once_witness:
  "st_count (Drive_result \<lparr>dv_next = 3, dv_workers = [Gone, Gone], dv_samples = [(0, 5)], dv_errors = 0,
     dv_expired = False\<rparr> 9) = pn_iterations one_index"
  using drive_each_index_once [OF _ one_index_run, of 9] by (simp add: one_index_def)

subsection \<open>suite.go\<close>

text \<open>A suite, with what a run of it gives; the arguments are those its flags take.\<close>

record 'r suite =
  su_name :: string
  su_synopsis :: string
  su_needs_db :: bool
  su_run :: 'r

definition Suites_Register :: "'r suite list \<Rightarrow> (string \<rightharpoonup> 'r suite) \<Rightarrow> (string \<rightharpoonup> 'r suite)" where
  "Suites_Register ss reg = foldl (\<lambda>m s. m(su_name s \<mapsto> s)) reg ss"

interpretation suite_reg: registry Suites_Register su_name
  by unfold_locales (simp_all add: Suites_Register_def)

text \<open>The names are sorted; \<open>order\<close> is the order the map is ranged over, and \<open>%v\<close> of the names is
  part of the error.\<close>

definition Suites_Names :: "string list \<Rightarrow> string list" where
  "Suites_Names order = sort order"

definition Suites_Get :: "unicode \<Rightarrow> string list \<Rightarrow> (string \<rightharpoonup> 'r suite) \<Rightarrow> string \<Rightarrow> err + 'r suite" where
  "Suites_Get U order reg name = (case reg name of
      None \<Rightarrow> Inl (PlainErr (''no load suite named '' @ go_quote U name @ '', try one of: ['' @
        join '' '' (Suites_Names order) @ '']''))
    | Some s \<Rightarrow> Inr s)"

definition Suites_All :: "string list \<Rightarrow> (string \<rightharpoonup> 'r suite) \<Rightarrow> 'r suite list" where
  "Suites_All order reg = List.map_filter reg (Suites_Names order)"

subsection \<open>statuses.go\<close>

text \<open>The counts as an association of status and number, in the order the statuses came up\<close>

type_synonym sync4xx = "(int \<times> int) list"

fun bump :: "int \<Rightarrow> sync4xx \<Rightarrow> sync4xx" where
  "bump status [] = [(status, 1)]"
| "bump status ((s, n) # cs) = (if s = status then (s, n + 1) # cs else (s, n) # bump status cs)"

definition record_status :: "int \<Rightarrow> sync4xx \<Rightarrow> sync4xx" where
  "record_status status cs = (if status < 400 then cs else bump status cs)"

definition bad :: "sync4xx \<Rightarrow> sync4xx option" where
  "bad cs = (if cs = [] then None else Some cs)"

lemma bump_counts: "map_of (bump status cs) = (map_of cs)(status \<mapsto> 1 + (case map_of cs status of None \<Rightarrow> 0 | Some n \<Rightarrow> n))"
  by (induction status cs rule: bump.induct) (auto simp: fun_eq_iff)

text \<open>The count of a status is how often it came, redirects and successes are not counted.\<close>

lemma statuses_counted:
  "(case map_of (foldl (\<lambda>cs s. record_status s cs) [] ss) k of None \<Rightarrow> 0 | Some n \<Rightarrow> n)
     = (if k < 400 then 0 else int (count_list ss k))"
  by (induction ss rule: rev_induct) (auto simp: record_status_def bump_counts split: option.splits)

subsection \<open>report.go\<close>

text \<open>The values of a metric that are not timings, as the suites use them\<close>

datatype extra_value = XInt int | XText string | XCounts sync4xx

record metric =
  mt_name :: string
  mt_stats :: stats
  mt_extra :: "(string \<times> extra_value) list"

record result =
  rp_suite :: string
  rp_params :: "(string \<times> extra_value) list"
  rp_metrics :: "metric list"
  rp_findings :: "string list"

definition Result_Add :: "string \<Rightarrow> stats \<Rightarrow> (string \<times> extra_value) list \<Rightarrow> result \<Rightarrow> result" where
  "Result_Add name stats extra r =
     r\<lparr>rp_metrics := rp_metrics r @ [\<lparr>mt_name = name, mt_stats = stats, mt_extra = extra\<rparr>]\<rparr>"

definition Findf :: "string \<Rightarrow> result \<Rightarrow> result" where
  "Findf line r = r\<lparr>rp_findings := rp_findings r @ [line]\<rparr>"

text \<open>\<open>%v\<close> of a value; a map prints its keys in order\<close>

fun extra_text :: "extra_value \<Rightarrow> string" where
  "extra_text (XInt n) = itoa n"
| "extra_text (XText s) = s"
| "extra_text (XCounts cs) = ''map['' @ join '' '' (map (\<lambda>(k, n). itoa k @ '':'' @ itoa n) (sort_key fst cs)) @ '']''"

definition extraLines :: "(string \<times> extra_value) list \<Rightarrow> string list" where
  "extraLines extra = map (\<lambda>(k, v). k @ '': '' @ extra_text v) (sort_key fst extra)"

text \<open>The ellipsis is three bytes.\<close>

definition truncate_cell :: "string \<Rightarrow> int \<Rightarrow> string" where
  "truncate_cell s n = (if int (length s) \<le> n then s
     else take (nat (n - 1)) s @ [CHR 0xE2, CHR 0x80, CHR 0xA6])"

end
