(* ===== verification/LoadStub.thy ===== *)
theory LoadStub
  imports MailStub Complex_Main
begin

text \<open>
  The mail client of load runs, internal/gateway/mail/loadstub/loadstub.go: a mailbox whose cost and
  failures are dialled in.  Its random generator is a pair of streams read at one position, the
  uniform numbers and the latencies of the fitted lognormal distribution; rates and latencies are
  rationals.  \<open>sleeps\<close> says what sleeping under the context gives.  The counters are part of the state
  that every call returns.  The lemmas show that what a mailbox delivers is numbered without a gap
  and without repetition, and when a call fails.
\<close>

record stub_config =
  lc_p50 :: int
  lc_p99 :: int
  lc_timeout :: int
  lc_timeout_rate :: rat
  lc_error_rate :: rat
  lc_messages_per_sync :: int
  lc_body_bytes :: int
  lc_match_rate :: rat

record stub_library =
  sb_uniform :: "int \<Rightarrow> nat \<Rightarrow> rat"
  sb_lognormal :: "stub_config \<Rightarrow> int \<Rightarrow> nat \<Rightarrow> rat"
  sb_cursor :: "string \<Rightarrow> int"
  sb_duration_text :: "int \<Rightarrow> string"

record load_stub =
  ls_config :: stub_config
  ls_seed :: int
  ls_drawn :: nat
  ls_syncs :: int
  ls_timeouts :: int
  ls_failures :: int

definition NewLoadStub :: "stub_config \<Rightarrow> int \<Rightarrow> load_stub" where
  "NewLoadStub c0 seed =
     (let c1 = (if lc_messages_per_sync c0 \<le> 0 then c0\<lparr>lc_messages_per_sync := 5\<rparr> else c0);
          c2 = (if lc_body_bytes c1 \<le> 0 then c1\<lparr>lc_body_bytes := 2048\<rparr> else c1);
          c3 = (if lc_timeout c2 \<le> 0 then c2\<lparr>lc_timeout := 30 * Second\<rparr> else c2);
          c4 = (if lc_p99 c3 < lc_p50 c3 then c3\<lparr>lc_p99 := lc_p50 c3\<rparr> else c3) in
      \<lparr>ls_config = c4, ls_seed = seed, ls_drawn = 0, ls_syncs = 0, ls_timeouts = 0, ls_failures = 0\<rparr>)"

definition load_Describe :: descriptor where
  "load_Describe = \<lparr>ds_kind = ''imap'', ds_label = ''IMAP (load stub)'',
     ds_auth_modes = [AuthPassword, AuthAppPassword, AuthXOAuth2],
     ds_capabilities = \<lparr>cp_folders = True, cp_labels = False, cp_push = False, cp_idle = False,
       cp_server_search = False\<rparr>,
     ds_config_schema = \<lparr>sc_fields = [schema_field_of ''host'' ''IMAP server'' ''string'',
       schema_field_of ''port'' ''Port'' ''int'']\<rparr>\<rparr>"

definition Counts :: "load_stub \<Rightarrow> int \<times> int \<times> int" where
  "Counts S = (ls_syncs S, ls_timeouts S, ls_failures S)"

definition roll :: "stub_library \<Rightarrow> load_stub \<Rightarrow> rat \<times> load_stub" where
  "roll L S = (sb_uniform L (ls_seed S) (ls_drawn S), S\<lparr>ls_drawn := Suc (ls_drawn S)\<rparr>)"

definition latency :: "stub_library \<Rightarrow> load_stub \<Rightarrow> int \<times> load_stub" where
  "latency L S =
     (let c = ls_config S in
      if lc_p50 c \<le> 0 then (0, S)
      else if lc_p99 c \<le> lc_p50 c then (lc_p50 c, S)
      else let drawn = sb_lognormal L c (ls_seed S) (ls_drawn S);
               drawn1 = (if drawn > of_int (lc_timeout c) then of_int (lc_timeout c) else drawn) in
        (\<lfloor>drawn1\<rfloor>, S\<lparr>ls_drawn := Suc (ls_drawn S)\<rparr>))"

definition load_sleep :: "(int \<Rightarrow> err option) \<Rightarrow> int \<Rightarrow> err option" where
  "load_sleep sleeps d = (if d \<le> 0 then None else sleeps d)"

text \<open>\<open>None\<close> is the cost paid without an error.\<close>

definition spend :: "stub_library \<Rightarrow> (int \<Rightarrow> err option) \<Rightarrow> load_stub \<Rightarrow> err option \<times> load_stub" where
  "spend L sleeps S0 =
     (let (r, S) = roll L S0; c = ls_config S in
      if r < lc_timeout_rate c then
        let S1 = S\<lparr>ls_timeouts := ls_timeouts S + 1\<rparr> in
        (case load_sleep sleeps (lc_timeout c) of
           Some e \<Rightarrow> (Some e, S1)
         | None \<Rightarrow> (Some (PlainErr (''loadstub: mailbox timed out after '' @ sb_duration_text L (lc_timeout c))), S1))
      else if r < lc_timeout_rate c + lc_error_rate c then
        let S1 = S\<lparr>ls_failures := ls_failures S + 1\<rparr>; (d, S2) = latency L S1 in
        (case load_sleep sleeps d of
           Some e \<Rightarrow> (Some e, S2)
         | None \<Rightarrow> (Some (PlainErr ''loadstub: injected transient failure''), S2))
      else let (d, S2) = latency L S in (load_sleep sleeps d, S2))"

definition load_Folders :: "mail_target \<Rightarrow> err + folder list" where
  "load_Folders account = Inr [\<lparr>fo_name = ''INBOX'', fo_message_count = 1280\<rparr>,
     \<lparr>fo_name = ''Archive'', fo_message_count = 9400\<rparr>]"

definition load_Verify :: "stub_library \<Rightarrow> (int \<Rightarrow> err option) \<Rightarrow> load_stub \<Rightarrow> mail_target
    \<Rightarrow> (err + folder list) \<times> load_stub" where
  "load_Verify L sleeps S account = (case spend L sleeps S of
      (Some e, S1) \<Rightarrow> (Inl e, S1)
    | (None, S1) \<Rightarrow> (load_Folders account, S1))"

definition load_message :: "stub_library \<Rightarrow> load_stub \<Rightarrow> mail_target \<Rightarrow> int \<Rightarrow> int \<Rightarrow> message \<times> load_stub" where
  "load_message L S account sequence now =
     (let (r, S1) = roll L S; c = ls_config S in
      (\<lparr>mg_message_id = ''<load-'' @ tg_id account @ ''-'' @ itoa sequence @ ''@loadstub.invalid>'',
        mg_uid = itoa (sequence + 1),
        mg_subject = (if r < lc_match_rate c then ''invoice alert '' @ itoa sequence
                      else ''load message '' @ itoa sequence),
        mg_from_address = ''sender@loadstub.invalid'', mg_from_name = ''Load Sender'',
        mg_to = [tg_email_address account], mg_cc = [],
        mg_body_text = concat (replicate (nat (trunc_div (lc_body_bytes c) 16 + 1)) ''load body text. ''),
        mg_headers = [(''X-Load-Test'', ''1'')], mg_has_attachment = False, mg_attachment_names = [],
        mg_size_bytes = lc_body_bytes c, mg_received_at = now\<rparr>, S1))"

fun load_messages :: "stub_library \<Rightarrow> load_stub \<Rightarrow> mail_target \<Rightarrow> int \<Rightarrow> int \<Rightarrow> nat \<Rightarrow> message list \<times> load_stub" where
  "load_messages L S account sequence now 0 = ([], S)"
| "load_messages L S account sequence now (Suc n) =
     (let (m, S1) = load_message L S account sequence now;
          (ms, S2) = load_messages L S1 account (sequence + 1) now n in (m # ms, S2))"

definition load_Fetch :: "stub_library \<Rightarrow> (int \<Rightarrow> err option) \<Rightarrow> int \<Rightarrow> load_stub \<Rightarrow> mail_target \<Rightarrow> fetch_request
    \<Rightarrow> (err + fetch_result) \<times> load_stub" where
  "load_Fetch L sleeps now S account request =
     (case spend L sleeps (S\<lparr>ls_syncs := ls_syncs S + 1\<rparr>) of
        (Some e, S1) \<Rightarrow> (Inl e, S1)
      | (None, S1) \<Rightarrow>
          let delivered = (if fq_cursor request \<noteq> [] then sb_cursor L (fq_cursor request) else 0);
              n = lc_messages_per_sync (ls_config S1);
              count = (if fq_limit request > 0 \<and> n > fq_limit request then fq_limit request else n);
              (ms, S2) = load_messages L S1 account delivered now (nat count) in
          (Inr \<lparr>fr_messages = ms, fr_cursor = stub_cursor (delivered + count)\<rparr>, S2))"

text \<open>As a client of the registry; \<open>where_at\<close> is where in its stream the shared stub is when a call comes.\<close>

definition LoadStubProvider :: "stub_library \<Rightarrow> (int \<Rightarrow> err option) \<Rightarrow> int \<Rightarrow> (mail_target \<Rightarrow> load_stub) \<Rightarrow> mail_client" where
  "LoadStubProvider L sleeps now where_at = \<lparr>cl_describe = load_Describe,
     cl_verify = (\<lambda>a. fst (load_Verify L sleeps (where_at a) a)),
     cl_fetch = (\<lambda>a r. fst (load_Fetch L sleeps now (where_at a) a r)), cl_folders = Some load_Folders\<rparr>"

subsection \<open>What the stub does\<close>

text \<open>A stub always delivers, and the tail of its latency is not below the median.\<close>

lemma NewLoadStub_config:
  "0 < lc_messages_per_sync (ls_config (NewLoadStub c seed))" "0 < lc_body_bytes (ls_config (NewLoadStub c seed))"
  "0 < lc_timeout (ls_config (NewLoadStub c seed))"
  "lc_p50 (ls_config (NewLoadStub c seed)) \<le> lc_p99 (ls_config (NewLoadStub c seed))"
  by (simp_all add: NewLoadStub_def Let_def)

text \<open>No call takes longer than the timeout.\<close>

lemma latency_bounded:
  assumes "lc_p50 (ls_config S) \<le> lc_timeout (ls_config S)" "0 < lc_timeout (ls_config S)"
  shows "fst (latency L S) \<le> lc_timeout (ls_config S)"
  using assms by (auto simp: latency_def Let_def floor_le_iff)

lemma spend_config: "ls_config (snd (spend L sleeps S)) = ls_config S"
  by (auto simp: spend_def roll_def latency_def Let_def split: option.splits)

text \<open>With both rates zero and nothing cutting the sleep short, no call fails.\<close>

lemma spend_reliable:
  assumes "lc_timeout_rate (ls_config S) = 0" "lc_error_rate (ls_config S) = 0"
    and "\<And>d. sleeps d = None" "\<And>k. 0 \<le> sb_uniform L (ls_seed S) k"
  shows "fst (spend L sleeps S) = None"
  using assms by (auto simp: spend_def roll_def load_sleep_def Let_def not_less split: prod.split)

lemma load_messages_map:
  assumes "\<And>S k. f (fst (load_message L S account k now)) = g k"
  shows "map f (fst (load_messages L S account sequence now n)) = map g [sequence..sequence + int n - 1]"
proof (induction n arbitrary: S sequence)
  case (Suc n)
  obtain m S1 where m: "load_message L S account sequence now = (m, S1)" by fastforce
  have "[sequence..sequence + int (Suc n) - 1] = sequence # [sequence + 1..sequence + 1 + int n - 1]"
    by (simp add: upto_rec1 ac_simps)
  then show ?case using Suc.IH [of S1 "sequence + 1"] assms [of S sequence] m by (auto split: prod.split)
qed simp

lemma load_messages_numbered:
  "map mg_uid (fst (load_messages L S account sequence now n)) = map (\<lambda>k. itoa (k + 1)) [sequence..sequence + int n - 1]"
  "map mg_message_id (fst (load_messages L S account sequence now n)) =
     map (\<lambda>k. ''<load-'' @ tg_id account @ ''-'' @ itoa k @ ''@loadstub.invalid>'') [sequence..sequence + int n - 1]"
  by (rule load_messages_map, simp add: load_message_def Let_def split: prod.split)+

text \<open>A fetch that goes on where the last one ended hands out the next numbers: of two fetches in a row
  the second starts right after the first.\<close>

lemma load_Fetch_goes_on:
  assumes "fst (load_Fetch L sleeps now S account request) = Inr r" "fq_cursor request = stub_cursor k"
    and "sb_cursor L (stub_cursor k) = k" "0 < lc_messages_per_sync (ls_config S)"
  shows "map mg_uid (fr_messages r) = map (\<lambda>i. itoa (i + 1)) [k..k + int (length (fr_messages r)) - 1]
    \<and> fr_cursor r = stub_cursor (k + int (length (fr_messages r))) \<and> fr_messages r \<noteq> []"
proof -
  let ?S = "S\<lparr>ls_syncs := ls_syncs S + 1\<rparr>"
  obtain S1 where S1: "spend L sleeps ?S = (None, S1)"
    using assms(1) by (cases "spend L sleeps ?S"; cases "fst (spend L sleeps ?S)") (auto simp: load_Fetch_def)
  have "stub_cursor k \<noteq> []" by (simp add: stub_cursor_def)
  let ?n = "lc_messages_per_sync (ls_config S1)"
  let ?count = "if fq_limit request > 0 \<and> ?n > fq_limit request then fq_limit request else ?n"
  have n: "0 < ?n" using assms(4) spend_config [of L sleeps ?S] S1 by simp
  have r: "r = \<lparr>fr_messages = fst (load_messages L S1 account k now (nat ?count)), fr_cursor = stub_cursor (k + ?count)\<rparr>"
    using assms(1-3) S1 \<open>stub_cursor k \<noteq> []\<close> by (auto simp: load_Fetch_def Let_def split: prod.splits)
  note uids = load_messages_numbered(1) [of L S1 account k now "nat ?count"]
  have "length (fr_messages r) = nat ?count" using arg_cong [OF uids, of length] by (simp add: r)
  moreover have "0 < ?count" using n by simp
  ultimately show ?thesis using uids by (auto simp: r)
qed

end
