(* ===== verification/LoadSuites.thy ===== *)
theory LoadSuites
  imports App Seeders Fixtures LoadRunner LoadStub
begin

text \<open>
  The load suites and the command that runs them: cmd/loadtest/main.go, the guard that stands before
  the database (internal/loadtest/guard), and internal/loadtest/suites with endpoints (the HTTP
  surface), parser (MIME decoding) and worker (the capacity of the poller).

  The stack under test is outside: \<open>lv_do\<close> performs a request against it and may change any row, and
  \<open>lv_drive\<close> is what a drive of the machine of LoadRunner over some work gives, the reduction of its
  samples and the outcomes of the work.  The text of durations and ratios, the decoding of the login
  answer, directories and the parsing of flags are parameters, and what is printed is left out, as are the two rates among the
  parameters of a worker run.  The
  lemmas show that nothing reaches a database the guard refuses, and that the fixtures go whatever a
  suite does.
\<close>

subsection \<open>guard.go\<close>

definition known :: "string list" where
  "known = [''mailpulse'', ''mailpulse_dev'', ''mailpulse_test'', ''mailpulse_load'']"

text \<open>\<open>override\<close> is the value of \<open>LOADTEST_DATABASE\<close>.\<close>

definition DevDatabase :: "unicode \<Rightarrow> string \<Rightarrow> settings \<Rightarrow> err + unit" where
  "DevDatabase U override c =
     (let name = get_string c ''database.name''; host = get_string c ''database.host'' in
      if override \<noteq> [] then
        (if override \<noteq> name then Inl (PlainErr (''LOADTEST_DATABASE is set to '' @ go_quote U override
            @ '' but the configured database is '' @ go_quote U name @ '': refusing to guess which one you meant''))
         else Inr ())
      else if name \<notin> set known then Inl (PlainErr (''database '' @ go_quote U name @ '' on '' @ host
          @ '' is not a recognised development database.'' @ [CHR 0x0A]
          @ ''A load run inserts and deletes thousands of rows.'' @ [CHR 0x0A]
          @ ''If this really is the target, set LOADTEST_DATABASE='' @ name))
      else Inr ())"

definition Guard_Describe :: "unicode \<Rightarrow> settings \<Rightarrow> string" where
  "Guard_Describe U c = get_string c ''database.username'' @ ''@'' @ get_string c ''database.host'' @ '':''
     @ itoa (get_int c ''database.port'') @ ''/'' @ trim_space U (get_string c ''database.name'')"

subsection \<open>What the suites share\<close>

record load_request =
  lq_method :: string
  lq_url :: string
  lq_headers :: "(string \<times> string) list"
  lq_body :: "string option"

record load_env =
  lv_settings :: settings
  lv_platform :: platform
  lv_fixtures :: fixture_env
  lv_seed :: int
  lv_new_request :: "string \<Rightarrow> string \<Rightarrow> string option"
  lv_do :: "load_request \<Rightarrow> (string + int \<times> string) io"
  lv_token :: "string \<Rightarrow> string + string"
  lv_drive :: "plan \<Rightarrow> (nat \<Rightarrow> (int \<times> err option) io) \<Rightarrow> (stats \<times> (int \<times> err option) list) io"
  lv_duration_text :: "int \<Rightarrow> string"
  lv_rounded_text :: "int \<Rightarrow> string"
  lv_ratio_text :: "nat \<Rightarrow> rat \<Rightarrow> string"

abbreviation suite_unicode :: "load_env \<Rightarrow> unicode" where
  "suite_unicode E \<equiv> pf_unicode (lv_platform E)"

definition suite_cipher :: "load_env \<Rightarrow> err + aead" where
  "suite_cipher E = NewCipher (pf_aes_gcm (lv_platform E)) (get_string (lv_settings E) ''security.encryption_key'')"

definition new_result :: "string \<Rightarrow> (string \<times> extra_value) list \<Rightarrow> result" where
  "new_result name params = \<lparr>rp_suite = name, rp_params = params, rp_metrics = [], rp_findings = []\<rparr>"

text \<open>\<open>defer\<close> of the cleanup, whose error is logged\<close>

definition deferred :: "bool \<Rightarrow> 'a io \<Rightarrow> 'a io" where
  "deferred keep body =
     State_Monad.bind body (\<lambda>r. if keep then ret r else State_Monad.bind (ignoreE Cleanup) (\<lambda>_. ret r))"

definition built_for :: "load_env \<Rightarrow> shape \<Rightarrow> aead \<Rightarrow> built ioE" where
  "built_for E sh cipher = wrapped ''building fixtures'' (Build ((lv_fixtures E)\<lparr>fe_cipher := cipher\<rparr>) sh (lv_seed E))"

subsection \<open>endpoints.go\<close>

record endpoint_suite =
  ep_base_url :: string
  ep_concurrency :: int
  ep_duration :: int
  ep_page_size :: int
  ep_only :: string
  ep_users :: int
  ep_accounts :: int
  ep_keep :: bool

record load_target =
  lt_name :: string
  lt_path :: string
  lt_method :: string
  lt_body :: "string option"
  lt_auth :: bool
  lt_note :: string

definition credentials_json :: "unicode \<Rightarrow> string \<Rightarrow> string \<Rightarrow> string" where
  "credentials_json U email password = ''{'' @ json_string U ''email'' @ '':'' @ json_string U email @ '',''
     @ json_string U ''password'' @ '':'' @ json_string U password @ ''}''"

definition load_targets :: "unicode \<Rightarrow> endpoint_suite \<Rightarrow> string \<Rightarrow> string \<Rightarrow> load_target list" where
  "load_targets U S email password =
     (let page = ''?page=1&size='' @ itoa (ep_page_size S);
          listing = (\<lambda>name path note. \<lparr>lt_name = name, lt_path = path, lt_method = ''GET'', lt_body = None,
            lt_auth = True, lt_note = note\<rparr>) in
      [listing ''admin-users'' (''/api/admin/users'' @ page)
         ''the heaviest list: four grouped counts per page on top of the page query'',
       listing ''dashboard-summary'' ''/api/dashboard/summary'' [],
       listing ''matches'' (''/api/matches'' @ page) [],
       listing ''event-runs'' (''/api/event-runs'' @ page) [],
       listing ''mail-accounts'' (''/api/mail-accounts'' @ page) [],
       listing ''auth-middleware'' ''/api/users/_current'' ''the cheapest authenticated route: a floor under everything above'',
       \<lparr>lt_name = ''login'', lt_path = ''/api/users/_login'', lt_method = ''POST'',
        lt_body = Some (credentials_json U email password), lt_auth = False,
        lt_note = ''bcrypt is deliberately expensive; fixtures use MinCost so this is a floor, not production cost''\<rparr>])"

definition load_call :: "load_env \<Rightarrow> endpoint_suite \<Rightarrow> load_target \<Rightarrow> string \<Rightarrow> (int \<times> err option) io" where
  "load_call E S t token =
     (let url = ep_base_url S @ lt_path t in
      case lv_new_request E (lt_method t) url of
        Some e \<Rightarrow> ret (0, Some (PlainErr e))
      | None \<Rightarrow> State_Monad.bind (lv_do E \<lparr>lq_method = lt_method t, lq_url = url,
          lq_headers = (if lt_body t \<noteq> None then [(''Content-Type'', ''application/json'')] else [])
            @ (if lt_auth t then [(''Authorization'', token)] else []),
          lq_body = lt_body t\<rparr>) (\<lambda>answer. ret (case answer of
            Inl e \<Rightarrow> (0, Some (PlainErr e))
          | Inr (status, _) \<Rightarrow>
              if status \<ge> 400 then (status, Some (PlainErr (lt_name t @ '' answered '' @ itoa status)))
              else (status, None))))"

definition load_login :: "load_env \<Rightarrow> endpoint_suite \<Rightarrow> string \<Rightarrow> string \<Rightarrow> string ioE" where
  "load_login E S email password =
     (let url = ep_base_url S @ ''/api/users/_login'' in
      case lv_new_request E ''POST'' url of
        Some e \<Rightarrow> failE (PlainErr e)
      | None \<Rightarrow> State_Monad.bind (lv_do E \<lparr>lq_method = ''POST'', lq_url = url,
          lq_headers = [(''Content-Type'', ''application/json'')],
          lq_body = Some (credentials_json (suite_unicode E) email password)\<rparr>) (\<lambda>answer. case answer of
            Inl e \<Rightarrow> failE (PlainErr (''is the stack running at '' @ ep_base_url S @ ''? '' @ e))
          | Inr (status, payload) \<Rightarrow>
              if status \<noteq> 200 then failE (PlainErr (''login answered '' @ itoa status @ '': ''
                @ trim_space (suite_unicode E) payload))
              else (case lv_token E payload of
                  Inl e \<Rightarrow> failE (PlainErr e)
                | Inr token \<Rightarrow> if token = [] then failE (PlainErr (''login returned no token: '' @ payload))
                               else returnE token)))"

definition promote :: "string \<Rightarrow> unit ioE" where
  "promote user =
     bindE (wrapped ''no superadmin role is seeded, run make seed'' (Role_FindBySlug RoleSuperadmin)) (\<lambda>role.
     bindE (stmt (link_if_new \<lparr>ur_user_id = user, ur_role_id = r_id role\<rparr>)) (\<lambda>_. returnE ()))"

definition rateLimited :: "(string \<times> extra_value) list \<Rightarrow> int option" where
  "rateLimited extra = (case map_of extra ''non_2xx'' of
      Some (XCounts cs) \<Rightarrow> (case map_of cs 429 of Some n \<Rightarrow> if n > 0 then Some n else None | None \<Rightarrow> None)
    | _ \<Rightarrow> None)"

fun worst_metric :: "metric option \<Rightarrow> metric list \<Rightarrow> metric option" where
  "worst_metric w [] = w"
| "worst_metric w (m # ms) =
     worst_metric (case w of None \<Rightarrow> Some m
       | Some x \<Rightarrow> if st_p95 (mt_stats m) > st_p95 (mt_stats x) then Some m else Some x) ms"

definition error_finding :: "metric \<Rightarrow> string list" where
  "error_finding m =
     (if st_errors (mt_stats m) = 0 then []
      else case rateLimited (mt_extra m) of
        Some throttled \<Rightarrow> [mt_name m @ '' was rate-limited on '' @ itoa throttled @ '' of ''
          @ itoa (st_count (mt_stats m)) @ '' requests: these timings are the limiter, not the endpoint. Load it alone with -endpoint=''
          @ mt_name m @ '' -concurrency=1'']
      | None \<Rightarrow> [mt_name m @ '' returned '' @ itoa (st_errors (mt_stats m)) @ '' errors out of ''
          @ itoa (st_count (mt_stats m)) @ '' requests''])"

definition endpoints_conclude :: "load_env \<Rightarrow> endpoint_suite \<Rightarrow> result \<Rightarrow> result" where
  "endpoints_conclude E S r = (case worst_metric None (rp_metrics r) of
      None \<Rightarrow> r
    | Some worst \<Rightarrow> foldl (\<lambda>r f. Findf f r)
        (Findf (''slowest at p95: '' @ mt_name worst @ '' ('' @ lv_rounded_text E (st_p95 (mt_stats worst))
          @ '') at concurrency '' @ itoa (ep_concurrency S)) r)
        (concat (map error_finding (rp_metrics r))))"

definition load_one :: "load_env \<Rightarrow> endpoint_suite \<Rightarrow> string \<Rightarrow> load_target \<Rightarrow> result \<Rightarrow> result io" where
  "load_one E S token t r =
     State_Monad.bind (lv_drive E \<lparr>pn_concurrency = ep_concurrency S, pn_duration = ep_duration S, pn_iterations = 0\<rparr>
       (\<lambda>_. load_call E S t token)) (\<lambda>(stats, outcomes).
     let statuses = foldl (\<lambda>cs out. record_status (fst out) cs) [] outcomes in
     ret (Result_Add (lt_name t) stats
       ((case bad statuses of None \<Rightarrow> [] | Some cs \<Rightarrow> [(''non_2xx'', XCounts cs)])
        @ (if lt_note t \<noteq> [] then [(''note'', XText (lt_note t))] else [])) r))"

fun load_all :: "load_env \<Rightarrow> endpoint_suite \<Rightarrow> string \<Rightarrow> load_target list \<Rightarrow> result \<Rightarrow> result io" where
  "load_all E S token [] r = ret r"
| "load_all E S token (t # ts) r =
     (if ep_only S \<noteq> [] \<and> ep_only S \<noteq> lt_name t then load_all E S token ts r
      else State_Monad.bind (load_one E S token t r) (load_all E S token ts))"

definition load_admin :: string where
  "load_admin = ''user-'' @ padded 6 0 @ ''@'' @ EmailDomain"

text \<open>What runs between the fixtures and their cleanup; without a user the index of the first panics.\<close>

definition endpoints_body :: "load_env \<Rightarrow> endpoint_suite \<Rightarrow> built \<Rightarrow> result ioE" where
  "endpoints_body E S b = (case bu_user_ids b of
      [] \<Rightarrow> failE (Panic ''index out of range [0] with length 0'')
    | user # _ \<Rightarrow>
        bindE (wrapped ''promoting the fixture admin'' (promote user)) (\<lambda>_.
        bindE (wrapped ''logging the fixture admin in'' (load_login E S load_admin (bu_password b))) (\<lambda>token.
        State_Monad.bind (load_all E S token (load_targets (suite_unicode E) S load_admin (bu_password b))
          (new_result ''endpoints'' [(''base_url'', XText (ep_base_url S)), (''concurrency'', XInt (ep_concurrency S)),
            (''duration'', XText (lv_duration_text E (ep_duration S))), (''page_size'', XInt (ep_page_size S)),
            (''users'', XInt (ep_users S)), (''accounts_per_user'', XInt (ep_accounts S))]))
          (\<lambda>r. returnE (endpoints_conclude E S r)))))"

definition endpoints_Run :: "endpoint_suite \<Rightarrow> load_env \<Rightarrow> result ioE" where
  "endpoints_Run S E = (case suite_cipher E of
      Inl e \<Rightarrow> failE e
    | Inr cipher \<Rightarrow>
        bindE (built_for E \<lparr>sh_users = ep_users S, sh_accounts_per_user = ep_accounts S, sh_watchers_per_account = 2,
          sh_filters_per_watcher = 3, sh_events_per_watcher = 1, sh_provider = ''imap'',
          sh_poll_interval_seconds = 0, sh_due_now = False\<rparr> cipher) (\<lambda>b.
        deferred (ep_keep S) (endpoints_body E S b)))"

subsection \<open>parser.go\<close>

record parser_suite =
  ps_corpus :: string
  ps_iterations :: int
  ps_concurrency :: int
  ps_only :: string

record sample =
  sp_name :: string
  sp_raw :: string

text \<open>An entry of a directory, with what reading it gives\<close>

record dir_entry =
  de_name :: string
  de_is_dir :: bool
  de_content :: "err + string"

record corpora =
  cp_builtin :: "dir_entry list"
  cp_directory :: "string \<Rightarrow> err + dir_entry list"

fun read_entries :: "dir_entry list \<Rightarrow> err + sample list" where
  "read_entries [] = Inr []"
| "read_entries (e # es) = (case de_content e of
      Inl x \<Rightarrow> Inl x
    | Inr raw \<Rightarrow> (case read_entries es of Inl x \<Rightarrow> Inl x
        | Inr ss \<Rightarrow> Inr (\<lparr>sp_name = de_name e, sp_raw = raw\<rparr> # ss)))"

definition parser_load :: "corpora \<Rightarrow> parser_suite \<Rightarrow> (err + sample list) \<times> string" where
  "parser_load C S =
     (if ps_corpus S \<noteq> [] then
        ((case cp_directory C (ps_corpus S) of
            Inl e \<Rightarrow> Inl e
          | Inr es \<Rightarrow> read_entries (filter (\<lambda>e. \<not> de_is_dir e \<and> suffix ''.eml'' (de_name e)) es)), ps_corpus S)
      else ((case read_entries (cp_builtin C) of Inl e \<Rightarrow> Inl e | Inr ss \<Rightarrow> Inr (sort_key sp_name ss)), ''builtin''))"

definition megabytesPerSecond :: "load_env \<Rightarrow> int \<Rightarrow> stats \<Rightarrow> string" where
  "megabytesPerSecond E bytes st = (if st_elapsed st \<le> 0 then ''0''
     else lv_ratio_text E 1 (of_int bytes * of_int (st_count st) / (of_int (st_elapsed st) / 1000000000) / 1048576))"

definition cheapest_of :: "metric \<Rightarrow> metric list \<Rightarrow> metric" where
  "cheapest_of m ms = foldl (\<lambda>c x. if st_p50 (mt_stats x) < st_p50 (mt_stats c) then x else c) m ms"

definition dearest_of :: "metric \<Rightarrow> metric list \<Rightarrow> metric" where
  "dearest_of m ms = foldl (\<lambda>c x. if st_p50 (mt_stats x) > st_p50 (mt_stats c) then x else c) m ms"

definition parser_conclude :: "load_env \<Rightarrow> result \<Rightarrow> result" where
  "parser_conclude E r = (case rp_metrics r of
      m # m' # ms \<Rightarrow>
        let cheap = cheapest_of m (rp_metrics r); dear = dearest_of m (rp_metrics r);
            r1 = Findf (''cheapest shape: '' @ mt_name cheap @ '' at '' @ lv_duration_text E (st_p50 (mt_stats cheap)) @ '' per parse'') r;
            r2 = Findf (''dearest shape: '' @ mt_name dear @ '' at '' @ lv_duration_text E (st_p50 (mt_stats dear)) @ '' per parse'') r1 in
        if st_p50 (mt_stats cheap) > 0 then
          let x = lv_ratio_text E 0 (of_int (st_p50 (mt_stats dear)) / of_int (st_p50 (mt_stats cheap))) in
          Findf (x @ ''x spread between them: sync cost is per message, so a mailbox full of the dear shape polls ''
            @ x @ ''x slower'') r2
        else r2
    | _ \<Rightarrow> r)"

text \<open>\<open>timing\<close> is what driving the parser over one message gives.\<close>

definition parse_one :: "load_env \<Rightarrow> (plan \<Rightarrow> string \<Rightarrow> stats) \<Rightarrow> parser_suite \<Rightarrow> result \<Rightarrow> sample \<Rightarrow> result" where
  "parse_one E timing S r m =
     (if ps_only S \<noteq> [] \<and> ps_only S \<noteq> sp_name m then r
      else let (parsed, failure) = ParseMessage (pf_imap (lv_platform E)) (sp_raw m);
               st = timing \<lparr>pn_concurrency = ps_concurrency S, pn_duration = 0, pn_iterations = ps_iterations S\<rparr> (sp_raw m);
               size = int (length (sp_raw m)) in
        Result_Add (sp_name m) st
          ([(''bytes'', XInt size), (''mb_per_sec'', XText (megabytesPerSecond E size st)),
            (''body_bytes'', XInt (int (length (mg_body_text parsed)))),
            (''attachments'', XInt (int (length (mg_attachment_names parsed))))]
           @ (case failure of None \<Rightarrow> [] | Some e \<Rightarrow> [(''parse_error'', XText e)])) r)"

definition parser_Run :: "corpora \<Rightarrow> (plan \<Rightarrow> string \<Rightarrow> stats) \<Rightarrow> parser_suite \<Rightarrow> load_env \<Rightarrow> err + result" where
  "parser_Run C timing S E =
     (let (loaded, source) = parser_load C S in
      case loaded of
        Inl e \<Rightarrow> Inl e
      | Inr corpus \<Rightarrow>
          if corpus = [] then Inl (PlainErr (''no .eml files found in '' @ source))
          else Inr (parser_conclude E (foldl (parse_one E timing S)
            (new_result ''parser'' [(''corpus'', XText source), (''messages'', XInt (int (length corpus))),
              (''iterations'', XInt (ps_iterations S)), (''concurrency'', XInt (ps_concurrency S))]) corpus)))"

subsection \<open>worker.go\<close>

record worker_suite =
  wk_accounts :: int
  wk_watchers :: int
  wk_batch :: int
  wk_interval :: int
  wk_cycles :: int
  wk_workers :: int
  wk_timeout :: int
  wk_stub :: stub_config
  wk_keep :: bool

text \<open>What the run of the pollers brings with it: the stub's library, what its sleeps give, the time
  it stamps, where in its stream it is when a call comes and its state at the end, and the orders of
  the pools and the rows locked by the other pollers.\<close>

record worker_run =
  wr_library :: stub_library
  wr_sleeps :: "int \<Rightarrow> err option"
  wr_now :: int
  wr_stub_at :: "load_stub \<Rightarrow> mail_target \<Rightarrow> load_stub"
  wr_stub_end :: "load_stub \<Rightarrow> load_stub"
  wr_pool :: "nat \<Rightarrow> mail_account list \<Rightarrow> mail_account list"
  wr_locked :: "nat \<Rightarrow> string \<Rightarrow> bool"

definition or_setting :: "int \<Rightarrow> int \<Rightarrow> int" where
  "or_setting v fallback = (if v \<le> 0 then fallback else v)"

text \<open>The pipeline of the wired program, with the stub in place of the IMAP client\<close>

definition stubbed_pipeline :: "load_env \<Rightarrow> container \<Rightarrow> mail_client \<Rightarrow> pipeline" where
  "stubbed_pipeline E co stub =
     (let P = mu_pipeline (ap_accounts (co_app co)); R = pl_resolver P in
      P\<lparr>pl_resolver := R\<lparr>rs_clients := Mail_Register [stub] (rs_clients R)\<rparr>\<rparr>)"

definition queue_depth :: "int ioE" where
  "queue_depth = State_Monad.bind now_milli (\<lambda>now.
     query (\<lambda>d. Inr (int (length (filter (\<lambda>a. load_email (ma_email_address a) \<and> ma_next_poll_at a \<le> now
       \<and> ma_status a = MailAccountStatusVerified) (accounts_of d))))))"

definition whole :: "rat \<Rightarrow> int" where
  "whole x = (if x \<ge> 0 then \<lfloor>x\<rfloor> else \<lceil>x\<rceil>)"

definition capacity_findings :: "load_env \<Rightarrow> stats \<Rightarrow> int \<Rightarrow> int \<Rightarrow> int \<Rightarrow> string list" where
  "capacity_findings E st accounts batch interval =
     (if st_p50 st > 0 then
        let cycles = of_int interval / of_int (st_p50 st) :: rat; capacity = whole (cycles * of_int batch) in
        [''sustains roughly '' @ itoa capacity @ '' accounts at a '' @ lv_duration_text E interval @ '' interval (batch ''
          @ itoa batch @ '', '' @ lv_ratio_text E 1 cycles @ '' cycles per interval)'']
        @ (if accounts > capacity then [''the '' @ itoa accounts @ '' accounts under test are already past that ceiling''] else [])
      else [])"

definition worker_conclude :: "load_env \<Rightarrow> stats \<Rightarrow> int \<Rightarrow> int \<Rightarrow> int \<Rightarrow> int \<Rightarrow> int \<Rightarrow> result \<Rightarrow> result" where
  "worker_conclude E st accounts batch interval depth polled r =
     (if st_count st = 0 then Findf ''no cycles ran'' r
      else foldl (\<lambda>r f. Findf f r) r
       ([''cycle p50 '' @ lv_rounded_text E (st_p50 st) @ '', p99 '' @ lv_rounded_text E (st_p99 st) @ '', against a ''
          @ lv_duration_text E interval @ '' interval'']
        @ (if st_p99 st > interval
           then [''OVER BUDGET: the p99 cycle exceeds the interval, so ticks are being dropped and the worker is falling behind'']
           else [])
        @ capacity_findings E st accounts batch interval
        @ [''polled '' @ itoa polled @ '' accounts across '' @ itoa (st_count st) @ '' cycles; '' @ itoa depth
          @ '' still due at the end'']
        @ (if depth > 0 \<and> polled > 0
           then [''queue depth is non-zero after the run: raise -cycles to see whether it drains or climbs'']
           else [])))"

text \<open>One poll of the drive, with the number of accounts it claimed; an error counts none.\<close>

definition poll_once :: "worker_run \<Rightarrow> pipeline \<Rightarrow> int \<Rightarrow> nat \<Rightarrow> (int \<times> err option) io" where
  "poll_once W P batch k = State_Monad.bind (PollDue P (wr_pool W k) (wr_locked W k) batch) (\<lambda>r. ret (case r of
     Inl e \<Rightarrow> (0, Some e) | Inr n \<Rightarrow> (n, None)))"

definition worker_body :: "worker_run \<Rightarrow> worker_suite \<Rightarrow> load_env \<Rightarrow> built \<Rightarrow> result ioE" where
  "worker_body W S E b =
     (let c = lv_settings E;
          batch = or_setting (wk_batch S) (get_int c ''worker.poll_batch'');
          interval = or_setting (wk_interval S) (seconds c ''worker.poll_interval'');
          timeout = or_setting (wk_timeout S) (seconds c ''mail.imap_timeout'');
          stub = NewLoadStub ((wk_stub S)\<lparr>lc_timeout := timeout\<rparr>) (lv_seed E) in
      case Bootstrap c (lv_platform E) of
        Inl e \<Rightarrow> failE e
      | Inr co \<Rightarrow>
          let P = stubbed_pipeline E co (LoadStubProvider (wr_library W) (wr_sleeps W) (wr_now W) (wr_stub_at W stub)) in
          State_Monad.bind (lv_drive E \<lparr>pn_concurrency = wk_workers S, pn_duration = 0, pn_iterations = wk_cycles S\<rparr>
            (poll_once W P batch)) (\<lambda>(st, outcomes).
          let polled = sum_list (map fst outcomes) in
          bindE queue_depth (\<lambda>depth.
          let (syncs, timeouts, failures) = Counts (wr_stub_end W stub) in
          returnE (worker_conclude E st (built_Accounts b) batch interval depth polled
            (Result_Add ''poll-cycle'' st [(''accounts_polled'', XInt polled), (''queue_depth_end'', XInt depth),
              (''stub_syncs'', XInt syncs), (''stub_timeouts'', XInt timeouts), (''stub_failures'', XInt failures)]
              (new_result ''worker'' [(''accounts'', XInt (wk_accounts S)), (''batch'', XInt batch),
                (''interval'', XText (lv_duration_text E interval)), (''cycles'', XInt (wk_cycles S)),
                (''workers'', XInt (wk_workers S)), (''p50'', XText (lv_duration_text E (lc_p50 (wk_stub S)))),
                (''p99'', XText (lv_duration_text E (lc_p99 (wk_stub S)))), (''timeout'', XText (lv_duration_text E timeout)),
                (''messages'', XInt (lc_messages_per_sync (wk_stub S)))]))))))"

definition worker_Run :: "worker_run \<Rightarrow> worker_suite \<Rightarrow> load_env \<Rightarrow> result ioE" where
  "worker_Run W S E = (case suite_cipher E of
      Inl e \<Rightarrow> failE e
    | Inr cipher \<Rightarrow>
        bindE (built_for E \<lparr>sh_users = wk_accounts S, sh_accounts_per_user = 1, sh_watchers_per_account = wk_watchers S,
          sh_filters_per_watcher = 2, sh_events_per_watcher = 1, sh_provider = ''imap'',
          sh_poll_interval_seconds = 0, sh_due_now = True\<rparr> cipher) (\<lambda>b.
        deferred (wk_keep S) (worker_body W S E b)))"

subsection \<open>main.go\<close>

text \<open>The result of parsing the flags of a suite: the code the process exits with, or the run\<close>

type_synonym suite_run = "string list \<Rightarrow> load_env \<Rightarrow> int + result ioE"

definition load_suites :: "(string list \<Rightarrow> int + endpoint_suite) \<Rightarrow> (string list \<Rightarrow> int + parser_suite)
    \<Rightarrow> (string list \<Rightarrow> int + worker_suite) \<Rightarrow> corpora \<Rightarrow> (plan \<Rightarrow> string \<Rightarrow> stats) \<Rightarrow> worker_run
    \<Rightarrow> (string \<rightharpoonup> suite_run suite)" where
  "load_suites endpoints parser worker C timing W = Suites_Register
     [\<lparr>su_name = ''endpoints'', su_synopsis = ''HTTP endpoint latency under concurrency, against a running stack'',
       su_needs_db = True,
       su_run = (\<lambda>args E. case endpoints args of Inl code \<Rightarrow> Inl code | Inr S \<Rightarrow> Inr (endpoints_Run S E))\<rparr>,
      \<lparr>su_name = ''parser'', su_synopsis = ''MIME parse throughput per message shape, and which shapes are pathological'',
       su_needs_db = False,
       su_run = (\<lambda>args E. case parser args of Inl code \<Rightarrow> Inl code | Inr S \<Rightarrow> Inr (liftE (parser_Run C timing S E)))\<rparr>,
      \<lparr>su_name = ''worker'', su_synopsis = ''poller capacity: cycle time against the interval, and whether the queue drains'',
       su_needs_db = True,
       su_run = (\<lambda>args E. case worker args of Inl code \<Rightarrow> Inl code | Inr S \<Rightarrow> Inr (worker_Run W S E))\<rparr>]
     Map.empty"

definition load_clean :: "unicode \<Rightarrow> string \<Rightarrow> settings \<Rightarrow> int io" where
  "load_clean U override c = (case DevDatabase U override c of
      Inl e \<Rightarrow> ret 1
    | Inr _ \<Rightarrow> State_Monad.bind Fixtures_Count (\<lambda>counted. case counted of
        Inl e \<Rightarrow> ret 1
      | Inr (users, accounts) \<Rightarrow>
          if users = 0 \<and> accounts = 0 then ret 0
          else State_Monad.bind Cleanup (\<lambda>r. ret (case r of Inl e \<Rightarrow> 1 | Inr _ \<Rightarrow> 0))))"

text \<open>The arguments after the name of the program; the code the process exits with\<close>

definition load_main :: "string list \<Rightarrow> (string \<rightharpoonup> suite_run suite) \<Rightarrow> string \<Rightarrow> load_env \<Rightarrow> string list \<Rightarrow> int io" where
  "load_main order reg override E args = (case args of
      [] \<Rightarrow> ret 0
    | name # rest \<Rightarrow>
        if name \<in> {''-h'', ''--help'', ''help''} then ret 0
        else if name = ''clean'' then load_clean (suite_unicode E) override (lv_settings E)
        else case Suites_Get (suite_unicode E) order reg name of
          Inl e \<Rightarrow> ret 2
        | Inr s \<Rightarrow> (case su_run s rest E of
            Inl code \<Rightarrow> ret code
          | Inr run \<Rightarrow>
              if su_needs_db s \<and> isl (DevDatabase (suite_unicode E) override (lv_settings E)) then ret 1
              else State_Monad.bind run (\<lambda>r. ret (case r of Inl e \<Rightarrow> 1 | Inr result \<Rightarrow> 0))))"

subsection \<open>The guard and the cleanup hold\<close>

lemma load_suites_safe:
  assumes "load_suites endpoints parser worker C timing W name = Some s" "\<not> su_needs_db s" "su_run s rest E = Inr run"
    and "run_state run w = (r, w1)"
  shows "w1 = w"
proof -
  have "s \<in> set [\<lparr>su_name = ''endpoints'', su_synopsis = ''HTTP endpoint latency under concurrency, against a running stack'',
       su_needs_db = True,
       su_run = (\<lambda>args E. case endpoints args of Inl code \<Rightarrow> Inl code | Inr S \<Rightarrow> Inr (endpoints_Run S E))\<rparr>,
      \<lparr>su_name = ''parser'', su_synopsis = ''MIME parse throughput per message shape, and which shapes are pathological'',
       su_needs_db = False,
       su_run = (\<lambda>args E. case parser args of Inl code \<Rightarrow> Inl code | Inr S \<Rightarrow> Inr (liftE (parser_Run C timing S E)))\<rparr>,
      \<lparr>su_name = ''worker'', su_synopsis = ''poller capacity: cycle time against the interval, and whether the queue drains'',
       su_needs_db = True,
       su_run = (\<lambda>args E. case worker args of Inl code \<Rightarrow> Inl code | Inr S \<Rightarrow> Inr (worker_Run W S E))\<rparr>]"
    using assms(1) unfolding load_suites_def by (rule suite_reg.registered_mem)
  then show ?thesis using assms(2-4) by (auto split: sum.splits)
qed

text \<open>A load run never touches a database the guard refuses.  When neither the override names
  the configured database nor, without an override, its name is one of the four known ones, the
  command leaves the world as it is, whatever its arguments; a suite that needs the database, and the
  clean command, exit with code 1.\<close>

lemma guarded_load_runs:
  assumes "override \<noteq> [] \<and> override \<noteq> get_string (lv_settings E) ''database.name''
      \<or> override = [] \<and> get_string (lv_settings E) ''database.name'' \<notin> set known"
    and "run_state (load_main order (load_suites endpoints parser worker C timing W) override E args) w = (code, w')"
  shows "w' = w \<and> (args = [''clean''] \<longrightarrow> code = 1)
    \<and> (\<forall>rest S. args = ''worker'' # rest \<and> worker rest = Inr S \<longrightarrow> code = 1)
    \<and> (\<forall>rest S. args = ''endpoints'' # rest \<and> endpoints rest = Inr S \<longrightarrow> code = 1)"
proof -
  obtain e where e: "DevDatabase (suite_unicode E) override (lv_settings E) = Inl e"
    using assms(1) by (auto simp: DevDatabase_def Let_def)
  have "w' = w"
    using assms(2)
    by (auto simp: load_main_def load_clean_def e Suites_Get_def dest: load_suites_safe
        split: list.splits if_splits option.splits sum.splits prod.splits)
  moreover have "args = [''clean''] \<Longrightarrow> code = 1"
    using assms(2) by (simp add: load_main_def load_clean_def e)
  moreover have "args = ''worker'' # rest \<Longrightarrow> worker rest = Inr S \<Longrightarrow> code = 1" for rest S
    using assms(2) by (simp add: load_main_def e Suites_Get_def load_suites_def Suites_Register_def)
  moreover have "args = ''endpoints'' # rest \<Longrightarrow> endpoints rest = Inr S \<Longrightarrow> code = 1" for rest S
    using assms(2) by (simp add: load_main_def e Suites_Get_def load_suites_def Suites_Register_def)
  ultimately show ?thesis by blast
qed

text \<open>The default name of the database is a known one, on any host.\<close>

lemma default_database_passes:
  "DevDatabase U [] (default_settings\<lparr>get_string := (get_string default_settings)(''database.host'' := host)\<rparr>) = Inr ()"
  by (simp add: DevDatabase_def default_settings_def setDefaults_def known_def Let_def)

text \<open>Once the fixtures are there, a suite that does not keep them cleans up whatever else happens;
  what other rows it and the stack under test left stays.\<close>

lemma deferred_cleans:
  assumes "run_state body w = (r, w1)" "db_up w1" "tenants_apart (wdb w1)"
  shows "\<exists>w'. run_state (deferred False body) w = (r, w') \<and> wdb w' = without_load (wdb w1)"
proof -
  obtain w' where "run_state Cleanup w1 = (Inr (), w')" "wdb w' = without_load (wdb w1)"
    using run_Cleanup [OF assms(2) cleanup_statements [OF assms(3)]] by blast
  then show ?thesis using assms(1) by (simp add: deferred_def)
qed

text \<open>The finding of the endpoints suite names a metric with the greatest p95.\<close>

lemma worst_metric_max:
  "worst_metric w ms = Some m \<Longrightarrow>
   (m \<in> set ms \<or> w = Some m) \<and> (\<forall>x \<in> set ms. st_p95 (mt_stats x) \<le> st_p95 (mt_stats m))
   \<and> (\<forall>x. w = Some x \<longrightarrow> st_p95 (mt_stats x) \<le> st_p95 (mt_stats m))"
  by (induction w ms rule: worst_metric.induct) (fastforce split: option.splits if_splits)+

end
