(* ===== verification/Spec2Isabelle.thy ===== *)
theory Spec2Isabelle
  imports Worker Seeders RunMachine SyncMatches LoadSuites
begin

text \<open>
  Mailpulse: a service that polls the mailboxes of its users, matches the mail against their
  watchers and runs the events of the watchers that match, among them notifications.

  \<^bold>\<open>The program.\<close>  A web process (cmd/web) serves an HTTP API; a worker process (cmd/worker) turns
  three loops.  The poller claims the mailboxes that are due and syncs each: it fetches the new
  messages, evaluates the filters of the watchers, records matches and schedules the first run
  of every enabled event.  The dispatcher claims the runs that are due and executes each with the
  handler of its type; a run that succeeds schedules the next occurrence of an event that
  repeats, one that fails is postponed until its attempts are used up.  The credential checker
  verifies stored mailboxes again.  The API manages accounts, sessions, mailboxes, watchers,
  events and notifiers, shows matches, runs and deliveries, lets a user retry, cancel and
  acknowledge runs, and gives administrators a view over all users.  The processes share nothing
  but the database and redis.

  \<^bold>\<open>How the model works.\<close>  A function of the program that can fail and touches the outside is a
  value of the state monad over \<open>world\<close> with result \<open>err + 'a\<close> (MP\_Prelude, Store).  The world
  holds the rows of the database by table, redis as a map with expiries, a clock, a stream of
  identifiers and of random bytes, and a schedule of faults: any statement and any redis command
  may fail, so that every \<open>if err != nil\<close> is a branch that can be reached.  A transaction that
  returns an error restores the rows.  Concurrency is made explicit where it matters: an
  operation that other processes can interleave with is split at that point into halves
  (\<open>session_auth\<close> and \<open>store_auth\<close>, \<open>claim_runs\<close> and \<open>execute\<close>), rows locked by others and the order
  in which a pool finishes are parameters; \<open>execute\<close> works on the struct it was handed, not on the
  row.  Otherwise operations run one after the other.

  \<^bold>\<open>Theories.\<close>  Foundations: MP\_Prelude (the monad, invariants, lists of rows), GoStd (errors,
  64-bit wrap-around, strings, quoting and JSON text, base64), Entities (internal/entity), Store,
  Tables (the tables with the keys, checks and cascades of db/migrations, and the generic
  repository), Repositories (internal/repository), Samples (a small installation for the
  witnesses).
  Gateways: Caches (internal/gateway/cache), Cipher (internal/gateway/secret), Resolver
  (internal/gateway/mail/provider.go, internal/gateway/oauth/oauth.go and
  internal/usecase/mail\_resolver.go), OAuthProviders (internal/gateway/oauth), Imap and MailStub
  (internal/gateway/mail), Handlers and Channels (internal/usecase/event,
  internal/gateway/notifier).
  Core: Matcher (matcher.go), Pipeline (pipeline\_usecase.go), SyncMatches (what a sync counts),
  Dispatcher (dispatcher\_usecase.go), RunMachine (the life cycle of a run as an abstract machine).
  Use cases: AuditTrail, Activity, WatcherEvents, Watchers, Notifiers, MailAccounts, Users, Admin,
  Catalog, over the request and response structs of Models and the functions of Converters
  (internal/model).
  Delivery: Controllers (internal/delivery/http), Routes (middleware, route.go and the error
  handler), App (internal/config), Worker (cmd/worker and the messaging packages).
  Beside the service: Seeders (internal/seeder); for load tests Fixtures (internal/loadtest/fixtures),
  LoadRunner (internal/loadtest/runner, report and the registry of suites), LoadStub
  (internal/gateway/mail/loadstub) and LoadSuites (the guard, the suites and cmd/loadtest).
  Each theory names the files it translates; a definition has the name of the function or a
  name close to it, and one Go function that is long is split into definitions that name its
  parts.

  \<^bold>\<open>What is shown.\<close>  Interfaces are locales, interpreted on the definitions of the program: the
  laws of a table that the generic repository relies on (Tables), of a kind of cache entry
  (Caches, for five kinds), and of a registry of plug-ins (MP\_Prelude, for event handlers,
  channels, mail and OAuth clients, and load suites).  About runs: every operation
  makes at most one step of the life-cycle machine on a run, one that this operation may make
  (RunMachine); an execution settles its row, adds at most the next occurrence, retries end,
  claims are exclusive (Dispatcher); cancel and acknowledge do what they say, and what they miss
  while a run executes (Activity).  About mail: a sync counts, reports and schedules new matches
  only, each once (SyncMatches); only first occurrences are scheduled, every sync run is closed (Pipeline);
  polling a growing folder hands every message over once (Imap); the filter loop equals its
  specification (Matcher).  About users: revocations, password changes and suspensions lock
  tokens out at once and what races them; impersonation is attributed (Users, Admin); a consent
  never repoints a mailbox (MailAccounts); only a superadmin passes the administration routes,
  and a refused request leaves nothing but the time its session was last used (Routes).  About data:
  decryption inverts encryption (Cipher), a renewed token is merged into the stored credentials (Resolver), one default notifier (Notifiers), deletions and replacements are exact
  (WatcherEvents, Watchers), seeding twice changes nothing (Seeders).  About load tests: building
  the fixtures and cleaning up leaves every table as it was (Fixtures), a drive works on every index
  once (LoadRunner), a database the guard refuses is not touched (LoadSuites).  Theorems about faults of
  the program state the fault: a poll time that is written back, an acknowledgement that is
  overwritten, a verification code that is handed to the caller, header lines that a title adds.

  \<^bold>\<open>Bounds and fuel.\<close>  Loops of the program are structural recursions over the list they range
  over.  The wait for another process' token refresh is bounded in the code, eight rounds, and is a
  recursion over that number (\<open>await_rounds\<close>); redis is pinged as often as configured
  (\<open>ping_rounds\<close>).  The ticking loops never end by themselves; the model is the work of any finite
  number of ticks (\<open>run_loop\<close>).  The workers of a load run are a step relation (\<open>drive_step\<close>)
  whose steps decrease a measure.  UIDs and the UID validity of IMAP are 32-bit words, durations wrap
  at 64 bits (\<open>wrap64\<close>), where the code computes with them; counters that the code only adds one to
  are integers.

  \<^bold>\<open>Parameters.\<close>  Third-party code is an argument of the definitions that use it: AES-GCM, SHA-256,
  HMAC and bcrypt, package regexp and the Unicode tables, JSON decoding, the IMAP connection and
  the MIME reader, SMTP, HTTP, x/oauth2, fiber's request parsing, path matching and CORS, the struct
  validator, Kafka's producer.  What a theorem needs of one is a hypothesis (\<open>path_only\<close>: fiber
  matches on method and path; \<open>serves\<close>: what an IMAP server answers to a fetch).

  \<^bold>\<open>Not modelled.\<close>  Goroutines, timers, timeouts and signals: the interleavings that matter are
  stated as sequences of steps.  The aborted state of a Postgres transaction after a failed
  statement, except where the code goes on after one (\<open>Record\<close> of the audit trail, the ignored save
  of a mailbox check and the touch of a session).  Check constraints that list the words of a
  status or type column.  The publishing of user events by the use cases, which has no effect on
  rows or answers.  Logging.  The start-up code of the commands, the construction of the Kafka,
  logging and validation clients, the OpenAPI text, and the printed table and the file of a load
  report.  Floating-point numbers of the load tests are rationals.  Push notifications of mail providers have types but no
  implementation in the repository.
\<close>

end
